(* ===== verification/Encoding.thy ===== *)
theory Encoding
  imports Prelude "HOL-Library.Word"
begin

section \<open>Strict base64url, UTF-8 and SHA-256 digest strings (src/encoding.ts)\<close>

text \<open>
  \<open>Uint8Array\<close>s are lists of 8-bit words.  \<open>btoa\<close> and \<open>atob\<close> are the platform's base64 pair
  (the WHATWG forgiving decoder: it drops the unused trailing bits), on which the source builds a
  strict decoder by comparing a re-encoding.  \<open>decodeStrictUtf8\<close> is a fatal \<open>TextDecoder\<close>, which
  strips one leading byte order mark; sequences of code points above 255 lie outside the strings of
  the model and are reported like malformed input.
\<close>

type_synonym bytes = "8 word list"

named_theorems codec_simps "evaluation of the codecs"

subsection \<open>The platform's btoa and atob\<close>

definition b64_char :: "nat \<Rightarrow> char" where
  "b64_char n = (if n < 26 then char_of (n + 65) else if n < 52 then char_of (n + 71)
     else if n < 62 then char_of (n - 4) else if n = 62 then CHR ''+'' else CHR ''/'')"

definition b64_value :: "char \<Rightarrow> nat option" where
  "b64_value c = (if is_upper_char c then Some (of_char c - 65)
     else if is_lower_char c then Some (of_char c - 71)
     else if is_digit_char c then Some (of_char c + 4)
     else if c = CHR ''+'' then Some 62 else if c = CHR ''/'' then Some 63 else None)"

text \<open>Three octets are four sextets; a final group of one or two octets gives two or three.\<close>

fun enc_sextets :: "nat list \<Rightarrow> nat list" where
  "enc_sextets [] = []"
| "enc_sextets [a] = [a div 4, (a mod 4) * 16]"
| "enc_sextets [a, b] = [a div 4, (a mod 4) * 16 + b div 16, (b mod 16) * 4]"
| "enc_sextets (a # b # c # xs) =
     (a div 4) # ((a mod 4) * 16 + b div 16) # ((b mod 16) * 4 + c div 64) # (c mod 64) #
       enc_sextets xs"

fun dec_octets :: "nat list \<Rightarrow> nat list" where
  "dec_octets [] = []"
| "dec_octets [a] = []"
| "dec_octets [a, b] = [a * 4 + b div 16]"
| "dec_octets [a, b, c] = [a * 4 + b div 16, (b mod 16) * 16 + c div 4]"
| "dec_octets (a # b # c # d # xs) =
     (a * 4 + b div 16) # ((b mod 16) * 16 + c div 4) # ((c mod 4) * 64 + d) # dec_octets xs"

definition btoa :: "string \<Rightarrow> string" where
  "btoa s = map b64_char (enc_sextets (map of_char s)) @
     replicate ((3 - length s mod 3) mod 3) CHR ''=''"

definition is_ascii_ws :: "char \<Rightarrow> bool" where
  "is_ascii_ws c \<longleftrightarrow> (of_char c :: nat) \<in> {9, 10, 12, 13, 32}"

definition drop_padding :: "string \<Rightarrow> string" where
  "drop_padding s = (if length s mod 4 = 0
     then (if endsWith s ''=='' then take (length s - 2) s
           else if endsWith s ''='' then take (length s - 1) s else s)
     else s)"

definition atob :: "string \<Rightarrow> string option" where
  "atob s = (let d = drop_padding (filter (\<lambda>c. \<not> is_ascii_ws c) s)
     in if length d mod 4 = 1 then None
        else map_option (\<lambda>vs. map char_of (dec_octets vs)) (those (map b64_value d)))"

subsection \<open>The codec of the source\<close>

definition byte_to_char :: "8 word \<Rightarrow> char" where
  "byte_to_char b = char_of (unat b)"

definition char_to_byte :: "char \<Rightarrow> 8 word" where
  "char_to_byte c = word_of_nat (of_char c)"

definition strip_trailing :: "char \<Rightarrow> string \<Rightarrow> string" where
  "strip_trailing c s = rev (dropWhile (\<lambda>x. x = c) (rev s))"

definition encodeStrictBase64Url :: "bytes \<Rightarrow> string" where
  "encodeStrictBase64Url bs =
     (let binary = map byte_to_char bs
      in strip_trailing CHR ''='' (replaceAll CHR ''/'' CHR ''_''
           (replaceAll CHR ''+'' CHR ''-'' (btoa binary))))"

text \<open>\<open>BASE64URL_RE\<close>: one or more code units of the URL-safe alphabet.\<close>

definition is_b64url_char :: "char \<Rightarrow> bool" where
  "is_b64url_char c \<longleftrightarrow>
     is_upper_char c \<or> is_lower_char c \<or> is_digit_char c \<or> c = CHR ''_'' \<or> c = CHR ''-''"

definition decodeStrictBase64Url :: "string \<Rightarrow> string \<Rightarrow> bytes res" where
  "decodeStrictBase64Url s label =
     (if s = [] then Inl (EncodingError (''Empty '' @ label))
      else if CHR ''='' \<in> set s then Inl (EncodingError (label @ '' must not include padding''))
      else if \<not> list_all is_b64url_char s
        then Inl (EncodingError (''Invalid '' @ label @ '' alphabet''))
      else let padLen = (4 - length s mod 4) mod 4;
               padded = replaceAll CHR ''_'' CHR ''/'' (replaceAll CHR ''-'' CHR ''+'' s) @
                          replicate padLen CHR ''=''
           in case atob padded of
                None \<Rightarrow> Inl (EncodingError (''Malformed '' @ label))
              | Some binary \<Rightarrow>
                  (let bs = map char_to_byte binary
                   in if encodeStrictBase64Url bs \<noteq> s
                      then Inl (EncodingError (''Non-canonical '' @ label)) else Inr bs))"

definition assertSha256Digest :: "string \<Rightarrow> string res" where
  "assertSha256Digest digest =
     (if \<not> startsWith digest ''sha256:'' then Inl (EncodingError ''Digest must use sha256: prefix'')
      else bindE (decodeStrictBase64Url (drop 7 digest) ''sha256 digest'') (\<lambda>bs.
        if length bs \<noteq> 32 then Inl (EncodingError ''SHA-256 digest must decode to 32 bytes'')
        else Inr digest))"

subsection \<open>UTF-8\<close>

fun utf8_encode_char :: "nat \<Rightarrow> bytes" where
  "utf8_encode_char n = (if n < 128 then [word_of_nat n]
     else [word_of_nat (192 + n div 64), word_of_nat (128 + n mod 64)])"

definition utf8_encode :: "string \<Rightarrow> bytes" where
  "utf8_encode s = concat (map (\<lambda>c. utf8_encode_char (of_char c)) s)"

fun utf8_decode_body :: "bytes \<Rightarrow> string option" where
  "utf8_decode_body [] = Some []"
| "utf8_decode_body (b # bs) =
     (if unat b < 128 then map_option (Cons (char_of (unat b))) (utf8_decode_body bs)
      else (case bs of [] \<Rightarrow> None
        | b2 # bs' \<Rightarrow>
            if (unat b = 194 \<or> unat b = 195) \<and> 128 \<le> unat b2 \<and> unat b2 < 192
            then map_option (Cons (char_of ((unat b - 192) * 64 + (unat b2 - 128))))
                   (utf8_decode_body bs')
            else None))"

definition utf8_bom :: bytes where
  "utf8_bom = [239, 187, 191]"

definition utf8_decode :: "bytes \<Rightarrow> string option" where
  "utf8_decode bs = utf8_decode_body (if take 3 bs = utf8_bom then drop 3 bs else bs)"

definition decodeStrictUtf8 :: "bytes \<Rightarrow> string \<Rightarrow> string res" where
  "decodeStrictUtf8 bs label = (case utf8_decode bs of
     None \<Rightarrow> Inl (EncodingError (''Malformed '' @ label)) | Some t \<Rightarrow> Inr t)"

subsection \<open>Sextets and octets\<close>

lemma of_char_lt [simp]: "(of_char c :: nat) < 256"
  using of_char_mod_256 [of c, where 'a = nat] mod_less_divisor by (metis zero_less_numeral)

lemma of_char_char_of [simp]: "n < 256 \<Longrightarrow> of_char (char_of n :: char) = (n :: nat)"
  by simp

lemma length_enc_sextets: "length (enc_sextets xs) = (4 * length xs + 2) div 3"
  by (induction xs rule: enc_sextets.induct) auto

lemma enc_sextets_lt: "\<forall>x \<in> set xs. x < 256 \<Longrightarrow> \<forall>v \<in> set (enc_sextets xs). v < 64"
  by (induction xs rule: enc_sextets.induct) auto

lemma dec_enc_sextets [simp]:
  "\<forall>x \<in> set xs. x < 256 \<Longrightarrow> dec_octets (enc_sextets xs) = xs"
proof (induction xs rule: enc_sextets.induct)
  case (4 a b c xs)
  have ds: "dec_octets (p # q # r # s # enc_sextets xs) =
      (p * 4 + q div 16) # ((q mod 16) * 16 + r div 4) # ((r mod 4) * 64 + s) #
       dec_octets (enc_sextets xs)"
    for p q r s by (cases "enc_sextets xs") simp_all
  from 4 show ?case by (auto simp: ds)
qed auto

lemma b64_value_char [simp]: "n < 64 \<Longrightarrow> b64_value (b64_char n) = Some n"
  by (auto simp: b64_value_def b64_char_def is_upper_char_def is_lower_char_def is_digit_char_def)

subsection \<open>btoa followed by atob\<close>

lemma enc_sextets_mod4: "length (enc_sextets xs) mod 4 \<noteq> 1"
  by (induction xs rule: enc_sextets.induct) auto

lemma b64_char_not_ws: "n < 64 \<Longrightarrow> \<not> is_ascii_ws (b64_char n)"
  by (auto simp: is_ascii_ws_def b64_char_def)

lemma b64_value_eq_sign: "b64_value CHR ''='' = None"
  by (simp add: b64_value_def is_upper_char_def is_lower_char_def is_digit_char_def)

lemma b64_char_not_eq: "n < 64 \<Longrightarrow> b64_char n \<noteq> CHR ''=''"
  using b64_value_char [of n] b64_value_eq_sign by fastforce

lemma those_map_b64:
  "\<forall>v \<in> set vs. v < 64 \<Longrightarrow> those (map (b64_value \<circ> b64_char) vs) = Some vs"
  by (induction vs) auto

lemma strip_trailing_replicate:
  assumes "s = [] \<or> last s \<noteq> c"
  shows "strip_trailing c (s @ replicate n c) = s"
proof -
  have "dropWhile (\<lambda>x. x = c) (rev s) = rev s"
    using assms by (cases "rev s") (auto simp: rev_swap)
  then show ?thesis
    by (simp add: strip_trailing_def dropWhile_append)
qed

lemma drop_padding_replicate:
  assumes no: "CHR ''='' \<notin> set s" and m: "length s mod 4 \<noteq> 1"
  shows "drop_padding (s @ replicate ((4 - length s mod 4) mod 4) CHR ''='') = s"
proof -
  have "length s mod 4 \<in> {0, 2, 3}" using m by auto
  then consider "length s mod 4 = 0" | "length s mod 4 = 2" | "length s mod 4 = 3" by auto
  then show ?thesis
  proof cases
    case 1
    then show ?thesis
      using no by (cases s rule: rev_cases)
        (auto simp: drop_padding_def endsWith_def startsWith_def)
  next
    case 2
    then show ?thesis
      using no by (simp add: drop_padding_def endsWith_def startsWith_def numeral_2_eq_2 mod_Suc)
  next
    case 3
    then show ?thesis
      using no by (cases s rule: rev_cases)
        (auto simp: drop_padding_def endsWith_def startsWith_def mod_Suc)
  qed
qed

lemma atob_btoa_body:
  assumes "\<forall>x \<in> set xs. x < 256"
  shows "atob (map b64_char (enc_sextets xs) @
           replicate ((4 - length (enc_sextets xs) mod 4) mod 4) CHR ''='') = Some (map char_of xs)"
proof -
  let ?vs = "enc_sextets xs"
  have lt: "\<forall>v \<in> set ?vs. v < 64" using assms by (rule enc_sextets_lt)
  then have body: "filter (\<lambda>c. \<not> is_ascii_ws c) (map b64_char ?vs) = map b64_char ?vs"
    by (simp add: b64_char_not_ws filter_id_conv)
  have "\<not> is_ascii_ws CHR ''=''" by (simp add: is_ascii_ws_def)
  with body have ws: "filter (\<lambda>c. \<not> is_ascii_ws c)
      (map b64_char ?vs @ replicate n CHR ''='') = map b64_char ?vs @ replicate n CHR ''=''" for n
    by simp
  have no: "CHR ''='' \<notin> set (map b64_char ?vs)"
    using lt b64_char_not_eq by fastforce
  have d: "drop_padding (map b64_char ?vs @
      replicate ((4 - length ?vs mod 4) mod 4) CHR ''='') = map b64_char ?vs"
    using drop_padding_replicate [OF no] enc_sextets_mod4 [of xs] by simp
  show ?thesis
    using those_map_b64 [OF lt] assms enc_sextets_mod4 [of xs]
    by (simp add: atob_def ws d Let_def del: filter_append)
qed

subsection \<open>The URL-safe alphabet\<close>

definition b64url_char :: "nat \<Rightarrow> char" where
  "b64url_char n = (if n = 62 then CHR ''-'' else if n = 63 then CHR ''_'' else b64_char n)"

lemma replaceAll_append [simp]: "replaceAll c d (s @ t) = replaceAll c d s @ replaceAll c d t"
  by (simp add: replaceAll_def)

lemma replaceAll_replicate [simp]: "x \<noteq> c \<Longrightarrow> replaceAll c d (replicate n x) = replicate n x"
  by (simp add: replaceAll_def)

lemma length_replaceAll [simp]: "length (replaceAll c d s) = length s"
  by (simp add: replaceAll_def)

lemma b64_char_special: "b64_char 62 = CHR ''+''" "b64_char 63 = CHR ''/''"
  by (simp_all add: b64_char_def)

lemma b64_char_inj: "m < 64 \<Longrightarrow> n < 64 \<Longrightarrow> b64_char m = b64_char n \<longleftrightarrow> m = n"
  by (metis b64_value_char option.inject)

lemma b64_char_alnum:
  "n < 62 \<Longrightarrow> is_upper_char (b64_char n) \<or> is_lower_char (b64_char n) \<or> is_digit_char (b64_char n)"
  by (auto simp: b64_char_def is_upper_char_def is_lower_char_def is_digit_char_def)

lemma is_b64url_char_b64url: "n < 64 \<Longrightarrow> is_b64url_char (b64url_char n)"
  using b64_char_alnum [of n] by (auto simp: b64url_char_def is_b64url_char_def)

lemma b64_char_alnum_ne:
  "n < 62 \<Longrightarrow> b64_char n \<noteq> CHR ''-'' \<and> b64_char n \<noteq> CHR ''_'' \<and> b64_char n \<noteq> CHR ''+'' \<and> b64_char n \<noteq> CHR ''/''"
  by (drule b64_char_alnum) (auto simp: is_upper_char_def is_lower_char_def is_digit_char_def)

lemma to_url_char:
  "n < 64 \<Longrightarrow> replaceAll CHR ''/'' CHR ''_'' (replaceAll CHR ''+'' CHR ''-'' [b64_char n]) = [b64url_char n]"
  using b64_char_alnum_ne [of n]
  by (cases "n = 62"; cases "n = 63") (auto simp: replaceAll_def b64url_char_def b64_char_special)

lemma from_url_char:
  "n < 64 \<Longrightarrow> replaceAll CHR ''_'' CHR ''/'' (replaceAll CHR ''-'' CHR ''+'' [b64url_char n]) = [b64_char n]"
  using b64_char_alnum_ne [of n]
  by (cases "n = 62"; cases "n = 63") (auto simp: replaceAll_def b64url_char_def b64_char_special)

lemma to_url_map:
  "\<forall>v \<in> set vs. v < 64 \<Longrightarrow>
   replaceAll CHR ''/'' CHR ''_'' (replaceAll CHR ''+'' CHR ''-'' (map b64_char vs)) = map b64url_char vs"
  using to_url_char by (induction vs) (auto simp: replaceAll_def)

lemma from_url_map:
  "\<forall>v \<in> set vs. v < 64 \<Longrightarrow>
   replaceAll CHR ''_'' CHR ''/'' (replaceAll CHR ''-'' CHR ''+'' (map b64url_char vs)) = map b64_char vs"
  using from_url_char by (induction vs) (auto simp: replaceAll_def)

lemma b64url_char_not_eq: "n < 64 \<Longrightarrow> b64url_char n \<noteq> CHR ''=''"
  by (auto simp: b64url_char_def b64_char_not_eq)

lemma encodeStrictBase64Url_alt:
  "encodeStrictBase64Url bs = map b64url_char (enc_sextets (map unat bs))"
proof -
  let ?xs = "map unat bs" and ?vs = "enc_sextets (map unat bs)"
  have lt: "\<forall>x \<in> set ?xs. x < 256" using unsigned_less [of _, where 'a = nat and 'b = 8] by auto
  then have lt64: "\<forall>v \<in> set ?vs. v < 64" by (rule enc_sextets_lt)
  have bytes: "map of_char (map byte_to_char bs) = ?xs"
    using lt by (simp add: byte_to_char_def)
  have last: "map b64url_char ?vs = [] \<or> last (map b64url_char ?vs) \<noteq> CHR ''=''"
    using lt64 b64url_char_not_eq last_in_set [of ?vs] by (cases "?vs = []") (auto simp: last_map)
  have "encodeStrictBase64Url bs =
      strip_trailing CHR ''='' (map b64url_char ?vs @ replicate ((3 - length bs mod 3) mod 3) CHR ''='')"
    by (simp add: encodeStrictBase64Url_def btoa_def bytes to_url_map [OF lt64] del: map_map)
  then show ?thesis by (simp add: strip_trailing_replicate [OF last])
qed

lemma encodeStrictBase64Url_alphabet: "list_all is_b64url_char (encodeStrictBase64Url bs)"
proof -
  have "\<forall>v \<in> set (enc_sextets (map unat bs)). v < 64"
    using unsigned_less [of _, where 'a = nat and 'b = 8] by (intro enc_sextets_lt) auto
  then show ?thesis
    by (auto simp: encodeStrictBase64Url_alt list_all_iff is_b64url_char_b64url)
qed

lemma encodeStrictBase64Url_length [simp]:
  "length (encodeStrictBase64Url bs) = (4 * length bs + 2) div 3"
  by (simp add: encodeStrictBase64Url_alt length_enc_sextets)

lemma encodeStrictBase64Url_Nil [simp]: "encodeStrictBase64Url [] = []"
  by (simp add: encodeStrictBase64Url_alt)

lemma encodeStrictBase64Url_eq_Nil [simp]: "encodeStrictBase64Url bs = [] \<longleftrightarrow> bs = []"
proof
  assume "encodeStrictBase64Url bs = []"
  then have "(4 * length bs + 2) div 3 = 0" using encodeStrictBase64Url_length [of bs] by simp
  then show "bs = []" by (cases bs) auto
qed simp

lemma not_b64url_eq_sign: "\<not> is_b64url_char CHR ''=''"
  by (simp add: is_b64url_char_def is_upper_char_def is_lower_char_def is_digit_char_def)

lemma list_all_b64url_no_pad: "list_all is_b64url_char s \<Longrightarrow> CHR ''='' \<notin> set s"
  using not_b64url_eq_sign by (auto simp: list_all_iff)

lemma char_to_byte_to_char [simp]: "char_to_byte (byte_to_char b) = b"
  using unsigned_less [of b, where 'a = nat] by (simp add: char_to_byte_def byte_to_char_def)

lemma decode_encode_base64Url:
  assumes "bs \<noteq> []"
  shows "decodeStrictBase64Url (encodeStrictBase64Url bs) label = Inr bs"
proof -
  let ?s = "encodeStrictBase64Url bs" and ?vs = "enc_sextets (map unat bs)"
  have lt: "\<forall>x \<in> set (map unat bs). x < 256"
    using unsigned_less [of _, where 'a = nat and 'b = 8] by auto
  have std: "replaceAll CHR ''_'' CHR ''/'' (replaceAll CHR ''-'' CHR ''+'' ?s) = map b64_char ?vs"
    using from_url_map [OF enc_sextets_lt [OF lt]] by (simp add: encodeStrictBase64Url_alt)
  have len: "length ?s = length ?vs" by (simp add: encodeStrictBase64Url_alt)
  have "atob (map b64_char ?vs @ replicate ((4 - length ?s mod 4) mod 4) CHR ''='')
      = Some (map char_of (map unat bs))"
    using atob_btoa_body [OF lt] len by simp
  moreover have "map char_to_byte (map char_of (map unat bs)) = bs"
    by (simp add: map_idI comp_def flip: byte_to_char_def)
  ultimately show ?thesis
    using assms encodeStrictBase64Url_alphabet [of bs]
      list_all_b64url_no_pad [OF encodeStrictBase64Url_alphabet [of bs]]
    by (simp add: decodeStrictBase64Url_def std Let_def del: map_map)
qed

subsection \<open>Codecs as interfaces\<close>

text \<open>
  What the rest of the program relies on: decoding undoes encoding (\<open>roundtrip_codec\<close>), and, for the
  strict decoders, nothing but the encoding of a value is accepted as that value (\<open>strict_codec\<close>).
\<close>

locale roundtrip_codec =
  fixes enc :: "'a \<Rightarrow> 'b" and dec :: "'b \<Rightarrow> 'a res" and ok :: "'a \<Rightarrow> bool"
  assumes dec_enc: "ok x \<Longrightarrow> dec (enc x) = Inr x"
begin

lemma enc_inj: "ok x \<Longrightarrow> ok y \<Longrightarrow> enc x = enc y \<longleftrightarrow> x = y"
  by (metis dec_enc sum.inject(2))

end

locale strict_codec = roundtrip_codec +
  assumes dec_strict: "dec y = Inr x \<Longrightarrow> y = enc x \<and> ok x"
begin

lemma dec_eq_Inr: "dec y = Inr x \<longleftrightarrow> y = enc x \<and> ok x"
  using dec_enc dec_strict by blast

lemma dec_inj: "dec y = Inr x \<Longrightarrow> dec z = Inr x \<Longrightarrow> y = z"
  using dec_strict by blast

lemma dec_rejects: "(\<exists>e. dec y = Inl e) \<longleftrightarrow> (\<forall>x. ok x \<longrightarrow> y \<noteq> enc x)"
  by (cases "dec y") (auto dest: dec_strict simp: dec_enc)

end

lemma decode_base64Url_strict:
  assumes "decodeStrictBase64Url s label = Inr bs"
  shows "s = encodeStrictBase64Url bs \<and> bs \<noteq> []"
  using assms
  by (auto simp: decodeStrictBase64Url_def Let_def split: if_splits option.splits)

interpretation b64: strict_codec encodeStrictBase64Url "\<lambda>s. decodeStrictBase64Url s label" "\<lambda>bs. bs \<noteq> []"
  for label
  by unfold_locales (simp_all add: decode_encode_base64Url decode_base64Url_strict)

lemma decode_base64Url_iff:
  "decodeStrictBase64Url s label = Inr bs \<longleftrightarrow> s = encodeStrictBase64Url bs \<and> bs \<noteq> []"
  by (rule b64.dec_eq_Inr)

lemma encode_base64Url_inj: "encodeStrictBase64Url xs = encodeStrictBase64Url ys \<longleftrightarrow> xs = ys"
  using b64.enc_inj [of xs ys] encodeStrictBase64Url_eq_Nil by metis

lemma assertSha256Digest_iff:
  "assertSha256Digest d = Inr r \<longleftrightarrow>
   r = d \<and> (\<exists>bs. length bs = 32 \<and> d = ''sha256:'' @ encodeStrictBase64Url bs)"
proof
  assume "assertSha256Digest d = Inr r"
  then obtain bs where sw: "startsWith d ''sha256:''" and r: "r = d" and len: "length bs = 32"
    and dec: "decodeStrictBase64Url (drop 7 d) ''sha256 digest'' = Inr bs"
    by (auto simp: assertSha256Digest_def split: if_splits)
  from sw obtain t where "d = ''sha256:'' @ t" by (auto simp: startsWith_conv)
  with dec r len show "r = d \<and> (\<exists>bs. length bs = 32 \<and> d = ''sha256:'' @ encodeStrictBase64Url bs)"
    by (auto simp: decode_base64Url_iff)
next
  assume "r = d \<and> (\<exists>bs. length bs = 32 \<and> d = ''sha256:'' @ encodeStrictBase64Url bs)"
  then obtain bs where r: "r = d" and len: "length bs = 32"
    and d: "d = ''sha256:'' @ encodeStrictBase64Url bs" by auto
  have "startsWith d ''sha256:''" unfolding d by (rule startsWith_append)
  moreover have "drop 7 d = encodeStrictBase64Url bs" unfolding d by simp
  moreover have "bs \<noteq> []" using len by auto
  ultimately show "assertSha256Digest d = Inr r"
    using r len by (simp add: assertSha256Digest_def decode_encode_base64Url)
qed

subsection \<open>UTF-8 round trip\<close>

lemma utf8_decode_two:
  assumes "unat b = 192 + q" "unat b' = 128 + r" "q = 2 \<or> q = 3" "r < 64"
  shows "utf8_decode_body (b # b' # bs) = map_option (Cons (char_of (q * 64 + r))) (utf8_decode_body bs)"
proof -
  have "\<not> unat b < 128" "unat b = 194 \<or> unat b = 195" "128 \<le> unat b'" "unat b' < 192"
    using assms by auto
  then have "utf8_decode_body (b # b' # bs) =
      map_option (Cons (char_of ((unat b - 192) * 64 + (unat b' - 128)))) (utf8_decode_body bs)"
    unfolding utf8_decode_body.simps(2) list.case by simp
  then show ?thesis unfolding assms(1,2) by simp
qed

lemma utf8_decode_encode_char:
  "utf8_decode_body (utf8_encode_char (of_char c) @ bs) =
   map_option (Cons c) (utf8_decode_body bs)"
proof -
  define n where "n = (of_char c :: nat)"
  have lt: "n < 256" by (simp add: n_def)
  have c: "char_of n = c" by (simp add: n_def)
  show ?thesis
  proof (cases "n < 128")
    case True
    then have "unat (word_of_nat n :: 8 word) = n" by (simp add: unsigned_of_nat take_bit_eq_mod)
    with True c show ?thesis by (simp flip: n_def)
  next
    case False
    define q where "q = n div 64"
    define r where "r = n mod 64"
    have r: "r < 64" by (simp add: r_def)
    have "2 \<le> q" "q < 4"
      using False lt by (auto simp: q_def less_eq_div_iff_mult_less_eq less_mult_imp_div_less)
    then have q: "q = 2 \<or> q = 3" by auto
    have n: "q * 64 + r = n" by (simp add: q_def r_def)
    have "unat (word_of_nat (192 + q) :: 8 word) = 192 + q"
      using q by (auto simp: unsigned_of_nat take_bit_eq_mod)
    moreover have "unat (word_of_nat (128 + r) :: 8 word) = 128 + r"
      using r by (simp add: unsigned_of_nat take_bit_eq_mod del: of_nat_add)
    moreover have "utf8_encode_char n = [word_of_nat (192 + q), word_of_nat (128 + r)]"
      using False by (simp add: q_def r_def)
    ultimately show ?thesis
      using utf8_decode_two [OF _ _ q r] c n unfolding n_def [symmetric] by simp
  qed
qed

lemma utf8_decode_body_encode: "utf8_decode_body (utf8_encode s) = Some s"
  by (induction s) (simp_all add: utf8_encode_def utf8_decode_encode_char del: utf8_encode_char.simps)

lemma word_of_nat_unat_eq: "unat (b :: 8 word) = n \<Longrightarrow> word_of_nat n = b"
  by auto

lemma utf8_encode_decode_body: "utf8_decode_body bs = Some s \<Longrightarrow> bs = utf8_encode s"
proof (induction bs arbitrary: s rule: utf8_decode_body.induct)
  case 1
  then show ?case by (simp add: utf8_encode_def)
next
  case (2 b bs)
  show ?case
  proof (cases "unat b < 128")
    case True
    with 2 obtain t where "s = char_of (unat b) # t" "utf8_decode_body bs = Some t" by auto
    with 2 True show ?thesis by (simp add: utf8_encode_def)
  next
    case False
    with "2.prems" obtain b2 bs' t where bs: "bs = b2 # bs'"
      and c: "unat b = 194 \<or> unat b = 195" "128 \<le> unat b2" "unat b2 < 192"
      and s: "s = char_of ((unat b - 192) * 64 + (unat b2 - 128)) # t"
      and t: "utf8_decode_body bs' = Some t"
      by (auto split: list.splits if_splits)
    have ih: "bs' = utf8_encode t" using "2.IH"(2) False bs c t by auto
    obtain q where q: "unat b = 192 + q" "q = 2 \<or> q = 3"
      using c(1) that [of 2] that [of 3] by auto
    obtain r where r: "unat b2 = 128 + r" "r < 64"
      using c(2,3) that [of "unat b2 - 128"] by auto
    define n where "n = (unat b - 192) * 64 + (unat b2 - 128)"
    have nq: "n = q * 64 + r" by (simp add: n_def q r)
    have n: "128 \<le> n" "n < 256" "192 + n div 64 = unat b" "128 + n mod 64 = unat b2"
      using q r by (auto simp: nq)
    have "utf8_encode_char n = [b, b2]"
      using n by (simp add: word_of_nat_unat_eq [of b] word_of_nat_unat_eq [of b2] del: of_nat_add)
    then show ?thesis
      using n bs s ih by (simp add: utf8_encode_def flip: n_def del: utf8_encode_char.simps)
  qed
qed

lemma utf8_decode_body_iff: "utf8_decode_body bs = Some s \<longleftrightarrow> bs = utf8_encode s"
  using utf8_decode_body_encode utf8_encode_decode_body by blast

lemma utf8_encode_no_bom: "take 3 (utf8_encode s) \<noteq> utf8_bom"
proof (cases s)
  case Nil
  then show ?thesis by (simp add: utf8_encode_def utf8_bom_def)
next
  case (Cons c t)
  have "hd (utf8_encode_char (of_char c)) \<noteq> 239"
  proof (cases "(of_char c :: nat) < 128")
    case True
    then have "unat (word_of_nat (of_char c) :: 8 word) < 128"
      by (simp add: unsigned_of_nat take_bit_eq_mod)
    then have "(word_of_nat (of_char c) :: 8 word) \<noteq> 239" by auto
    then show ?thesis using True by simp
  next
    case False
    have "of_char c div 64 < (4 :: nat)" by (simp add: less_mult_imp_div_less)
    then have "of_char c div 64 \<in> {0, 1, 2, 3 :: nat}" by auto
    then have "(word_of_nat (192 + of_char c div 64) :: 8 word) \<noteq> 239" by auto
    then show ?thesis using False by simp
  qed
  moreover have "utf8_encode_char (of_char c) \<noteq> []" by simp
  ultimately show ?thesis
    by (cases "utf8_encode_char (of_char c)") (simp_all add: Cons utf8_encode_def utf8_bom_def del: utf8_encode_char.simps)
qed

lemma utf8_decode_encode [simp]: "utf8_decode (utf8_encode s) = Some s"
  by (simp add: utf8_decode_def utf8_encode_no_bom utf8_decode_body_encode)

interpretation utf8: roundtrip_codec utf8_encode "\<lambda>bs. decodeStrictUtf8 bs label" "\<lambda>_. True"
  for label
  by unfold_locales (simp add: decodeStrictUtf8_def)

text \<open>The decoder is strict up to one byte order mark.\<close>

lemma decodeStrictUtf8_eq_Inr:
  "decodeStrictUtf8 bs label = Inr s \<longleftrightarrow> bs = utf8_encode s \<or> bs = utf8_bom @ utf8_encode s"
proof
  assume "decodeStrictUtf8 bs label = Inr s"
  then have d: "utf8_decode bs = Some s" by (simp add: decodeStrictUtf8_def split: option.splits)
  show "bs = utf8_encode s \<or> bs = utf8_bom @ utf8_encode s"
  proof (cases "take 3 bs = utf8_bom")
    case True
    with d have "drop 3 bs = utf8_encode s" by (simp add: utf8_decode_def utf8_decode_body_iff)
    with True show ?thesis by (metis append_take_drop_id)
  next
    case False
    with d show ?thesis by (simp add: utf8_decode_def utf8_decode_body_iff)
  qed
next
  assume "bs = utf8_encode s \<or> bs = utf8_bom @ utf8_encode s"
  moreover have "utf8_decode (utf8_bom @ utf8_encode s) = Some s"
    by (simp add: utf8_decode_def utf8_bom_def utf8_decode_body_encode)
  ultimately show "decodeStrictUtf8 bs label = Inr s"
    by (auto simp: decodeStrictUtf8_def)
qed

subsection \<open>Properties\<close>

text \<open>
  The strict base64url decoder accepts exactly the canonical encodings: a string decodes to the
  bytes \<open>bs\<close> if and only if it is the encoder's output for \<open>bs\<close>, and \<open>bs\<close> is not empty.  In
  particular padding, foreign characters, non-zero trailing bits and a dangling sextet are rejected.
\<close>

theorem base64url_decode_exact:
  "decodeStrictBase64Url s label = Inr bs \<longleftrightarrow> s = encodeStrictBase64Url bs \<and> bs \<noteq> []"
  by (rule decode_base64Url_iff)

text \<open>
  A digest string is accepted exactly when it is the prefix \<open>sha256:\<close> followed by the canonical
  encoding of 32 bytes, and then it is returned unchanged.
\<close>

theorem sha256_digest_exact:
  "assertSha256Digest d = Inr r \<longleftrightarrow>
   r = d \<and> (\<exists>bs. length bs = 32 \<and> d = ''sha256:'' @ encodeStrictBase64Url bs)"
  by (rule assertSha256Digest_iff)

text \<open>
  The fatal UTF-8 decoder returns a text exactly for its own encoding, optionally preceded by one
  byte order mark: malformed, overlong and truncated sequences are rejected, and no two texts share
  an encoding.
\<close>

theorem utf8_decode_exact:
  "decodeStrictUtf8 bs label = Inr s \<longleftrightarrow> bs = utf8_encode s \<or> bs = utf8_bom @ utf8_encode s"
  by (rule decodeStrictUtf8_eq_Inr)

end
