(* ===== verification/JsValues.thy ===== *)
theory JsValues
  imports Encoding "HOL-Library.Char_ord" "HOL-Library.List_Lexorder"
begin

section \<open>JavaScript values and JSON.stringify\<close>

text \<open>
  The values an \<open>unknown\<close> can hold where the source inspects one.  \<open>JObj\<close> is a plain object (its
  prototype is \<open>Object.prototype\<close> or null) with its own enumerable members in enumeration order;
  \<open>JBytes\<close> is a \<open>Uint8Array\<close>; \<open>JForeign t\<close> is any other value, of which the source only observes
  \<open>typeof\<close> (a Date, Blob or class instance is \<open>JForeign ''object''\<close>).  Numbers are exact decimals: an
  integer, or \<open>m / 10^(k+1)\<close> with \<open>m\<close> not a multiple of 10; the rounding of a double beyond fifteen
  digits and magnitudes from 1e21 on are outside the model.
\<close>

datatype jsnum = IntNum int | DecNum int nat | NotANumber | PosInfinity | NegInfinity

datatype js =
    JUndefined
  | JNull
  | JBool bool
  | JNum jsnum
  | JStr string
  | JArr "js list"
  | JObj "(string \<times> js) list"
  | JBytes bytes
  | JForeign string

fun typeof :: "js \<Rightarrow> string" where
  "typeof JUndefined = ''undefined''"
| "typeof JNull = ''object''"
| "typeof (JBool b) = ''boolean''"
| "typeof (JNum n) = ''number''"
| "typeof (JStr s) = ''string''"
| "typeof (JForeign t) = t"
| "typeof _ = ''object''"

fun isFinite :: "jsnum \<Rightarrow> bool" where
  "isFinite (IntNum _) = True"
| "isFinite (DecNum _ _) = True"
| "isFinite _ = False"

subsection \<open>Decimal text\<close>

definition digit_char :: "nat \<Rightarrow> char" where
  "digit_char d = char_of (48 + d)"

definition digit_value :: "char \<Rightarrow> nat" where
  "digit_value c = of_char c - 48"

fun string_of_nat :: "nat \<Rightarrow> string" where
  "string_of_nat n = (if n < 10 then [digit_char n]
     else string_of_nat (n div 10) @ [digit_char (n mod 10)])"

declare string_of_nat.simps [simp del]

definition nat_of_digits :: "string \<Rightarrow> nat" where
  "nat_of_digits s = foldl (\<lambda>a c. a * 10 + digit_value c) 0 s"

definition string_of_int :: "int \<Rightarrow> string" where
  "string_of_int i = (if i < 0 then CHR ''-'' # string_of_nat (nat (- i)) else string_of_nat (nat i))"

lemma digit_char_digit [simp]: "d < 10 \<Longrightarrow> is_digit_char (digit_char d)"
  by (simp add: is_digit_char_def digit_char_def)

lemma digit_value_char [simp]: "d < 10 \<Longrightarrow> digit_value (digit_char d) = d"
  by (simp add: digit_value_def digit_char_def)

lemma string_of_nat_digits: "list_all is_digit_char (string_of_nat n)"
proof (induction n rule: string_of_nat.induct)
  case (1 n)
  then show ?case by (subst string_of_nat.simps) simp
qed

lemma string_of_nat_not_Nil [simp]: "string_of_nat n \<noteq> []"
  by (subst string_of_nat.simps) simp

lemma nat_of_digits_snoc: "nat_of_digits (s @ [c]) = nat_of_digits s * 10 + digit_value c"
  by (simp add: nat_of_digits_def)

lemma nat_of_digits_string [simp]: "nat_of_digits (string_of_nat n) = n"
proof (induction n rule: string_of_nat.induct)
  case (1 n)
  show ?case
  proof (cases "n < 10")
    case True
    then show ?thesis by (subst string_of_nat.simps) (simp add: nat_of_digits_def)
  next
    case False
    with 1 show ?thesis by (subst string_of_nat.simps) (simp add: nat_of_digits_snoc)
  qed
qed

lemma string_of_nat_inj [simp]: "string_of_nat m = string_of_nat n \<longleftrightarrow> m = n"
  by (metis nat_of_digits_string)

lemma string_of_nat_no_leading_zero: "hd (string_of_nat n) = digit_char 0 \<Longrightarrow> n = 0"
proof (induction n rule: string_of_nat.induct)
  case (1 n)
  show ?case
  proof (cases "n < 10")
    case True
    with "1.prems" have "digit_char n = digit_char 0" by (simp add: string_of_nat.simps)
    with True show ?thesis by (metis digit_value_char zero_less_numeral)
  next
    case False
    with "1.prems" have "hd (string_of_nat (n div 10)) = digit_char 0"
      by (simp add: string_of_nat.simps [of n])
    with False 1 show ?thesis by auto
  qed
qed

subsection \<open>JSON.stringify\<close>

definition hex_digit :: "nat \<Rightarrow> char" where
  "hex_digit d = (if d < 10 then digit_char d else char_of (87 + d))"

text \<open>\<open>QuoteJSONString\<close>: the escapes of the standard.\<close>

definition quote_char :: "char \<Rightarrow> string" where
  "quote_char c = (let n = (of_char c :: nat) in
     if n = 8 then [CHR 0x5C, CHR ''b''] else if n = 9 then [CHR 0x5C, CHR ''t'']
     else if n = 10 then [CHR 0x5C, CHR ''n''] else if n = 12 then [CHR 0x5C, CHR ''f'']
     else if n = 13 then [CHR 0x5C, CHR ''r''] else if n = 34 then [CHR 0x5C, CHR 0x22]
     else if n = 92 then [CHR 0x5C, CHR 0x5C]
     else if n < 32 then [CHR 0x5C, CHR ''u'', CHR ''0'', CHR ''0'', hex_digit (n div 16), hex_digit (n mod 16)]
     else [c])"

definition json_quote :: "string \<Rightarrow> string" where
  "json_quote s = CHR 0x22 # concat (map quote_char s) @ [CHR 0x22]"

text \<open>\<open>Number::toString\<close> of a non-integer decimal, with its switch to exponents below 1e-6.\<close>

definition string_of_decimal :: "int \<Rightarrow> nat \<Rightarrow> string" where
  "string_of_decimal m k =
     (let ds = string_of_nat (nat \<bar>m\<bar>); len = length ds; e = Suc k; n = int len - int e;
          body = (if 0 < n then take (nat n) ds @ ''.'' @ drop (nat n) ds
            else if -6 < n then ''0.'' @ replicate (nat (- n)) CHR ''0'' @ ds
            else take 1 ds @ (if len = 1 then [] else ''.'' @ drop 1 ds) @ ''e-'' @ string_of_nat (nat (1 - n)))
      in if m < 0 then CHR ''-'' # body else body)"

fun json_number :: "jsnum \<Rightarrow> string" where
  "json_number (IntNum i) = string_of_int i"
| "json_number (DecNum m k) = string_of_decimal m k"
| "json_number _ = ''null''"

text \<open>Functions and \<open>undefined\<close> are left out of objects and are \<open>null\<close> in arrays.\<close>

definition json_omits :: "js \<Rightarrow> bool" where
  "json_omits v \<longleftrightarrow> v \<in> {JUndefined, JForeign ''function'', JForeign ''symbol''}"

fun stringify :: "js \<Rightarrow> string" where
  "stringify (JBool b) = (if b then ''true'' else ''false'')"
| "stringify (JNum n) = json_number n"
| "stringify (JStr s) = json_quote s"
| "stringify (JArr xs) = ''['' @ joinWith '','' (map stringify xs) @ '']''"
| "stringify (JObj kvs) = ''{'' @ joinWith '',''
     (map (\<lambda>(k, v). json_quote k @ '':'' @ stringify v) (filter (\<lambda>(k, v). \<not> json_omits v) kvs)) @ ''}''"
| "stringify (JForeign t) = (if t = ''object'' then ''{}'' else ''null'')"
| "stringify (JBytes bs) = ''{'' @ joinWith '','' (map (\<lambda>(i, b).
     json_quote (string_of_nat i) @ '':'' @ string_of_nat (unat b)) (zip [0..<length bs] bs)) @ ''}''"
| "stringify _ = ''null''"

subsection \<open>The order of an object's members\<close>

text \<open>
  Canonical array indices come first, in ascending order; other keys follow in insertion order.
  Ordinary assignment \<open>o[k] = v\<close> to a fresh literal sets the prototype when the key is \<open>__proto__\<close>
  and adds no member.
\<close>

definition is_array_index :: "string \<Rightarrow> bool" where
  "is_array_index s \<longleftrightarrow> s \<noteq> [] \<and> list_all is_digit_char s \<and>
     (s = ''0'' \<or> hd s \<noteq> CHR ''0'') \<and> nat_of_digits s < 4294967295"

definition own_keys_order :: "(string \<times> 'a) list \<Rightarrow> (string \<times> 'a) list" where
  "own_keys_order kvs =
     sort_key (\<lambda>(k, v). nat_of_digits k) (filter (\<lambda>(k, v). is_array_index k) kvs) @
     filter (\<lambda>(k, v). \<not> is_array_index k) kvs"

definition assign_member :: "(string \<times> 'a) list \<Rightarrow> string \<times> 'a \<Rightarrow> (string \<times> 'a) list" where
  "assign_member out kv = (if fst kv = ''__proto__'' then out else AList.update (fst kv) (snd kv) out)"

definition define_member :: "(string \<times> 'a) list \<Rightarrow> string \<times> 'a \<Rightarrow> (string \<times> 'a) list" where
  "define_member out kv = AList.update (fst kv) (snd kv) out"

text \<open>\<open>value[key]\<close> on a plain object whose prototype contributes nothing.\<close>

definition js_get :: "js \<Rightarrow> string \<Rightarrow> js" where
  "js_get v k = (case v of JObj kvs \<Rightarrow> (case map_of kvs k of None \<Rightarrow> JUndefined | Some w \<Rightarrow> w)
     | _ \<Rightarrow> JUndefined)"

end
