(* ===== verification/DateTime.thy ===== *)
theory DateTime
  imports JsValues
begin

section \<open>Time values: Date.parse and Date.prototype.toISOString\<close>

text \<open>
  A \<open>Date\<close> is its time value, an \<open>int\<close> of milliseconds.  \<open>date_parse\<close> is \<open>Date.parse\<close> on the
  ECMAScript interchange format (a date, or a date and time with \<open>Z\<close>, an offset or neither, the
  last taken in UTC); \<open>None\<close> is \<open>NaN\<close>, which stands as well for the host-specific formats a browser
  may accept beyond that grammar.  \<open>toISOString\<close> throws a \<open>RangeError\<close> outside the time range.
\<close>

subsection \<open>Calendar\<close>

definition ms_per_day :: int where
  "ms_per_day = 86400000"

definition max_time :: int where
  "max_time = 8640000000000000"

definition day_from_year :: "int \<Rightarrow> int" where
  "day_from_year y = 365 * (y - 1970) + (y - 1969) div 4 - (y - 1901) div 100 + (y - 1601) div 400"

definition is_leap_year :: "int \<Rightarrow> bool" where
  "is_leap_year y \<longleftrightarrow> y mod 4 = 0 \<and> (y mod 100 \<noteq> 0 \<or> y mod 400 = 0)"

definition month_lengths :: "int \<Rightarrow> int list" where
  "month_lengths y = [31, if is_leap_year y then 29 else 28, 31, 30, 31, 30, 31, 31, 30, 31, 30, 31]"

lemma div_step: "0 < k \<Longrightarrow> x div k = (x - 1) div k + (if x mod k = 0 then 1 else 0)" for x k :: int
proof -
  assume k: "0 < k"
  show ?thesis
  proof (cases "x mod k = 0")
    case True
    then have "x = k * (x div k)" using mult_div_mod_eq [of k x] by simp
    then have "x - 1 = k * (x div k - 1) + (k - 1)" by (simp add: right_diff_distrib)
    moreover have "0 \<le> k - 1" "k - 1 < k" using k by simp_all
    ultimately have "(x - 1) div k = x div k - 1" by (rule int_div_pos_eq)
    with True show ?thesis by simp
  next
    case False
    have "x - 1 = k * (x div k) + (x mod k - 1)" by simp
    moreover have "0 \<le> x mod k - 1" using False k pos_mod_sign [of k x] by linarith
    moreover have "x mod k - 1 < k" using k pos_mod_bound [of k x] by linarith
    ultimately have "(x - 1) div k = x div k" by (rule int_div_pos_eq)
    with False show ?thesis by simp
  qed
qed

lemma mod_shift: "(y - c * k) mod k = y mod k" for y c k :: int
  using mod_mult_self1 [of y "- c" k] by simp

lemma day_from_year_Suc:
  "day_from_year (y + 1) = day_from_year y + (if is_leap_year y then 366 else 365)"
proof -
  have 4: "(y - 1968) div 4 = (y - 1969) div 4 + (if y mod 4 = 0 then 1 else 0)"
    using div_step [of 4 "y - 1968"] mod_shift [of y 492 4] by simp
  have 100: "(y - 1900) div 100 = (y - 1901) div 100 + (if y mod 100 = 0 then 1 else 0)"
    using div_step [of 100 "y - 1900"] mod_shift [of y 19 100] by simp
  have 400: "(y - 1600) div 400 = (y - 1601) div 400 + (if y mod 400 = 0 then 1 else 0)"
    using div_step [of 400 "y - 1600"] mod_shift [of y 4 400] by simp
  have m: "y mod 100 = 0 \<Longrightarrow> y mod 4 = 0" "y mod 400 = 0 \<Longrightarrow> y mod 100 = 0"
    using dvd_trans [of 4 100 y] dvd_trans [of 100 400 y] by (simp_all add: mod_eq_0_iff_dvd)
  have "day_from_year (y + 1) = 365 * (y - 1970) + 365 + (y - 1968) div 4 - (y - 1900) div 100 + (y - 1600) div 400"
    by (simp add: day_from_year_def)
  also have "\<dots> = day_from_year y + 365 + (if y mod 4 = 0 then 1 else 0) -
      (if y mod 100 = 0 then 1 else 0) + (if y mod 400 = 0 then 1 else 0)"
    unfolding 4 100 400 day_from_year_def by simp
  finally have "day_from_year (y + 1) = \<dots>" .
  then show ?thesis
    unfolding is_leap_year_def using m
    by (cases "y mod 4 = 0"; cases "y mod 100 = 0"; cases "y mod 400 = 0"; simp only: if_True if_False simp_thms; simp)
qed

lemma sum_month_lengths: "sum_list (month_lengths y) = (if is_leap_year y then 366 else 365)"
  by (simp add: month_lengths_def)

text \<open>The largest year that does not start after the day, by search from below.\<close>

function year_search :: "int \<Rightarrow> int \<Rightarrow> int" where
  "year_search day y = (if day_from_year (y + 1) \<le> day then year_search day (y + 1) else y)"
  by auto
termination
  by (relation "measure (\<lambda>(day, y). nat (day - day_from_year y))")
    (auto simp: day_from_year_Suc split: if_splits)

declare year_search.simps [simp del]

definition year_from_day :: "int \<Rightarrow> int" where
  "year_from_day day = year_search day (1970 + (if 0 \<le> day then day div 366 else day div 365))"

fun split_months :: "int list \<Rightarrow> int \<Rightarrow> nat \<times> int" where
  "split_months [] d = (0, d)"
| "split_months (m # ms) d = (if d < m then (0, d)
     else (case split_months ms (d - m) of (k, r) \<Rightarrow> (Suc k, r)))"

subsection \<open>Printing\<close>

definition pad_nat :: "nat \<Rightarrow> nat \<Rightarrow> string" where
  "pad_nat w n = (let s = string_of_nat n in replicate (w - length s) CHR ''0'' @ s)"

definition print_year :: "int \<Rightarrow> string" where
  "print_year y = (if 0 \<le> y \<and> y \<le> 9999 then pad_nat 4 (nat y)
     else if y < 0 then CHR ''-'' # pad_nat 6 (nat (- y)) else CHR ''+'' # pad_nat 6 (nat y))"

definition iso_string :: "int \<Rightarrow> string" where
  "iso_string t =
     (let day = t div ms_per_day; ms = nat (t mod ms_per_day); y = year_from_day day;
          (month, d) = split_months (month_lengths y) (day - day_from_year y)
      in print_year y @ ''-'' @ pad_nat 2 (Suc month) @ ''-'' @ pad_nat 2 (Suc (nat d)) @ ''T'' @
         pad_nat 2 (ms div 3600000) @ '':'' @ pad_nat 2 (ms div 60000 mod 60) @ '':'' @
         pad_nat 2 (ms div 1000 mod 60) @ ''.'' @ pad_nat 3 (ms mod 1000) @ ''Z'')"

definition toISOString :: "int \<Rightarrow> string res" where
  "toISOString t = (if \<bar>t\<bar> \<le> max_time then Inr (iso_string t)
     else Inl (RangeError ''Invalid time value''))"

subsection \<open>Parsing\<close>

definition read_field :: "nat \<Rightarrow> string \<Rightarrow> (nat \<times> string) option" where
  "read_field w s = (if w \<le> length s \<and> list_all is_digit_char (take w s)
     then Some (nat_of_digits (take w s), drop w s) else None)"

definition read_char :: "char \<Rightarrow> string \<Rightarrow> string option" where
  "read_char c s = (case s of [] \<Rightarrow> None | x # r \<Rightarrow> if x = c then Some r else None)"

definition read_year :: "string \<Rightarrow> (int \<times> string) option" where
  "read_year s = (case s of
     [] \<Rightarrow> None
   | c # r \<Rightarrow>
       if c = CHR ''+'' then map_option (\<lambda>(n, q). (int n, q)) (read_field 6 r)
       else if c = CHR ''-'' then
         (case read_field 6 r of
            None \<Rightarrow> None | Some (n, q) \<Rightarrow> if n = 0 then None else Some (- int n, q))
       else map_option (\<lambda>(n, q). (int n, q)) (read_field 4 s))"

text \<open>A further two-digit field after a separator, or a default when the text ends before it.\<close>

definition read_next :: "char \<Rightarrow> nat \<Rightarrow> string \<Rightarrow> (nat \<times> string) option" where
  "read_next c dflt s = (case read_char c s of None \<Rightarrow> Some (dflt, s) | Some r \<Rightarrow> read_field 2 r)"

definition read_millis :: "string \<Rightarrow> (nat \<times> string) option" where
  "read_millis s = (case read_char CHR ''.'' s of
     None \<Rightarrow> Some (0, s)
   | Some r \<Rightarrow>
       (let ds = takeWhile is_digit_char r
        in if ds = [] then None
           else Some (nat_of_digits (take 3 (ds @ ''00'')), dropWhile is_digit_char r)))"

definition read_zone :: "string \<Rightarrow> int option" where
  "read_zone s = (case s of
     [] \<Rightarrow> Some 0
   | c # r \<Rightarrow>
       if c = CHR ''Z'' then (if r = [] then Some 0 else None)
       else if c = CHR ''+'' \<or> c = CHR ''-'' then
         (case read_field 2 r of
            None \<Rightarrow> None
          | Some (h, r1) \<Rightarrow> (case read_char CHR '':'' r1 of
              None \<Rightarrow> None
            | Some r2 \<Rightarrow> (case read_field 2 r2 of
                None \<Rightarrow> None
              | Some (m, r3) \<Rightarrow>
                  if r3 \<noteq> [] \<or> 23 < h \<or> 59 < m then None
                  else Some ((if c = CHR ''-'' then -1 else 1) * int (h * 60 + m)))))
       else None)"

definition make_time :: "int \<Rightarrow> nat \<Rightarrow> nat \<Rightarrow> nat \<Rightarrow> int \<Rightarrow> int option" where
  "make_time y month d ms zone =
     (let day = day_from_year y + sum_list (take (month - 1) (month_lengths y)) + int d - 1;
          t = day * ms_per_day + int ms - zone * 60000
      in if month < 1 \<or> 12 < month \<or> d < 1 \<or> 31 < d \<or> max_time < \<bar>t\<bar> then None else Some t)"

definition read_time :: "string \<Rightarrow> (nat \<times> int) option" where
  "read_time s = (case read_field 2 s of
     None \<Rightarrow> None
   | Some (h, s1) \<Rightarrow> (case read_char CHR '':'' s1 of
       None \<Rightarrow> None
     | Some s2 \<Rightarrow> (case read_field 2 s2 of
         None \<Rightarrow> None
       | Some (m, s3) \<Rightarrow> (case read_next CHR '':'' 0 s3 of
           None \<Rightarrow> None
         | Some (sec, s4) \<Rightarrow> (case read_millis s4 of
             None \<Rightarrow> None
           | Some (ms, s5) \<Rightarrow>
               let total = h * 3600000 + m * 60000 + sec * 1000 + ms
               in if 59 < m \<or> 59 < sec \<or> 86400000 < total then None
                  else map_option (\<lambda>z. (total, z)) (read_zone s5))))))"

definition date_parse :: "string \<Rightarrow> int option" where
  "date_parse s = (case read_year s of
     None \<Rightarrow> None
   | Some (y, s1) \<Rightarrow> (case read_next CHR ''-'' 1 s1 of
       None \<Rightarrow> None
     | Some (month, s2) \<Rightarrow> (case read_next CHR ''-'' 1 s2 of
         None \<Rightarrow> None
       | Some (d, s3) \<Rightarrow>
           if s3 = [] then make_time y month d 0 0
           else (case read_char CHR ''T'' s3 of
             None \<Rightarrow> None
           | Some s4 \<Rightarrow> (case read_time s4 of
               None \<Rightarrow> None
             | Some (ms, z) \<Rightarrow> make_time y month d ms z)))))"

subsection \<open>Fixed-width fields\<close>

lemma length_string_of_nat: "n < 10 ^ w \<Longrightarrow> 0 < w \<Longrightarrow> length (string_of_nat n) \<le> w"
proof (induction w arbitrary: n)
  case (Suc w)
  show ?case
  proof (cases "n < 10")
    case True
    then show ?thesis by (simp add: string_of_nat.simps)
  next
    case False
    then have "w \<noteq> 0" using Suc.prems by (cases w) auto
    moreover have "n div 10 < 10 ^ w" using Suc.prems(1) by (simp add: less_mult_imp_div_less mult.commute)
    ultimately have "length (string_of_nat (n div 10)) \<le> w" using Suc.IH by simp
    with False show ?thesis by (simp add: string_of_nat.simps [of n])
  qed
qed simp

lemma nat_of_digits_zeros: "nat_of_digits (replicate k CHR ''0'' @ s) = nat_of_digits s"
proof -
  have "foldl (\<lambda>a c. a * 10 + digit_value c) 0 (replicate k CHR ''0'') = 0"
    by (induction k) (simp_all add: digit_value_def)
  then show ?thesis by (simp add: nat_of_digits_def)
qed

lemma pad_nat_length [simp]: "n < 10 ^ w \<Longrightarrow> 0 < w \<Longrightarrow> length (pad_nat w n) = w"
  using length_string_of_nat by (simp add: pad_nat_def Let_def)

lemma pad_nat_digits: "list_all is_digit_char (pad_nat w n)"
  using string_of_nat_digits [of n] by (auto simp: pad_nat_def Let_def list_all_iff is_digit_char_def)

lemma pad_nat_value [simp]: "nat_of_digits (pad_nat w n) = n"
  by (simp add: pad_nat_def Let_def nat_of_digits_zeros)

lemma read_field_pad: "n < 10 ^ w \<Longrightarrow> 0 < w \<Longrightarrow> read_field w (pad_nat w n @ r) = Some (n, r)"
  by (simp add: read_field_def pad_nat_digits)

subsection \<open>Years and months\<close>

lemma day_from_year_1970 [simp]: "day_from_year 1970 = 0"
  by (simp add: day_from_year_def)

lemma day_from_year_up: "day_from_year (1970 + int k) \<le> 366 * int k"
proof (induction k)
  case (Suc k)
  have "day_from_year (1970 + int k + 1) \<le> day_from_year (1970 + int k) + 366"
    unfolding day_from_year_Suc by simp
  with Suc show ?case by (simp add: algebra_simps)
qed simp

lemma day_from_year_down: "day_from_year (1970 - int k) \<le> - 365 * int k"
proof (induction k)
  case (Suc k)
  define z where "z = 1970 - int (Suc k)"
  have "day_from_year z + 365 \<le> day_from_year (z + 1)"
    unfolding day_from_year_Suc by simp
  moreover have "z + 1 = 1970 - int k" by (simp add: z_def)
  ultimately have "day_from_year z + 365 \<le> - 365 * int k" using Suc by simp
  then show ?case unfolding z_def [symmetric] by simp
qed simp

lemma day_from_year_less: "x < y \<Longrightarrow> day_from_year x < day_from_year y"
proof -
  have "day_from_year x < day_from_year (x + int (Suc k))" for k
  proof (induction k)
    case 0
    then show ?case by (simp add: day_from_year_Suc)
  next
    case (Suc k)
    have "day_from_year (x + int (Suc k)) < day_from_year (x + int (Suc k) + 1)"
      unfolding day_from_year_Suc by simp
    with Suc show ?case by (simp add: algebra_simps)
  qed
  moreover assume "x < y"
  ultimately show ?thesis
    by (metis add_diff_cancel_left' add_diff_inverse diff_gt_0_iff_gt pos_int_cases gr0_implies_Suc diff_add_cancel add.commute)
qed

lemma year_search_bounds:
  "day_from_year y \<le> day \<Longrightarrow>
   day_from_year (year_search day y) \<le> day \<and> day < day_from_year (year_search day y + 1)"
proof (induction day y rule: year_search.induct)
  case (1 day y)
  then show ?case by (subst (1 2) year_search.simps) (auto simp: not_le)
qed

lemma year_from_day_bounds:
  "day_from_year (year_from_day day) \<le> day \<and> day < day_from_year (year_from_day day + 1)"
proof -
  have "day_from_year (1970 + (if 0 \<le> day then day div 366 else day div 365)) \<le> day"
  proof (cases "0 \<le> day")
    case True
    then have "int (nat (day div 366)) = day div 366" by (simp add: pos_imp_zdiv_nonneg_iff)
    with day_from_year_up [of "nat (day div 366)"] True show ?thesis by simp
  next
    case False
    then have "day div 365 \<le> 0" by (simp add: neg_imp_zdiv_neg_iff less_imp_le)
    then have "int (nat (- (day div 365))) = - (day div 365)" by simp
    moreover have "365 * (day div 365) \<le> day" by simp
    ultimately show ?thesis
      using day_from_year_down [of "nat (- (day div 365))"] False by simp
  qed
  then show ?thesis unfolding year_from_day_def by (rule year_search_bounds)
qed

lemma split_months_spec:
  "split_months ms d = (k, r) \<Longrightarrow> 0 \<le> d \<Longrightarrow> d < sum_list ms \<Longrightarrow>
   k < length ms \<and> 0 \<le> r \<and> r < ms ! k \<and> d = sum_list (take k ms) + r"
  by (induction ms d arbitrary: k r rule: split_months.induct) (auto split: if_splits prod.splits)

subsection \<open>Round trip\<close>

lemma millis_of_day: "ms < 86400000 \<Longrightarrow>
  ms div 3600000 * 3600000 + ms div 60000 mod 60 * 60000 + ms div 1000 mod 60 * 1000 + ms mod 1000 = (ms :: nat)"
proof -
  have a: "ms = ms div 1000 * 1000 + ms mod 1000" by simp
  have b: "ms div 1000 = ms div 1000 div 60 * 60 + ms div 1000 mod 60" by simp
  have c: "ms div 60000 = ms div 60000 div 60 * 60 + ms div 60000 mod 60" by simp
  have d: "ms div 1000 div 60 = ms div 60000" "ms div 60000 div 60 = ms div 3600000"
    by (simp_all add: div_mult2_eq [symmetric])
  show ?thesis using a b c unfolding d by linarith
qed

lemma month_lengths_le: "k < 12 \<Longrightarrow> month_lengths y ! k \<le> 31"
  by (auto simp: month_lengths_def less_Suc_eq numeral_eq_Suc)

lemma read_char_same [simp]: "read_char c (c # r) = Some r"
  by (simp add: read_char_def)

lemma read_next_pad: "n < 100 \<Longrightarrow> read_next c dflt (c # pad_nat 2 n @ r) = Some (n, r)"
  by (simp add: read_next_def read_field_pad)

lemma read_millis_pad: "n < 1000 \<Longrightarrow> \<not> is_digit_char c \<Longrightarrow>
  read_millis (CHR ''.'' # pad_nat 3 n @ c # r) = Some (n, c # r)"
proof -
  assume n: "n < 1000" and c: "\<not> is_digit_char c"
  have "\<And>x. x \<in> set (pad_nat 3 n) \<Longrightarrow> is_digit_char x"
    using pad_nat_digits [of 3 n] by (simp add: list_all_iff)
  then have "takeWhile is_digit_char (pad_nat 3 n @ c # r) = pad_nat 3 n"
    "dropWhile is_digit_char (pad_nat 3 n @ c # r) = c # r"
    using c by (simp_all add: takeWhile_append2 dropWhile_append2)
  moreover have "length (pad_nat 3 n) = 3" using n by simp
  then have "pad_nat 3 n \<noteq> []" by auto
  ultimately show ?thesis
    using n by (simp add: read_millis_def Let_def)
qed

lemma read_year_pad: "n < 10000 \<Longrightarrow> read_year (pad_nat 4 n @ r) = Some (int n, r)"
proof -
  assume n: "n < 10000"
  have "length (pad_nat 4 n) = 4" using n by simp
  then obtain c cs where cs: "pad_nat 4 n = c # cs" by (cases "pad_nat 4 n") auto
  have "is_digit_char c" using pad_nat_digits [of 4 n] by (simp add: cs)
  then have "c \<noteq> CHR ''+''" "c \<noteq> CHR ''-''" by (auto simp: is_digit_char_def)
  then show ?thesis
    using read_field_pad [of n 4 r] n by (simp add: read_year_def cs)
qed

lemma read_time_print:
  assumes "ms < 86400000"
  shows "read_time (pad_nat 2 (ms div 3600000) @ CHR '':'' # pad_nat 2 (ms div 60000 mod 60) @ CHR '':'' #
     pad_nat 2 (ms div 1000 mod 60) @ CHR ''.'' # pad_nat 3 (ms mod 1000) @ ''Z'') = Some (ms, 0)"
proof -
  have h: "ms div 3600000 < 24" using assms by (simp add: less_mult_imp_div_less)
  have f: "ms div 60000 mod 60 < 60" "ms div 1000 mod 60 < 60" "ms mod 1000 < 1000" by simp_all
  have nf: "\<not> 59 < ms div 60000 mod 60" "\<not> 59 < ms div 1000 mod 60" using f by linarith+
  have z: "\<not> is_digit_char CHR ''Z''" by (simp add: is_digit_char_def)
  have t: "ms div 3600000 * 3600000 + ms div 60000 mod 60 * 60000 + ms div 1000 mod 60 * 1000 + ms mod 1000 = ms"
    using assms by (rule millis_of_day)
  show ?thesis
    unfolding read_time_def
    using h f nf assms read_millis_pad [OF f(3) z, of "[]"]
    by (simp add: read_field_pad read_next_pad t Let_def read_zone_def)
qed

lemma date_parse_iso_string:
  assumes lo: "- 719528 * ms_per_day \<le> t" and hi: "t < 2932897 * ms_per_day"
  shows "date_parse (iso_string t) = Some t"
proof -
  define day where "day = t div ms_per_day"
  define ms where "ms = nat (t mod ms_per_day)"
  define y where "y = year_from_day day"
  have day: "- 719528 \<le> day" "day < 2932897"
    using lo hi unfolding day_def ms_per_day_def by auto
  have y: "day_from_year y \<le> day" "day < day_from_year (y + 1)"
    using year_from_day_bounds by (auto simp: y_def)
  have d0: "day_from_year 0 = - 719528" and d1: "day_from_year 10000 = 2932897"
    by (simp_all add: day_from_year_def)
  have y0: "0 \<le> y"
    using y(2) day(1) d0 day_from_year_less [of "y + 1" 0] by (cases "y + 1" "0 :: int" rule: linorder_cases) auto
  have y1: "y \<le> 9999"
    using y(1) day(2) d1 day_from_year_less [of 10000 y] by (cases y "10000 :: int" rule: linorder_cases) auto
  obtain k r where kr: "split_months (month_lengths y) (day - day_from_year y) = (k, r)"
    by (cases "split_months (month_lengths y) (day - day_from_year y)")
  have sp: "k < 12" "0 \<le> r" "r < month_lengths y ! k"
    "day - day_from_year y = sum_list (take k (month_lengths y)) + r"
    using split_months_spec [OF kr] y by (auto simp: sum_month_lengths day_from_year_Suc)
      (simp_all add: month_lengths_def)
  have r31: "nat r < 31" using sp(1-3) month_lengths_le [of k y] by simp
  have ms: "ms < 86400000" by (simp add: ms_def ms_per_day_def nat_less_iff)
  have yn: "nat y < 10000" "int (nat y) = y" using y0 y1 by auto
  have t: "t = day * ms_per_day + int ms"
    unfolding day_def ms_def by (simp add: ms_per_day_def)
  have mk: "make_time y (Suc k) (Suc (nat r)) ms 0 = Some t"
  proof -
    have "\<bar>t\<bar> \<le> max_time" using lo hi by (simp add: ms_per_day_def max_time_def)
    moreover have "day_from_year y + sum_list (take k (month_lengths y)) + int (Suc (nat r)) - 1 = day"
      using sp by simp
    ultimately show ?thesis
      unfolding make_time_def diff_Suc_1 using sp(1) r31 t by simp
  qed
  have iso: "iso_string t = pad_nat 4 (nat y) @ CHR ''-'' # pad_nat 2 (Suc k) @ CHR ''-'' #
      pad_nat 2 (Suc (nat r)) @ CHR ''T'' # pad_nat 2 (ms div 3600000) @ CHR '':'' #
      pad_nat 2 (ms div 60000 mod 60) @ CHR '':'' # pad_nat 2 (ms div 1000 mod 60) @ CHR ''.'' #
      pad_nat 3 (ms mod 1000) @ ''Z''"
    using kr y0 y1 by (simp add: iso_string_def Let_def print_year_def flip: day_def ms_def y_def)
  show ?thesis
    unfolding iso date_parse_def read_year_pad [OF yn(1)]
    using read_time_print [OF ms] sp(1) r31 yn mk by (simp add: read_next_pad)
qed

text \<open>
  The years 0 to 9999, in which the printed timestamp has a four-digit year.
\<close>

definition four_digit_time :: "int \<Rightarrow> bool" where
  "four_digit_time t \<longleftrightarrow> - 62167219200000 \<le> t \<and> t < 253402300800000"

lemma toISOString_four_digit: "four_digit_time t \<Longrightarrow> toISOString t = Inr (iso_string t)"
  by (auto simp: toISOString_def four_digit_time_def max_time_def abs_le_iff)

lemma date_parse_iso [simp]: "four_digit_time t \<Longrightarrow> date_parse (iso_string t) = Some t"
  by (rule date_parse_iso_string) (simp_all add: four_digit_time_def ms_per_day_def)

lemma toISOString_four_digit_parse:
  "four_digit_time t \<Longrightarrow> toISOString t = Inr s \<Longrightarrow> date_parse s = Some t"
  by (auto simp: toISOString_four_digit)

interpretation iso: roundtrip_codec iso_string
  "\<lambda>s. case date_parse s of None \<Rightarrow> Inl (RangeError ''Invalid time value'') | Some t \<Rightarrow> Inr t" four_digit_time
  by unfold_locales simp

lemma iso_string_inj: "four_digit_time s \<Longrightarrow> four_digit_time t \<Longrightarrow> iso_string s = iso_string t \<longleftrightarrow> s = t"
  by (rule iso.enc_inj)

end
