(* ===== verification/CanonicalJson.thy ===== *)
theory CanonicalJson
  imports JsValues "HOL-Library.Multiset"
begin

section \<open>Canonical JSON (src/canonical-json.ts)\<close>

text \<open>
  \<open>js_normalize\<close> is \<open>normalize\<close>: it checks that a value is a tree of plain JSON and rebuilds every
  object by assigning its members in sorted key order; \<open>canonicalJson\<close> prints the result.
\<close>

definition sort_entries :: "(string \<times> 'a) list \<Rightarrow> (string \<times> 'a) list" where
  "sort_entries kvs = sort_key fst kvs"

lemma set_sort_entries [simp]: "set (sort_entries kvs) = set kvs"
  by (simp add: sort_entries_def)

fun js_normalize :: "js \<Rightarrow> js res" where
  "js_normalize JNull = Inr JNull"
| "js_normalize (JStr s) = Inr (JStr s)"
| "js_normalize (JBool b) = Inr (JBool b)"
| "js_normalize (JNum n) =
     (if \<not> isFinite n then Inl (Error ''Non-finite JSON number'') else Inr (JNum n))"
| "js_normalize (JArr xs) = bindE (mapE js_normalize xs) (\<lambda>ys. Inr (JArr ys))"
| "js_normalize (JObj kvs) =
     bindE (mapE (\<lambda>(k, child). bindE (js_normalize child) (\<lambda>n. Inr (k, n)))
              (filter (\<lambda>(k, child). child \<noteq> JUndefined) (sort_entries kvs)))
       (\<lambda>out. Inr (JObj (own_keys_order (foldl assign_member [] out))))"
| "js_normalize (JBytes _) = Inl (Error ''Value is not plain JSON; use opaque bytes or an explicit bodyInput kind'')"
| "js_normalize (JForeign t) = (if t = ''object''
     then Inl (Error ''Value is not plain JSON; use opaque bytes or an explicit bodyInput kind'')
     else Inl (Error (''Value is not canonical JSON: '' @ t)))"
| "js_normalize JUndefined = Inl (Error ''Value is not canonical JSON: undefined'')"

fun isPlainJsonValue :: "js \<Rightarrow> bool" where
  "isPlainJsonValue JNull = True"
| "isPlainJsonValue (JStr s) = True"
| "isPlainJsonValue (JBool b) = True"
| "isPlainJsonValue (JNum n) = isFinite n"
| "isPlainJsonValue (JArr xs) = list_all isPlainJsonValue xs"
| "isPlainJsonValue (JObj kvs) = list_all (\<lambda>(k, v). isPlainJsonValue v) kvs"
| "isPlainJsonValue _ = False"

definition canonicalJson :: "js \<Rightarrow> string res" where
  "canonicalJson v = bindE (js_normalize v) (\<lambda>n. Inr (stringify n))"

text \<open>The explicit inputs of a body digest.\<close>

datatype RequestBodyDigestInput =
    BodyAbsent
  | BodyEmpty
  | BodyJson js
  | BodyOpaque bytes
  | BodyPrecomputed string
  | BodyStream

definition bodyInputFromPlainJsonBody :: "js \<Rightarrow> RequestBodyDigestInput res" where
  "bodyInputFromPlainJsonBody body =
     (case body of
        JUndefined \<Rightarrow> Inr BodyAbsent
      | JStr s \<Rightarrow> (if s = [] then Inr BodyEmpty
          else Inl (Error ''String bodies must be supplied as opaque bytes or precomputed digests''))
      | JBytes bs \<Rightarrow> Inr (if bs = [] then BodyEmpty else BodyOpaque bs)
      | JArr xs \<Rightarrow> (if \<not> isPlainJsonValue body
          then Inl (Error ''Non-JSON object bodies must use opaque bytes or a precomputed digest'')
          else Inr (BodyJson body))
      | JObj kvs \<Rightarrow> (if \<not> isPlainJsonValue body
          then Inl (Error ''Non-JSON object bodies must use opaque bytes or a precomputed digest'')
          else Inr (BodyJson body))
      | JForeign t \<Rightarrow> (if t = ''object''
          then Inl (Error ''Non-JSON object bodies must use opaque bytes or a precomputed digest'')
          else Inl (Error (''Unsupported request body type: '' @ t)))
      | _ \<Rightarrow> Inl (Error (''Unsupported request body type: '' @ typeof body)))"

subsection \<open>Independence of the order of members\<close>

text \<open>
  \<open>same_data v w\<close>: the two values differ at most in the order in which objects list their members
  and in members that are \<open>undefined\<close>.
\<close>

definition defined_members :: "(string \<times> js) list \<Rightarrow> (string \<times> js) list" where
  "defined_members kvs = filter (\<lambda>(k, child). child \<noteq> JUndefined) kvs"

inductive same_data :: "js \<Rightarrow> js \<Rightarrow> bool" where
  same_refl: "same_data v v"
| same_arr: "list_all2 same_data xs ys \<Longrightarrow> same_data (JArr xs) (JArr ys)"
| same_obj: "distinct (map fst kvs) \<Longrightarrow> mset (defined_members kvs) = mset kvs2 \<Longrightarrow>
    list_all2 (rel_prod (=) same_data) kvs2 (defined_members kvs') \<Longrightarrow>
    same_data (JObj kvs) (JObj kvs')"

lemma insort_key_rel:
  "R x y \<Longrightarrow> list_all2 R xs ys \<Longrightarrow> (\<And>a b. R a b \<Longrightarrow> f a = f b) \<Longrightarrow>
   list_all2 R (insort_key f x xs) (insort_key f y ys)"
  by (induction xs arbitrary: ys) (auto simp: list_all2_Cons1)

lemma sort_key_rel:
  "list_all2 R xs ys \<Longrightarrow> (\<And>a b. R a b \<Longrightarrow> f a = f b) \<Longrightarrow>
   list_all2 R (sort_key f xs) (sort_key f ys)"
proof (induction xs ys rule: list_all2_induct)
  case (Cons x xs y ys)
  then show ?case using insort_key_rel [of R x y "sort_key f xs" "sort_key f ys" f] by simp
qed simp

lemma sort_entries_mset:
  assumes "mset kvs = mset kvs2" "distinct (map fst kvs)"
  shows "sort_entries kvs = sort_entries kvs2"
proof -
  have "inj_on fst (set kvs)" using assms(2) by (simp add: distinct_map)
  moreover have "mset kvs = mset (sort_key fst kvs2)" using assms(1) by simp
  ultimately show ?thesis
    unfolding sort_entries_def by (metis sort_key_inj_key_eq sorted_sort_key)
qed

lemma defined_sort_entries: "defined_members (sort_entries kvs) = sort_entries (defined_members kvs)"
  by (simp add: defined_members_def sort_entries_def filter_sort)

lemma mapE_rel:
  assumes "list_all2 (\<lambda>x y. f x = g y) xs ys"
  shows "mapE f xs = mapE g ys"
  using assms by (induction xs ys) auto

lemma normalize_same_data: "same_data v w \<Longrightarrow> js_normalize v = js_normalize w"
proof (induction rule: same_data.induct)
  case (same_refl v)
  then show ?case by simp
next
  case (same_arr xs ys)
  then have "mapE js_normalize xs = mapE js_normalize ys"
    by (intro mapE_rel) (auto elim: list.rel_mono_strong)
  then show ?case by simp
next
  case (same_obj kvs kvs2 kvs')
  let ?f = "\<lambda>(k, child). bindE (js_normalize child) (\<lambda>n. Inr (k :: string, n))"
  have "distinct (map fst (defined_members kvs))"
    unfolding defined_members_def by (rule distinct_filter_keys) (rule same_obj)
  then have "sort_entries (defined_members kvs) = sort_entries kvs2"
    using same_obj(2) by (rule sort_entries_mset [rotated])
  moreover have "list_all2 (\<lambda>x y. fst x = fst y \<and> js_normalize (snd x) = js_normalize (snd y))
      (sort_entries kvs2) (sort_entries (defined_members kvs'))"
    unfolding sort_entries_def using same_obj(3)
    by (intro sort_key_rel) (auto elim: list.rel_mono_strong)
  then have "mapE ?f (sort_entries kvs2) = mapE ?f (sort_entries (defined_members kvs'))"
    by (intro mapE_rel) (auto elim!: list.rel_mono_strong)
  ultimately show ?case
    using defined_sort_entries by (simp add: defined_members_def)
qed

end
