(* ===== verification/Types.thy ===== *)
theory Types
  imports DateTime CanonicalJson
begin

section \<open>Protocol types (src/types.ts)\<close>

text \<open>
  The wire and store types of the protocol.  Field names carry a prefix per record; optional fields
  are \<open>option\<close>, string unions are datatypes, provider-native material is \<open>js\<close>.
\<close>

definition X424_VERSION :: string where
  "X424_VERSION = ''0.1''"

type_synonym IsoTimestamp = string

datatype VerificationMode = Backend | Offchain | Onchain | Hybrid

datatype UniquenessScopeKind = Global | RelyingParty | Action | Session

record UniquenessScope =
  us_kind :: UniquenessScopeKind
  us_id :: string

datatype MethodStatus = Enabled | Disabled

record HumanMethodDescriptor =
  d_providerId :: string
  d_methodId :: string
  d_version :: string
  d_status :: MethodStatus
  d_claim :: string
  d_nonClaims :: "string list"
  d_assuranceLevels :: "string list"
  d_nativeScopeKinds :: "UniquenessScopeKind list"
  d_verificationModes :: "VerificationMode list"
  d_pairwisePseudonym :: bool
  d_replaySemantics :: string
  d_recoverySemantics :: string
  d_privacy :: string

record HumanMethodRequirement =
  m_providerId :: string
  m_methodId :: string
  m_descriptorVersion :: string
  m_assuranceLevel :: "string option"
  m_acceptedScopeKinds :: "UniquenessScopeKind list"
  m_maximumProofAgeSeconds :: "int option"
  m_verificationModes :: "VerificationMode list option"

datatype BindingKind = BindRequest | BindWallet | BindAgentKey | BindSession

record HumanBinding =
  b_kind :: BindingKind
  b_value :: string

record ProtectedResource =
  pr_method :: string
  pr_uri :: string
  pr_audience :: string
  pr_requestDigest :: string

record HumanRequirement =
  rq_x424Version :: string
  rq_dependencyId :: string
  rq_purpose :: string
  rq_resource :: ProtectedResource
  rq_nonce :: string
  rq_binding :: HumanBinding
  rq_createdAt :: IsoTimestamp
  rq_expiresAt :: IsoTimestamp
  rq_accepts :: "HumanMethodRequirement list"
  rq_providerRequests :: "(string \<times> js) list option"

record HumanProofSubmission =
  pf_x424Version :: string
  pf_dependencyId :: string
  pf_providerId :: string
  pf_methodId :: string
  pf_binding :: HumanBinding
  pf_nativeProof :: js

datatype ReplayMode = ReplayProvider | ReplayVerifier

record ProviderVerifiedHuman =
  v_providerId :: string
  v_methodId :: string
  v_descriptorVersion :: string
  v_assuranceLevel :: "string option"
  v_providerSubject :: string
  v_uniquenessScope :: UniquenessScope
  v_verificationMode :: VerificationMode
  v_providerReplayMode :: "ReplayMode option"
  v_proofDigest :: string
  v_verifiedAt :: IsoTimestamp
  v_expiresAt :: "IsoTimestamp option"
  v_stateReferences :: "string list option"

record HumanResult =
  rs_x424Version :: string
  rs_resultId :: string
  rs_dependencyId :: string
  rs_purpose :: string
  rs_audience :: string
  rs_requestDigest :: string
  rs_binding :: HumanBinding
  rs_providerId :: string
  rs_methodId :: string
  rs_descriptorVersion :: string
  rs_assuranceLevel :: "string option"
  rs_pairwiseHumanId :: string
  rs_uniquenessScope :: UniquenessScope
  rs_verificationMode :: VerificationMode
  rs_proofDigest :: string
  rs_claim :: string
  rs_nonClaims :: "string list"
  rs_verifiedAt :: IsoTimestamp
  rs_issuedAt :: IsoTimestamp
  rs_expiresAt :: IsoTimestamp
  rs_stateReferences :: "string list option"

datatype HumanFailureCode =
    ASSURANCE_NOT_ACCEPTED
  | AUDIENCE_MISMATCH
  | BINDING_MISMATCH
  | CLAIM_MISMATCH
  | DEPENDENCY_MISMATCH
  | DESCRIPTOR_VERSION_MISMATCH
  | EXPIRED
  | FUTURE_TIMESTAMP
  | METHOD_DISABLED
  | METHOD_NOT_ACCEPTED
  | METHOD_UNKNOWN
  | PROOF_STALE
  | PURPOSE_MISMATCH
  | REQUEST_DIGEST_MISMATCH
  | SCOPE_NOT_ACCEPTED
  | TIME_WINDOW_INVALID
  | VERIFICATION_MODE_NOT_ACCEPTED

record HumanFailure =
  f_code :: HumanFailureCode
  f_detail :: string

record HumanEvaluation =
  ev_satisfied :: bool
  ev_failures :: "HumanFailure list"

record ProviderReplayEntry =
  pe_providerId :: string
  pe_methodId :: string
  pe_uniquenessScope :: UniquenessScope
  pe_subjectDigest :: string

datatype ResultAcceptanceStatus = AcceptNew | SameOperation | Replay

record ResultAcceptanceInput =
  ra_resultId :: string
  ra_operationId :: string
  ra_requestDigest :: string
  ra_expiresAt :: IsoTimestamp

text \<open>The wire spelling of the string unions.\<close>

fun scope_kind_text :: "UniquenessScopeKind \<Rightarrow> string" where
  "scope_kind_text Global = ''global''"
| "scope_kind_text RelyingParty = ''relying_party''"
| "scope_kind_text Action = ''action''"
| "scope_kind_text Session = ''session''"

fun binding_kind_text :: "BindingKind \<Rightarrow> string" where
  "binding_kind_text BindRequest = ''request''"
| "binding_kind_text BindWallet = ''wallet''"
| "binding_kind_text BindAgentKey = ''agent_key''"
| "binding_kind_text BindSession = ''session''"

fun verification_mode_text :: "VerificationMode \<Rightarrow> string" where
  "verification_mode_text Backend = ''backend''"
| "verification_mode_text Offchain = ''offchain''"
| "verification_mode_text Onchain = ''onchain''"
| "verification_mode_text Hybrid = ''hybrid''"

end
