(* ===== verification/Catalog.thy ===== *)
theory Catalog
  imports Types
begin

section \<open>Method catalogs (src/catalog.ts)\<close>

text \<open>
  A catalog maps \<open>methodKey\<close>s to descriptors.  The identifier grammar excludes the separator \<open>:\<close>, so
  a key names one provider and one method.
\<close>

definition is_identifier_head :: "char \<Rightarrow> bool" where
  "is_identifier_head c \<longleftrightarrow> is_lower_char c \<or> is_digit_char c"

definition is_identifier_char :: "char \<Rightarrow> bool" where
  "is_identifier_char c \<longleftrightarrow> is_identifier_head c \<or> c \<in> {CHR ''.'', CHR ''_'', CHR ''-''}"

definition isHumanMethodIdentifier :: "string \<Rightarrow> bool" where
  "isHumanMethodIdentifier v \<longleftrightarrow> (case v of [] \<Rightarrow> False
     | c # cs \<Rightarrow> is_identifier_head c \<and> list_all is_identifier_char cs \<and> length cs \<le> 99)"

definition methodKey :: "string \<Rightarrow> string \<Rightarrow> string" where
  "methodKey providerId methodId = providerId @ '':'' @ methodId"

type_synonym catalog = "(string \<times> HumanMethodDescriptor) list"

definition catalog_add :: "catalog \<Rightarrow> HumanMethodDescriptor \<Rightarrow> catalog res" where
  "catalog_add cat d =
     (let key = methodKey (d_providerId d) (d_methodId d)
      in if map_of cat key \<noteq> None then Inl (Error (''Duplicate human method: '' @ key))
         else if \<not> isHumanMethodIdentifier (d_providerId d) \<or>
             \<not> isHumanMethodIdentifier (d_methodId d) \<or> d_version d = []
           then Inl (Error (''Human method identifiers are invalid: '' @ key))
         else if d_claim d = [] \<or> d_nonClaims d = []
           then Inl (Error (''Human method must declare claim and non-claims: '' @ key))
         else if d_nativeScopeKinds d = [] \<or> d_verificationModes d = []
           then Inl (Error (''Human method must declare scope and execution: '' @ key))
         else Inr (AList.update key d cat))"

definition defineMethodCatalog :: "HumanMethodDescriptor list \<Rightarrow> catalog res" where
  "defineMethodCatalog descriptors = foldE catalog_add [] descriptors"

text \<open>\<open>catalog.get(methodKey(...))\<close>.\<close>

definition catalog_get :: "catalog \<Rightarrow> string \<Rightarrow> string \<Rightarrow> HumanMethodDescriptor option" where
  "catalog_get cat providerId methodId = map_of cat (methodKey providerId methodId)"

subsection \<open>Keys\<close>

lemma not_identifier_colon: "\<not> is_identifier_char CHR '':''"
  by (simp add: is_identifier_char_def is_identifier_head_def is_lower_char_def is_digit_char_def)

lemma identifier_no_colon: "isHumanMethodIdentifier v \<Longrightarrow> CHR '':'' \<notin> set v"
  using not_identifier_colon
  by (auto simp: isHumanMethodIdentifier_def list_all_iff is_identifier_char_def split: list.splits)

lemma identifier_not_Nil: "isHumanMethodIdentifier v \<Longrightarrow> v \<noteq> []"
  by (auto simp: isHumanMethodIdentifier_def)

lemma methodKey_inj_no_colon:
  assumes "CHR '':'' \<notin> set p" "CHR '':'' \<notin> set p'"
  shows "methodKey p m = methodKey p' m' \<longleftrightarrow> p = p' \<and> m = m'"
proof
  assume "methodKey p m = methodKey p' m'"
  then have eq: "p @ CHR '':'' # m = p' @ CHR '':'' # m'" by (simp add: methodKey_def)
  have "takeWhile (\<lambda>c. c \<noteq> CHR '':'') (p @ CHR '':'' # m) = p"
    "takeWhile (\<lambda>c. c \<noteq> CHR '':'') (p' @ CHR '':'' # m') = p'"
    using assms by (subst takeWhile_append2; force)+
  with eq show "p = p' \<and> m = m'" by simp
qed simp

subsection \<open>Well-formed catalogs\<close>

definition wf_descriptor :: "HumanMethodDescriptor \<Rightarrow> bool" where
  "wf_descriptor d \<longleftrightarrow> isHumanMethodIdentifier (d_providerId d) \<and> isHumanMethodIdentifier (d_methodId d) \<and>
     d_version d \<noteq> [] \<and> d_claim d \<noteq> [] \<and> d_nonClaims d \<noteq> [] \<and> d_nativeScopeKinds d \<noteq> [] \<and>
     d_verificationModes d \<noteq> []"

definition descriptor_key :: "HumanMethodDescriptor \<Rightarrow> string" where
  "descriptor_key d = methodKey (d_providerId d) (d_methodId d)"

lemma catalog_add_eq_Inr:
  "catalog_add cat d = Inr cat' \<longleftrightarrow>
   map_of cat (descriptor_key d) = None \<and> wf_descriptor d \<and> cat' = cat @ [(descriptor_key d, d)]"
proof -
  have "map_of cat k = None \<Longrightarrow> AList.update k d cat = cat @ [(k, d)]" for k
    by (simp add: update_fresh map_of_eq_None_iff)
  then show ?thesis
    by (auto simp: catalog_add_def descriptor_key_def wf_descriptor_def Let_def split: if_splits)
qed

lemma catalog_fold:
  "foldE catalog_add cat ds = Inr cat' \<longleftrightarrow>
   distinct (map descriptor_key ds) \<and> list_all wf_descriptor ds \<and>
   (\<forall>d \<in> set ds. map_of cat (descriptor_key d) = None) \<and>
   cat' = cat @ map (\<lambda>d. (descriptor_key d, d)) ds"
proof (induction ds arbitrary: cat)
  case (Cons d ds)
  show ?case
    by (auto simp: catalog_add_eq_Inr Cons map_of_eq_None_iff image_iff)
qed auto

lemma defineMethodCatalog_eq_Inr:
  "defineMethodCatalog ds = Inr cat \<longleftrightarrow>
   distinct (map descriptor_key ds) \<and> list_all wf_descriptor ds \<and> cat = map (\<lambda>d. (descriptor_key d, d)) ds"
  by (simp add: defineMethodCatalog_def catalog_fold)

lemma catalog_get_iff:
  assumes "defineMethodCatalog ds = Inr cat" "CHR '':'' \<notin> set p"
  shows "catalog_get cat p m = Some d \<longleftrightarrow> d \<in> set ds \<and> d_providerId d = p \<and> d_methodId d = m"
proof -
  from assms(1) have cat: "cat = map (\<lambda>d. (descriptor_key d, d)) ds" "distinct (map fst cat)"
    and wf: "list_all wf_descriptor ds"
    by (auto simp: defineMethodCatalog_eq_Inr comp_def)
  have "catalog_get cat p m = Some d \<longleftrightarrow> (methodKey p m, d) \<in> set cat"
    using cat(2) by (simp add: catalog_get_def map_of_eq_Some_iff)
  also have "\<dots> \<longleftrightarrow> d \<in> set ds \<and> methodKey p m = descriptor_key d" by (auto simp: cat(1))
  also have "\<dots> \<longleftrightarrow> d \<in> set ds \<and> d_providerId d = p \<and> d_methodId d = m"
    using wf assms(2) methodKey_inj_no_colon identifier_no_colon
    by (auto simp: list_all_iff wf_descriptor_def descriptor_key_def)
  finally show ?thesis .
qed

lemma catalog_get_wf:
  "defineMethodCatalog ds = Inr cat \<Longrightarrow> catalog_get cat p m = Some d \<Longrightarrow> wf_descriptor d"
  by (auto simp: defineMethodCatalog_eq_Inr catalog_get_def list_all_iff dest!: map_of_SomeD)

subsection \<open>Properties\<close>

text \<open>
  A catalog is defined exactly when the descriptors have pairwise different keys and each one has
  valid identifiers, a version, a claim with at least one non-claim, and a scope and an execution
  mode; the catalog then holds each descriptor under its own key, in the order given.
\<close>

theorem defineMethodCatalog_exact:
  "defineMethodCatalog ds = Inr cat \<longleftrightarrow>
   distinct (map descriptor_key ds) \<and> list_all wf_descriptor ds \<and> cat = map (\<lambda>d. (descriptor_key d, d)) ds"
  by (rule defineMethodCatalog_eq_Inr)

text \<open>
  Looking a method up returns the one descriptor that declares that provider and method, even when
  the method identifier comes from outside and contains the separator: two methods are never
  confused through their keys.
\<close>

theorem catalog_get_exact:
  assumes "defineMethodCatalog ds = Inr cat" "isHumanMethodIdentifier p"
  shows "catalog_get cat p m = Some d \<longleftrightarrow> d \<in> set ds \<and> d_providerId d = p \<and> d_methodId d = m"
  using assms(1) identifier_no_colon [OF assms(2)] by (rule catalog_get_iff)

definition sample_descriptor :: HumanMethodDescriptor where
  "sample_descriptor = \<lparr>d_providerId = ''world-id'', d_methodId = ''orb'', d_version = ''4.0'',
     d_status = Enabled, d_claim = ''unique human'', d_nonClaims = [''legal identity''],
     d_assuranceLevels = [''orb''], d_nativeScopeKinds = [Action], d_verificationModes = [Backend],
     d_pairwisePseudonym = True, d_replaySemantics = ''once'', d_recoverySemantics = ''none'',
     d_privacy = ''zk''\<rparr>"

theorem catalog_get_exact_witness:
  "catalog_get [(''world-id:orb'', sample_descriptor)] ''world-id'' ''orb'' = Some sample_descriptor \<longleftrightarrow>
   sample_descriptor \<in> set [sample_descriptor] \<and> d_providerId sample_descriptor = ''world-id'' \<and>
   d_methodId sample_descriptor = ''orb''"
  by (rule catalog_get_exact) code_simp+

end
