(* ===== verification/Validation.thy ===== *)
theory Validation
  imports Catalog
begin

section \<open>Proof and requirement checks (src/validation.ts)\<close>

text \<open>
  \<open>acceptedMethodForProof\<close> selects the accepted method a proof submission names;
  \<open>assertRequirementCurrent\<close> decides whether a stored requirement may still be satisfied at a time.
\<close>

definition isRecord :: "js \<Rightarrow> bool" where
  "isRecord v \<longleftrightarrow> typeof v = ''object'' \<and> v \<noteq> JNull \<and> (case v of JArr _ \<Rightarrow> False | _ \<Rightarrow> True)"

definition sameText :: "string \<Rightarrow> string \<Rightarrow> bool" where
  "sameText left right =
     (let a = utf8_encode left; b = utf8_encode right in length a = length b \<and> a = b)"

definition sameBinding :: "HumanBinding \<Rightarrow> HumanBinding \<Rightarrow> bool" where
  "sameBinding left right \<longleftrightarrow> b_kind left = b_kind right \<and> sameText (b_value left) (b_value right)"

definition acceptedMethodForProof ::
  "HumanRequirement \<Rightarrow> HumanProofSubmission \<Rightarrow> HumanMethodRequirement res" where
  "acceptedMethodForProof requirement proof =
     (if pf_x424Version proof \<noteq> X424_VERSION
      then Inl (Error (''Unsupported x424 version: '' @ pf_x424Version proof))
      else if \<not> sameText (pf_dependencyId proof) (rq_dependencyId requirement)
      then Inl (Error ''Human proof is for another dependency'')
      else if \<not> sameBinding (pf_binding proof) (rq_binding requirement)
      then Inl (Error ''Human proof caller binding does not match'')
      else case List.find (\<lambda>candidate. m_providerId candidate = pf_providerId proof \<and>
             m_methodId candidate = pf_methodId proof) (rq_accepts requirement) of
        None \<Rightarrow> Inl (Error (''Human method is not accepted: '' @ pf_providerId proof @ '':'' @ pf_methodId proof))
      | Some accepted \<Rightarrow> Inr accepted)"

definition assertRequirementCurrent :: "HumanRequirement \<Rightarrow> int \<Rightarrow> unit res" where
  "assertRequirementCurrent requirement now =
     throwIf (case (date_parse (rq_createdAt requirement), date_parse (rq_expiresAt requirement)) of
         (Some createdAt, Some expiresAt) \<Rightarrow>
           rq_x424Version requirement \<noteq> X424_VERSION \<or> rq_dependencyId requirement = [] \<or>
           rq_nonce requirement = [] \<or> rq_accepts requirement = [] \<or>
           now < createdAt \<or> expiresAt \<le> now \<or> expiresAt \<le> createdAt
       | _ \<Rightarrow> True)
       (Error ''Human requirement is invalid or expired'')"

lemma sameText_eq [simp]: "sameText a b \<longleftrightarrow> a = b"
  using utf8.enc_inj [of a b] by (auto simp: sameText_def Let_def)

lemma sameBinding_eq [simp]: "sameBinding a b \<longleftrightarrow> a = b"
  by (cases a; cases b) (simp add: sameBinding_def)

text \<open>The first accepted method of a provider and method identifier.\<close>

definition accepted_method :: "HumanRequirement \<Rightarrow> string \<Rightarrow> string \<Rightarrow> HumanMethodRequirement option" where
  "accepted_method requirement p m =
     List.find (\<lambda>c. m_providerId c = p \<and> m_methodId c = m) (rq_accepts requirement)"

lemma accepted_method_SomeD:
  "accepted_method r p m = Some a \<Longrightarrow> a \<in> set (rq_accepts r) \<and> m_providerId a = p \<and> m_methodId a = m"
  by (auto simp: accepted_method_def find_Some_iff)

lemma accepted_method_None:
  "accepted_method r p m = None \<longleftrightarrow> (\<forall>a \<in> set (rq_accepts r). \<not> (m_providerId a = p \<and> m_methodId a = m))"
  by (auto simp: accepted_method_def find_None_iff)

lemma acceptedMethodForProof_eq_Inr:
  "acceptedMethodForProof r pf = Inr a \<longleftrightarrow>
   pf_x424Version pf = X424_VERSION \<and> pf_dependencyId pf = rq_dependencyId r \<and>
   pf_binding pf = rq_binding r \<and> accepted_method r (pf_providerId pf) (pf_methodId pf) = Some a"
  by (auto simp: acceptedMethodForProof_def accepted_method_def split: option.splits)

lemma assertRequirementCurrent_eq_Inr:
  "assertRequirementCurrent r now = Inr u \<longleftrightarrow>
   (\<exists>c e. date_parse (rq_createdAt r) = Some c \<and> date_parse (rq_expiresAt r) = Some e \<and>
      rq_x424Version r = X424_VERSION \<and> rq_dependencyId r \<noteq> [] \<and> rq_nonce r \<noteq> [] \<and>
      rq_accepts r \<noteq> [] \<and> c \<le> now \<and> now < e)"
  by (auto simp: assertRequirementCurrent_def split: option.splits)

lemma requirement_current_interval:
  "assertRequirementCurrent r s = Inr () \<Longrightarrow> assertRequirementCurrent r u = Inr () \<Longrightarrow>
   s \<le> t \<Longrightarrow> t \<le> u \<Longrightarrow> assertRequirementCurrent r t = Inr ()"
  by (auto simp: assertRequirementCurrent_eq_Inr)

end
