(* ===== verification/JsonParse.thy ===== *)
theory JsonParse
  imports CanonicalJson
begin

section \<open>JSON.parse and the canonical parser (src/canonical-json.ts, src/encoding.ts)\<close>

text \<open>
  \<open>JSON_parse\<close> is the standard's \<open>JSON.parse\<close> on the strings and numbers of the model (an escape of
  a code unit above 255 is reported as malformed).  The three mutually recursive parsers take fuel,
  one unit per call; a call for every character of the text and for every value is enough, so
  \<open>2 * length s + 2\<close> never runs out before the text does.
\<close>

definition is_json_ws :: "char \<Rightarrow> bool" where
  "is_json_ws c \<longleftrightarrow> (of_char c :: nat) \<in> {9, 10, 13, 32}"

definition skip_ws :: "string \<Rightarrow> string" where
  "skip_ws s = dropWhile is_json_ws s"

definition hex_value :: "char \<Rightarrow> nat option" where
  "hex_value c = (let n = (of_char c :: nat) in
     if 48 \<le> n \<and> n \<le> 57 then Some (n - 48) else if 97 \<le> n \<and> n \<le> 102 then Some (n - 87)
     else if 65 \<le> n \<and> n \<le> 70 then Some (n - 55) else None)"

definition hex4 :: "char \<Rightarrow> char \<Rightarrow> char \<Rightarrow> char \<Rightarrow> char option" where
  "hex4 a b c d = (case (hex_value a, hex_value b, hex_value c, hex_value d) of
     (Some p, Some q, Some r, Some s) \<Rightarrow>
       if p = 0 \<and> q = 0 then Some (char_of (r * 16 + s)) else None
   | _ \<Rightarrow> None)"

definition simple_escape :: "char \<Rightarrow> char option" where
  "simple_escape e = (let n = (of_char e :: nat) in
     if n = 34 \<or> n = 92 \<or> n = 47 then Some e else if n = 98 then Some (CHR 8)
     else if n = 116 then Some (CHR 9) else if n = 110 then Some (CHR 10)
     else if n = 102 then Some (CHR 12) else if n = 114 then Some (CHR 13) else None)"

text \<open>The rest of a string literal after its opening quote, and what follows it.\<close>

fun parse_string :: "string \<Rightarrow> (string \<times> string) option" where
  "parse_string [] = None"
| "parse_string (c # cs) =
     (if c = CHR 0x22 then Some ([], cs)
      else if c = CHR 0x5C then
        (case cs of
           [] \<Rightarrow> None
         | e # r \<Rightarrow>
             if e = CHR ''u'' then
               (case r of
                  h1 # h2 # h3 # h4 # r' \<Rightarrow>
                    (case hex4 h1 h2 h3 h4 of
                       None \<Rightarrow> None
                     | Some x \<Rightarrow> map_option (\<lambda>(t, q). (x # t, q)) (parse_string r'))
                | _ \<Rightarrow> None)
             else (case simple_escape e of
                     None \<Rightarrow> None
                   | Some x \<Rightarrow> map_option (\<lambda>(t, q). (x # t, q)) (parse_string r)))
      else if (of_char c :: nat) < 32 then None
      else map_option (\<lambda>(t, q). (c # t, q)) (parse_string cs))"

definition is_number_char :: "char \<Rightarrow> bool" where
  "is_number_char c \<longleftrightarrow> is_digit_char c \<or> c \<in> {CHR ''-'', CHR ''+'', CHR ''.'', CHR ''e'', CHR ''E''}"

text \<open>\<open>m * 10 ^ (- e)\<close> in lowest terms.\<close>

fun decimal :: "int \<Rightarrow> nat \<Rightarrow> jsnum" where
  "decimal m 0 = IntNum m"
| "decimal m (Suc e) = (if 10 dvd m then decimal (m div 10) e else DecNum m e)"

definition parse_fraction :: "string \<Rightarrow> (string \<times> string) option" where
  "parse_fraction s = (case s of
     c # r \<Rightarrow> if c = CHR ''.'' then
         (let ds = takeWhile is_digit_char r
          in if ds = [] then None else Some (ds, dropWhile is_digit_char r))
       else Some ([], s)
   | [] \<Rightarrow> Some ([], []))"

definition parse_exponent :: "string \<Rightarrow> int option" where
  "parse_exponent s = (case s of
     [] \<Rightarrow> Some 0
   | c # r \<Rightarrow>
       if c = CHR ''e'' \<or> c = CHR ''E'' then
         (let sg = (r \<noteq> [] \<and> hd r = CHR ''-'');
              ds = (if r \<noteq> [] \<and> (hd r = CHR ''-'' \<or> hd r = CHR ''+'') then tl r else r)
          in if ds = [] \<or> \<not> list_all is_digit_char ds then None
             else Some (if sg then - int (nat_of_digits ds) else int (nat_of_digits ds)))
       else None)"

definition parse_unsigned :: "string \<Rightarrow> (nat \<times> int) option" where
  "parse_unsigned s =
     (let ip = takeWhile is_digit_char s; r = dropWhile is_digit_char s
      in if ip = [] \<or> (hd ip = CHR ''0'' \<and> ip \<noteq> ''0'') then None
         else (case parse_fraction r of
            None \<Rightarrow> None
          | Some (fr, r') \<Rightarrow>
              map_option (\<lambda>e. (nat_of_digits (ip @ fr), e - int (length fr))) (parse_exponent r')))"

definition parse_number :: "string \<Rightarrow> jsnum option" where
  "parse_number tok =
     (let neg = (tok \<noteq> [] \<and> hd tok = CHR ''-'')
      in map_option (\<lambda>(m, e).
           let sm = (if neg then - int m else int m)
           in if 0 \<le> e then IntNum (sm * 10 ^ nat e) else decimal sm (nat (- e)))
         (parse_unsigned (if neg then tl tok else tok)))"

fun parse_value :: "nat \<Rightarrow> string \<Rightarrow> (js \<times> string) option"
and parse_elems :: "nat \<Rightarrow> string \<Rightarrow> (js list \<times> string) option"
and parse_members :: "nat \<Rightarrow> string \<Rightarrow> ((string \<times> js) list \<times> string) option"
where
  "parse_value 0 s = None"
| "parse_value (Suc n) s =
     (case skip_ws s of
        [] \<Rightarrow> None
      | c # cs \<Rightarrow>
          if c = CHR ''{'' then
            (if skip_ws cs \<noteq> [] \<and> hd (skip_ws cs) = CHR ''}'' then Some (JObj [], tl (skip_ws cs))
             else map_option (\<lambda>(kvs, r). (JObj (own_keys_order (foldl define_member [] kvs)), r))
                    (parse_members n cs))
          else if c = CHR ''['' then
            (if skip_ws cs \<noteq> [] \<and> hd (skip_ws cs) = CHR '']'' then Some (JArr [], tl (skip_ws cs))
             else map_option (\<lambda>(vs, r). (JArr vs, r)) (parse_elems n cs))
          else if c = CHR 0x22 then map_option (\<lambda>(t, r). (JStr t, r)) (parse_string cs)
          else if startsWith (c # cs) ''true'' then Some (JBool True, drop 3 cs)
          else if startsWith (c # cs) ''false'' then Some (JBool False, drop 4 cs)
          else if startsWith (c # cs) ''null'' then Some (JNull, drop 3 cs)
          else map_option (\<lambda>x. (JNum x, dropWhile is_number_char (c # cs)))
                 (parse_number (takeWhile is_number_char (c # cs))))"
| "parse_elems 0 s = None"
| "parse_elems (Suc n) s =
     (case parse_value n s of
        None \<Rightarrow> None
      | Some (v, r) \<Rightarrow>
          (case skip_ws r of
             [] \<Rightarrow> None
           | c # r' \<Rightarrow>
               if c = CHR '','' then map_option (\<lambda>(vs, q). (v # vs, q)) (parse_elems n r')
               else if c = CHR '']'' then Some ([v], r') else None))"
| "parse_members 0 s = None"
| "parse_members (Suc n) s =
     (case skip_ws s of
        [] \<Rightarrow> None
      | c # cs \<Rightarrow>
          if c \<noteq> CHR 0x22 then None
          else (case parse_string cs of
             None \<Rightarrow> None
           | Some (k, r) \<Rightarrow>
               (case skip_ws r of
                  [] \<Rightarrow> None
                | d # r1 \<Rightarrow>
                    if d \<noteq> CHR '':'' then None
                    else (case parse_value n r1 of
                       None \<Rightarrow> None
                     | Some (v, r2) \<Rightarrow>
                         (case skip_ws r2 of
                            [] \<Rightarrow> None
                          | d' # r3 \<Rightarrow>
                              if d' = CHR '','' then
                                map_option (\<lambda>(kvs, q). ((k, v) # kvs, q)) (parse_members n r3)
                              else if d' = CHR ''}'' then Some ([(k, v)], r3) else None)))))"

definition JSON_parse :: "string \<Rightarrow> js option" where
  "JSON_parse s = (case parse_value (2 * length s + 2) s of
     None \<Rightarrow> None
   | Some (v, r) \<Rightarrow> if skip_ws r = [] then Some v else None)"

definition decodeStrictUtf8Json :: "bytes \<Rightarrow> js res" where
  "decodeStrictUtf8Json bs = bindE (decodeStrictUtf8 bs ''UTF-8 JSON'') (\<lambda>t.
     case JSON_parse t of None \<Rightarrow> Inl (EncodingError ''Malformed JSON'') | Some v \<Rightarrow> Inr v)"

definition parseCanonicalJsonBytes :: "bytes \<Rightarrow> string \<Rightarrow> js res" where
  "parseCanonicalJsonBytes bs label = bindE (decodeStrictUtf8 bs label) (\<lambda>t.
     case JSON_parse t of
       None \<Rightarrow> Inl (Error (''Malformed '' @ label))
     | Some v \<Rightarrow> bindE (canonicalJson v) (\<lambda>t'.
         if t' \<noteq> t then Inl (Error (''Non-canonical '' @ label)) else Inr v))"

subsection \<open>Strings\<close>

lemma hex_value_digit: "d < 16 \<Longrightarrow> hex_value (hex_digit d) = Some d"
  by (auto simp: hex_value_def hex_digit_def digit_char_def Let_def)

lemma hex4_low: "n < 32 \<Longrightarrow> hex4 CHR ''0'' CHR ''0'' (hex_digit (n div 16)) (hex_digit (n mod 16)) = Some (char_of n)"
  by (simp add: hex4_def hex_value_digit less_mult_imp_div_less) (simp add: hex_value_def)

lemma char_eq_of_char: "c = d \<longleftrightarrow> (of_char c :: nat) = of_char d"
  by simp

lemma parse_string_escape:
  assumes "e \<noteq> CHR ''u''" "simple_escape e = Some x"
  shows "parse_string (CHR 0x5C # e # t) = map_option (\<lambda>(s, q). (x # s, q)) (parse_string t)"
  using assms by (subst parse_string.simps) simp

lemma parse_string_quote_char:
  "parse_string (quote_char c @ t) = map_option (\<lambda>(s, q). (c # s, q)) (parse_string t)"
proof -
  define n where "n = (of_char c :: nat)"
  have c: "c = char_of n" by (simp add: n_def)
  have s: "n \<in> {8, 9, 10, 12, 13, 34, 92} \<or> (n < 32 \<and> n \<notin> {8, 9, 10, 12, 13}) \<or>
      (32 \<le> n \<and> n \<noteq> 34 \<and> n \<noteq> 92)" by auto
  then consider "n \<in> {8, 9, 10, 12, 13, 34, 92}" | "n < 32" "n \<notin> {8, 9, 10, 12, 13}"
    | "32 \<le> n" "n \<noteq> 34" "n \<noteq> 92" by blast
  then show ?thesis
  proof cases
    case 1
    have chars: "char_of (8 :: nat) = CHR 8" "char_of (9 :: nat) = CHR 9" "char_of (10 :: nat) = CHR 10"
      "char_of (12 :: nat) = CHR 12" "char_of (13 :: nat) = CHR 13" "char_of (34 :: nat) = CHR 0x22"
      "char_of (92 :: nat) = CHR 0x5C"
      by (simp_all add: char_of_nat_eq)
    from 1 show ?thesis
      by (auto simp: chars quote_char_def c parse_string_escape simple_escape_def simp del: parse_string.simps)
  next
    case 2
    then have "quote_char c = [CHR 0x5C, CHR ''u'', CHR ''0'', CHR ''0'', hex_digit (n div 16), hex_digit (n mod 16)]"
      by (simp add: quote_char_def flip: n_def)
    then show ?thesis using hex4_low [OF 2(1)] by (simp flip: c)
  next
    case 3
    then have "quote_char c = [c]" by (simp add: quote_char_def Let_def flip: n_def)
    moreover have "c \<noteq> CHR 0x22" "c \<noteq> CHR 0x5C"
      using 3 by (auto simp: char_eq_of_char simp flip: n_def simp del: of_char_eq_iff)
    ultimately show ?thesis using 3 by (simp flip: n_def)
  qed
qed

lemma parse_string_quoted:
  "parse_string (concat (map quote_char s) @ CHR 0x22 # r) = Some (s, r)"
  by (induction s) (simp_all add: parse_string_quote_char del: parse_string.simps(2), simp)

subsection \<open>Integers\<close>

lemma not_number_delim [simp]:
  "\<not> is_number_char CHR '',''" "\<not> is_number_char CHR '']''" "\<not> is_number_char CHR ''}''"
  by (simp_all add: is_number_char_def is_digit_char_def)

lemma string_of_nat_number_chars: "list_all is_number_char (string_of_nat n)"
  using string_of_nat_digits [of n] by (simp add: list_all_iff is_number_char_def)

lemma string_of_int_number_chars: "list_all is_number_char (string_of_int i)"
  using string_of_nat_number_chars by (simp add: string_of_int_def is_number_char_def)

lemma takeWhile_all: "list_all P s \<Longrightarrow> takeWhile P s = s"
  by (simp add: list_all_iff)

lemma dropWhile_all: "list_all P s \<Longrightarrow> dropWhile P s = []"
  by (simp add: list_all_iff)

lemma digit_char_zero: "digit_char 0 = CHR ''0''"
  by (simp add: digit_char_def char_of_nat_eq)

lemma parse_unsigned_nat: "parse_unsigned (string_of_nat n) = Some (n, 0)"
proof -
  have "hd (string_of_nat n) = CHR ''0'' \<Longrightarrow> string_of_nat n = ''0''"
    using string_of_nat_no_leading_zero [of n]
    by (auto simp: digit_char_zero) (simp add: string_of_nat.simps digit_char_zero)
  then show ?thesis
    by (simp add: takeWhile_all dropWhile_all string_of_nat_digits parse_unsigned_def parse_fraction_def parse_exponent_def Let_def)
qed

lemma parse_number_int: "parse_number (string_of_int i) = Some (IntNum i)"
proof -
  have "hd (string_of_nat n) \<noteq> CHR ''-''" for n
    using string_of_nat_digits [of n]
    by (cases "string_of_nat n") (auto simp: is_digit_char_def)
  then show ?thesis
    by (simp add: parse_number_def string_of_int_def parse_unsigned_nat)
qed

subsection \<open>Parsing what stringify printed\<close>

text \<open>The values \<open>JSON_parse\<close> can return, restricted to integers.\<close>

fun json_shape :: "js \<Rightarrow> bool" where
  "json_shape JNull = True"
| "json_shape (JBool b) = True"
| "json_shape (JStr s) = True"
| "json_shape (JNum n) = (case n of IntNum _ \<Rightarrow> True | _ \<Rightarrow> False)"
| "json_shape (JArr xs) = list_all json_shape xs"
| "json_shape (JObj kvs) = (distinct (map fst kvs) \<and> own_keys_order kvs = kvs \<and>
     list_all (\<lambda>(k, v). json_shape v) kvs)"
| "json_shape _ = False"

definition delimited :: "string \<Rightarrow> bool" where
  "delimited r \<longleftrightarrow> r = [] \<or> \<not> is_number_char (hd r)"

lemma delimited_simps [simp]:
  "delimited []" "delimited (CHR '','' # r)" "delimited (CHR '']'' # r)" "delimited (CHR ''}'' # r)"
  by (simp_all add: delimited_def)

lemma skip_ws_Cons: "\<not> is_json_ws c \<Longrightarrow> skip_ws (c # s) = c # s"
  by (simp add: skip_ws_def)

lemma not_json_ws [simp]:
  "\<not> is_json_ws CHR 0x22" "\<not> is_json_ws CHR ''{''" "\<not> is_json_ws CHR ''}''" "\<not> is_json_ws CHR ''[''"
  "\<not> is_json_ws CHR '']''" "\<not> is_json_ws CHR '',''" "\<not> is_json_ws CHR '':''" "\<not> is_json_ws CHR ''t''"
  "\<not> is_json_ws CHR ''f''" "\<not> is_json_ws CHR ''n''"
  by (simp_all add: is_json_ws_def)

lemma number_char_head:
  "is_digit_char c \<or> c = CHR ''-'' \<Longrightarrow> \<not> is_json_ws c \<and>
     c \<notin> {CHR ''{'', CHR ''['', CHR 0x22, CHR ''t'', CHR ''f'', CHR ''n'', CHR '']'', CHR ''}''}"
  by (auto simp: is_json_ws_def is_digit_char_def)

lemma string_of_int_head:
  "\<exists>c cs. string_of_int i = c # cs \<and> (is_digit_char c \<or> c = CHR ''-'')"
  using string_of_nat_digits [of "nat i"]
  by (cases "string_of_nat (nat i)") (auto simp: string_of_int_def)

lemma takeWhile_delimited:
  assumes "list_all is_number_char s" "delimited r"
  shows "takeWhile is_number_char (s @ r) = s" "dropWhile is_number_char (s @ r) = r"
  using assms by (auto simp: list_all_iff takeWhile_append2 dropWhile_append2 delimited_def)
    (cases r; simp)+

lemma parse_value_int:
  assumes "delimited r"
  shows "parse_value (Suc n) (string_of_int i @ r) = Some (JNum (IntNum i), r)"
proof -
  obtain c cs where s: "string_of_int i = c # cs" and c: "is_digit_char c \<or> c = CHR ''-''"
    using string_of_int_head by blast
  have t: "takeWhile is_number_char (c # cs @ r) = string_of_int i"
    "dropWhile is_number_char (c # cs @ r) = r"
    using takeWhile_delimited [OF string_of_int_number_chars assms] by (simp_all flip: s append_Cons)
  have w: "skip_ws (string_of_int i @ r) = c # cs @ r"
    using number_char_head [OF c] by (simp add: s skip_ws_Cons)
  show ?thesis
    unfolding parse_value.simps(2) w list.case t parse_number_int
    using number_char_head [OF c] by (simp add: startsWith_def)
qed

lemma parse_elems_print:
  assumes "\<And>x n r. x \<in> set xs \<Longrightarrow> 2 * length (stringify x) \<le> n \<Longrightarrow> delimited r \<Longrightarrow>
      parse_value n (stringify x @ r) = Some (x, r)"
    and "xs \<noteq> []" "2 * length (joinWith '','' (map stringify xs)) < n"
  shows "parse_elems n (joinWith '','' (map stringify xs) @ CHR '']'' # r) = Some (xs, r)"
  using assms
proof (induction xs arbitrary: n)
  case Nil
  then show ?case by simp
next
  case (Cons x xs)
  then obtain m where n: "n = Suc m" by (cases n) auto
  show ?case
  proof (cases xs)
    case Nil
    with Cons.prems n show ?thesis by (simp add: skip_ws_Cons)
  next
    case (Cons y ys)
    have x: "parse_value m (stringify x @ CHR '','' # t) = Some (x, CHR '','' # t)" for t
      using Cons.prems n \<open>xs = y # ys\<close> by (intro Cons.prems(1)) auto
    have ih: "parse_elems m (joinWith '','' (map stringify xs) @ CHR '']'' # r) = Some (xs, r)"
      using Cons.prems n \<open>xs = y # ys\<close> by (intro Cons.IH) auto
    show ?thesis using x ih \<open>xs = y # ys\<close> n by (simp add: skip_ws_Cons)
  qed
qed

definition print_member :: "string \<times> js \<Rightarrow> string" where
  "print_member kv = json_quote (fst kv) @ '':'' @ stringify (snd kv)"

lemma parse_members_print:
  assumes "\<And>x n r. x \<in> snd ` set xs \<Longrightarrow> 2 * length (stringify x) \<le> n \<Longrightarrow> delimited r \<Longrightarrow>
      parse_value n (stringify x @ r) = Some (x, r)"
    and "xs \<noteq> []" "2 * length (joinWith '','' (map print_member xs)) < n"
  shows "parse_members n (joinWith '','' (map print_member xs) @ CHR ''}'' # r) = Some (xs, r)"
  using assms
proof (induction xs arbitrary: n)
  case Nil
  then show ?case by simp
next
  case (Cons x xs)
  obtain k v where kv: "x = (k, v)" by (cases x)
  from Cons.prems obtain m where n: "n = Suc m" by (cases n) auto
  have k: "parse_string (concat (map quote_char k) @ CHR 0x22 # t) = Some (k, t)" for t
    by (rule parse_string_quoted)
  show ?case
  proof (cases xs)
    case Nil
    with Cons.prems n kv k show ?thesis
      by (simp add: skip_ws_Cons print_member_def json_quote_def del: parse_string.simps)
  next
    case (Cons y ys)
    have x: "parse_value m (stringify v @ CHR '','' # t) = Some (v, CHR '','' # t)" for t
      using Cons.prems n \<open>xs = y # ys\<close> kv by (intro Cons.prems(1)) (auto simp: print_member_def)
    have ih: "parse_members m (joinWith '','' (map print_member xs) @ CHR ''}'' # r) = Some (xs, r)"
      using Cons.prems n \<open>xs = y # ys\<close> by (intro Cons.IH) auto
    have "print_member x = CHR 0x22 # concat (map quote_char k) @ CHR 0x22 # CHR '':'' # stringify v"
      by (simp add: print_member_def json_quote_def kv)
    with x ih k kv \<open>xs = y # ys\<close> n show ?thesis
      by (simp add: skip_ws_Cons del: parse_string.simps)
  qed
qed

lemma define_member_fold:
  "distinct (map fst (acc @ kvs)) \<Longrightarrow> foldl define_member acc kvs = acc @ kvs"
proof (induction kvs arbitrary: acc)
  case Nil
  then show ?case by simp
next
  case (Cons kv kvs)
  have "define_member acc kv = acc @ [kv]"
    using Cons.prems by (simp add: define_member_def update_fresh)
  with Cons show ?case by simp
qed

lemma json_omits_shape: "json_shape v \<Longrightarrow> \<not> json_omits v"
  by (auto simp: json_omits_def)

lemma stringify_object:
  assumes "list_all (\<lambda>(k, v). json_shape v) kvs"
  shows "stringify (JObj kvs) = CHR ''{'' # joinWith '','' (map print_member kvs) @ ''}''"
proof -
  have "filter (\<lambda>(k, v). \<not> json_omits v) kvs = kvs"
    using assms json_omits_shape by (fastforce simp: filter_id_conv list_all_iff)
  moreover have "print_member = (\<lambda>(k, v). json_quote k @ '':'' @ stringify v)"
    by (rule ext) (simp add: print_member_def case_prod_unfold)
  ultimately show ?thesis by simp
qed

lemma stringify_head: "\<exists>c cs. stringify v = c # cs \<and> \<not> is_json_ws c \<and> c \<noteq> CHR '']''" if "json_shape v"
  using that
proof (cases v)
  case (JNum x)
  with that obtain i where "v = JNum (IntNum i)" by (cases x) auto
  then show ?thesis using string_of_int_head [of i] number_char_head by auto
qed (auto simp: json_quote_def)

lemma print_members_head:
  "kvs \<noteq> [] \<Longrightarrow> \<exists>cs. joinWith '','' (map print_member kvs) = CHR 0x22 # cs"
  by (cases kvs; cases "tl kvs") (auto simp: print_member_def json_quote_def)

lemma print_elems_head:
  "xs \<noteq> [] \<Longrightarrow> list_all json_shape xs \<Longrightarrow>
   \<exists>c cs. joinWith '','' (map stringify xs) = c # cs \<and> \<not> is_json_ws c \<and> c \<noteq> CHR '']''"
  using stringify_head by (cases xs; cases "tl xs") fastforce+

lemma parse_value_print:
  "json_shape v \<Longrightarrow> 2 * length (stringify v) \<le> n \<Longrightarrow> delimited r \<Longrightarrow>
   parse_value n (stringify v @ r) = Some (v, r)"
proof (induction v arbitrary: n r rule: json_shape.induct)
  case 1
  then obtain m where "n = Suc m" by (cases n) auto
  then show ?case by (simp add: skip_ws_Cons startsWith_def)
next
  case (2 b)
  then obtain m where "n = Suc m" by (cases n) (auto split: if_splits)
  then show ?case by (simp add: skip_ws_Cons startsWith_def)
next
  case (3 s)
  then obtain m where "n = Suc m" by (cases n) (auto simp: json_quote_def)
  then show ?case by (simp add: skip_ws_Cons json_quote_def parse_string_quoted del: parse_string.simps)
next
  case (4 x)
  then obtain i where x: "x = IntNum i" by (cases x) auto
  with 4 obtain m where "n = Suc m"
    using string_of_int_head [of i] by (cases n) auto
  with 4 x show ?case using parse_value_int [of r m i] by simp
next
  case (5 xs)
  then obtain m where n: "n = Suc m" by (cases n) auto
  show ?case
  proof (cases "xs = []")
    case True
    then show ?thesis by (simp add: n skip_ws_Cons)
  next
    case False
    then obtain c cs where h: "joinWith '','' (map stringify xs) = c # cs" "\<not> is_json_ws c" "c \<noteq> CHR '']''"
      using 5(2) print_elems_head [OF False] by fastforce
    have "parse_elems m (joinWith '','' (map stringify xs) @ CHR '']'' # r) = Some (xs, r)"
      using False 5 n by (intro parse_elems_print) (auto simp: list_all_iff)
    with h n show ?thesis by (simp add: skip_ws_Cons)
  qed
next
  case (6 kvs)
  then have p: "stringify (JObj kvs) = CHR ''{'' # joinWith '','' (map print_member kvs) @ ''}''"
    by (intro stringify_object) simp
  with 6 obtain m where n: "n = Suc m" by (cases n) auto
  show ?case
  proof (cases "kvs = []")
    case True
    then show ?thesis by (simp add: n skip_ws_Cons)
  next
    case False
    then obtain cs where h: "joinWith '','' (map print_member kvs) = CHR 0x22 # cs"
      using print_members_head by blast
    have "parse_members m (joinWith '','' (map print_member kvs) @ CHR ''}'' # r) = Some (kvs, r)"
      using False 6 n p by (intro parse_members_print) (fastforce simp: list_all_iff)+
    with h n p show ?thesis
      using 6 define_member_fold [of "[]" kvs] by (simp add: skip_ws_Cons del: stringify.simps)
  qed
qed auto

lemma JSON_parse_stringify: "json_shape v \<Longrightarrow> JSON_parse (stringify v) = Some v"
  using parse_value_print [of v "2 * length (stringify v) + 2" "[]"]
  by (simp add: JSON_parse_def skip_ws_def)

subsection \<open>Normal forms\<close>

text \<open>Values with integer numbers whose objects have distinct keys, as JavaScript's have.\<close>

fun int_json :: "js \<Rightarrow> bool" where
  "int_json (JNum n) = (case n of IntNum _ \<Rightarrow> True | _ \<Rightarrow> False)"
| "int_json (JArr xs) = list_all int_json xs"
| "int_json (JObj kvs) = (distinct (map fst kvs) \<and> list_all (\<lambda>(k, v). int_json v) kvs)"
| "int_json _ = True"

lemma mset_own_keys_order [simp]: "mset (own_keys_order kvs) = mset kvs"
proof -
  have "mset (filter P kvs) + mset (filter (\<lambda>x. \<not> P x) kvs) = mset kvs" for P
    by (induction kvs) auto
  then show ?thesis by (simp add: own_keys_order_def case_prod_unfold)
qed

lemma set_own_keys_order [simp]: "set (own_keys_order kvs) = set kvs"
  by (metis mset_own_keys_order set_mset_mset)

lemma distinct_own_keys_order [simp]:
  "distinct (map fst (own_keys_order kvs)) \<longleftrightarrow> distinct (map fst kvs)"
  by (metis mset_map mset_own_keys_order mset_eq_imp_distinct_iff)

lemma own_keys_order_idem [simp]: "own_keys_order (own_keys_order kvs) = own_keys_order kvs"
  by (simp add: own_keys_order_def case_prod_unfold filter_sort [symmetric] sort_key_id_if_sorted)

lemma distinct_assign_fold:
  "distinct (map fst acc) \<Longrightarrow> distinct (map fst (foldl assign_member acc kvs))"
  by (induction kvs arbitrary: acc) (auto simp: assign_member_def distinct_update)

lemma set_update_subset: "set (AList.update k v m) \<subseteq> insert (k, v) (set m)"
  by (induction m) auto

lemma set_assign_fold: "set (foldl assign_member acc kvs) \<subseteq> set acc \<union> set kvs"
proof (induction kvs arbitrary: acc)
  case (Cons kv kvs)
  have "set (assign_member acc kv) \<subseteq> insert kv (set acc)"
    using set_update_subset [of "fst kv" "snd kv" acc] by (auto simp: assign_member_def)
  with Cons [of "assign_member acc kv"] show ?case by auto
qed simp

lemma assign_fold_distinct:
  "distinct (map fst (acc @ kvs)) \<Longrightarrow>
   foldl assign_member acc kvs = acc @ filter (\<lambda>(k, v). k \<noteq> ''__proto__'') kvs"
proof (induction kvs arbitrary: acc)
  case (Cons kv kvs)
  have "assign_member acc kv = acc @ filter (\<lambda>(k, v). k \<noteq> ''__proto__'') [kv]"
    using Cons.prems by (auto simp: assign_member_def update_fresh case_prod_unfold)
  with Cons show ?case by (auto simp: case_prod_unfold)
qed simp

lemma mapE_member: "mapE f xs = Inr ys \<Longrightarrow> y \<in> set ys \<Longrightarrow> \<exists>x \<in> set xs. f x = Inr y"
  by (induction xs arbitrary: ys) auto

lemma mapE_fst:
  "mapE (\<lambda>(k, v). bindE (f v) (\<lambda>n. Inr (k, n))) kvs = Inr ys \<Longrightarrow> map fst ys = map fst kvs"
  by (induction kvs arbitrary: ys) auto

lemma normalize_shape: "js_normalize v = Inr n \<Longrightarrow> int_json v \<Longrightarrow> json_shape n"
proof (induction v arbitrary: n rule: js_normalize.induct)
  case (5 xs)
  then obtain ys where ys: "n = JArr ys" "mapE js_normalize xs = Inr ys" by auto
  have "json_shape y" if "y \<in> set ys" for y
    using mapE_member [OF ys(2) that] 5 by (auto simp: list_all_iff)
  then show ?case using ys by (simp add: list_all_iff)
next
  case (6 kvs)
  then obtain out where out: "n = JObj (own_keys_order (foldl assign_member [] out))"
    "mapE (\<lambda>(k, child). bindE (js_normalize child) (\<lambda>n. Inr (k, n)))
       (filter (\<lambda>(k, child). child \<noteq> JUndefined) (sort_entries kvs)) = Inr out" by auto
  have "json_shape c" if "(k, c) \<in> set out" for k c
    using mapE_member [OF out(2) that] 6 by (fastforce simp: list_all_iff)
  then have "list_all (\<lambda>(k, c). json_shape c) (foldl assign_member [] out)"
    using set_assign_fold [of "[]" out] by (auto simp: list_all_iff)
  then show ?case
    using distinct_assign_fold [of "[]" out] by (simp add: out(1) list_all_iff)
qed (auto split: if_splits jsnum.splits)

lemma mapE_idem:
  "mapE f xs = Inr ys \<Longrightarrow> (\<And>x y. x \<in> set xs \<Longrightarrow> f x = Inr y \<Longrightarrow> g y = Inr y) \<Longrightarrow> mapE g ys = Inr ys"
  using mapE_eq_Inr_map [of ys g "\<lambda>x. x"] mapE_member by fastforce

lemma sort_entries_sorted: "sorted (map fst kvs) \<Longrightarrow> sort_entries kvs = kvs"
  by (simp add: sort_entries_def sort_key_id_if_sorted)

lemma normalize_not_undefined: "js_normalize v = Inr n \<Longrightarrow> n \<noteq> JUndefined"
  by (cases v) (auto split: if_splits)

lemma normalize_idem: "js_normalize v = Inr n \<Longrightarrow> int_json v \<Longrightarrow> js_normalize n = Inr n"
proof (induction v arbitrary: n rule: js_normalize.induct)
  case (5 xs)
  then obtain ys where ys: "n = JArr ys" "mapE js_normalize xs = Inr ys" by auto
  have "mapE js_normalize ys = Inr ys"
    using 5 by (intro mapE_idem [OF ys(2)]) (auto simp: list_all_iff)
  then show ?case using ys by simp
next
  case (6 kvs)
  let ?f = "\<lambda>(k, child). bindE (js_normalize child) (\<lambda>n. Inr (k :: string, n))"
  let ?ok = "\<lambda>(k :: string, v :: js). k \<noteq> ''__proto__''"
  define src where "src = filter (\<lambda>(k, child). child \<noteq> JUndefined) (sort_entries kvs)"
  from 6 obtain out where n: "n = JObj (own_keys_order (foldl assign_member [] out))"
    and out: "mapE ?f src = Inr out" by (auto simp: src_def)
  have keys: "map fst out = map fst src" using out by (rule mapE_fst)
  have dk: "distinct (map fst (sort_entries kvs))"
    using 6(3) by (simp add: sort_entries_def distinct_map)
  then have dist: "distinct (map fst out)"
    unfolding keys src_def by (rule distinct_filter_keys)
  have "sorted (map fst src)"
    unfolding src_def sort_entries_def by (intro sorted_filter) simp
  with keys have sorted: "sorted (map fst out)" by simp
  have nf: "?f y = Inr y" if y: "y \<in> set out" for y
    using mapE_member [OF out y] 6 by (fastforce simp: src_def list_all_iff)
  have def: "snd y \<noteq> JUndefined" if y: "y \<in> set out" for y
    using mapE_member [OF out y] normalize_not_undefined by fastforce
  define res where "res = filter ?ok out"
  have fold: "foldl assign_member [] out = res"
    using assign_fold_distinct [of "[]" out] dist by (simp add: res_def)
  have res: "distinct (map fst res)" "sorted (map fst res)"
    using dist sorted by (auto simp: res_def intro: distinct_filter_keys sorted_filter)
  have se: "sort_entries (own_keys_order res) = res"
    using sort_entries_mset [of "own_keys_order res" res] res by (simp add: sort_entries_sorted)
  have fd: "filter (\<lambda>(k, child). child \<noteq> JUndefined) res = res"
    unfolding filter_id_conv using def by (fastforce simp: res_def)
  have "mapE ?f res = Inr res"
    using mapE_eq_Inr_map [of res ?f "\<lambda>x. x"] nf by (auto simp: res_def)
  moreover have "foldl assign_member [] res = res"
    using assign_fold_distinct [of "[]" res] res by (simp add: res_def filter_id_conv)
  ultimately show ?case
    unfolding n fold js_normalize.simps(6) se fd by simp
qed (auto split: if_splits)

lemma parse_canonical:
  assumes "int_json v" "canonicalJson v = Inr t"
  shows "\<exists>n. js_normalize v = Inr n \<and> JSON_parse t = Some n \<and> canonicalJson n = Inr t"
proof -
  from assms obtain n where n: "js_normalize v = Inr n" "t = stringify n"
    by (auto simp: canonicalJson_def)
  have "json_shape n" using n(1) assms(1) by (rule normalize_shape)
  then show ?thesis
    using n normalize_idem [OF n(1) assms(1)] by (auto simp: canonicalJson_def JSON_parse_stringify)
qed

lemma canonicalJson_inj:
  assumes "int_json v" "int_json w" "canonicalJson v = Inr t" "canonicalJson w = Inr t"
  shows "js_normalize v = js_normalize w"
  using parse_canonical [OF assms(1,3)] parse_canonical [OF assms(2,4)] by auto

lemma parseCanonicalJsonBytes_eq_Inr:
  "parseCanonicalJsonBytes bs label = Inr v \<longleftrightarrow>
   (\<exists>t. decodeStrictUtf8 bs label = Inr t \<and> JSON_parse t = Some v \<and> canonicalJson v = Inr t)"
  by (auto simp: parseCanonicalJsonBytes_def split: option.splits if_splits)

text \<open>The canonical documents of the integer-valued JSON values form a strict codec on texts.\<close>

definition canonical_doc :: "js \<Rightarrow> bool" where
  "canonical_doc v \<longleftrightarrow> int_json v \<and> js_normalize v = Inr v"

definition canonical_text :: "js \<Rightarrow> string" where
  "canonical_text v = stringify v"

definition read_canonical :: "string \<Rightarrow> js res" where
  "read_canonical t = parseCanonicalJsonBytes (utf8_encode t) ''canonical JSON''"

lemma read_canonical_text: "canonical_doc v \<Longrightarrow> read_canonical (canonical_text v) = Inr v"
  using normalize_shape [of v v]
  by (simp add: read_canonical_def canonical_text_def canonical_doc_def parseCanonicalJsonBytes_eq_Inr
      utf8.dec_enc JSON_parse_stringify canonicalJson_def)

interpretation canonical: roundtrip_codec canonical_text read_canonical canonical_doc
  by unfold_locales (rule read_canonical_text)

subsection \<open>Properties\<close>

text \<open>
  Canonical JSON does not depend on the order in which objects list their members, at any depth,
  nor on members that are undefined: the two values give the same text or the same error.
\<close>

theorem canonicalJson_order_independent:
  assumes "same_data v w"
  shows "canonicalJson v = canonicalJson w"
  using normalize_same_data [OF assms] by (simp add: canonicalJson_def)

theorem canonicalJson_order_independent_witness:
  "canonicalJson (JObj [(''b'', JNull), (''a'', JObj [(''y'', JBool True), (''x'', JUndefined)])]) =
   canonicalJson (JObj [(''a'', JObj [(''y'', JBool True)]), (''b'', JNull)])"
proof (rule canonicalJson_order_independent, rule same_obj)
  let ?o = "JObj [(''y'', JBool True), (''x'', JUndefined)]"
  have "same_data ?o (JObj [(''y'', JBool True)])"
    by (rule same_obj) (auto simp: defined_members_def intro: same_refl)
  then show "list_all2 (rel_prod (=) same_data) [(''a'', ?o), (''b'', JNull)]
      (defined_members [(''a'', JObj [(''y'', JBool True)]), (''b'', JNull)])"
    by (auto simp: defined_members_def intro: same_refl)
qed (simp_all add: defined_members_def)

text \<open>
  A canonical text is parsed back to the normal form of the value it was printed from, and the
  parser accepts it as canonical; so two integer-valued documents with one canonical text have one
  normal form.  This is what makes a digest over the text a digest of the data.
\<close>

theorem canonicalJson_roundtrip:
  assumes "int_json v" "canonicalJson v = Inr t"
  shows "\<exists>n. js_normalize v = Inr n \<and> parseCanonicalJsonBytes (utf8_encode t) label = Inr n"
  using parse_canonical [OF assms] by (auto simp: parseCanonicalJsonBytes_eq_Inr utf8.dec_enc)

theorem canonicalJson_roundtrip_witness:
  "\<exists>n. js_normalize (JObj [(''b'', JNum (IntNum (-7))), (''a'', JStr ''x'')]) = Inr n \<and>
     parseCanonicalJsonBytes (utf8_encode (''{'' @ json_quote ''a'' @ '':'' @ json_quote ''x'' @ '','' @
       json_quote ''b'' @ '':-7}'')) ''doc'' = Inr n"
  by (rule canonicalJson_roundtrip) code_simp+

text \<open>
  Whatever the canonical parser accepts is the UTF-8 encoding of the canonical text of the value
  it returns, except that one leading byte order mark is tolerated: duplicate keys, whitespace, other
  key orders and other spellings of a number or string are all rejected.
\<close>

theorem parseCanonical_exact:
  assumes "parseCanonicalJsonBytes bs label = Inr v"
  shows "\<exists>t. canonicalJson v = Inr t \<and> (bs = utf8_encode t \<or> bs = utf8_bom @ utf8_encode t)"
  using assms by (auto simp: parseCanonicalJsonBytes_eq_Inr decodeStrictUtf8_eq_Inr)

theorem parseCanonical_exact_witness:
  "\<exists>t. canonicalJson (JArr [JNum (IntNum 12)]) = Inr t \<and>
     ([91, 49, 50, 93] = utf8_encode t \<or> [91, 49, 50, 93] = utf8_bom @ utf8_encode t)"
  by (rule parseCanonical_exact [of _ "''doc''"]) code_simp

text \<open>
  A member named \<open>__proto__\<close> is lost by normalization, because it is assigned to an ordinary
  object literal: an object that differs from another only in that member has the same canonical text.
\<close>

theorem canonicalJson_drops_proto:
  assumes "js_normalize v = Inr n"
  shows "canonicalJson (JObj [(''__proto__'', v)]) = canonicalJson (JObj [])"
proof -
  have "v \<noteq> JUndefined" using assms by auto
  then show ?thesis
    using assms by (simp add: canonicalJson_def sort_entries_def assign_member_def)
qed

theorem canonicalJson_drops_proto_witness:
  "canonicalJson (JObj [(''__proto__'', JNum (IntNum 1))]) = canonicalJson (JObj [])"
  by (rule canonicalJson_drops_proto [where n = "JNum (IntNum 1)"]) simp

end
