(* ===== verification/Digest.thy ===== *)
theory Digest
  imports Types JsonParse
begin

section \<open>Request digests (src/canonical.ts)\<close>

text \<open>
  Node's SHA-256 is the parameter \<open>H\<close>, a function from bytes to its 32-byte digest.  Digests are the
  strings \<open>sha256:\<close> and base64url; a request digest covers the upper-case method, the URI and the
  body digest, as canonical JSON.
\<close>

type_synonym hash = "bytes \<Rightarrow> bytes"

definition sha256_bytes :: "hash \<Rightarrow> bytes \<Rightarrow> string" where
  "sha256_bytes H bs = ''sha256:'' @ encodeStrictBase64Url (H bs)"

definition sha256_text :: "hash \<Rightarrow> string \<Rightarrow> string" where
  "sha256_text H s = sha256_bytes H (utf8_encode s)"

definition bodyDigestFromInput :: "hash \<Rightarrow> RequestBodyDigestInput \<Rightarrow> string option res" where
  "bodyDigestFromInput H input =
     (case input of
        BodyAbsent \<Rightarrow> Inr None
      | BodyEmpty \<Rightarrow> Inr None
      | BodyJson v \<Rightarrow>
          (if \<not> isPlainJsonValue v \<or> typeof v \<noteq> ''object'' \<or> v = JNull
           then Inl (Error ''json bodyInput requires a plain JSON object or array'')
           else bindE (canonicalJson v) (\<lambda>t. Inr (Some (sha256_text H t))))
      | BodyOpaque bs \<Rightarrow> (if bs = [] then Inr None else Inr (Some (sha256_bytes H bs)))
      | BodyPrecomputed d \<Rightarrow> bindE (assertSha256Digest d) (\<lambda>d'. Inr (Some d'))
      | BodyStream \<Rightarrow> Inl (Error ''Streamed bodies require a precomputed bodyDigest (fail closed)''))"

definition request_document :: "string \<Rightarrow> string \<Rightarrow> string option \<Rightarrow> js" where
  "request_document method uri bodyDigest =
     JObj [(''method'', JStr (toUpperCase method)), (''uri'', JStr uri),
           (''bodyDigest'', case bodyDigest of None \<Rightarrow> JNull | Some d \<Rightarrow> JStr d)]"

definition requestDigest ::
  "hash \<Rightarrow> string \<Rightarrow> string \<Rightarrow> js \<Rightarrow> RequestBodyDigestInput option \<Rightarrow> string res" where
  "requestDigest H method uri body bodyInput =
     bindE (case bodyInput of
              Some input \<Rightarrow> bodyDigestFromInput H input
            | None \<Rightarrow> bindE (bodyInputFromPlainJsonBody body) (bodyDigestFromInput H))
       (\<lambda>bd. bindE (canonicalJson (request_document method uri bd)) (\<lambda>t. Inr (sha256_text H t)))"

subsection \<open>The digest's text\<close>

definition sorted_request_document :: "string \<Rightarrow> string \<Rightarrow> string option \<Rightarrow> js" where
  "sorted_request_document method uri bodyDigest =
     JObj [(''bodyDigest'', case bodyDigest of None \<Rightarrow> JNull | Some d \<Rightarrow> JStr d),
           (''method'', JStr (toUpperCase method)), (''uri'', JStr uri)]"

lemma not_array_index_names:
  "\<not> is_array_index ''bodyDigest''" "\<not> is_array_index ''method''" "\<not> is_array_index ''uri''"
  by (simp_all add: is_array_index_def is_digit_char_def)

lemma normalize_request_document:
  "js_normalize (request_document m u b) = Inr (sorted_request_document m u b)"
proof -
  have "sort_entries [(''method'', x), (''uri'', y), (''bodyDigest'', z)] =
      [(''bodyDigest'', z), (''method'', x), (''uri'', y)]" for x y z :: js
    by (simp add: sort_entries_def)
  moreover have "own_keys_order [(''bodyDigest'', x), (''method'', y), (''uri'', z)] =
      [(''bodyDigest'', x), (''method'', y), (''uri'', z)]" for x y z :: js
    by (simp add: own_keys_order_def not_array_index_names)
  ultimately show ?thesis
    by (cases b) (simp_all add: request_document_def sorted_request_document_def assign_member_def)
qed

lemma int_json_request_document: "int_json (request_document m u b)"
  by (simp add: request_document_def split: option.splits)

lemma canonicalJson_request_document:
  "canonicalJson (request_document m u b) = Inr (stringify (sorted_request_document m u b))"
  by (simp add: canonicalJson_def normalize_request_document)

lemma request_document_text_inj:
  "stringify (sorted_request_document m u b) = stringify (sorted_request_document m' u' b') \<longleftrightarrow>
   toUpperCase m = toUpperCase m' \<and> u = u' \<and> b = b'"
proof
  assume eq: "stringify (sorted_request_document m u b) = stringify (sorted_request_document m' u' b')"
  have "js_normalize (request_document m u b) = js_normalize (request_document m' u' b')"
    using eq canonicalJson_request_document by (intro canonicalJson_inj) (simp_all add: int_json_request_document)
  then show "toUpperCase m = toUpperCase m' \<and> u = u' \<and> b = b'"
    by (auto simp: normalize_request_document sorted_request_document_def split: option.splits)
qed (simp add: sorted_request_document_def)

lemma utf8_encode_inj [simp]: "utf8_encode s = utf8_encode t \<longleftrightarrow> s = t"
  using utf8.enc_inj by blast

lemma sha256_text_eq:
  "sha256_text H s = sha256_text H t \<longleftrightarrow> H (utf8_encode s) = H (utf8_encode t)"
  by (simp add: sha256_text_def sha256_bytes_def encode_base64Url_inj)

lemma sha256_text_inj:
  "sha256_text H s = sha256_text H t \<Longrightarrow> s = t \<or> collides H (utf8_encode s) (utf8_encode t)"
  by (auto simp: sha256_text_eq collides_def)

lemma sha256_bytes_digest:
  "length (H bs) = 32 \<Longrightarrow> assertSha256Digest (sha256_bytes H bs) = Inr (sha256_bytes H bs)"
  by (auto simp: sha256_bytes_def assertSha256Digest_iff)

text \<open>The body digest a request digest is computed from.\<close>

definition request_body_digest :: "hash \<Rightarrow> js \<Rightarrow> RequestBodyDigestInput option \<Rightarrow> string option res" where
  "request_body_digest H body bodyInput = (case bodyInput of
     Some input \<Rightarrow> bodyDigestFromInput H input
   | None \<Rightarrow> bindE (bodyInputFromPlainJsonBody body) (bodyDigestFromInput H))"

lemma requestDigest_alt:
  "requestDigest H m u body bi = bindE (request_body_digest H body bi)
     (\<lambda>bd. Inr (sha256_text H (stringify (sorted_request_document m u bd))))"
  by (simp add: requestDigest_def request_body_digest_def canonicalJson_request_document)

lemma requestDigest_method_case:
  "toUpperCase m = toUpperCase m' \<Longrightarrow> requestDigest H m u body bi = requestDigest H m' u body bi"
  by (simp add: requestDigest_def request_document_def)

lemma plain_normalizes: "isPlainJsonValue v \<Longrightarrow> \<exists>n. js_normalize v = Inr n"
proof (induction v rule: js_normalize.induct)
  case (5 xs)
  then have "\<exists>g. \<forall>x \<in> set xs. js_normalize x = Inr (g x)"
    by (intro bchoice) (auto simp: list_all_iff)
  then show ?case using mapE_eq_Inr_map [of xs js_normalize] by fastforce
next
  case (6 kvs)
  let ?f = "\<lambda>(k, child). bindE (js_normalize child) (\<lambda>n. Inr (k :: string, n))"
  let ?xs = "filter (\<lambda>(k, child). child \<noteq> JUndefined) (sort_entries kvs)"
  have "\<forall>x \<in> set ?xs. \<exists>y. ?f x = Inr y"
    using 6 by (fastforce simp: list_all_iff)
  then obtain g where "\<And>x. x \<in> set ?xs \<Longrightarrow> ?f x = Inr (g x)"
    by (metis (no_types, lifting) bchoice)
  then have "mapE ?f ?xs = Inr (map g ?xs)" by (rule mapE_eq_Inr_map)
  then show ?case by simp
qed auto

lemma same_data_typeof: "same_data v w \<Longrightarrow> typeof v = typeof w \<and> (v = JNull \<longleftrightarrow> w = JNull)"
  by (cases rule: same_data.cases) auto

text \<open>A digest input is accepted exactly in these cases; all other bodies are refused.\<close>

lemma bodyDigestFromInput_eq_Inr:
  "bodyDigestFromInput H input = Inr r \<longleftrightarrow>
   (case input of
      BodyAbsent \<Rightarrow> r = None
    | BodyEmpty \<Rightarrow> r = None
    | BodyJson v \<Rightarrow> isPlainJsonValue v \<and> (\<exists>xs. v = JArr xs \<or> (\<exists>kvs. v = JObj kvs)) \<and>
        (\<exists>t. canonicalJson v = Inr t \<and> r = Some (sha256_text H t))
    | BodyOpaque bs \<Rightarrow> r = (if bs = [] then None else Some (sha256_bytes H bs))
    | BodyPrecomputed d \<Rightarrow> r = Some d \<and> assertSha256Digest d = Inr d
    | BodyStream \<Rightarrow> False)"
proof (cases input)
  case (BodyJson v)
  then show ?thesis by (cases v) (auto simp: bodyDigestFromInput_def)
next
  case (BodyPrecomputed d)
  then show ?thesis
    by (auto simp: bodyDigestFromInput_def assertSha256Digest_iff)
qed (auto simp: bodyDigestFromInput_def)

lemma bodyDigest_shape:
  assumes "\<And>x. length (H x) = 32" "bodyDigestFromInput H input = Inr (Some d)"
  shows "assertSha256Digest d = Inr d"
  using assms sha256_bytes_digest [of H]
  by (cases input) (auto simp: bodyDigestFromInput_eq_Inr sha256_text_def split: if_splits)

subsection \<open>Properties\<close>

text \<open>
  A request digest binds the request: two requests with one digest have body digests, and either they agree
  on the upper-case method, the URI and the body digest, or the canonical documents of the two requests are
  different texts on which the hash collides.
\<close>

theorem requestDigest_binds:
  assumes "requestDigest H m u body bi = Inr d" "requestDigest H m' u' body' bi' = Inr d"
  shows "\<exists>b b'. request_body_digest H body bi = Inr b \<and> request_body_digest H body' bi' = Inr b' \<and>
    ((toUpperCase m = toUpperCase m' \<and> u = u' \<and> b = b') \<or>
     collides H (utf8_encode (stringify (sorted_request_document m u b)))
       (utf8_encode (stringify (sorted_request_document m' u' b'))))"
proof -
  from assms obtain b b' where b: "request_body_digest H body bi = Inr b" "request_body_digest H body' bi' = Inr b'"
    and d: "sha256_text H (stringify (sorted_request_document m u b)) =
      sha256_text H (stringify (sorted_request_document m' u' b'))"
    by (auto simp: requestDigest_alt)
  from sha256_text_inj [OF d] show ?thesis using b request_document_text_inj by auto
qed

theorem requestDigest_binds_witness:
  "\<exists>b b'. request_body_digest (\<lambda>_. []) JUndefined None = Inr b \<and>
    request_body_digest (\<lambda>_. []) JUndefined (Some BodyEmpty) = Inr b' \<and>
    ((toUpperCase ''get'' = toUpperCase ''POST'' \<and> ''https://a/'' = ''https://b/'' \<and> b = b') \<or>
     collides (\<lambda>_. [] :: bytes) (utf8_encode (stringify (sorted_request_document ''get'' ''https://a/'' b)))
       (utf8_encode (stringify (sorted_request_document ''POST'' ''https://b/'' b'))))"
proof (rule requestDigest_binds)
  show "requestDigest (\<lambda>_. []) ''get'' ''https://a/'' JUndefined None = Inr (sha256_bytes (\<lambda>_. []) [])"
    "requestDigest (\<lambda>_. []) ''POST'' ''https://b/'' JUndefined (Some BodyEmpty) = Inr (sha256_bytes (\<lambda>_. []) [])"
    by (simp_all add: requestDigest_alt request_body_digest_def bodyDigestFromInput_def
        bodyInputFromPlainJsonBody_def sha256_text_def sha256_bytes_def)
qed

text \<open>
  The digest of a JSON body depends on its data only: two plain objects or arrays that differ in the
  order of members get the same body digest, whatever the hash function.
\<close>

theorem bodyDigest_data_only:
  assumes "same_data v w" "isPlainJsonValue v" "isPlainJsonValue w"
  shows "bodyDigestFromInput H (BodyJson v) = bodyDigestFromInput H (BodyJson w)"
  using assms same_data_typeof [OF assms(1)] normalize_same_data [OF assms(1)]
  by (simp add: bodyDigestFromInput_def canonicalJson_def)

theorem bodyDigest_data_only_witness:
  "bodyDigestFromInput (\<lambda>x. x) (BodyJson (JObj [(''b'', JNull), (''a'', JBool True)])) =
   bodyDigestFromInput (\<lambda>x. x) (BodyJson (JObj [(''a'', JBool True), (''b'', JNull)]))"
proof (rule bodyDigest_data_only)
  show "same_data (JObj [(''b'', JNull), (''a'', JBool True)]) (JObj [(''a'', JBool True), (''b'', JNull)])"
    by (rule same_obj [where ?kvs2.0 = "[(''a'', JBool True), (''b'', JNull)]"])
      (auto simp: defined_members_def intro: same_refl)
qed simp_all

text \<open>
  With a hash of 32 bytes, every digest the library computes has the shape its own validator
  accepts, for requests as for bodies.
\<close>

theorem requestDigest_shape:
  assumes "\<And>x. length (H x) = 32" "requestDigest H m u body bi = Inr d"
  shows "assertSha256Digest d = Inr d"
  using assms sha256_bytes_digest [of H] by (auto simp: requestDigest_alt sha256_text_def)

theorem requestDigest_shape_witness:
  "assertSha256Digest (sha256_bytes (\<lambda>_. replicate 32 0) []) = Inr (sha256_bytes (\<lambda>_. replicate 32 0) [])"
proof (rule requestDigest_shape)
  show "length (replicate 32 0 :: bytes) = 32" for x :: bytes by simp
  show "requestDigest (\<lambda>_. replicate 32 0) ''get'' ''/'' JUndefined None = Inr (sha256_bytes (\<lambda>_. replicate 32 0) [])"
    by (simp add: requestDigest_alt request_body_digest_def bodyDigestFromInput_def
        bodyInputFromPlainJsonBody_def sha256_text_def sha256_bytes_def)
qed

end
