(* ===== verification/Schemas.thy ===== *)
theory Schemas
  imports Validation Digest
begin

section \<open>Wire schemas (src/schemas.ts)\<close>

text \<open>
  A schema is a value of \<open>schema\<close>, written like its zod expression; \<open>validate\<close> gives the documented meaning
  of the combinators used: all objects are strict, and an optional member may be absent or undefined.
  What zod itself decides about the text of a URL and of a timestamp are the parameters \<open>z_url\<close> and
  \<open>z_datetime\<close>.  The message of a \<open>ZodError\<close> is not modelled.
\<close>

record zod =
  z_url :: "string \<Rightarrow> bool"
  z_datetime :: "string \<Rightarrow> bool"

datatype string_check =
    MinLen nat
  | MaxLen nat
  | Identifier
  | Url
  | DateTimeOffset
  | Prefix string
  | Sha256Digest

datatype number_check = IsInt | Positive | MaxNum int

datatype schema =
    ZUnknown
  | ZLiteral js
  | ZEnum "string list"
  | ZString "string_check list"
  | ZNumber "number_check list"
  | ZArray schema nat nat
  | ZObject "(string \<times> bool \<times> schema) list"
  | ZRecord nat

fun string_ok :: "zod \<Rightarrow> string \<Rightarrow> string_check \<Rightarrow> bool" where
  "string_ok z s (MinLen n) = (n \<le> length s)"
| "string_ok z s (MaxLen n) = (length s \<le> n)"
| "string_ok z s Identifier = isHumanMethodIdentifier s"
| "string_ok z s Url = z_url z s"
| "string_ok z s DateTimeOffset = z_datetime z s"
| "string_ok z s (Prefix p) = startsWith s p"
| "string_ok z s Sha256Digest = (case assertSha256Digest s of Inl _ \<Rightarrow> False | Inr _ \<Rightarrow> True)"

fun number_ok :: "jsnum \<Rightarrow> number_check \<Rightarrow> bool" where
  "number_ok (IntNum n) IsInt = True"
| "number_ok (IntNum n) Positive = (0 < n)"
| "number_ok (IntNum n) (MaxNum m) = (n \<le> m)"
| "number_ok (DecNum m k) Positive = (0 < m)"
| "number_ok (DecNum m k) (MaxNum b) = (m \<le> b * 10 ^ Suc k)"
| "number_ok _ _ = False"

fun validate :: "zod \<Rightarrow> schema \<Rightarrow> js \<Rightarrow> bool" where
  "validate z ZUnknown v = True"
| "validate z (ZLiteral w) v = (v = w)"
| "validate z (ZEnum xs) v = (case v of JStr s \<Rightarrow> s \<in> set xs | _ \<Rightarrow> False)"
| "validate z (ZString cs) v = (case v of JStr s \<Rightarrow> list_all (string_ok z s) cs | _ \<Rightarrow> False)"
| "validate z (ZNumber cs) v = (case v of JNum n \<Rightarrow> isFinite n \<and> list_all (number_ok n) cs | _ \<Rightarrow> False)"
| "validate z (ZArray s lo hi) v = (case v of
     JArr xs \<Rightarrow> lo \<le> length xs \<and> length xs \<le> hi \<and> list_all (validate z s) xs | _ \<Rightarrow> False)"
| "validate z (ZObject fs) v = (case v of
     JObj kvs \<Rightarrow> list_all (\<lambda>(k, optional, s).
         if js_get v k = JUndefined then optional else validate z s (js_get v k)) fs \<and>
       list_all (\<lambda>(k, _). k \<in> set (map fst fs)) kvs
   | _ \<Rightarrow> False)"
| "validate z (ZRecord hi) v = (case v of
     JObj kvs \<Rightarrow> list_all (\<lambda>(k, _). length k \<le> hi) kvs | _ \<Rightarrow> False)"

text \<open>A required and an optional member.\<close>

definition req :: "string \<Rightarrow> schema \<Rightarrow> string \<times> bool \<times> schema" where
  "req k s = (k, False, s)"

definition opt :: "string \<Rightarrow> schema \<Rightarrow> string \<times> bool \<times> schema" where
  "opt k s = (k, True, s)"

subsection \<open>The schemas\<close>

definition TimestampSchema :: schema where
  "TimestampSchema = ZString [DateTimeOffset]"

definition Sha256DigestSchema :: schema where
  "Sha256DigestSchema = ZString [MaxLen 200, Sha256Digest]"

definition BindingSchema :: schema where
  "BindingSchema = ZObject [req ''kind'' (ZEnum [''request'', ''wallet'', ''agent_key'', ''session'']),
     req ''value'' (ZString [MinLen 1, MaxLen 512])]"

definition ScopeKindSchema :: schema where
  "ScopeKindSchema = ZEnum [''global'', ''relying_party'', ''action'', ''session'']"

definition VerificationModeSchema :: schema where
  "VerificationModeSchema = ZEnum [''backend'', ''offchain'', ''onchain'', ''hybrid'']"

definition MethodRequirementSchema :: schema where
  "MethodRequirementSchema = ZObject [
     req ''providerId'' (ZString [Identifier]),
     req ''methodId'' (ZString [Identifier]),
     req ''descriptorVersion'' (ZString [MinLen 1, MaxLen 50]),
     opt ''assuranceLevel'' (ZString [MinLen 1, MaxLen 100]),
     req ''acceptedScopeKinds'' (ZArray ScopeKindSchema 1 4),
     opt ''maximumProofAgeSeconds'' (ZNumber [IsInt, Positive, MaxNum 86400]),
     opt ''verificationModes'' (ZArray VerificationModeSchema 1 4)]"

definition ResourceSchema :: schema where
  "ResourceSchema = ZObject [
     req ''method'' (ZString [MinLen 1, MaxLen 20]),
     req ''uri'' (ZString [Url, MaxLen 2048]),
     req ''audience'' (ZString [Url, MaxLen 2048]),
     req ''requestDigest'' Sha256DigestSchema]"

definition HumanRequirementSchema :: schema where
  "HumanRequirementSchema = ZObject [
     req ''x424Version'' (ZLiteral (JStr ''0.1'')),
     req ''dependencyId'' (ZString [MinLen 1, MaxLen 200]),
     req ''purpose'' (ZString [MinLen 1, MaxLen 200]),
     req ''resource'' ResourceSchema,
     req ''nonce'' (ZString [MinLen 1, MaxLen 512]),
     req ''binding'' BindingSchema,
     req ''createdAt'' TimestampSchema,
     req ''expiresAt'' TimestampSchema,
     req ''accepts'' (ZArray MethodRequirementSchema 1 10),
     opt ''providerRequests'' (ZRecord 201)]"

definition HumanProofSubmissionSchema :: schema where
  "HumanProofSubmissionSchema = ZObject [
     req ''x424Version'' (ZLiteral (JStr ''0.1'')),
     req ''dependencyId'' (ZString [MinLen 1, MaxLen 200]),
     req ''providerId'' (ZString [Identifier]),
     req ''methodId'' (ZString [Identifier]),
     req ''binding'' BindingSchema,
     opt ''nativeProof'' ZUnknown]"

definition HumanResultSchema :: schema where
  "HumanResultSchema = ZObject [
     req ''x424Version'' (ZLiteral (JStr ''0.1'')),
     req ''resultId'' (ZString [MinLen 1, MaxLen 200]),
     req ''dependencyId'' (ZString [MinLen 1, MaxLen 200]),
     req ''satisfied'' (ZLiteral (JBool True)),
     req ''purpose'' (ZString [MinLen 1, MaxLen 200]),
     req ''audience'' (ZString [Url, MaxLen 2048]),
     req ''requestDigest'' Sha256DigestSchema,
     req ''binding'' BindingSchema,
     req ''providerId'' (ZString [Identifier]),
     req ''methodId'' (ZString [Identifier]),
     req ''descriptorVersion'' (ZString [MinLen 1, MaxLen 50]),
     opt ''assuranceLevel'' (ZString [MinLen 1, MaxLen 100]),
     req ''pairwiseHumanId'' (ZString [Prefix ''x424_human_'', MaxLen 200]),
     req ''uniquenessScope'' (ZObject [
       req ''kind'' ScopeKindSchema,
       req ''id'' (ZString [MinLen 1, MaxLen 500])]),
     req ''verificationMode'' VerificationModeSchema,
     req ''proofDigest'' Sha256DigestSchema,
     req ''claim'' (ZString [MinLen 1, MaxLen 2000]),
     req ''nonClaims'' (ZArray (ZString [MinLen 1, MaxLen 1000]) 1 50),
     req ''verifiedAt'' TimestampSchema,
     req ''issuedAt'' TimestampSchema,
     req ''expiresAt'' TimestampSchema,
     opt ''stateReferences'' (ZArray (ZString [MinLen 1, MaxLen 500]) 0 20)]"

subsection \<open>Records and their JSON objects\<close>

text \<open>
  The source's objects are JSON objects already; the model keeps them as records, and \<open>js_of_...\<close> is the
  object with the members in the order the code writes them, absent optional members left out.  The
  readers \<open>..._of_js\<close> are applied to validated values only, where their defaults are not reached.
\<close>

definition js_strings :: "string list \<Rightarrow> js" where
  "js_strings xs = JArr (map JStr xs)"

definition opt_member :: "string \<Rightarrow> ('a \<Rightarrow> js) \<Rightarrow> 'a option \<Rightarrow> (string \<times> js) list" where
  "opt_member k f x = (case x of None \<Rightarrow> [] | Some y \<Rightarrow> [(k, f y)])"

definition js_of_binding :: "HumanBinding \<Rightarrow> js" where
  "js_of_binding b = JObj [(''kind'', JStr (binding_kind_text (b_kind b))), (''value'', JStr (b_value b))]"

definition js_of_scope :: "UniquenessScope \<Rightarrow> js" where
  "js_of_scope s = JObj [(''kind'', JStr (scope_kind_text (us_kind s))), (''id'', JStr (us_id s))]"

definition js_of_method :: "HumanMethodRequirement \<Rightarrow> js" where
  "js_of_method a = JObj ([
     (''providerId'', JStr (m_providerId a)), (''methodId'', JStr (m_methodId a)),
     (''descriptorVersion'', JStr (m_descriptorVersion a))] @
     opt_member ''assuranceLevel'' JStr (m_assuranceLevel a) @
     [(''acceptedScopeKinds'', js_strings (map scope_kind_text (m_acceptedScopeKinds a)))] @
     opt_member ''maximumProofAgeSeconds'' (\<lambda>n. JNum (IntNum n)) (m_maximumProofAgeSeconds a) @
     opt_member ''verificationModes'' (\<lambda>ms. js_strings (map verification_mode_text ms)) (m_verificationModes a))"

definition js_of_resource :: "ProtectedResource \<Rightarrow> js" where
  "js_of_resource p = JObj [(''method'', JStr (pr_method p)), (''uri'', JStr (pr_uri p)),
     (''audience'', JStr (pr_audience p)), (''requestDigest'', JStr (pr_requestDigest p))]"

definition js_of_requirement :: "HumanRequirement \<Rightarrow> js" where
  "js_of_requirement r = JObj ([
     (''x424Version'', JStr (rq_x424Version r)), (''dependencyId'', JStr (rq_dependencyId r)),
     (''purpose'', JStr (rq_purpose r)), (''resource'', js_of_resource (rq_resource r)),
     (''nonce'', JStr (rq_nonce r)), (''binding'', js_of_binding (rq_binding r)),
     (''createdAt'', JStr (rq_createdAt r)), (''expiresAt'', JStr (rq_expiresAt r)),
     (''accepts'', JArr (map js_of_method (rq_accepts r)))] @
     opt_member ''providerRequests'' JObj (rq_providerRequests r))"

definition js_of_result :: "HumanResult \<Rightarrow> js" where
  "js_of_result r = JObj ([
     (''x424Version'', JStr (rs_x424Version r)), (''resultId'', JStr (rs_resultId r)),
     (''dependencyId'', JStr (rs_dependencyId r)), (''satisfied'', JBool True),
     (''purpose'', JStr (rs_purpose r)), (''audience'', JStr (rs_audience r)),
     (''requestDigest'', JStr (rs_requestDigest r)), (''binding'', js_of_binding (rs_binding r)),
     (''providerId'', JStr (rs_providerId r)), (''methodId'', JStr (rs_methodId r)),
     (''descriptorVersion'', JStr (rs_descriptorVersion r))] @
     opt_member ''assuranceLevel'' JStr (rs_assuranceLevel r) @
     [(''pairwiseHumanId'', JStr (rs_pairwiseHumanId r)),
     (''uniquenessScope'', js_of_scope (rs_uniquenessScope r)),
     (''verificationMode'', JStr (verification_mode_text (rs_verificationMode r))),
     (''proofDigest'', JStr (rs_proofDigest r)), (''claim'', JStr (rs_claim r)),
     (''nonClaims'', js_strings (rs_nonClaims r)), (''verifiedAt'', JStr (rs_verifiedAt r)),
     (''issuedAt'', JStr (rs_issuedAt r)), (''expiresAt'', JStr (rs_expiresAt r))] @
     opt_member ''stateReferences'' js_strings (rs_stateReferences r))"

definition get_str :: "js \<Rightarrow> string \<Rightarrow> string" where
  "get_str v k = (case js_get v k of JStr s \<Rightarrow> s | _ \<Rightarrow> [])"

definition get_opt :: "(js \<Rightarrow> 'a) \<Rightarrow> js \<Rightarrow> string \<Rightarrow> 'a option" where
  "get_opt f v k = (if js_get v k = JUndefined then None else Some (f (js_get v k)))"

fun str_of :: "js \<Rightarrow> string" where
  "str_of (JStr s) = s"
| "str_of _ = []"

fun elems_of :: "js \<Rightarrow> js list" where
  "elems_of (JArr xs) = xs"
| "elems_of _ = []"

fun members_of :: "js \<Rightarrow> (string \<times> js) list" where
  "members_of (JObj kvs) = kvs"
| "members_of _ = []"

fun int_of_js :: "js \<Rightarrow> int" where
  "int_of_js (JNum (IntNum n)) = n"
| "int_of_js _ = 0"

definition scope_kind_of :: "string \<Rightarrow> UniquenessScopeKind" where
  "scope_kind_of s = (if s = ''global'' then Global else if s = ''relying_party'' then RelyingParty
     else if s = ''action'' then Action else Session)"

definition binding_kind_of :: "string \<Rightarrow> BindingKind" where
  "binding_kind_of s = (if s = ''request'' then BindRequest else if s = ''wallet'' then BindWallet
     else if s = ''agent_key'' then BindAgentKey else BindSession)"

definition verification_mode_of :: "string \<Rightarrow> VerificationMode" where
  "verification_mode_of s = (if s = ''backend'' then Backend else if s = ''offchain'' then Offchain
     else if s = ''onchain'' then Onchain else Hybrid)"

definition strings_of :: "js \<Rightarrow> string list" where
  "strings_of v = map str_of (elems_of v)"

definition binding_of_js :: "js \<Rightarrow> HumanBinding" where
  "binding_of_js v = \<lparr>b_kind = binding_kind_of (get_str v ''kind''), b_value = get_str v ''value''\<rparr>"

definition scope_of_js :: "js \<Rightarrow> UniquenessScope" where
  "scope_of_js v = \<lparr>us_kind = scope_kind_of (get_str v ''kind''), us_id = get_str v ''id''\<rparr>"

definition method_of_js :: "js \<Rightarrow> HumanMethodRequirement" where
  "method_of_js v = \<lparr>m_providerId = get_str v ''providerId'', m_methodId = get_str v ''methodId'',
     m_descriptorVersion = get_str v ''descriptorVersion'',
     m_assuranceLevel = get_opt str_of v ''assuranceLevel'',
     m_acceptedScopeKinds = map scope_kind_of (strings_of (js_get v ''acceptedScopeKinds'')),
     m_maximumProofAgeSeconds = get_opt int_of_js v ''maximumProofAgeSeconds'',
     m_verificationModes = get_opt (\<lambda>w. map verification_mode_of (strings_of w)) v ''verificationModes''\<rparr>"

definition resource_of_js :: "js \<Rightarrow> ProtectedResource" where
  "resource_of_js v = \<lparr>pr_method = get_str v ''method'', pr_uri = get_str v ''uri'',
     pr_audience = get_str v ''audience'', pr_requestDigest = get_str v ''requestDigest''\<rparr>"

definition requirement_of_js :: "js \<Rightarrow> HumanRequirement" where
  "requirement_of_js v = \<lparr>rq_x424Version = get_str v ''x424Version'',
     rq_dependencyId = get_str v ''dependencyId'', rq_purpose = get_str v ''purpose'',
     rq_resource = resource_of_js (js_get v ''resource''), rq_nonce = get_str v ''nonce'',
     rq_binding = binding_of_js (js_get v ''binding''), rq_createdAt = get_str v ''createdAt'',
     rq_expiresAt = get_str v ''expiresAt'', rq_accepts = map method_of_js (elems_of (js_get v ''accepts'')),
     rq_providerRequests = get_opt members_of v ''providerRequests''\<rparr>"

definition proof_of_js :: "js \<Rightarrow> HumanProofSubmission" where
  "proof_of_js v = \<lparr>pf_x424Version = get_str v ''x424Version'', pf_dependencyId = get_str v ''dependencyId'',
     pf_providerId = get_str v ''providerId'', pf_methodId = get_str v ''methodId'',
     pf_binding = binding_of_js (js_get v ''binding''), pf_nativeProof = js_get v ''nativeProof''\<rparr>"

definition result_of_js :: "js \<Rightarrow> HumanResult" where
  "result_of_js v = \<lparr>rs_x424Version = get_str v ''x424Version'', rs_resultId = get_str v ''resultId'',
     rs_dependencyId = get_str v ''dependencyId'', rs_purpose = get_str v ''purpose'',
     rs_audience = get_str v ''audience'', rs_requestDigest = get_str v ''requestDigest'',
     rs_binding = binding_of_js (js_get v ''binding''), rs_providerId = get_str v ''providerId'',
     rs_methodId = get_str v ''methodId'', rs_descriptorVersion = get_str v ''descriptorVersion'',
     rs_assuranceLevel = get_opt str_of v ''assuranceLevel'',
     rs_pairwiseHumanId = get_str v ''pairwiseHumanId'',
     rs_uniquenessScope = scope_of_js (js_get v ''uniquenessScope''),
     rs_verificationMode = verification_mode_of (get_str v ''verificationMode''),
     rs_proofDigest = get_str v ''proofDigest'', rs_claim = get_str v ''claim'',
     rs_nonClaims = strings_of (js_get v ''nonClaims''), rs_verifiedAt = get_str v ''verifiedAt'',
     rs_issuedAt = get_str v ''issuedAt'', rs_expiresAt = get_str v ''expiresAt'',
     rs_stateReferences = get_opt strings_of v ''stateReferences''\<rparr>"

definition parseHumanRequirement :: "zod \<Rightarrow> js \<Rightarrow> HumanRequirement res" where
  "parseHumanRequirement z v = (if validate z HumanRequirementSchema v then Inr (requirement_of_js v)
     else Inl (ZodError ''Invalid human requirement''))"

definition parseHumanProofSubmission :: "zod \<Rightarrow> js \<Rightarrow> HumanProofSubmission res" where
  "parseHumanProofSubmission z v = (if validate z HumanProofSubmissionSchema v then Inr (proof_of_js v)
     else Inl (ZodError ''Invalid human proof submission''))"

definition parseHumanResult :: "zod \<Rightarrow> js \<Rightarrow> HumanResult res" where
  "parseHumanResult z v = (if validate z HumanResultSchema v then Inr (result_of_js v)
     else Inl (ZodError ''Invalid human result''))"

subsection \<open>The problem document\<close>

datatype X424RequirementTransportMode = HeaderMode | BodyMode

fun transport_text :: "X424RequirementTransportMode \<Rightarrow> string" where
  "transport_text HeaderMode = ''header''"
| "transport_text BodyMode = ''body''"

record X424Problem =
  xp_title :: string
  xp_detail :: string
  xp_dependencyId :: string
  xp_transport :: X424RequirementTransportMode
  xp_requirement :: "HumanRequirement option"

definition HumanRequiredProblemShape :: schema where
  "HumanRequiredProblemShape = ZObject [
     req ''type'' (ZLiteral (JStr ''https://x424.org/problems/human-required'')),
     req ''title'' (ZString [MinLen 1, MaxLen 200]),
     req ''status'' (ZLiteral (JNum (IntNum 424))),
     req ''detail'' (ZString [MinLen 1, MaxLen 2000]),
     req ''dependencyId'' (ZString [MinLen 1, MaxLen 200]),
     req ''x424Transport'' (ZEnum [''header'', ''body'']),
     opt ''requirement'' HumanRequirementSchema]"

definition problem_of_js :: "js \<Rightarrow> X424Problem" where
  "problem_of_js v = \<lparr>xp_title = get_str v ''title'', xp_detail = get_str v ''detail'',
     xp_dependencyId = get_str v ''dependencyId'',
     xp_transport = (if get_str v ''x424Transport'' = ''header'' then HeaderMode else BodyMode),
     xp_requirement = get_opt requirement_of_js v ''requirement''\<rparr>"

text \<open>The \<open>superRefine\<close> of the schema.\<close>

definition problem_consistent :: "X424Problem \<Rightarrow> bool" where
  "problem_consistent p = (case xp_transport p of
     HeaderMode \<Rightarrow> xp_requirement p = None
   | BodyMode \<Rightarrow> (case xp_requirement p of
       None \<Rightarrow> False | Some r \<Rightarrow> rq_dependencyId r = xp_dependencyId p))"

definition parseHumanRequiredProblem :: "zod \<Rightarrow> js \<Rightarrow> X424Problem res" where
  "parseHumanRequiredProblem z v =
     (if validate z HumanRequiredProblemShape v \<and> problem_consistent (problem_of_js v)
      then Inr (problem_of_js v) else Inl (ZodError ''Invalid human required problem''))"

definition js_of_problem :: "X424Problem \<Rightarrow> js" where
  "js_of_problem p = JObj ([
     (''type'', JStr ''https://x424.org/problems/human-required''), (''title'', JStr (xp_title p)),
     (''status'', JNum (IntNum 424)), (''detail'', JStr (xp_detail p)),
     (''dependencyId'', JStr (xp_dependencyId p)), (''x424Transport'', JStr (transport_text (xp_transport p)))] @
     opt_member ''requirement'' js_of_requirement (xp_requirement p))"

subsection \<open>Reading back\<close>

lemma scope_kind_inverse [simp]: "scope_kind_of (scope_kind_text k) = k"
  by (cases k) (simp_all add: scope_kind_of_def)

lemma binding_kind_inverse [simp]: "binding_kind_of (binding_kind_text b) = b"
  by (cases b) (simp_all add: binding_kind_of_def)

lemma verification_mode_inverse [simp]: "verification_mode_of (verification_mode_text m) = m"
  by (cases m) (simp_all add: verification_mode_of_def)

lemma strings_of_js_strings [simp]: "strings_of (js_strings xs) = xs"
  by (simp add: strings_of_def js_strings_def comp_def)

lemma js_get_JObj: "js_get (JObj kvs) k = (case map_of kvs k of None \<Rightarrow> JUndefined | Some w \<Rightarrow> w)"
  by (simp add: js_get_def)

lemma map_of_opt_member:
  "map_of (opt_member k f x @ ys) j = (if j = k \<and> x \<noteq> None then map_option f x else map_of ys j)"
  by (cases x) (auto simp: opt_member_def)

lemma map_of_opt_member_last:
  "map_of (opt_member k f x) j = (if j = k \<and> x \<noteq> None then map_option f x else None)"
  by (cases x) (auto simp: opt_member_def)

lemma js_strings_defined [simp]: "js_strings xs \<noteq> JUndefined"
  by (simp add: js_strings_def)

lemmas js_record_defs = js_of_binding_def js_of_scope_def js_of_method_def js_of_resource_def
  js_of_requirement_def js_of_result_def

lemmas js_reader_defs = binding_of_js_def scope_of_js_def method_of_js_def resource_of_js_def
  requirement_of_js_def result_of_js_def get_str_def get_opt_def

lemma binding_roundtrip [simp]: "binding_of_js (js_of_binding b) = b"
  by (simp add: js_record_defs js_reader_defs js_get_JObj)

lemma scope_roundtrip [simp]: "scope_of_js (js_of_scope s) = s"
  by (simp add: js_record_defs js_reader_defs js_get_JObj)

lemma resource_roundtrip [simp]: "resource_of_js (js_of_resource p) = p"
  by (simp add: js_record_defs js_reader_defs js_get_JObj)

lemma map_comp_id: "(\<And>x. f (g x) = x) \<Longrightarrow> map (f \<circ> g) xs = xs"
  by (simp add: comp_def)

lemma method_roundtrip [simp]: "method_of_js (js_of_method a) = a"
  by (cases "m_assuranceLevel a"; cases "m_maximumProofAgeSeconds a"; cases "m_verificationModes a")
    (simp_all add: js_of_method_def method_of_js_def get_str_def get_opt_def js_get_JObj opt_member_def map_comp_id)

lemma requirement_roundtrip: "requirement_of_js (js_of_requirement r) = r"
  by (cases "rq_providerRequests r")
    (simp_all add: js_of_requirement_def requirement_of_js_def get_str_def get_opt_def js_get_JObj
      opt_member_def comp_def)

lemma result_roundtrip: "result_of_js (js_of_result r) = r"
  by (cases "rs_assuranceLevel r"; cases "rs_stateReferences r")
    (simp_all add: js_of_result_def result_of_js_def get_str_def get_opt_def js_get_JObj opt_member_def)

subsection \<open>Reading normalized objects\<close>

text \<open>Normalization reorders members only, so the readers see the same values through it.\<close>

lemma normalize_object_members:
  assumes "js_normalize (JObj kvs) = Inr n" "distinct (map fst kvs)"
  shows "\<exists>out. n = JObj out \<and> distinct (map fst out) \<and>
    (\<forall>k c. (k, c) \<in> set out \<longleftrightarrow> k \<noteq> ''__proto__'' \<and> (\<exists>v. (k, v) \<in> set kvs \<and> v \<noteq> JUndefined \<and> js_normalize v = Inr c))"
proof -
  let ?f = "\<lambda>(k, child). bindE (js_normalize child) (\<lambda>n. Inr (k :: string, n))"
  define src where "src = filter (\<lambda>(k, child). child \<noteq> JUndefined) (sort_entries kvs)"
  from assms(1) obtain out where n: "n = JObj (own_keys_order (foldl assign_member [] out))"
    and out: "mapE ?f src = Inr out" by (auto simp: src_def)
  have "distinct (map fst (sort_entries kvs))"
    using assms(2) by (simp add: sort_entries_def distinct_map)
  then have "distinct (map fst src)" unfolding src_def by (rule distinct_filter_keys)
  then have dist: "distinct (map fst out)" using mapE_fst [OF out] by simp
  have mem: "(k, c) \<in> set out \<longleftrightarrow> (\<exists>v. (k, v) \<in> set src \<and> js_normalize v = Inr c)" for k c
    using out by (induction src arbitrary: out) auto
  have "foldl assign_member [] out = filter (\<lambda>(k, v). k \<noteq> ''__proto__'') out"
    using assign_fold_distinct [of "[]" out] dist by simp
  then show ?thesis
    using dist mem by (auto simp: n src_def distinct_filter_keys)
qed

lemma mapE_all: "mapE f xs = Inr ys \<Longrightarrow> x \<in> set xs \<Longrightarrow> \<exists>y. f x = Inr y"
  by (induction xs arbitrary: ys) auto

lemma normalize_get:
  assumes "js_normalize v = Inr n" "int_json v" "k \<noteq> ''__proto__''"
  shows "js_get v k = JUndefined \<and> js_get n k = JUndefined \<or>
    js_get v k \<noteq> JUndefined \<and> js_normalize (js_get v k) = Inr (js_get n k) \<and> int_json (js_get v k)"
proof (cases v)
  case (JObj kvs)
  with assms obtain out where out: "n = JObj out" "distinct (map fst out)"
    and mem: "\<And>k c. (k, c) \<in> set out \<longleftrightarrow> k \<noteq> ''__proto__'' \<and> (\<exists>v. (k, v) \<in> set kvs \<and> v \<noteq> JUndefined \<and> js_normalize v = Inr c)"
    using normalize_object_members [of kvs n] by auto
  have d: "distinct (map fst kvs)" using assms(2) JObj by simp
  have iff: "map_of out k = Some c \<longleftrightarrow> (\<exists>v. map_of kvs k = Some v \<and> v \<noteq> JUndefined \<and> js_normalize v = Inr c)" for c
    using mem [of k c] assms(3) out(2) d by (simp add: map_of_eq_Some_iff)
  show ?thesis
  proof (cases "map_of kvs k")
    case None
    with iff have "map_of out k = None" by (cases "map_of out k") auto
    with None show ?thesis by (simp add: JObj out(1) js_get_JObj)
  next
    case (Some w)
    show ?thesis
    proof (cases "w = JUndefined")
      case True
      with Some iff have "map_of out k = None" by (cases "map_of out k") auto
      with Some True show ?thesis by (simp add: JObj out(1) js_get_JObj)
    next
      case False
      let ?f = "\<lambda>(k, child). bindE (js_normalize child) (\<lambda>n. Inr (k :: string, n))"
      have wk: "(k, w) \<in> set kvs" using Some by (rule map_of_SomeD)
      obtain out' where "mapE ?f (filter (\<lambda>(k, child). child \<noteq> JUndefined) (sort_entries kvs)) = Inr out'"
        using assms(1) JObj by auto
      from mapE_all [OF this, of "(k, w)"] have "\<exists>c. js_normalize w = Inr c"
        using wk False by auto
      with Some False iff obtain c where c: "map_of out k = Some c" "js_normalize w = Inr c" by auto
      moreover have "int_json w" using wk assms(2) JObj by (auto simp: list_all_iff)
      ultimately show ?thesis
        using Some False by (simp add: JObj out(1) js_get_JObj)
    qed
  qed
qed (use assms in \<open>auto simp: js_get_def split: if_splits\<close>)

lemma normalize_str_of: "js_normalize v = Inr n \<Longrightarrow> str_of n = str_of v"
  by (cases v) (auto split: if_splits)

lemma normalize_int_of: "js_normalize v = Inr n \<Longrightarrow> int_of_js n = int_of_js v"
  by (cases v) (auto split: if_splits)

lemma normalize_elems:
  "js_normalize v = Inr n \<Longrightarrow> list_all2 (\<lambda>x y. js_normalize x = Inr y) (elems_of v) (elems_of n)"
proof (cases v)
  case (JArr xs)
  have "mapE js_normalize xs = Inr ys \<Longrightarrow> list_all2 (\<lambda>x y. js_normalize x = Inr y) xs ys" for ys
    by (induction xs arbitrary: ys) auto
  moreover assume "js_normalize v = Inr n"
  ultimately show ?thesis by (auto simp: JArr)
qed (auto split: if_splits)

lemma list_all2_map_eq:
  "list_all2 (\<lambda>x y. P x y) xs ys \<Longrightarrow> (\<And>x y. x \<in> set xs \<Longrightarrow> P x y \<Longrightarrow> f y = f x) \<Longrightarrow> map f ys = map f xs"
  by (induction xs ys rule: list_all2_induct) auto

lemma normalize_strings_of: "js_normalize v = Inr n \<Longrightarrow> strings_of n = strings_of v"
  unfolding strings_of_def by (rule list_all2_map_eq [OF normalize_elems]) (auto intro: normalize_str_of)

lemma get_str_alt: "get_str v k = str_of (js_get v k)"
  by (cases "js_get v k") (simp_all add: get_str_def)

lemma normalize_get_str:
  "js_normalize v = Inr n \<Longrightarrow> int_json v \<Longrightarrow> k \<noteq> ''__proto__'' \<Longrightarrow> get_str n k = get_str v k"
  using normalize_get [of v n k] normalize_str_of by (auto simp: get_str_alt)

lemma normalize_get_opt:
  assumes "js_normalize v = Inr n" "int_json v" "k \<noteq> ''__proto__''"
    "\<And>v n. js_normalize v = Inr n \<Longrightarrow> f n = f v"
  shows "get_opt f n k = get_opt f v k"
  using normalize_get [OF assms(1-3)] assms(4) normalize_not_undefined by (auto simp: get_opt_def)

lemma normalize_get_binding:
  assumes "js_normalize v = Inr n" "int_json v" "k \<noteq> ''__proto__''"
  shows "binding_of_js (js_get n k) = binding_of_js (js_get v k)" "scope_of_js (js_get n k) = scope_of_js (js_get v k)"
    "resource_of_js (js_get n k) = resource_of_js (js_get v k)"
  using normalize_get [OF assms] normalize_get_str
  by (auto simp: binding_of_js_def scope_of_js_def resource_of_js_def)

lemma normalize_get_strings:
  "js_normalize v = Inr n \<Longrightarrow> int_json v \<Longrightarrow> k \<noteq> ''__proto__'' \<Longrightarrow>
   strings_of (js_get n k) = strings_of (js_get v k)"
  using normalize_get [of v n k] normalize_strings_of by auto

lemma normalize_method:
  "js_normalize v = Inr n \<Longrightarrow> int_json v \<Longrightarrow> method_of_js n = method_of_js v"
  by (simp add: method_of_js_def normalize_get_str normalize_get_strings normalize_get_opt
      normalize_str_of normalize_strings_of normalize_int_of)

lemma normalize_result:
  "js_normalize v = Inr n \<Longrightarrow> int_json v \<Longrightarrow> result_of_js n = result_of_js v"
  by (simp add: result_of_js_def normalize_get_str normalize_get_strings normalize_get_opt
      normalize_str_of normalize_strings_of normalize_get_binding)

lemma normalize_requirement:
  assumes "js_normalize v = Inr n" "int_json v"
  shows "requirement_of_js n = (requirement_of_js v)\<lparr>rq_providerRequests := get_opt members_of n ''providerRequests''\<rparr>"
proof -
  have "map method_of_js (elems_of (js_get n ''accepts'')) = map method_of_js (elems_of (js_get v ''accepts''))"
  proof (cases "js_get v ''accepts'' = JUndefined")
    case True
    then show ?thesis using normalize_get [OF assms, of "''accepts''"] by auto
  next
    case False
    then have nv: "js_normalize (js_get v ''accepts'') = Inr (js_get n ''accepts'')" "int_json (js_get v ''accepts'')"
      using normalize_get [OF assms, of "''accepts''"] by auto
    have "x \<in> set (elems_of (js_get v ''accepts'')) \<Longrightarrow> int_json x" for x
      using nv(2) by (cases "js_get v ''accepts''") (auto simp: list_all_iff)
    then show ?thesis
      by (intro list_all2_map_eq [OF normalize_elems [OF nv(1)]]) (auto intro: normalize_method)
  qed
  then show ?thesis
    by (simp add: requirement_of_js_def normalize_get_str [OF assms] normalize_get_binding [OF assms])
qed

text \<open>Validity survives normalization.\<close>

fun plain_schema :: "schema \<Rightarrow> bool" where
  "plain_schema (ZLiteral w) = (case w of JStr _ \<Rightarrow> True | JBool _ \<Rightarrow> True | JNum _ \<Rightarrow> True | _ \<Rightarrow> False)"
| "plain_schema (ZArray s lo hi) = plain_schema s"
| "plain_schema (ZObject fs) = list_all (\<lambda>(k, optional, s). k \<noteq> ''__proto__'' \<and> plain_schema s) fs"
| "plain_schema _ = True"

lemma normalize_members_subset:
  "js_normalize (JObj kvs) = Inr n \<Longrightarrow> distinct (map fst kvs) \<Longrightarrow>
   \<exists>out. n = JObj out \<and> fst ` set out \<subseteq> fst ` set kvs"
proof -
  assume "js_normalize (JObj kvs) = Inr n" "distinct (map fst kvs)"
  then obtain out where "n = JObj out"
    and m: "\<And>k c. (k, c) \<in> set out \<longleftrightarrow> k \<noteq> ''__proto__'' \<and> (\<exists>v. (k, v) \<in> set kvs \<and> v \<noteq> JUndefined \<and> js_normalize v = Inr c)"
    using normalize_object_members [of kvs n] by blast
  moreover have "k \<in> fst ` set kvs" if "(k, c) \<in> set out" for k c
    using m [of k c] that by force
  then have "fst ` set out \<subseteq> fst ` set kvs" by (rule_tac image_subsetI) (metis prod.collapse)
  ultimately show ?thesis by blast
qed

lemma validate_normalize:
  "validate z S v \<Longrightarrow> js_normalize v = Inr n \<Longrightarrow> int_json v \<Longrightarrow> plain_schema S \<Longrightarrow> validate z S n"
proof (induction z S v arbitrary: n rule: validate.induct)
  case (2 z w v)
  then show ?case by (auto split: js.splits if_splits)
next
  case (6 z s lo hi v)
  then obtain xs ys where v: "v = JArr xs" "n = JArr ys" "mapE js_normalize xs = Inr ys" "list_all (validate z s) xs"
    "lo \<le> length xs" "length xs \<le> hi" by (auto split: js.splits)
  have "validate z s y" if "y \<in> set ys" for y
    using mapE_member [OF v(3) that] 6 v by (auto simp: list_all_iff)
  then show ?case using v mapE_length [OF v(3)] by (simp add: list_all_iff)
next
  case (7 z fs v)
  then obtain kvs where v: "v = JObj kvs" by (auto split: js.splits)
  with 7 obtain out where n: "n = JObj out" "fst ` set out \<subseteq> fst ` set kvs"
    using normalize_members_subset [of kvs n] by auto
  have "if js_get n k = JUndefined then opt' else validate z s (js_get n k)" if f: "(k, opt', s) \<in> set fs" for k opt' s
  proof -
    have old: "if js_get v k = JUndefined then opt' else validate z s (js_get v k)"
      using "7.prems"(1) f by (fastforce simp: v list_all_iff)
    have k: "k \<noteq> ''__proto__''" "plain_schema s" using "7.prems"(4) f by (auto simp: list_all_iff)
    show ?thesis
    proof (cases "js_get v k = JUndefined")
      case True
      then show ?thesis using normalize_get [OF "7.prems"(2,3) k(1)] old by auto
    next
      case False
      then have c: "js_normalize (js_get v k) = Inr (js_get n k)" "int_json (js_get v k)"
        using normalize_get [OF "7.prems"(2,3) k(1)] by auto
      with normalize_not_undefined have "js_get n k \<noteq> JUndefined" by blast
      with False old c k(2) "7.IH" [OF v f] show ?thesis by (auto simp: v)
    qed
  qed
  moreover have "k \<in> set (map fst fs)" if "(k, c) \<in> set out" for k c
  proof -
    have "k \<in> fst ` set kvs" using n(2) that by force
    then show ?thesis using "7.prems"(1) by (auto simp: v list_all_iff)
  qed
  ultimately show ?case using n(1) by (fastforce simp: list_all_iff)
next
  case (8 z hi v)
  then obtain kvs where v: "v = JObj kvs" by (auto split: js.splits)
  with 8 obtain out where n: "n = JObj out" "fst ` set out \<subseteq> fst ` set kvs"
    using normalize_members_subset [of kvs n] by auto
  with 8 v show ?case by (fastforce simp: list_all_iff)
qed (auto split: js.splits if_splits)

subsection \<open>Documents\<close>

definition result_keys :: "string list" where
  "result_keys = map fst (case HumanResultSchema of ZObject fs \<Rightarrow> fs | _ \<Rightarrow> [])"

lemma int_json_binding [simp]: "int_json (js_of_binding b)" "isPlainJsonValue (js_of_binding b)"
  by (simp_all add: js_of_binding_def)

lemma int_json_scope [simp]: "int_json (js_of_scope s)" "isPlainJsonValue (js_of_scope s)"
  by (simp_all add: js_of_scope_def)

lemma int_json_resource [simp]: "int_json (js_of_resource p)" "isPlainJsonValue (js_of_resource p)"
  by (simp_all add: js_of_resource_def)

lemma int_json_strings [simp]: "int_json (js_strings xs)" "isPlainJsonValue (js_strings xs)"
  by (simp_all add: js_strings_def list_all_iff)

lemma int_json_method [simp]: "int_json (js_of_method a)" "isPlainJsonValue (js_of_method a)"
  by (cases "m_assuranceLevel a"; cases "m_maximumProofAgeSeconds a"; cases "m_verificationModes a";
      simp add: js_of_method_def opt_member_def)+

lemma int_json_result [simp]: "int_json (js_of_result r)" "isPlainJsonValue (js_of_result r)"
  by (cases "rs_assuranceLevel r"; cases "rs_stateReferences r"; simp add: js_of_result_def opt_member_def)+

definition plain_requests :: "HumanRequirement \<Rightarrow> bool" where
  "plain_requests r \<longleftrightarrow> (\<forall>rs. rq_providerRequests r = Some rs \<longrightarrow>
     int_json (JObj rs) \<and> isPlainJsonValue (JObj rs) \<and> js_normalize (JObj rs) = Inr (JObj rs))"

lemma int_json_requirement:
  assumes "plain_requests r"
  shows "int_json (js_of_requirement r)" "isPlainJsonValue (js_of_requirement r)"
  using assms by (cases "rq_providerRequests r";
      simp add: js_of_requirement_def opt_member_def plain_requests_def list_all_iff)+

lemma plain_schemas:
  "plain_schema HumanResultSchema" "plain_schema HumanRequirementSchema"
  "plain_schema HumanProofSubmissionSchema" "plain_schema HumanRequiredProblemShape"
  by (simp_all add: HumanResultSchema_def HumanRequirementSchema_def HumanProofSubmissionSchema_def
      HumanRequiredProblemShape_def ResourceSchema_def req_def opt_def Sha256DigestSchema_def BindingSchema_def ScopeKindSchema_def
      VerificationModeSchema_def MethodRequirementSchema_def TimestampSchema_def)

text \<open>A document printed canonically is parsed back, whatever the label.\<close>

lemma canonical_document:
  assumes "int_json v" "isPlainJsonValue v"
  obtains t n where "canonicalJson v = Inr t" "js_normalize v = Inr n"
    "\<And>label. parseCanonicalJsonBytes (utf8_encode t) label = Inr n"
proof -
  obtain n where n: "js_normalize v = Inr n" using plain_normalizes [OF assms(2)] by blast
  then have t: "canonicalJson v = Inr (stringify n)" by (simp add: canonicalJson_def)
  show ?thesis
    using that [OF t n] parse_canonical [OF assms(1) t] n
    by (auto simp: parseCanonicalJsonBytes_eq_Inr utf8.dec_enc)
qed

lemma result_document:
  obtains t n where "canonicalJson (js_of_result r) = Inr t"
    "\<And>label. parseCanonicalJsonBytes (utf8_encode t) label = Inr n" "result_of_js n = r"
    "\<And>z. validate z HumanResultSchema (js_of_result r) \<Longrightarrow> parseHumanResult z n = Inr r"
proof -
  obtain t n where d: "canonicalJson (js_of_result r) = Inr t" "js_normalize (js_of_result r) = Inr n"
    "\<And>label. parseCanonicalJsonBytes (utf8_encode t) label = Inr n"
    using canonical_document [OF int_json_result] by metis
  have r: "result_of_js n = r" using normalize_result [OF d(2) int_json_result(1)] result_roundtrip by simp
  have "parseHumanResult z n = Inr r" if "validate z HumanResultSchema (js_of_result r)" for z
    using validate_normalize [OF that d(2) int_json_result(1) plain_schemas(1)] r
    by (simp add: parseHumanResult_def)
  then show ?thesis using that d r by blast
qed

lemma requirement_document:
  assumes "plain_requests r"
  obtains t n where "canonicalJson (js_of_requirement r) = Inr t"
    "\<And>label. parseCanonicalJsonBytes (utf8_encode t) label = Inr n" "requirement_of_js n = r"
    "\<And>z. validate z HumanRequirementSchema (js_of_requirement r) \<Longrightarrow> parseHumanRequirement z n = Inr r"
proof -
  note ij = int_json_requirement [OF assms]
  obtain t n where d: "canonicalJson (js_of_requirement r) = Inr t" "js_normalize (js_of_requirement r) = Inr n"
    "\<And>label. parseCanonicalJsonBytes (utf8_encode t) label = Inr n"
    using canonical_document [OF ij] by metis
  have "get_opt members_of n ''providerRequests'' = rq_providerRequests r"
    using normalize_get [OF d(2) ij(1), of "''providerRequests''"] assms
    by (cases "rq_providerRequests r")
      (auto simp: get_opt_def js_of_requirement_def js_get_JObj opt_member_def plain_requests_def
        simp del: js_normalize.simps)
  then have r: "requirement_of_js n = r"
    using normalize_requirement [OF d(2) ij(1)] by (simp add: requirement_roundtrip)
  have "parseHumanRequirement z n = Inr r" if "validate z HumanRequirementSchema (js_of_requirement r)" for z
    using validate_normalize [OF that d(2) ij(1) plain_schemas(2)] r
    by (simp add: parseHumanRequirement_def)
  then show ?thesis using that d r by blast
qed

subsection \<open>What validation guarantees\<close>

lemma validate_member:
  "validate z (ZObject fs) v \<Longrightarrow> (k, False, s) \<in> set fs \<Longrightarrow> validate z s (js_get v k)"
proof -
  assume v: "validate z (ZObject fs) v" and f: "(k, False, s) \<in> set fs"
  from v obtain kvs where kvs: "v = JObj kvs" by (cases v) auto
  with v have "list_all (\<lambda>(k, optional, s). if js_get (JObj kvs) k = JUndefined then optional
      else validate z s (js_get (JObj kvs) k)) fs"
    by (simp split del: if_split)
  with f show ?thesis by (fastforce simp: kvs list_all_iff split: if_splits)
qed

lemma validate_string: "validate z (ZString cs) v \<Longrightarrow> list_all (string_ok z (str_of v)) cs"
  by (cases v) auto

lemma validate_array: "validate z (ZArray s lo hi) v \<Longrightarrow>
  lo \<le> length (elems_of v) \<and> length (elems_of v) \<le> hi \<and> (\<forall>x \<in> set (elems_of v). validate z s x)"
  by (cases v) (auto simp: list_all_iff)

lemma validate_str_member:
  "validate z (ZObject fs) v \<Longrightarrow> (k, False, ZString cs) \<in> set fs \<Longrightarrow> list_all (string_ok z (get_str v k)) cs"
  unfolding get_str_alt by (rule validate_string, rule validate_member)

definition wf_requirement :: "HumanRequirement \<Rightarrow> bool" where
  "wf_requirement r \<longleftrightarrow> rq_x424Version r = X424_VERSION \<and>
     rq_dependencyId r \<noteq> [] \<and> length (rq_dependencyId r) \<le> 200 \<and>
     rq_purpose r \<noteq> [] \<and> length (rq_purpose r) \<le> 200 \<and> rq_nonce r \<noteq> [] \<and> length (rq_nonce r) \<le> 512 \<and>
     assertSha256Digest (pr_requestDigest (rq_resource r)) = Inr (pr_requestDigest (rq_resource r)) \<and>
     b_value (rq_binding r) \<noteq> [] \<and> rq_accepts r \<noteq> [] \<and> length (rq_accepts r) \<le> 10 \<and>
     (\<forall>a \<in> set (rq_accepts r). isHumanMethodIdentifier (m_providerId a) \<and> isHumanMethodIdentifier (m_methodId a) \<and>
        m_descriptorVersion a \<noteq> [] \<and> m_acceptedScopeKinds a \<noteq> [])"

lemma digest_check: "string_ok z s Sha256Digest \<longleftrightarrow> assertSha256Digest s = Inr s"
  using assertSha256Digest_iff [of s] by (cases "assertSha256Digest s") auto

lemma validate_requirement_wf:
  assumes "validate z HumanRequirementSchema v"
  shows "wf_requirement (requirement_of_js v)"
proof -
  note m = validate_member [OF assms [unfolded HumanRequirementSchema_def req_def opt_def]]
  note s = validate_str_member [OF assms [unfolded HumanRequirementSchema_def req_def opt_def]]
  have lit: "get_str v ''x424Version'' = ''0.1''"
    using m [of "''x424Version''" "ZLiteral (JStr ''0.1'')"] by (simp add: get_str_alt)
  have "validate z ResourceSchema (js_get v ''resource'')" "validate z BindingSchema (js_get v ''binding'')"
    by (rule m, simp)+
  note rb = validate_str_member [OF this(1) [unfolded ResourceSchema_def Sha256DigestSchema_def req_def]]
    validate_str_member [OF this(2) [unfolded BindingSchema_def req_def]]
  have res: "list_all (string_ok z (get_str (js_get v ''resource'') ''requestDigest'')) [MaxLen 200, Sha256Digest]"
    by (rule rb(1)) simp
  have bind: "list_all (string_ok z (get_str (js_get v ''binding'') ''value'')) [MinLen 1, MaxLen 512]"
    by (rule rb(2)) simp
  have acc: "validate z (ZArray MethodRequirementSchema 1 10) (js_get v ''accepts'')"
    by (rule m) simp
  have meth: "isHumanMethodIdentifier (m_providerId (method_of_js w)) \<and>
      isHumanMethodIdentifier (m_methodId (method_of_js w)) \<and> m_descriptorVersion (method_of_js w) \<noteq> [] \<and>
      m_acceptedScopeKinds (method_of_js w) \<noteq> []" if w: "w \<in> set (elems_of (js_get v ''accepts''))" for w
  proof -
    have vw: "validate z MethodRequirementSchema w" using validate_array [OF acc] w by blast
    note mm = validate_member [OF vw [unfolded MethodRequirementSchema_def req_def opt_def]]
    note ms = validate_str_member [OF vw [unfolded MethodRequirementSchema_def req_def opt_def]]
    have "validate z (ZArray ScopeKindSchema 1 4) (js_get w ''acceptedScopeKinds'')" by (rule mm) simp
    then have "elems_of (js_get w ''acceptedScopeKinds'') \<noteq> []" using validate_array by fastforce
    then show ?thesis
      using ms [of "''providerId''" "[Identifier]"] ms [of "''methodId''" "[Identifier]"]
        ms [of "''descriptorVersion''" "[MinLen 1, MaxLen 50]"]
      by (auto simp: method_of_js_def strings_of_def)
  qed
  have "elems_of (js_get v ''accepts'') \<noteq> []" "length (elems_of (js_get v ''accepts'')) \<le> 10"
    using validate_array [OF acc] by auto
  then show ?thesis
    using s [of "''dependencyId''" "[MinLen 1, MaxLen 200]"] s [of "''purpose''" "[MinLen 1, MaxLen 200]"]
      s [of "''nonce''" "[MinLen 1, MaxLen 512]"] lit res bind meth
    by (auto simp: wf_requirement_def requirement_of_js_def resource_of_js_def binding_of_js_def X424_VERSION_def
        digest_check simp del: string_ok.simps(7))
qed

subsection \<open>Properties\<close>


definition sample_zod :: zod where
  "sample_zod = \<lparr>z_url = (\<lambda>s. startsWith s ''https://''), z_datetime = (\<lambda>s. date_parse s \<noteq> None)\<rparr>"

definition sample_wire_requirement :: HumanRequirement where
  "sample_wire_requirement = \<lparr>rq_x424Version = ''0.1'', rq_dependencyId = ''dep'', rq_purpose = ''vote'',
     rq_resource = \<lparr>pr_method = ''POST'', pr_uri = ''https://a/'', pr_audience = ''https://a'',
       pr_requestDigest = ''sha256:AAAAAAAAAAAAAAAAAAAAAAAAAAAAAAAAAAAAAAAAAAA''\<rparr>,
     rq_nonce = ''n'', rq_binding = \<lparr>b_kind = BindAgentKey, b_value = ''k''\<rparr>,
     rq_createdAt = ''2026-01-01T00:00:00.000Z'', rq_expiresAt = ''2026-01-01T00:05:00.000Z'',
     rq_accepts = [\<lparr>m_providerId = ''world-id'', m_methodId = ''orb'', m_descriptorVersion = ''4.0'',
       m_assuranceLevel = None, m_acceptedScopeKinds = [Action], m_maximumProofAgeSeconds = Some 300,
       m_verificationModes = None\<rparr>], rq_providerRequests = None\<rparr>"

lemma sample_wire_valid: "validate sample_zod HumanRequirementSchema (js_of_requirement sample_wire_requirement)"
  by code_simp


text \<open>
  An accepted problem document carries its requirement in exactly one of the two transports: a body
  problem embeds a requirement of its own dependency, a header problem embeds none.
\<close>

theorem parseHumanRequiredProblem_one_transport:
  assumes "parseHumanRequiredProblem z v = Inr p"
  shows "(xp_transport p = HeaderMode \<longleftrightarrow> xp_requirement p = None) \<and>
    (\<forall>r. xp_requirement p = Some r \<longrightarrow> xp_transport p = BodyMode \<and> rq_dependencyId r = xp_dependencyId p)"
  using assms
  by (auto simp: parseHumanRequiredProblem_def problem_consistent_def
      split: if_splits X424RequirementTransportMode.splits option.splits)

theorem parseHumanRequiredProblem_one_transport_witness:
  "(HeaderMode = HeaderMode \<longleftrightarrow> (None :: HumanRequirement option) = None) \<and>
   parseHumanRequiredProblem sample_zod (JObj [(''type'', JStr ''https://x424.org/problems/human-required''),
     (''title'', JStr ''t''), (''status'', JNum (IntNum 424)), (''detail'', JStr ''d''),
     (''dependencyId'', JStr ''dep''), (''x424Transport'', JStr ''header'')]) =
   Inr \<lparr>xp_title = ''t'', xp_detail = ''d'', xp_dependencyId = ''dep'', xp_transport = HeaderMode,
     xp_requirement = None\<rparr>"
proof -
  have p: "parseHumanRequiredProblem sample_zod (JObj [(''type'', JStr ''https://x424.org/problems/human-required''),
     (''title'', JStr ''t''), (''status'', JNum (IntNum 424)), (''detail'', JStr ''d''),
     (''dependencyId'', JStr ''dep''), (''x424Transport'', JStr ''header'')]) =
   Inr \<lparr>xp_title = ''t'', xp_detail = ''d'', xp_dependencyId = ''dep'', xp_transport = HeaderMode,
     xp_requirement = None\<rparr>" by code_simp
  from parseHumanRequiredProblem_one_transport [OF p] p show ?thesis by simp
qed

end
