(* ===== verification/Transport.thy ===== *)
theory Transport
  imports Schemas
begin

section \<open>HTTP transport profile (src/transport.ts)\<close>

text \<open>
  The WHATWG URL parser is a parameter: \<open>parse s\<close> is \<open>new URL(s)\<close> and \<open>resolve p base\<close> is
  \<open>new URL(p, base)\<close>, None where the constructor throws; \<open>Url\<close> holds the components the code reads.
  Header tables are association lists with lower-case names.
\<close>

record Url =
  u_href :: string
  u_origin :: string
  u_protocol :: string
  u_host :: string
  u_hostname :: string
  u_pathname :: string
  u_search :: string
  u_hash :: string
  u_username :: string
  u_password :: string

type_synonym url_parser = "string \<Rightarrow> Url option"

definition new_URL :: "url_parser \<Rightarrow> string \<Rightarrow> Url res" where
  "new_URL parse s = (case parse s of None \<Rightarrow> Inl (TypeError ''Invalid URL'') | Some u \<Rightarrow> Inr u)"

lemma new_URL_eq_Inr [simp]: "new_URL parse s = Inr u \<longleftrightarrow> parse s = Some u"
  by (simp add: new_URL_def split: option.split)

definition X424_HEADER_ABSOLUTE_MAX_BYTES :: nat where
  "X424_HEADER_ABSOLUTE_MAX_BYTES = 65536"

definition X424_HEADER_INTEROP_ENVELOPE_BYTES :: nat where
  "X424_HEADER_INTEROP_ENVELOPE_BYTES = 8192"

lemmas transport_limits = X424_HEADER_ABSOLUTE_MAX_BYTES_def X424_HEADER_INTEROP_ENVELOPE_BYTES_def

definition X424_EXPOSED_HEADERS :: "string list" where
  "X424_EXPOSED_HEADERS = [''HUMAN-REQUIRED'', ''HUMAN-PROOF'', ''HUMAN-RESULT'']"

definition X424_ALLOW_HEADERS :: "string list" where
  "X424_ALLOW_HEADERS = [''HUMAN-PROOF'', ''Content-Type'', ''Authorization'', ''Idempotency-Key'', ''Content-Digest'']"

subsection \<open>Header sizes\<close>

definition encodedHeaderByteLength :: "string \<Rightarrow> nat" where
  "encodedHeaderByteLength encoded = length (utf8_encode encoded)"

definition selectRequirementTransportMode :: "nat \<Rightarrow> X424RequirementTransportMode res" where
  "selectRequirementTransportMode encodedHeaderLength =
     (if X424_HEADER_ABSOLUTE_MAX_BYTES < encodedHeaderLength
      then Inl (Error ''x424 requirement exceeds absolute transport maximum'')
      else if X424_HEADER_INTEROP_ENVELOPE_BYTES < encodedHeaderLength then Inr BodyMode
      else Inr HeaderMode)"

definition assertHeaderSize :: "string \<Rightarrow> string \<Rightarrow> unit res" where
  "assertHeaderSize value label =
     (if value = [] then Inl (Error (''Invalid '' @ label))
      else throwIf (X424_HEADER_ABSOLUTE_MAX_BYTES < encodedHeaderByteLength value) (Error (''Invalid '' @ label)))"

definition assertInlineHeaderEnvelope :: "string \<Rightarrow> unit res" where
  "assertInlineHeaderEnvelope encoded =
     throwIf (X424_HEADER_INTEROP_ENVELOPE_BYTES < encodedHeaderByteLength encoded)
       (Error ''HUMAN-REQUIRED exceeds interop envelope; use body transport'')"

subsection \<open>CORS\<close>

record X424CorsPolicy =
  cors_allowedOrigins :: "string list"
  cors_allowCredentials :: bool
  cors_maxAgeSeconds :: "nat option"

definition buildCorsHeaders :: "string option \<Rightarrow> X424CorsPolicy \<Rightarrow> (string \<times> string) list option" where
  "buildCorsHeaders requestOrigin policy = (case requestOrigin of
       None \<Rightarrow> None
     | Some origin \<Rightarrow>
         if origin = [] \<or> origin \<notin> set (cors_allowedOrigins policy) then None
         else Some ([
           (''access-control-allow-origin'', origin),
           (''access-control-expose-headers'', joinWith '', '' X424_EXPOSED_HEADERS),
           (''access-control-allow-headers'', joinWith '', '' X424_ALLOW_HEADERS),
           (''access-control-allow-methods'', ''GET, POST, PUT, PATCH, DELETE, OPTIONS''),
           (''vary'', ''Origin'')] @
           (if cors_allowCredentials policy then [(''access-control-allow-credentials'', ''true'')] else []) @
           (case cors_maxAgeSeconds policy of
              None \<Rightarrow> [] | Some n \<Rightarrow> [(''access-control-max-age'', string_of_nat n)])))"

subsection \<open>Public URIs\<close>

record PublicOriginConfig =
  po_publicOrigin :: string
  po_allowMatchingForwardedHost :: bool

text \<open>A header value that is present and not empty, as JavaScript's truthiness reads it.\<close>

definition present :: "string option \<Rightarrow> bool" where
  "present s \<longleftrightarrow> s \<noteq> None \<and> s \<noteq> Some []"

definition originRelativePath :: "string \<Rightarrow> bool" where
  "originRelativePath p \<longleftrightarrow>
     startsWith p ''/'' \<and> \<not> startsWith p ''//'' \<and> CHR 0x5C \<notin> set p \<and> CHR ''#'' \<notin> set p"

definition resolvePublicAbsoluteUri ::
  "url_parser \<Rightarrow> (string \<Rightarrow> Url \<Rightarrow> Url option) \<Rightarrow> PublicOriginConfig \<Rightarrow> string \<Rightarrow> string option \<Rightarrow> string option \<Rightarrow>
   string res" where
  "resolvePublicAbsoluteUri parse resolve config pathWithQuery forwardedHost forwardedProto =
     bindE (rethrowAs (new_URL parse (po_publicOrigin config))
              (Error ''publicOrigin must be an absolute URL origin'')) (\<lambda>origin.
     if u_pathname origin \<noteq> ''/'' \<or> u_search origin \<noteq> [] \<or> u_hash origin \<noteq> []
     then Inl (Error ''publicOrigin must not include path, query, or hash'')
     else if po_allowMatchingForwardedHost config \<and> present forwardedHost \<and> forwardedHost \<noteq> Some (u_host origin)
     then Inl (Error ''Forwarded host does not match configured publicOrigin'')
     else if po_allowMatchingForwardedHost config \<and> present forwardedProto \<and>
             forwardedProto \<noteq> Some (remove1 CHR '':'' (u_protocol origin))
     then Inl (Error ''Forwarded proto does not match configured publicOrigin'')
     else if \<not> originRelativePath pathWithQuery
     then Inl (Error ''Request path must be an unambiguous origin-relative path'')
     else bindE (new_URL (\<lambda>p. resolve p origin) pathWithQuery) (\<lambda>resolved.
       if u_origin resolved \<noteq> u_origin origin
       then Inl (Error ''Request path escaped configured publicOrigin'')
       else Inr (u_href resolved)))"

subsection \<open>Vary\<close>

text \<open>White space of \<open>String.prototype.trim\<close> among the modelled code units.\<close>

definition is_trim_space :: "char \<Rightarrow> bool" where
  "is_trim_space c \<longleftrightarrow> (of_char c :: nat) \<in> {9, 10, 11, 12, 13, 32, 160}"

definition trim :: "string \<Rightarrow> string" where
  "trim s = rev (dropWhile is_trim_space (rev (dropWhile is_trim_space s)))"

primrec first_by_key :: "('a \<Rightarrow> 'k) \<Rightarrow> 'k set \<Rightarrow> 'a list \<Rightarrow> 'a list" where
  "first_by_key f seen [] = []"
| "first_by_key f seen (x # xs) =
     (if f x \<in> seen then first_by_key f seen xs else x # first_by_key f (insert (f x) seen) xs)"

definition vary_tokens :: "string list option \<Rightarrow> string list \<Rightarrow> string list" where
  "vary_tokens existing values =
     (let current = (case existing of None \<Rightarrow> [] | Some ss \<Rightarrow> joinWith '','' ss)
      in filter (\<lambda>v. v \<noteq> []) (map trim (splitOn CHR '','' current @ values)))"

definition mergeVary :: "string list option \<Rightarrow> string list \<Rightarrow> string" where
  "mergeVary existing values =
     (let tokens = vary_tokens existing values
      in if ''*'' \<in> set tokens then ''*'' else joinWith '', '' (first_by_key toLowerCase {} tokens))"

subsection \<open>Challenges and redirects\<close>

definition assertChallengeRequestMatch ::
  "url_parser \<Rightarrow> string \<Rightarrow> string \<Rightarrow> string \<Rightarrow> string \<Rightarrow> string \<Rightarrow> unit res" where
  "assertChallengeRequestMatch parse requestMethod requestUrl challengeUrl resourceMethod resourceUri =
     (case (parse requestUrl, parse challengeUrl, parse resourceUri) of
        (Some request, Some challenge, Some resource) \<Rightarrow>
          if u_origin request \<noteq> u_origin challenge \<or> u_origin request \<noteq> u_origin resource
          then Inl (Error ''x424 challenge crossed an origin boundary'')
          else throwIf (resourceMethod \<noteq> toUpperCase requestMethod \<or> u_href resource \<noteq> u_href challenge)
                 (Error ''Human dependency challenge names another HTTP request'')
      | _ \<Rightarrow> Inl (Error ''x424 challenge URL is not absolute''))"

definition isCrossOriginRedirect :: "url_parser \<Rightarrow> string \<Rightarrow> string option \<Rightarrow> bool" where
  "isCrossOriginRedirect parse fromUrl toUrl =
     (if \<not> present toUrl then False
      else case (parse fromUrl, parse (the toUrl)) of
        (Some f, Some t) \<Rightarrow> u_origin f \<noteq> u_origin t
      | _ \<Rightarrow> True)"

definition assertTrustedHttpsUrl :: "url_parser \<Rightarrow> string \<Rightarrow> bool \<Rightarrow> Url res" where
  "assertTrustedHttpsUrl parse url allowHttpLocalhost =
     bindE (new_URL parse url) (\<lambda>parsed.
     if u_protocol parsed = ''https:'' then Inr parsed
     else if allowHttpLocalhost \<and> u_protocol parsed = ''http:'' \<and>
             (u_hostname parsed = ''localhost'' \<or> u_hostname parsed = ''127.0.0.1'') then Inr parsed
     else Inl (Error ''Verifier URL must use https outside local development''))"

subsection \<open>Sizes of ASCII headers\<close>

lemma utf8_encode_ascii: "list_all (\<lambda>c. (of_char c :: nat) < 128) s \<Longrightarrow> length (utf8_encode s) = length s"
  by (induction s) (auto simp: utf8_encode_def utf8_encode_char.simps)

lemma b64url_char_ascii: "is_b64url_char c \<Longrightarrow> (of_char c :: nat) < 128"
  by (auto simp: is_b64url_char_def is_upper_char_def is_lower_char_def is_digit_char_def)

lemma encodedHeaderByteLength_b64url [simp]:
  "encodedHeaderByteLength (encodeStrictBase64Url bs) = length (encodeStrictBase64Url bs)"
  using encodeStrictBase64Url_alphabet [of bs]
  by (simp add: encodedHeaderByteLength_def utf8_encode_ascii list_all_iff b64url_char_ascii)

lemma assertHeaderSize_eq_Inr [simp]:
  "assertHeaderSize s l = Inr u \<longleftrightarrow> s \<noteq> [] \<and> encodedHeaderByteLength s \<le> 65536"
  by (auto simp: assertHeaderSize_def transport_limits)

lemma assertInlineHeaderEnvelope_eq_Inr [simp]:
  "assertInlineHeaderEnvelope s = Inr u \<longleftrightarrow> encodedHeaderByteLength s \<le> 8192"
  by (auto simp: assertInlineHeaderEnvelope_def transport_limits)

lemma selectRequirementTransportMode_cases:
  "selectRequirementTransportMode n = Inr HeaderMode \<longleftrightarrow> n \<le> 8192"
  "selectRequirementTransportMode n = Inr BodyMode \<longleftrightarrow> 8192 < n \<and> n \<le> 65536"
  by (auto simp: selectRequirementTransportMode_def transport_limits)

subsection \<open>Vary is merged without loss\<close>

lemma trim_ends: "trim s \<noteq> [] \<Longrightarrow> \<not> is_trim_space (hd (trim s)) \<and> \<not> is_trim_space (last (trim s))"
proof -
  let ?a = "dropWhile is_trim_space s" and ?t = "dropWhile is_trim_space (rev (dropWhile is_trim_space s))"
  assume "trim s \<noteq> []"
  then have t: "?t \<noteq> []" by (simp add: trim_def)
  have a: "?a \<noteq> []"
  proof
    assume "?a = []"
    then have "?t = []" by (simp only: rev.simps dropWhile.simps)
    with t show False by simp
  qed
  obtain p where "rev ?a = p @ ?t" by (metis takeWhile_dropWhile_id)
  then have "?a = rev ?t @ rev p" by (metis rev_append rev_rev_ident)
  then have "hd (trim s) = hd ?a" using t unfolding trim_def by (metis hd_append2 rev_is_Nil_conv)
  moreover have "last (trim s) = hd ?t" using t unfolding trim_def by (metis last_rev)
  ultimately show ?thesis using a t by (metis hd_dropWhile)
qed

lemma trim_clean: "s = [] \<or> \<not> is_trim_space (hd s) \<and> \<not> is_trim_space (last s) \<Longrightarrow> trim s = s"
proof (cases "s = []")
  case False
  assume "s = [] \<or> \<not> is_trim_space (hd s) \<and> \<not> is_trim_space (last s)"
  with False have "dropWhile is_trim_space s = s" "dropWhile is_trim_space (rev s) = rev s"
    by (simp_all add: dropWhile_eq_self_iff hd_rev)
  then show ?thesis by (simp add: trim_def)
qed (simp add: trim_def)

lemma trim_trim [simp]: "trim (trim s) = trim s"
  using trim_ends trim_clean by blast

lemma trim_blank [simp]: "trim (CHR '' '' # s) = trim s" "trim [] = []"
  by (simp_all add: trim_def is_trim_space_def)

lemma set_trim: "set (trim s) \<subseteq> set s"
proof
  fix c assume "c \<in> set (trim s)"
  then have "c \<in> set (dropWhile is_trim_space s)" by (auto simp: trim_def dest: set_dropWhileD)
  then show "c \<in> set s" by (rule set_dropWhileD)
qed

definition vary_token :: "string \<Rightarrow> bool" where
  "vary_token t \<longleftrightarrow> t \<noteq> [] \<and> trim t = t \<and> CHR '','' \<notin> set t"

lemma vary_tokens_clean:
  assumes "\<forall>v \<in> set values. CHR '','' \<notin> set v" "t \<in> set (vary_tokens existing values)"
  shows "vary_token t"
  using assms splitOn_parts_no_sep [of _ "CHR '',''"] set_trim
  by (auto simp: vary_tokens_def vary_token_def Let_def) blast+

lemma split_joined_tokens:
  "\<forall>t \<in> set ts. vary_token t \<Longrightarrow>
   filter (\<lambda>v. v \<noteq> []) (map trim (splitOn CHR '','' (joinWith '', '' ts))) = ts"
proof (induction "'', ''" ts rule: joinWith.induct)
  case (2 x)
  then show ?case by (simp add: splitOn_no_sep vary_token_def)
next
  case (3 x y ys)
  have c: "splitOn CHR '','' (CHR '' '' # s) =
      (case splitOn CHR '','' s of [] \<Rightarrow> [[CHR '' '']] | z # zs \<Rightarrow> (CHR '' '' # z) # zs)" for s by simp
  have "map trim (splitOn CHR '','' (CHR '' '' # s)) = map trim (splitOn CHR '','' s)" for s
    using splitOn_not_Nil [of "CHR '',''" s] unfolding c by (cases "splitOn CHR '','' s") auto
  with 3 show ?case by (simp add: splitOn_append_sep vary_token_def del: splitOn.simps(2))
qed simp

lemma first_by_key_subset: "set (first_by_key f seen xs) \<subseteq> set xs"
  by (induction xs arbitrary: seen) auto

lemma first_by_key_keys: "f ` set (first_by_key f seen xs) = f ` set xs - seen"
  by (induction xs arbitrary: seen) auto

lemma first_by_key_distinct: "distinct (map f (first_by_key f seen xs))"
  using first_by_key_keys [of f] by (induction xs arbitrary: seen) (auto simp: image_iff)

lemma first_by_key_again:
  "f ` set ys \<subseteq> seen \<union> f ` set xs \<Longrightarrow>
   first_by_key f seen (first_by_key f seen xs @ ys) = first_by_key f seen xs"
proof (induction xs arbitrary: seen)
  case Nil
  then show ?case by (induction ys) auto
next
  case (Cons x xs)
  then show ?case using Cons.IH [of seen] Cons.IH [of "insert (f x) seen"] by (auto simp: insert_absorb)
qed

lemma mergeVary_tokens:
  assumes "\<forall>v \<in> set values. CHR '','' \<notin> set v"
  shows "vary_tokens (Some [mergeVary existing values]) [] =
    (if ''*'' \<in> set (vary_tokens existing values) then [''*'']
     else first_by_key toLowerCase {} (vary_tokens existing values))"
proof (cases "''*'' \<in> set (vary_tokens existing values)")
  case True
  then show ?thesis by (simp add: mergeVary_def vary_tokens_def [of "Some _"] trim_clean is_trim_space_def)
next
  case False
  have "\<forall>t \<in> set (first_by_key toLowerCase {} (vary_tokens existing values)). vary_token t"
    using vary_tokens_clean [OF assms] first_by_key_subset by fast
  from split_joined_tokens [OF this] False show ?thesis
    by (simp add: mergeVary_def vary_tokens_def [of "Some _"] Let_def)
qed

subsection \<open>Properties\<close>

text \<open>
  Merging \<open>Vary\<close> values loses none and repeats none: read back as a header, the merged value names, up
  to case, exactly the tokens of the existing header and the new values, each once (a wildcard replaces them
  all), and merging the same values again changes nothing.
\<close>

theorem mergeVary_lossless:
  assumes "\<forall>v \<in> set values. CHR '','' \<notin> set v"
  shows "(''*'' \<notin> set (vary_tokens existing values) \<longrightarrow>
      toLowerCase ` set (vary_tokens (Some [mergeVary existing values]) []) =
        toLowerCase ` set (vary_tokens existing values)) \<and>
    distinct (map toLowerCase (vary_tokens (Some [mergeVary existing values]) [])) \<and>
    mergeVary (Some [mergeVary existing values]) values = mergeVary existing values"
proof -
  note m = mergeVary_tokens [OF assms, of existing]
  let ?ts = "vary_tokens existing values" and ?vs = "filter (\<lambda>v. v \<noteq> []) (map trim values)"
  have app: "vary_tokens (Some [mergeVary existing values]) values = vary_tokens (Some [mergeVary existing values]) [] @ ?vs"
    by (simp add: vary_tokens_def)
  have vs: "set ?vs \<subseteq> set ?ts" by (auto simp: vary_tokens_def Let_def)
  have "mergeVary (Some [mergeVary existing values]) values = mergeVary existing values"
  proof (cases "''*'' \<in> set ?ts")
    case True
    then show ?thesis unfolding mergeVary_def [of "Some _"] app m by (simp add: mergeVary_def)
  next
    case False
    then have "''*'' \<notin> set (first_by_key toLowerCase {} ?ts @ ?vs)" using vs first_by_key_subset [of toLowerCase "{}" ?ts] by auto
    moreover have "first_by_key toLowerCase {} (first_by_key toLowerCase {} ?ts @ ?vs) = first_by_key toLowerCase {} ?ts"
      using vs by (intro first_by_key_again) (auto simp: image_iff)
    ultimately show ?thesis unfolding mergeVary_def [of "Some _"] app m using False by (simp add: mergeVary_def Let_def)
  qed
  then show ?thesis unfolding m by (simp add: first_by_key_keys first_by_key_distinct)
qed

theorem mergeVary_lossless_witness:
  "toLowerCase ` set (vary_tokens (Some [mergeVary (Some [''Origin, Accept'']) [''HUMAN-PROOF'', ''origin'']]) []) =
     toLowerCase ` set (vary_tokens (Some [''Origin, Accept'']) [''HUMAN-PROOF'', ''origin''])"
proof -
  have "''*'' \<notin> set (vary_tokens (Some [''Origin, Accept'']) [''HUMAN-PROOF'', ''origin''])" by code_simp
  moreover have "\<forall>v \<in> set [''HUMAN-PROOF'', ''origin'']. CHR '','' \<notin> set v" by simp
  ultimately show ?thesis using mergeVary_lossless by blast
qed

end
