(* ===== verification/ResultToken.thy ===== *)
theory ResultToken
  imports Schemas
begin

section \<open>Result tokens (src/result-token.ts)\<close>

text \<open>
  A result token is a compact JWS: base64url of the canonical header, of the canonical result and of an
  Ed25519 signature over the two.  \<open>sign\<close> and \<open>verify\<close> are parameters over abstract key types; an
  external signer is a function that may throw.
\<close>

type_synonym 'pk key_set = "(string \<times> 'pk) list"

datatype 'pk ResultVerifier = SingleKey string 'pk | KeySet "'pk key_set"

definition token_header :: "string \<Rightarrow> js" where
  "token_header kid = JObj [(''alg'', JStr ''EdDSA''), (''typ'', JStr ''x424-result+jws''), (''kid'', JStr kid)]"

definition token_signing_input :: "string \<Rightarrow> HumanResult \<Rightarrow> string res" where
  "token_signing_input kid result =
     bindE (canonicalJson (token_header kid)) (\<lambda>header.
     bindE (canonicalJson (js_of_result result)) (\<lambda>payload.
       Inr (encodeStrictBase64Url (utf8_encode header) @ ''.'' @ encodeStrictBase64Url (utf8_encode payload))))"

definition signHumanResult :: "('sk \<Rightarrow> bytes \<Rightarrow> bytes) \<Rightarrow> HumanResult \<Rightarrow> string \<Rightarrow> 'sk \<Rightarrow> string res" where
  "signHumanResult sign result keyId privateKey =
     bindE (token_signing_input keyId result) (\<lambda>signingInput.
       Inr (signingInput @ ''.'' @ encodeStrictBase64Url (sign privateKey (utf8_encode signingInput))))"

definition signHumanResultWithExternal :: "HumanResult \<Rightarrow> string \<Rightarrow> (bytes \<Rightarrow> bytes res) \<Rightarrow> string res" where
  "signHumanResultWithExternal result keyId signFn =
     bindE (token_signing_input keyId result) (\<lambda>signingInput.
     bindE (signFn (utf8_encode signingInput)) (\<lambda>signature.
       Inr (signingInput @ ''.'' @ encodeStrictBase64Url signature)))"

definition parseTokenHeader :: "string \<Rightarrow> string res" where
  "parseTokenHeader protectedHeader =
     bindE (decodeStrictBase64Url protectedHeader ''JWS header'') (\<lambda>bs.
     bindE (parseCanonicalJsonBytes bs ''JWS header'') (\<lambda>header.
       if header = JNull then Inl (TypeError ''Cannot read properties of null'')
       else case js_get header ''kid'' of
         JStr kid \<Rightarrow>
           if js_get header ''alg'' \<noteq> JStr ''EdDSA'' \<or> js_get header ''typ'' \<noteq> JStr ''x424-result+jws'' \<or> kid = []
           then Inl (Error ''Unsupported x424 result token header'')
           else if list_ex (\<lambda>key. key \<noteq> ''alg'' \<and> key \<noteq> ''typ'' \<and> key \<noteq> ''kid'') (map fst (members_of header))
           then Inl (Error ''Unsupported x424 result token header field'')
           else Inr kid
       | _ \<Rightarrow> Inl (Error ''Unsupported x424 result token header'')))"

definition verification_key :: "'pk ResultVerifier \<Rightarrow> string \<Rightarrow> 'pk res" where
  "verification_key verifier kid = (case verifier of
     KeySet ks \<Rightarrow> (case map_of ks kid of
       None \<Rightarrow> Inl (Error ''Unknown x424 result token kid'') | Some k \<Rightarrow> Inr k)
   | SingleKey keyId k \<Rightarrow> (if kid \<noteq> keyId then Inl (Error ''Unsupported x424 result token header'') else Inr k))"

definition verifyHumanResultToken ::
  "zod \<Rightarrow> ('pk \<Rightarrow> bytes \<Rightarrow> bytes \<Rightarrow> bool) \<Rightarrow> string \<Rightarrow> 'pk ResultVerifier \<Rightarrow> HumanResult res" where
  "verifyHumanResultToken z verify token verifier =
     (if token = [] \<or> 65536 < length token then Inl (Error ''Malformed x424 result token'')
      else case splitOn CHR ''.'' token of
        [protectedHeader, payload, signature] \<Rightarrow>
          (if protectedHeader = [] \<or> payload = [] \<or> signature = []
           then Inl (Error ''Malformed x424 result token'')
           else
             bindE (parseTokenHeader protectedHeader) (\<lambda>kid.
             bindE (verification_key verifier kid) (\<lambda>publicKey.
             let signingInput = protectedHeader @ ''.'' @ payload
             in bindE (decodeStrictBase64Url signature ''JWS signature'') (\<lambda>signatureBytes.
             if length signatureBytes \<noteq> 64 then Inl (Error ''Invalid x424 result token signature length'')
             else if \<not> verify publicKey (utf8_encode signingInput) signatureBytes
             then Inl (Error ''Invalid x424 result token signature'')
             else
               bindE (decodeStrictBase64Url payload ''JWS payload'') (\<lambda>bs.
               bindE (parseCanonicalJsonBytes bs ''JWS payload'') (\<lambda>v. parseHumanResult z v))))))
      | _ \<Rightarrow> Inl (Error ''Malformed x424 result token''))"

subsection \<open>Shape of tokens\<close>

lemma b64url_no_dot: "CHR ''.'' \<notin> set (encodeStrictBase64Url bs)"
proof -
  have "\<not> is_b64url_char CHR ''.''"
    by (simp add: is_b64url_char_def is_upper_char_def is_lower_char_def is_digit_char_def)
  then show ?thesis using encodeStrictBase64Url_alphabet [of bs] by (auto simp: list_all_iff)
qed

lemma split_token:
  "splitOn CHR ''.'' (encodeStrictBase64Url h @ ''.'' @ encodeStrictBase64Url p @ ''.'' @ encodeStrictBase64Url s) =
   [encodeStrictBase64Url h, encodeStrictBase64Url p, encodeStrictBase64Url s]"
  by (simp add: splitOn_append_sep splitOn_no_sep b64url_no_dot)

definition sorted_token_header :: "string \<Rightarrow> js" where
  "sorted_token_header kid = JObj [(''alg'', JStr ''EdDSA''), (''kid'', JStr kid), (''typ'', JStr ''x424-result+jws'')]"

lemma normalize_token_header: "js_normalize (token_header kid) = Inr (sorted_token_header kid)"
proof -
  have i: "\<not> is_array_index ''alg''" "\<not> is_array_index ''typ''" "\<not> is_array_index ''kid''"
    by (simp_all add: is_array_index_def is_digit_char_def)
  then show ?thesis
    by (simp add: token_header_def sorted_token_header_def sort_entries_def assign_member_def own_keys_order_def)
qed

lemma stringify_not_Nil: "stringify v \<noteq> []"
proof -
  have "json_number n \<noteq> []" for n
    by (cases n) (auto simp: string_of_int_def string_of_decimal_def Let_def)
  then show ?thesis by (cases v) (auto simp: json_quote_def)
qed

lemma utf8_encode_eq_Nil [simp]: "utf8_encode s = [] \<longleftrightarrow> s = []"
  using utf8_encode_inj [of s "[]"] by (auto simp: utf8_encode_def)

lemma token_header_text:
  obtains h where "canonicalJson (token_header kid) = Inr h" "h \<noteq> []"
    "kid \<noteq> [] \<Longrightarrow> parseTokenHeader (encodeStrictBase64Url (utf8_encode h)) = Inr kid"
proof -
  have ij: "int_json (token_header kid)" by (simp add: token_header_def)
  have h: "canonicalJson (token_header kid) = Inr (stringify (sorted_token_header kid))"
    by (simp add: canonicalJson_def normalize_token_header)
  have p: "parseCanonicalJsonBytes (utf8_encode (stringify (sorted_token_header kid))) l =
      Inr (sorted_token_header kid)" for l
    using parse_canonical [OF ij h] normalize_token_header
    by (auto simp: parseCanonicalJsonBytes_eq_Inr utf8.dec_enc)
  have "parseTokenHeader (encodeStrictBase64Url (utf8_encode (stringify (sorted_token_header kid)))) = Inr kid"
    if "kid \<noteq> []"
    using that by (simp add: parseTokenHeader_def decode_encode_base64Url p stringify_not_Nil)
      (simp add: sorted_token_header_def js_get_JObj)
  then show ?thesis using that h stringify_not_Nil by blast
qed

lemma canonicalJson_not_Nil: "canonicalJson v = Inr t \<Longrightarrow> t \<noteq> []"
  by (auto simp: canonicalJson_def stringify_not_Nil)

lemma token_signing_input_total: "\<exists>s. token_signing_input kid r = Inr s"
proof -
  obtain h where "canonicalJson (token_header kid) = Inr h" using token_header_text by blast
  moreover obtain t where "canonicalJson (js_of_result r) = Inr t" using result_document [of r] by blast
  ultimately show ?thesis by (simp add: token_signing_input_def)
qed

lemma verify_signed:
  assumes inp: "token_signing_input kid r = Inr inp" and k: "kid \<noteq> []"
    and key: "verification_key verifier kid = Inr pk"
    and valid: "validate z HumanResultSchema (js_of_result r)"
    and sig: "length sig = 64" "verify pk (utf8_encode inp) sig"
    and len: "length (inp @ ''.'' @ encodeStrictBase64Url sig) \<le> 65536"
  shows "verifyHumanResultToken z verify (inp @ ''.'' @ encodeStrictBase64Url sig) verifier = Inr r"
proof -
  obtain h where h: "canonicalJson (token_header kid) = Inr h" "h \<noteq> []"
    "parseTokenHeader (encodeStrictBase64Url (utf8_encode h)) = Inr kid"
    using token_header_text [of kid] k by metis
  obtain t n where t: "canonicalJson (js_of_result r) = Inr t"
    "\<And>label. parseCanonicalJsonBytes (utf8_encode t) label = Inr n" "parseHumanResult z n = Inr r"
    using result_document [of r] valid by metis
  have i: "inp = encodeStrictBase64Url (utf8_encode h) @ ''.'' @ encodeStrictBase64Url (utf8_encode t)"
    using inp h(1) t(1) by (simp add: token_signing_input_def)
  have ne: "t \<noteq> []" "sig \<noteq> []" using canonicalJson_not_Nil [OF t(1)] sig(1) by auto
  have sp: "splitOn CHR ''.'' (inp @ ''.'' @ encodeStrictBase64Url sig) =
      [encodeStrictBase64Url (utf8_encode h), encodeStrictBase64Url (utf8_encode t), encodeStrictBase64Url sig]"
    using split_token by (simp add: i)
  have "verify pk (utf8_encode (encodeStrictBase64Url (utf8_encode h) @ ''.'' @ encodeStrictBase64Url (utf8_encode t))) sig"
    using sig(2) i by simp
  with ne h t key sig(1) len show ?thesis
    unfolding verifyHumanResultToken_def sp by (simp add: decode_encode_base64Url Let_def not_less)
qed

lemma signHumanResult_shape:
  "signHumanResult sign r kid sk = Inr tok \<longleftrightarrow>
   (\<exists>inp. token_signing_input kid r = Inr inp \<and>
      tok = inp @ ''.'' @ encodeStrictBase64Url (sign sk (utf8_encode inp)))"
  by (auto simp: signHumanResult_def)

lemma signHumanResultWithExternal_shape:
  "signHumanResultWithExternal r kid signFn = Inr tok \<longleftrightarrow>
   (\<exists>inp sig. token_signing_input kid r = Inr inp \<and> signFn (utf8_encode inp) = Inr sig \<and>
      tok = inp @ ''.'' @ encodeStrictBase64Url sig)"
  by (auto simp: signHumanResultWithExternal_def)

lemma signed_verifies:
  assumes "signHumanResult sign r kid sk = Inr tok" "verification_key verifier kid = Inr pk" "kid \<noteq> []"
    "\<And>m. length (sign sk m) = 64 \<and> verify pk m (sign sk m)"
    "validate z HumanResultSchema (js_of_result r)" "length tok \<le> 65536"
  shows "verifyHumanResultToken z verify tok verifier = Inr r"
proof -
  from assms(1) obtain inp where inp: "token_signing_input kid r = Inr inp"
    "tok = inp @ ''.'' @ encodeStrictBase64Url (sign sk (utf8_encode inp))"
    by (auto simp: signHumanResult_shape)
  show ?thesis
    using assms(4,6) unfolding inp(2) by (intro verify_signed [OF inp(1) assms(3,2,5)]) simp_all
qed

text \<open>What an accepted token proves.\<close>

lemma verify_token_elim:
  assumes "verifyHumanResultToken z verify tok verifier = Inr r"
  obtains h p s kid pk sig v where "tok = h @ ''.'' @ p @ ''.'' @ s" "parseTokenHeader h = Inr kid"
    "verification_key verifier kid = Inr pk" "s = encodeStrictBase64Url sig" "length sig = 64"
    "verify pk (utf8_encode (h @ ''.'' @ p)) sig" "p = encodeStrictBase64Url v"
    "bindE (parseCanonicalJsonBytes v ''JWS payload'') (parseHumanResult z) = Inr r"
    "splitOn CHR ''.'' tok = [h, p, s]"
proof -
  obtain h p s where parts: "splitOn CHR ''.'' tok = [h, p, s]"
    using assms by (auto simp: verifyHumanResultToken_def split: if_splits list.splits)
  have tok: "tok = h @ ''.'' @ p @ ''.'' @ s"
    using joinWith_splitOn [of "CHR ''.''" tok] by (simp add: parts)
  from assms parts show ?thesis
    by (auto simp: verifyHumanResultToken_def Let_def decode_base64Url_iff split: if_splits intro!: that tok)
qed

subsection \<open>Properties\<close>

text \<open>
  C19: Signing and verification round trip: a token signed under a key identifier, with a signature of
  64 bytes that the verifier's key for that identifier accepts, is verified to exactly the result that
  was signed, whenever that result satisfies the wire schema and the token is within its length limit.
\<close>

theorem result_token_roundtrip:
  assumes "signHumanResult sign r kid sk = Inr tok" "verification_key verifier kid = Inr pk" "kid \<noteq> []"
    "\<And>m. length (sign sk m) = 64 \<and> verify pk m (sign sk m)"
    "validate z HumanResultSchema (js_of_result r)" "length tok \<le> 65536"
  shows "verifyHumanResultToken z verify tok verifier = Inr r"
  using assms by (rule signed_verifies)

text \<open>A toy signature scheme, for the witnesses: the signature is the key and the length of the message.\<close>

definition toy_sign :: "bytes \<Rightarrow> bytes \<Rightarrow> bytes" where
  "toy_sign k m = take 64 (k @ word_of_nat (length m) # replicate 64 0)"

definition toy_verify :: "bytes \<Rightarrow> bytes \<Rightarrow> bytes \<Rightarrow> bool" where
  "toy_verify k m s \<longleftrightarrow> s = toy_sign k m"

definition sample_wire_result :: HumanResult where
  "sample_wire_result = \<lparr>rs_x424Version = ''0.1'', rs_resultId = ''res'', rs_dependencyId = ''dep'',
     rs_purpose = ''vote'', rs_audience = ''https://a'',
     rs_requestDigest = ''sha256:AAAAAAAAAAAAAAAAAAAAAAAAAAAAAAAAAAAAAAAAAAA'',
     rs_binding = \<lparr>b_kind = BindAgentKey, b_value = ''k''\<rparr>, rs_providerId = ''world-id'',
     rs_methodId = ''orb'', rs_descriptorVersion = ''4.0'', rs_assuranceLevel = Some ''orb'',
     rs_pairwiseHumanId = ''x424_human_h'', rs_uniquenessScope = \<lparr>us_kind = Action, us_id = ''a''\<rparr>,
     rs_verificationMode = Backend, rs_proofDigest = ''sha256:AAAAAAAAAAAAAAAAAAAAAAAAAAAAAAAAAAAAAAAAAAA'',
     rs_claim = ''unique human'', rs_nonClaims = [''legal identity''],
     rs_verifiedAt = ''2026-01-01T00:00:01.000Z'', rs_issuedAt = ''2026-01-01T00:00:02.000Z'',
     rs_expiresAt = ''2026-01-01T00:04:00.000Z'', rs_stateReferences = None\<rparr>"

lemma sample_wire_result_valid: "validate sample_zod HumanResultSchema (js_of_result sample_wire_result)"
  by code_simp

definition sample_token :: string where
  "sample_token = (case signHumanResult toy_sign sample_wire_result ''k1'' [7] of Inr t \<Rightarrow> t | Inl _ \<Rightarrow> [])"

lemma sample_token_signed: "signHumanResult toy_sign sample_wire_result ''k1'' [7] = Inr sample_token"
  using token_signing_input_total [of "''k1''" sample_wire_result]
  by (auto simp: sample_token_def signHumanResult_def)

lemma toy_signature [simp]: "length (toy_sign k m) = 64" "toy_verify k m (toy_sign k m)"
  by (simp_all add: toy_sign_def toy_verify_def)

lemma length_utf8_encode: "length (utf8_encode s) \<le> 2 * length s"
  by (induction s) (auto simp: utf8_encode_def)

lemma b64_length_le: "length (encodeStrictBase64Url bs) \<le> 2 * length bs + 1"
proof -
  have "(4 * n + 2) div 3 \<le> 2 * n + (1 :: nat)" for n by presburger
  then show ?thesis by simp
qed

lemma sample_payload: "\<exists>t. canonicalJson (js_of_result sample_wire_result) = Inr t \<and> length t < 2000"
proof -
  have "case canonicalJson (js_of_result sample_wire_result) of Inr t \<Rightarrow> length t < 2000 | Inl _ \<Rightarrow> False"
    by code_simp
  then show ?thesis by (auto split: sum.splits)
qed

lemma sample_header: "\<exists>t. canonicalJson (token_header ''k1'') = Inr t \<and> length t < 100"
proof -
  have "case canonicalJson (token_header ''k1'') of Inr t \<Rightarrow> length t < 100 | Inl _ \<Rightarrow> False"
    by code_simp
  then show ?thesis by (auto split: sum.splits)
qed

lemma sample_token_length: "length sample_token \<le> 65536"
proof -
  obtain t where t: "canonicalJson (js_of_result sample_wire_result) = Inr t" "length t < 2000"
    using sample_payload by blast
  obtain h where h: "canonicalJson (token_header ''k1'') = Inr h" "length h < 100"
    using sample_header by blast
  let ?h = "encodeStrictBase64Url (utf8_encode h)" and ?t = "encodeStrictBase64Url (utf8_encode t)"
  let ?s = "encodeStrictBase64Url (toy_sign [7] (utf8_encode (?h @ ''.'' @ ?t)))"
  have tok: "sample_token = ?h @ ''.'' @ ?t @ ''.'' @ ?s"
    using sample_token_signed t h by (auto simp: signHumanResult_shape token_signing_input_def)
  have "length sample_token = length ?h + length ?t + length ?s + 2"
    by (subst tok) (simp only: length_append list.size)
  moreover have "length ?s \<le> 129" using b64_length_le [of "toy_sign [7] (utf8_encode (?h @ ''.'' @ ?t))"]
    by (simp only: toy_signature)
  moreover have "length ?h < 500" "length ?t < 9000"
    using length_utf8_encode [of h] length_utf8_encode [of t] t(2) h(2)
      b64_length_le [of "utf8_encode h"] b64_length_le [of "utf8_encode t"] by linarith+
  ultimately show ?thesis by linarith
qed

lemma sample_token_verified:
  "verifyHumanResultToken sample_zod toy_verify sample_token (SingleKey ''k1'' [7]) = Inr sample_wire_result"
  using sample_wire_result_valid sample_token_length
  by (intro signed_verifies [OF sample_token_signed]) (simp add: verification_key_def, simp, use toy_signature in blast, assumption+)

theorem result_token_roundtrip_witness:
  "verifyHumanResultToken sample_zod toy_verify sample_token (SingleKey ''k1'' [7]) = Inr sample_wire_result"
  using sample_wire_result_valid sample_token_length
  by (intro result_token_roundtrip [OF sample_token_signed]) (simp add: verification_key_def, simp, use toy_signature in blast, assumption+)

text \<open>
  C20: An accepted token is authentic: it consists of three parts, its header names a key of the trusted
  set, that key verifies a 64-byte signature over exactly the first two parts, and its payload is the
  canonical JSON of a document that satisfies the result schema and reads as the returned result.
\<close>

theorem result_token_authentic:
  assumes "verifyHumanResultToken z verify tok verifier = Inr r"
  shows "\<exists>h p s kid pk sig v n. tok = h @ ''.'' @ p @ ''.'' @ s \<and> parseTokenHeader h = Inr kid \<and>
    verification_key verifier kid = Inr pk \<and> s = encodeStrictBase64Url sig \<and> length sig = 64 \<and>
    verify pk (utf8_encode (h @ ''.'' @ p)) sig \<and> p = encodeStrictBase64Url v \<and>
    parseCanonicalJsonBytes v ''JWS payload'' = Inr n \<and> validate z HumanResultSchema n \<and> r = result_of_js n"
proof -
  from assms obtain h p s kid pk sig v where t: "tok = h @ ''.'' @ p @ ''.'' @ s" "parseTokenHeader h = Inr kid"
    "verification_key verifier kid = Inr pk" "s = encodeStrictBase64Url sig" "length sig = 64"
    "verify pk (utf8_encode (h @ ''.'' @ p)) sig" "p = encodeStrictBase64Url v"
    and n: "bindE (parseCanonicalJsonBytes v ''JWS payload'') (parseHumanResult z) = Inr r"
    by (rule verify_token_elim)
  from n obtain n where "parseCanonicalJsonBytes v ''JWS payload'' = Inr n" "parseHumanResult z n = Inr r"
    by auto
  with t show ?thesis by (auto simp: parseHumanResult_def split: if_splits) blast
qed

theorem result_token_authentic_witness:
  "\<exists>h p s kid pk sig v n. sample_token = h @ ''.'' @ p @ ''.'' @ s \<and> parseTokenHeader h = Inr kid \<and>
    verification_key (SingleKey ''k1'' [7]) kid = Inr pk \<and> s = encodeStrictBase64Url sig \<and> length sig = 64 \<and>
    toy_verify pk (utf8_encode (h @ ''.'' @ p)) sig \<and> p = encodeStrictBase64Url v \<and>
    parseCanonicalJsonBytes v ''JWS payload'' = Inr n \<and> validate sample_zod HumanResultSchema n \<and>
    sample_wire_result = result_of_js n"
  by (rule result_token_authentic [OF sample_token_verified])

end
