(* ===== verification/Requirements.thy ===== *)
theory Requirements
  imports Validation Digest
begin

section \<open>Creating a requirement (src/requirements.ts)\<close>

text \<open>
  The ambient inputs of \<open>createHumanRequirement\<close> are explicit: the system clock, a fresh UUID and 32
  random bytes.  A body that is not given is \<open>JUndefined\<close>.
\<close>

record CreateInput =
  cr_purpose :: string
  cr_method :: string
  cr_uri :: string
  cr_audience :: string
  cr_body :: js
  cr_bodyInput :: "RequestBodyDigestInput option"
  cr_binding :: HumanBinding
  cr_accepts :: "HumanMethodRequirement list"
  cr_providerRequests :: "(string \<times> js) list option"
  cr_ttlSeconds :: "jsnum option"
  cr_dependencyId :: "string option"
  cr_nonce :: "string option"
  cr_now :: "int option"

record Ambient =
  am_now :: int
  am_uuid :: string
  am_random :: bytes

definition accept_key :: "string list \<Rightarrow> HumanMethodRequirement \<Rightarrow> string list res" where
  "accept_key acceptedKeys accepted =
     (if \<not> isHumanMethodIdentifier (m_providerId accepted) \<or> \<not> isHumanMethodIdentifier (m_methodId accepted)
      then Inl (Error ''Accepted human method identifiers are invalid'')
      else let key = methodKey (m_providerId accepted) (m_methodId accepted)
           in if key \<in> set acceptedKeys then Inl (Error (''Duplicate accepted human method: '' @ key))
              else Inr (acceptedKeys @ [key]))"

definition ttl_of :: "jsnum option \<Rightarrow> int res" where
  "ttl_of ttl = (case ttl of
     None \<Rightarrow> Inr 300
   | Some (IntNum n) \<Rightarrow> (if n < 30 \<or> 900 < n
       then Inl (Error ''Requirement TTL must be between 30 and 900 seconds'') else Inr n)
   | Some _ \<Rightarrow> Inl (Error ''Requirement TTL must be between 30 and 900 seconds''))"

definition createHumanRequirement :: "hash \<Rightarrow> Ambient \<Rightarrow> CreateInput \<Rightarrow> HumanRequirement res" where
  "createHumanRequirement H amb input =
     (if cr_purpose input = [] \<or> cr_audience input = [] \<or> cr_accepts input = []
      then Inl (Error ''Purpose, audience, and one accepted method are required'')
      else
        bindE (foldE accept_key [] (cr_accepts input)) (\<lambda>acceptedKeys.
        bindE (eachE (\<lambda>key. throwIf (key \<notin> set acceptedKeys)
                   (Error (''Provider request material names an unaccepted method: '' @ key)))
                 (map fst (case cr_providerRequests input of None \<Rightarrow> [] | Some rs \<Rightarrow> rs))) (\<lambda>_.
        let now = (case cr_now input of None \<Rightarrow> am_now amb | Some t \<Rightarrow> t)
        in bindE (ttl_of (cr_ttlSeconds input)) (\<lambda>ttlSeconds.
        bindE (case cr_bodyInput input of
                 Some bi \<Rightarrow> Inr bi
               | None \<Rightarrow> if cr_body input = JUndefined then Inr BodyAbsent
                         else bodyInputFromPlainJsonBody (cr_body input)) (\<lambda>bodyInput.
        bindE (requestDigest H (cr_method input) (cr_uri input) JUndefined (Some bodyInput)) (\<lambda>digest.
        bindE (toISOString now) (\<lambda>createdAt.
        bindE (toISOString (now + ttlSeconds * 1000)) (\<lambda>expiresAt.
        Inr \<lparr>rq_x424Version = X424_VERSION,
             rq_dependencyId = (case cr_dependencyId input of
               None \<Rightarrow> ''x424_dep_'' @ am_uuid amb | Some d \<Rightarrow> d),
             rq_purpose = cr_purpose input,
             rq_resource = \<lparr>pr_method = toUpperCase (cr_method input), pr_uri = cr_uri input,
               pr_audience = cr_audience input, pr_requestDigest = digest\<rparr>,
             rq_nonce = (case cr_nonce input of
               None \<Rightarrow> encodeStrictBase64Url (am_random amb) | Some n \<Rightarrow> n),
             rq_binding = cr_binding input,
             rq_createdAt = createdAt,
             rq_expiresAt = expiresAt,
             rq_accepts = cr_accepts input,
             rq_providerRequests = cr_providerRequests input\<rparr>))))))))"

text \<open>What a caller and the environment must respect for a usable requirement.\<close>

definition usable_input :: "Ambient \<Rightarrow> CreateInput \<Rightarrow> bool" where
  "usable_input amb input \<longleftrightarrow> cr_dependencyId input \<noteq> Some [] \<and> cr_nonce input \<noteq> Some [] \<and>
     am_random amb \<noteq> []"

definition requirement_time :: "Ambient \<Rightarrow> CreateInput \<Rightarrow> int" where
  "requirement_time amb input = (case cr_now input of None \<Rightarrow> am_now amb | Some t \<Rightarrow> t)"

subsection \<open>What a created requirement satisfies\<close>

definition accepts_key :: "HumanMethodRequirement \<Rightarrow> string" where
  "accepts_key a = methodKey (m_providerId a) (m_methodId a)"

definition wf_accepts :: "HumanMethodRequirement list \<Rightarrow> bool" where
  "wf_accepts as \<longleftrightarrow> as \<noteq> [] \<and> distinct (map accepts_key as) \<and>
     list_all (\<lambda>a. isHumanMethodIdentifier (m_providerId a) \<and> isHumanMethodIdentifier (m_methodId a)) as"

lemma accept_key_fold:
  "foldE accept_key keys as = Inr keys' \<longleftrightarrow>
   keys' = keys @ map accepts_key as \<and> distinct (map accepts_key as) \<and>
   set keys \<inter> set (map accepts_key as) = {} \<and>
   list_all (\<lambda>a. isHumanMethodIdentifier (m_providerId a) \<and> isHumanMethodIdentifier (m_methodId a)) as"
proof (induction as arbitrary: keys)
  case (Cons a as)
  have "accept_key keys a = Inr k \<longleftrightarrow> k = keys @ [accepts_key a] \<and> accepts_key a \<notin> set keys \<and>
      isHumanMethodIdentifier (m_providerId a) \<and> isHumanMethodIdentifier (m_methodId a)" for k
    by (auto simp: accept_key_def accepts_key_def Let_def)
  then show ?case by (auto simp: Cons)
qed auto

lemma ttl_of_eq_Inr: "ttl_of ttl = Inr n \<Longrightarrow> 30 \<le> n \<and> n \<le> 900"
  by (auto simp: ttl_of_def split: option.splits jsnum.splits if_splits)

lemma createHumanRequirement_InrE:
  assumes "createHumanRequirement H amb input = Inr r"
  obtains ttl createdAt expiresAt where
    "ttl_of (cr_ttlSeconds input) = Inr ttl" "30 \<le> ttl" "ttl \<le> 900"
    "toISOString (requirement_time amb input) = Inr createdAt"
    "toISOString (requirement_time amb input + ttl * 1000) = Inr expiresAt"
    "rq_createdAt r = createdAt" "rq_expiresAt r = expiresAt"
    "rq_x424Version r = X424_VERSION" "rq_accepts r = cr_accepts input" "wf_accepts (rq_accepts r)"
    "rq_dependencyId r = (case cr_dependencyId input of None \<Rightarrow> ''x424_dep_'' @ am_uuid amb | Some d \<Rightarrow> d)"
    "rq_nonce r = (case cr_nonce input of None \<Rightarrow> encodeStrictBase64Url (am_random amb) | Some n \<Rightarrow> n)"
    "rq_providerRequests r = cr_providerRequests input"
    "\<forall>k \<in> fst ` set (case cr_providerRequests input of None \<Rightarrow> [] | Some rs \<Rightarrow> rs).
       k \<in> accepts_key ` set (rq_accepts r)"
    "rq_purpose r = cr_purpose input" "rq_purpose r \<noteq> []" "rq_binding r = cr_binding input"
    "pr_audience (rq_resource r) = cr_audience input" "pr_audience (rq_resource r) \<noteq> []"
    "pr_method (rq_resource r) = toUpperCase (cr_method input)" "pr_uri (rq_resource r) = cr_uri input"
    "\<exists>bi. requestDigest H (cr_method input) (cr_uri input) JUndefined (Some bi) =
       Inr (pr_requestDigest (rq_resource r))"
proof -
  let ?rs = "case cr_providerRequests input of None \<Rightarrow> [] | Some rs \<Rightarrow> rs"
  let ?dep = "case cr_dependencyId input of None \<Rightarrow> ''x424_dep_'' @ am_uuid amb | Some d \<Rightarrow> d"
  let ?nonce = "case cr_nonce input of None \<Rightarrow> encodeStrictBase64Url (am_random amb) | Some n \<Rightarrow> n"
  have p: "cr_purpose input \<noteq> []" "cr_audience input \<noteq> []" "cr_accepts input \<noteq> []"
    using assms by (auto simp: createHumanRequirement_def split: if_splits)
  obtain keys ttl bi digest ca ea where
    k: "foldE accept_key [] (cr_accepts input) = Inr keys"
    and pr: "\<forall>k \<in> fst ` set ?rs. k \<in> set keys"
    and ttl: "ttl_of (cr_ttlSeconds input) = Inr ttl"
    and dg: "requestDigest H (cr_method input) (cr_uri input) JUndefined (Some bi) = Inr digest"
    and iso: "toISOString (requirement_time amb input) = Inr ca"
      "toISOString (requirement_time amb input + ttl * 1000) = Inr ea"
    and r: "r = \<lparr>rq_x424Version = X424_VERSION, rq_dependencyId = ?dep, rq_purpose = cr_purpose input,
       rq_resource = \<lparr>pr_method = toUpperCase (cr_method input), pr_uri = cr_uri input,
         pr_audience = cr_audience input, pr_requestDigest = digest\<rparr>,
       rq_nonce = ?nonce, rq_binding = cr_binding input, rq_createdAt = ca, rq_expiresAt = ea,
       rq_accepts = cr_accepts input, rq_providerRequests = cr_providerRequests input\<rparr>"
    using assms p unfolding createHumanRequirement_def requirement_time_def Let_def
    by (auto simp del: option.case)
  note kk = k [unfolded accept_key_fold]
  show thesis
    by (rule that [OF ttl _ _ iso])
      (use ttl_of_eq_Inr [OF ttl] kk pr p dg in \<open>auto simp: r wf_accepts_def\<close>)
qed

lemma wf_accepts_distinct:
  assumes "wf_accepts as"
  shows "distinct (map (\<lambda>a. (m_providerId a, m_methodId a)) as)"
proof -
  have "map accepts_key as = map (\<lambda>(p, m). methodKey p m) (map (\<lambda>a. (m_providerId a, m_methodId a)) as)"
    by (simp add: accepts_key_def)
  with assms show ?thesis unfolding wf_accepts_def by (metis distinct_map)
qed

lemma accepted_method_own:
  assumes "wf_accepts (rq_accepts r)" "a \<in> set (rq_accepts r)"
  shows "accepted_method r (m_providerId a) (m_methodId a) = Some a"
proof -
  obtain b where b: "accepted_method r (m_providerId a) (m_methodId a) = Some b"
    using assms(2) accepted_method_None [of r "m_providerId a" "m_methodId a"]
    by (cases "accepted_method r (m_providerId a) (m_methodId a)") auto
  then have "b \<in> set (rq_accepts r)" "(m_providerId b, m_methodId b) = (m_providerId a, m_methodId a)"
    by (auto dest: accepted_method_SomeD)
  with assms wf_accepts_distinct [OF assms(1)] b show ?thesis
    by (auto simp: distinct_map inj_on_def)
qed

lemma created_requirement_window:
  assumes c: "createHumanRequirement H amb input = Inr r" and u: "usable_input amb input"
    and t: "four_digit_time (requirement_time amb input)" "four_digit_time (requirement_time amb input + 900000)"
  obtains ttl where "30 \<le> ttl" "ttl \<le> 900"
    "date_parse (rq_createdAt r) = Some (requirement_time amb input)"
    "date_parse (rq_expiresAt r) = Some (requirement_time amb input + ttl * 1000)"
    "\<And>now. assertRequirementCurrent r now = Inr () \<longleftrightarrow>
       requirement_time amb input \<le> now \<and> now < requirement_time amb input + ttl * 1000"
proof -
  let ?t = "requirement_time amb input"
  from c obtain ttl where ttl: "30 \<le> ttl" "ttl \<le> 900"
    and iso: "toISOString ?t = Inr (rq_createdAt r)" "toISOString (?t + ttl * 1000) = Inr (rq_expiresAt r)"
    and f: "rq_x424Version r = X424_VERSION" "wf_accepts (rq_accepts r)"
      "rq_dependencyId r = (case cr_dependencyId input of None \<Rightarrow> ''x424_dep_'' @ am_uuid amb | Some d \<Rightarrow> d)"
      "rq_nonce r = (case cr_nonce input of None \<Rightarrow> encodeStrictBase64Url (am_random amb) | Some n \<Rightarrow> n)"
    by (elim createHumanRequirement_InrE) metis
  have "four_digit_time (?t + ttl * 1000)" using t ttl by (simp add: four_digit_time_def)
  then have p: "date_parse (rq_createdAt r) = Some ?t" "date_parse (rq_expiresAt r) = Some (?t + ttl * 1000)"
    using iso t toISOString_four_digit_parse by blast+
  have "assertRequirementCurrent r now = Inr () \<longleftrightarrow> ?t \<le> now \<and> now < ?t + ttl * 1000" for now
    using u f p by (auto simp: assertRequirementCurrent_eq_Inr usable_input_def wf_accepts_def split: option.splits)
  then show ?thesis using that ttl p by blast
qed

subsection \<open>Properties\<close>

text \<open>
  A created requirement is current from its creation until its time to live, of 30 to 900 seconds,
  has passed, and at no other time: \<open>assertRequirementCurrent\<close> accepts it exactly in that interval.
\<close>

theorem created_requirement_current:
  assumes "createHumanRequirement H amb input = Inr r" "usable_input amb input"
    "four_digit_time (requirement_time amb input)" "four_digit_time (requirement_time amb input + 900000)"
  shows "\<exists>ttl. 30 \<le> ttl \<and> ttl \<le> 900 \<and>
    (\<forall>now. assertRequirementCurrent r now = Inr () \<longleftrightarrow>
       requirement_time amb input \<le> now \<and> now < requirement_time amb input + ttl * 1000)"
  using created_requirement_window [OF assms] by metis

text \<open>
  The accepted alternatives of a created requirement are pairwise different methods with valid
  identifiers, each one is found under its own provider and method, and provider request material
  names accepted methods only.
\<close>

theorem created_requirement_methods:
  assumes "createHumanRequirement H amb input = Inr r"
  shows "distinct (map (\<lambda>a. (m_providerId a, m_methodId a)) (rq_accepts r)) \<and>
    (\<forall>a \<in> set (rq_accepts r). accepted_method r (m_providerId a) (m_methodId a) = Some a) \<and>
    (\<forall>rs. rq_providerRequests r = Some rs \<longrightarrow>
       (\<forall>k \<in> fst ` set rs. \<exists>a \<in> set (rq_accepts r). k = methodKey (m_providerId a) (m_methodId a)))"
proof -
  from assms have wf: "wf_accepts (rq_accepts r)"
    and k: "\<forall>k \<in> fst ` set (case rq_providerRequests r of None \<Rightarrow> [] | Some rs \<Rightarrow> rs).
       k \<in> accepts_key ` set (rq_accepts r)"
    by (elim createHumanRequirement_InrE, simp)+
  show ?thesis
    using wf_accepts_distinct [OF wf] accepted_method_own [OF wf] k
    by (auto simp: accepts_key_def) fast
qed

text \<open>A request at the boundary of the library, for the witnesses.\<close>

definition sample_method :: HumanMethodRequirement where
  "sample_method = \<lparr>m_providerId = ''world-id'', m_methodId = ''orb'', m_descriptorVersion = ''4.0'',
     m_assuranceLevel = None, m_acceptedScopeKinds = [Action], m_maximumProofAgeSeconds = Some 300,
     m_verificationModes = None\<rparr>"

definition sample_binding :: HumanBinding where
  "sample_binding = \<lparr>b_kind = BindAgentKey, b_value = ''key''\<rparr>"

definition sample_input :: CreateInput where
  "sample_input = \<lparr>cr_purpose = ''vote'', cr_method = ''post'', cr_uri = ''https://a/'',
     cr_audience = ''https://a'', cr_body = JUndefined, cr_bodyInput = None, cr_binding = sample_binding,
     cr_accepts = [sample_method], cr_providerRequests = Some [(''world-id:orb'', JNull)],
     cr_ttlSeconds = None, cr_dependencyId = Some ''dep'', cr_nonce = None, cr_now = Some 1767225600000\<rparr>"

definition sample_ambient :: Ambient where
  "sample_ambient = \<lparr>am_now = 0, am_uuid = ''u'', am_random = [1, 2, 3]\<rparr>"

definition sample_hash :: hash where
  "sample_hash = (\<lambda>_. replicate 32 0)"

definition sample_requirement :: HumanRequirement where
  "sample_requirement = \<lparr>rq_x424Version = ''0.1'', rq_dependencyId = ''dep'', rq_purpose = ''vote'',
     rq_resource = \<lparr>pr_method = ''POST'', pr_uri = ''https://a/'', pr_audience = ''https://a'',
       pr_requestDigest = sha256_bytes sample_hash []\<rparr>,
     rq_nonce = ''AQID'', rq_binding = sample_binding,
     rq_createdAt = ''2026-01-01T00:00:00.000Z'', rq_expiresAt = ''2026-01-01T00:05:00.000Z'',
     rq_accepts = [sample_method], rq_providerRequests = Some [(''world-id:orb'', JNull)]\<rparr>"

lemma sample_created: "createHumanRequirement sample_hash sample_ambient sample_input = Inr sample_requirement"
proof -
  have d: "requestDigest sample_hash m u JUndefined (Some BodyAbsent) = Inr (sha256_bytes sample_hash [])" for m u
    by (simp add: requestDigest_alt request_body_digest_def bodyDigestFromInput_def sha256_text_def
        sha256_bytes_def sample_hash_def)
  have t: "toISOString 1767225600000 = Inr ''2026-01-01T00:00:00.000Z''"
    "toISOString 1767225900000 = Inr ''2026-01-01T00:05:00.000Z''"
    "toUpperCase ''post'' = ''POST''" "encodeStrictBase64Url [1, 2, 3] = ''AQID''"
    by code_simp+
  have k: "foldE accept_key [] [sample_method] = Inr [''world-id:orb'']" by code_simp
  show ?thesis
    by (simp add: createHumanRequirement_def sample_input_def sample_ambient_def k d t ttl_of_def
        sample_requirement_def X424_VERSION_def del: foldE.simps)
qed

theorem created_requirement_current_witness:
  "\<exists>ttl. 30 \<le> ttl \<and> ttl \<le> 900 \<and>
    (\<forall>now. assertRequirementCurrent sample_requirement now = Inr () \<longleftrightarrow>
       requirement_time sample_ambient sample_input \<le> now \<and>
       now < requirement_time sample_ambient sample_input + ttl * 1000)"
  by (rule created_requirement_current [OF sample_created])
    (simp_all add: usable_input_def sample_input_def sample_ambient_def requirement_time_def four_digit_time_def)

theorem created_requirement_methods_witness:
  "distinct (map (\<lambda>a. (m_providerId a, m_methodId a)) (rq_accepts sample_requirement))"
  using created_requirement_methods [OF sample_created] by blast

end
