(* ===== verification/Policy.thy ===== *)
theory Policy
  imports Requirements
begin

section \<open>Evaluating a result against its requirement (src/policy.ts)\<close>

text \<open>
  \<open>evaluateHumanResult\<close> collects every failure in the order of the code's checks.  \<open>failUnless\<close> and
  \<open>failWhen\<close> are the \<open>if (...) failures.push(...)\<close> of the source.
\<close>

definition failWhen :: "bool \<Rightarrow> HumanFailureCode \<Rightarrow> string \<Rightarrow> HumanFailure list" where
  "failWhen b code detail = (if b then [\<lparr>f_code = code, f_detail = detail\<rparr>] else [])"

definition matchingMethod :: "HumanRequirement \<Rightarrow> HumanResult \<Rightarrow> HumanMethodRequirement option" where
  "matchingMethod requirement result =
     List.find (\<lambda>candidate. m_providerId candidate = rs_providerId result \<and>
       m_methodId candidate = rs_methodId result) (rq_accepts requirement)"

definition sameStrings :: "string list \<Rightarrow> string list \<Rightarrow> bool" where
  "sameStrings left right \<longleftrightarrow> length left = length right \<and>
     list_all (\<lambda>i. left ! i = right ! i) [0..<length left]"

text \<open>\<open>x && p(x)\<close> for a value that may be undefined, and a comparison with \<open>NaN\<close> that is false.\<close>

definition whenSome :: "'a option \<Rightarrow> ('a \<Rightarrow> bool) \<Rightarrow> bool" where
  "whenSome x p = (case x of None \<Rightarrow> False | Some y \<Rightarrow> p y)"

definition notFinite :: "int option \<Rightarrow> bool" where
  "notFinite t \<longleftrightarrow> t = None"

definition evaluationFailures ::
  "HumanRequirement \<Rightarrow> HumanResult \<Rightarrow> catalog \<Rightarrow> int \<Rightarrow> HumanFailure list" where
  "evaluationFailures requirement result catalog nowMs =
     (let accepted = matchingMethod requirement result;
          descriptor = catalog_get catalog (rs_providerId result) (rs_methodId result);
          requirementCreatedAt = date_parse (rq_createdAt requirement);
          requirementExpiresAt = date_parse (rq_expiresAt requirement);
          verifiedAt = date_parse (rs_verifiedAt result);
          issuedAt = date_parse (rs_issuedAt result);
          expiresAt = date_parse (rs_expiresAt result);
          scope = us_kind (rs_uniquenessScope result)
      in failWhen (rs_dependencyId result \<noteq> rq_dependencyId requirement)
           DEPENDENCY_MISMATCH ''Result is for another dependency'' @
         failWhen (rs_purpose result \<noteq> rq_purpose requirement)
           PURPOSE_MISMATCH ''Result purpose does not match'' @
         failWhen (rs_audience result \<noteq> pr_audience (rq_resource requirement))
           AUDIENCE_MISMATCH ''Result audience does not match'' @
         failWhen (rs_requestDigest result \<noteq> pr_requestDigest (rq_resource requirement))
           REQUEST_DIGEST_MISMATCH ''Result is bound to another request'' @
         failWhen (b_kind (rs_binding result) \<noteq> b_kind (rq_binding requirement) \<or>
             b_value (rs_binding result) \<noteq> b_value (rq_binding requirement))
           BINDING_MISMATCH ''Caller binding does not match'' @
         failWhen (accepted = None)
           METHOD_NOT_ACCEPTED
           (rs_providerId result @ '':'' @ rs_methodId result @ '' was not explicitly accepted'') @
         failWhen (descriptor = None) METHOD_UNKNOWN ''Result names an unknown method'' @
         failWhen (whenSome descriptor (\<lambda>d. d_status d \<noteq> Enabled))
           METHOD_DISABLED ''Result method is disabled'' @
         failWhen (whenSome accepted (\<lambda>a. rs_descriptorVersion result \<noteq> m_descriptorVersion a) \<or>
             whenSome descriptor (\<lambda>d. rs_descriptorVersion result \<noteq> d_version d))
           DESCRIPTOR_VERSION_MISMATCH ''Result uses another method descriptor version'' @
         failWhen (whenSome accepted (\<lambda>a. \<not> List.member (m_acceptedScopeKinds a) scope) \<or>
             whenSome descriptor (\<lambda>d. \<not> List.member (d_nativeScopeKinds d) scope))
           SCOPE_NOT_ACCEPTED ''Provider uniqueness scope is not accepted'' @
         failWhen (whenSome accepted (\<lambda>a. whenSome (m_verificationModes a)
               (\<lambda>ms. \<not> List.member ms (rs_verificationMode result))) \<or>
             whenSome descriptor (\<lambda>d. \<not> List.member (d_verificationModes d) (rs_verificationMode result)))
           VERIFICATION_MODE_NOT_ACCEPTED ''Verification mode is not accepted'' @
         failWhen (whenSome accepted (\<lambda>a. m_assuranceLevel a \<noteq> None \<and>
               m_assuranceLevel a \<noteq> rs_assuranceLevel result) \<or>
             whenSome descriptor (\<lambda>d. whenSome (rs_assuranceLevel result)
               (\<lambda>l. \<not> List.member (d_assuranceLevels d) l)))
           ASSURANCE_NOT_ACCEPTED ''Provider-local assurance label is not accepted'' @
         failWhen (whenSome descriptor (\<lambda>d. rs_claim result \<noteq> d_claim d \<or>
             \<not> sameStrings (rs_nonClaims result) (d_nonClaims d)))
           CLAIM_MISMATCH ''Result changed the method claim or non-claims'' @
         failWhen (notFinite verifiedAt \<or> notFinite issuedAt \<or>
             whenSome verifiedAt (\<lambda>v. nowMs < v) \<or> whenSome issuedAt (\<lambda>i. nowMs < i))
           FUTURE_TIMESTAMP ''Result timestamps are invalid'' @
         failWhen (notFinite expiresAt \<or> whenSome expiresAt (\<lambda>e. e \<le> nowMs))
           EXPIRED ''Result has expired'' @
         failWhen (case (requirementCreatedAt, requirementExpiresAt, verifiedAt, issuedAt, expiresAt) of
             (Some c, Some x, Some v, Some i, Some e) \<Rightarrow> i < v \<or> i < c \<or> x \<le> i \<or> e \<le> i \<or> x < e
           | _ \<Rightarrow> True)
           TIME_WINDOW_INVALID ''Result time window is inconsistent with the dependency'' @
         failWhen (whenSome accepted (\<lambda>a. whenSome (m_maximumProofAgeSeconds a)
             (\<lambda>age. whenSome verifiedAt (\<lambda>v. age * 1000 < nowMs - v))))
           PROOF_STALE ''Human proof exceeds maximum age'')"

definition evaluateHumanResult ::
  "HumanRequirement \<Rightarrow> HumanResult \<Rightarrow> catalog \<Rightarrow> int \<Rightarrow> HumanEvaluation" where
  "evaluateHumanResult requirement result catalog nowMs =
     (let failures = evaluationFailures requirement result catalog nowMs
      in \<lparr>ev_satisfied = (length failures = 0), ev_failures = failures\<rparr>)"

lemma sameStrings_eq [simp]: "sameStrings xs ys \<longleftrightarrow> xs = ys"
  unfolding sameStrings_def list_eq_iff_nth_eq [of xs ys] list_all_iff by auto

lemma whenSome_simps [simp]: "whenSome None p = False" "whenSome (Some x) p = p x"
  by (simp_all add: whenSome_def)

lemma failWhen_eq_Nil [simp]: "failWhen b c d = [] \<longleftrightarrow> \<not> b"
  by (simp add: failWhen_def)

lemma matchingMethod_accepted:
  "matchingMethod r s = accepted_method r (rs_providerId s) (rs_methodId s)"
  by (simp add: matchingMethod_def accepted_method_def)

subsection \<open>The specification: when a result satisfies a requirement\<close>

text \<open>The statement is about one named method, with the times as numbers.\<close>

record ResultTimes =
  tm_created :: int
  tm_required :: int
  tm_verified :: int
  tm_issued :: int
  tm_expires :: int

definition result_times :: "HumanRequirement \<Rightarrow> HumanResult \<Rightarrow> ResultTimes option" where
  "result_times r s = (case (date_parse (rq_createdAt r), date_parse (rq_expiresAt r),
       date_parse (rs_verifiedAt s), date_parse (rs_issuedAt s), date_parse (rs_expiresAt s)) of
     (Some c, Some x, Some v, Some i, Some e) \<Rightarrow>
       Some \<lparr>tm_created = c, tm_required = x, tm_verified = v, tm_issued = i, tm_expires = e\<rparr>
   | _ \<Rightarrow> None)"

definition same_request :: "HumanRequirement \<Rightarrow> HumanResult \<Rightarrow> bool" where
  "same_request r s \<longleftrightarrow> rs_dependencyId s = rq_dependencyId r \<and> rs_purpose s = rq_purpose r \<and>
     rs_audience s = pr_audience (rq_resource r) \<and> rs_requestDigest s = pr_requestDigest (rq_resource r) \<and>
     rs_binding s = rq_binding r"

definition method_conforms :: "HumanMethodRequirement \<Rightarrow> HumanMethodDescriptor \<Rightarrow> HumanResult \<Rightarrow> bool" where
  "method_conforms a d s \<longleftrightarrow> d_status d = Enabled \<and>
     rs_descriptorVersion s = m_descriptorVersion a \<and> rs_descriptorVersion s = d_version d \<and>
     us_kind (rs_uniquenessScope s) \<in> set (m_acceptedScopeKinds a) \<inter> set (d_nativeScopeKinds d) \<and>
     (\<forall>ms. m_verificationModes a = Some ms \<longrightarrow> rs_verificationMode s \<in> set ms) \<and>
     rs_verificationMode s \<in> set (d_verificationModes d) \<and>
     (\<forall>l. m_assuranceLevel a = Some l \<longrightarrow> rs_assuranceLevel s = Some l) \<and>
     (\<forall>l. rs_assuranceLevel s = Some l \<longrightarrow> l \<in> set (d_assuranceLevels d)) \<and>
     rs_claim s = d_claim d \<and> rs_nonClaims s = d_nonClaims d"

definition timely :: "HumanMethodRequirement \<Rightarrow> ResultTimes \<Rightarrow> int \<Rightarrow> bool" where
  "timely a tm now \<longleftrightarrow> tm_verified tm \<le> tm_issued tm \<and> tm_created tm \<le> tm_issued tm \<and>
     tm_issued tm \<le> now \<and> now < tm_expires tm \<and> tm_expires tm \<le> tm_required tm \<and>
     (\<forall>age. m_maximumProofAgeSeconds a = Some age \<longrightarrow> now \<le> tm_verified tm + age * 1000)"

lemma result_times_Some:
  "result_times r s = Some tm \<longleftrightarrow>
   date_parse (rq_createdAt r) = Some (tm_created tm) \<and> date_parse (rq_expiresAt r) = Some (tm_required tm) \<and>
   date_parse (rs_verifiedAt s) = Some (tm_verified tm) \<and> date_parse (rs_issuedAt s) = Some (tm_issued tm) \<and>
   date_parse (rs_expiresAt s) = Some (tm_expires tm)"
  by (cases tm) (auto simp: result_times_def split: option.splits)

lemma binding_eq_iff: "(a :: HumanBinding) = b \<longleftrightarrow> b_kind a = b_kind b \<and> b_value a = b_value b"
  by (cases a; cases b) simp

lemma evaluate_satisfied_iff:
  "ev_satisfied (evaluateHumanResult r s cat now) \<longleftrightarrow>
   same_request r s \<and>
   (\<exists>a d tm. accepted_method r (rs_providerId s) (rs_methodId s) = Some a \<and>
      catalog_get cat (rs_providerId s) (rs_methodId s) = Some d \<and> method_conforms a d s \<and>
      result_times r s = Some tm \<and> timely a tm now)"
proof (cases "\<exists>a d tm. accepted_method r (rs_providerId s) (rs_methodId s) = Some a \<and>
      catalog_get cat (rs_providerId s) (rs_methodId s) = Some d \<and> result_times r s = Some tm")
  case True
  then obtain a d tm where a: "accepted_method r (rs_providerId s) (rs_methodId s) = Some a"
    and d: "catalog_get cat (rs_providerId s) (rs_methodId s) = Some d"
    and tm: "result_times r s = Some tm" by blast
  note t = tm [unfolded result_times_Some]
  have "ev_satisfied (evaluateHumanResult r s cat now) \<longleftrightarrow>
      same_request r s \<and> method_conforms a d s \<and> timely a tm now"
    by (cases "m_verificationModes a"; cases "m_assuranceLevel a"; cases "rs_assuranceLevel s";
        cases "m_maximumProofAgeSeconds a")
      (auto simp: evaluateHumanResult_def evaluationFailures_def Let_def matchingMethod_accepted a d t
        same_request_def method_conforms_def timely_def binding_eq_iff notFinite_def)
  then show ?thesis using a d tm by auto
next
  case False
  then have "accepted_method r (rs_providerId s) (rs_methodId s) = None \<or>
      catalog_get cat (rs_providerId s) (rs_methodId s) = None \<or> result_times r s = None"
    by (cases "accepted_method r (rs_providerId s) (rs_methodId s)";
        cases "catalog_get cat (rs_providerId s) (rs_methodId s)"; cases "result_times r s") auto
  then have "\<not> ev_satisfied (evaluateHumanResult r s cat now)"
    by (auto simp: evaluateHumanResult_def evaluationFailures_def Let_def matchingMethod_accepted
        result_times_def split: option.splits)
  with False show ?thesis by blast
qed

lemma evaluate_interval:
  "ev_satisfied (evaluateHumanResult r s cat t1) \<Longrightarrow> ev_satisfied (evaluateHumanResult r s cat t3) \<Longrightarrow>
   t1 \<le> t2 \<Longrightarrow> t2 \<le> t3 \<Longrightarrow> ev_satisfied (evaluateHumanResult r s cat t2)"
  unfolding evaluate_satisfied_iff timely_def by fastforce

lemma evaluate_within_requirement:
  "ev_satisfied (evaluateHumanResult r s cat now) \<Longrightarrow>
   \<exists>c x. date_parse (rq_createdAt r) = Some c \<and> date_parse (rq_expiresAt r) = Some x \<and> c \<le> now \<and> now < x"
  unfolding evaluate_satisfied_iff timely_def result_times_Some by fastforce

subsection \<open>Properties\<close>

text \<open>
  A result satisfies a requirement exactly when it answers the same request (dependency, purpose,
  audience, digest and caller binding), conforms to the accepted method of its provider and to the
  enabled descriptor of the catalog in version, scope, verification mode, assurance, claim and
  non-claims, and is timely: verified before it was issued, issued within the requirement's life and
  not in the future, not expired, not outliving the requirement and not staler than the method allows.
\<close>

theorem evaluateHumanResult_exact:
  "ev_satisfied (evaluateHumanResult r s cat now) \<longleftrightarrow>
   same_request r s \<and>
   (\<exists>a d tm. accepted_method r (rs_providerId s) (rs_methodId s) = Some a \<and>
      catalog_get cat (rs_providerId s) (rs_methodId s) = Some d \<and> method_conforms a d s \<and>
      result_times r s = Some tm \<and> timely a tm now)"
  by (rule evaluate_satisfied_iff)

text \<open>
  The times at which one result satisfies a requirement form an interval inside the life of the
  requirement: it never becomes valid again after it has lapsed, and never outlives the requirement.
\<close>

theorem evaluateHumanResult_interval:
  assumes "ev_satisfied (evaluateHumanResult r s cat t1)" "ev_satisfied (evaluateHumanResult r s cat t3)"
    "t1 \<le> t2" "t2 \<le> t3"
  shows "ev_satisfied (evaluateHumanResult r s cat t2) \<and>
    (\<exists>c x. date_parse (rq_createdAt r) = Some c \<and> date_parse (rq_expiresAt r) = Some x \<and> c \<le> t1 \<and> t3 < x)"
  using evaluate_interval [OF assms] evaluate_within_requirement [OF assms(1)]
    evaluate_within_requirement [OF assms(2)] by auto

definition sample_result :: HumanResult where
  "sample_result = \<lparr>rs_x424Version = ''0.1'', rs_resultId = ''res'', rs_dependencyId = ''dep'',
     rs_purpose = ''vote'', rs_audience = ''https://a'', rs_requestDigest = sha256_bytes sample_hash [],
     rs_binding = sample_binding, rs_providerId = ''world-id'', rs_methodId = ''orb'',
     rs_descriptorVersion = ''4.0'', rs_assuranceLevel = Some ''orb'', rs_pairwiseHumanId = ''h'',
     rs_uniquenessScope = \<lparr>us_kind = Action, us_id = ''a''\<rparr>, rs_verificationMode = Backend,
     rs_proofDigest = sha256_bytes sample_hash [], rs_claim = ''unique human'',
     rs_nonClaims = [''legal identity''], rs_verifiedAt = ''2026-01-01T00:00:01.000Z'',
     rs_issuedAt = ''2026-01-01T00:00:02.000Z'', rs_expiresAt = ''2026-01-01T00:04:00.000Z'',
     rs_stateReferences = None\<rparr>"

definition sample_catalog :: catalog where
  "sample_catalog = [(''world-id:orb'', sample_descriptor)]"

lemma sample_times:
  "result_times sample_requirement sample_result = Some \<lparr>tm_created = 1767225600000,
     tm_required = 1767225900000, tm_verified = 1767225601000, tm_issued = 1767225602000,
     tm_expires = 1767225840000\<rparr>"
  unfolding result_times_Some by code_simp

lemma sample_satisfied:
  "1767225602000 \<le> t \<Longrightarrow> t < 1767225840000 \<Longrightarrow>
   ev_satisfied (evaluateHumanResult sample_requirement sample_result sample_catalog t)"
proof -
  have "same_request sample_requirement sample_result"
    by (simp add: same_request_def sample_requirement_def sample_result_def)
  moreover have "accepted_method sample_requirement (rs_providerId sample_result) (rs_methodId sample_result)
      = Some sample_method"
    by (simp add: accepted_method_def sample_requirement_def sample_result_def sample_method_def)
  moreover have "catalog_get sample_catalog (rs_providerId sample_result) (rs_methodId sample_result)
      = Some sample_descriptor"
    by (simp add: catalog_get_def methodKey_def sample_catalog_def sample_result_def)
  moreover have "method_conforms sample_method sample_descriptor sample_result"
    by (simp add: method_conforms_def sample_method_def sample_descriptor_def sample_result_def)
  moreover assume "1767225602000 \<le> t" "t < 1767225840000"
  ultimately show ?thesis
    unfolding evaluate_satisfied_iff sample_times by (simp add: timely_def sample_method_def)
qed

theorem evaluateHumanResult_interval_witness:
  "ev_satisfied (evaluateHumanResult sample_requirement sample_result sample_catalog 1767225700000) \<and>
    (\<exists>c x. date_parse (rq_createdAt sample_requirement) = Some c \<and>
       date_parse (rq_expiresAt sample_requirement) = Some x \<and> c \<le> 1767225602000 \<and> 1767225839999 < x)"
  by (rule evaluateHumanResult_interval [where ?t1.0 = 1767225602000 and ?t3.0 = 1767225839999
        and s = sample_result and cat = sample_catalog]) (simp_all add: sample_satisfied)

end
