(* ===== verification/NonceStore.thy ===== *)
theory NonceStore
  imports Types
begin

section \<open>Single-use state (src/nonce-store.ts)\<close>

text \<open>
  The in-memory nonce, result replay, result acceptance and provider replay stores.  Each is a map in
  insertion order; a method is a function from the map to its outcome and the new map.  The contracts
  the verifier relies on are the locales \<open>use_once\<close> and \<open>use_once_until\<close>: what has been used is not
  accepted again, for ever or until it expires.
\<close>

subsection \<open>InMemoryNonceStore\<close>

record NonceEntry =
  ne_nonce :: string
  ne_expiresAtMs :: int
  ne_used :: bool

type_synonym nonces = "(string \<times> NonceEntry) list"

definition nonce_put :: "nonces \<Rightarrow> string \<Rightarrow> string \<Rightarrow> IsoTimestamp \<Rightarrow> unit res \<times> nonces" where
  "nonce_put s dependencyId nonce expiresAt =
     (case date_parse expiresAt of
        None \<Rightarrow> (Inl (Error ''Invalid nonce entry''), s)
      | Some expiresAtMs \<Rightarrow>
          if dependencyId = [] \<or> nonce = [] then (Inl (Error ''Invalid nonce entry''), s)
          else if map_of s dependencyId \<noteq> None then (Inl (Error ''Dependency ID already exists''), s)
          else (Inr (), AList.update dependencyId
                  \<lparr>ne_nonce = nonce, ne_expiresAtMs = expiresAtMs, ne_used = False\<rparr> s))"

definition nonce_consume :: "nonces \<Rightarrow> string \<Rightarrow> string \<Rightarrow> int \<Rightarrow> bool \<times> nonces" where
  "nonce_consume s dependencyId nonce now =
     (case map_of s dependencyId of
        None \<Rightarrow> (False, s)
      | Some entry \<Rightarrow>
          if ne_used entry \<or> ne_nonce entry \<noteq> nonce \<or> ne_expiresAtMs entry \<le> now then (False, s)
          else (True, AList.update dependencyId (entry\<lparr>ne_used := True\<rparr>) s))"

subsection \<open>InMemoryResultReplayStore\<close>

type_synonym used_results = "(string \<times> int) list"

definition prune_results :: "used_results \<Rightarrow> int \<Rightarrow> used_results" where
  "prune_results s now = filter (\<lambda>(_, expiry). now < expiry) s"

definition result_consume :: "used_results \<Rightarrow> string \<Rightarrow> IsoTimestamp \<Rightarrow> int \<Rightarrow> bool \<times> used_results" where
  "result_consume s resultId expiresAt now =
     (case date_parse expiresAt of
        None \<Rightarrow> (False, s)
      | Some expiresAtMs \<Rightarrow>
          if resultId = [] \<or> expiresAtMs \<le> now then (False, s)
          else let s' = prune_results s now
               in if map_of s' resultId \<noteq> None then (False, s')
                  else (True, AList.update resultId expiresAtMs s'))"

definition result_consumeWithLegacy ::
  "used_results \<Rightarrow> string \<Rightarrow> string \<Rightarrow> IsoTimestamp \<Rightarrow> int \<Rightarrow> bool \<times> used_results" where
  "result_consumeWithLegacy s resultId legacyResultId expiresAt now =
     (case date_parse expiresAt of
        None \<Rightarrow> (False, s)
      | Some expiresAtMs \<Rightarrow>
          if resultId = [] \<or> legacyResultId = [] \<or> expiresAtMs \<le> now then (False, s)
          else let s' = prune_results s now
               in if map_of s' legacyResultId \<noteq> None \<or> map_of s' resultId \<noteq> None then (False, s')
                  else (True, AList.update resultId expiresAtMs s'))"

subsection \<open>InMemoryResultAcceptanceStore\<close>

record ResultAcceptanceEntry =
  ae_operationId :: string
  ae_requestDigest :: string
  ae_expiresAtMs :: int

type_synonym accepted_results = "(string \<times> ResultAcceptanceEntry) list"

text \<open>The pattern \<open>^sha256:[A-Za-z0-9_-]{43}$\<close>.\<close>

definition is_digest_text :: "string \<Rightarrow> bool" where
  "is_digest_text s \<longleftrightarrow> startsWith s ''sha256:'' \<and> length s = 50 \<and> list_all is_b64url_char (drop 7 s)"

definition prune_accepted :: "accepted_results \<Rightarrow> int \<Rightarrow> accepted_results" where
  "prune_accepted s now = filter (\<lambda>(_, entry). now < ae_expiresAtMs entry) s"

definition acceptance_status :: "ResultAcceptanceEntry \<Rightarrow> ResultAcceptanceInput \<Rightarrow> ResultAcceptanceStatus" where
  "acceptance_status existing input =
     (if ae_operationId existing = ra_operationId input \<and> ae_requestDigest existing = ra_requestDigest input
      then SameOperation else Replay)"

definition result_accept ::
  "accepted_results \<Rightarrow> ResultAcceptanceInput \<Rightarrow> int \<Rightarrow> ResultAcceptanceStatus \<times> accepted_results" where
  "result_accept s input now =
     (case date_parse (ra_expiresAt input) of
        None \<Rightarrow> (Replay, s)
      | Some expiresAtMs \<Rightarrow>
          if ra_resultId input = [] \<or> 200 < length (ra_resultId input) \<or> ra_operationId input = [] \<or>
             512 < length (ra_operationId input) \<or> \<not> is_digest_text (ra_requestDigest input) \<or>
             expiresAtMs \<le> now
          then (Replay, s)
          else let s' = prune_accepted s now
               in case map_of s' (ra_resultId input) of
                    Some existing \<Rightarrow> (acceptance_status existing input, s')
                  | None \<Rightarrow> (AcceptNew, AList.update (ra_resultId input)
                      \<lparr>ae_operationId = ra_operationId input, ae_requestDigest = ra_requestDigest input,
                       ae_expiresAtMs = expiresAtMs\<rparr> s'))"

definition result_acceptWithLegacy ::
  "accepted_results \<Rightarrow> ResultAcceptanceInput \<Rightarrow> string \<Rightarrow> int \<Rightarrow> ResultAcceptanceStatus \<times> accepted_results" where
  "result_acceptWithLegacy s input legacyResultId now =
     (case date_parse (ra_expiresAt input) of
        None \<Rightarrow> (Replay, s)
      | Some expiresAtMs \<Rightarrow>
          if ra_resultId input = [] \<or> 200 < length (ra_resultId input) \<or> legacyResultId = [] \<or>
             200 < length legacyResultId \<or> ra_operationId input = [] \<or>
             512 < length (ra_operationId input) \<or> \<not> is_digest_text (ra_requestDigest input) \<or>
             expiresAtMs \<le> now
          then (Replay, s)
          else let s' = prune_accepted s now;
                   existing = (case map_of s' legacyResultId of
                     Some e \<Rightarrow> Some e | None \<Rightarrow> map_of s' (ra_resultId input))
               in case existing of
                    Some e \<Rightarrow> (acceptance_status e input, s')
                  | None \<Rightarrow> (AcceptNew, AList.update (ra_resultId input)
                      \<lparr>ae_operationId = ra_operationId input, ae_requestDigest = ra_requestDigest input,
                       ae_expiresAtMs = expiresAtMs\<rparr> s'))"

subsection \<open>InMemoryProviderReplayStore\<close>

definition provider_replay_key :: "ProviderReplayEntry \<Rightarrow> string" where
  "provider_replay_key entry = joinWith [CHR 0x00] [pe_providerId entry, pe_methodId entry,
     scope_kind_text (us_kind (pe_uniquenessScope entry)), us_id (pe_uniquenessScope entry),
     pe_subjectDigest entry]"

definition provider_consume :: "string list \<Rightarrow> ProviderReplayEntry \<Rightarrow> bool \<times> string list" where
  "provider_consume used entry =
     (let key = provider_replay_key entry
      in if pe_providerId entry = [] \<or> pe_methodId entry = [] \<or> us_id (pe_uniquenessScope entry) = [] \<or>
            pe_subjectDigest entry = [] \<or> key \<in> set used
         then (False, used) else (True, used @ [key]))"

subsection \<open>The contracts\<close>

text \<open>
  \<open>run_uses\<close> runs a sequence of operations and records which ones succeeded.  In
  \<open>use_once_until\<close> a success at key \<open>k\<close> blocks \<open>k\<close> until the operation's expiry, for operations whose
  times do not decrease; in \<open>use_once\<close> it blocks \<open>k\<close> for ever.
\<close>

primrec run_uses :: "('s \<Rightarrow> 'op \<Rightarrow> 'r \<times> 's) \<Rightarrow> 's \<Rightarrow> 'op list \<Rightarrow> 'r list \<times> 's" where
  "run_uses use s [] = ([], s)"
| "run_uses use s (x # xs) = (case use s x of (b, s') \<Rightarrow>
     case run_uses use s' xs of (bs, s'') \<Rightarrow> (b # bs, s''))"

lemma run_uses_append:
  "run_uses use s (xs @ ys) = (case run_uses use s xs of (bs, s') \<Rightarrow>
     case run_uses use s' ys of (cs, s'') \<Rightarrow> (bs @ cs, s''))"
  by (induction xs arbitrary: s) (simp_all split: prod.splits)

lemma length_run_uses: "length (fst (run_uses use s xs)) = length xs"
  by (induction xs arbitrary: s) (simp_all add: case_prod_unfold)

lemma run_uses_nth:
  assumes "run_uses use s xs = (rs, s')" "j < length xs"
  shows "rs ! j = fst (use (snd (run_uses use s (take j xs))) (xs ! j))"
proof -
  have xs: "xs = take j xs @ xs ! j # drop (Suc j) xs" using assms(2) by (rule id_take_nth_drop)
  have len: "length (fst (run_uses use s (take j xs))) = j" using assms(2) by (simp add: length_run_uses)
  have "rs = fst (run_uses use s (take j xs @ xs ! j # drop (Suc j) xs))" using assms(1) xs by simp
  then show ?thesis using len by (simp add: run_uses_append case_prod_unfold nth_append)
qed

definition succeeds :: "('r \<Rightarrow> bool) \<Rightarrow> ('s \<Rightarrow> 'op \<Rightarrow> 'r \<times> 's) \<Rightarrow> 's \<Rightarrow> 'op \<Rightarrow> bool \<times> 's" where
  "succeeds ok use s x = (case use s x of (r, s') \<Rightarrow> (ok r, s'))"

lemma run_uses_succeeds:
  "run_uses (succeeds ok use) s xs = (case run_uses use s xs of (rs, s') \<Rightarrow> (map ok rs, s'))"
  by (induction xs arbitrary: s) (simp_all add: succeeds_def case_prod_unfold)

locale use_once_until =
  fixes use :: "'s \<Rightarrow> 'op \<Rightarrow> bool \<times> 's" and key :: "'op \<Rightarrow> 'k" and time :: "'op \<Rightarrow> int"
    and expiry :: "'op \<Rightarrow> int" and spent :: "'s \<Rightarrow> 'k \<Rightarrow> int \<Rightarrow> bool"
  assumes success_unspent: "use s x = (True, s') \<Longrightarrow> \<not> spent s (key x) (time x)"
    and success_spends: "use s x = (True, s') \<Longrightarrow> time x \<le> t \<Longrightarrow> t < expiry x \<Longrightarrow> spent s' (key x) t"
    and spent_keeps: "use s x = (b, s') \<Longrightarrow> spent s k t \<Longrightarrow> time x \<le> t \<Longrightarrow> spent s' k t"
begin

lemma spent_run:
  "run_uses use s xs = (bs, s') \<Longrightarrow> spent s k t \<Longrightarrow> \<forall>x \<in> set xs. time x \<le> t \<Longrightarrow> spent s' k t"
  by (induction xs arbitrary: s bs) (auto split: prod.splits intro: spent_keeps)

lemma reuse_after_expiry:
  assumes run: "run_uses use s xs = (bs, s')" and mono: "sorted (map time xs)"
    and ij: "i < j" "j < length xs" and ok: "bs ! i" "bs ! j" and k: "key (xs ! i) = key (xs ! j)"
  shows "expiry (xs ! i) \<le> time (xs ! j)"
proof -
  let ?x = "xs ! i" and ?y = "xs ! j"
  define zs where "zs = drop (Suc i) (take j xs)"
  have tj: "take j xs = take i xs @ ?x # zs"
    using id_take_nth_drop [of i "take j xs"] ij by (simp add: zs_def min_def)
  moreover have "xs = take j xs @ ?y # drop (Suc j) xs"
    using ij by (intro id_take_nth_drop) simp
  ultimately have xs: "xs = take i xs @ ?x # zs @ ?y # drop (Suc j) xs"
    by (metis append_Cons append_assoc)
  obtain b0 s0 where r0: "run_uses use s (take i xs) = (b0, s0)" by fastforce
  obtain b1 s1 where r1: "use s0 ?x = (b1, s1)" by fastforce
  obtain b2 s2 where r2: "run_uses use s1 zs = (b2, s2)" by fastforce
  obtain b3 s3 where r3: "use s2 ?y = (b3, s3)" by fastforce
  obtain b4 s4 where r4: "run_uses use s3 (drop (Suc j) xs) = (b4, s4)" by fastforce
  have bs: "bs = b0 @ b1 # b2 @ b3 # b4"
    using run r0 r1 r2 r3 r4 by (subst (asm) xs) (simp add: run_uses_append)
  have len: "length b0 = i" "length b2 = j - Suc i"
    using r0 r2 length_run_uses [of use s "take i xs"] length_run_uses [of use s1 zs] ij
    by (simp_all add: zs_def)
  have "b1" "b3"
    using ok ij len by (simp_all add: bs nth_append)
  have "time z \<le> time ?y" if z: "z \<in> set zs \<or> z = ?x" for z
  proof -
    from z tj have "z \<in> set (take j xs)" by auto
    then obtain m where "m < j" "z = xs ! m"
      using ij by (auto simp: in_set_conv_nth)
    with mono ij show ?thesis
      using sorted_nth_mono [OF mono, of m j] by simp
  qed
  moreover have "\<not> spent s2 (key ?y) (time ?y)"
    using success_unspent r3 \<open>b3\<close> by simp
  ultimately have "\<not> spent s1 (key ?x) (time ?y)"
    using spent_run [OF r2] k by auto
  with r1 \<open>b1\<close> \<open>\<And>z. z \<in> set zs \<or> z = ?x \<Longrightarrow> time z \<le> time ?y\<close> show ?thesis
    using success_spends [of s0 ?x s1 "time ?y"] by force
qed

end

locale use_once =
  fixes use :: "'s \<Rightarrow> 'op \<Rightarrow> bool \<times> 's" and key :: "'op \<Rightarrow> 'k" and spent :: "'s \<Rightarrow> 'k \<Rightarrow> bool"
  assumes success_fresh: "use s x = (True, s') \<Longrightarrow> \<not> spent s (key x)"
    and success_marks: "use s x = (True, s') \<Longrightarrow> spent s' (key x)"
    and marks_stay: "use s x = (b, s') \<Longrightarrow> spent s k \<Longrightarrow> spent s' k"

sublocale use_once \<subseteq> use_once_until use key "\<lambda>_. 0" "\<lambda>_. 1" "\<lambda>s k _. spent s k"
  by unfold_locales (auto dest: success_fresh success_marks intro: marks_stay)

context use_once begin

lemma at_most_once:
  assumes "run_uses use s xs = (bs, s')" "i < length xs" "j < length xs" "bs ! i" "bs ! j"
    "key (xs ! i) = key (xs ! j)"
  shows "i = j"
proof -
  have "sorted (map (\<lambda>_. 0 :: int) xs)" by (simp add: map_replicate_const)
  from reuse_after_expiry [OF assms(1) this] have "\<not> m < n" if "n < length xs" "bs ! m" "bs ! n"
    "key (xs ! m) = key (xs ! n)" for m n
    using that by fastforce
  with assms show ?thesis by (metis linorder_neq_iff)
qed

lemma never_again:
  "run_uses use s xs = (bs, s') \<Longrightarrow> spent s (key x) \<Longrightarrow> fst (use s' x) = False"
  using spent_run [of s xs bs s' "key x" 0] success_fresh [of s' x "snd (use s' x)"]
  by (cases "use s' x") auto

end

subsection \<open>The stores meet their contracts\<close>

datatype nonce_op = NoncePut string string IsoTimestamp | NonceConsume string string int

fun nonce_step :: "nonces \<Rightarrow> nonce_op \<Rightarrow> bool \<times> nonces" where
  "nonce_step s (NoncePut d n e) = (False, snd (nonce_put s d n e))"
| "nonce_step s (NonceConsume d n now) = nonce_consume s d n now"

fun nonce_op_key :: "nonce_op \<Rightarrow> string" where
  "nonce_op_key (NoncePut d n e) = d"
| "nonce_op_key (NonceConsume d n now) = d"

definition nonce_spent :: "nonces \<Rightarrow> string \<Rightarrow> bool" where
  "nonce_spent s d \<longleftrightarrow> (\<exists>e. map_of s d = Some e \<and> ne_used e)"

lemma nonce_put_lookup:
  "map_of (snd (nonce_put s d n ex)) k =
   (if k = d \<and> fst (nonce_put s d n ex) = Inr ()
    then Some \<lparr>ne_nonce = n, ne_expiresAtMs = the (date_parse ex), ne_used = False\<rparr> else map_of s k)"
  by (auto simp: nonce_put_def update_conv' split: option.splits)

lemma nonce_put_fresh: "fst (nonce_put s d n ex) = Inr () \<Longrightarrow> map_of s d = None \<and> date_parse ex \<noteq> None"
  by (auto simp: nonce_put_def split: option.splits if_splits)

lemma nonce_consume_iff:
  "fst (nonce_consume s d n now) \<longleftrightarrow>
   (\<exists>e. map_of s d = Some e \<and> \<not> ne_used e \<and> ne_nonce e = n \<and> now < ne_expiresAtMs e)"
  by (auto simp: nonce_consume_def split: option.splits)

lemma nonce_consume_lookup:
  "map_of (snd (nonce_consume s d n now)) k =
   (if k = d \<and> fst (nonce_consume s d n now) then map_option (\<lambda>e. e\<lparr>ne_used := True\<rparr>) (map_of s d)
    else map_of s k)"
  by (auto simp: nonce_consume_def update_conv' split: option.splits)

interpretation nonces: use_once nonce_step nonce_op_key nonce_spent
proof
  fix s s' x assume "nonce_step s x = (True, s')"
  then obtain d n now where x: "x = NonceConsume d n now" "nonce_consume s d n now = (True, s')"
    by (cases x) auto
  then show "\<not> nonce_spent s (nonce_op_key x)"
    using nonce_consume_iff [of s d n now] by (auto simp: nonce_spent_def)
  show "nonce_spent s' (nonce_op_key x)"
    using x nonce_consume_iff [of s d n now] nonce_consume_lookup [of s d n now d]
    by (auto simp: nonce_spent_def)
next
  fix s s' x b k assume "nonce_step s x = (b, s')" "nonce_spent s k"
  then show "nonce_spent s' k"
  proof (cases x)
    case (NoncePut d n e)
    with \<open>nonce_step s x = (b, s')\<close> \<open>nonce_spent s k\<close> show ?thesis
      using nonce_put_fresh [of s d n e] by (auto simp: nonce_spent_def nonce_put_lookup)
  next
    case (NonceConsume d n now)
    with \<open>nonce_step s x = (b, s')\<close> have "s' = snd (nonce_consume s d n now)" by simp
    with \<open>nonce_spent s k\<close> show ?thesis
      by (auto simp: nonce_spent_def nonce_consume_lookup)
  qed
qed

text \<open>Entries come from the puts of the trace.\<close>

definition nonce_provenance :: "nonce_op list \<Rightarrow> nonces \<Rightarrow> bool" where
  "nonce_provenance ops s \<longleftrightarrow> (\<forall>d e. map_of s d = Some e \<longrightarrow>
     (\<exists>ex. NoncePut d (ne_nonce e) ex \<in> set ops \<and> date_parse ex = Some (ne_expiresAtMs e)))"

lemma nonce_step_provenance:
  assumes "nonce_provenance ops s"
  shows "nonce_provenance (ops @ [x]) (snd (nonce_step s x))"
  unfolding nonce_provenance_def
proof (intro allI impI)
  fix d e assume l: "map_of (snd (nonce_step s x)) d = Some e"
  show "\<exists>ex. NoncePut d (ne_nonce e) ex \<in> set (ops @ [x]) \<and> date_parse ex = Some (ne_expiresAtMs e)"
  proof (cases x)
    case (NoncePut d' n ex)
    with l assms nonce_put_fresh [of s d' n ex] show ?thesis
      by (fastforce simp: nonce_put_lookup nonce_provenance_def split: if_splits)
  next
    case (NonceConsume d' n now)
    with l have "\<exists>e0. map_of s d = Some e0 \<and> ne_nonce e0 = ne_nonce e \<and> ne_expiresAtMs e0 = ne_expiresAtMs e"
      by (auto simp: nonce_consume_lookup split: if_splits)
    with assms show ?thesis by (fastforce simp: nonce_provenance_def)
  qed
qed

lemma nonce_run_provenance: "nonce_provenance ops (snd (run_uses nonce_step [] ops))"
proof (induction ops rule: rev_induct)
  case Nil
  then show ?case by (simp add: nonce_provenance_def)
next
  case (snoc x ops)
  then have "nonce_provenance (ops @ [x]) (snd (nonce_step (snd (run_uses nonce_step [] ops)) x))"
    by (rule nonce_step_provenance)
  then show ?case by (simp add: run_uses_append case_prod_unfold)
qed

lemma nonce_success_justified:
  assumes "run_uses nonce_step [] ops = (rs, s')" "j < length ops" "ops ! j = NonceConsume d n now" "rs ! j"
  shows "\<exists>i < j. \<exists>ex x. ops ! i = NoncePut d n ex \<and> date_parse ex = Some x \<and> now < x"
proof -
  let ?s = "snd (run_uses nonce_step [] (take j ops))"
  have "fst (nonce_consume ?s d n now)"
    using run_uses_nth [OF assms(1,2)] assms(3,4) by simp
  then obtain e where "map_of ?s d = Some e" "ne_nonce e = n" "now < ne_expiresAtMs e"
    by (auto simp: nonce_consume_iff)
  moreover from this obtain ex where "NoncePut d n ex \<in> set (take j ops)" "date_parse ex = Some (ne_expiresAtMs e)"
    using nonce_run_provenance [of "take j ops"] by (auto simp: nonce_provenance_def)
  ultimately show ?thesis using assms(2) by (auto simp: in_set_conv_nth)
qed

text \<open>Result replay: a consumed result stays used until the expiry it was consumed with.\<close>

datatype result_op = ConsumeResult string IsoTimestamp int | ConsumeLegacy string string IsoTimestamp int

fun result_step :: "used_results \<Rightarrow> result_op \<Rightarrow> bool \<times> used_results" where
  "result_step s (ConsumeResult r e now) = result_consume s r e now"
| "result_step s (ConsumeLegacy r l e now) = result_consumeWithLegacy s r l e now"

fun result_op_key :: "result_op \<Rightarrow> string" where
  "result_op_key (ConsumeResult r e now) = r"
| "result_op_key (ConsumeLegacy r l e now) = r"

fun result_op_time :: "result_op \<Rightarrow> int" where
  "result_op_time (ConsumeResult r e now) = now"
| "result_op_time (ConsumeLegacy r l e now) = now"

fun result_op_expiry :: "result_op \<Rightarrow> int" where
  "result_op_expiry (ConsumeResult r e now) = (case date_parse e of None \<Rightarrow> now | Some x \<Rightarrow> x)"
| "result_op_expiry (ConsumeLegacy r l e now) = (case date_parse e of None \<Rightarrow> now | Some x \<Rightarrow> x)"

definition result_spent :: "used_results \<Rightarrow> string \<Rightarrow> int \<Rightarrow> bool" where
  "result_spent s r t \<longleftrightarrow> (\<exists>e. (r, e) \<in> set s \<and> t < e)"

lemma prune_results_lookup_None:
  "map_of (prune_results s now) r = None \<longleftrightarrow> \<not> result_spent s r now"
  by (auto simp: prune_results_def result_spent_def map_of_eq_None_iff image_iff)

lemma prune_results_fresh_update:
  "map_of (prune_results s now) r = None \<Longrightarrow>
   set (AList.update r e (prune_results s now)) = insert (r, e) (set (prune_results s now))"
  by (simp add: update_fresh map_of_eq_None_iff)

interpretation results: use_once_until result_step result_op_key result_op_time result_op_expiry result_spent
proof
  fix s s' x assume st: "result_step s x = (True, s')"
  then have f: "map_of (prune_results s (result_op_time x)) (result_op_key x) = None \<and>
      s' = AList.update (result_op_key x) (result_op_expiry x) (prune_results s (result_op_time x))"
    by (cases x) (auto simp: result_consume_def result_consumeWithLegacy_def Let_def
        split: option.splits if_splits)
  then show "\<not> result_spent s (result_op_key x) (result_op_time x)"
    by (simp add: prune_results_lookup_None)
  fix t assume "t < result_op_expiry x"
  with f show "result_spent s' (result_op_key x) t"
    by (auto simp: result_spent_def prune_results_fresh_update)
next
  fix s s' x b k t
  assume st: "result_step s x = (b, s')" and sp: "result_spent s k t" "result_op_time x \<le> t"
  have "s' = s \<or> s' = prune_results s (result_op_time x) \<or>
      (map_of (prune_results s (result_op_time x)) (result_op_key x) = None \<and>
       s' = AList.update (result_op_key x) (result_op_expiry x) (prune_results s (result_op_time x)))"
    using st by (cases x) (auto simp: result_consume_def result_consumeWithLegacy_def Let_def
        split: option.splits if_splits)
  moreover have "result_spent (prune_results s (result_op_time x)) k t"
    using sp by (auto simp: result_spent_def prune_results_def)
  ultimately show "result_spent s' k t"
    using sp by (auto simp: result_spent_def prune_results_fresh_update)
qed

text \<open>Provider replay: subjects are retained for ever.\<close>

interpretation providers: use_once provider_consume provider_replay_key "\<lambda>s k. k \<in> set s"
  by unfold_locales (auto simp: provider_consume_def Let_def split: if_splits)

text \<open>Result acceptance: only the first operation of a result is new while it lives.\<close>

datatype accept_op = AcceptResult ResultAcceptanceInput int | AcceptLegacy ResultAcceptanceInput string int

fun accept_step :: "accepted_results \<Rightarrow> accept_op \<Rightarrow> ResultAcceptanceStatus \<times> accepted_results" where
  "accept_step s (AcceptResult i now) = result_accept s i now"
| "accept_step s (AcceptLegacy i l now) = result_acceptWithLegacy s i l now"

fun accept_input :: "accept_op \<Rightarrow> ResultAcceptanceInput" where
  "accept_input (AcceptResult i now) = i"
| "accept_input (AcceptLegacy i l now) = i"

fun accept_time :: "accept_op \<Rightarrow> int" where
  "accept_time (AcceptResult i now) = now"
| "accept_time (AcceptLegacy i l now) = now"

definition accept_expiry :: "accept_op \<Rightarrow> int" where
  "accept_expiry x = (case date_parse (ra_expiresAt (accept_input x)) of None \<Rightarrow> accept_time x | Some e \<Rightarrow> e)"

definition accept_entry :: "accept_op \<Rightarrow> ResultAcceptanceEntry" where
  "accept_entry x = \<lparr>ae_operationId = ra_operationId (accept_input x),
     ae_requestDigest = ra_requestDigest (accept_input x), ae_expiresAtMs = accept_expiry x\<rparr>"

definition accept_key_of :: "accept_op \<Rightarrow> string" where
  "accept_key_of x = ra_resultId (accept_input x)"

text \<open>The keys an acceptance looks under.\<close>

fun accept_keys :: "accept_op \<Rightarrow> string set" where
  "accept_keys (AcceptResult i now) = {ra_resultId i}"
| "accept_keys (AcceptLegacy i l now) = {l, ra_resultId i}"

definition accept_spent :: "accepted_results \<Rightarrow> string \<Rightarrow> int \<Rightarrow> bool" where
  "accept_spent s r t \<longleftrightarrow> (\<exists>e. (r, e) \<in> set s \<and> t < ae_expiresAtMs e)"

lemma accept_step_cases:
  assumes "accept_step s x = (r, s')"
  shows "(r = Replay \<and> s' = s) \<or>
    (r \<noteq> AcceptNew \<and> s' = prune_accepted s (accept_time x)) \<or>
    (r = AcceptNew \<and> map_of (prune_accepted s (accept_time x)) (accept_key_of x) = None \<and>
     s' = prune_accepted s (accept_time x) @ [(accept_key_of x, accept_entry x)])"
proof -
  have u: "map_of m k = None \<Longrightarrow> AList.update k v m = m @ [(k, v)]" for k m and v :: ResultAcceptanceEntry
    by (simp add: update_fresh map_of_eq_None_iff)
  show ?thesis
    using assms by (cases x) (auto simp: result_accept_def result_acceptWithLegacy_def Let_def u accept_key_of_def
        accept_entry_def accept_expiry_def acceptance_status_def split: option.splits if_splits)
qed

interpretation acceptances: use_once_until "succeeds (\<lambda>r. r = AcceptNew) accept_step" accept_key_of accept_time
  accept_expiry accept_spent
proof
  fix s s' x assume "succeeds (\<lambda>r. r = AcceptNew) accept_step s x = (True, s')"
  then have "accept_step s x = (AcceptNew, s')" by (auto simp: succeeds_def split: prod.splits)
  then have f: "map_of (prune_accepted s (accept_time x)) (accept_key_of x) = None"
    "s' = prune_accepted s (accept_time x) @ [(accept_key_of x, accept_entry x)]"
    using accept_step_cases [of s x AcceptNew s'] by auto
  then show "\<not> accept_spent s (accept_key_of x) (accept_time x)"
    by (auto simp: accept_spent_def prune_accepted_def map_of_eq_None_iff image_iff)
  fix t assume "t < accept_expiry x"
  with f show "accept_spent s' (accept_key_of x) t"
    by (auto simp: accept_spent_def accept_entry_def)
next
  fix s s' x b k t
  assume "succeeds (\<lambda>r. r = AcceptNew) accept_step s x = (b, s')" "accept_spent s k t" "accept_time x \<le> t"
  moreover from this obtain r where "accept_step s x = (r, s')" by (auto simp: succeeds_def split: prod.splits)
  moreover have "accept_spent (prune_accepted s (accept_time x)) k t"
    using calculation by (auto simp: accept_spent_def prune_accepted_def)
  ultimately show "accept_spent s' k t"
    using accept_step_cases [of s x r s'] by (auto simp: accept_spent_def)
qed

lemma accept_entries_provenance:
  "run_uses accept_step [] ops = (rs, s) \<Longrightarrow> (r, e) \<in> set s \<Longrightarrow>
   \<exists>i < length ops. rs ! i = AcceptNew \<and> accept_key_of (ops ! i) = r \<and> accept_entry (ops ! i) = e"
proof (induction ops arbitrary: rs s rule: rev_induct)
  case Nil
  then show ?case by simp
next
  case (snoc x ops)
  obtain rs0 s0 where r0: "run_uses accept_step [] ops = (rs0, s0)" by fastforce
  obtain b s1 where r1: "accept_step s0 x = (b, s1)" by fastforce
  from snoc.prems r0 r1 have rs: "rs = rs0 @ [b]" "s = s1" by (simp_all add: run_uses_append)
  have len: "length rs0 = length ops" using length_run_uses [of accept_step "[]" ops] r0 by simp
  consider "(r, e) \<in> set s0" | "b = AcceptNew" "r = accept_key_of x" "e = accept_entry x"
    using accept_step_cases [OF r1] snoc.prems(2) rs(2) by (auto simp: prune_accepted_def)
  then show ?case
  proof cases
    case 1
    then obtain i where "i < length ops" "rs0 ! i = AcceptNew" "accept_key_of (ops ! i) = r" "accept_entry (ops ! i) = e"
      using snoc.IH [OF r0] by blast
    then show ?thesis using len by (intro exI [of _ i]) (auto simp: rs nth_append)
  next
    case 2
    then show ?thesis using len by (intro exI [of _ "length ops"]) (auto simp: rs nth_append)
  qed
qed

lemma accept_same_operation_found:
  "fst (accept_step s x) = SameOperation \<Longrightarrow>
   \<exists>r e. (r, e) \<in> set s \<and> accept_time x < ae_expiresAtMs e \<and>
     ae_operationId e = ra_operationId (accept_input x) \<and> ae_requestDigest e = ra_requestDigest (accept_input x) \<and>
     r \<in> accept_keys x"
  by (cases x; fastforce simp: result_accept_def result_acceptWithLegacy_def Let_def acceptance_status_def
      prune_accepted_def split: option.splits if_splits dest!: map_of_SomeD)

lemma digest_text_of_digest: "assertSha256Digest d = Inr d \<Longrightarrow> is_digest_text d"
  using encodeStrictBase64Url_alphabet by (auto simp: assertSha256Digest_iff is_digest_text_def startsWith_def)

definition replay_entry_ok :: "ProviderReplayEntry \<Rightarrow> bool" where
  "replay_entry_ok e \<longleftrightarrow> pe_providerId e \<noteq> [] \<and> pe_methodId e \<noteq> [] \<and>
     us_id (pe_uniquenessScope e) \<noteq> [] \<and> pe_subjectDigest e \<noteq> []"

definition nul_free :: "ProviderReplayEntry \<Rightarrow> bool" where
  "nul_free e \<longleftrightarrow> (\<forall>s \<in> {pe_providerId e, pe_methodId e, us_id (pe_uniquenessScope e), pe_subjectDigest e}.
     CHR 0x00 \<notin> set s)"

lemma scope_kind_text_nul_free: "CHR 0x00 \<notin> set (scope_kind_text k)"
  by (cases k) simp_all

lemma scope_kind_text_inj: "scope_kind_text k = scope_kind_text k' \<longleftrightarrow> k = k'"
  by (cases k; cases k') simp_all

lemma provider_replay_key_inj:
  assumes "nul_free e" "nul_free e'" "provider_replay_key e = provider_replay_key e'"
  shows "e = e'"
proof -
  let ?parts = "\<lambda>e. [pe_providerId e, pe_methodId e, scope_kind_text (us_kind (pe_uniquenessScope e)),
     us_id (pe_uniquenessScope e), pe_subjectDigest e]"
  have "?parts e = ?parts e'"
    using assms scope_kind_text_nul_free
    by (intro joinWith_inj [of _ _ "CHR 0x00"]) (auto simp: provider_replay_key_def nul_free_def)
  then show ?thesis
    by (cases e; cases e'; cases "pe_uniquenessScope e"; cases "pe_uniquenessScope e'")
      (auto simp: scope_kind_text_inj)
qed

lemma provider_run_keys:
  "set (snd (run_uses provider_consume [] ops)) = provider_replay_key ` {x \<in> set ops. replay_entry_ok x}"
proof (induction ops rule: rev_induct)
  case (snoc x ops)
  then show ?case
    by (auto simp: run_uses_append case_prod_unfold provider_consume_def Let_def replay_entry_ok_def)
qed simp

subsection \<open>Properties\<close>

text \<open>
  A dependency's nonce is consumed at most once in any sequence of operations on a fresh store,
  and only after it was stored for that dependency with an expiry that has not been reached.
\<close>

theorem nonce_single_use:
  assumes "run_uses nonce_step [] ops = (rs, s)" "j < length ops" "ops ! j = NonceConsume d n now" "rs ! j"
  shows "(\<exists>i < j. \<exists>ex x. ops ! i = NoncePut d n ex \<and> date_parse ex = Some x \<and> now < x) \<and>
    (\<forall>m n' now'. m < length ops \<and> ops ! m = NonceConsume d n' now' \<and> rs ! m \<longrightarrow> m = j)"
  using nonce_success_justified [OF assms] nonces.at_most_once [OF assms(1) _ assms(2)] assms(3,4)
  by fastforce

theorem nonce_single_use_witness:
  "\<exists>i < 1. \<exists>ex x. [NoncePut ''d'' ''n'' ''1970-01-01T00:00:01.000Z'', NonceConsume ''d'' ''n'' 5,
       NonceConsume ''d'' ''n'' 6] ! i = NoncePut ''d'' ''n'' ex \<and> date_parse ex = Some x \<and> 5 < x"
proof (rule nonce_single_use [THEN conjunct1])
  show "run_uses nonce_step [] [NoncePut ''d'' ''n'' ''1970-01-01T00:00:01.000Z'', NonceConsume ''d'' ''n'' 5,
      NonceConsume ''d'' ''n'' 6] = ([False, True, False],
      [(''d'', \<lparr>ne_nonce = ''n'', ne_expiresAtMs = 1000, ne_used = True\<rparr>)])"
    by code_simp
  show "[False, True, False] ! 1" by simp
qed simp_all

text \<open>
  A result identifier is consumed at most once while it lives: of two successful consumptions, with
  or without a legacy key, the later one comes after the expiry given with the earlier one.
\<close>

theorem result_replay_until_expiry:
  assumes "run_uses result_step [] ops = (rs, s)" "sorted (map result_op_time ops)"
    "i < j" "j < length ops" "rs ! i" "rs ! j" "result_op_key (ops ! i) = result_op_key (ops ! j)"
  shows "result_op_expiry (ops ! i) \<le> result_op_time (ops ! j)"
  using assms by (rule results.reuse_after_expiry)

theorem result_replay_until_expiry_witness:
  "result_op_expiry ([ConsumeResult ''r'' ''1970-01-01T00:00:01.000Z'' 5,
     ConsumeResult ''r'' ''1970-01-01T00:00:09.000Z'' 1000] ! 0) \<le>
   result_op_time ([ConsumeResult ''r'' ''1970-01-01T00:00:01.000Z'' 5,
     ConsumeResult ''r'' ''1970-01-01T00:00:09.000Z'' 1000] ! 1)"
proof (rule result_replay_until_expiry)
  show "run_uses result_step [] [ConsumeResult ''r'' ''1970-01-01T00:00:01.000Z'' 5,
      ConsumeResult ''r'' ''1970-01-01T00:00:09.000Z'' 1000] = ([True, True], [(''r'', 9000)])"
    by code_simp
qed simp_all

text \<open>
  Acceptance of results: while a result lives it is new once; and \<open>same_operation\<close> is answered only
  to the operation and request digest that were accepted as new before, under the result's key or the
  given legacy key, and before that acceptance expired.
\<close>

theorem result_acceptance_once:
  assumes "run_uses accept_step [] ops = (rs, s)" "sorted (map accept_time ops)" "j < length ops"
  shows "(\<forall>i < j. rs ! i = AcceptNew \<and> rs ! j = AcceptNew \<and> accept_key_of (ops ! i) = accept_key_of (ops ! j) \<longrightarrow>
       accept_expiry (ops ! i) \<le> accept_time (ops ! j)) \<and>
    (rs ! j = SameOperation \<longrightarrow> (\<exists>i < j. rs ! i = AcceptNew \<and>
       ra_operationId (accept_input (ops ! i)) = ra_operationId (accept_input (ops ! j)) \<and>
       ra_requestDigest (accept_input (ops ! i)) = ra_requestDigest (accept_input (ops ! j)) \<and>
       accept_time (ops ! j) < accept_expiry (ops ! i) \<and>
       accept_key_of (ops ! i) \<in> accept_keys (ops ! j)))"
proof (intro conjI allI impI)
  fix i assume "i < j" and
    n: "rs ! i = AcceptNew \<and> rs ! j = AcceptNew \<and> accept_key_of (ops ! i) = accept_key_of (ops ! j)"
  have "length rs = length ops" using assms(1) length_run_uses [of accept_step "[]" ops] by simp
  with n \<open>i < j\<close> assms show "accept_expiry (ops ! i) \<le> accept_time (ops ! j)"
    by (intro acceptances.reuse_after_expiry [of "[]" ops "map (\<lambda>r. r = AcceptNew) rs" s])
      (auto simp: run_uses_succeeds)
next
  assume same: "rs ! j = SameOperation"
  obtain rs0 s0 where r0: "run_uses accept_step [] (take j ops) = (rs0, s0)" by fastforce
  have "fst (accept_step s0 (ops ! j)) = SameOperation"
    using run_uses_nth [OF assms(1,3)] same r0 by simp
  from accept_same_operation_found [OF this] obtain r e where re: "(r, e) \<in> set s0"
    "accept_time (ops ! j) < ae_expiresAtMs e" "ae_operationId e = ra_operationId (accept_input (ops ! j))"
    "ae_requestDigest e = ra_requestDigest (accept_input (ops ! j))"
    "r \<in> accept_keys (ops ! j)"
    by blast
  from accept_entries_provenance [OF r0 re(1)] obtain i where i: "i < j" "rs0 ! i = AcceptNew"
    "accept_key_of (ops ! i) = r" "accept_entry (ops ! i) = e"
    using assms(3) by auto
  have "rs ! i = rs0 ! i"
    using run_uses_nth [OF assms(1), of i] run_uses_nth [OF r0, of i] i(1) assms(3) by (simp add: min_def)
  with i re show "\<exists>i < j. rs ! i = AcceptNew \<and>
       ra_operationId (accept_input (ops ! i)) = ra_operationId (accept_input (ops ! j)) \<and>
       ra_requestDigest (accept_input (ops ! i)) = ra_requestDigest (accept_input (ops ! j)) \<and>
       accept_time (ops ! j) < accept_expiry (ops ! i) \<and>
       accept_key_of (ops ! i) \<in> accept_keys (ops ! j)"
    by (intro exI [of _ i]) (auto simp: accept_entry_def)
qed

definition sample_acceptances :: "accept_op list" where
  "sample_acceptances =
     [AcceptResult \<lparr>ra_resultId = ''r'', ra_operationId = ''o'',
        ra_requestDigest = ''sha256:AAAAAAAAAAAAAAAAAAAAAAAAAAAAAAAAAAAAAAAAAAA'',
        ra_expiresAt = ''1970-01-01T00:00:01.000Z''\<rparr> 5,
      AcceptLegacy \<lparr>ra_resultId = ''t:r'', ra_operationId = ''o'',
        ra_requestDigest = ''sha256:AAAAAAAAAAAAAAAAAAAAAAAAAAAAAAAAAAAAAAAAAAA'',
        ra_expiresAt = ''1970-01-01T00:00:01.000Z''\<rparr> ''r'' 7]"

theorem result_acceptance_once_witness:
  "\<exists>i < 1. [AcceptNew, SameOperation] ! i = AcceptNew \<and>
     accept_time (sample_acceptances ! 1) < accept_expiry (sample_acceptances ! i)"
proof -
  have "run_uses accept_step [] sample_acceptances =
      ([AcceptNew, SameOperation], snd (run_uses accept_step [] sample_acceptances))"
    by code_simp
  from result_acceptance_once [OF this, of 1] show ?thesis
    by (auto simp: sample_acceptances_def)
qed

text \<open>
  The provider replay store admits each subject once: in any sequence of complete entries whose
  fields hold no NUL, an entry is admitted exactly when it did not occur before.  Different
  subjects, methods or scopes never block each other.
\<close>

theorem provider_subject_once:
  assumes "run_uses provider_consume [] ops = (rs, s)" "j < length ops"
    "\<forall>e \<in> set ops. replay_entry_ok e \<and> nul_free e"
  shows "rs ! j \<longleftrightarrow> ops ! j \<notin> set (take j ops)"
proof -
  have ok: "e \<in> set (take j ops) \<Longrightarrow> replay_entry_ok e \<and> nul_free e" for e
    using assms(3) by (auto dest: in_set_takeD)
  have j: "replay_entry_ok (ops ! j)" "nul_free (ops ! j)" using assms(2,3) by auto
  have "rs ! j \<longleftrightarrow> provider_replay_key (ops ! j) \<notin> provider_replay_key ` {x \<in> set (take j ops). replay_entry_ok x}"
    using run_uses_nth [OF assms(1,2)] j(1)
    by (simp add: provider_consume_def Let_def provider_run_keys replay_entry_ok_def)
  also have "\<dots> \<longleftrightarrow> ops ! j \<notin> set (take j ops)"
    using ok j(2) provider_replay_key_inj by blast
  finally show ?thesis .
qed

definition sample_subject :: "string \<Rightarrow> ProviderReplayEntry" where
  "sample_subject d = \<lparr>pe_providerId = ''world-id'', pe_methodId = ''orb'',
     pe_uniquenessScope = \<lparr>us_kind = Action, us_id = ''vote''\<rparr>, pe_subjectDigest = d\<rparr>"

theorem provider_subject_once_witness:
  "[True, True, False] ! 2 \<longleftrightarrow> [sample_subject ''a'', sample_subject ''b'', sample_subject ''a''] ! 2 \<notin>
     set (take 2 [sample_subject ''a'', sample_subject ''b'', sample_subject ''a''])"
proof (rule provider_subject_once)
  show "run_uses provider_consume [] [sample_subject ''a'', sample_subject ''b'', sample_subject ''a''] =
      ([True, True, False], snd (run_uses provider_consume [] [sample_subject ''a'', sample_subject ''b'',
        sample_subject ''a'']))"
    by code_simp
qed (simp_all add: sample_subject_def replay_entry_ok_def nul_free_def)

end
