(* ===== verification/Http.thy ===== *)
theory Http
  imports Transport ResultToken Policy NonceStore
begin

section \<open>Headers, challenges and acceptance (src/http-client.ts, src/http.ts)\<close>

text \<open>
  The x424 headers carry canonical JSON in strict base64url.  A 424 challenge carries the requirement
  either in the \<open>human-required\<close> header or in its problem body; \<open>requirementFromChallenge\<close> is the client's
  reading of it, over the \<open>get\<close> function of the response's headers.  \<open>verifyHumanProofHeader\<close> is the
  resource server's acceptance of a result token; its replay store is the operation it calls.
\<close>

definition HUMAN_REQUIRED_HEADER :: string where "HUMAN_REQUIRED_HEADER = ''human-required''"
definition HUMAN_PROOF_HEADER :: string where "HUMAN_PROOF_HEADER = ''human-proof''"

subsection \<open>Header values\<close>

definition canonicalHeader :: "js \<Rightarrow> string res" where
  "canonicalHeader v = bindE (canonicalJson v) (\<lambda>t. Inr (encodeStrictBase64Url (utf8_encode t)))"

definition encodeX424Header :: "js \<Rightarrow> string res" where
  "encodeX424Header v = bindE (canonicalHeader v) (\<lambda>encoded.
     bindE (assertHeaderSize encoded ''x424 header'') (\<lambda>_. Inr encoded))"

definition decodeX424Header :: "string \<Rightarrow> js res" where
  "decodeX424Header value = bindE (assertHeaderSize value ''x424 header'') (\<lambda>_.
     bindE (decodeStrictBase64Url value ''x424 header'') (\<lambda>bs. parseCanonicalJsonBytes bs ''x424 header''))"

definition encodeHumanRequirement :: "HumanRequirement \<Rightarrow> string res" where
  "encodeHumanRequirement requirement = encodeX424Header (js_of_requirement requirement)"

definition decodeHumanRequirement :: "zod \<Rightarrow> string \<Rightarrow> HumanRequirement res" where
  "decodeHumanRequirement z value = bindE (decodeX424Header value) (parseHumanRequirement z)"

definition encodeHumanResult :: "HumanResult \<Rightarrow> string res" where
  "encodeHumanResult result = encodeX424Header (js_of_result result)"

definition decodeHumanResult :: "zod \<Rightarrow> string \<Rightarrow> HumanResult res" where
  "decodeHumanResult z value = bindE (decodeX424Header value) (parseHumanResult z)"

definition requirementTransportMode :: "HumanRequirement \<Rightarrow> X424RequirementTransportMode res" where
  "requirementTransportMode requirement = bindE (canonicalHeader (js_of_requirement requirement)) (\<lambda>encoded.
     selectRequirementTransportMode (encodedHeaderByteLength encoded))"

subsection \<open>The challenge\<close>

record HumanRequiredChallenge =
  hc_headers :: "(string \<times> string) list"
  hc_body :: X424Problem
  hc_transport :: X424RequirementTransportMode

definition challenge_body :: "HumanRequirement \<Rightarrow> X424RequirementTransportMode \<Rightarrow> X424Problem" where
  "challenge_body requirement transport =
     \<lparr>xp_title = ''Unique human required'',
      xp_detail = ''This action depends on an accepted unique-human proof.'',
      xp_dependencyId = rq_dependencyId requirement, xp_transport = transport,
      xp_requirement = (case transport of HeaderMode \<Rightarrow> None | BodyMode \<Rightarrow> Some requirement)\<rparr>"

definition base_headers :: "(string \<times> string) list" where
  "base_headers = [(''cache-control'', ''no-store, private''), (''content-type'', ''application/problem+json''),
     (''vary'', HUMAN_PROOF_HEADER)]"

definition humanRequiredResponse :: "HumanRequirement \<Rightarrow> HumanRequiredChallenge res" where
  "humanRequiredResponse requirement =
     bindE (canonicalHeader (js_of_requirement requirement)) (\<lambda>encoded.
     if X424_HEADER_ABSOLUTE_MAX_BYTES < encodedHeaderByteLength encoded
     then Inl (Error ''x424 requirement exceeds absolute transport maximum'')
     else bindE (selectRequirementTransportMode (encodedHeaderByteLength encoded)) (\<lambda>transport.
       case transport of
         HeaderMode \<Rightarrow> bindE (assertInlineHeaderEnvelope encoded) (\<lambda>_.
           Inr \<lparr>hc_headers = base_headers @ [(HUMAN_REQUIRED_HEADER, encoded)],
                hc_body = challenge_body requirement HeaderMode, hc_transport = HeaderMode\<rparr>)
       | BodyMode \<Rightarrow>
           Inr \<lparr>hc_headers = base_headers, hc_body = challenge_body requirement BodyMode,
                hc_transport = BodyMode\<rparr>))"

definition requirementFromChallenge ::
  "zod \<Rightarrow> (string \<Rightarrow> string option) option \<Rightarrow> js \<Rightarrow> HumanRequirement res" where
  "requirementFromChallenge z headers body =
     (let headerValue = (case headers of
            None \<Rightarrow> None
          | Some get \<Rightarrow> (case get HUMAN_REQUIRED_HEADER of None \<Rightarrow> get ''HUMAN-REQUIRED'' | v \<Rightarrow> v))
      in bindE (if body = JNull \<or> body = JUndefined then Inr None
                else bindE (parseHumanRequiredProblem z body) (\<lambda>p. Inr (Some p))) (\<lambda>problem.
         if present headerValue then
           bindE (assertInlineHeaderEnvelope (the headerValue)) (\<lambda>_.
           bindE (decodeHumanRequirement z (the headerValue)) (\<lambda>requirement.
           case problem of
             None \<Rightarrow> Inr requirement
           | Some p \<Rightarrow>
               if xp_transport p \<noteq> HeaderMode \<or> xp_dependencyId p \<noteq> rq_dependencyId requirement
               then Inl (Error ''424 challenge contains conflicting transport payloads'')
               else Inr requirement))
         else (case problem of
             None \<Rightarrow> Inl (Error ''424 response omitted HUMAN-REQUIRED transport payload'')
           | Some p \<Rightarrow> (case xp_requirement p of
                 None \<Rightarrow> Inl (Error ''424 response omitted HUMAN-REQUIRED transport payload'')
               | Some r \<Rightarrow>
                   if xp_transport p = BodyMode then Inr r
                   else Inl (Error ''424 response omitted HUMAN-REQUIRED transport payload'')))))"

subsection \<open>Acceptance of a result token\<close>

fun failure_code_text :: "HumanFailureCode \<Rightarrow> string" where
  "failure_code_text ASSURANCE_NOT_ACCEPTED = ''ASSURANCE_NOT_ACCEPTED''"
| "failure_code_text AUDIENCE_MISMATCH = ''AUDIENCE_MISMATCH''"
| "failure_code_text BINDING_MISMATCH = ''BINDING_MISMATCH''"
| "failure_code_text CLAIM_MISMATCH = ''CLAIM_MISMATCH''"
| "failure_code_text DEPENDENCY_MISMATCH = ''DEPENDENCY_MISMATCH''"
| "failure_code_text DESCRIPTOR_VERSION_MISMATCH = ''DESCRIPTOR_VERSION_MISMATCH''"
| "failure_code_text EXPIRED = ''EXPIRED''"
| "failure_code_text FUTURE_TIMESTAMP = ''FUTURE_TIMESTAMP''"
| "failure_code_text METHOD_DISABLED = ''METHOD_DISABLED''"
| "failure_code_text METHOD_NOT_ACCEPTED = ''METHOD_NOT_ACCEPTED''"
| "failure_code_text METHOD_UNKNOWN = ''METHOD_UNKNOWN''"
| "failure_code_text PROOF_STALE = ''PROOF_STALE''"
| "failure_code_text PURPOSE_MISMATCH = ''PURPOSE_MISMATCH''"
| "failure_code_text REQUEST_DIGEST_MISMATCH = ''REQUEST_DIGEST_MISMATCH''"
| "failure_code_text SCOPE_NOT_ACCEPTED = ''SCOPE_NOT_ACCEPTED''"
| "failure_code_text TIME_WINDOW_INVALID = ''TIME_WINDOW_INVALID''"
| "failure_code_text VERIFICATION_MODE_NOT_ACCEPTED = ''VERIFICATION_MODE_NOT_ACCEPTED''"

type_synonym 's replay_consume = "'s \<Rightarrow> string \<Rightarrow> IsoTimestamp \<Rightarrow> int \<Rightarrow> bool \<times> 's"

definition verifyHumanProofHeader ::
  "zod \<Rightarrow> ('pk \<Rightarrow> bytes \<Rightarrow> bytes \<Rightarrow> bool) \<Rightarrow> string \<Rightarrow> HumanRequirement \<Rightarrow> 'pk ResultVerifier \<Rightarrow> catalog \<Rightarrow>
   's replay_consume option \<Rightarrow> bool \<Rightarrow> int \<Rightarrow> 's \<Rightarrow> HumanResult res \<times> 's" where
  "verifyHumanProofHeader z verify humanProof requirement verifier catalog replayStore requireReplayStore now s =
     (if requireReplayStore \<and> replayStore = None
      then (Inl (Error ''ResultReplayStore is required for this profile''), s)
      else case verifyHumanResultToken z verify humanProof verifier of
        Inl e \<Rightarrow> (Inl e, s)
      | Inr result \<Rightarrow>
          (let evaluation = evaluateHumanResult requirement result catalog now
           in if \<not> ev_satisfied evaluation
              then (Inl (Error (''x424 result rejected: '' @
                      joinWith '','' (map (failure_code_text \<circ> f_code) (ev_failures evaluation)))), s)
              else case replayStore of
                None \<Rightarrow> (Inr result, s)
              | Some consume \<Rightarrow>
                  (case consume s (rs_resultId result) (rs_expiresAt result) now of
                     (ok, s') \<Rightarrow>
                       (if ok then Inr result else Inl (Error ''x424 result token was already consumed''), s'))))"

subsection \<open>Reading back what was sent\<close>

lemma canonicalHeader_requirement:
  assumes "plain_requests r"
  obtains h where "canonicalHeader (js_of_requirement r) = Inr h" "h \<noteq> []"
    "encodedHeaderByteLength h = length h"
    "\<And>z. validate z HumanRequirementSchema (js_of_requirement r) \<Longrightarrow> length h \<le> 65536 \<Longrightarrow>
      decodeHumanRequirement z h = Inr r"
proof -
  obtain t n where t: "canonicalJson (js_of_requirement r) = Inr t"
    "\<And>label. parseCanonicalJsonBytes (utf8_encode t) label = Inr n"
    "\<And>z. validate z HumanRequirementSchema (js_of_requirement r) \<Longrightarrow> parseHumanRequirement z n = Inr r"
    using requirement_document [OF assms] by metis
  have ne: "t \<noteq> []" using canonicalJson_not_Nil [OF t(1)] by simp
  show ?thesis
    by (rule that [of "encodeStrictBase64Url (utf8_encode t)"])
      (simp_all add: canonicalHeader_def t ne decodeHumanRequirement_def decodeX424Header_def
        decode_encode_base64Url)
qed

lemma js_of_requirement_not_undefined: "js_of_requirement r \<noteq> JUndefined"
  by (simp add: js_of_requirement_def)

lemma js_of_problem_valid:
  assumes "validate z HumanRequirementSchema (js_of_requirement r)"
  shows "parseHumanRequiredProblem z (js_of_problem (challenge_body r m)) = Inr (challenge_body r m)"
proof -
  have dep: "1 \<le> length (rq_dependencyId r)" "length (rq_dependencyId r) \<le> 200"
  proof -
    have "list_all (string_ok z (get_str (js_of_requirement r) ''dependencyId'')) [MinLen 1, MaxLen 200]"
      by (rule validate_str_member [OF assms [unfolded HumanRequirementSchema_def]]) (simp add: req_def)
    then show "1 \<le> length (rq_dependencyId r)" "length (rq_dependencyId r) \<le> 200"
      by (simp_all add: js_of_requirement_def get_str_def js_get_JObj)
  qed
  show ?thesis
    using assms dep
    by (cases m)
      (simp_all add: parseHumanRequiredProblem_def HumanRequiredProblemShape_def js_of_problem_def challenge_body_def
        opt_member_def req_def opt_def problem_of_js_def get_str_def get_opt_def js_get_JObj problem_consistent_def
        requirement_roundtrip js_of_requirement_not_undefined)
qed

lemma challenge_cases:
  assumes "humanRequiredResponse r = Inr c" "canonicalHeader (js_of_requirement r) = Inr h"
    "encodedHeaderByteLength h = length h"
  shows "(length h \<le> 8192 \<and> c = \<lparr>hc_headers = base_headers @ [(HUMAN_REQUIRED_HEADER, h)],
        hc_body = challenge_body r HeaderMode, hc_transport = HeaderMode\<rparr>) \<or>
    (8192 < length h \<and> length h \<le> 65536 \<and> c = \<lparr>hc_headers = base_headers,
        hc_body = challenge_body r BodyMode, hc_transport = BodyMode\<rparr>)"
  using assms
  by (auto simp: humanRequiredResponse_def selectRequirementTransportMode_def transport_limits split: if_splits)

lemmas header_names = HUMAN_REQUIRED_HEADER_def HUMAN_PROOF_HEADER_def base_headers_def

lemma challenge_received:
  assumes r: "plain_requests r" "validate z HumanRequirementSchema (js_of_requirement r)"
    and c: "humanRequiredResponse r = Inr c"
  shows "requirementFromChallenge z (Some (map_of (hc_headers c))) (js_of_problem (hc_body c)) = Inr r"
proof -
  obtain h where h: "canonicalHeader (js_of_requirement r) = Inr h" "h \<noteq> []" "encodedHeaderByteLength h = length h"
    "length h \<le> 65536 \<Longrightarrow> decodeHumanRequirement z h = Inr r"
    using canonicalHeader_requirement [OF r(1)] r(2) by metis
  note p = js_of_problem_valid [OF r(2)]
  have nn: "js_of_problem b \<noteq> JNull" "js_of_problem b \<noteq> JUndefined" for b by (simp_all add: js_of_problem_def)
  from challenge_cases [OF c h(1,3)] show ?thesis
  proof
    assume "length h \<le> 8192 \<and> c = \<lparr>hc_headers = base_headers @ [(HUMAN_REQUIRED_HEADER, h)],
        hc_body = challenge_body r HeaderMode, hc_transport = HeaderMode\<rparr>"
    then show ?thesis using h p nn
      by (simp add: requirementFromChallenge_def header_names present_def) (simp add: challenge_body_def)
  next
    assume "8192 < length h \<and> length h \<le> 65536 \<and> c = \<lparr>hc_headers = base_headers,
        hc_body = challenge_body r BodyMode, hc_transport = BodyMode\<rparr>"
    then show ?thesis using p nn
      by (simp add: requirementFromChallenge_def header_names present_def) (simp add: challenge_body_def)
  qed
qed

lemma verifyHumanProofHeader_cases:
  "fst (verifyHumanProofHeader z verify tok r verifier cat store required now s) = Inr result \<longleftrightarrow>
   verifyHumanResultToken z verify tok verifier = Inr result \<and>
   ev_satisfied (evaluateHumanResult r result cat now) \<and>
   (case store of None \<Rightarrow> \<not> required
    | Some consume \<Rightarrow> fst (consume s (rs_resultId result) (rs_expiresAt result) now))"
  by (auto simp: verifyHumanProofHeader_def Let_def split: sum.splits option.splits prod.splits)

subsection \<open>Properties\<close>

text \<open>
  A challenge is understood by its client: from the headers and the body of the 424 response built for a
  well-formed requirement the client reads exactly that requirement, and the requirement travels in the header
  exactly when its encoding has at most 8192 characters, in the body otherwise; above 65536 there is no response.
\<close>

theorem challenge_roundtrip:
  assumes "plain_requests r" "validate z HumanRequirementSchema (js_of_requirement r)"
    "canonicalHeader (js_of_requirement r) = Inr h"
  shows "(if length h \<le> 65536 then \<exists>c. humanRequiredResponse r = Inr c \<and>
       requirementFromChallenge z (Some (map_of (hc_headers c))) (js_of_problem (hc_body c)) = Inr r \<and>
       hc_transport c = (if length h \<le> 8192 then HeaderMode else BodyMode) \<and>
       map_of (hc_headers c) HUMAN_REQUIRED_HEADER = (if length h \<le> 8192 then Some h else None)
     else humanRequiredResponse r = Inl (Error ''x424 requirement exceeds absolute transport maximum''))"
proof -
  have l: "encodedHeaderByteLength h = length h" using assms(3) by (auto simp: canonicalHeader_def)
  show ?thesis
  proof (cases "length h \<le> 65536")
    case False
    then show ?thesis using assms(3) l by (simp add: humanRequiredResponse_def transport_limits)
  next
    case True
    then have "\<exists>c. humanRequiredResponse r = Inr c"
      using assms(3) l by (cases "8192 < length h") (simp_all add: humanRequiredResponse_def
        selectRequirementTransportMode_def assertInlineHeaderEnvelope_def transport_limits)
    then obtain c where c: "humanRequiredResponse r = Inr c" by blast
    from challenge_cases [OF c assms(3) l] challenge_received [OF assms(1,2) c] True c show ?thesis
      by (auto simp: header_names)
  qed
qed

theorem challenge_roundtrip_witness:
  "\<exists>c. humanRequiredResponse sample_wire_requirement = Inr c \<and>
     requirementFromChallenge sample_zod (Some (map_of (hc_headers c))) (js_of_problem (hc_body c)) =
       Inr sample_wire_requirement"
proof -
  have p: "plain_requests sample_wire_requirement" by (simp add: plain_requests_def sample_wire_requirement_def)
  have "case canonicalJson (js_of_requirement sample_wire_requirement) of Inr t \<Rightarrow> length t < 2000 | Inl _ \<Rightarrow> False"
    by code_simp
  then obtain t where t: "canonicalJson (js_of_requirement sample_wire_requirement) = Inr t" "length t < 2000"
    by (auto split: sum.splits)
  let ?h = "encodeStrictBase64Url (utf8_encode t)"
  have "length ?h \<le> 65536"
    using length_utf8_encode [of t] b64_length_le [of "utf8_encode t"] t(2) by linarith
  then show ?thesis
    using challenge_roundtrip [OF p sample_wire_valid, of ?h] t(1) by (auto simp: canonicalHeader_def)
qed

text \<open>
  The resource server accepts a token exactly when it verifies under the trusted keys, its result satisfies
  the requirement now and, where a replay store is configured, the store takes the result identifier; without a
  store it accepts only if the profile does not require one.
\<close>

theorem verifyHumanProofHeader_exact:
  "fst (verifyHumanProofHeader z verify tok r verifier cat store required now s) = Inr result \<longleftrightarrow>
   verifyHumanResultToken z verify tok verifier = Inr result \<and>
   ev_satisfied (evaluateHumanResult r result cat now) \<and>
   (case store of None \<Rightarrow> \<not> required
    | Some consume \<Rightarrow> fst (consume s (rs_resultId result) (rs_expiresAt result) now))"
  by (rule verifyHumanProofHeader_cases)

end
