(* ===== verification/ProviderSdk.thy ===== *)
theory ProviderSdk
  imports Catalog
begin

section \<open>Provider adapters (src/provider-sdk.ts)\<close>

text \<open>
  A provider adapter is a record of functions; what a provider verifies natively is opaque to the
  library, so \<open>pa_validateProviderRequest\<close> and \<open>pa_verify\<close> are arbitrary.  \<open>pa_methods\<close> may throw, and
  an adapter assembled without the SDK may lack its validation function.
\<close>

record HumanProviderAdapter =
  pa_providerId :: string
  pa_methods :: "HumanMethodDescriptor list res"
  pa_hasValidate :: bool
  pa_validateProviderRequest :: "HumanRequirement \<Rightarrow> HumanMethodRequirement \<Rightarrow> js \<Rightarrow> unit res"
  pa_verify :: "HumanRequirement \<Rightarrow> HumanMethodRequirement \<Rightarrow> HumanProofSubmission \<Rightarrow> ProviderVerifiedHuman res"

datatype ConformanceIssueCode = ADAPTER_INVALID | METHOD_PROVIDER_MISMATCH | NO_METHODS | PROVIDER_ID_INVALID

fun issue_code_text :: "ConformanceIssueCode \<Rightarrow> string" where
  "issue_code_text ADAPTER_INVALID = ''ADAPTER_INVALID''"
| "issue_code_text METHOD_PROVIDER_MISMATCH = ''METHOD_PROVIDER_MISMATCH''"
| "issue_code_text NO_METHODS = ''NO_METHODS''"
| "issue_code_text PROVIDER_ID_INVALID = ''PROVIDER_ID_INVALID''"

record ConformanceReport =
  rep_conformant :: bool
  rep_providerId :: string
  rep_methods :: "string list"
  rep_issues :: "(ConformanceIssueCode \<times> string) list"

definition defineHumanMethodDescriptor :: "HumanMethodDescriptor \<Rightarrow> HumanMethodDescriptor res" where
  "defineHumanMethodDescriptor descriptor =
     (if \<not> isHumanMethodIdentifier (d_providerId descriptor)
      then Inl (Error ''Human method providerId must use lowercase protocol identifier syntax'')
      else if \<not> isHumanMethodIdentifier (d_methodId descriptor)
      then Inl (Error ''Human method methodId must use lowercase protocol identifier syntax'')
      else bindE (defineMethodCatalog [descriptor]) (\<lambda>cat.
        case catalog_get cat (d_providerId descriptor) (d_methodId descriptor) of
          Some d \<Rightarrow> Inr d | None \<Rightarrow> Inl (TypeError ''undefined descriptor'')))"

definition method_issues :: "HumanProviderAdapter \<Rightarrow> HumanMethodDescriptor list \<Rightarrow> (ConformanceIssueCode \<times> string) list" where
  "method_issues adapter methods =
     (if methods = [] then [(NO_METHODS, ''Adapter must expose at least one method descriptor'')] else []) @
     map (\<lambda>d. (METHOD_PROVIDER_MISMATCH, ''Method '' @ d_providerId d @ '':'' @ d_methodId d @
            '' does not belong to adapter '' @ pa_providerId adapter))
       (filter (\<lambda>d. d_providerId d \<noteq> pa_providerId adapter) methods) @
     (case defineMethodCatalog methods of Inr _ \<Rightarrow> [] | Inl e \<Rightarrow> [(ADAPTER_INVALID, exn_message e)])"

definition inspectHumanProviderAdapter :: "HumanProviderAdapter \<Rightarrow> ConformanceReport" where
  "inspectHumanProviderAdapter adapter =
     (let id_issues = (if \<not> isHumanMethodIdentifier (pa_providerId adapter)
            then [(PROVIDER_ID_INVALID, ''Adapter providerId must use lowercase protocol identifier syntax'')]
            else []);
          fn_issues = (if \<not> pa_hasValidate adapter
            then [(ADAPTER_INVALID, ''Adapter must validate provider request material'')] else []);
          (methods, m_issues) = (case pa_methods adapter of
            Inl e \<Rightarrow> ([], [(ADAPTER_INVALID, exn_message e)])
          | Inr ms \<Rightarrow> (ms, method_issues adapter ms));
          issues = id_issues @ fn_issues @ m_issues
      in \<lparr>rep_conformant = (length issues = 0), rep_providerId = pa_providerId adapter,
          rep_methods = map (\<lambda>d. d_providerId d @ '':'' @ d_methodId d @ ''@'' @ d_version d) methods,
          rep_issues = issues\<rparr>)"

definition assertHumanProviderAdapterConformance :: "HumanProviderAdapter \<Rightarrow> unit res" where
  "assertHumanProviderAdapterConformance adapter =
     (let report = inspectHumanProviderAdapter adapter
      in throwIf (\<not> rep_conformant report)
           (Error (''Non-conforming provider adapter '' @ pa_providerId adapter @ '': '' @
              joinWith ''; '' (map (\<lambda>(code, detail). issue_code_text code @ '': '' @ detail) (rep_issues report)))))"

definition defineHumanProviderAdapter ::
  "string \<Rightarrow> HumanMethodDescriptor list \<Rightarrow>
   (HumanRequirement \<Rightarrow> HumanMethodRequirement \<Rightarrow> js \<Rightarrow> unit res) \<Rightarrow>
   (HumanRequirement \<Rightarrow> HumanMethodRequirement \<Rightarrow> HumanProofSubmission \<Rightarrow> ProviderVerifiedHuman res) \<Rightarrow>
   HumanProviderAdapter res" where
  "defineHumanProviderAdapter providerId methods validate verify =
     bindE (mapE defineHumanMethodDescriptor methods) (\<lambda>ms.
       let adapter = \<lparr>pa_providerId = providerId, pa_methods = Inr ms, pa_hasValidate = True,
             pa_validateProviderRequest = validate, pa_verify = verify\<rparr>
       in bindE (assertHumanProviderAdapterConformance adapter) (\<lambda>_. Inr adapter))"

subsection \<open>Conformance\<close>

definition conforming :: "HumanProviderAdapter \<Rightarrow> HumanMethodDescriptor list \<Rightarrow> bool" where
  "conforming adapter ms \<longleftrightarrow> pa_methods adapter = Inr ms \<and> ms \<noteq> [] \<and> pa_hasValidate adapter \<and>
     isHumanMethodIdentifier (pa_providerId adapter) \<and>
     list_all (\<lambda>d. d_providerId d = pa_providerId adapter \<and> wf_descriptor d) ms \<and>
     distinct (map d_methodId ms)"

lemma descriptor_keys_distinct:
  assumes "list_all (\<lambda>d. d_providerId d = p) ms"
  shows "distinct (map descriptor_key ms) \<longleftrightarrow> distinct (map d_methodId ms)"
proof -
  have "map descriptor_key ms = map (methodKey p) (map d_methodId ms)"
    using assms by (auto simp: descriptor_key_def list_all_iff)
  moreover have "inj (methodKey p)" by (rule injI) (simp add: methodKey_def)
  ultimately show ?thesis by (metis distinct_map inj_on_subset subset_UNIV)
qed

lemma conformant_iff:
  "rep_conformant (inspectHumanProviderAdapter a) \<longleftrightarrow> (\<exists>ms. conforming a ms)"
proof (cases "pa_methods a")
  case (Inl e)
  then show ?thesis by (simp add: inspectHumanProviderAdapter_def conforming_def Let_def)
next
  case (Inr ms)
  have p: "filter (\<lambda>d. d_providerId d \<noteq> pa_providerId a) ms = [] \<longleftrightarrow> list_all (\<lambda>d. d_providerId d = pa_providerId a) ms"
    by (auto simp: filter_empty_conv list_all_iff)
  have "(case defineMethodCatalog ms of Inr _ \<Rightarrow> [] | Inl e \<Rightarrow> [(ADAPTER_INVALID, exn_message e)]) = [] \<longleftrightarrow>
      (\<exists>cat. defineMethodCatalog ms = Inr cat)"
    by (cases "defineMethodCatalog ms") auto
  then show ?thesis
    using p descriptor_keys_distinct [of "pa_providerId a" ms]
    by (auto simp: inspectHumanProviderAdapter_def Inr method_issues_def Let_def conforming_def
        defineMethodCatalog_eq_Inr list_all_iff)
qed

lemma assert_conformance_iff:
  "assertHumanProviderAdapterConformance a = Inr u \<longleftrightarrow> (\<exists>ms. conforming a ms)"
  by (simp add: assertHumanProviderAdapterConformance_def Let_def conformant_iff)

lemma defineHumanMethodDescriptor_eq_Inr:
  "defineHumanMethodDescriptor d = Inr d' \<longleftrightarrow> wf_descriptor d \<and> d' = d"
proof (cases "defineMethodCatalog [d]")
  case (Inl e)
  then have "\<not> wf_descriptor d"
    using defineMethodCatalog_eq_Inr [of "[d]" "[(descriptor_key d, d)]"] by auto
  with Inl show ?thesis by (auto simp: defineHumanMethodDescriptor_def)
next
  case (Inr cat)
  then have "wf_descriptor d" "cat = [(descriptor_key d, d)]"
    by (simp_all add: defineMethodCatalog_eq_Inr)
  then show ?thesis
    using Inr by (auto simp: defineHumanMethodDescriptor_def catalog_get_def descriptor_key_def wf_descriptor_def)
qed

subsection \<open>Properties\<close>

text \<open>
  The SDK builds an adapter exactly when the provider identifier is valid, there is at least one
  method, every method is a well-formed descriptor of this provider and no method is declared twice;
  the adapter then has the given methods and functions and passes the conformance inspection.
\<close>

theorem defineHumanProviderAdapter_exact:
  "defineHumanProviderAdapter p ms validate verify = Inr a \<longleftrightarrow>
   a = \<lparr>pa_providerId = p, pa_methods = Inr ms, pa_hasValidate = True,
        pa_validateProviderRequest = validate, pa_verify = verify\<rparr> \<and>
   ms \<noteq> [] \<and> isHumanMethodIdentifier p \<and> list_all (\<lambda>d. d_providerId d = p \<and> wf_descriptor d) ms \<and>
   distinct (map d_methodId ms)"
proof -
  have "mapE defineHumanMethodDescriptor ms = Inr xs \<longleftrightarrow> xs = ms \<and> list_all wf_descriptor ms" for xs
    by (induction ms arbitrary: xs) (auto simp: defineHumanMethodDescriptor_eq_Inr)
  then show ?thesis
    by (auto simp: defineHumanProviderAdapter_def Let_def assert_conformance_iff conforming_def list_all_iff)
qed

end
