(* ===== verification/KeysManaged.thy ===== *)
theory KeysManaged
  imports Digest
begin

section \<open>Managed keys and pairwise identifiers (src/keys/managed.ts)\<close>

text \<open>
  HMAC-SHA-256 and the Ed25519 signature are parameters: \<open>hmac key message\<close> and \<open>sign key message\<close>.  A pairwise deriver
  is a record of two functions that may throw; the local one joins its fields with NUL.
\<close>

type_synonym hmac = "bytes \<Rightarrow> bytes \<Rightarrow> bytes"

datatype KeyLifecycleStatus = KeyPending | KeyActive | KeyRetired | KeyRevoked

record KeyValidity =
  kv_status :: KeyLifecycleStatus
  kv_notBefore :: IsoTimestamp
  kv_notAfter :: IsoTimestamp

record PairwiseSecretVersion = KeyValidity +
  ps_version :: string
  ps_secret :: bytes

record PairwiseDeriver =
  pd_humanId :: "string \<Rightarrow> string \<Rightarrow> string \<Rightarrow> string \<Rightarrow> string res"
  pd_replayDigest :: "string \<Rightarrow> string \<Rightarrow> string \<Rightarrow> string \<Rightarrow> string \<Rightarrow> string res"

definition mac_text :: "hmac \<Rightarrow> bytes \<Rightarrow> string list \<Rightarrow> char \<Rightarrow> string" where
  "mac_text hmac secret values sep =
     encodeStrictBase64Url (hmac secret (utf8_encode (joinWith [sep] values)))"

definition createLocalPairwiseDeriver :: "hmac \<Rightarrow> bytes \<Rightarrow> PairwiseDeriver res" where
  "createLocalPairwiseDeriver hmac secret =
     (if length secret < 32 then Inl (Error ''Pairwise secret must contain at least 32 random bytes'')
      else Inr \<lparr>
        pd_humanId = (\<lambda>audience providerId methodId providerSubject.
          Inr (''x424_human_'' @ mac_text hmac secret [audience, providerId, methodId, providerSubject] (CHR 0x00))),
        pd_replayDigest = (\<lambda>providerId methodId scopeKind scopeId providerSubject.
          Inr (''hmac-sha256:'' @ mac_text hmac secret
            (''provider-replay'' # [providerId, methodId, scopeKind, scopeId, providerSubject]) (CHR 0x00)))\<rparr>)"

definition assertKeyUsable :: "'a KeyValidity_scheme \<Rightarrow> int \<Rightarrow> unit res" where
  "assertKeyUsable key now =
     (if kv_status key = KeyRevoked then Inl (Error ''Key revoked'')
      else if kv_status key = KeyPending then Inl (Error ''Key not yet active'')
      else throwIf (case (date_parse (kv_notBefore key), date_parse (kv_notAfter key)) of
             (Some nbf, Some exp) \<Rightarrow> now < nbf \<or> exp \<le> now
           | _ \<Rightarrow> True)
           (Error ''Key outside validity interval''))"

record 'k LocalSigner = KeyValidity +
  ls_keyId :: string
  ls_privateKey :: 'k

definition createLocalExternalResultSigner ::
  "string \<Rightarrow> 'k \<Rightarrow> IsoTimestamp \<Rightarrow> IsoTimestamp \<Rightarrow> KeyLifecycleStatus option \<Rightarrow> 'k LocalSigner" where
  "createLocalExternalResultSigner keyId privateKey notBefore notAfter status =
     \<lparr>kv_status = (case status of None \<Rightarrow> KeyActive | Some s \<Rightarrow> s), kv_notBefore = notBefore,
      kv_notAfter = notAfter, ls_keyId = keyId, ls_privateKey = privateKey\<rparr>"

definition localSigner_sign :: "('k \<Rightarrow> bytes \<Rightarrow> bytes) \<Rightarrow> 'k LocalSigner \<Rightarrow> bytes \<Rightarrow> int \<Rightarrow> bytes res" where
  "localSigner_sign sign signer signingInput now =
     bindE (assertKeyUsable signer now) (\<lambda>_. Inr (sign (ls_privateKey signer) signingInput))"

definition derivePairwiseHumanId ::
  "hmac \<Rightarrow> PairwiseSecretVersion \<Rightarrow> string \<Rightarrow> string \<Rightarrow> string \<Rightarrow> string \<Rightarrow> int \<Rightarrow> string res" where
  "derivePairwiseHumanId hmac secret audience providerId methodId providerSubject now =
     bindE (assertKeyUsable secret now) (\<lambda>_.
       Inr (''x424_human_'' @ ps_version secret @ ''_'' @
         mac_text hmac (ps_secret secret)
           [ps_version secret, audience, providerId, methodId, providerSubject] (CHR 0x0A)))"

definition selectIssuingPairwiseSecret ::
  "PairwiseSecretVersion list \<Rightarrow> int \<Rightarrow> PairwiseSecretVersion res" where
  "selectIssuingPairwiseSecret versions now =
     (let active = filter (\<lambda>v. case assertKeyUsable v now of Inl _ \<Rightarrow> False | Inr _ \<Rightarrow> kv_status v = KeyActive) versions
      in case active of
           [v] \<Rightarrow> Inr v
         | _ \<Rightarrow> Inl (Error ''Exactly one active pairwise secret version is required''))"

subsection \<open>Key validity\<close>

definition key_interval :: "'a KeyValidity_scheme \<Rightarrow> int \<Rightarrow> bool" where
  "key_interval key now \<longleftrightarrow> (\<exists>nbf exp. date_parse (kv_notBefore key) = Some nbf \<and>
     date_parse (kv_notAfter key) = Some exp \<and> nbf \<le> now \<and> now < exp)"

lemma assertKeyUsable_eq_Inr:
  "assertKeyUsable key now = Inr u \<longleftrightarrow>
   kv_status key \<in> {KeyActive, KeyRetired} \<and> key_interval key now"
  by (cases "kv_status key") (auto simp: assertKeyUsable_def key_interval_def split: option.splits)

lemma selectIssuing_eq_Inr:
  "selectIssuingPairwiseSecret vs now = Inr v \<longleftrightarrow>
   filter (\<lambda>v. kv_status v = KeyActive \<and> key_interval v now) vs = [v]"
proof -
  have "(case assertKeyUsable v now of Inl _ \<Rightarrow> False | Inr _ \<Rightarrow> kv_status v = KeyActive) \<longleftrightarrow>
      kv_status v = KeyActive \<and> key_interval v now" for v :: PairwiseSecretVersion
    using assertKeyUsable_eq_Inr [of v now] by (cases "assertKeyUsable v now") auto
  then show ?thesis
    by (simp add: selectIssuingPairwiseSecret_def Let_def split: list.splits)
qed

subsection \<open>Pairwise identifiers\<close>

lemma mac_text_length: "length (hmac k m) = 32 \<Longrightarrow> m = utf8_encode (joinWith [sep] vs) \<Longrightarrow>
  length (mac_text hmac k vs sep) = 43"
  by (simp add: mac_text_def)

lemma mac_text_eq:
  "mac_text hmac k vs sep = mac_text hmac k ws sep' \<longleftrightarrow>
   hmac k (utf8_encode (joinWith [sep] vs)) = hmac k (utf8_encode (joinWith [sep'] ws))"
  by (simp add: mac_text_def encode_base64Url_inj)

lemma mac_text_distinct:
  assumes "mac_text hmac k vs sep = mac_text hmac k ws sep" "vs \<noteq> []" "ws \<noteq> []"
    "\<forall>v \<in> set vs \<union> set ws. sep \<notin> set v"
  shows "vs = ws \<or> collides (hmac k) (utf8_encode (joinWith [sep] vs)) (utf8_encode (joinWith [sep] ws))"
proof (cases "joinWith [sep] vs = joinWith [sep] ws")
  case True
  then show ?thesis using joinWith_inj [of vs ws sep] assms by auto
next
  case False
  then have "utf8_encode (joinWith [sep] vs) \<noteq> utf8_encode (joinWith [sep] ws)" by simp
  then show ?thesis using assms(1) mac_text_eq unfolding collides_def by blast
qed

text \<open>The alphabet and length the service checks of a replay digest: \<open>^hmac-sha256:[A-Za-z0-9_-]{43}$\<close>.\<close>

definition is_replay_digest :: "string \<Rightarrow> bool" where
  "is_replay_digest s \<longleftrightarrow> startsWith s ''hmac-sha256:'' \<and> length s = 55 \<and> list_all is_b64url_char (drop 12 s)"

lemma local_deriver_shapes:
  assumes "createLocalPairwiseDeriver hmac secret = Inr d" "\<And>k m. length (hmac k m) = 32"
  shows "\<exists>i. pd_humanId d a p m s = Inr i \<and> startsWith i ''x424_human_'' \<and> length i = 54"
    and "\<exists>r. pd_replayDigest d p m sk si s = Inr r \<and> is_replay_digest r"
  using assms(1) encodeStrictBase64Url_alphabet
  by (auto simp: createLocalPairwiseDeriver_def mac_text_def assms(2) is_replay_digest_def startsWith_def
      split: if_splits)

subsection \<open>Properties\<close>

text \<open>
  Pairwise identifiers of the local deriver are well formed and separate: two of them are equal only
  for the same audience, provider, method and subject (fields without NUL), unless HMAC has collided on the two
  messages they are computed from;
  in particular one person gets unlinkable identifiers at two audiences.
\<close>

theorem local_pairwise_ids_separate:
  assumes "createLocalPairwiseDeriver hmac secret = Inr d" "\<And>k m. length (hmac k m) = 32"
    "\<forall>v \<in> {a, p, m, s, a', p', m', s'}. CHR 0x00 \<notin> set v"
    "pd_humanId d a p m s = pd_humanId d a' p' m' s'"
  shows "(a, p, m, s) = (a', p', m', s') \<or>
    collides (hmac secret) (utf8_encode (joinWith [CHR 0x00] [a, p, m, s]))
      (utf8_encode (joinWith [CHR 0x00] [a', p', m', s']))"
proof -
  have "mac_text hmac secret [a, p, m, s] (CHR 0x00) = mac_text hmac secret [a', p', m', s'] (CHR 0x00)"
    using assms(1,4) by (auto simp: createLocalPairwiseDeriver_def split: if_splits)
  from mac_text_distinct [OF this] assms(3) show ?thesis by auto
qed

theorem local_pairwise_ids_separate_witness:
  "(''a'', ''p'', ''m'', ''s'') = (''b'', ''p'', ''m'', ''s'') \<or>
   collides ((\<lambda>k m. replicate 32 0) (replicate 32 7 :: bytes) :: bytes \<Rightarrow> bytes)
     (utf8_encode (joinWith [CHR 0x00] [''a'', ''p'', ''m'', ''s'']))
     (utf8_encode (joinWith [CHR 0x00] [''b'', ''p'', ''m'', ''s'']))"
proof -
  obtain d where d: "createLocalPairwiseDeriver (\<lambda>k m. replicate 32 0) (replicate 32 7) = Inr d"
    by (simp add: createLocalPairwiseDeriver_def)
  then have "pd_humanId d ''a'' ''p'' ''m'' ''s'' = pd_humanId d ''b'' ''p'' ''m'' ''s''"
    by (auto simp: createLocalPairwiseDeriver_def mac_text_def)
  with d show ?thesis by (intro local_pairwise_ids_separate) simp_all
qed

text \<open>
  Domain separation: a provider replay digest and a pairwise identifier never authenticate the same
  message, so one cannot be computed from the other: equal texts exhibit an HMAC collision (fields without NUL).
\<close>

theorem local_deriver_domains_separate:
  assumes "\<forall>v \<in> {a, p, m, s, p', m', k', i', s'}. CHR 0x00 \<notin> set v"
    "mac_text hmac secret [a, p, m, s] (CHR 0x00) =
     mac_text hmac secret (''provider-replay'' # [p', m', k', i', s']) (CHR 0x00)"
  shows "collides (hmac secret) (utf8_encode (joinWith [CHR 0x00] [a, p, m, s]))
    (utf8_encode (joinWith [CHR 0x00] [''provider-replay'', p', m', k', i', s']))"
  using mac_text_distinct [OF assms(2)] assms(1) by auto

theorem local_deriver_domains_separate_witness:
  "collides ((\<lambda>k m. replicate 32 0) (replicate 32 7 :: bytes) :: bytes \<Rightarrow> bytes)
     (utf8_encode (joinWith [CHR 0x00] [''a'', ''p'', ''m'', ''s'']))
     (utf8_encode (joinWith [CHR 0x00] [''provider-replay'', ''p'', ''m'', ''k'', ''i'', ''s'']))"
  by (rule local_deriver_domains_separate) (simp_all add: mac_text_def)

text \<open>
  A pairwise secret is selected for issuing exactly when one single version is active and inside its
  validity interval, and it is that one: revoked, pending, retired, expired and malformed versions are
  never selected, and two candidates are refused.
\<close>

theorem selectIssuing_exact:
  "selectIssuingPairwiseSecret vs now = Inr v \<longleftrightarrow>
   filter (\<lambda>v. kv_status v = KeyActive \<and> key_interval v now) vs = [v]"
  by (rule selectIssuing_eq_Inr)

end
