(* ===== verification/RequirementStore.thy ===== *)
theory RequirementStore
  imports NonceStore
begin

section \<open>Requirement storage (src/requirement-store.ts)\<close>

text \<open>
  The in-memory requirement store with tenant ownership.  The clock the methods read (\<open>new Date()\<close>)
  is an argument.  An expiry that is not a date never compares as past, as \<open>NaN <= now\<close> is false.
\<close>

record RequirementEntry =
  re_requirement :: HumanRequirement
  re_tenantId :: "string option"

record RequirementStoreState =
  st_entries :: "(string \<times> RequirementEntry) list"
  st_maximumEntries :: int

definition is_control_char :: "char \<Rightarrow> bool" where
  "is_control_char c \<longleftrightarrow> (of_char c :: nat) < 32 \<or> (of_char c :: nat) = 127"

definition assertTenantId :: "string \<Rightarrow> unit res" where
  "assertTenantId tenantId = throwIf (tenantId = [] \<or> 512 < length tenantId \<or> list_ex is_control_char tenantId)
     (Error ''Invalid requirement tenant ID'')"

definition new_requirement_store :: "jsnum \<Rightarrow> RequirementStoreState res" where
  "new_requirement_store maximumEntries = (case maximumEntries of
     IntNum n \<Rightarrow> (if n < 1 then Inl (Error ''maximumEntries must be a positive integer'')
       else Inr \<lparr>st_entries = [], st_maximumEntries = n\<rparr>)
   | _ \<Rightarrow> Inl (Error ''maximumEntries must be a positive integer''))"

definition requirement_expired :: "HumanRequirement \<Rightarrow> int \<Rightarrow> bool" where
  "requirement_expired r now = (case date_parse (rq_expiresAt r) of None \<Rightarrow> False | Some e \<Rightarrow> e \<le> now)"

definition store_prune :: "RequirementStoreState \<Rightarrow> int \<Rightarrow> RequirementStoreState" where
  "store_prune s now = s\<lparr>st_entries :=
     filter (\<lambda>(_, e). \<not> requirement_expired (re_requirement e) now) (st_entries s)\<rparr>"

definition store_put_entry ::
  "RequirementStoreState \<Rightarrow> HumanRequirement \<Rightarrow> string option \<Rightarrow> int \<Rightarrow> unit res \<times> RequirementStoreState" where
  "store_put_entry s0 r tenantId now =
     (let s = store_prune s0 now
      in if map_of (st_entries s) (rq_dependencyId r) \<noteq> None
           then (Inl (Error ''Dependency ID already exists''), s)
         else if st_maximumEntries s \<le> int (length (st_entries s))
           then (Inl (Error ''Requirement store is full''), s)
         else if requirement_expired r now
           then (Inl (Error ''Cannot store an expired human requirement''), s)
         else (Inr (), s\<lparr>st_entries := AList.update (rq_dependencyId r)
                \<lparr>re_requirement = r, re_tenantId = tenantId\<rparr> (st_entries s)\<rparr>))"

definition store_put ::
  "RequirementStoreState \<Rightarrow> HumanRequirement \<Rightarrow> int \<Rightarrow> unit res \<times> RequirementStoreState" where
  "store_put s r now = store_put_entry s r None now"

definition store_putForTenant ::
  "RequirementStoreState \<Rightarrow> HumanRequirement \<Rightarrow> string \<Rightarrow> int \<Rightarrow> unit res \<times> RequirementStoreState" where
  "store_putForTenant s r tenantId now = (case assertTenantId tenantId of
     Inl e \<Rightarrow> (Inl e, s) | Inr _ \<Rightarrow> store_put_entry s r (Some tenantId) now)"

definition store_getEntry ::
  "RequirementStoreState \<Rightarrow> string \<Rightarrow> int \<Rightarrow> RequirementEntry option \<times> RequirementStoreState" where
  "store_getEntry s dependencyId now = (case map_of (st_entries s) dependencyId of
     None \<Rightarrow> (None, s)
   | Some entry \<Rightarrow>
       if requirement_expired (re_requirement entry) now
       then (None, s\<lparr>st_entries := AList.delete dependencyId (st_entries s)\<rparr>)
       else (Some entry, s))"

definition store_get ::
  "RequirementStoreState \<Rightarrow> string \<Rightarrow> int \<Rightarrow> HumanRequirement option \<times> RequirementStoreState" where
  "store_get s dependencyId now = (case store_getEntry s dependencyId now of
     (e, s') \<Rightarrow> (map_option re_requirement e, s'))"

definition store_getForTenant ::
  "RequirementStoreState \<Rightarrow> string \<Rightarrow> string \<Rightarrow> int \<Rightarrow> HumanRequirement option res \<times> RequirementStoreState" where
  "store_getForTenant s dependencyId tenantId now = (case assertTenantId tenantId of
     Inl e \<Rightarrow> (Inl e, s)
   | Inr _ \<Rightarrow> (case store_getEntry s dependencyId now of
       (None, s') \<Rightarrow> (Inr None, s')
     | (Some entry, s') \<Rightarrow>
         (Inr (if re_tenantId entry = Some tenantId then Some (re_requirement entry) else None), s')))"

definition store_delete :: "RequirementStoreState \<Rightarrow> string \<Rightarrow> RequirementStoreState" where
  "store_delete s dependencyId = s\<lparr>st_entries := AList.delete dependencyId (st_entries s)\<rparr>"

definition store_deleteForTenant ::
  "RequirementStoreState \<Rightarrow> string \<Rightarrow> string \<Rightarrow> int \<Rightarrow> bool res \<times> RequirementStoreState" where
  "store_deleteForTenant s dependencyId tenantId now = (case assertTenantId tenantId of
     Inl e \<Rightarrow> (Inl e, s)
   | Inr _ \<Rightarrow> (case store_getEntry s dependencyId now of
       (None, s') \<Rightarrow> (Inr False, s')
     | (Some entry, s') \<Rightarrow>
         if re_tenantId entry \<noteq> Some tenantId then (Inr False, s')
         else (Inr True, store_delete s' dependencyId)))"

subsection \<open>The operations as one step function\<close>

datatype store_op =
    StorePut HumanRequirement int
  | StorePutFor HumanRequirement string int
  | StoreGet string int
  | StoreGetFor string string int
  | StoreDelete string
  | StoreDeleteFor string string int

datatype store_reply = Done "unit res" | Found "HumanRequirement option res" | Deleted "bool res"

fun store_step :: "RequirementStoreState \<Rightarrow> store_op \<Rightarrow> store_reply \<times> RequirementStoreState" where
  "store_step s (StorePut r now) = apfst Done (store_put s r now)"
| "store_step s (StorePutFor r t now) = apfst Done (store_putForTenant s r t now)"
| "store_step s (StoreGet d now) = apfst (Found \<circ> Inr) (store_get s d now)"
| "store_step s (StoreGetFor d t now) = apfst Found (store_getForTenant s d t now)"
| "store_step s (StoreDelete d) = (Done (Inr ()), store_delete s d)"
| "store_step s (StoreDeleteFor d t now) = apfst Deleted (store_deleteForTenant s d t now)"

text \<open>The entry a dependency has, with its owner.\<close>

definition owned :: "RequirementStoreState \<Rightarrow> string \<Rightarrow> RequirementEntry option" where
  "owned s d = map_of (st_entries s) d"

definition store_inv :: "RequirementStoreState \<Rightarrow> bool" where
  "store_inv s \<longleftrightarrow> distinct (map fst (st_entries s)) \<and> int (length (st_entries s)) \<le> st_maximumEntries s \<and>
     (\<forall>d e. owned s d = Some e \<longrightarrow> rq_dependencyId (re_requirement e) = d)"

lemma owned_prune:
  "distinct (map fst (st_entries s)) \<Longrightarrow> owned (store_prune s now) d =
   (case owned s d of None \<Rightarrow> None
    | Some e \<Rightarrow> if requirement_expired (re_requirement e) now then None else Some e)"
  unfolding owned_def store_prune_def
  by (simp add: map_of_filter_snd [of "st_entries s" "\<lambda>e. \<not> requirement_expired (re_requirement e) now"]
      split: option.splits)

lemma owned_delete: "owned (store_delete s d) k = (if k = d then None else owned s k)"
  by (simp add: owned_def store_delete_def)

lemma store_inv_prune:
  assumes "store_inv s"
  shows "store_inv (store_prune s now)"
proof -
  have "int (length (st_entries (store_prune s now))) \<le> st_maximumEntries (store_prune s now)"
    using assms by (auto simp: store_inv_def store_prune_def intro: order_trans [OF of_nat_mono [OF length_filter_le]])
  moreover have "distinct (map fst (st_entries (store_prune s now)))"
    using assms by (simp add: store_inv_def store_prune_def distinct_filter_keys)
  ultimately show ?thesis
    using assms by (auto simp: store_inv_def owned_prune split: option.splits if_splits)
qed

lemma store_inv_delete: "store_inv s \<Longrightarrow> store_inv (store_delete s d)"
proof -
  assume i: "store_inv s"
  have "length (st_entries (store_delete s d)) \<le> length (st_entries s)"
    by (simp add: store_delete_def length_delete_le)
  with i have "int (length (st_entries (store_delete s d))) \<le> st_maximumEntries (store_delete s d)"
    by (simp add: store_inv_def store_delete_def)
  moreover have "distinct (map fst (st_entries (store_delete s d)))"
    using i by (simp add: store_inv_def store_delete_def distinct_delete)
  ultimately show ?thesis
    using i by (auto simp: store_inv_def owned_delete split: if_splits)
qed

lemma owned_put:
  "distinct (map fst (st_entries s)) \<Longrightarrow> owned (snd (store_put_entry s r t now)) d =
   (if d = rq_dependencyId r \<and> fst (store_put_entry s r t now) = Inr ()
    then Some \<lparr>re_requirement = r, re_tenantId = t\<rparr> else owned (store_prune s now) d)"
  by (auto simp: store_put_entry_def Let_def owned_def)

lemma store_put_entry_ok:
  "fst (store_put_entry s r t now) = Inr () \<longleftrightarrow>
   owned (store_prune s now) (rq_dependencyId r) = None \<and>
   int (length (st_entries (store_prune s now))) < st_maximumEntries s \<and> \<not> requirement_expired r now"
  by (auto simp: store_put_entry_def Let_def owned_def store_prune_def)

lemma store_inv_put_entry:
  assumes "store_inv s"
  shows "store_inv (snd (store_put_entry s r t now))"
proof (cases "fst (store_put_entry s r t now) = Inr ()")
  case True
  let ?p = "store_prune s now"
  from True have s': "snd (store_put_entry s r t now) = ?p\<lparr>st_entries :=
      AList.update (rq_dependencyId r) \<lparr>re_requirement = r, re_tenantId = t\<rparr> (st_entries ?p)\<rparr>"
    by (auto simp: store_put_entry_def Let_def split: if_splits)
  have "length (AList.update (rq_dependencyId r) \<lparr>re_requirement = r, re_tenantId = t\<rparr> (st_entries ?p)) =
      Suc (length (st_entries ?p))"
    using True by (intro length_update_new) (simp add: store_put_entry_ok owned_def)
  moreover have "st_maximumEntries ?p = st_maximumEntries s" by (simp add: store_prune_def)
  ultimately show ?thesis
    using True store_inv_prune [OF assms, of now] store_put_entry_ok [of s r t now]
    by (auto simp: s' store_inv_def distinct_update owned_def update_conv' split: if_splits)
next
  case False
  then have "snd (store_put_entry s r t now) = store_prune s now"
    by (auto simp: store_put_entry_def Let_def split: if_splits)
  then show ?thesis using assms store_inv_prune by simp
qed

lemma store_getEntry_eq:
  "store_getEntry s d now = (case owned s d of None \<Rightarrow> (None, s)
   | Some e \<Rightarrow> if requirement_expired (re_requirement e) now then (None, store_delete s d) else (Some e, s))"
  by (simp add: store_getEntry_def owned_def store_delete_def split: option.splits)

lemma store_inv_step: "store_inv s \<Longrightarrow> store_inv (snd (store_step s x))"
  by (cases x) (auto simp: store_put_def store_putForTenant_def store_get_def store_getForTenant_def
      store_deleteForTenant_def store_getEntry_eq store_inv_put_entry store_inv_delete
      split: sum.splits option.splits if_splits)

subsection \<open>The contract: tenants do not interfere\<close>

text \<open>
  \<open>look s d\<close> is the tenant and value of an entry.  An operation that is \<open>foreign\<close> to a tenant's entry
  keeps it while it lives, and an entry of a tenant comes from a put by that tenant.
\<close>

locale tenant_store =
  fixes step :: "'s \<Rightarrow> 'op \<Rightarrow> 'r \<times> 's" and inv :: "'s \<Rightarrow> bool"
    and look :: "'s \<Rightarrow> 'd \<Rightarrow> ('t \<times> 'v) option"
    and foreign :: "'op \<Rightarrow> 't \<Rightarrow> 'd \<Rightarrow> bool" and alive :: "'op \<Rightarrow> 'v \<Rightarrow> bool"
    and puts :: "'op \<Rightarrow> 'd \<Rightarrow> 't \<Rightarrow> 'v \<Rightarrow> bool"
  assumes inv_step: "inv s \<Longrightarrow> inv (snd (step s x))"
    and foreign_keeps: "inv s \<Longrightarrow> look s d = Some (t, v) \<Longrightarrow> foreign x t d \<Longrightarrow> alive x v \<Longrightarrow>
      look (snd (step s x)) d = Some (t, v)"
    and look_from: "inv s \<Longrightarrow> look (snd (step s x)) d = Some (t, v) \<Longrightarrow> look s d = Some (t, v) \<or> puts x d t v"
begin

lemma inv_run: "inv s \<Longrightarrow> inv (snd (run_uses step s xs))"
proof (induction xs arbitrary: s)
  case (Cons x xs)
  then show ?case using inv_step [of s x] by (simp add: case_prod_unfold)
qed simp

lemma foreign_run:
  "inv s \<Longrightarrow> look s d = Some (t, v) \<Longrightarrow> \<forall>x \<in> set xs. foreign x t d \<and> alive x v \<Longrightarrow>
   look (snd (run_uses step s xs)) d = Some (t, v)"
proof (induction xs arbitrary: s)
  case (Cons x xs)
  then show ?case using inv_step [of s x] foreign_keeps [of s d t v x] by (simp add: case_prod_unfold)
qed simp

lemma look_provenance:
  "inv s \<Longrightarrow> look (snd (run_uses step s xs)) d = Some (t, v) \<Longrightarrow>
   look s d = Some (t, v) \<or> (\<exists>x \<in> set xs. puts x d t v)"
proof (induction xs arbitrary: s)
  case (Cons x xs)
  then show ?case
    using Cons.IH [of "snd (step s x)"] inv_step [of s x] look_from [of s x d t v]
    by (auto simp: case_prod_unfold)
qed simp

end

definition tenant_look :: "RequirementStoreState \<Rightarrow> string \<Rightarrow> (string \<times> HumanRequirement) option" where
  "tenant_look s d = (case owned s d of None \<Rightarrow> None
     | Some e \<Rightarrow> map_option (\<lambda>t. (t, re_requirement e)) (re_tenantId e))"

fun foreign_op :: "store_op \<Rightarrow> string \<Rightarrow> string \<Rightarrow> bool" where
  "foreign_op (StoreDelete d') t d = (d' \<noteq> d)"
| "foreign_op (StoreDeleteFor d' t' now) t d = (d' \<noteq> d \<or> t' \<noteq> t)"
| "foreign_op _ t d = True"

fun alive_at :: "store_op \<Rightarrow> HumanRequirement \<Rightarrow> bool" where
  "alive_at (StorePut r' now) r = (\<not> requirement_expired r now)"
| "alive_at (StorePutFor r' t now) r = (\<not> requirement_expired r now)"
| "alive_at (StoreGet d now) r = (\<not> requirement_expired r now)"
| "alive_at (StoreGetFor d t now) r = (\<not> requirement_expired r now)"
| "alive_at (StoreDelete d) r = True"
| "alive_at (StoreDeleteFor d t now) r = (\<not> requirement_expired r now)"

definition puts_for :: "store_op \<Rightarrow> string \<Rightarrow> string \<Rightarrow> HumanRequirement \<Rightarrow> bool" where
  "puts_for x d t r \<longleftrightarrow> rq_dependencyId r = d \<and> (\<exists>now. x = StorePutFor r t now)"

lemma tenant_look_put:
  assumes "store_inv s"
  shows "tenant_look (snd (store_put_entry s r t now)) d =
    (if d = rq_dependencyId r \<and> fst (store_put_entry s r t now) = Inr () then map_option (\<lambda>t. (t, r)) t
     else (case tenant_look s d of None \<Rightarrow> None
       | Some (t', r') \<Rightarrow> if requirement_expired r' now then None else Some (t', r')))"
  using assms unfolding store_inv_def tenant_look_def
  by (auto simp: owned_put owned_prune split: option.splits)

lemma tenant_look_delete: "tenant_look (store_delete s d) k = (if k = d then None else tenant_look s k)"
  by (simp add: tenant_look_def owned_delete)

interpretation memory_store: tenant_store store_step store_inv tenant_look foreign_op alive_at puts_for
proof
  fix s x assume "store_inv s" then show "store_inv (snd (store_step s x))" by (rule store_inv_step)
next
  fix s d t v x
  assume inv: "store_inv s" and l: "tenant_look s d = Some (t, v)" and f: "foreign_op x t d" "alive_at x v"
  from l obtain e where e: "owned s d = Some e" "re_tenantId e = Some t" "re_requirement e = v"
    by (auto simp: tenant_look_def split: option.splits)
  have kept: "tenant_look (snd (store_put_entry s r t' now)) d = Some (t, v)" if "\<not> requirement_expired v now"
    for r t' now
    using that l e inv store_put_entry_ok [of s r t' now]
    by (auto simp: tenant_look_put owned_prune store_inv_def)
  show "tenant_look (snd (store_step s x)) d = Some (t, v)"
    using f l e kept by (cases x)
      (auto simp: store_put_def store_putForTenant_def store_get_def store_getForTenant_def
        store_deleteForTenant_def store_getEntry_eq tenant_look_delete split: sum.splits option.splits if_splits)
next
  fix s d t v x
  assume inv: "store_inv s" and l: "tenant_look (snd (store_step s x)) d = Some (t, v)"
  have "store_putForTenant s r t' now = (fst (store_putForTenant s r t' now), s) \<or>
      store_putForTenant s r t' now = store_put_entry s r (Some t') now" for r t' now
    by (auto simp: store_putForTenant_def split: sum.splits)
  then show "tenant_look s d = Some (t, v) \<or> puts_for x d t v"
    using l inv by (cases x)
      (auto simp: store_put_def store_get_def store_getForTenant_def puts_for_def tenant_look_put
        store_deleteForTenant_def store_getEntry_eq tenant_look_delete store_putForTenant_def
        split: sum.splits option.splits if_splits prod.splits)
qed

lemma getForTenant_eq:
  "assertTenantId t = Inr () \<Longrightarrow> fst (store_getForTenant s d t now) =
   Inr (case tenant_look s d of None \<Rightarrow> None
     | Some (t', r) \<Rightarrow> if t' = t \<and> \<not> requirement_expired r now then Some r else None)"
  by (auto simp: store_getForTenant_def store_getEntry_eq tenant_look_def split: option.splits)

lemma deleteForTenant_eq:
  "assertTenantId t = Inr () \<Longrightarrow> fst (store_deleteForTenant s d t now) =
   Inr (case tenant_look s d of None \<Rightarrow> False
     | Some (t', r) \<Rightarrow> t' = t \<and> \<not> requirement_expired r now)"
  by (auto simp: store_deleteForTenant_def store_getEntry_eq tenant_look_def split: option.splits)

lemma new_store_inv: "new_requirement_store m = Inr s \<Longrightarrow> store_inv s"
  by (auto simp: new_requirement_store_def store_inv_def owned_def split: jsnum.splits if_splits)

lemma tenant_look_new: "new_requirement_store m = Inr s \<Longrightarrow> tenant_look s d = None"
  by (auto simp: new_requirement_store_def tenant_look_def owned_def split: jsnum.splits if_splits)

subsection \<open>Properties\<close>

text \<open>
  C39: Tenants do not interfere.  Whatever sequence of operations the other tenants and the internal
  readers perform, a tenant's unexpired requirement stays readable by that tenant, and to every other
  tenant it is neither readable nor deletable, exactly as if it did not exist.
\<close>

theorem tenant_isolation:
  assumes "store_inv s" "tenant_look s d = Some (t, r)"
    "\<forall>x \<in> set ops. foreign_op x t d \<and> alive_at x r"
    "\<not> requirement_expired r now" "assertTenantId t = Inr ()" "assertTenantId t' = Inr ()" "t' \<noteq> t"
  shows "fst (store_getForTenant (snd (run_uses store_step s ops)) d t now) = Inr (Some r) \<and>
    fst (store_getForTenant (snd (run_uses store_step s ops)) d t' now) = Inr None \<and>
    fst (store_deleteForTenant (snd (run_uses store_step s ops)) d t' now) = Inr False"
  using memory_store.foreign_run [OF assms(1-3)] assms(4-7) by (simp add: getForTenant_eq deleteForTenant_eq)

definition sample_store :: RequirementStoreState where
  "sample_store = \<lparr>st_entries = [(''dep'', \<lparr>re_requirement = \<lparr>rq_x424Version = ''0.1'', rq_dependencyId = ''dep'',
       rq_purpose = ''vote'', rq_resource = \<lparr>pr_method = ''POST'', pr_uri = ''https://a/'',
         pr_audience = ''https://a'', pr_requestDigest = ''''\<rparr>, rq_nonce = ''n'',
       rq_binding = \<lparr>b_kind = BindSession, b_value = ''s''\<rparr>, rq_createdAt = ''1970-01-01T00:00:00.000Z'',
       rq_expiresAt = ''1970-01-01T00:00:30.000Z'', rq_accepts = [], rq_providerRequests = None\<rparr>,
     re_tenantId = Some ''alice''\<rparr>)], st_maximumEntries = 2\<rparr>"

theorem tenant_isolation_witness:
  "fst (store_getForTenant (snd (run_uses store_step sample_store
       [StoreDeleteFor ''dep'' ''bob'' 10, StoreGet ''dep'' 20])) ''dep'' ''alice'' 25) =
     Inr (Some (re_requirement (snd (hd (st_entries sample_store))))) \<and>
   fst (store_getForTenant (snd (run_uses store_step sample_store
       [StoreDeleteFor ''dep'' ''bob'' 10, StoreGet ''dep'' 20])) ''dep'' ''bob'' 25) = Inr None \<and>
   fst (store_deleteForTenant (snd (run_uses store_step sample_store
       [StoreDeleteFor ''dep'' ''bob'' 10, StoreGet ''dep'' 20])) ''dep'' ''bob'' 25) = Inr False"
proof (rule tenant_isolation)
  show "store_inv sample_store"
    by (simp add: store_inv_def sample_store_def owned_def)
  have e: "requirement_expired (re_requirement (snd (hd (st_entries sample_store)))) now \<longleftrightarrow> 30000 \<le> now" for now
  proof -
    have "date_parse ''1970-01-01T00:00:30.000Z'' = Some 30000" by code_simp
    then show ?thesis by (simp add: requirement_expired_def sample_store_def)
  qed
  show "tenant_look sample_store ''dep'' = Some (''alice'', re_requirement (snd (hd (st_entries sample_store))))"
    by (simp add: sample_store_def tenant_look_def owned_def)
  show "\<forall>x \<in> set [StoreDeleteFor ''dep'' ''bob'' 10, StoreGet ''dep'' 20].
      foreign_op x ''alice'' ''dep'' \<and> alive_at x (re_requirement (snd (hd (st_entries sample_store))))"
    by (simp add: e)
  show "\<not> requirement_expired (re_requirement (snd (hd (st_entries sample_store)))) 25" by (simp add: e)
qed (simp_all add: assertTenantId_def is_control_char_def)

text \<open>
  From a new store on, what a tenant reads is a requirement that this very tenant put under that
  dependency and that has not expired; no client can replace it, since a dependency already stored is
  refused; and the store never holds more entries than its maximum, nor two for one dependency.
\<close>

theorem requirement_store_provenance:
  assumes "new_requirement_store m = Inr s0"
    "fst (store_getForTenant (snd (run_uses store_step s0 ops)) d t now) = Inr (Some r)"
  shows "(\<exists>now'. StorePutFor r t now' \<in> set ops) \<and> rq_dependencyId r = d \<and> \<not> requirement_expired r now \<and>
    int (length (st_entries (snd (run_uses store_step s0 ops)))) \<le>
      st_maximumEntries (snd (run_uses store_step s0 ops)) \<and>
    distinct (map fst (st_entries (snd (run_uses store_step s0 ops)))) \<and>
    (\<forall>r' t' now'. rq_dependencyId r' = d \<and> now' \<le> now \<longrightarrow>
       fst (store_put_entry (snd (run_uses store_step s0 ops)) r' t' now') =
         Inl (Error ''Dependency ID already exists''))"
proof -
  let ?s = "snd (run_uses store_step s0 ops)"
  have inv: "store_inv s0" using assms(1) by (rule new_store_inv)
  have inv': "store_inv ?s" using memory_store.inv_run [OF inv] .
  have "assertTenantId t = Inr ()"
    using assms(2) by (auto simp: store_getForTenant_def split: sum.splits)
  with assms(2) have l: "tenant_look ?s d = Some (t, r)" "\<not> requirement_expired r now"
    by (auto simp: getForTenant_eq split: option.splits if_splits)
  have p: "\<exists>x \<in> set ops. puts_for x d t r"
    using memory_store.look_provenance [OF inv l(1)] tenant_look_new [OF assms(1)] by auto
  have "owned (store_prune ?s now') d \<noteq> None" if "now' \<le> now" for now'
  proof -
    have "\<not> requirement_expired r now'"
      using l(2) that by (auto simp: requirement_expired_def split: option.splits)
    then show ?thesis
      using l(1) inv' by (auto simp: tenant_look_def owned_prune store_inv_def split: option.splits)
  qed
  then have "fst (store_put_entry ?s r' t' now') = Inl (Error ''Dependency ID already exists'')"
    if "rq_dependencyId r' = d" "now' \<le> now" for r' t' now'
    using that by (simp add: store_put_entry_def Let_def flip: owned_def)
  then show ?thesis
    using p inv' l(2) by (auto simp: puts_for_def store_inv_def)
qed

definition sample_stored :: HumanRequirement where
  "sample_stored = re_requirement (snd (hd (st_entries sample_store)))"

theorem requirement_store_provenance_witness:
  "\<exists>now'. StorePutFor sample_stored ''alice'' now' \<in> set [StorePutFor sample_stored ''alice'' 5]"
proof -
  have a: "new_requirement_store (IntNum 2) = Inr \<lparr>st_entries = [], st_maximumEntries = 2\<rparr>"
    by code_simp
  have b: "fst (store_getForTenant (snd (run_uses store_step \<lparr>st_entries = [], st_maximumEntries = 2\<rparr>
      [StorePutFor sample_stored ''alice'' 5])) ''dep'' ''alice'' 25) = Inr (Some sample_stored)"
    by code_simp
  from requirement_store_provenance [OF a b] show ?thesis by (rule conjunct1)
qed

end
