(* ===== verification/Service.thy ===== *)
theory Service
  imports ProviderSdk KeysManaged ResultToken RequirementStore Policy
begin

section \<open>The verifier service (src/service.ts)\<close>

text \<open>
  \<open>X424Service\<close> over stores given by their operations: \<open>'n\<close> is the state of the nonce store, \<open>'p\<close> that
  of the provider replay store.  The clock readings and the fresh UUID of a call are arguments.  A
  call returns its outcome with the new state also when it throws, since a consumed nonce stays
  consumed.  The signer is a key identifier and a function that may throw, which covers the local and
  the external one.
\<close>

record ('n, 'p) X424ServiceOptions =
  so_catalog :: catalog
  so_adapters :: "HumanProviderAdapter list"
  so_nonce_put :: "'n \<Rightarrow> string \<Rightarrow> string \<Rightarrow> IsoTimestamp \<Rightarrow> unit res \<times> 'n"
  so_nonce_consume :: "'n \<Rightarrow> string \<Rightarrow> string \<Rightarrow> int \<Rightarrow> bool \<times> 'n"
  so_provider_consume :: "'p \<Rightarrow> ProviderReplayEntry \<Rightarrow> bool \<times> 'p"
  so_pairwiseSecret :: "bytes option"
  so_pairwiseDeriver :: "PairwiseDeriver option"
  so_keyId :: string
  so_sign :: "bytes \<Rightarrow> bytes res"
  so_maximumResultTtlSeconds :: "int option"

record ('n, 'p) ServiceState =
  ss_nonces :: 'n
  ss_providers :: 'p

record ('n, 'p) X424Service =
  sv_options :: "('n, 'p) X424ServiceOptions"
  sv_adapters :: "(string \<times> HumanProviderAdapter) list"
  sv_deriver :: PairwiseDeriver

subsection \<open>Checking what an adapter returned\<close>

definition assertVerifiedOutput ::
  "ProviderVerifiedHuman \<Rightarrow> HumanRequirement \<Rightarrow> HumanProofSubmission \<Rightarrow> HumanMethodDescriptor \<Rightarrow> int \<Rightarrow> unit res" where
  "assertVerifiedOutput verified requirement proof descriptor now =
     (if v_providerId verified \<noteq> pf_providerId proof \<or> v_methodId verified \<noteq> pf_methodId proof \<or>
         v_descriptorVersion verified \<noteq> d_version descriptor \<or>
         us_kind (v_uniquenessScope verified) \<notin> set (d_nativeScopeKinds descriptor) \<or>
         v_verificationMode verified \<notin> set (d_verificationModes descriptor) \<or>
         v_providerSubject verified = [] \<or> v_proofDigest verified = []
      then Inl (Error ''Provider adapter returned an incompatible human result'')
      else bindE (acceptedMethodForProof requirement proof) (\<lambda>accepted.
        if us_kind (v_uniquenessScope verified) \<notin> set (m_acceptedScopeKinds accepted) \<or>
           whenSome (m_verificationModes accepted) (\<lambda>ms. v_verificationMode verified \<notin> set ms) \<or>
           whenSome (m_assuranceLevel accepted) (\<lambda>l. v_assuranceLevel verified \<noteq> Some l)
        then Inl (Error ''Verified proof does not satisfy the accepted method'')
        else if whenSome (v_assuranceLevel verified) (\<lambda>l. l \<notin> set (d_assuranceLevels descriptor))
        then Inl (Error ''Provider adapter returned an unknown assurance label'')
        else
          let verifiedAt = date_parse (v_verifiedAt verified);
              expires = (case v_expiresAt verified of None \<Rightarrow> None | Some [] \<Rightarrow> None | Some e \<Rightarrow> Some (date_parse e))
          in throwIf (verifiedAt = None \<or> whenSome verifiedAt (\<lambda>v. now < v) \<or>
                whenSome expires (\<lambda>e. e = None \<or> whenSome e (\<lambda>x. x \<le> now)) \<or>
                whenSome (m_maximumProofAgeSeconds accepted)
                  (\<lambda>age. whenSome verifiedAt (\<lambda>v. age * 1000 < now - v)))
               (Error ''Provider adapter returned an invalid proof time window'')))"

subsection \<open>Construction\<close>

text \<open>One adapter: it conforms, its provider is new and all its methods are in the catalog.\<close>

definition install_adapter ::
  "catalog \<Rightarrow> string list \<times> string list \<Rightarrow> HumanProviderAdapter \<Rightarrow> (string list \<times> string list) res" where
  "install_adapter catalog acc adapter = (case acc of (providerIds, installedMethods) \<Rightarrow>
     bindE (assertHumanProviderAdapterConformance adapter) (\<lambda>_.
     if pa_providerId adapter \<in> set providerIds
     then Inl (Error (''Duplicate provider adapter: '' @ pa_providerId adapter))
     else bindE (pa_methods adapter) (\<lambda>descriptors.
       bindE (foldE (\<lambda>installed descriptor.
           let key = methodKey (d_providerId descriptor) (d_methodId descriptor)
           in if whenSome (map_of catalog key) (\<lambda>d. d_version d = d_version descriptor)
              then Inr (installed @ [key])
              else Inl (Error (''Adapter method is missing from catalog: '' @ d_providerId descriptor @ '':'' @
                     d_methodId descriptor @ ''@'' @ d_version descriptor))) installedMethods descriptors)
         (\<lambda>installed. Inr (providerIds @ [pa_providerId adapter], installed)))))"

definition new_X424Service :: "hmac \<Rightarrow> ('n, 'p) X424ServiceOptions \<Rightarrow> ('n, 'p) X424Service res" where
  "new_X424Service hmac options =
     (if (so_pairwiseSecret options = None) = (so_pairwiseDeriver options = None)
      then Inl (Error ''Configure exactly one pairwise derivation source: secret or deriver'')
      else bindE (case so_pairwiseDeriver options of
                    Some d \<Rightarrow> Inr d
                  | None \<Rightarrow> createLocalPairwiseDeriver hmac (the (so_pairwiseSecret options))) (\<lambda>deriver.
        bindE (foldE (install_adapter (so_catalog options)) ([], []) (so_adapters options)) (\<lambda>(_, installedMethods).
        bindE (eachE (\<lambda>(key, descriptor). throwIf (d_status descriptor = Enabled \<and> key \<notin> set installedMethods)
                 (Error (''Enabled catalog method has no adapter: '' @ key))) (so_catalog options)) (\<lambda>_.
        Inr \<lparr>sv_options = options, sv_adapters = map (\<lambda>a. (pa_providerId a, a)) (so_adapters options),
             sv_deriver = deriver\<rparr>))))"

subsection \<open>register\<close>

definition register_method :: "('n, 'p) X424Service \<Rightarrow> HumanRequirement \<Rightarrow> HumanMethodRequirement \<Rightarrow> unit res" where
  "register_method svc requirement acceptedMethod =
     (let key = methodKey (m_providerId acceptedMethod) (m_methodId acceptedMethod)
      in case map_of (so_catalog (sv_options svc)) key of
           None \<Rightarrow> Inl (Error (''Human method is unknown or disabled: '' @ key))
         | Some descriptor \<Rightarrow>
             if d_status descriptor \<noteq> Enabled
             then Inl (Error (''Human method is unknown or disabled: '' @ key))
             else if d_version descriptor \<noteq> m_descriptorVersion acceptedMethod
             then Inl (Error (''Human method descriptor version does not match: '' @ key))
             else (case map_of (sv_adapters svc) (m_providerId acceptedMethod) of
                 None \<Rightarrow> Inl (Error (''No adapter for provider: '' @ m_providerId acceptedMethod))
               | Some adapter \<Rightarrow> pa_validateProviderRequest adapter requirement acceptedMethod
                   (case rq_providerRequests requirement of None \<Rightarrow> JUndefined | Some rs \<Rightarrow> js_get (JObj rs) key)))"

definition register ::
  "('n, 'p) X424Service \<Rightarrow> ('n, 'p) ServiceState \<Rightarrow> HumanRequirement \<Rightarrow> int \<Rightarrow> unit res \<times> ('n, 'p) ServiceState" where
  "register svc st requirement now =
     (case bindE (assertRequirementCurrent requirement now) (\<lambda>_.
           bindE (eachE (\<lambda>key. throwIf (key \<notin> set (map accepts_key (rq_accepts requirement)))
                      (Error (''Provider request material names an unaccepted method: '' @ key)))
                    (map fst (case rq_providerRequests requirement of None \<Rightarrow> [] | Some rs \<Rightarrow> rs))) (\<lambda>_.
           eachE (register_method svc requirement) (rq_accepts requirement))) of
        Inl e \<Rightarrow> (Inl e, st)
      | Inr _ \<Rightarrow> (case so_nonce_put (sv_options svc) (ss_nonces st) (rq_dependencyId requirement)
                       (rq_nonce requirement) (rq_expiresAt requirement) of
            (r, n') \<Rightarrow> (r, st\<lparr>ss_nonces := n'\<rparr>)))"

subsection \<open>satisfy\<close>

text \<open>The checks before the nonce is consumed select the accepted method, the descriptor and the adapter.\<close>

definition satisfy_checks ::
  "('n, 'p) X424Service \<Rightarrow> HumanRequirement \<Rightarrow> HumanProofSubmission \<Rightarrow> int \<Rightarrow>
   (HumanMethodRequirement \<times> HumanMethodDescriptor \<times> HumanProviderAdapter) res" where
  "satisfy_checks svc requirement proof challengeCheckedAt =
     bindE (assertRequirementCurrent requirement challengeCheckedAt) (\<lambda>_.
     bindE (acceptedMethodForProof requirement proof) (\<lambda>acceptedMethod.
     case catalog_get (so_catalog (sv_options svc)) (pf_providerId proof) (pf_methodId proof) of
       None \<Rightarrow> Inl (Error ''Human method is unknown or disabled'')
     | Some descriptor \<Rightarrow>
         if d_status descriptor \<noteq> Enabled then Inl (Error ''Human method is unknown or disabled'')
         else if d_version descriptor \<noteq> m_descriptorVersion acceptedMethod
         then Inl (Error ''Human method descriptor version does not match'')
         else (case map_of (sv_adapters svc) (pf_providerId proof) of
             None \<Rightarrow> Inl (Error (''No adapter for provider: '' @ pf_providerId proof))
           | Some adapter \<Rightarrow> Inr (acceptedMethod, descriptor, adapter))))"

definition verify_proof ::
  "HumanProviderAdapter \<Rightarrow> HumanRequirement \<Rightarrow> HumanMethodRequirement \<Rightarrow> HumanProofSubmission \<Rightarrow>
   HumanMethodDescriptor \<Rightarrow> int \<Rightarrow> ProviderVerifiedHuman res" where
  "verify_proof adapter requirement acceptedMethod proof descriptor issuedAt =
     bindE (pa_verify adapter requirement acceptedMethod proof) (\<lambda>verified.
     bindE (assertRequirementCurrent requirement issuedAt) (\<lambda>_.
     bindE (assertVerifiedOutput verified requirement proof descriptor issuedAt) (\<lambda>_. Inr verified)))"

definition retain_subject ::
  "('n, 'p) X424Service \<Rightarrow> ('n, 'p) ServiceState \<Rightarrow> ProviderVerifiedHuman \<Rightarrow> unit res \<times> ('n, 'p) ServiceState" where
  "retain_subject svc st verified =
     (if v_providerReplayMode verified \<noteq> Some ReplayVerifier then (Inr (), st)
      else case pd_replayDigest (sv_deriver svc) (v_providerId verified) (v_methodId verified)
             (scope_kind_text (us_kind (v_uniquenessScope verified))) (us_id (v_uniquenessScope verified))
             (v_providerSubject verified) of
        Inl e \<Rightarrow> (Inl e, st)
      | Inr subjectDigest \<Rightarrow>
          if \<not> is_replay_digest subjectDigest
          then (Inl (Error ''Pairwise deriver returned an invalid replay digest''), st)
          else (case so_provider_consume (sv_options svc) (ss_providers st)
                  \<lparr>pe_providerId = v_providerId verified, pe_methodId = v_methodId verified,
                   pe_uniquenessScope = v_uniquenessScope verified, pe_subjectDigest = subjectDigest\<rparr> of
              (ok, p') \<Rightarrow> (if ok then Inr () else Inl (Error ''Provider uniqueness subject was already consumed''),
                          st\<lparr>ss_providers := p'\<rparr>)))"

text \<open>\<open>Math.min\<close> over the requirement's, the provider's and the service's own limit.\<close>

definition result_expiry :: "('n, 'p) X424Service \<Rightarrow> HumanRequirement \<Rightarrow> ProviderVerifiedHuman \<Rightarrow> int \<Rightarrow> int option" where
  "result_expiry svc requirement verified issuedAt =
     (let own = issuedAt + (case so_maximumResultTtlSeconds (sv_options svc) of None \<Rightarrow> 300 | Some n \<Rightarrow> n) * 1000
      in case date_parse (rq_expiresAt requirement) of
           None \<Rightarrow> None
         | Some x \<Rightarrow> (case v_expiresAt verified of
               None \<Rightarrow> Some (min x own)
             | Some [] \<Rightarrow> Some (min x own)
             | Some e \<Rightarrow> map_option (\<lambda>y. min (min x y) own) (date_parse e)))"

definition build_result ::
  "HumanRequirement \<Rightarrow> ProviderVerifiedHuman \<Rightarrow> HumanMethodDescriptor \<Rightarrow> string \<Rightarrow> string \<Rightarrow>
   IsoTimestamp \<Rightarrow> IsoTimestamp \<Rightarrow> HumanResult" where
  "build_result requirement verified descriptor uuid pairwiseHumanId issuedAt expiresAt =
     \<lparr>rs_x424Version = X424_VERSION, rs_resultId = ''x424_result_'' @ uuid,
      rs_dependencyId = rq_dependencyId requirement, rs_purpose = rq_purpose requirement,
      rs_audience = pr_audience (rq_resource requirement),
      rs_requestDigest = pr_requestDigest (rq_resource requirement), rs_binding = rq_binding requirement,
      rs_providerId = v_providerId verified, rs_methodId = v_methodId verified,
      rs_descriptorVersion = v_descriptorVersion verified,
      rs_assuranceLevel = (if v_assuranceLevel verified = Some [] then None else v_assuranceLevel verified),
      rs_pairwiseHumanId = pairwiseHumanId, rs_uniquenessScope = v_uniquenessScope verified,
      rs_verificationMode = v_verificationMode verified, rs_proofDigest = v_proofDigest verified,
      rs_claim = d_claim descriptor, rs_nonClaims = d_nonClaims descriptor,
      rs_verifiedAt = v_verifiedAt verified, rs_issuedAt = issuedAt, rs_expiresAt = expiresAt,
      rs_stateReferences = v_stateReferences verified\<rparr>"

definition issue_result ::
  "('n, 'p) X424Service \<Rightarrow> HumanRequirement \<Rightarrow> ProviderVerifiedHuman \<Rightarrow> HumanMethodDescriptor \<Rightarrow> int \<Rightarrow>
   string \<Rightarrow> (HumanResult \<times> string) res" where
  "issue_result svc requirement verified descriptor issuedAt uuid =
     bindE (pd_humanId (sv_deriver svc) (pr_audience (rq_resource requirement)) (v_providerId verified)
              (v_methodId verified) (v_providerSubject verified)) (\<lambda>pairwiseHumanId.
     if \<not> startsWith pairwiseHumanId ''x424_human_'' \<or> 512 < length pairwiseHumanId
     then Inl (Error ''Pairwise deriver returned an invalid identifier'')
     else
       bindE (toISOString issuedAt) (\<lambda>issuedText.
       bindE (case result_expiry svc requirement verified issuedAt of
                None \<Rightarrow> Inl (RangeError ''Invalid time value'') | Some e \<Rightarrow> toISOString e) (\<lambda>expiresText.
       let result = build_result requirement verified descriptor uuid pairwiseHumanId issuedText expiresText
       in bindE (signHumanResultWithExternal result (so_keyId (sv_options svc)) (so_sign (sv_options svc))) (\<lambda>token.
         Inr (result, token)))))"

definition satisfy ::
  "('n, 'p) X424Service \<Rightarrow> ('n, 'p) ServiceState \<Rightarrow> HumanRequirement \<Rightarrow> HumanProofSubmission \<Rightarrow> int \<Rightarrow> int \<Rightarrow>
   string \<Rightarrow> (HumanResult \<times> string) res \<times> ('n, 'p) ServiceState" where
  "satisfy svc st requirement proof challengeCheckedAt issuedAt uuid =
     (case satisfy_checks svc requirement proof challengeCheckedAt of
        Inl e \<Rightarrow> (Inl e, st)
      | Inr (acceptedMethod, descriptor, adapter) \<Rightarrow>
          (case so_nonce_consume (sv_options svc) (ss_nonces st) (rq_dependencyId requirement)
                  (rq_nonce requirement) challengeCheckedAt of
             (False, n') \<Rightarrow> (Inl (Error ''Human dependency nonce is unknown, expired, or already used''),
                             st\<lparr>ss_nonces := n'\<rparr>)
           | (True, n') \<Rightarrow>
               (let st1 = st\<lparr>ss_nonces := n'\<rparr>
                in case verify_proof adapter requirement acceptedMethod proof descriptor issuedAt of
                     Inl e \<Rightarrow> (Inl e, st1)
                   | Inr verified \<Rightarrow>
                       (case retain_subject svc st1 verified of
                          (Inl e, st2) \<Rightarrow> (Inl e, st2)
                        | (Inr _, st2) \<Rightarrow> (issue_result svc requirement verified descriptor issuedAt uuid, st2)))))"

subsection \<open>What a successful call went through\<close>

lemma satisfy_success:
  assumes "satisfy svc st requirement proof t1 t2 uuid = (Inr (result, token), st')"
  obtains a d adapter verified n' where
    "satisfy_checks svc requirement proof t1 = Inr (a, d, adapter)"
    "so_nonce_consume (sv_options svc) (ss_nonces st) (rq_dependencyId requirement) (rq_nonce requirement) t1 = (True, n')"
    "verify_proof adapter requirement a proof d t2 = Inr verified"
    "retain_subject svc (st\<lparr>ss_nonces := n'\<rparr>) verified = (Inr (), st')"
    "issue_result svc requirement verified d t2 uuid = Inr (result, token)"
  using assms by (auto simp: satisfy_def Let_def split: sum.splits prod.splits bool.splits)

lemma satisfy_checks_eq_Inr:
  "satisfy_checks svc r pf t = Inr (a, d, adapter) \<longleftrightarrow>
   assertRequirementCurrent r t = Inr () \<and> acceptedMethodForProof r pf = Inr a \<and>
   catalog_get (so_catalog (sv_options svc)) (pf_providerId pf) (pf_methodId pf) = Some d \<and>
   d_status d = Enabled \<and> d_version d = m_descriptorVersion a \<and>
   map_of (sv_adapters svc) (pf_providerId pf) = Some adapter"
  by (auto simp: satisfy_checks_def split: option.splits if_splits)

lemma verify_proof_eq_Inr:
  "verify_proof adapter r a pf d t = Inr v \<longleftrightarrow>
   pa_verify adapter r a pf = Inr v \<and> assertRequirementCurrent r t = Inr () \<and>
   assertVerifiedOutput v r pf d t = Inr ()"
  by (auto simp: verify_proof_def)

lemma assertVerifiedOutput_InrD:
  assumes "assertVerifiedOutput v r pf d now = Inr ()"
  shows "\<exists>a t. acceptedMethodForProof r pf = Inr a \<and> date_parse (v_verifiedAt v) = Some t \<and> t \<le> now \<and>
    v_providerId v = pf_providerId pf \<and> v_methodId v = pf_methodId pf \<and> v_descriptorVersion v = d_version d \<and>
    us_kind (v_uniquenessScope v) \<in> set (m_acceptedScopeKinds a) \<inter> set (d_nativeScopeKinds d) \<and>
    v_verificationMode v \<in> set (d_verificationModes d) \<and>
    (\<forall>ms. m_verificationModes a = Some ms \<longrightarrow> v_verificationMode v \<in> set ms) \<and>
    (\<forall>l. m_assuranceLevel a = Some l \<longrightarrow> v_assuranceLevel v = Some l) \<and>
    (\<forall>l. v_assuranceLevel v = Some l \<longrightarrow> l \<in> set (d_assuranceLevels d)) \<and>
    (\<forall>e. v_expiresAt v = Some e \<and> e \<noteq> [] \<longrightarrow> (\<exists>x. date_parse e = Some x \<and> now < x)) \<and>
    (\<forall>age. m_maximumProofAgeSeconds a = Some age \<longrightarrow> now \<le> t + age * 1000) \<and>
    v_providerSubject v \<noteq> [] \<and> v_proofDigest v \<noteq> []"
proof -
  from assms obtain a where a: "acceptedMethodForProof r pf = Inr a"
    by (auto simp: assertVerifiedOutput_def split: if_splits)
  show ?thesis
    using assms by (auto simp: assertVerifiedOutput_def a Let_def not_less
        split: if_splits option.splits list.splits; fastforce)
qed

lemma issue_result_InrD:
  assumes "issue_result svc r v d t uuid = Inr (result, token)"
  shows "\<exists>pid ia ea e. toISOString t = Inr ia \<and> result_expiry svc r v t = Some e \<and> toISOString e = Inr ea \<and>
    startsWith pid ''x424_human_'' \<and> length pid \<le> 512 \<and> result = build_result r v d uuid pid ia ea \<and>
    signHumanResultWithExternal result (so_keyId (sv_options svc)) (so_sign (sv_options svc)) = Inr token"
  using assms by (auto simp: issue_result_def Let_def not_less split: if_splits option.splits)

definition positive_ttl :: "('n, 'p) X424Service \<Rightarrow> bool" where
  "positive_ttl svc \<longleftrightarrow> (case so_maximumResultTtlSeconds (sv_options svc) of None \<Rightarrow> True | Some n \<Rightarrow> 0 < n)"

lemma result_expiry_bounds:
  assumes "result_expiry svc r v t = Some e" "date_parse (rq_expiresAt r) = Some x" "t < x" "positive_ttl svc"
    "\<forall>pe. v_expiresAt v = Some pe \<and> pe \<noteq> [] \<longrightarrow> (\<exists>y. date_parse pe = Some y \<and> t < y)"
  shows "t < e \<and> e \<le> x \<and> e \<le> t + (case so_maximumResultTtlSeconds (sv_options svc) of None \<Rightarrow> 300 | Some n \<Rightarrow> n) * 1000"
  using assms by (auto simp: result_expiry_def positive_ttl_def Let_def split: option.splits list.splits)

lemma satisfied_result_times:
  assumes ok: "satisfy svc st r pf t1 t2 uuid = (Inr (result, token), st')"
    and ttl: "positive_ttl svc" and t2: "four_digit_time t2"
    and x: "date_parse (rq_expiresAt r) = Some x" "four_digit_time x"
  obtains a d adapter v pid c ex vt where
    "acceptedMethodForProof r pf = Inr a" "satisfy_checks svc r pf t1 = Inr (a, d, adapter)"
    "assertVerifiedOutput v r pf d t2 = Inr ()" "result = build_result r v d uuid pid (iso_string t2) (iso_string ex)"
    "date_parse (rq_createdAt r) = Some c" "c \<le> t2" "t2 < x" "t2 < ex" "ex \<le> x"
    "date_parse (rs_issuedAt result) = Some t2" "date_parse (rs_expiresAt result) = Some ex"
    "date_parse (v_verifiedAt v) = Some vt" "vt \<le> t2" "startsWith pid ''x424_human_''" "length pid \<le> 512"
    "ex \<le> t2 + (case so_maximumResultTtlSeconds (sv_options svc) of None \<Rightarrow> 300 | Some n \<Rightarrow> n) * 1000"
proof -
  from ok obtain a d adapter v n' where ch: "satisfy_checks svc r pf t1 = Inr (a, d, adapter)"
    and vp: "verify_proof adapter r a pf d t2 = Inr v" and iss: "issue_result svc r v d t2 uuid = Inr (result, token)"
    by (rule satisfy_success)
  from vp have cur: "assertRequirementCurrent r t2 = Inr ()" and out: "assertVerifiedOutput v r pf d t2 = Inr ()"
    by (auto simp: verify_proof_eq_Inr)
  from ch have acc: "acceptedMethodForProof r pf = Inr a" by (auto simp: satisfy_checks_eq_Inr)
  from cur x obtain c where c: "date_parse (rq_createdAt r) = Some c" "c \<le> t2" "t2 < x"
    by (auto simp: assertRequirementCurrent_eq_Inr)
  from assertVerifiedOutput_InrD [OF out] obtain vt where vt: "date_parse (v_verifiedAt v) = Some vt" "vt \<le> t2"
    and pe: "\<forall>e. v_expiresAt v = Some e \<and> e \<noteq> [] \<longrightarrow> (\<exists>y. date_parse e = Some y \<and> t2 < y)" by auto
  from issue_result_InrD [OF iss] obtain pid ia ea ex where
    i: "toISOString t2 = Inr ia" "result_expiry svc r v t2 = Some ex" "toISOString ex = Inr ea"
      "startsWith pid ''x424_human_''" "length pid \<le> 512" "result = build_result r v d uuid pid ia ea" by blast
  have b: "t2 < ex" "ex \<le> x"
    "ex \<le> t2 + (case so_maximumResultTtlSeconds (sv_options svc) of None \<Rightarrow> 300 | Some n \<Rightarrow> n) * 1000"
    using result_expiry_bounds [OF i(2) x(1) c(3) ttl pe] by auto
  then have ex: "four_digit_time ex" using t2 x(2) by (auto simp: four_digit_time_def)
  have tx: "ia = iso_string t2" "ea = iso_string ex"
    using i(1,3) toISOString_four_digit [OF t2] toISOString_four_digit [OF ex] by auto
  show ?thesis
    using that [OF acc ch out _ c b(1,2) _ _ vt i(4,5) b(3)] i(6) t2 ex by (simp add: tx build_result_def)
qed

lemma satisfied_result_accepted:
  assumes ok: "satisfy svc st r pf t1 t2 uuid = (Inr (result, token), st')"
    and ttl: "positive_ttl svc" and t2: "four_digit_time t2"
    and x: "date_parse (rq_expiresAt r) = Some x" "four_digit_time x"
    and l: "\<forall>a \<in> set (rq_accepts r). m_assuranceLevel a \<noteq> Some []"
  shows "ev_satisfied (evaluateHumanResult r result (so_catalog (sv_options svc)) t2)"
proof -
  from ok ttl t2 x obtain a d adapter v pid c ex vt where
    acc: "acceptedMethodForProof r pf = Inr a" and ch: "satisfy_checks svc r pf t1 = Inr (a, d, adapter)"
    and out: "assertVerifiedOutput v r pf d t2 = Inr ()"
    and res: "result = build_result r v d uuid pid (iso_string t2) (iso_string ex)"
    and c: "date_parse (rq_createdAt r) = Some c" "c \<le> t2" "t2 < x" and ex: "t2 < ex" "ex \<le> x"
    and tm: "date_parse (rs_issuedAt result) = Some t2" "date_parse (rs_expiresAt result) = Some ex"
    and vt: "date_parse (v_verifiedAt v) = Some vt" "vt \<le> t2"
    by (rule satisfied_result_times)
  note vo = assertVerifiedOutput_InrD [OF out, unfolded acc vt(1)]
  have a: "accepted_method r (pf_providerId pf) (pf_methodId pf) = Some a"
    using acc by (simp add: acceptedMethodForProof_eq_Inr)
  then have la: "m_assuranceLevel a \<noteq> Some []" using l accepted_method_SomeD by blast
  from ch have d: "catalog_get (so_catalog (sv_options svc)) (pf_providerId pf) (pf_methodId pf) = Some d"
    "d_status d = Enabled" "d_version d = m_descriptorVersion a" by (auto simp: satisfy_checks_eq_Inr)
  have ids: "rs_providerId result = pf_providerId pf" "rs_methodId result = pf_methodId pf"
    using vo by (auto simp: res build_result_def)
  have "same_request r result" by (simp add: same_request_def res build_result_def)
  moreover have "method_conforms a d result"
    using vo d la by (auto simp: method_conforms_def res build_result_def)
  moreover have "result_times r result = Some \<lparr>tm_created = c, tm_required = x, tm_verified = vt,
      tm_issued = t2, tm_expires = ex\<rparr>"
    using c x tm vt by (simp add: result_times_Some res build_result_def)
  moreover have "timely a \<lparr>tm_created = c, tm_required = x, tm_verified = vt, tm_issued = t2, tm_expires = ex\<rparr> t2"
    using vo c ex vt by (auto simp: timely_def)
  ultimately show ?thesis
    using a d(1) unfolding evaluate_satisfied_iff ids by blast
qed

subsection \<open>The contract with the stores\<close>

text \<open>
  A call of the service: registration, or a proof submission, which is refused before the provider is asked or reaches the
  provider's verifier.
\<close>

datatype service_op = OpRegister HumanRequirement int | OpSatisfy HumanRequirement HumanProofSubmission int int string

datatype service_reply = Registered "unit res" | RefusedEarly exn | AskedProvider "(HumanResult \<times> string) res"

fun service_step ::
  "('n, 'p) X424Service \<Rightarrow> ('n, 'p) ServiceState \<Rightarrow> service_op \<Rightarrow> service_reply \<times> ('n, 'p) ServiceState" where
  "service_step svc st (OpRegister r now) = (case register svc st r now of (x, st') \<Rightarrow> (Registered x, st'))"
| "service_step svc st (OpSatisfy r pf t1 t2 uuid) =
     (case satisfy_checks svc r pf t1 of
        Inl e \<Rightarrow> (RefusedEarly e, st)
      | Inr _ \<Rightarrow>
          (case satisfy svc st r pf t1 t2 uuid of (x, st') \<Rightarrow>
             if fst (so_nonce_consume (sv_options svc) (ss_nonces st) (rq_dependencyId r) (rq_nonce r) t1)
             then (AskedProvider x, st')
             else (RefusedEarly (Error ''Human dependency nonce is unknown, expired, or already used''), st')))"

fun asked_provider :: "service_reply \<Rightarrow> bool" where
  "asked_provider (AskedProvider _) = True"
| "asked_provider _ = False"

fun service_dependency :: "service_op \<Rightarrow> string" where
  "service_dependency (OpRegister r now) = rq_dependencyId r"
| "service_dependency (OpSatisfy r pf t1 t2 uuid) = rq_dependencyId r"

lemma retain_subject_nonces: "ss_nonces (snd (retain_subject svc st v)) = ss_nonces st"
  by (simp add: retain_subject_def split: sum.splits prod.splits)

lemma satisfy_nonces:
  "ss_nonces (snd (satisfy svc st r pf t1 t2 uuid)) =
   (case satisfy_checks svc r pf t1 of Inl _ \<Rightarrow> ss_nonces st
    | Inr _ \<Rightarrow> snd (so_nonce_consume (sv_options svc) (ss_nonces st) (rq_dependencyId r) (rq_nonce r) t1))"
proof -
  have "ss_nonces st2 = ss_nonces st'" if "retain_subject svc st' v = (x, st2)" for st' v x st2
    using retain_subject_nonces [of svc st' v] that by simp
  then show ?thesis
    by (auto simp: satisfy_def Let_def split: sum.splits prod.splits bool.splits)
qed

lemma register_nonces:
  "ss_nonces (snd (register svc st r now)) = ss_nonces st \<or>
   ss_nonces (snd (register svc st r now)) =
     snd (so_nonce_put (sv_options svc) (ss_nonces st) (rq_dependencyId r) (rq_nonce r) (rq_expiresAt r))"
  by (auto simp: register_def split: sum.splits prod.splits)

locale service_nonces =
  fixes svc :: "('n, 'p) X424Service" and spent :: "'n \<Rightarrow> string \<Rightarrow> bool"
  assumes put_keeps: "spent s d \<Longrightarrow> spent (snd (so_nonce_put (sv_options svc) s d' n e)) d"
    and consume_fresh: "so_nonce_consume (sv_options svc) s d n now = (True, s') \<Longrightarrow> \<not> spent s d"
    and consume_spends: "so_nonce_consume (sv_options svc) s d n now = (True, s') \<Longrightarrow> spent s' d"
    and consume_keeps: "spent s d \<Longrightarrow> spent (snd (so_nonce_consume (sv_options svc) s d' n now)) d"

sublocale service_nonces \<subseteq> use_once "succeeds asked_provider (service_step svc)" service_dependency
  "\<lambda>st d. spent (ss_nonces st) d"
proof
  fix st x st'
  assume s: "succeeds asked_provider (service_step svc) st x = (True, st')"
  then obtain r pf t1 t2 uuid where x: "x = OpSatisfy r pf t1 t2 uuid"
    by (cases x) (auto simp: succeeds_def split: prod.splits)
  obtain b n' where n: "so_nonce_consume (sv_options svc) (ss_nonces st) (rq_dependencyId r) (rq_nonce r) t1 = (b, n')"
    by fastforce
  from s x n have b: "b" and st': "st' = snd (satisfy svc st r pf t1 t2 uuid)"
    and ch: "\<exists>c. satisfy_checks svc r pf t1 = Inr c"
    by (auto simp: succeeds_def split: sum.splits prod.splits if_splits)
  show "\<not> spent (ss_nonces st) (service_dependency x)"
    using consume_fresh n b x by simp
  have "ss_nonces st' = n'" using satisfy_nonces [of svc st r pf t1 t2 uuid] ch n st' by auto
  then show "spent (ss_nonces st') (service_dependency x)"
    using consume_spends n b x by simp
next
  fix st x b st' d
  assume s: "succeeds asked_provider (service_step svc) st x = (b, st')" and d: "spent (ss_nonces st) d"
  show "spent (ss_nonces st') d"
  proof (cases x)
    case (OpRegister r now)
    with s have "st' = snd (register svc st r now)" by (auto simp: succeeds_def split: prod.splits)
    then show ?thesis using register_nonces [of svc st r now] put_keeps d by auto
  next
    case (OpSatisfy r pf t1 t2 uuid)
    with s have "st' = snd (satisfy svc st r pf t1 t2 uuid) \<or> st' = st"
      by (auto simp: succeeds_def split: sum.splits prod.splits if_splits)
    then show ?thesis
      using satisfy_nonces [of svc st r pf t1 t2 uuid] consume_keeps d by (auto split: sum.splits)
  qed
qed

text \<open>The service over the in-memory stores.\<close>

definition with_memory_stores ::
  "(nonces, string list) X424Service \<Rightarrow> (nonces, string list) X424Service" where
  "with_memory_stores svc = svc\<lparr>sv_options := (sv_options svc)\<lparr>so_nonce_put := nonce_put,
     so_nonce_consume := nonce_consume, so_provider_consume := provider_consume\<rparr>\<rparr>"

interpretation memory_service: service_nonces "with_memory_stores svc" nonce_spent for svc
proof
  fix s d d' n e
  assume "nonce_spent s d"
  then show "nonce_spent (snd (so_nonce_put (sv_options (with_memory_stores svc)) s d' n e)) d"
    using nonces.marks_stay [of s "NoncePut d' n e" False] by (simp add: with_memory_stores_def)
next
  fix s d n now s'
  assume "so_nonce_consume (sv_options (with_memory_stores svc)) s d n now = (True, s')"
  then have c: "nonce_step s (NonceConsume d n now) = (True, s')" by (simp add: with_memory_stores_def)
  show "\<not> nonce_spent s d" using nonces.success_fresh [OF c] by simp
  show "nonce_spent s' d" using nonces.success_marks [OF c] by simp
next
  fix s d d' n now
  assume "nonce_spent s d"
  then show "nonce_spent (snd (so_nonce_consume (sv_options (with_memory_stores svc)) s d' n now)) d"
    using nonces.marks_stay [of s "NonceConsume d' n now"]
    by (cases "nonce_consume s d' n now") (simp add: with_memory_stores_def)
qed

subsection \<open>Subjects the verifier retains\<close>

lemma retain_subject_once:
  assumes r1: "retain_subject (with_memory_stores svc) st1 v1 = (Inr (), st1')"
    and r2: "retain_subject (with_memory_stores svc) st2 v2 = (Inr (), st2')"
    and kept: "set (ss_providers st1') \<subseteq> set (ss_providers st2)"
    and m: "v_providerReplayMode v1 = Some ReplayVerifier" "v_providerReplayMode v2 = Some ReplayVerifier"
    and same: "v_providerId v1 = v_providerId v2" "v_methodId v1 = v_methodId v2"
      "v_uniquenessScope v1 = v_uniquenessScope v2"
  shows "v_providerSubject v1 \<noteq> v_providerSubject v2"
proof
  assume "v_providerSubject v1 = v_providerSubject v2"
  with same r1 r2 m kept show False
    by (auto simp: retain_subject_def with_memory_stores_def provider_consume_def Let_def
        split: sum.splits prod.splits if_splits)
qed

lemma satisfy_providers_grow:
  "set (ss_providers st) \<subseteq> set (ss_providers (snd (satisfy (with_memory_stores svc) st r pf t1 t2 uuid)))"
proof -
  have "set (ss_providers st') \<subseteq> set (ss_providers st2)" if "retain_subject (with_memory_stores svc) st' v = (x, st2)" for st' v x st2
    using that by (auto simp: retain_subject_def with_memory_stores_def provider_consume_def Let_def
        split: sum.splits prod.splits if_splits)
  then show ?thesis
    by (fastforce simp: satisfy_def Let_def split: sum.splits prod.splits bool.splits)
qed

lemma register_providers: "ss_providers (snd (register svc st r now)) = ss_providers st"
  by (simp add: register_def split: sum.splits prod.splits)

lemma run_providers_grow:
  "set (ss_providers st) \<subseteq> set (ss_providers (snd (run_uses (service_step (with_memory_stores svc)) st ops)))"
proof (induction ops arbitrary: st)
  case (Cons x ops)
  have "set (ss_providers st) \<subseteq> set (ss_providers (snd (service_step (with_memory_stores svc) st x)))"
    using satisfy_providers_grow [of st svc] register_providers [of "with_memory_stores svc" st]
    by (cases x) (auto split: sum.splits prod.splits if_splits simp: subset_iff; metis snd_conv)+
  with Cons [of "snd (service_step (with_memory_stores svc) st x)"] show ?case
    by (auto simp: case_prod_unfold)
qed simp

subsection \<open>Results the wire schema rejects\<close>

lemma parsed_result_pairwise_bound:
  assumes "validate z HumanResultSchema n"
  shows "length (rs_pairwiseHumanId (result_of_js n)) \<le> 200"
proof -
  have "list_all (string_ok z (get_str n ''pairwiseHumanId'')) [Prefix ''x424_human_'', MaxLen 200]"
    by (rule validate_str_member [OF assms [unfolded HumanResultSchema_def]]) (simp add: req_def)
  then show ?thesis by (simp add: result_of_js_def)
qed

lemma long_pairwise_unverifiable:
  "200 < length (rs_pairwiseHumanId r) \<Longrightarrow> verifyHumanResultToken z verify tok verifier \<noteq> Inr r"
proof
  assume long: "200 < length (rs_pairwiseHumanId r)" and v: "verifyHumanResultToken z verify tok verifier = Inr r"
  from v obtain v' where "bindE (parseCanonicalJsonBytes v' ''JWS payload'') (parseHumanResult z) = Inr r"
    by (rule verify_token_elim)
  then obtain n where "validate z HumanResultSchema n" "r = result_of_js n"
    by (auto simp: parseHumanResult_def split: if_splits)
  with long parsed_result_pairwise_bound show False by fastforce
qed

end
