(* ===== verification/ServiceGuarantees.thy ===== *)
theory ServiceGuarantees
  imports Service
begin

section \<open>What the verifier service guarantees (src/service.ts)\<close>

text \<open>
  A service assembled from sample parts and one run of it (registration, then a proof), for the witnesses,
  and the properties of the service.
\<close>

subsection \<open>A sample service\<close>

definition sample_verified :: ProviderVerifiedHuman where
  "sample_verified = \<lparr>v_providerId = ''world-id'', v_methodId = ''orb'', v_descriptorVersion = ''4.0'',
     v_assuranceLevel = None, v_providerSubject = ''nullifier'',
     v_uniquenessScope = \<lparr>us_kind = Action, us_id = ''a''\<rparr>, v_verificationMode = Backend,
     v_providerReplayMode = Some ReplayVerifier, v_proofDigest = sha256_bytes sample_hash [],
     v_verifiedAt = ''2026-01-01T00:00:01.000Z'', v_expiresAt = None, v_stateReferences = None\<rparr>"

definition sample_adapter :: HumanProviderAdapter where
  "sample_adapter = \<lparr>pa_providerId = ''world-id'', pa_methods = Inr [sample_descriptor], pa_hasValidate = True,
     pa_validateProviderRequest = (\<lambda>_ _ _. Inr ()), pa_verify = (\<lambda>_ _ _. Inr sample_verified)\<rparr>"

definition sample_hmac :: hmac where
  "sample_hmac = (\<lambda>k m. replicate 32 7)"

definition sample_options :: "int option \<Rightarrow> (nonces, string list) X424ServiceOptions" where
  "sample_options ttl = \<lparr>so_catalog = sample_catalog, so_adapters = [sample_adapter], so_nonce_put = nonce_put,
     so_nonce_consume = nonce_consume, so_provider_consume = provider_consume,
     so_pairwiseSecret = Some (replicate 32 1), so_pairwiseDeriver = None, so_keyId = ''k1'',
     so_sign = (\<lambda>m. Inr (toy_sign [7] m)), so_maximumResultTtlSeconds = ttl\<rparr>"

definition sample_deriver :: PairwiseDeriver where
  "sample_deriver = (case createLocalPairwiseDeriver sample_hmac (replicate 32 1) of Inr d \<Rightarrow> d)"

definition sample_service_of :: "PairwiseDeriver \<Rightarrow> (nonces, string list) X424Service" where
  "sample_service_of D = \<lparr>sv_options = sample_options None, sv_adapters = [(''world-id'', sample_adapter)], sv_deriver = D\<rparr>"

definition sample_service :: "(nonces, string list) X424Service" where
  "sample_service = sample_service_of sample_deriver"

definition sample_proof :: HumanProofSubmission where
  "sample_proof = \<lparr>pf_x424Version = ''0.1'', pf_dependencyId = ''dep'', pf_providerId = ''world-id'',
     pf_methodId = ''orb'', pf_binding = sample_binding, pf_nativeProof = JNull\<rparr>"

definition sample_state :: "(nonces, string list) ServiceState" where
  "sample_state = \<lparr>ss_nonces = [], ss_providers = []\<rparr>"

lemma sample_service_memory: "with_memory_stores sample_service = sample_service"
  by (simp add: with_memory_stores_def sample_service_def sample_service_of_def sample_options_def)

lemma sample_conforms: "rep_conformant (inspectHumanProviderAdapter sample_adapter)"
  by code_simp

lemma sample_service_built: "new_X424Service sample_hmac (sample_options None) = Inr sample_service"
proof -
  have d: "createLocalPairwiseDeriver sample_hmac (replicate 32 1) = Inr sample_deriver"
    by (simp add: sample_deriver_def createLocalPairwiseDeriver_def)
  have i: "foldE (install_adapter sample_catalog) ([], []) [sample_adapter] = Inr ([''world-id''], [''world-id:orb''])"
    by code_simp
  show ?thesis
    using d i by (simp add: new_X424Service_def sample_options_def sample_service_def sample_service_of_def sample_catalog_def
      sample_adapter_def del: foldE.simps)
qed

lemma sample_dates:
  "date_parse ''2026-01-01T00:00:00.000Z'' = Some 1767225600000"
  "date_parse ''2026-01-01T00:00:01.000Z'' = Some 1767225601000"
  "date_parse ''2026-01-01T00:05:00.000Z'' = Some 1767225900000"
  by code_simp+

lemma sample_current:
  "assertRequirementCurrent sample_requirement now = Inr () \<longleftrightarrow> 1767225600000 \<le> now \<and> now < 1767225900000"
  by (auto simp: assertRequirementCurrent_eq_Inr sample_requirement_def sample_dates X424_VERSION_def)


lemma sample_keys: "methodKey ''world-id'' ''orb'' = ''world-id:orb''" "accepts_key sample_method = ''world-id:orb''"
  by (simp_all add: methodKey_def accepts_key_def sample_method_def)

definition sample_registered :: "(nonces, string list) ServiceState" where
  "sample_registered = \<lparr>ss_nonces = [(''dep'', \<lparr>ne_nonce = ''AQID'', ne_expiresAtMs = 1767225900000, ne_used = False\<rparr>)],
     ss_providers = []\<rparr>"

lemma sample_catalog_lookup: "map_of sample_catalog ''world-id:orb'' = Some sample_descriptor"
  "catalog_get sample_catalog ''world-id'' ''orb'' = Some sample_descriptor"
  by (simp_all add: sample_catalog_def catalog_get_def sample_keys)

lemma sample_register:
  "register sample_service sample_state sample_requirement 1767225600000 = (Inr (), sample_registered)"
proof -
  have m: "register_method sample_service sample_requirement sample_method = Inr ()"
    by (simp add: register_method_def sample_service_def sample_service_of_def sample_options_def sample_method_def sample_keys
        sample_catalog_lookup sample_adapter_def) (simp add: sample_descriptor_def)
  have a: "rq_accepts sample_requirement = [sample_method]" "rq_providerRequests sample_requirement = Some [(''world-id:orb'', JNull)]"
    "rq_dependencyId sample_requirement = ''dep''" "rq_nonce sample_requirement = ''AQID''"
    "rq_expiresAt sample_requirement = ''2026-01-01T00:05:00.000Z''"
    by (simp_all add: sample_requirement_def)
  have c: "assertRequirementCurrent sample_requirement 1767225600000 = Inr ()" by (simp add: sample_current)
  show ?thesis
    by (simp add: register_def a c m sample_keys)
      (simp add: sample_service_def sample_service_of_def sample_options_def sample_state_def nonce_put_def sample_dates sample_registered_def)
qed

definition sample_pid :: string where
  "sample_pid = ''x424_human_'' @ encodeStrictBase64Url (replicate 32 7)"

definition sample_result_issued :: "string \<Rightarrow> HumanResult" where
  "sample_result_issued pid = build_result sample_requirement sample_verified sample_descriptor ''u''
     pid ''2026-01-01T00:00:02.000Z'' ''2026-01-01T00:05:00.000Z''"

definition sample_outcome_of :: "string \<Rightarrow> HumanResult \<times> string" where
  "sample_outcome_of pid = (sample_result_issued pid,
     case signHumanResultWithExternal (sample_result_issued pid) ''k1'' (\<lambda>m. Inr (toy_sign [7] m)) of
       Inr t \<Rightarrow> t | Inl _ \<Rightarrow> [])"

definition sample_outcome :: "HumanResult \<times> string" where
  "sample_outcome = sample_outcome_of sample_pid"

definition sample_satisfied_state :: "(nonces, string list) ServiceState" where
  "sample_satisfied_state = snd (satisfy sample_service sample_registered sample_requirement sample_proof
     1767225601000 1767225602000 ''u'')"

lemma sample_accepted: "acceptedMethodForProof sample_requirement sample_proof = Inr sample_method"
  by code_simp

lemma sample_checks: "satisfy_checks sample_service sample_requirement sample_proof 1767225601000 =
    Inr (sample_method, sample_descriptor, sample_adapter)"
  unfolding satisfy_checks_eq_Inr by (simp add: sample_current sample_accepted)
   (simp add: sample_service_def sample_service_of_def sample_options_def sample_proof_def sample_catalog_lookup, simp add: sample_descriptor_def sample_method_def)

lemma sample_verify: "verify_proof sample_adapter sample_requirement sample_method sample_proof sample_descriptor 1767225602000 =
   Inr sample_verified"
proof -
  have "assertVerifiedOutput sample_verified sample_requirement sample_proof sample_descriptor 1767225602000 = Inr ()"
   by (simp add: assertVerifiedOutput_def sample_accepted)
    (simp add: sample_verified_def sample_method_def sample_descriptor_def sample_proof_def sample_dates sha256_bytes_def)
  then show ?thesis unfolding verify_proof_eq_Inr by (simp add: sample_current sample_adapter_def)
qed

lemma sample_satisfy_at:
  assumes d: "\<And>a p m s. pd_humanId D a p m s = Inr pid"
    "\<And>p m k i s. pd_replayDigest D p m k i s = Inr digest" "is_replay_digest digest"
    "startsWith pid ''x424_human_''" "length pid \<le> 512" and t1: "1767225600000 \<le> t1" "t1 < 1767225900000"
  shows "fst (satisfy (sample_service_of D) sample_registered sample_requirement sample_proof
     t1 1767225602000 ''u'') = Inr (sample_outcome_of pid)"
proof -
  from d(3) have "digest \<noteq> []" by (auto simp: is_replay_digest_def)
  note d = d this
  have n: "so_nonce_consume (sv_options (sample_service_of D)) (ss_nonces sample_registered)
     (rq_dependencyId sample_requirement) (rq_nonce sample_requirement) t1 =
     (True, [(''dep'', \<lparr>ne_nonce = ''AQID'', ne_expiresAtMs = 1767225900000, ne_used = True\<rparr>)])"
    using t1 by (simp add: sample_service_of_def sample_options_def sample_registered_def sample_requirement_def nonce_consume_def)
  have c: "satisfy_checks (sample_service_of D) sample_requirement sample_proof t1 =
      Inr (sample_method, sample_descriptor, sample_adapter)"
    using sample_checks sample_current [of t1] t1 unfolding satisfy_checks_eq_Inr
    by (simp add: sample_service_def sample_service_of_def)
  obtain inp where inp: "token_signing_input ''k1'' (sample_result_issued pid) = Inr inp"
    using token_signing_input_total by blast
  let ?st = "sample_registered\<lparr>ss_nonces := [(''dep'', \<lparr>ne_nonce = ''AQID'', ne_expiresAtMs = 1767225900000, ne_used = True\<rparr>)]\<rparr>"
  have r: "\<exists>st. retain_subject (sample_service_of D) ?st sample_verified = (Inr (), st)"
    by (simp add: retain_subject_def sample_service_of_def d provider_consume_def sample_options_def Let_def)
      (simp add: sample_verified_def sample_registered_def)
  have t: "toISOString 1767225602000 = Inr ''2026-01-01T00:00:02.000Z''"
    "toISOString 1767225900000 = Inr ''2026-01-01T00:05:00.000Z''" by code_simp+
  have e: "result_expiry (sample_service_of D) sample_requirement sample_verified 1767225602000 = Some 1767225900000"
    by (simp add: result_expiry_def sample_service_of_def sample_options_def sample_requirement_def sample_dates
        sample_verified_def Let_def)
  have "issue_result (sample_service_of D) sample_requirement sample_verified sample_descriptor 1767225602000 ''u'' =
      Inr (sample_outcome_of pid)"
    unfolding issue_result_def t e
    by (simp add: sample_service_of_def d not_less)
     (simp add: sample_options_def sample_outcome_of_def sample_result_issued_def [symmetric]
      signHumanResultWithExternal_def Let_def inp t)
  then show ?thesis using r by (auto simp: satisfy_def c n sample_verify Let_def)
qed

lemmas sample_satisfy_of = sample_satisfy_at [where ?t1.0 = 1767225601000, simplified]

lemma sample_deriver_values:
  "pd_humanId sample_deriver a p m s = Inr sample_pid"
  "pd_replayDigest sample_deriver p m k i s = Inr (''hmac-sha256:'' @ encodeStrictBase64Url (replicate 32 7))"
  by (simp_all add: sample_deriver_def createLocalPairwiseDeriver_def mac_text_def sample_hmac_def sample_pid_def)

lemma sample_shapes:
  "is_replay_digest (''hmac-sha256:'' @ encodeStrictBase64Url (replicate 32 7))"
  "startsWith sample_pid ''x424_human_''" "length sample_pid \<le> 512"
  by code_simp+

lemma sample_satisfy:
  "satisfy sample_service sample_registered sample_requirement sample_proof
     1767225601000 1767225602000 ''u'' = (Inr sample_outcome, sample_satisfied_state)"
  using sample_satisfy_of [OF sample_deriver_values sample_shapes]
  by (simp add: sample_service_def sample_outcome_def sample_satisfied_state_def prod_eq_iff)

lemma sample_satisfy_now:
  "fst (satisfy sample_service sample_registered sample_requirement sample_proof 1767225602000 1767225602000 ''u'') =
   Inr sample_outcome"
  using sample_satisfy_at [OF sample_deriver_values sample_shapes, of 1767225602000]
  by (simp add: sample_service_def sample_outcome_def)

lemma sample_satisfy_pair:
  "satisfy sample_service sample_registered sample_requirement sample_proof 1767225601000 1767225602000 ''u'' =
   (Inr (fst sample_outcome, snd sample_outcome), sample_satisfied_state)"
  using sample_satisfy by simp

lemma satisfied_retains:
  assumes "satisfy svc st r pf t1 t2 u = (Inr out, st')" "satisfy_checks svc r pf t1 = Inr (a, d, adapter)"
    "pa_verify adapter r a pf = Inr v"
  shows "\<exists>n. retain_subject svc (st\<lparr>ss_nonces := n\<rparr>) v = (Inr (), st')"
proof -
  from assms(1) have "satisfy svc st r pf t1 t2 u = (Inr (fst out, snd out), st')" by simp
  then show ?thesis
    by (rule satisfy_success) (use assms(2,3) in \<open>auto simp: verify_proof_eq_Inr\<close>)
qed

subsection \<open>Properties\<close>

text \<open>
  C3: A result the service issues is accepted by the relying party's policy at the moment of issue: it
  answers the requirement (purpose, audience, digest, binding, method, scope, freshness) against the
  service's catalog, it is issued at the second clock reading, and it expires after it, no later than the
  requirement and no later than the service's lifetime limit.
\<close>

theorem service_result_accepted:
  assumes "satisfy svc st r pf t1 t2 uuid = (Inr (result, token), st')"
    "positive_ttl svc" "four_digit_time t2" "date_parse (rq_expiresAt r) = Some x" "four_digit_time x"
    "\<forall>a \<in> set (rq_accepts r). m_assuranceLevel a \<noteq> Some []"
  shows "ev_satisfied (evaluateHumanResult r result (so_catalog (sv_options svc)) t2) \<and>
    date_parse (rs_issuedAt result) = Some t2 \<and>
    (\<exists>e. date_parse (rs_expiresAt result) = Some e \<and> t2 < e \<and> e \<le> x \<and>
      e \<le> t2 + (case so_maximumResultTtlSeconds (sv_options svc) of None \<Rightarrow> 300 | Some n \<Rightarrow> n) * 1000)"
  using satisfied_result_accepted [OF assms] by (rule conjI) (rule satisfied_result_times [OF assms(1-5)]; simp)

theorem service_result_accepted_witness:
  "ev_satisfied (evaluateHumanResult sample_requirement (fst sample_outcome)
     (so_catalog (sv_options sample_service)) 1767225602000) \<and>
    date_parse (rs_issuedAt (fst sample_outcome)) = Some 1767225602000 \<and>
    (\<exists>e. date_parse (rs_expiresAt (fst sample_outcome)) = Some e \<and> 1767225602000 < e \<and> e \<le> 1767225900000 \<and>
      e \<le> 1767225602000 + (case so_maximumResultTtlSeconds (sv_options sample_service) of None \<Rightarrow> 300 | Some n \<Rightarrow> n) * 1000)"
  by (rule service_result_accepted [OF sample_satisfy_pair])
    (simp_all add: positive_ttl_def sample_service_def sample_service_of_def sample_options_def four_digit_time_def
      sample_requirement_def sample_dates sample_method_def)


lemma sample_asked:
  "service_step sample_service sample_registered
     (OpSatisfy sample_requirement sample_proof 1767225601000 1767225602000 ''u'') =
   (AskedProvider (Inr sample_outcome), sample_satisfied_state)"
proof -
  have "fst (so_nonce_consume (sv_options sample_service) (ss_nonces sample_registered)
      (rq_dependencyId sample_requirement) (rq_nonce sample_requirement) 1767225601000)"
    by (simp add: sample_service_def sample_service_of_def sample_options_def sample_registered_def sample_requirement_def nonce_consume_def)
  then show ?thesis by (simp add: sample_checks sample_satisfy)
qed

lemma sample_run:
  "run_uses (service_step sample_service) sample_state
     [OpRegister sample_requirement 1767225600000,
      OpSatisfy sample_requirement sample_proof 1767225601000 1767225602000 ''u''] =
   ([Registered (Inr ()), AskedProvider (Inr sample_outcome)], sample_satisfied_state)"
  using sample_asked by (simp add: sample_register del: service_step.simps(2))

definition sample_calls :: "service_op list" where
  "sample_calls = [OpRegister sample_requirement 1767225600000,
     OpSatisfy sample_requirement sample_proof 1767225601000 1767225602000 ''u'',
     OpSatisfy sample_requirement sample_proof 1767225602000 1767225603000 ''v'']"


text \<open>
  C4: A provider subject is accepted once where the verifier retains it: after a satisfied call whose
  provider left replay protection to the verifier, no later call of any run is satisfied with the same
  subject under the same provider, method and uniqueness scope, under any requirement or dependency.
\<close>

theorem verifier_subject_accepted_once:
  assumes "satisfy (with_memory_stores svc) st r pf t1 t2 u = (Inr out, st1)"
    "satisfy_checks (with_memory_stores svc) r pf t1 = Inr (a, d, adapter)" "pa_verify adapter r a pf = Inr v"
    "run_uses (service_step (with_memory_stores svc)) st1 ops = (replies, st2)"
    "satisfy_checks (with_memory_stores svc) r' pf' t1' = Inr (a', d', adapter')" "pa_verify adapter' r' a' pf' = Inr v'"
    "v_providerReplayMode v = Some ReplayVerifier" "v_providerReplayMode v' = Some ReplayVerifier"
    "v_providerId v = v_providerId v'" "v_methodId v = v_methodId v'" "v_uniquenessScope v = v_uniquenessScope v'"
    "v_providerSubject v = v_providerSubject v'"
  shows "\<exists>e. fst (satisfy (with_memory_stores svc) st2 r' pf' t1' t2' u') = Inl e"
proof (rule ccontr)
  assume "\<not> ?thesis"
  then obtain out' st3 where s2: "satisfy (with_memory_stores svc) st2 r' pf' t1' t2' u' = (Inr out', st3)"
    by (metis prod.collapse sum.exhaust)
  let ?m = "with_memory_stores svc"
  obtain n where r1: "retain_subject ?m (st\<lparr>ss_nonces := n\<rparr>) v = (Inr (), st1)"
    using satisfied_retains [OF assms(1-3)] by blast
  obtain n' where r2: "retain_subject ?m (st2\<lparr>ss_nonces := n'\<rparr>) v' = (Inr (), st3)"
    using satisfied_retains [OF s2 assms(5,6)] by blast
  have "set (ss_providers st1) \<subseteq> set (ss_providers (st2\<lparr>ss_nonces := n'\<rparr>))"
    using run_providers_grow [of st1 svc ops] assms(4) by simp
  from retain_subject_once [OF r1 r2 this assms(7-11)] assms(12) show False by simp
qed

lemma sample_second_checks:
  "satisfy_checks sample_service (sample_requirement\<lparr>rq_dependencyId := ''dep2''\<rparr>)
     (sample_proof\<lparr>pf_dependencyId := ''dep2''\<rparr>) 1767225601000 = Inr (sample_method, sample_descriptor, sample_adapter)"
proof -
  have "assertRequirementCurrent (sample_requirement\<lparr>rq_dependencyId := ''dep2''\<rparr>) 1767225601000 = Inr ()"
    using sample_current [of 1767225601000] by (simp add: assertRequirementCurrent_eq_Inr sample_requirement_def)
  moreover have "acceptedMethodForProof (sample_requirement\<lparr>rq_dependencyId := ''dep2''\<rparr>)
      (sample_proof\<lparr>pf_dependencyId := ''dep2''\<rparr>) = Inr sample_method" by code_simp
  ultimately show ?thesis using sample_checks unfolding satisfy_checks_eq_Inr by simp
qed


theorem verifier_subject_accepted_once_witness:
  "\<exists>e. fst (satisfy (with_memory_stores sample_service)
     (snd (run_uses (service_step (with_memory_stores sample_service)) sample_satisfied_state
        [OpRegister (sample_requirement\<lparr>rq_dependencyId := ''dep2''\<rparr>) 1767225600000]))
     (sample_requirement\<lparr>rq_dependencyId := ''dep2''\<rparr>) (sample_proof\<lparr>pf_dependencyId := ''dep2''\<rparr>)
     1767225601000 1767225602000 ''v'') = Inl e"
  unfolding sample_service_memory
  by (rule verifier_subject_accepted_once [where svc = sample_service and v = sample_verified and v' = sample_verified,
        unfolded sample_service_memory, OF sample_satisfy sample_checks _ prod.collapse [symmetric] sample_second_checks])
    (simp_all only: sample_adapter_def HumanProviderAdapter.simps, simp_all add: sample_verified_def)

lemma store_after_checks:
  "fst (case c of Inl e \<Rightarrow> (Inl e, st) | Inr _ \<Rightarrow> (case p of (x, n) \<Rightarrow> (x, f n))) = Inr () \<longleftrightarrow>
   c = Inr () \<and> fst p = (Inr () :: unit res)"
  by (cases c; cases p) auto

text \<open>
  Registration succeeds exactly for a current requirement whose provider request material names only
  accepted methods, all of whose accepted methods are enabled in the catalog at the required version with
  an adapter that validates their request material, and whose nonce the store takes.
\<close>

theorem register_exact:
  "fst (register svc st r now) = Inr () \<longleftrightarrow>
     assertRequirementCurrent r now = Inr () \<and>
     (\<forall>rs. rq_providerRequests r = Some rs \<longrightarrow> fst ` set rs \<subseteq> accepts_key ` set (rq_accepts r)) \<and>
     (\<forall>a \<in> set (rq_accepts r). \<exists>d adapter.
        map_of (so_catalog (sv_options svc)) (accepts_key a) = Some d \<and> d_status d = Enabled \<and>
        d_version d = m_descriptorVersion a \<and> map_of (sv_adapters svc) (m_providerId a) = Some adapter \<and>
        pa_validateProviderRequest adapter r a
          (case rq_providerRequests r of None \<Rightarrow> JUndefined | Some rs \<Rightarrow> js_get (JObj rs) (accepts_key a)) = Inr ()) \<and>
     fst (so_nonce_put (sv_options svc) (ss_nonces st) (rq_dependencyId r) (rq_nonce r) (rq_expiresAt r)) = Inr ()"
proof -
  let ?requests = "case rq_providerRequests r of None \<Rightarrow> [] | Some rs \<Rightarrow> rs"
  have m: "register_method svc r a = Inr () \<longleftrightarrow> (\<exists>d adapter.
      map_of (so_catalog (sv_options svc)) (accepts_key a) = Some d \<and> d_status d = Enabled \<and>
      d_version d = m_descriptorVersion a \<and> map_of (sv_adapters svc) (m_providerId a) = Some adapter \<and>
      pa_validateProviderRequest adapter r a
        (case rq_providerRequests r of None \<Rightarrow> JUndefined | Some rs \<Rightarrow> js_get (JObj rs) (accepts_key a)) = Inr ())" for a
    by (auto simp: register_method_def accepts_key_def Let_def split: option.splits)
  have k: "(\<forall>key \<in> set (map fst ?requests). key \<in> set (map accepts_key (rq_accepts r))) \<longleftrightarrow>
      (\<forall>rs. rq_providerRequests r = Some rs \<longrightarrow> fst ` set rs \<subseteq> accepts_key ` set (rq_accepts r))"
    by (cases "rq_providerRequests r") auto
  have "fst (register svc st r now) = Inr () \<longleftrightarrow> bindE (assertRequirementCurrent r now) (\<lambda>_.
      bindE (eachE (\<lambda>key. throwIf (key \<notin> set (map accepts_key (rq_accepts r)))
                      (Error (''Provider request material names an unaccepted method: '' @ key))) (map fst ?requests)) (\<lambda>_.
           eachE (register_method svc r) (rq_accepts r))) = Inr () \<and>
      fst (so_nonce_put (sv_options svc) (ss_nonces st) (rq_dependencyId r) (rq_nonce r) (rq_expiresAt r)) = Inr ()"
    unfolding register_def by (rule store_after_checks)
  also have "\<dots> \<longleftrightarrow> assertRequirementCurrent r now = Inr () \<and>
      (\<forall>key \<in> set (map fst ?requests). key \<in> set (map accepts_key (rq_accepts r))) \<and>
      (\<forall>a \<in> set (rq_accepts r). register_method svc r a = Inr ()) \<and>
      fst (so_nonce_put (sv_options svc) (ss_nonces st) (rq_dependencyId r) (rq_nonce r) (rq_expiresAt r)) = Inr ()"
    by (simp only: bindE_eq_Inr eachE_eq_Inr throwIf_eq_Inr) auto
  finally show ?thesis unfolding k m .
qed

text \<open>
  A pairwise identifier that the service accepts from an external deriver but the wire schema does
  not (201 to 512 characters) yields a token that no verifier accepts, whatever its keys.
\<close>

theorem long_pairwise_token_rejected:
  assumes "satisfy svc st r pf t1 t2 uuid = (Inr (result, token), st')"
    "200 < length (rs_pairwiseHumanId result)"
  shows "verifyHumanResultToken z verify token verifier \<noteq> Inr result'"
proof
  assume v: "verifyHumanResultToken z verify token verifier = Inr result'"
  from assms(1) obtain a d adapter vf n' where "issue_result svc r vf d t2 uuid = Inr (result, token)"
    by (rule satisfy_success)
  then obtain inp sig where inp: "token_signing_input (so_keyId (sv_options svc)) result = Inr inp"
    "token = inp @ ''.'' @ encodeStrictBase64Url sig"
    using issue_result_InrD signHumanResultWithExternal_shape by metis
  obtain t n where t: "canonicalJson (js_of_result result) = Inr t"
    "\<And>label. parseCanonicalJsonBytes (utf8_encode t) label = Inr n" "result_of_js n = result"
    using result_document by metis
  from v obtain h p s b where tok: "splitOn CHR ''.'' token = [h, p, s]" "p = encodeStrictBase64Url b"
    and pv: "bindE (parseCanonicalJsonBytes b ''JWS payload'') (parseHumanResult z) = Inr result'"
    by (rule verify_token_elim)
  from inp(1) t(1) obtain hd where
    "inp = encodeStrictBase64Url (utf8_encode hd) @ ''.'' @ encodeStrictBase64Url (utf8_encode t)"
    by (auto simp: token_signing_input_def)
  then have "splitOn CHR ''.'' token = [encodeStrictBase64Url (utf8_encode hd), encodeStrictBase64Url (utf8_encode t),
      encodeStrictBase64Url sig]"
    using split_token by (simp add: inp(2))
  then have "b = utf8_encode t" using tok by (simp add: encode_base64Url_inj)
  with pv t(2) have "validate z HumanResultSchema n" by (auto simp: parseHumanResult_def split: if_splits)
  then show False using parsed_result_pairwise_bound t(3) assms(2) by fastforce
qed

definition long_deriver :: PairwiseDeriver where
  "long_deriver = \<lparr>pd_humanId = (\<lambda>_ _ _ _. Inr (''x424_human_'' @ replicate 200 CHR ''a'')),
     pd_replayDigest = (\<lambda>_ _ _ _ _. Inr (''hmac-sha256:'' @ replicate 43 CHR ''a''))\<rparr>"

theorem long_pairwise_token_rejected_witness:
  "verifyHumanResultToken sample_zod toy_verify
     (snd (sample_outcome_of (''x424_human_'' @ replicate 200 CHR ''a''))) (SingleKey ''k1'' [7]) \<noteq> Inr sample_wire_result"
proof -
  let ?pid = "''x424_human_'' @ replicate 200 CHR ''a''"
  have k: "is_replay_digest (''hmac-sha256:'' @ replicate 43 CHR ''a'')" "startsWith ?pid ''x424_human_''" by code_simp+
  have l: "length ?pid \<le> 512" by simp
  have d: "pd_humanId long_deriver a p m s = Inr ?pid"
    "pd_replayDigest long_deriver p m kk i s = Inr (''hmac-sha256:'' @ replicate 43 CHR ''a'')" for a p m kk i s
    by (simp_all only: long_deriver_def PairwiseDeriver.simps)
  obtain st where "satisfy (sample_service_of long_deriver) sample_registered sample_requirement sample_proof
     1767225601000 1767225602000 ''u'' = (Inr (fst (sample_outcome_of ?pid), snd (sample_outcome_of ?pid)), st)"
    using sample_satisfy_of [OF d k l] by (metis prod.collapse)
  moreover have "200 < length (rs_pairwiseHumanId (fst (sample_outcome_of ?pid)))"
    by (simp add: sample_outcome_of_def sample_result_issued_def build_result_def)
  ultimately show ?thesis by (rule long_pairwise_token_rejected)
qed

theorem register_exact_witness:
  "\<exists>d adapter. map_of (so_catalog (sv_options sample_service)) (accepts_key sample_method) = Some d \<and>
     d_status d = Enabled \<and> map_of (sv_adapters sample_service) ''world-id'' = Some adapter"
proof -
  have "fst (register sample_service sample_state sample_requirement 1767225600000) = Inr ()"
    by (simp only: sample_register fst_conv)
  moreover have "sample_method \<in> set (rq_accepts sample_requirement)" "m_providerId sample_method = ''world-id''"
    by (simp_all add: sample_requirement_def sample_method_def)
  ultimately show ?thesis unfolding register_exact by metis
qed

end
