(* ===== verification/EndToEnd.thy ===== *)
theory EndToEnd
  imports Http ServiceGuarantees
begin

section \<open>From the verifier to the resource server\<close>

text \<open>
  The composition of the two sides: a token the service issued for a proof is accepted by
  \<open>verifyHumanProofHeader\<close> while it lives, and only once where the resource server keeps a replay store.
\<close>

lemma evaluate_later:
  assumes "ev_satisfied (evaluateHumanResult r s cat t)" "t \<le> now" "date_parse (rs_expiresAt s) = Some e" "now < e"
    "\<forall>a \<in> set (rq_accepts r). \<forall>age v. m_maximumProofAgeSeconds a = Some age \<longrightarrow>
       date_parse (rs_verifiedAt s) = Some v \<longrightarrow> now \<le> v + age * 1000"
  shows "ev_satisfied (evaluateHumanResult r s cat now)"
proof -
  from assms(1) obtain a d tm where same: "same_request r s"
    and a: "accepted_method r (rs_providerId s) (rs_methodId s) = Some a"
    and d: "catalog_get cat (rs_providerId s) (rs_methodId s) = Some d" "method_conforms a d s"
    and tm: "result_times r s = Some tm" "timely a tm t"
    unfolding evaluate_satisfied_iff by blast
  have "timely a tm now"
    using tm assms(2-5) accepted_method_SomeD [OF a] unfolding result_times_Some timely_def by auto
  then show ?thesis unfolding evaluate_satisfied_iff using same a d tm by blast
qed

lemma external_signed_verifies:
  assumes "signHumanResultWithExternal r kid sign = Inr tok" "verification_key verifier kid = Inr pk" "kid \<noteq> []"
    "\<And>m sig. sign m = Inr sig \<Longrightarrow> length sig = 64 \<and> verify pk m sig"
    "validate z HumanResultSchema (js_of_result r)" "length tok \<le> 65536"
  shows "verifyHumanResultToken z verify tok verifier = Inr r"
proof -
  from assms(1) obtain inp sig where inp: "token_signing_input kid r = Inr inp" "sign (utf8_encode inp) = Inr sig"
    "tok = inp @ ''.'' @ encodeStrictBase64Url sig" by (auto simp: signHumanResultWithExternal_shape)
  show ?thesis
    using assms(4) [OF inp(2)] assms(6) unfolding inp(3)
    by (intro verify_signed [OF inp(1) assms(3,2,5)]) simp_all
qed

lemma result_consume_first:
  assumes "\<not> result_spent s r now" "date_parse e = Some x" "now < x" "r \<noteq> []"
  shows "\<exists>s'. result_consume s r e now = (True, s') \<and> (r, x) \<in> set s'"
proof -
  have "map_of (prune_results s now) r = None" using assms(1) by (simp add: prune_results_lookup_None)
  then show ?thesis
    using assms(2-4) by (simp add: result_consume_def Let_def prune_results_fresh_update)
qed

lemma result_consume_again: "(r, x) \<in> set s \<Longrightarrow> now < x \<Longrightarrow> \<not> fst (result_consume s r e now)"
  using prune_results_lookup_None [of s now r]
  by (auto simp: result_consume_def Let_def result_spent_def split: option.splits)

text \<open>
  C2: A token issued by the verifier service for a proof is accepted by the resource server that trusts
  the service's key, for the requirement it was issued for, from its issue until it expires (or its proof
  becomes too old), exactly once: the first presentation returns the issued result, every further one of
  its life is refused.
\<close>

theorem issued_token_accepted_once:
  assumes "satisfy svc st r pf t1 t2 uuid = (Inr (result, token), st')"
    "positive_ttl svc" "four_digit_time t2" "date_parse (rq_expiresAt r) = Some x" "four_digit_time x"
    "\<forall>a \<in> set (rq_accepts r). m_assuranceLevel a \<noteq> Some []"
    and key: "so_keyId (sv_options svc) \<noteq> []" "verification_key verifier (so_keyId (sv_options svc)) = Inr pk"
    "\<And>m sig. so_sign (sv_options svc) m = Inr sig \<Longrightarrow> length sig = 64 \<and> verify pk m sig"
    and wire: "validate z HumanResultSchema (js_of_result result)" "length token \<le> 65536"
    and life: "t2 \<le> now" "date_parse (rs_expiresAt result) = Some e" "now < e"
    "\<forall>a \<in> set (rq_accepts r). \<forall>age v. m_maximumProofAgeSeconds a = Some age \<longrightarrow>
       date_parse (rs_verifiedAt result) = Some v \<longrightarrow> now \<le> v + age * 1000"
    and fresh: "\<not> result_spent s (rs_resultId result) now"
  shows "\<exists>s'. verifyHumanProofHeader z verify token r verifier (so_catalog (sv_options svc))
       (Some result_consume) True now s = (Inr result, s') \<and>
     (\<forall>now' required. now' < e \<longrightarrow> (\<forall>res. fst (verifyHumanProofHeader z verify token r verifier
        (so_catalog (sv_options svc)) (Some result_consume) required now' s') \<noteq> Inr res))"
proof -
  from assms(1) obtain a d adapter v n where iss: "issue_result svc r v d t2 uuid = Inr (result, token)"
    by (rule satisfy_success)
  then have sig: "signHumanResultWithExternal result (so_keyId (sv_options svc)) (so_sign (sv_options svc)) = Inr token"
    and rid: "rs_resultId result \<noteq> []"
    using issue_result_InrD [OF iss] by (auto simp: build_result_def)
  have v: "verifyHumanResultToken z verify token verifier = Inr result"
    by (rule external_signed_verifies [where verify = verify, OF sig key(2,1,3) wire])
  have ev: "ev_satisfied (evaluateHumanResult r result (so_catalog (sv_options svc)) now)"
    by (rule evaluate_later [OF satisfied_result_accepted [OF assms(1-6)] life])
  obtain s' where s': "result_consume s (rs_resultId result) (rs_expiresAt result) now = (True, s')"
    "(rs_resultId result, e) \<in> set s'"
    using result_consume_first [OF fresh life(2,3) rid] by blast
  have "verifyHumanProofHeader z verify token r verifier (so_catalog (sv_options svc))
       (Some result_consume) True now s = (Inr result, s')"
    by (simp add: verifyHumanProofHeader_def v ev s'(1) Let_def)
  moreover have "fst (verifyHumanProofHeader z verify token r verifier (so_catalog (sv_options svc))
      (Some result_consume) required now' s') \<noteq> Inr res" if "now' < e" for now' required res
    unfolding verifyHumanProofHeader_cases v using result_consume_again [OF s'(2) that] by auto
  ultimately show ?thesis by blast
qed

lemma sample_issued_valid: "validate sample_zod HumanResultSchema (js_of_result (sample_result_issued sample_pid))"
  by code_simp

lemma signed_token_length:
  assumes "signHumanResultWithExternal r kid sign = Inr tok" "\<And>m sig. sign m = Inr sig \<Longrightarrow> length sig = 64"
    "canonicalJson (js_of_result r) = Inr t" "canonicalJson (token_header kid) = Inr h"
    "length t < 2000" "length h < 100"
  shows "length tok \<le> 65536"
proof -
  from assms(1,3,4) obtain sig where
    sig: "sign (utf8_encode (encodeStrictBase64Url (utf8_encode h) @ ''.'' @ encodeStrictBase64Url (utf8_encode t))) = Inr sig"
    and tok: "tok = encodeStrictBase64Url (utf8_encode h) @ ''.'' @ encodeStrictBase64Url (utf8_encode t) @ ''.'' @
      encodeStrictBase64Url sig"
    by (auto simp: signHumanResultWithExternal_shape token_signing_input_def)
  have "length tok = length (encodeStrictBase64Url (utf8_encode h)) + length (encodeStrictBase64Url (utf8_encode t)) +
      length (encodeStrictBase64Url sig) + 2"
    by (subst tok) (simp only: length_append list.size)
  moreover have "length (encodeStrictBase64Url sig) \<le> 129" using b64_length_le [of sig] assms(2) [OF sig] by simp
  moreover have "length (encodeStrictBase64Url (utf8_encode h)) < 500" "length (encodeStrictBase64Url (utf8_encode t)) < 9000"
    using length_utf8_encode [of t] length_utf8_encode [of h] assms(5,6)
      b64_length_le [of "utf8_encode h"] b64_length_le [of "utf8_encode t"] by linarith+
  ultimately show ?thesis by linarith
qed

lemma sample_issued_payload: "\<exists>t. canonicalJson (js_of_result (sample_result_issued sample_pid)) = Inr t \<and> length t < 2000"
proof -
  have "case canonicalJson (js_of_result (sample_result_issued sample_pid)) of Inr t \<Rightarrow> length t < 2000 | Inl _ \<Rightarrow> False"
    by code_simp
  then show ?thesis by (auto split: sum.splits)
qed

lemma sample_issued_token:
  "signHumanResultWithExternal (sample_result_issued sample_pid) ''k1'' (\<lambda>m. Inr (toy_sign [7] m)) = Inr (snd sample_outcome)"
  using token_signing_input_total [of "''k1''" "sample_result_issued sample_pid"]
  by (auto simp: sample_outcome_def sample_outcome_of_def signHumanResultWithExternal_def)

lemma sample_issued_token_length: "length (snd sample_outcome) \<le> 65536"
  using sample_issued_payload sample_header
  by (auto intro!: signed_token_length [OF sample_issued_token])

theorem issued_token_accepted_once_witness:
  "\<exists>s'. verifyHumanProofHeader sample_zod toy_verify (snd sample_outcome) sample_requirement (SingleKey ''k1'' [7])
     (so_catalog (sv_options sample_service)) (Some result_consume) True 1767225700000 [] = (Inr (fst sample_outcome), s')"
proof -
  have f: "fst sample_outcome = sample_result_issued sample_pid"
    by (simp add: sample_outcome_def sample_outcome_of_def)
  have o: "so_keyId (sv_options sample_service) = ''k1''"
    "so_sign (sv_options sample_service) = (\<lambda>m. Inr (toy_sign [7] m))"
    "so_maximumResultTtlSeconds (sv_options sample_service) = None"
    by (simp_all add: sample_service_def sample_service_of_def sample_options_def)
  have t: "date_parse (rs_expiresAt (fst sample_outcome)) = Some 1767225900000"
    "rs_verifiedAt (fst sample_outcome) = ''2026-01-01T00:00:01.000Z''"
    by (simp_all add: f sample_result_issued_def build_result_def sample_dates sample_verified_def)
  have r: "date_parse (rq_expiresAt sample_requirement) = Some 1767225900000" "rq_accepts sample_requirement = [sample_method]"
    by (simp_all add: sample_requirement_def sample_dates)
  show ?thesis
    using issued_token_accepted_once [where verify = toy_verify and verifier = "SingleKey ''k1'' [7]" and z = sample_zod
        and s = "[]" and now = 1767225700000, OF sample_satisfy_pair _ _ r(1) _ _ _ _ _ _ sample_issued_token_length _ t(1)]
      sample_issued_valid
    by (simp add: positive_ttl_def o four_digit_time_def r verification_key_def f result_spent_def t(2) [unfolded f]
        sample_dates sample_method_def) blast
qed

end
