(* ===== verification/Limits.thy ===== *)
theory Limits
  imports NonceStore Transport
begin

section \<open>Rate limits, circuit breaker, egress allowlist (src/ops/limits.ts)\<close>

text \<open>
  The limiter keeps the times of the requests it allowed, per key; the breaker counts failures and
  remembers when it opened.  The clock reading of a call is an argument.
\<close>

record RateLimitResult =
  rl_allowed :: bool
  rl_remaining :: int
  rl_resetAt :: int

record MemoryRateLimiterOptions =
  lim_windowMs :: int
  lim_maxRequests :: int

type_synonym hits = "(string \<times> int list) list"

definition hits_of :: "hits \<Rightarrow> string \<Rightarrow> int list" where
  "hits_of s key = (case map_of s key of None \<Rightarrow> [] | Some ts \<Rightarrow> ts)"

definition limiter_consume :: "MemoryRateLimiterOptions \<Rightarrow> hits \<Rightarrow> string \<Rightarrow> int \<Rightarrow> RateLimitResult \<times> hits" where
  "limiter_consume options s key now =
     (let windowStart = now - lim_windowMs options;
          prior = filter (\<lambda>ts. windowStart < ts) (hits_of s key)
      in if lim_maxRequests options \<le> int (length prior)
         then (\<lparr>rl_allowed = False, rl_remaining = 0,
                rl_resetAt = (case prior of [] \<Rightarrow> now | t # _ \<Rightarrow> t) + lim_windowMs options\<rparr>,
               AList.update key prior s)
         else let prior' = prior @ [now]
              in (\<lparr>rl_allowed = True, rl_remaining = max 0 (lim_maxRequests options - int (length prior')),
                   rl_resetAt = now + lim_windowMs options\<rparr>,
                  AList.update key prior' s))"

subsection \<open>Circuit breaker\<close>

record CircuitBreakerOptions =
  cb_failureThreshold :: int
  cb_coolDownMs :: int

record CircuitBreaker =
  br_failures :: int
  br_openedAt :: "int option"

definition new_breaker :: CircuitBreaker where
  "new_breaker = \<lparr>br_failures = 0, br_openedAt = None\<rparr>"

definition assertClosed :: "CircuitBreakerOptions \<Rightarrow> CircuitBreaker \<Rightarrow> int \<Rightarrow> unit res \<times> CircuitBreaker" where
  "assertClosed options b now = (case br_openedAt b of
       None \<Rightarrow> (Inr (), b)
     | Some t \<Rightarrow>
         if now - t < cb_coolDownMs options then (Inl (Error ''Provider circuit open''), b)
         else (Inr (), b\<lparr>br_openedAt := None, br_failures := 0\<rparr>))"

definition recordSuccess :: "CircuitBreaker \<Rightarrow> CircuitBreaker" where
  "recordSuccess b = b\<lparr>br_failures := 0, br_openedAt := None\<rparr>"

definition recordFailure :: "CircuitBreakerOptions \<Rightarrow> CircuitBreaker \<Rightarrow> int \<Rightarrow> CircuitBreaker" where
  "recordFailure options b now =
     (let b' = b\<lparr>br_failures := br_failures b + 1\<rparr>
      in if cb_failureThreshold options \<le> br_failures b' then b'\<lparr>br_openedAt := Some now\<rparr> else b')"

subsection \<open>Egress\<close>

definition assertProviderEgressAllowed :: "url_parser \<Rightarrow> string \<Rightarrow> string list \<Rightarrow> unit res" where
  "assertProviderEgressAllowed parse url allowlist =
     bindE (rethrowAs (new_URL parse url) (Error ''Invalid provider egress URL'')) (\<lambda>parsed.
     if u_protocol parsed \<noteq> ''https:'' then Inl (Error ''Provider egress must use https'')
     else throwIf (u_origin parsed \<notin> set allowlist) (Error ''Provider origin is not allowlisted''))"

subsection \<open>The limiter against its specification\<close>

text \<open>
  The specification keeps the whole history: the calls in order with their verdicts.  A call is allowed when
  fewer than the maximum of the earlier calls of its key were allowed within the window before it.
\<close>

type_synonym call = "string \<times> int"

definition allowed_times :: "string \<Rightarrow> (call \<times> bool) list \<Rightarrow> int list" where
  "allowed_times key history = map (snd \<circ> fst) (filter (\<lambda>((k, _), ok). k = key \<and> ok) history)"

definition window_admits :: "MemoryRateLimiterOptions \<Rightarrow> (call \<times> bool) list \<Rightarrow> call \<Rightarrow> bool" where
  "window_admits options history c \<longleftrightarrow>
     int (length (filter (\<lambda>ts. snd c - lim_windowMs options < ts) (allowed_times (fst c) history)))
       < lim_maxRequests options"

fun limiter_spec :: "MemoryRateLimiterOptions \<Rightarrow> (call \<times> bool) list \<Rightarrow> call list \<Rightarrow> bool list" where
  "limiter_spec options history [] = []"
| "limiter_spec options history (c # cs) =
     (let ok = window_admits options history c in ok # limiter_spec options (history @ [(c, ok)]) cs)"

definition limiter_step :: "MemoryRateLimiterOptions \<Rightarrow> hits \<Rightarrow> call \<Rightarrow> bool \<times> hits" where
  "limiter_step options s c = (case limiter_consume options s (fst c) (snd c) of (r, s') \<Rightarrow> (rl_allowed r, s'))"

text \<open>What the state keeps: of the allowed times of every key, all that any later window can still see.\<close>

definition limiter_inv :: "MemoryRateLimiterOptions \<Rightarrow> (call \<times> bool) list \<Rightarrow> int \<Rightarrow> hits \<Rightarrow> bool" where
  "limiter_inv options history t s \<longleftrightarrow> (\<forall>key w. t - lim_windowMs options \<le> w \<longrightarrow>
     filter (\<lambda>ts. w < ts) (hits_of s key) = filter (\<lambda>ts. w < ts) (allowed_times key history))"

lemma hits_of_update [simp]: "hits_of (AList.update k ts s) j = (if j = k then ts else hits_of s j)"
  by (simp add: hits_of_def update_conv')

lemma allowed_times_snoc:
  "allowed_times key (history @ [(c, ok)]) =
   allowed_times key history @ (if fst c = key \<and> ok then [snd c] else [])"
  by (cases c) (auto simp: allowed_times_def)

lemma limiter_step_correct:
  assumes "limiter_inv options history t s" "t \<le> snd c"
  shows "fst (limiter_step options s c) = window_admits options history c"
    and "limiter_inv options (history @ [(c, window_admits options history c)]) (snd c) (snd (limiter_step options s c))"
proof -
  obtain key now where c: "c = (key, now)" by fastforce
  let ?w = "now - lim_windowMs options"
  have p: "filter (\<lambda>ts. ?w < ts) (hits_of s key) = filter (\<lambda>ts. ?w < ts) (allowed_times key history)"
    using assms by (auto simp: limiter_inv_def c)
  show one: "fst (limiter_step options s c) = window_admits options history c"
    by (auto simp: limiter_step_def limiter_consume_def window_admits_def Let_def c p)
  have narrow: "filter (\<lambda>ts. w < ts) (filter (\<lambda>ts. ?w < ts) xs) = filter (\<lambda>ts. w < ts) xs" if "?w \<le> w" for w and xs :: "int list"
    using that by (induction xs) auto
  have old: "filter (\<lambda>ts. w < ts) (hits_of s k) = filter (\<lambda>ts. w < ts) (allowed_times k history)" if "?w \<le> w" for w k
    using assms that by (auto simp: limiter_inv_def c)
  show "limiter_inv options (history @ [(c, window_admits options history c)]) (snd c) (snd (limiter_step options s c))"
    unfolding limiter_inv_def
  proof (intro allI impI)
    fix k w assume "snd c - lim_windowMs options \<le> w"
    then have w: "?w \<le> w" by (simp add: c)
    show "filter (\<lambda>ts. w < ts) (hits_of (snd (limiter_step options s c)) k) =
        filter (\<lambda>ts. w < ts) (allowed_times k (history @ [(c, window_admits options history c)]))"
      using one narrow [OF w] old [OF w] p
      by (auto simp: allowed_times_snoc c limiter_step_def limiter_consume_def Let_def split: if_splits)
  qed
qed

lemma limiter_run_correct:
  "limiter_inv options history t s \<Longrightarrow> sorted (t # map snd cs) \<Longrightarrow>
   fst (run_uses (limiter_step options) s cs) = limiter_spec options history cs"
proof (induction cs arbitrary: history t s)
  case (Cons c cs)
  from Cons.prems have t: "t \<le> snd c" "sorted (snd c # map snd cs)" by auto
  note step = limiter_step_correct [OF Cons.prems(1) t(1)]
  show ?case
    using Cons.IH [OF step(2) t(2)] step(1) by (auto simp: Let_def split: prod.splits)
qed simp

lemma limiter_inv_start: "limiter_inv options [] t []"
  by (simp add: limiter_inv_def hits_of_def allowed_times_def)

subsection \<open>The breaker after a streak of failures\<close>

lemma failure_streak:
  assumes "1 \<le> cb_failureThreshold options"
  shows "foldl (recordFailure options) (recordSuccess b) ts =
    b\<lparr>br_failures := int (length ts),
      br_openedAt := (if cb_failureThreshold options \<le> int (length ts) then Some (last ts) else None)\<rparr>"
  using assms by (induction ts rule: rev_induct) (auto simp: recordSuccess_def recordFailure_def Let_def)

subsection \<open>Properties\<close>

text \<open>
  C38: The pruning limiter decides like the one that remembers every call: on calls in order of time it allows
  exactly those calls for which fewer than the maximum of earlier calls of the same key were allowed within
  the window before them, whatever calls of other keys come in between.
\<close>

theorem limiter_refines_history:
  assumes "sorted (map snd calls)"
  shows "fst (run_uses (limiter_step options) [] calls) = limiter_spec options [] calls"
proof (cases calls)
  case (Cons c cs)
  with assms show ?thesis
    using limiter_run_correct [OF limiter_inv_start, of "snd c" calls] by simp
qed simp

theorem limiter_refines_history_witness:
  "fst (run_uses (limiter_step \<lparr>lim_windowMs = 10, lim_maxRequests = 2\<rparr>) []
      [(''a'', 0), (''a'', 5), (''b'', 6), (''a'', 7), (''a'', 11)]) =
   limiter_spec \<lparr>lim_windowMs = 10, lim_maxRequests = 2\<rparr> []
      [(''a'', 0), (''a'', 5), (''b'', 6), (''a'', 7), (''a'', 11)]"
  by (rule limiter_refines_history) simp

text \<open>
  The circuit opens exactly at the threshold: after a success and a streak of failures a check throws if
  and only if the streak has reached the threshold and the cool-down since its last failure has not passed; a
  check that passes on an opened circuit closes it and forgets the streak.
\<close>

theorem breaker_opens_at_threshold:
  assumes "1 \<le> cb_failureThreshold options"
  shows "assertClosed options (foldl (recordFailure options) (recordSuccess b) ts) now =
    (if cb_failureThreshold options \<le> int (length ts) \<and> now - last ts < cb_coolDownMs options
     then (Inl (Error ''Provider circuit open''),
           b\<lparr>br_failures := int (length ts), br_openedAt := Some (last ts)\<rparr>)
     else (Inr (), b\<lparr>br_failures := (if cb_failureThreshold options \<le> int (length ts) then 0 else int (length ts)),
                     br_openedAt := None\<rparr>))"
  by (simp add: failure_streak [OF assms] assertClosed_def)

theorem breaker_opens_at_threshold_witness:
  "fst (assertClosed \<lparr>cb_failureThreshold = 2, cb_coolDownMs = 100\<rparr>
     (foldl (recordFailure \<lparr>cb_failureThreshold = 2, cb_coolDownMs = 100\<rparr>) (recordSuccess new_breaker) [1, 2, 3]) 50) =
   Inl (Error ''Provider circuit open'')"
  by (subst breaker_opens_at_threshold) simp_all

end
