(* ===== verification/Redaction.thy ===== *)
theory Redaction
  imports JsonParse
begin

section \<open>Telemetry redaction and public problems (src/ops/redaction.ts, src/ops/errors.ts)\<close>

text \<open>
  The regular expressions of the source are written as the predicates they match: the anchored
  \<open>SENSITIVE_KEY\<close> as its finite list of spellings, the unanchored \<open>SENSITIVE_SUBSTRING\<close> as a search for its
  alternatives.  \<open>Object.entries\<close> of a byte array lists its indices; a foreign object shows no members.
\<close>

subsection \<open>Searching\<close>

fun exists_suffix :: "(string \<Rightarrow> bool) \<Rightarrow> string \<Rightarrow> bool" where
  "exists_suffix p [] = p []"
| "exists_suffix p (c # s) = (p (c # s) \<or> exists_suffix p s)"

text \<open>\<open>a.?b\<close> at the start of a lower-cased text.\<close>

definition gap_match :: "string \<Rightarrow> string \<Rightarrow> string \<Rightarrow> bool" where
  "gap_match a b s \<longleftrightarrow> startsWith s (a @ b) \<or>
     startsWith s a \<and> startsWith (drop (length a + 1) s) b \<and>
     (case drop (length a) s of [] \<Rightarrow> False | c # _ \<Rightarrow> c \<noteq> CHR 0x0A \<and> c \<noteq> CHR 0x0D)"

definition is_regex_space :: "char \<Rightarrow> bool" where
  "is_regex_space c \<longleftrightarrow> (of_char c :: nat) \<in> {9, 10, 11, 12, 13, 32, 160}"

text \<open>\<open>bearer\s+[a-z0-9._-]+\<close> at the start of a lower-cased text.\<close>

definition bearer_match :: "string \<Rightarrow> bool" where
  "bearer_match s \<longleftrightarrow> startsWith s ''bearer'' \<and>
     (case drop 6 s of [] \<Rightarrow> False | c # r \<Rightarrow> is_regex_space c \<and>
       (case dropWhile is_regex_space r of [] \<Rightarrow> False
        | d # _ \<Rightarrow> is_lower_char d \<or> is_digit_char d \<or> d \<in> {CHR ''.'', CHR ''_'', CHR ''-''}))"

definition sensitive_substring :: "string \<Rightarrow> bool" where
  "sensitive_substring text = exists_suffix (\<lambda>s.
     list_ex (startsWith s) [''nullifier'', ''nativeproof'', ''native_proof'', ''humanproof'', ''human_proof'',
       ''pairwisesecret'', ''signingkey''] \<or>
     gap_match ''private'' ''key'' s \<or> gap_match ''access'' ''token'' s \<or> gap_match ''connector'' ''uri'' s \<or>
     bearer_match s) (toLowerCase text)"

subsection \<open>Keys\<close>

definition sensitive_key_spellings :: "string list" where
  "sensitive_key_spellings = [''native_proof'', ''nativeproof'', ''human_proof'', ''humanproof'', ''proof'',
     ''nullifier'', ''nullifierhash'', ''nullifier_hash'', ''provider_subject'', ''providersubject'',
     ''provider_session'', ''providersession'', ''pairwise_secret'', ''pairwisesecret'', ''private_key'', ''privatekey'',
     ''signingkey'', ''signing_key'', ''signingkeyhex'', ''signing_keyhex'', ''signingkey_hex'', ''signing_key_hex'',
     ''signal'', ''merkle_root'', ''merkleroot'', ''credential_type'', ''credentialtype'', ''authorization'', ''bearer'',
     ''token'', ''access_token'', ''accesstoken'', ''accesstokendigest'', ''accesstoken_digest'', ''access_tokendigest'',
     ''access_token_digest'', ''connector_uri'', ''connectoruri'', ''presentation'', ''protected_state'', ''protectedstate'',
     ''protected_completion'', ''protectedcompletion'', ''secret'', ''password'', ''seed'']"

definition normalizeKey :: "string \<Rightarrow> string" where
  "normalizeKey key = toLowerCase (filter (\<lambda>c. c \<noteq> CHR ''-'' \<and> c \<noteq> CHR ''_'') key)"

definition keyIsSensitive :: "string \<Rightarrow> bool" where
  "keyIsSensitive key \<longleftrightarrow> toLowerCase key \<in> set sensitive_key_spellings \<or>
     normalizeKey key \<in> set [''nativeproof'', ''humanproof'', ''proof'', ''nullifier'', ''nullifierhash'',
       ''providersubject'', ''providersession'', ''pairwisesecret'', ''privatekey'', ''signingkey'', ''signingkeyhex'',
       ''signal'', ''merkleroot'', ''authorization'', ''token'', ''accesstoken'', ''accesstokendigest'', ''connectoruri'',
       ''presentation'', ''protectedstate'', ''protectedcompletion'', ''secret'']"

subsection \<open>redactForTelemetry\<close>

definition redact_string :: "string \<Rightarrow> string" where
  "redact_string s = (if sensitive_substring s \<or> 256 < length s
     then ''[redacted-string:'' @ string_of_nat (length s) @ '']'' else s)"

text \<open>The argument counts the levels left: \<open>6 - depth\<close>, and nothing once \<open>depth\<close> exceeds 6.\<close>

fun redact_levels :: "nat \<Rightarrow> js \<Rightarrow> js" where
  "redact_levels 0 v = JStr ''[truncated]''"
| "redact_levels (Suc n) v = (case v of
     JStr s \<Rightarrow> JStr (redact_string s)
   | JArr xs \<Rightarrow> JArr (map (redact_levels n) (take 20 xs))
   | JObj kvs \<Rightarrow> JObj (own_keys_order (foldl assign_member []
       (map (\<lambda>(key, child). (key, if keyIsSensitive key then JStr ''[redacted]'' else redact_levels n child)) kvs)))
   | JBytes bs \<Rightarrow> JObj (map (\<lambda>i. (string_of_nat i, if keyIsSensitive (string_of_nat i) then JStr ''[redacted]''
       else redact_levels n (JNum (IntNum (uint (bs ! i)))))) [0..<length bs])
   | JForeign t \<Rightarrow> if t = ''object'' then JObj [] else v
   | _ \<Rightarrow> v)"

definition redactForTelemetry :: "js \<Rightarrow> nat \<Rightarrow> js" where
  "redactForTelemetry v depth = redact_levels (7 - depth) v"

definition redactError :: "string \<Rightarrow> nat \<Rightarrow> js" where
  "redactError name depth = (if 6 < depth then JStr ''[truncated]''
     else JObj [(''name'', JStr name), (''message'', JStr ''[redacted-error-message]'')])"

definition leak_needles :: "string list" where
  "leak_needles = [''nullifier_hash'', ''nullifier'', ''nativeproof'', ''native_proof'', ''humanproof'', ''human_proof'',
     ''pairwisesecret'', ''private_key'', ''signingkeyhex'', ''accesstoken'', ''access_token'', ''connectoruri'',
     ''connector_uri'', ''-----begin'']"

definition assertNoSensitiveLeak :: "string \<Rightarrow> unit res" where
  "assertNoSensitiveLeak text =
     (if sensitive_substring text then Inl (Error ''Sensitive field leaked into output'')
      else eachE (\<lambda>needle. throwIf (contains_text (toLowerCase text) needle)
             (Error (''Sensitive field leaked into output: '' @ needle))) leak_needles)"

subsection \<open>Public problems\<close>

record PublicProblem =
  pp_type :: string
  pp_title :: string
  pp_status :: nat
  pp_detail :: string
  pp_code :: string

definition PUBLIC_DETAILS :: "(string \<times> string) list" where
  "PUBLIC_DETAILS = [
     (''UNAUTHENTICATED'', ''Authentication required''),
     (''PURPOSE_NOT_AUTHORIZED'', ''Issuer is not authorized for this request''),
     (''AUDIENCE_NOT_AUTHORIZED'', ''Issuer is not authorized for this request''),
     (''RESOURCE_NOT_AUTHORIZED'', ''Issuer is not authorized for this request''),
     (''METHOD_NOT_AUTHORIZED'', ''Issuer is not authorized for this request''),
     (''HTTP_METHOD_NOT_AUTHORIZED'', ''Issuer is not authorized for this request''),
     (''INVALID_REQUIREMENT'', ''Request body is invalid''),
     (''REQUIREMENT_REJECTED'', ''Requirement rejected''),
     (''MISCONFIGURED_ISSUER'', ''Verifier is misconfigured''),
     (''RATE_LIMITED'', ''Rate limit exceeded''),
     (''INVALID_DEPENDENCY'', ''Invalid dependency''),
     (''DEPENDENCY_NOT_FOUND'', ''Unknown dependency''),
     (''INVALID_PROOF'', ''Proof body is invalid''),
     (''PROOF_REJECTED'', ''Proof rejected''),
     (''HUMAN_PROOF_REJECTED'', ''Human proof rejected''),
     (''CORS_ORIGIN_DENIED'', ''Origin is not allowed''),
     (''IDEMPOTENCY_KEY_REQUIRED'', ''Idempotency-Key is required for mutations''),
     (''NOT_FOUND'', ''Not found'')]"

definition publicProblem :: "nat \<Rightarrow> string \<Rightarrow> string option \<Rightarrow> PublicProblem" where
  "publicProblem status code detailOverride =
     (let detail = (case detailOverride of Some d \<Rightarrow> d | None \<Rightarrow>
            (case map_of PUBLIC_DETAILS code of Some d \<Rightarrow> d | None \<Rightarrow> ''Request could not be completed''))
      in \<lparr>pp_type = ''https://x424.org/problems/'' @ replaceAll CHR ''_'' CHR ''-'' (toLowerCase code),
          pp_title = code, pp_status = status, pp_detail = take 200 detail, pp_code = code\<rparr>)"

text \<open>\<open>error.code\<close> exists on an \<open>IssuanceAuthorizationError\<close> only.\<close>

fun error_code :: "exn \<Rightarrow> string option" where
  "error_code (IssuanceAuthorizationError c m) = Some c"
| "error_code _ = None"

definition mentions :: "string \<Rightarrow> string list \<Rightarrow> bool" where
  "mentions message needles \<longleftrightarrow> list_ex (contains_text (toLowerCase message)) needles"

definition classifyVerifierError :: "exn \<Rightarrow> nat \<times> string" where
  "classifyVerifierError error =
     (let message = exn_message error;
          by_message = (if mentions message [''rate limit''] then (429, ''RATE_LIMITED'')
            else if mentions message [''unknown dependency'', ''expired human dependency'']
            then (404, ''DEPENDENCY_NOT_FOUND'')
            else if mentions message [''already consumed'', ''replay''] then (401, ''HUMAN_PROOF_REJECTED'')
            else if mentions message [''misconfigured'', ''resultreplaystore'', ''deploymentprofile'']
            then (500, ''MISCONFIGURED_ISSUER'')
            else (422, ''PROOF_REJECTED''))
      in case error_code error of
           Some code \<Rightarrow>
             if code = ''UNAUTHENTICATED'' then (401, code)
             else if endsWith code ''_NOT_AUTHORIZED'' then (403, code) else by_message
         | None \<Rightarrow> by_message)"

text \<open>What an observer is told about an error: its kind, never its message.\<close>

definition observeInternal :: "string \<Rightarrow> nat \<Rightarrow> string \<Rightarrow> string \<times> nat \<times> js" where
  "observeInternal code status name =
     (code, status, redactForTelemetry (JObj [(''name'', JStr name), (''error'', JObj [(''name'', JStr name)])]) 0)"

subsection \<open>What telemetry can show\<close>

fun quiet :: "nat \<Rightarrow> js \<Rightarrow> bool" where
  "quiet 0 v = (v = JStr ''[truncated]'')"
| "quiet (Suc n) v = (case v of
     JStr s \<Rightarrow> \<not> sensitive_substring s \<and> length s \<le> 256
   | JArr xs \<Rightarrow> length xs \<le> 20 \<and> list_all (quiet n) xs
   | JObj kvs \<Rightarrow> list_all (\<lambda>(k, w). if keyIsSensitive k then w = JStr ''[redacted]'' else quiet n w) kvs
   | JBytes _ \<Rightarrow> False
   | _ \<Rightarrow> True)"

lemma startsWith_subset: "startsWith s p \<Longrightarrow> set p \<subseteq> set s"
  unfolding startsWith_def by (metis set_take_subset)

lemma exists_suffix_start: "exists_suffix p s \<Longrightarrow> \<exists>t. p t \<and> set t \<subseteq> set s"
  by (induction s) (auto 0 3)

text \<open>Every alternative of the pattern needs one of a few letters.\<close>

lemma sensitive_needs:
  assumes "sensitive_substring text"
  shows "\<exists>c \<in> set (toLowerCase text). c \<in> {CHR ''u'', CHR ''v'', CHR ''k'', CHR ''b'', CHR ''p'', CHR ''o''}"
proof -
  let ?hit = "\<lambda>s. list_ex (startsWith s) [''nullifier'', ''nativeproof'', ''native_proof'', ''humanproof'', ''human_proof'',
       ''pairwisesecret'', ''signingkey''] \<or>
     gap_match ''private'' ''key'' s \<or> gap_match ''access'' ''token'' s \<or> gap_match ''connector'' ''uri'' s \<or>
     bearer_match s"
  obtain t where t: "?hit t" "set t \<subseteq> set (toLowerCase text)"
    using exists_suffix_start [OF assms [unfolded sensitive_substring_def]] by blast
  have gap: "gap_match a b s \<Longrightarrow> set a \<subseteq> set s \<and> set b \<subseteq> set s" for a b s
    unfolding gap_match_def using startsWith_subset [of s "a @ b"] startsWith_subset [of s a]
      startsWith_subset [of "drop (length a + 1) s" b] set_drop_subset [of "length a + 1" s] by auto
  let ?L = "{CHR ''u'', CHR ''v'', CHR ''k'', CHR ''b'', CHR ''p'', CHR ''o''}"
  have lit: "\<exists>c \<in> set t. c \<in> ?L" if "startsWith t p" "\<exists>c \<in> set p. c \<in> ?L" for p
    using startsWith_subset [OF that(1)] that(2) by blast
  have two: "\<exists>c \<in> set t. c \<in> ?L" if "gap_match a b t" "\<exists>c \<in> set a \<union> set b. c \<in> ?L" for a b
    using gap [OF that(1)] that(2) by blast
  from t(1) have "\<exists>c \<in> set t. c \<in> ?L"
    by (simp only: list_ex_Nil_iff list_ex_Cons_iff bearer_match_def simp_thms)
      (elim disjE conjE; ((rule lit, assumption, simp) | (rule two, assumption, simp)))
  then show ?thesis using t(2) by blast
qed

lemma digit_char_range: "d < 10 \<Longrightarrow> 48 \<le> (of_char (digit_char d) :: nat) \<and> (of_char (digit_char d) :: nat) \<le> 57"
  by (simp add: digit_char_def)

lemma string_of_nat_range:
  "c \<in> set (string_of_nat n) \<Longrightarrow> 48 \<le> (of_char c :: nat) \<and> (of_char c :: nat) \<le> 57"
proof (induction n rule: string_of_nat.induct)
  case (1 n)
  then show ?case
    by (subst (asm) string_of_nat.simps) (auto simp: digit_char_range split: if_splits)
qed

lemma toLowerCase_digits: "toLowerCase (string_of_nat n) = string_of_nat n"
  unfolding toLowerCase_def by (rule map_idI) (auto simp: is_upper_char_def dest: string_of_nat_range)

lemma letters_not_digits:
  "c \<in> set (string_of_nat n) \<Longrightarrow> c \<notin> {CHR ''u'', CHR ''v'', CHR ''k'', CHR ''b'', CHR ''p'', CHR ''o''}"
  using string_of_nat_range [of c n] by auto

lemma redact_string_quiet: "\<not> sensitive_substring (redact_string s)"
proof (cases "sensitive_substring s \<or> 256 < length s")
  case True
  let ?r = "''[redacted-string:'' @ string_of_nat (length s) @ '']''"
  have low: "toLowerCase (a @ b) = toLowerCase a @ toLowerCase b" for a b by (simp add: toLowerCase_def)
  have "toLowerCase ?r = ?r"
    unfolding low by (simp add: toLowerCase_digits) (simp add: toLowerCase_def is_upper_char_def)
  moreover have "c \<notin> {CHR ''u'', CHR ''v'', CHR ''k'', CHR ''b'', CHR ''p'', CHR ''o''}" if "c \<in> set ?r" for c
    using that letters_not_digits [of c "length s"] by auto
  ultimately have "\<not> sensitive_substring ?r" using sensitive_needs [of ?r] by metis
  with True show ?thesis by (simp add: redact_string_def)
qed (simp add: redact_string_def)

lemma redact_string_length: "length s \<le> 256 \<Longrightarrow> length (redact_string s) \<le> 256 \<or> sensitive_substring s"
  by (auto simp: redact_string_def)

lemma string_of_nat_length: "n < 10 ^ Suc k \<Longrightarrow> length (string_of_nat n) \<le> Suc k"
proof (induction n arbitrary: k rule: string_of_nat.induct)
  case (1 n)
  show ?case
  proof (cases "n < 10")
    case True
    then show ?thesis by (subst string_of_nat.simps) simp
  next
    case False
    then obtain j where k: "k = Suc j" using "1.prems" by (cases k) auto
    have "n div 10 < 10 ^ Suc j" using "1.prems" k by (simp add: div_less_iff_less_mult)
    with 1 False show ?thesis by (subst string_of_nat.simps) (simp add: k)
  qed
qed

lemma redact_string_short: "length s < 10 ^ 100 \<Longrightarrow> length (redact_string s) \<le> 256"
  using string_of_nat_length [of "length s" 99] by (auto simp: redact_string_def)

text \<open>Strings shorter than \<open>10 ^ 100\<close> code units, as every string an engine can hold.\<close>

fun short_strings :: "js \<Rightarrow> bool" where
  "short_strings (JStr s) = (length s < 10 ^ 100)"
| "short_strings (JArr xs) = list_all short_strings xs"
| "short_strings (JObj kvs) = list_all (\<lambda>(k, v). short_strings v) kvs"
| "short_strings _ = True"

lemma redact_levels_quiet: "short_strings v \<Longrightarrow> quiet n (redact_levels n v)"
proof (induction n arbitrary: v)
  case (Suc n)
  show ?case
  proof (cases v)
    case (JStr s)
    then show ?thesis using Suc.prems redact_string_quiet redact_string_short by simp
  next
    case (JArr xs)
    then show ?thesis using Suc by (auto simp: list_all_iff dest: in_set_takeD)
  next
    case (JObj kvs)
    let ?f = "\<lambda>(key, child). (key, if keyIsSensitive key then JStr ''[redacted]'' else redact_levels n child)"
    have "set (foldl assign_member [] (map ?f kvs)) \<subseteq> ?f ` set kvs"
      using set_assign_fold [of "[]" "map ?f kvs"] by simp
    then show ?thesis using Suc JObj by (fastforce simp: list_all_iff)
  next
    case (JBytes bs)
    have "quiet n (redact_levels n (JNum m))" for m using Suc.IH [of "JNum m"] by simp
    then show ?thesis using JBytes by (auto simp: list_all_iff)
  next
    case (JForeign t)
    then show ?thesis by auto
  qed auto
qed simp

subsection \<open>Properties\<close>

text \<open>
  Redacted telemetry is safe to log: in the output every member with a sensitive key holds the marker
  instead of its value, no string matches the sensitive pattern (not even the marker that replaces one) or is
  longer than 256 characters, arrays have at most 20 elements and nothing lies deeper than seven levels.
\<close>

theorem redactForTelemetry_quiet:
  assumes "short_strings v"
  shows "quiet (7 - depth) (redactForTelemetry v depth)"
  unfolding redactForTelemetry_def by (rule redact_levels_quiet [OF assms])

theorem redactForTelemetry_quiet_witness:
  "quiet 7 (redactForTelemetry (JObj [(''nullifier-hash'', JStr ''0x12''), (''note'', JStr ''Bearer abc'')]) 0)"
  using redactForTelemetry_quiet [of "JObj [(''nullifier-hash'', JStr ''0x12''), (''note'', JStr ''Bearer abc'')]" 0]
  by simp

text \<open>
  What a client is told about an error depends on its code and on fixed phrases only: an authorization code
  maps to 401 or 403, the message decides between five fixed answers, and the problem's detail has at most
  200 characters taken from the fixed table unless the caller overrides it.
\<close>

theorem classified_problem_fixed:
  "(case classifyVerifierError e of (status, code) \<Rightarrow>
     (status, code) \<in> {(429, ''RATE_LIMITED''), (404, ''DEPENDENCY_NOT_FOUND''), (401, ''HUMAN_PROOF_REJECTED''),
        (500, ''MISCONFIGURED_ISSUER''), (422, ''PROOF_REJECTED''), (401, ''UNAUTHENTICATED'')} \<or>
     (status = 403 \<and> error_code e = Some code \<and> endsWith code ''_NOT_AUTHORIZED'')) \<and>
   pp_detail (publicProblem status code None) \<in> insert ''Request could not be completed'' (snd ` set PUBLIC_DETAILS)"
proof
  show "case classifyVerifierError e of (status, code) \<Rightarrow>
     (status, code) \<in> {(429, ''RATE_LIMITED''), (404, ''DEPENDENCY_NOT_FOUND''), (401, ''HUMAN_PROOF_REJECTED''),
        (500, ''MISCONFIGURED_ISSUER''), (422, ''PROOF_REJECTED''), (401, ''UNAUTHENTICATED'')} \<or>
     (status = 403 \<and> error_code e = Some code \<and> endsWith code ''_NOT_AUTHORIZED'')"
    by (cases "error_code e") (simp_all add: classifyVerifierError_def Let_def del: endsWith_def)
  have len: "\<forall>d \<in> snd ` set PUBLIC_DETAILS. length d \<le> 200" by (simp add: PUBLIC_DETAILS_def)
  have "d \<in> snd ` set PUBLIC_DETAILS \<and> take 200 d = d" if "map_of PUBLIC_DETAILS code = Some d" for d
    using map_of_SomeD [OF that] len by force
  then show "pp_detail (publicProblem status code None) \<in> insert ''Request could not be completed'' (snd ` set PUBLIC_DETAILS)"
    by (cases "map_of PUBLIC_DETAILS code") (simp_all add: publicProblem_def Let_def)
qed

end
