(* ===== verification/Issuance.thy ===== *)
theory Issuance
  imports Transport Digest Requirements "HOL-Library.Sublist"
begin

section \<open>Authorized issuance (src/auth/issuance.ts)\<close>

text \<open>
  An authenticator's result is an arbitrary value until \<open>validateIssuancePrincipal\<close> has taken a snapshot
  of it.  Grants are exact: a purpose, an audience, an HTTP method, a human method or a resource that is not
  listed is denied.  The URL parser and the hash are parameters.
\<close>

datatype DeploymentProfile = DevLocal | EvalRedis | ProdHa

record ResourceUriGrant =
  g_origin :: string
  g_pathPrefix :: string

record IssuancePrincipal =
  ip_subject :: string
  ip_issuer :: "string option"
  ip_allowedPurposes :: "string list"
  ip_allowedAudiences :: "string list"
  ip_allowedHttpMethods :: "string list"
  ip_allowedMethods :: "string list"
  ip_allowedResources :: "ResourceUriGrant list"

datatype AnyIssuancePrincipal = Granted IssuancePrincipal | DevWildcard string

record IssuanceAuthorizationRequest =
  ar_purpose :: string
  ar_method :: string
  ar_uri :: string
  ar_audience :: string
  ar_accepts :: "(string \<times> string) list"

subsection \<open>Credentials\<close>

definition is_token_char :: "char \<Rightarrow> bool" where
  "is_token_char c \<longleftrightarrow> is_upper_char c \<or> is_lower_char c \<or> is_digit_char c \<or>
     c \<in> {CHR ''-'', CHR ''.'', CHR ''_'', CHR ''~'', CHR ''+'', CHR ''/''}"

definition is_bearer_token :: "string \<Rightarrow> bool" where
  "is_bearer_token s \<longleftrightarrow> (let body = takeWhile is_token_char s
     in 1 \<le> length body \<and> length body \<le> 4096 \<and> dropWhile is_token_char s \<in> {[], ''='', ''==''})"

definition bearerCredentialDigest :: "hash \<Rightarrow> string \<Rightarrow> string" where
  "bearerCredentialDigest H token = encodeStrictBase64Url (H (utf8_encode token))"

definition is_hex_char :: "char \<Rightarrow> bool" where
  "is_hex_char c \<longleftrightarrow> is_digit_char c \<or> c \<in> set ''abcdefABCDEF''"

text \<open>
  Node's decoders are lenient, but the re-encoded bytes equal the token only for the canonical encodings,
  which the strict decoders accept.
\<close>

definition decodedCredentialBytes :: "string \<Rightarrow> nat option" where
  "decodedCredentialBytes token =
     (let hex = (if token \<noteq> [] \<and> list_all is_hex_char token \<and> even (length token) then [length token div 2] else []);
          url = (case decodeStrictBase64Url token [] of Inr bs \<Rightarrow> [length bs] | Inl _ \<Rightarrow> []);
          std = (case atob token of None \<Rightarrow> [] | Some b \<Rightarrow> if token \<noteq> [] \<and> btoa b = token then [length b] else []);
          decodedLengths = hex @ url @ std
      in if decodedLengths = [] then None else Some (Max (set decodedLengths)))"

subsection \<open>Validating a principal\<close>

definition isPlainRecord :: "js \<Rightarrow> bool" where
  "isPlainRecord v = (case v of JObj _ \<Rightarrow> True | _ \<Rightarrow> False)"

fun own_keys :: "js \<Rightarrow> string list" where
  "own_keys (JObj kvs) = map fst kvs"
| "own_keys _ = []"

definition hasOwn :: "js \<Rightarrow> string \<Rightarrow> bool" where
  "hasOwn v key \<longleftrightarrow> key \<in> set (own_keys v)"

definition exactOwnKeys :: "js \<Rightarrow> string list \<Rightarrow> bool" where
  "exactOwnKeys v allowed \<longleftrightarrow> list_all (\<lambda>key. key \<in> set allowed) (own_keys v)"

definition is_control :: "char \<Rightarrow> bool" where
  "is_control c \<longleftrightarrow> (of_char c :: nat) < 32 \<or> (of_char c :: nat) = 127"

definition validatedPrincipalString :: "js \<Rightarrow> nat \<Rightarrow> string option" where
  "validatedPrincipalString value maximumLength = (case value of
       JStr s \<Rightarrow> if s = [] \<or> maximumLength < length s \<or> list_ex is_control s then None else Some s
     | _ \<Rightarrow> None)"

definition validatedPrincipalStringArray :: "js \<Rightarrow> string list option" where
  "validatedPrincipalStringArray value = (case value of
       JArr xs \<Rightarrow> those (map (\<lambda>x. validatedPrincipalString x 2048) xs)
     | _ \<Rightarrow> None)"

definition validated_grant :: "js \<Rightarrow> ResourceUriGrant option" where
  "validated_grant entry =
     (if \<not> isPlainRecord entry \<or> \<not> exactOwnKeys entry [''origin'', ''pathPrefix''] \<or>
         \<not> hasOwn entry ''origin'' \<or> \<not> hasOwn entry ''pathPrefix'' then None
      else case (validatedPrincipalString (js_get entry ''origin'') 2048,
                 validatedPrincipalString (js_get entry ''pathPrefix'') 2048) of
        (Some o', Some p) \<Rightarrow> Some \<lparr>g_origin = o', g_pathPrefix = p\<rparr>
      | _ \<Rightarrow> None)"

definition invalid_principal :: exn where
  "invalid_principal = IssuanceAuthorizationError ''UNAUTHENTICATED'' ''Authenticated issuer principal is invalid''"

definition required_grants :: "string list" where
  "required_grants = [''allowedPurposes'', ''allowedAudiences'', ''allowedHttpMethods'', ''allowedMethods'', ''allowedResources'']"

definition validateIssuancePrincipal :: "js \<Rightarrow> AnyIssuancePrincipal res" where
  "validateIssuancePrincipal input =
     (if \<not> isPlainRecord input then Inl invalid_principal
      else case validatedPrincipalString (js_get input ''subject'') 512 of
        None \<Rightarrow> Inl invalid_principal
      | Some subject \<Rightarrow>
          if js_get input ''__devWildcardIssuance'' = JBool True
          then if \<not> exactOwnKeys input [''subject'', ''__devWildcardIssuance''] then Inl invalid_principal
               else Inr (DevWildcard subject)
          else if \<not> exactOwnKeys input ([''subject'', ''issuer''] @ required_grants) then Inl invalid_principal
          else if \<not> list_all (hasOwn input) required_grants then Inl invalid_principal
          else let issuer = validatedPrincipalString (js_get input ''issuer'') 2048
          in if hasOwn input ''issuer'' \<and> issuer = None then Inl invalid_principal
          else case (validatedPrincipalStringArray (js_get input ''allowedPurposes''),
                     validatedPrincipalStringArray (js_get input ''allowedAudiences''),
                     validatedPrincipalStringArray (js_get input ''allowedHttpMethods''),
                     validatedPrincipalStringArray (js_get input ''allowedMethods''),
                     js_get input ''allowedResources'') of
            (Some purposes, Some audiences, Some httpMethods, Some methods, JArr entries) \<Rightarrow>
              (case those (map validated_grant entries) of
                 None \<Rightarrow> Inl invalid_principal
               | Some resources \<Rightarrow>
                   Inr (Granted \<lparr>ip_subject = subject, ip_issuer = (if hasOwn input ''issuer'' then issuer else None),
                     ip_allowedPurposes = purposes, ip_allowedAudiences = audiences,
                     ip_allowedHttpMethods = httpMethods, ip_allowedMethods = methods, ip_allowedResources = resources\<rparr>))
          | _ \<Rightarrow> Inl invalid_principal)"

subsection \<open>Resource grants\<close>

definition path_segments :: "string \<Rightarrow> string list" where
  "path_segments p = filter (\<lambda>segment. segment \<noteq> []) (splitOn CHR ''/'' p)"

definition normalizeAuthorizedPath :: "string \<Rightarrow> string option" where
  "normalizeAuthorizedPath pathname =
     (if \<not> startsWith pathname ''/'' then None
      else if CHR ''%'' \<in> set pathname \<or> CHR 0x5C \<in> set pathname \<or> CHR 0x00 \<in> set pathname then None
      else if contains_text pathname ''//'' then None
      else let segments = path_segments pathname
           in if list_ex (\<lambda>segment. segment = ''.'' \<or> segment = ''..'') segments then None
              else Some (if segments = [] then ''/'' else ''/'' @ joinWith ''/'' segments))"

definition grant_origin_ok :: "Url \<Rightarrow> bool" where
  "grant_origin_ok u \<longleftrightarrow> u_protocol u = ''https:'' \<and> u_pathname u = ''/'' \<and> u_search u = [] \<and> u_hash u = [] \<and>
     u_username u = [] \<and> u_password u = []"

definition grant_covers :: "url_parser \<Rightarrow> Url \<Rightarrow> string \<Rightarrow> ResourceUriGrant \<Rightarrow> bool" where
  "grant_covers parse parsed path grant = (case parse (g_origin grant) of
       None \<Rightarrow> False
     | Some grantOrigin \<Rightarrow>
         if \<not> grant_origin_ok grantOrigin then False
         else if u_origin parsed \<noteq> u_origin grantOrigin then False
         else let rawPrefix = (if g_pathPrefix grant = [] then ''/'' else g_pathPrefix grant)
         in if CHR ''%'' \<in> set rawPrefix \<or> CHR 0x5C \<in> set rawPrefix then False
         else (case normalizeAuthorizedPath rawPrefix of
             None \<Rightarrow> False
           | Some pre \<Rightarrow> pre = ''/'' \<or> path = pre \<or>
               startsWith path (if endsWith pre ''/'' then pre else pre @ ''/'')))"

definition resourceUriAuthorized :: "url_parser \<Rightarrow> string \<Rightarrow> ResourceUriGrant list \<Rightarrow> bool" where
  "resourceUriAuthorized parse uri grants = (case parse uri of
       None \<Rightarrow> False
     | Some parsed \<Rightarrow>
         if u_username parsed \<noteq> [] \<or> u_password parsed \<noteq> [] \<or> u_protocol parsed \<noteq> ''https:'' then False
         else (case normalizeAuthorizedPath (u_pathname parsed) of
             None \<Rightarrow> False | Some path \<Rightarrow> list_ex (grant_covers parse parsed path) grants))"

subsection \<open>Authorization\<close>

definition deny :: "string \<Rightarrow> string \<Rightarrow> exn" where
  "deny code message = IssuanceAuthorizationError code message"

definition profile_requires_https :: "url_parser \<Rightarrow> IssuanceAuthorizationRequest \<Rightarrow> DeploymentProfile \<Rightarrow> unit res" where
  "profile_requires_https parse request profile =
     (if profile = DevLocal then Inr ()
      else case (parse (ar_uri request), parse (ar_audience request)) of
        (Some resource, Some audience) \<Rightarrow>
          throwIf (u_protocol resource \<noteq> ''https:'' \<or> u_protocol audience \<noteq> ''https:'')
            (deny ''RESOURCE_NOT_AUTHORIZED'' ''Resource and audience must use HTTPS outside dev-local-0.1'')
      | _ \<Rightarrow> Inl (deny ''RESOURCE_NOT_AUTHORIZED'' ''Resource and audience must be valid HTTPS URLs''))"

definition listed_grant :: "string list \<Rightarrow> bool \<Rightarrow> string \<Rightarrow> string \<Rightarrow> string \<Rightarrow> unit res" where
  "listed_grant grants ok code none_message message =
     (if grants = [] then Inl (deny code none_message) else throwIf (\<not> ok) (deny code message))"

definition check_grants :: "url_parser \<Rightarrow> IssuancePrincipal \<Rightarrow> IssuanceAuthorizationRequest \<Rightarrow> unit res" where
  "check_grants parse p request =
     bindE (listed_grant (ip_allowedPurposes p) (ar_purpose request \<in> set (ip_allowedPurposes p))
       ''PURPOSE_NOT_AUTHORIZED'' ''Issuer has no allowed purposes'' ''Issuer is not authorized for this purpose'') (\<lambda>_.
     bindE (listed_grant (ip_allowedAudiences p) (ar_audience request \<in> set (ip_allowedAudiences p))
       ''AUDIENCE_NOT_AUTHORIZED'' ''Issuer has no allowed audiences'' ''Issuer is not authorized for this audience'') (\<lambda>_.
     bindE (listed_grant (ip_allowedHttpMethods p) (toUpperCase (ar_method request) \<in> set (ip_allowedHttpMethods p))
       ''HTTP_METHOD_NOT_AUTHORIZED'' ''Issuer has no allowed HTTP methods''
       ''Issuer is not authorized for this HTTP method'') (\<lambda>_.
     bindE (if ip_allowedResources p = []
       then Inl (deny ''RESOURCE_NOT_AUTHORIZED'' ''Issuer has no allowed resources'')
       else throwIf (\<not> resourceUriAuthorized parse (ar_uri request) (ip_allowedResources p))
         (deny ''RESOURCE_NOT_AUTHORIZED'' ''Issuer is not authorized for this resource URI'')) (\<lambda>_.
     if ip_allowedMethods p = []
     then Inl (deny ''METHOD_NOT_AUTHORIZED'' ''Issuer has no allowed human methods'')
     else eachE (\<lambda>(providerId, methodId). throwIf (methodKey providerId methodId \<notin> set (ip_allowedMethods p))
       (deny ''METHOD_NOT_AUTHORIZED'' ''Issuer is not authorized for an accepted method'')) (ar_accepts request)))))"

definition authorizeIssuance ::
  "url_parser \<Rightarrow> js \<Rightarrow> IssuanceAuthorizationRequest \<Rightarrow> DeploymentProfile \<Rightarrow> unit res" where
  "authorizeIssuance parse input request profile =
     bindE (validateIssuancePrincipal input) (\<lambda>p.
     bindE (profile_requires_https parse request profile) (\<lambda>_.
     case p of
       DevWildcard subject \<Rightarrow> throwIf (profile \<noteq> DevLocal)
         (deny ''METHOD_NOT_AUTHORIZED'' ''Development wildcard issuance is forbidden outside dev-local-0.1'')
     | Granted g \<Rightarrow> check_grants parse g request))"

subsection \<open>Configuration\<close>

definition assertIssuanceRouterConfig :: "DeploymentProfile option \<Rightarrow> bool \<Rightarrow> bool \<Rightarrow> DeploymentProfile res" where
  "assertIssuanceRouterConfig deploymentProfile allowUnauthenticatedIssuance hasAuthenticator =
     (case deploymentProfile of
        None \<Rightarrow> Inl (Error ''deploymentProfile is required; omission does not select dev-local'')
      | Some profile \<Rightarrow>
          if profile = DevLocal then
            (if \<not> hasAuthenticator \<and> \<not> allowUnauthenticatedIssuance
             then Inl (Error ''dev-local-0.1 requires issuanceAuthenticator or explicit allowUnauthenticatedIssuance: true'')
             else Inr profile)
          else if \<not> hasAuthenticator
          then Inl (Error ''eval/prod deployment profiles require issuanceAuthenticator'')
          else if allowUnauthenticatedIssuance
          then Inl (Error ''allowUnauthenticatedIssuance is forbidden outside dev-local-0.1'')
          else Inr profile)"

type_synonym credentials = "(string \<times> AnyIssuancePrincipal) list"

definition add_credential :: "hash \<Rightarrow> credentials \<Rightarrow> string \<times> js \<Rightarrow> credentials res" where
  "add_credential H creds entry = (case entry of (token, configuredPrincipal) \<Rightarrow>
     if 4096 < length token \<or> \<not> is_bearer_token token
     then Inl (Error ''Static bearer credential contains an invalid token'')
     else let digest = bearerCredentialDigest H token
     in if map_of creds digest \<noteq> None then Inl (Error ''Static bearer credentials must be unique'')
     else bindE (validateIssuancePrincipal configuredPrincipal) (\<lambda>p. Inr (AList.update digest p creds)))"

definition createStaticBearerIssuanceAuthenticator :: "hash \<Rightarrow> js \<Rightarrow> credentials res" where
  "createStaticBearerIssuanceAuthenticator H tokens = (case tokens of
       JObj entries \<Rightarrow> foldE (add_credential H) [] entries
     | _ \<Rightarrow> Inl (Error ''Static bearer credentials must be a plain record''))"

text \<open>The token of \<open>/^Bearer (...)$/iu\<close>.\<close>

definition bearer_token_of :: "string option \<Rightarrow> string option" where
  "bearer_token_of header = (case header of
       None \<Rightarrow> None
     | Some h \<Rightarrow> if startsWith (toLowerCase h) ''bearer '' \<and> is_bearer_token (drop 7 h) then Some (drop 7 h) else None)"

definition authenticate :: "hash \<Rightarrow> credentials \<Rightarrow> string option \<Rightarrow> AnyIssuancePrincipal res" where
  "authenticate H creds authorizationHeader =
     (let token = (case bearer_token_of authorizationHeader of None \<Rightarrow> [] | Some t \<Rightarrow> t);
          found = map_of creds (bearerCredentialDigest H token)
      in if bearer_token_of authorizationHeader = None \<or> found = None
         then Inl (IssuanceAuthorizationError ''UNAUTHENTICATED'' ''Bearer credentials are invalid'')
         else Inr (the found))"

definition assertProductionBearerCredentials :: "js \<Rightarrow> unit res" where
  "assertProductionBearerCredentials tokens =
     (if \<not> isPlainRecord tokens \<or> own_keys tokens = []
      then Inl (Error ''Production bearer credentials must be a non-empty record'')
      else eachE (\<lambda>token. throwIf (\<not> is_bearer_token token \<or>
               (case decodedCredentialBytes token of None \<Rightarrow> 0 | Some n \<Rightarrow> n) < 32)
             (Error (''Production bearer credentials must encode at least 32 bytes as canonical hexadecimal, base64, or base64url; '' @
               ''generate credentials with a cryptographically secure random source''))) (own_keys tokens))"

subsection \<open>Paths as lists of segments\<close>

definition segments_of :: "string \<Rightarrow> string list option" where
  "segments_of p = (if normalizeAuthorizedPath p = None then None else Some (path_segments p))"

lemma path_segments_clean: "\<forall>x \<in> set (path_segments p). x \<noteq> [] \<and> CHR ''/'' \<notin> set x"
  by (auto simp: path_segments_def dest: splitOn_parts_no_sep)

definition path_text :: "string list \<Rightarrow> string" where
  "path_text segs = (if segs = [] then ''/'' else ''/'' @ joinWith ''/'' segs)"

lemma normalizeAuthorizedPath_segments:
  "normalizeAuthorizedPath p = map_option path_text (segments_of p)"
  by (auto simp: normalizeAuthorizedPath_def segments_of_def path_text_def Let_def)

lemma joinWith_append_sep:
  "xs \<noteq> [] \<Longrightarrow> ys \<noteq> [] \<Longrightarrow> joinWith s (xs @ ys) = joinWith s xs @ s @ joinWith s ys"
proof (induction s xs rule: joinWith.induct)
  case (2 sep x)
  then show ?case by (cases ys) auto
qed auto

lemma joinWith_last_clean:
  "xs \<noteq> [] \<Longrightarrow> \<forall>x \<in> set xs. x \<noteq> [] \<and> c \<notin> set x \<Longrightarrow> joinWith [c] xs \<noteq> [] \<and> last (joinWith [c] xs) \<noteq> c"
proof (induction "[c]" xs rule: joinWith.induct)
  case (2 x)
  then show ?case by (metis joinWith.simps(2) last_in_set list.set_intros(1))
next
  case (3 x y ys)
  then have "joinWith [c] (y # ys) \<noteq> []" "last (joinWith [c] (y # ys)) \<noteq> c" by auto
  then show ?case by (simp add: last_append)
qed simp

text \<open>A textual prefix up to a boundary is a prefix of the segments.\<close>

lemma path_text_prefix:
  assumes "\<forall>x \<in> set xs. x \<noteq> [] \<and> CHR ''/'' \<notin> set x" "\<forall>x \<in> set ys. x \<noteq> [] \<and> CHR ''/'' \<notin> set x" "xs \<noteq> []"
  shows "path_text ys = path_text xs \<or> startsWith (path_text ys) (path_text xs @ ''/'') \<longleftrightarrow> prefix xs ys"
proof
  assume "prefix xs ys"
  then obtain zs where ys: "ys = xs @ zs" by (auto simp: prefix_def)
  show "path_text ys = path_text xs \<or> startsWith (path_text ys) (path_text xs @ ''/'')"
  proof (cases "zs = []")
    case False
    then have "path_text ys = (path_text xs @ ''/'') @ joinWith ''/'' zs"
      using assms(3) by (simp add: ys path_text_def joinWith_append_sep)
    then show ?thesis by (metis startsWith_append)
  qed (simp add: ys)
next
  assume "path_text ys = path_text xs \<or> startsWith (path_text ys) (path_text xs @ ''/'')"
  then show "prefix xs ys"
  proof
    assume eq: "path_text ys = path_text xs"
    show ?thesis
    proof (cases "ys = []")
      case True
      then show ?thesis using eq assms(1,3) joinWith_last_clean [of xs "CHR ''/''"] by (simp add: path_text_def)
    next
      case False
      then have "joinWith ''/'' ys = joinWith ''/'' xs" using eq assms(3) by (simp add: path_text_def)
      then have "ys = xs" using joinWith_inj [of ys xs "CHR ''/''"] False assms by blast
      then show ?thesis by simp
    qed
  next
    assume "startsWith (path_text ys) (path_text xs @ ''/'')"
    then obtain r where r: "path_text ys = path_text xs @ ''/'' @ r" by (auto simp: startsWith_conv)
    have ys: "ys \<noteq> []"
      using r assms(1,3) joinWith_last_clean [of xs "CHR ''/''"] by (auto simp: path_text_def)
    with r assms(3) have j: "joinWith ''/'' ys = joinWith ''/'' xs @ CHR ''/'' # r" by (simp add: path_text_def)
    have "splitOn CHR ''/'' (joinWith ''/'' xs @ CHR ''/'' # r) = xs @ splitOn CHR ''/'' r"
      using assms(1,3)
    proof (induction "''/''" xs rule: joinWith.induct)
      case (3 x y zs)
      then show ?case by (simp add: splitOn_append_sep)
    qed (auto simp: splitOn_append_sep)
    then have "ys = xs @ splitOn CHR ''/'' r"
      using splitOn_joinWith [of ys "CHR ''/''"] ys assms(2) j by simp
    then show ?thesis by simp
  qed
qed

lemma path_text_ends: 
  assumes "\<forall>x \<in> set xs. x \<noteq> [] \<and> CHR ''/'' \<notin> set x" "xs \<noteq> []"
  shows "path_text xs \<noteq> ''/''" "\<not> endsWith (path_text xs) ''/''"
  using joinWith_last_clean [OF assms(2,1)] assms(2)
  by (auto simp: path_text_def endsWith_def startsWith_def take_Suc hd_rev split: if_splits)

definition grant_names :: "url_parser \<Rightarrow> Url \<Rightarrow> string list \<Rightarrow> ResourceUriGrant \<Rightarrow> bool" where
  "grant_names parse u segs g \<longleftrightarrow> (\<exists>gu gsegs. parse (g_origin g) = Some gu \<and> grant_origin_ok gu \<and>
     u_origin u = u_origin gu \<and> segments_of (if g_pathPrefix g = [] then ''/'' else g_pathPrefix g) = Some gsegs \<and>
     prefix gsegs segs)"

lemma segments_of_clean: "segments_of p = Some segs \<Longrightarrow> \<forall>x \<in> set segs. x \<noteq> [] \<and> CHR ''/'' \<notin> set x"
  using path_segments_clean [of p] by (auto simp: segments_of_def split: if_splits)

lemma segments_of_no_escape: "segments_of p = Some segs \<Longrightarrow> CHR ''%'' \<notin> set p \<and> CHR 0x5C \<notin> set p"
  by (auto simp: segments_of_def normalizeAuthorizedPath_def split: if_splits)

lemma grant_covers_names:
  assumes "segments_of (u_pathname u) = Some segs"
  shows "grant_covers parse u (path_text segs) g \<longleftrightarrow> grant_names parse u segs g"
proof (cases "parse (g_origin g)")
  case None
  then show ?thesis by (simp add: grant_covers_def grant_names_def)
next
  case (Some gu)
  let ?raw = "if g_pathPrefix g = [] then ''/'' else g_pathPrefix g"
  show ?thesis
  proof (cases "segments_of ?raw")
    case None
    then show ?thesis
      using Some by (simp add: grant_covers_def grant_names_def Let_def normalizeAuthorizedPath_segments)
  next
    case (Some gsegs)
    note clean = segments_of_clean [OF Some] segments_of_clean [OF assms]
    have "path_text gsegs = ''/'' \<or> path_text segs = path_text gsegs \<or>
        startsWith (path_text segs) (if endsWith (path_text gsegs) ''/'' then path_text gsegs else path_text gsegs @ ''/'') \<longleftrightarrow>
        prefix gsegs segs"
      using path_text_prefix [OF clean] path_text_ends [OF clean(1)]
      by (cases "gsegs = []") (simp_all add: path_text_def [of "[]"])
    then show ?thesis
      using Some segments_of_no_escape [OF Some] \<open>parse (g_origin g) = Some gu\<close>
      by (auto simp: grant_covers_def grant_names_def Let_def normalizeAuthorizedPath_segments)
  qed
qed

lemma resourceUriAuthorized_iff:
  "resourceUriAuthorized parse uri grants \<longleftrightarrow>
   (\<exists>u segs. parse uri = Some u \<and> u_username u = [] \<and> u_password u = [] \<and> u_protocol u = ''https:'' \<and>
      segments_of (u_pathname u) = Some segs \<and> (\<exists>g \<in> set grants. grant_names parse u segs g))"
proof (cases "parse uri")
  case (Some u)
  then show ?thesis
    by (cases "segments_of (u_pathname u)")
      (auto simp: resourceUriAuthorized_def normalizeAuthorizedPath_segments list_ex_iff grant_covers_names)
qed (simp add: resourceUriAuthorized_def)

lemma check_grants_iff:
  "check_grants parse p rq = Inr () \<longleftrightarrow>
     ar_purpose rq \<in> set (ip_allowedPurposes p) \<and> ar_audience rq \<in> set (ip_allowedAudiences p) \<and>
     toUpperCase (ar_method rq) \<in> set (ip_allowedHttpMethods p) \<and>
     resourceUriAuthorized parse (ar_uri rq) (ip_allowedResources p) \<and> ip_allowedMethods p \<noteq> [] \<and>
     (\<forall>(i, m) \<in> set (ar_accepts rq). methodKey i m \<in> set (ip_allowedMethods p))"
  by (auto simp: check_grants_def listed_grant_def resourceUriAuthorized_iff)

lemma profile_requires_https_iff:
  "profile_requires_https parse rq profile = Inr () \<longleftrightarrow> profile = DevLocal \<or>
   (\<exists>u a. parse (ar_uri rq) = Some u \<and> parse (ar_audience rq) = Some a \<and>
      u_protocol u = ''https:'' \<and> u_protocol a = ''https:'')"
  by (auto simp: profile_requires_https_def split: option.splits)

subsection \<open>The snapshot of a principal\<close>

definition js_of_grant :: "ResourceUriGrant \<Rightarrow> js" where
  "js_of_grant g = JObj [(''origin'', JStr (g_origin g)), (''pathPrefix'', JStr (g_pathPrefix g))]"

fun js_of_principal :: "AnyIssuancePrincipal \<Rightarrow> js" where
  "js_of_principal (DevWildcard subject) = JObj [(''subject'', JStr subject), (''__devWildcardIssuance'', JBool True)]"
| "js_of_principal (Granted p) = JObj ([(''subject'', JStr (ip_subject p))] @ opt_member ''issuer'' JStr (ip_issuer p) @
     [(''allowedPurposes'', js_strings (ip_allowedPurposes p)), (''allowedAudiences'', js_strings (ip_allowedAudiences p)),
      (''allowedHttpMethods'', js_strings (ip_allowedHttpMethods p)), (''allowedMethods'', js_strings (ip_allowedMethods p)),
      (''allowedResources'', JArr (map js_of_grant (ip_allowedResources p)))])"

definition principal_string :: "nat \<Rightarrow> string \<Rightarrow> bool" where
  "principal_string n s \<longleftrightarrow> s \<noteq> [] \<and> length s \<le> n \<and> \<not> list_ex is_control s"

definition principal_strings :: "string list \<Rightarrow> bool" where
  "principal_strings xs \<longleftrightarrow> (\<forall>x \<in> set xs. principal_string 2048 x)"

fun wf_principal :: "AnyIssuancePrincipal \<Rightarrow> bool" where
  "wf_principal (DevWildcard subject) = principal_string 512 subject"
| "wf_principal (Granted p) \<longleftrightarrow> principal_string 512 (ip_subject p) \<and>
     (case ip_issuer p of None \<Rightarrow> True | Some i \<Rightarrow> principal_string 2048 i) \<and>
     principal_strings (ip_allowedPurposes p) \<and> principal_strings (ip_allowedAudiences p) \<and>
     principal_strings (ip_allowedHttpMethods p) \<and> principal_strings (ip_allowedMethods p) \<and>
     (\<forall>g \<in> set (ip_allowedResources p). principal_string 2048 (g_origin g) \<and> principal_string 2048 (g_pathPrefix g))"

lemma validatedPrincipalString_Some:
  "validatedPrincipalString v n = Some s \<longleftrightarrow> v = JStr s \<and> principal_string n s"
  by (auto simp: validatedPrincipalString_def principal_string_def split: js.splits)

lemma those_map_Some: "those (map f xs) = Some ys \<longleftrightarrow> list_all2 (\<lambda>x y. f x = Some y) xs ys"
  by (induction xs arbitrary: ys) (auto simp: list_all2_Cons1 split: option.splits)

lemma validatedPrincipalStringArray_Some:
  "validatedPrincipalStringArray v = Some ys \<longleftrightarrow> v = JArr (map JStr ys) \<and> principal_strings ys"
proof (cases v)
  case (JArr xs)
  have "list_all2 (\<lambda>x y. x = JStr y \<and> principal_string 2048 y) xs ys \<longleftrightarrow> xs = map JStr ys \<and> principal_strings ys"
    by (induction ys arbitrary: xs) (auto simp: list_all2_Cons2 principal_strings_def)
  then show ?thesis
    by (simp add: JArr validatedPrincipalStringArray_def those_map_Some validatedPrincipalString_Some)
qed (simp_all add: validatedPrincipalStringArray_def)

lemma validated_grant_Some:
  "validated_grant v = Some g \<Longrightarrow> principal_string 2048 (g_origin g) \<and> principal_string 2048 (g_pathPrefix g)"
  by (auto simp: validated_grant_def validatedPrincipalString_Some split: if_splits option.splits)

lemma validated_grant_js:
  "principal_string 2048 (g_origin g) \<Longrightarrow> principal_string 2048 (g_pathPrefix g) \<Longrightarrow>
   validated_grant (js_of_grant g) = Some g"
  by (simp add: validated_grant_def js_of_grant_def isPlainRecord_def exactOwnKeys_def hasOwn_def js_get_JObj
      validatedPrincipalString_def principal_string_def)

lemma those_map_same: "\<forall>x \<in> set xs. f (g x) = Some x \<Longrightarrow> those (map f (map g xs)) = Some xs"
  by (induction xs) auto

lemma validated_grants_Some:
  "those (map validated_grant entries) = Some gs \<Longrightarrow>
   \<forall>g \<in> set gs. principal_string 2048 (g_origin g) \<and> principal_string 2048 (g_pathPrefix g)"
  unfolding those_map_Some
  by (induction entries arbitrary: gs) (auto simp: list_all2_Cons1 dest: validated_grant_Some)

lemma validated_wf: "validateIssuancePrincipal v = Inr p \<Longrightarrow> wf_principal p"
  unfolding validateIssuancePrincipal_def
  by (auto simp: Let_def validatedPrincipalString_Some validatedPrincipalStringArray_Some
      dest: validated_grants_Some split: if_splits option.splits js.splits)

lemma validated_js:
  assumes "wf_principal p"
  shows "validateIssuancePrincipal (js_of_principal p) = Inr p"
proof (cases p)
  case (DevWildcard s)
  then show ?thesis using assms
    by (simp add: validateIssuancePrincipal_def isPlainRecord_def js_get_JObj validatedPrincipalString_def
        principal_string_def exactOwnKeys_def)
next
  case (Granted g)
  have a: "validatedPrincipalStringArray (js_strings xs) = Some xs" if "principal_strings xs" for xs
    using that by (simp add: validatedPrincipalStringArray_Some js_strings_def)
  have r: "those (map validated_grant (map js_of_grant (ip_allowedResources g))) = Some (ip_allowedResources g)"
    using assms Granted by (intro those_map_same) (simp add: validated_grant_js)
  have s: "validatedPrincipalString (JStr x) n = Some x" if "principal_string n x" for x n
    using that by (simp add: validatedPrincipalString_Some)
  show ?thesis
    using assms Granted
    by (cases "ip_issuer g")
      (simp_all add: validateIssuancePrincipal_def isPlainRecord_def js_get_JObj opt_member_def exactOwnKeys_def
        required_grants_def hasOwn_def a r [simplified] s)
qed

text \<open>
  What a router relies on: an authenticator answers with a principal that revalidates to itself.  The
  authorization of a request then depends on the authenticated principal only.
\<close>

locale issuance_authenticator =
  fixes auth :: "string option \<Rightarrow> AnyIssuancePrincipal res"
  assumes authenticated_valid: "auth h = Inr p \<Longrightarrow> wf_principal p"
begin

lemma authorize_authenticated:
  assumes "auth h = Inr p"
  shows "authorizeIssuance parse (js_of_principal p) rq profile =
    bindE (profile_requires_https parse rq profile) (\<lambda>_. case p of
       DevWildcard subject \<Rightarrow> throwIf (profile \<noteq> DevLocal)
         (deny ''METHOD_NOT_AUTHORIZED'' ''Development wildcard issuance is forbidden outside dev-local-0.1'')
     | Granted g \<Rightarrow> check_grants parse g rq)"
  by (simp add: authorizeIssuance_def validated_js [OF authenticated_valid [OF assms]])

end

lemma add_credential_InrD:
  "add_credential H creds (token, v) = Inr creds' \<Longrightarrow>
   is_bearer_token token \<and> map_of creds (bearerCredentialDigest H token) = None \<and>
   (\<exists>p. validateIssuancePrincipal v = Inr p \<and> creds' = AList.update (bearerCredentialDigest H token) p creds)"
  by (auto simp: add_credential_def Let_def split: if_splits)

lemma credentials_fold:
  "foldE (add_credential H) creds0 entries = Inr creds \<Longrightarrow>
   map_of creds d = Some p \<longleftrightarrow> map_of creds0 d = Some p \<or>
     (\<exists>token v. (token, v) \<in> set entries \<and> bearerCredentialDigest H token = d \<and> validateIssuancePrincipal v = Inr p)"
proof (induction entries arbitrary: creds0)
  case (Cons e entries)
  obtain token v where e: "e = (token, v)" by fastforce
  from Cons.prems obtain creds1 where c1: "add_credential H creds0 (token, v) = Inr creds1"
    and rest: "foldE (add_credential H) creds1 entries = Inr creds" by (auto simp: e)
  from add_credential_InrD [OF c1] obtain q where q: "map_of creds0 (bearerCredentialDigest H token) = None"
    "validateIssuancePrincipal v = Inr q" "creds1 = AList.update (bearerCredentialDigest H token) q creds0" by blast
  show ?case
    unfolding Cons.IH [OF rest] q(3) e using q(1,2) by (auto simp: update_conv')
qed simp

lemma authenticate_eq_Inr:
  assumes "createStaticBearerIssuanceAuthenticator H tokens = Inr creds"
  shows "authenticate H creds h = Inr p \<longleftrightarrow> (\<exists>entries t token v. tokens = JObj entries \<and>
     bearer_token_of h = Some t \<and> (token, v) \<in> set entries \<and>
     bearerCredentialDigest H token = bearerCredentialDigest H t \<and> validateIssuancePrincipal v = Inr p)"
proof -
  from assms obtain entries where e: "tokens = JObj entries" "foldE (add_credential H) [] entries = Inr creds"
    by (auto simp: createStaticBearerIssuanceAuthenticator_def split: js.splits)
  have "authenticate H creds h = Inr p \<longleftrightarrow>
      (\<exists>t. bearer_token_of h = Some t \<and> map_of creds (bearerCredentialDigest H t) = Some p)"
    by (cases "bearer_token_of h"; cases "map_of creds (bearerCredentialDigest H (the (bearer_token_of h)))")
      (auto simp: authenticate_def)
  then show ?thesis using credentials_fold [OF e(2)] e(1) by auto
qed

interpretation static_bearer: issuance_authenticator
  "\<lambda>h. bindE (createStaticBearerIssuanceAuthenticator H tokens) (\<lambda>creds. authenticate H creds h)" for H tokens
  by unfold_locales (auto simp: authenticate_eq_Inr dest: validated_wf)

subsection \<open>Properties\<close>

text \<open>
  Issuance is authorized exactly for what is granted: the principal is valid, outside local
  development resource and audience are HTTPS URLs and no wildcard is used, and otherwise purpose, audience,
  HTTP method, resource and every accepted human method are each listed in the principal's grants.
\<close>

theorem authorizeIssuance_exact:
  "authorizeIssuance parse v rq profile = Inr () \<longleftrightarrow> (\<exists>p. validateIssuancePrincipal v = Inr p \<and>
     (profile = DevLocal \<or> (\<exists>u a. parse (ar_uri rq) = Some u \<and> parse (ar_audience rq) = Some a \<and>
        u_protocol u = ''https:'' \<and> u_protocol a = ''https:'')) \<and>
     (case p of
        DevWildcard _ \<Rightarrow> profile = DevLocal
      | Granted g \<Rightarrow>
          ar_purpose rq \<in> set (ip_allowedPurposes g) \<and> ar_audience rq \<in> set (ip_allowedAudiences g) \<and>
          toUpperCase (ar_method rq) \<in> set (ip_allowedHttpMethods g) \<and>
          resourceUriAuthorized parse (ar_uri rq) (ip_allowedResources g) \<and> ip_allowedMethods g \<noteq> [] \<and>
          (\<forall>(i, m) \<in> set (ar_accepts rq). methodKey i m \<in> set (ip_allowedMethods g))))"
  by (auto simp: authorizeIssuance_def profile_requires_https_iff check_grants_iff split: AnyIssuancePrincipal.splits)

definition sample_principal :: IssuancePrincipal where
  "sample_principal = \<lparr>ip_subject = ''issuer'', ip_issuer = None, ip_allowedPurposes = [''vote''],
     ip_allowedAudiences = [''https://a''], ip_allowedHttpMethods = [''POST''], ip_allowedMethods = [''world-id:orb''],
     ip_allowedResources = [\<lparr>g_origin = ''https://a'', g_pathPrefix = ''/records''\<rparr>]\<rparr>"

definition sample_issuance :: IssuanceAuthorizationRequest where
  "sample_issuance = \<lparr>ar_purpose = ''vote'', ar_method = ''post'', ar_uri = ''https://a/records/1'',
     ar_audience = ''https://a'', ar_accepts = [(''world-id'', ''orb'')]\<rparr>"

text \<open>A parser for the sample: everything after the origin is the path.\<close>

definition sample_parse :: url_parser where
  "sample_parse s = (if \<not> startsWith s ''https://a'' then None
     else Some \<lparr>u_href = s, u_origin = ''https://a'', u_protocol = ''https:'', u_host = ''a'', u_hostname = ''a'',
       u_pathname = (if drop 9 s = [] then ''/'' else drop 9 s), u_search = [], u_hash = [], u_username = [], u_password = []\<rparr>)"

theorem authorizeIssuance_exact_witness:
  "authorizeIssuance sample_parse (js_of_principal (Granted sample_principal)) sample_issuance ProdHa = Inr ()"
proof -
  have v: "validateIssuancePrincipal (js_of_principal (Granted sample_principal)) = Inr (Granted sample_principal)"
    by (rule validated_js) code_simp
  have r: "resourceUriAuthorized sample_parse (ar_uri sample_issuance) (ip_allowedResources sample_principal)"
    by code_simp
  have m: "ar_purpose sample_issuance \<in> set (ip_allowedPurposes sample_principal)"
    "ar_audience sample_issuance \<in> set (ip_allowedAudiences sample_principal)"
    "toUpperCase (ar_method sample_issuance) \<in> set (ip_allowedHttpMethods sample_principal)"
    "ip_allowedMethods sample_principal \<noteq> []"
    "list_all (\<lambda>(i, m). methodKey i m \<in> set (ip_allowedMethods sample_principal)) (ar_accepts sample_issuance)"
    "map_option u_protocol (sample_parse (ar_uri sample_issuance)) = Some ''https:''"
    "map_option u_protocol (sample_parse (ar_audience sample_issuance)) = Some ''https:''"
    by code_simp+
  show ?thesis unfolding authorizeIssuance_exact
    using v r m by (intro exI [of _ "Granted sample_principal"]) (auto simp: list_all_iff simp del: js_of_principal.simps)
qed

text \<open>
  A resource is authorized by segments, not by text: a grant covers a URL exactly when the origins agree and
  the grant's path segments are a prefix of the URL's (so \<open>/records\<close> covers \<open>/records/1\<close> and not
  \<open>/records-evil\<close>), for HTTPS URLs without credentials whose path has no escapes, dot segments or empty segments.
\<close>

theorem resource_grants_by_segments:
  "resourceUriAuthorized parse uri grants \<longleftrightarrow>
   (\<exists>u segs. parse uri = Some u \<and> u_username u = [] \<and> u_password u = [] \<and> u_protocol u = ''https:'' \<and>
      segments_of (u_pathname u) = Some segs \<and> (\<exists>g \<in> set grants. grant_names parse u segs g))"
  by (rule resourceUriAuthorized_iff)

text \<open>
  The static authenticator answers a request exactly with the principal configured for the presented bearer
  token, identified by its digest, in the validated form that later authorization sees unchanged.
\<close>

theorem static_bearer_exact:
  assumes "createStaticBearerIssuanceAuthenticator H tokens = Inr creds"
  shows "authenticate H creds h = Inr p \<longleftrightarrow> (\<exists>entries t token v. tokens = JObj entries \<and>
     bearer_token_of h = Some t \<and> (token, v) \<in> set entries \<and>
     bearerCredentialDigest H token = bearerCredentialDigest H t \<and> validateIssuancePrincipal v = Inr p \<and>
     validateIssuancePrincipal (js_of_principal p) = Inr p)"
  unfolding authenticate_eq_Inr [OF assms] using validated_js validated_wf by blast

theorem static_bearer_exact_witness:
  "authenticate sample_hash [(bearerCredentialDigest sample_hash ''tok'', Granted sample_principal)] (Some ''Bearer tok'') =
     Inr (Granted sample_principal)"
proof -
  have v: "validateIssuancePrincipal (js_of_principal (Granted sample_principal)) = Inr (Granted sample_principal)"
    by (rule validated_js) code_simp
  have b: "is_bearer_token ''tok''" "bearer_token_of (Some ''Bearer tok'') = Some ''tok''" by code_simp+
  have "createStaticBearerIssuanceAuthenticator sample_hash (JObj [(''tok'', js_of_principal (Granted sample_principal))]) =
      Inr [(bearerCredentialDigest sample_hash ''tok'', Granted sample_principal)]"
    by (simp add: createStaticBearerIssuanceAuthenticator_def add_credential_def b v del: js_of_principal.simps)
  from static_bearer_exact [OF this] show ?thesis using b v by (auto simp del: js_of_principal.simps)
qed

end
