(* ===== verification/Handoff.thy ===== *)
theory Handoff
  imports Service
begin

section \<open>Brokered handoffs: state and store (src/handoff.ts)\<close>

text \<open>
  A handoff is a durable record that a poller claims, releases or finishes by compare-and-swap.  This theory has
  the record, its strict parser, the AES-GCM envelope of provider state (the cipher is a parameter) and the
  in-memory store.  \<open>pollAfterMs\<close> is a JavaScript number that an adapter chooses, so it stays one.
\<close>

datatype HandoffStatus = HsPending | HsPolling | HsCompleted | HsFailed | HsExpired | HsCancelled

fun status_text :: "HandoffStatus \<Rightarrow> string" where
  "status_text HsPending = ''pending''"
| "status_text HsPolling = ''polling''"
| "status_text HsCompleted = ''completed''"
| "status_text HsFailed = ''failed''"
| "status_text HsExpired = ''expired''"
| "status_text HsCancelled = ''cancelled''"

record HandoffPresentation =
  hp_uri :: string
  hp_userCode :: "string option"

record StoredHumanHandoff =
  hr_handoffId :: string
  hr_dependencyId :: string
  hr_providerId :: string
  hr_methodId :: string
  hr_accessTokenDigest :: string
  hr_status :: HandoffStatus
  hr_pollClaimExpiresAt :: "IsoTimestamp option"
  hr_presentation :: HandoffPresentation
  hr_protectedState :: string
  hr_protectedCompletion :: "string option"
  hr_failureCode :: "string option"
  hr_pollAfterMs :: jsnum
  hr_expiresAt :: IsoTimestamp
  hr_version :: int

subsection \<open>The strict parser of durable state\<close>

text \<open>\<open>Date.parse(v)\<close> of any value: the argument is turned into a string first.\<close>

fun date_parse_js :: "js \<Rightarrow> int option" where
  "date_parse_js (JStr s) = date_parse s"
| "date_parse_js (JNum n) = (if isFinite n then date_parse (json_number n) else None)"
| "date_parse_js (JArr [v]) = date_parse_js v"
| "date_parse_js _ = None"

definition falsy :: "js \<Rightarrow> bool" where
  "falsy v \<longleftrightarrow> v \<in> {JUndefined, JNull, JBool False, JStr [], JNum (IntNum 0), JNum NotANumber}"

definition is_integer_between :: "js \<Rightarrow> int \<Rightarrow> int option \<Rightarrow> bool" where
  "is_integer_between v low high = (case v of
     JNum (IntNum n) \<Rightarrow> low \<le> n \<and> (case high of None \<Rightarrow> True | Some h \<Rightarrow> n \<le> h)
   | _ \<Rightarrow> False)"

definition handoff_statuses :: "string list" where
  "handoff_statuses = [''pending'', ''polling'', ''completed'', ''failed'', ''expired'', ''cancelled'']"

definition invalid_handoff :: "js \<Rightarrow> bool" where
  "invalid_handoff parsed \<longleftrightarrow> falsy parsed \<or>
     typeof (js_get parsed ''handoffId'') \<noteq> ''string'' \<or>
     typeof (js_get parsed ''dependencyId'') \<noteq> ''string'' \<or>
     typeof (js_get parsed ''providerId'') \<noteq> ''string'' \<or>
     typeof (js_get parsed ''methodId'') \<noteq> ''string'' \<or>
     typeof (js_get parsed ''accessTokenDigest'') \<noteq> ''string'' \<or>
     js_get parsed ''status'' \<notin> JStr ` set handoff_statuses \<or>
     js_get (js_get parsed ''presentation'') ''kind'' \<noteq> JStr ''uri'' \<or>
     typeof (js_get (js_get parsed ''presentation'') ''uri'') \<noteq> ''string'' \<or>
     typeof (js_get parsed ''protectedState'') \<noteq> ''string'' \<or>
     \<not> is_integer_between (js_get parsed ''pollAfterMs'') 500 (Some 10000) \<or>
     typeof (js_get parsed ''expiresAt'') \<noteq> ''string'' \<or>
     date_parse_js (js_get parsed ''expiresAt'') = None \<or>
     \<not> is_integer_between (js_get parsed ''version'') 1 None \<or>
     (js_get parsed ''pollClaimExpiresAt'' \<noteq> JUndefined \<and>
      date_parse_js (js_get parsed ''pollClaimExpiresAt'') = None)"

definition parseStoredHumanHandoff :: "js \<Rightarrow> js res" where
  "parseStoredHumanHandoff value =
     bindE (case value of
         JStr s \<Rightarrow> (case JSON_parse s of None \<Rightarrow> Inl (SyntaxError ''Unexpected token'') | Some v \<Rightarrow> Inr v)
       | _ \<Rightarrow> Inr value)
     (\<lambda>parsed. if invalid_handoff parsed then Inl (Error ''Invalid durable handoff state'') else Inr parsed)"

text \<open>A record as the plain object it is; optional members that are absent are left out.\<close>

definition opt_str :: "string \<Rightarrow> string option \<Rightarrow> (string \<times> js) list" where
  "opt_str k v = (case v of None \<Rightarrow> [] | Some s \<Rightarrow> [(k, JStr s)])"

definition js_of_handoff :: "StoredHumanHandoff \<Rightarrow> js" where
  "js_of_handoff r = JObj ([(''handoffId'', JStr (hr_handoffId r)), (''dependencyId'', JStr (hr_dependencyId r)),
     (''providerId'', JStr (hr_providerId r)), (''methodId'', JStr (hr_methodId r)),
     (''accessTokenDigest'', JStr (hr_accessTokenDigest r)), (''status'', JStr (status_text (hr_status r)))] @
     opt_str ''pollClaimExpiresAt'' (hr_pollClaimExpiresAt r) @
     [(''presentation'', JObj ([(''kind'', JStr ''uri''), (''uri'', JStr (hp_uri (hr_presentation r)))] @
        opt_str ''userCode'' (hp_userCode (hr_presentation r)))),
      (''protectedState'', JStr (hr_protectedState r))] @
     opt_str ''protectedCompletion'' (hr_protectedCompletion r) @
     opt_str ''failureCode'' (hr_failureCode r) @
     [(''pollAfterMs'', JNum (hr_pollAfterMs r)), (''expiresAt'', JStr (hr_expiresAt r)),
      (''version'', JNum (IntNum (hr_version r)))])"

subsection \<open>The AES-256-GCM envelope\<close>

text \<open>
  \<open>gcm_seal key iv plaintext\<close> is the ciphertext with its tag, \<open>gcm_open key iv tag ciphertext\<close> the plaintext if
  the tag is right.  The random initialisation vector is an argument.  A plaintext that is not UTF-8 is an error here.
\<close>

record cipher =
  gcm_seal :: "bytes \<Rightarrow> bytes \<Rightarrow> bytes \<Rightarrow> bytes \<times> bytes"
  gcm_open :: "bytes \<Rightarrow> bytes \<Rightarrow> bytes \<Rightarrow> bytes \<Rightarrow> bytes option"

record HandoffStateProtector =
  pt_protect :: "bytes \<Rightarrow> js \<Rightarrow> string res"
  pt_unprotect :: "string \<Rightarrow> js res"

definition envelope_version :: string where
  "envelope_version = ''x424-handoff-a256gcm-v1''"

definition aes_protect :: "cipher \<Rightarrow> bytes \<Rightarrow> bytes \<Rightarrow> js \<Rightarrow> string res" where
  "aes_protect cipher key iv value =
     bindE (canonicalJson value) (\<lambda>text.
       case gcm_seal cipher key iv (utf8_encode text) of (ciphertext, tag) \<Rightarrow>
         Inr (joinWith ''.'' [envelope_version, encodeStrictBase64Url iv, encodeStrictBase64Url tag,
           encodeStrictBase64Url ciphertext]))"

definition aes_unprotect :: "cipher \<Rightarrow> bytes \<Rightarrow> string \<Rightarrow> js res" where
  "aes_unprotect cipher key value = (case splitOn CHR ''.'' value of
     [version, iv, tag, ciphertext] \<Rightarrow>
       if version \<noteq> envelope_version \<or> iv = [] \<or> tag = [] \<or> ciphertext = []
       then Inl (Error ''Invalid protected handoff state'')
       else bindE (decodeStrictBase64Url iv ''handoff iv'') (\<lambda>ivBytes.
            bindE (decodeStrictBase64Url tag ''handoff tag'') (\<lambda>tagBytes.
            bindE (decodeStrictBase64Url ciphertext ''handoff state'') (\<lambda>stateBytes.
            case gcm_open cipher key ivBytes tagBytes stateBytes of
              None \<Rightarrow> Inl (Error ''Unsupported state or unable to authenticate data'')
            | Some plaintext \<Rightarrow> (case Option.bind (utf8_decode_body plaintext) JSON_parse of
                None \<Rightarrow> Inl (SyntaxError ''Unexpected token'')
              | Some v \<Rightarrow> Inr v))))
   | _ \<Rightarrow> Inl (Error ''Invalid protected handoff state''))"

definition new_AesGcmHandoffStateProtector :: "cipher \<Rightarrow> bytes \<Rightarrow> HandoffStateProtector res" where
  "new_AesGcmHandoffStateProtector cipher key =
     (if length key \<noteq> 32 then Inl (Error ''Handoff state key must be exactly 32 bytes'')
      else Inr \<lparr>pt_protect = aes_protect cipher key, pt_unprotect = aes_unprotect cipher key\<rparr>)"

subsection \<open>The in-memory store\<close>

record HandoffStoreState =
  hs_records :: "(string \<times> StoredHumanHandoff) list"
  hs_activeDependencies :: "(string \<times> string) list"

definition new_handoff_store :: HandoffStoreState where
  "new_handoff_store = \<lparr>hs_records = [], hs_activeDependencies = []\<rparr>"

definition handoff_terminal :: "HandoffStatus \<Rightarrow> bool" where
  "handoff_terminal s \<longleftrightarrow> s \<in> {HsCompleted, HsFailed, HsExpired, HsCancelled}"

definition handoff_create :: "HandoffStoreState \<Rightarrow> StoredHumanHandoff \<Rightarrow> bool \<times> HandoffStoreState" where
  "handoff_create s r =
     (if map_of (hs_records s) (hr_handoffId r) \<noteq> None \<or>
         map_of (hs_activeDependencies s) (hr_dependencyId r) \<noteq> None
      then (False, s)
      else (True, \<lparr>hs_records = AList.update (hr_handoffId r) r (hs_records s),
                   hs_activeDependencies =
                     AList.update (hr_dependencyId r) (hr_handoffId r) (hs_activeDependencies s)\<rparr>))"

definition handoff_due :: "StoredHumanHandoff \<Rightarrow> int \<Rightarrow> bool" where
  "handoff_due r now \<longleftrightarrow> (case date_parse (hr_expiresAt r) of None \<Rightarrow> False | Some e \<Rightarrow> e \<le> now)"

definition expired_record :: "StoredHumanHandoff \<Rightarrow> StoredHumanHandoff" where
  "expired_record r = r\<lparr>hr_status := HsExpired, hr_version := hr_version r + 1\<rparr>"

definition handoff_getAuthorized ::
  "HandoffStoreState \<Rightarrow> string \<Rightarrow> string \<Rightarrow> int \<Rightarrow> StoredHumanHandoff option \<times> HandoffStoreState" where
  "handoff_getAuthorized s handoffId accessTokenDigest now = (case map_of (hs_records s) handoffId of
     None \<Rightarrow> (None, s)
   | Some r \<Rightarrow>
       if hr_accessTokenDigest r \<noteq> accessTokenDigest then (None, s)
       else if handoff_due r now \<and> \<not> handoff_terminal (hr_status r)
       then (Some (expired_record r),
             \<lparr>hs_records = AList.update handoffId (expired_record r) (hs_records s),
              hs_activeDependencies = AList.delete (hr_dependencyId r) (hs_activeDependencies s)\<rparr>)
       else (Some r, s))"

definition handoff_update ::
  "HandoffStoreState \<Rightarrow> StoredHumanHandoff \<Rightarrow> StoredHumanHandoff \<Rightarrow> bool \<times> HandoffStoreState" where
  "handoff_update s previous nxt = (case map_of (hs_records s) (hr_handoffId previous) of
     None \<Rightarrow> (False, s)
   | Some current \<Rightarrow>
       if hr_version current \<noteq> hr_version previous \<or>
          hr_accessTokenDigest current \<noteq> hr_accessTokenDigest previous \<or>
          hr_version nxt \<noteq> hr_version previous + 1
       then (False, s)
       else (True, \<lparr>hs_records = AList.update (hr_handoffId nxt) nxt (hs_records s),
              hs_activeDependencies =
                (if handoff_terminal (hr_status nxt)
                 then AList.delete (hr_dependencyId nxt) (hs_activeDependencies s)
                 else hs_activeDependencies s)\<rparr>))"

end
