(* ===== verification/HandoffService.thy ===== *)
theory HandoffService
  imports Handoff
begin

section \<open>The handoff service (src/handoff.ts)\<close>

text \<open>
  \<open>start\<close>, \<open>poll\<close> and \<open>cancel\<close> over a requirement store (\<open>'q\<close>), a handoff store (\<open>'h\<close>) and the verifier service.
  Everything a call reads from outside (clock readings, random bytes, UUIDs, what the provider answers) is its
  \<open>CallEnv\<close>.  \<open>poll\<close> awaits between its accesses to the store, so other calls may run in between: it is split
  at those points into \<open>poll_inspect\<close>, \<open>poll_claim\<close> and \<open>poll_work\<close>, which \<open>poll\<close> composes and the step relation of
  the next theory interleaves.
\<close>

datatype HumanHandoffView =
    PendingView (view_id: string) jsnum IsoTimestamp
  | CompletedView (view_id: string) string IsoTimestamp
  | FailedView (view_id: string) string IsoTimestamp
  | EndedView (view_id: string) HandoffStatus IsoTimestamp

record HandoffStarted =
  hd_providerSession :: js
  hd_presentation :: HandoffPresentation
  hd_expiresAt :: IsoTimestamp
  hd_pollAfterMs :: "jsnum option"

datatype ProviderPoll = ProviderPending | ProviderCompleted js | ProviderFailed string

record HandoffAdapter =
  ha_providerId :: string
  ha_methodIds :: "string list"
  ha_startHandoff :: "HumanRequirement \<Rightarrow> HumanMethodRequirement \<Rightarrow> js \<Rightarrow> HandoffStarted res"
  ha_cancelHandoff :: "(js \<Rightarrow> unit res) option"

record CallEnv =
  en_getAt :: int
  en_checkedAt :: int
  en_claimedAt :: int
  en_requirementAt :: int
  en_challengeCheckedAt :: int
  en_issuedAt :: int
  en_uuid :: string
  en_random :: bytes
  en_iv :: bytes
  en_provider :: "string \<Rightarrow> js \<Rightarrow> ProviderPoll res"

record ('h, 'q, 'n, 'p) HandoffService =
  hv_service :: "('n, 'p) X424Service"
  hv_getRequirement :: "'q \<Rightarrow> string \<Rightarrow> int \<Rightarrow> HumanRequirement option \<times> 'q"
  hv_create :: "'h \<Rightarrow> StoredHumanHandoff \<Rightarrow> bool \<times> 'h"
  hv_getAuthorized :: "'h \<Rightarrow> string \<Rightarrow> string \<Rightarrow> int \<Rightarrow> StoredHumanHandoff option \<times> 'h"
  hv_update :: "'h \<Rightarrow> StoredHumanHandoff \<Rightarrow> StoredHumanHandoff \<Rightarrow> bool \<times> 'h"
  hv_protector :: HandoffStateProtector
  hv_adapters :: "(string \<times> HandoffAdapter) list"
  hv_hash :: hash

record ('h, 'q, 'n, 'p) HandoffWorld =
  hw_store :: 'h
  hw_requirements :: 'q
  hw_service :: "('n, 'p) ServiceState"

definition install_handoff_adapters :: "HandoffAdapter list \<Rightarrow> (string \<times> HandoffAdapter) list res" where
  "install_handoff_adapters adapters = foldE (\<lambda>installed adapter.
     if map_of installed (ha_providerId adapter) \<noteq> None
     then Inl (Error (''Duplicate handoff adapter: '' @ ha_providerId adapter))
     else Inr (AList.update (ha_providerId adapter) adapter installed)) [] adapters"

subsection \<open>Views\<close>

definition pendingView :: "StoredHumanHandoff \<Rightarrow> HumanHandoffView" where
  "pendingView r = PendingView (hr_handoffId r) (hr_pollAfterMs r) (hr_expiresAt r)"

definition terminalView :: "HandoffStateProtector \<Rightarrow> StoredHumanHandoff \<Rightarrow> HumanHandoffView option res" where
  "terminalView protector r = (case hr_status r of
     HsCompleted \<Rightarrow>
       bindE (pt_unprotect protector (case hr_protectedCompletion r of None \<Rightarrow> [] | Some c \<Rightarrow> c)) (\<lambda>completion.
       case js_get completion ''humanProof'' of
         JStr token \<Rightarrow> Inr (Some (CompletedView (hr_handoffId r) token (hr_expiresAt r)))
       | _ \<Rightarrow> Inl (Error ''Invalid protected handoff completion''))
   | HsFailed \<Rightarrow> Inr (Some (FailedView (hr_handoffId r)
       (case hr_failureCode r of None \<Rightarrow> ''HANDOFF_FAILED'' | Some c \<Rightarrow> c) (hr_expiresAt r)))
   | HsExpired \<Rightarrow> Inr (Some (EndedView (hr_handoffId r) HsExpired (hr_expiresAt r)))
   | HsCancelled \<Rightarrow> Inr (Some (EndedView (hr_handoffId r) HsCancelled (hr_expiresAt r)))
   | _ \<Rightarrow> Inr None)"

definition withoutPollClaim :: "StoredHumanHandoff \<Rightarrow> StoredHumanHandoff" where
  "withoutPollClaim r = r\<lparr>hr_pollClaimExpiresAt := None\<rparr>"

definition is_code_char :: "char \<Rightarrow> bool" where
  "is_code_char c \<longleftrightarrow> is_upper_char c \<or> is_digit_char c \<or> c = CHR ''_''"

definition failure_code :: "string \<Rightarrow> string" where
  "failure_code code = take 100 (map (\<lambda>c. if is_code_char c then c else CHR ''_'') code)"

definition failed_record :: "StoredHumanHandoff \<Rightarrow> string \<Rightarrow> StoredHumanHandoff" where
  "failed_record claimed code = claimed\<lparr>hr_status := HsFailed, hr_failureCode := Some (failure_code code),
     hr_version := hr_version claimed + 1\<rparr>"

definition failed_view :: "StoredHumanHandoff \<Rightarrow> string \<Rightarrow> HumanHandoffView" where
  "failed_view claimed code = FailedView (hr_handoffId claimed) (failure_code code) (hr_expiresAt claimed)"

subsection \<open>start\<close>

text \<open>\<open>Math.max(500, Math.min(10_000, x ?? 1_000))\<close>.\<close>

fun clamp_poll_delay :: "jsnum option \<Rightarrow> jsnum" where
  "clamp_poll_delay None = IntNum 1000"
| "clamp_poll_delay (Some (IntNum n)) = IntNum (max 500 (min 10000 n))"
| "clamp_poll_delay (Some (DecNum m e)) =
     (if 10000 * 10 ^ Suc e < m then IntNum 10000
      else if m < 500 * 10 ^ Suc e then IntNum 500 else DecNum m e)"
| "clamp_poll_delay (Some NotANumber) = NotANumber"
| "clamp_poll_delay (Some PosInfinity) = IntNum 10000"
| "clamp_poll_delay (Some NegInfinity) = IntNum 500"

record StartHumanHandoffInput =
  si_dependencyId :: string
  si_nonce :: string
  si_providerId :: string
  si_methodId :: string

record StartedHumanHandoff =
  sd_handoffId :: string
  sd_accessToken :: string
  sd_providerId :: string
  sd_methodId :: string
  sd_presentation :: HandoffPresentation
  sd_expiresAt :: IsoTimestamp
  sd_pollAfterMs :: jsnum

definition start_record ::
  "('h, 'q, 'n, 'p) HandoffService \<Rightarrow> StartHumanHandoffInput \<Rightarrow> CallEnv \<Rightarrow> HumanRequirement option \<Rightarrow>
   StoredHumanHandoff res" where
  "start_record hv input env found = (case found of
     None \<Rightarrow> Inl (Error ''Unknown, expired, or mismatched human dependency'')
   | Some requirement \<Rightarrow>
       if rq_nonce requirement \<noteq> si_nonce input
       then Inl (Error ''Unknown, expired, or mismatched human dependency'')
       else (case accepted_method requirement (si_providerId input) (si_methodId input) of
         None \<Rightarrow> Inl (Error ''Human method is not accepted'')
       | Some acceptedMethod \<Rightarrow> (case map_of (hv_adapters hv) (si_providerId input) of
           None \<Rightarrow> Inl (Error ''Human handoff method is unavailable'')
         | Some adapter \<Rightarrow>
             if si_methodId input \<notin> set (ha_methodIds adapter)
             then Inl (Error ''Human handoff method is unavailable'')
             else
               bindE (ha_startHandoff adapter requirement acceptedMethod
                 (case rq_providerRequests requirement of None \<Rightarrow> JUndefined
                  | Some rs \<Rightarrow> js_get (JObj rs) (methodKey (si_providerId input) (si_methodId input)))) (\<lambda>started.
               bindE (case (date_parse (rq_expiresAt requirement), date_parse (hd_expiresAt started)) of
                   (Some x, Some y) \<Rightarrow> toISOString (min x y)
                 | _ \<Rightarrow> Inl (RangeError ''Invalid time value'')) (\<lambda>expiresAt.
               if whenSome (date_parse expiresAt) (\<lambda>e. e \<le> en_checkedAt env)
               then Inl (Error ''Provider handoff already expired'')
               else
                 bindE (pt_protect (hv_protector hv) (en_iv env) (hd_providerSession started)) (\<lambda>state.
                 Inr \<lparr>hr_handoffId = ''x424_handoff_'' @ en_uuid env,
                   hr_dependencyId = rq_dependencyId requirement, hr_providerId = si_providerId input,
                   hr_methodId = si_methodId input,
                   hr_accessTokenDigest = sha256_text (hv_hash hv) (encodeStrictBase64Url (en_random env)),
                   hr_status = HsPending, hr_pollClaimExpiresAt = None,
                   hr_presentation = hd_presentation started, hr_protectedState = state,
                   hr_protectedCompletion = None, hr_failureCode = None,
                   hr_pollAfterMs = clamp_poll_delay (hd_pollAfterMs started), hr_expiresAt = expiresAt,
                   hr_version = 1\<rparr>))))))"

definition start ::
  "('h, 'q, 'n, 'p) HandoffService \<Rightarrow> ('h, 'q, 'n, 'p) HandoffWorld \<Rightarrow> StartHumanHandoffInput \<Rightarrow> CallEnv \<Rightarrow>
   StartedHumanHandoff res \<times> ('h, 'q, 'n, 'p) HandoffWorld" where
  "start hv w input env = (case hv_getRequirement hv (hw_requirements w) (si_dependencyId input) (en_getAt env) of
     (found, q') \<Rightarrow>
       (let w1 = w\<lparr>hw_requirements := q'\<rparr>
        in case start_record hv input env found of
             Inl e \<Rightarrow> (Inl e, w1)
           | Inr r \<Rightarrow> (case hv_create hv (hw_store w1) r of
               (ok, h') \<Rightarrow>
                 (if \<not> ok then Inl (Error ''Dependency already has an active handoff'')
                  else Inr \<lparr>sd_handoffId = hr_handoffId r, sd_accessToken = encodeStrictBase64Url (en_random env),
                         sd_providerId = si_providerId input, sd_methodId = si_methodId input,
                         sd_presentation = hr_presentation r, sd_expiresAt = hr_expiresAt r,
                         sd_pollAfterMs = hr_pollAfterMs r\<rparr>,
                  w1\<lparr>hw_store := h'\<rparr>))))"

subsection \<open>poll: inspecting and claiming\<close>

text \<open>
  The end of a claim: \<open>min(expiry, now + max(10_000, pollAfterMs * 3))\<close>, truncated towards zero as a time
  value is; \<open>None\<close> for \<open>NaN\<close>.
\<close>

definition truncate_ratio :: "int \<Rightarrow> int \<Rightarrow> int" where
  "truncate_ratio a b = (if a < 0 then - ((- a) div b) else a div b)"

fun claim_end :: "int option \<Rightarrow> int \<Rightarrow> jsnum \<Rightarrow> int option" where
  "claim_end None now delay = None"
| "claim_end (Some e) now (IntNum n) = Some (min e (now + max 10000 (n * 3)))"
| "claim_end (Some e) now (DecNum m k) =
     (let d = 10 ^ Suc k in Some (truncate_ratio (min (e * d) (now * d + max (10000 * d) (m * 3))) d))"
| "claim_end (Some e) now NotANumber = None"
| "claim_end (Some e) now PosInfinity = Some e"
| "claim_end (Some e) now NegInfinity = Some (min e (now + 10000))"

definition claim_record :: "StoredHumanHandoff \<Rightarrow> int \<Rightarrow> StoredHumanHandoff res" where
  "claim_record current now =
     bindE (case claim_end (date_parse (hr_expiresAt current)) now (hr_pollAfterMs current) of
         None \<Rightarrow> Inl (RangeError ''Invalid time value'') | Some t \<Rightarrow> toISOString t) (\<lambda>text.
     Inr (current\<lparr>hr_status := HsPolling, hr_pollClaimExpiresAt := Some text,
       hr_version := hr_version current + 1\<rparr>))"

text \<open>A record without its claim: what reclaiming an abandoned claim and releasing an own one write.\<close>

definition released_record :: "StoredHumanHandoff \<Rightarrow> StoredHumanHandoff" where
  "released_record current =
     (withoutPollClaim current)\<lparr>hr_status := HsPending, hr_version := hr_version current + 1\<rparr>"

text \<open>What a poll does next with the record it read.\<close>

datatype poll_next =
    PollReturn HumanHandoffView
  | PollReclaim StoredHumanHandoff
  | PollClaim StoredHumanHandoff

definition poll_inspect :: "HandoffStateProtector \<Rightarrow> StoredHumanHandoff option \<Rightarrow> int \<Rightarrow> poll_next res" where
  "poll_inspect protector found checkedAt = (case found of
     None \<Rightarrow> Inl (Error ''Unknown handoff capability'')
   | Some current \<Rightarrow>
       bindE (terminalView protector current) (\<lambda>terminal. case terminal of
         Some view \<Rightarrow> Inr (PollReturn view)
       | None \<Rightarrow>
           if hr_status current = HsPolling
           then if whenSome (Option.bind (hr_pollClaimExpiresAt current) date_parse) (\<lambda>t. checkedAt < t)
                then Inr (PollReturn (pendingView current))
                else Inr (PollReclaim current)
           else Inr (PollClaim current)))"

subsection \<open>poll: the claimed part\<close>

text \<open>
  What the claimed poll writes: the record to store, and the view to return when the update succeeds and when it
  does not.  Where the code ignores the outcome of the update both views are the same; a lost completion is
  turned into a failure, whose own update is tried as well.
\<close>

datatype poll_outcome =
    WriteAnyway StoredHumanHandoff HumanHandoffView
  | WriteCompletion StoredHumanHandoff HumanHandoffView

definition fail_claimed :: "StoredHumanHandoff \<Rightarrow> string \<Rightarrow> poll_outcome" where
  "fail_claimed claimed code = WriteAnyway (failed_record claimed code) (failed_view claimed code)"

definition proof_submission :: "HumanRequirement \<Rightarrow> StoredHumanHandoff \<Rightarrow> js \<Rightarrow> HumanProofSubmission" where
  "proof_submission requirement claimed nativeProof =
     \<lparr>pf_x424Version = ''0.1'', pf_dependencyId = rq_dependencyId requirement,
      pf_providerId = hr_providerId claimed, pf_methodId = hr_methodId claimed,
      pf_binding = rq_binding requirement, pf_nativeProof = nativeProof\<rparr>"

definition completed_record :: "StoredHumanHandoff \<Rightarrow> string \<Rightarrow> StoredHumanHandoff" where
  "completed_record claimed completion = claimed\<lparr>hr_status := HsCompleted,
     hr_protectedCompletion := Some completion, hr_version := hr_version claimed + 1\<rparr>"

definition poll_complete ::
  "('h, 'q, 'n, 'p) HandoffService \<Rightarrow> StoredHumanHandoff \<Rightarrow> CallEnv \<Rightarrow> string \<Rightarrow> poll_outcome" where
  "poll_complete hv claimed env token =
     (case pt_protect (hv_protector hv) (en_iv env) (JObj [(''humanProof'', JStr token)]) of
        Inl _ \<Rightarrow> fail_claimed claimed ''HANDOFF_POLL_FAILED''
      | Inr completion \<Rightarrow> WriteCompletion
          (completed_record claimed completion)
          (CompletedView (hr_handoffId claimed) token (hr_expiresAt claimed)))"

definition poll_work ::
  "('h, 'q, 'n, 'p) HandoffService \<Rightarrow> ('h, 'q, 'n, 'p) HandoffWorld \<Rightarrow> StoredHumanHandoff \<Rightarrow> CallEnv \<Rightarrow>
   poll_outcome \<times> ('h, 'q, 'n, 'p) HandoffWorld" where
  "poll_work hv w claimed env = (case map_of (hv_adapters hv) (hr_providerId claimed) of
     None \<Rightarrow> (fail_claimed claimed ''HANDOFF_ADAPTER_UNAVAILABLE'', w)
   | Some adapter \<Rightarrow>
       (case bindE (pt_unprotect (hv_protector hv) (hr_protectedState claimed)) (en_provider env (hr_providerId claimed)) of
          Inl _ \<Rightarrow> (fail_claimed claimed ''HANDOFF_POLL_FAILED'', w)
        | Inr ProviderPending \<Rightarrow> (WriteAnyway (released_record claimed) (pendingView (released_record claimed)), w)
        | Inr (ProviderFailed code) \<Rightarrow> (fail_claimed claimed code, w)
        | Inr (ProviderCompleted nativeProof) \<Rightarrow>
            (case hv_getRequirement hv (hw_requirements w) (hr_dependencyId claimed) (en_requirementAt env) of
               (None, q') \<Rightarrow> (fail_claimed claimed ''DEPENDENCY_NOT_FOUND'', w\<lparr>hw_requirements := q'\<rparr>)
             | (Some requirement, q') \<Rightarrow>
                 (case satisfy (hv_service hv) (hw_service w) requirement
                         (proof_submission requirement claimed nativeProof) (en_challengeCheckedAt env)
                         (en_issuedAt env) (en_uuid env) of
                    (r, st') \<Rightarrow>
                      ((case r of
                          Inl _ \<Rightarrow> fail_claimed claimed ''HANDOFF_POLL_FAILED''
                        | Inr (_, token) \<Rightarrow> poll_complete hv claimed env token),
                       w\<lparr>hw_requirements := q', hw_service := st'\<rparr>)))))"

definition poll_write ::
  "('h, 'q, 'n, 'p) HandoffService \<Rightarrow> 'h \<Rightarrow> StoredHumanHandoff \<Rightarrow> poll_outcome \<Rightarrow> HumanHandoffView \<times> 'h" where
  "poll_write hv h claimed outcome = (case outcome of
     WriteAnyway r view \<Rightarrow> (view, snd (hv_update hv h claimed r))
   | WriteCompletion r view \<Rightarrow> (case hv_update hv h claimed r of
       (True, h') \<Rightarrow> (view, h')
     | (False, h') \<Rightarrow>
         (failed_view claimed ''HANDOFF_POLL_FAILED'',
          snd (hv_update hv h' claimed (failed_record claimed ''HANDOFF_POLL_FAILED'')))))"

subsection \<open>poll and cancel\<close>

definition poll_claimed ::
  "('h, 'q, 'n, 'p) HandoffService \<Rightarrow> ('h, 'q, 'n, 'p) HandoffWorld \<Rightarrow> StoredHumanHandoff \<Rightarrow> CallEnv \<Rightarrow>
   HumanHandoffView res \<times> ('h, 'q, 'n, 'p) HandoffWorld" where
  "poll_claimed hv w current env = (case claim_record current (en_claimedAt env) of
     Inl e \<Rightarrow> (Inl e, w)
   | Inr claimed \<Rightarrow> (case hv_update hv (hw_store w) current claimed of
       (False, h') \<Rightarrow> (Inr (pendingView current), w\<lparr>hw_store := h'\<rparr>)
     | (True, h') \<Rightarrow> (case poll_work hv (w\<lparr>hw_store := h'\<rparr>) claimed env of
         (outcome, w') \<Rightarrow> (case poll_write hv (hw_store w') claimed outcome of
           (view, h'') \<Rightarrow> (Inr view, w'\<lparr>hw_store := h''\<rparr>)))))"

definition poll ::
  "('h, 'q, 'n, 'p) HandoffService \<Rightarrow> ('h, 'q, 'n, 'p) HandoffWorld \<Rightarrow> string \<Rightarrow> string \<Rightarrow> CallEnv \<Rightarrow>
   HumanHandoffView res \<times> ('h, 'q, 'n, 'p) HandoffWorld" where
  "poll hv w handoffId accessToken env =
     (case hv_getAuthorized hv (hw_store w) handoffId (sha256_text (hv_hash hv) accessToken) (en_getAt env) of
        (found, h1) \<Rightarrow>
          (let w1 = w\<lparr>hw_store := h1\<rparr>
           in case poll_inspect (hv_protector hv) found (en_checkedAt env) of
                Inl e \<Rightarrow> (Inl e, w1)
              | Inr (PollReturn view) \<Rightarrow> (Inr view, w1)
              | Inr (PollClaim current) \<Rightarrow> poll_claimed hv w1 current env
              | Inr (PollReclaim current) \<Rightarrow> (case hv_update hv h1 current (released_record current) of
                  (False, h2) \<Rightarrow> (Inr (pendingView current), w1\<lparr>hw_store := h2\<rparr>)
                | (True, h2) \<Rightarrow> poll_claimed hv (w1\<lparr>hw_store := h2\<rparr>) (released_record current) env)))"

definition cancelled_record :: "StoredHumanHandoff \<Rightarrow> StoredHumanHandoff" where
  "cancelled_record current = current\<lparr>hr_status := HsCancelled, hr_version := hr_version current + 1\<rparr>"

text \<open>What cancellation tells the provider; whatever it answers is ignored.\<close>

definition cancel_notice :: "('h, 'q, 'n, 'p) HandoffService \<Rightarrow> StoredHumanHandoff \<Rightarrow> js option" where
  "cancel_notice hv current = (case map_of (hv_adapters hv) (hr_providerId current) of
     None \<Rightarrow> None
   | Some adapter \<Rightarrow> (case ha_cancelHandoff adapter of
       None \<Rightarrow> None
     | Some _ \<Rightarrow> (case pt_unprotect (hv_protector hv) (hr_protectedState current) of
         Inl _ \<Rightarrow> None | Inr session \<Rightarrow> Some session)))"

definition cancel ::
  "('h, 'q, 'n, 'p) HandoffService \<Rightarrow> 'h \<Rightarrow> string \<Rightarrow> string \<Rightarrow> CallEnv \<Rightarrow> bool \<times> js option \<times> 'h" where
  "cancel hv h handoffId accessToken env =
     (case hv_getAuthorized hv h handoffId (sha256_text (hv_hash hv) accessToken) (en_getAt env) of
        (None, h1) \<Rightarrow> (False, None, h1)
      | (Some current, h1) \<Rightarrow>
          if handoff_terminal (hr_status current) then (hr_status current = HsCancelled, None, h1)
          else (case hv_update hv h1 current (cancelled_record current) of
            (ok, h2) \<Rightarrow> (ok, cancel_notice hv current, h2)))"

end
