(* ===== verification/HandoffRuns.thy ===== *)
theory HandoffRuns
  imports HandoffService "HOL-Library.Multiset"
begin

section \<open>Concurrent handoffs: runs and invariants (src/handoff.ts)\<close>

text \<open>
  Every await of \<open>poll\<close> and \<open>cancel\<close> is a point where other calls may run.  A system is the world with the multiset
  of calls that wait at such a point; \<open>handoff_step\<close> lets any of them go on, begins a call, or lets the rest of
  the verifier change the requirement and service state.  The laws a store must satisfy are the locale
  \<open>handoff_cas\<close>, interpreted by the in-memory store.
\<close>

subsection \<open>The step relation\<close>

datatype handoff_task =
    Reclaiming StoredHumanHandoff int
  | Claiming StoredHumanHandoff
  | Working StoredHumanHandoff
  | Writing StoredHumanHandoff poll_outcome
  | WritingFailure StoredHumanHandoff
  | Cancelling StoredHumanHandoff

datatype handoff_event =
    Quiet
  | Created StoredHumanHandoff
  | Reclaimed StoredHumanHandoff int
  | Claimed StoredHumanHandoff
  | Wrote StoredHumanHandoff StoredHumanHandoff

type_synonym ('h, 'q, 'n, 'p) handoff_system = "('h, 'q, 'n, 'p) HandoffWorld \<times> handoff_task multiset"

inductive handoff_step ::
  "('h, 'q, 'n, 'p) HandoffService \<Rightarrow> ('h, 'q, 'n, 'p) handoff_system \<Rightarrow> handoff_event \<Rightarrow>
   ('h, 'q, 'n, 'p) handoff_system \<Rightarrow> bool"
  for hv :: "('h, 'q, 'n, 'p) HandoffService" where
  outside: "handoff_step hv (w, T) Quiet (w\<lparr>hw_requirements := q, hw_service := st\<rparr>, T)"
| start_created: "hv_getRequirement hv (hw_requirements w) (si_dependencyId input) (en_getAt env) = (found, q) \<Longrightarrow>
    start_record hv input env found = Inr r \<Longrightarrow> hv_create hv (hw_store w) r = (True, h) \<Longrightarrow>
    handoff_step hv (w, T) (Created r) (w\<lparr>hw_requirements := q, hw_store := h\<rparr>, T)"
| start_refused: "hv_getRequirement hv (hw_requirements w) (si_dependencyId input) (en_getAt env) = (found, q) \<Longrightarrow>
    start_record hv input env found = Inr r \<Longrightarrow> hv_create hv (hw_store w) r = (False, h) \<Longrightarrow>
    handoff_step hv (w, T) Quiet (w\<lparr>hw_requirements := q, hw_store := h\<rparr>, T)"
| poll_reads: "hv_getAuthorized hv (hw_store w) i (sha256_text (hv_hash hv) token) t = (found, h) \<Longrightarrow>
    (case poll_inspect (hv_protector hv) found t' of
       Inr (PollReclaim c) \<Rightarrow> T' = add_mset (Reclaiming c t') T
     | Inr (PollClaim c) \<Rightarrow> T' = add_mset (Claiming c) T
     | _ \<Rightarrow> T' = T) \<Longrightarrow>
    handoff_step hv (w, T) Quiet (w\<lparr>hw_store := h\<rparr>, T')"
| reclaim_won: "hv_update hv (hw_store w) c (released_record c) = (True, h) \<Longrightarrow>
    handoff_step hv (w, add_mset (Reclaiming c t) T) (Reclaimed c t)
      (w\<lparr>hw_store := h\<rparr>, add_mset (Claiming (released_record c)) T)"
| reclaim_lost: "hv_update hv (hw_store w) c (released_record c) = (False, h) \<Longrightarrow>
    handoff_step hv (w, add_mset (Reclaiming c t) T) Quiet (w\<lparr>hw_store := h\<rparr>, T)"
| claim_throws: "claim_record c now = Inl e \<Longrightarrow>
    handoff_step hv (w, add_mset (Claiming c) T) Quiet (w, T)"
| claim_won: "claim_record c now = Inr claimed \<Longrightarrow> hv_update hv (hw_store w) c claimed = (True, h) \<Longrightarrow>
    handoff_step hv (w, add_mset (Claiming c) T) (Claimed claimed)
      (w\<lparr>hw_store := h\<rparr>, add_mset (Working claimed) T)"
| claim_lost: "claim_record c now = Inr claimed \<Longrightarrow> hv_update hv (hw_store w) c claimed = (False, h) \<Longrightarrow>
    handoff_step hv (w, add_mset (Claiming c) T) Quiet (w\<lparr>hw_store := h\<rparr>, T)"
| works: "poll_work hv w c env = (outcome, w') \<Longrightarrow>
    handoff_step hv (w, add_mset (Working c) T) Quiet (w', add_mset (Writing c outcome) T)"
| write_won: "outcome = WriteAnyway r view \<or> outcome = WriteCompletion r view \<Longrightarrow>
    hv_update hv (hw_store w) c r = (True, h) \<Longrightarrow>
    handoff_step hv (w, add_mset (Writing c outcome) T) (Wrote c r) (w\<lparr>hw_store := h\<rparr>, T)"
| write_lost: "hv_update hv (hw_store w) c r = (False, h) \<Longrightarrow>
    handoff_step hv (w, add_mset (Writing c (WriteAnyway r view)) T) Quiet (w\<lparr>hw_store := h\<rparr>, T)"
| completion_lost: "hv_update hv (hw_store w) c r = (False, h) \<Longrightarrow>
    handoff_step hv (w, add_mset (Writing c (WriteCompletion r view)) T) Quiet
      (w\<lparr>hw_store := h\<rparr>, add_mset (WritingFailure c) T)"
| failure_won: "r = failed_record c ''HANDOFF_POLL_FAILED'' \<Longrightarrow> hv_update hv (hw_store w) c r = (True, h) \<Longrightarrow>
    handoff_step hv (w, add_mset (WritingFailure c) T) (Wrote c r) (w\<lparr>hw_store := h\<rparr>, T)"
| failure_lost: "r = failed_record c ''HANDOFF_POLL_FAILED'' \<Longrightarrow> hv_update hv (hw_store w) c r = (False, h) \<Longrightarrow>
    handoff_step hv (w, add_mset (WritingFailure c) T) Quiet (w\<lparr>hw_store := h\<rparr>, T)"
| cancel_reads: "hv_getAuthorized hv (hw_store w) i (sha256_text (hv_hash hv) token) t = (found, h) \<Longrightarrow>
    (case found of
       None \<Rightarrow> T' = T
     | Some c \<Rightarrow> T' = (if handoff_terminal (hr_status c) then T else add_mset (Cancelling c) T)) \<Longrightarrow>
    handoff_step hv (w, T) Quiet (w\<lparr>hw_store := h\<rparr>, T')"
| cancel_writes: "hv_update hv (hw_store w) c (cancelled_record c) = (ok, h) \<Longrightarrow>
    handoff_step hv (w, add_mset (Cancelling c) T) Quiet (w\<lparr>hw_store := h\<rparr>, T)"

inductive handoff_run ::
  "('h, 'q, 'n, 'p) HandoffService \<Rightarrow> ('h, 'q, 'n, 'p) handoff_system \<Rightarrow> handoff_event list \<Rightarrow>
   ('h, 'q, 'n, 'p) handoff_system \<Rightarrow> bool"
  for hv :: "('h, 'q, 'n, 'p) HandoffService" where
  run_nil: "handoff_run hv s [] s"
| run_step: "handoff_step hv s e s' \<Longrightarrow> handoff_run hv s' es s'' \<Longrightarrow> handoff_run hv s (e # es) s''"

inductive_cases handoff_run_NilE: "handoff_run hv s [] s'"
inductive_cases handoff_run_ConsE: "handoff_run hv s (e # es) s'"

subsection \<open>How a stored record may change\<close>

definition same_handoff :: "StoredHumanHandoff \<Rightarrow> StoredHumanHandoff \<Rightarrow> bool" where
  "same_handoff a b \<longleftrightarrow> hr_handoffId a = hr_handoffId b \<and> hr_dependencyId a = hr_dependencyId b \<and>
     hr_providerId a = hr_providerId b \<and> hr_methodId a = hr_methodId b \<and>
     hr_accessTokenDigest a = hr_accessTokenDigest b \<and> hr_presentation a = hr_presentation b \<and>
     hr_protectedState a = hr_protectedState b \<and> hr_pollAfterMs a = hr_pollAfterMs b \<and>
     hr_expiresAt a = hr_expiresAt b"

inductive handoff_edge :: "StoredHumanHandoff \<Rightarrow> StoredHumanHandoff \<Rightarrow> bool" where
  edge_claim: "hr_status r = HsPending \<Longrightarrow> claim_record r now = Inr r' \<Longrightarrow> handoff_edge r r'"
| edge_release: "hr_status r = HsPolling \<Longrightarrow> handoff_edge r (released_record r)"
| edge_fail: "hr_status r = HsPolling \<Longrightarrow> handoff_edge r (failed_record r code)"
| edge_complete: "hr_status r = HsPolling \<Longrightarrow> handoff_edge r (completed_record r completion)"
| edge_expire: "\<not> handoff_terminal (hr_status r) \<Longrightarrow> handoff_due r now \<Longrightarrow> handoff_edge r (expired_record r)"
| edge_cancel: "\<not> handoff_terminal (hr_status r) \<Longrightarrow> handoff_edge r (cancelled_record r)"

lemmas handoff_records = released_record_def failed_record_def completed_record_def expired_record_def
  cancelled_record_def withoutPollClaim_def

lemma same_handoff_refl [simp]: "same_handoff r r"
  by (simp add: same_handoff_def)

lemma same_handoff_trans: "same_handoff a b \<Longrightarrow> same_handoff b c \<Longrightarrow> same_handoff a c"
  by (simp add: same_handoff_def)

lemma claim_record_InrD:
  "claim_record r now = Inr r' \<Longrightarrow>
   same_handoff r r' \<and> hr_version r' = hr_version r + 1 \<and> hr_status r' = HsPolling"
  by (auto simp: claim_record_def same_handoff_def split: option.splits)

lemma handoff_edgeD:
  "handoff_edge r r' \<Longrightarrow> same_handoff r r' \<and> hr_version r' = hr_version r + 1 \<and> \<not> handoff_terminal (hr_status r)"
  by (induction rule: handoff_edge.induct)
    (use claim_record_InrD in \<open>auto simp: same_handoff_def handoff_records handoff_terminal_def\<close>)

lemma handoff_edge_id: "handoff_edge r r' \<Longrightarrow> hr_handoffId r' = hr_handoffId r"
  using handoff_edgeD by (fastforce simp: same_handoff_def)

lemma handoff_edge_terminal: "handoff_terminal (hr_status r) \<Longrightarrow> \<not> handoff_edge r r'"
  using handoff_edgeD by blast

subsection \<open>What waiting calls know\<close>

definition claim_over :: "StoredHumanHandoff \<Rightarrow> int \<Rightarrow> bool" where
  "claim_over c t \<longleftrightarrow> \<not> whenSome (Option.bind (hr_pollClaimExpiresAt c) date_parse) (\<lambda>e. t < e)"

fun task_record :: "handoff_task \<Rightarrow> StoredHumanHandoff" where
  "task_record (Reclaiming c t) = c"
| "task_record (Claiming c) = c"
| "task_record (Working c) = c"
| "task_record (Writing c outcome) = c"
| "task_record (WritingFailure c) = c"
| "task_record (Cancelling c) = c"

fun outcome_ok :: "StoredHumanHandoff \<Rightarrow> poll_outcome \<Rightarrow> bool" where
  "outcome_ok c (WriteAnyway r view) = (r = released_record c \<or> (\<exists>code. r = failed_record c code))"
| "outcome_ok c (WriteCompletion r view) = (\<exists>completion. r = completed_record c completion)"

fun task_shape :: "handoff_task \<Rightarrow> bool" where
  "task_shape (Reclaiming c t) = (hr_status c = HsPolling \<and> claim_over c t)"
| "task_shape (Claiming c) = (hr_status c = HsPending)"
| "task_shape (Working c) = (hr_status c = HsPolling)"
| "task_shape (Writing c outcome) = (hr_status c = HsPolling \<and> outcome_ok c outcome)"
| "task_shape (WritingFailure c) = (hr_status c = HsPolling)"
| "task_shape (Cancelling c) = (\<not> handoff_terminal (hr_status c))"

text \<open>A record read earlier is the current one as long as the version is the same.\<close>

definition snapshot :: "(string \<Rightarrow> StoredHumanHandoff option) \<Rightarrow> StoredHumanHandoff \<Rightarrow> bool" where
  "snapshot v c \<longleftrightarrow> (\<exists>cur. v (hr_handoffId c) = Some cur \<and> same_handoff c cur \<and>
     hr_version c \<le> hr_version cur \<and> (hr_version c = hr_version cur \<longrightarrow> cur = c))"

definition tasks_ok :: "(string \<Rightarrow> StoredHumanHandoff option) \<Rightarrow> handoff_task multiset \<Rightarrow> bool" where
  "tasks_ok v T \<longleftrightarrow> (\<forall>k \<in># T. snapshot v (task_record k) \<and> task_shape k)"

lemma tasks_ok_empty [simp]: "tasks_ok v {#}"
  by (simp add: tasks_ok_def)

lemma tasks_ok_add [simp]:
  "tasks_ok v (add_mset k T) \<longleftrightarrow> snapshot v (task_record k) \<and> task_shape k \<and> tasks_ok v T"
  by (auto simp: tasks_ok_def)

lemma snapshot_current: "v (hr_handoffId c) = Some c \<Longrightarrow> snapshot v c"
  by (simp add: snapshot_def)

lemma snapshot_edge:
  assumes "snapshot v c" "v i = Some r" "hr_handoffId r = i" "handoff_edge r r'"
  shows "snapshot (v(i \<mapsto> r')) c"
proof (cases "hr_handoffId c = i")
  case True
  with assms have "same_handoff c r" "hr_version c \<le> hr_version r" by (auto simp: snapshot_def)
  with True handoff_edgeD [OF assms(4)] show ?thesis
    by (auto simp: snapshot_def intro: same_handoff_trans)
next
  case False
  with assms show ?thesis by (simp add: snapshot_def)
qed

lemma snapshot_new: "snapshot v c \<Longrightarrow> v i = None \<Longrightarrow> snapshot (v(i \<mapsto> r)) c"
  by (auto simp: snapshot_def)

lemma tasks_ok_edge:
  "tasks_ok v T \<Longrightarrow> v i = Some r \<Longrightarrow> hr_handoffId r = i \<Longrightarrow> handoff_edge r r' \<Longrightarrow> tasks_ok (v(i \<mapsto> r')) T"
  using snapshot_edge by (fastforce simp: tasks_ok_def)

lemma tasks_ok_new: "tasks_ok v T \<Longrightarrow> v i = None \<Longrightarrow> tasks_ok (v(i \<mapsto> r)) T"
  using snapshot_new by (fastforce simp: tasks_ok_def)

lemma poll_work_store: "poll_work hv w c env = (outcome, w') \<Longrightarrow> hw_store w' = hw_store w"
  by (auto simp: poll_work_def split: option.splits sum.splits ProviderPoll.splits prod.splits)

lemma outcome_ok_fail [simp]: "outcome_ok c (fail_claimed c code)"
  by (auto simp: fail_claimed_def)

lemma outcome_ok_complete [simp]: "outcome_ok c (poll_complete hv c env token)"
  by (auto simp: poll_complete_def split: sum.splits)

lemma poll_work_outcome: "poll_work hv w c env = (outcome, w') \<Longrightarrow> outcome_ok c outcome"
  by (auto simp: poll_work_def split: option.splits sum.splits ProviderPoll.splits prod.splits)

lemma terminalView_None: "terminalView p r = Inr None \<longleftrightarrow> hr_status r \<in> {HsPending, HsPolling}"
proof (cases "hr_status r = HsCompleted")
  case True
  have "(case v of JStr token \<Rightarrow> Inr (Some (CompletedView i token e)) | _ \<Rightarrow> Inl (x :: exn)) \<noteq> Inr None" for v i e x
    by (cases v) simp_all
  with True show ?thesis by (simp add: terminalView_def)
next
  case False
  then show ?thesis by (cases "hr_status r") (simp_all add: terminalView_def)
qed

lemma poll_inspect_shape:
  "poll_inspect p (Some c) t = Inr (PollReclaim d) \<Longrightarrow> d = c \<and> hr_status c = HsPolling \<and> claim_over c t"
  "poll_inspect p (Some c) t = Inr (PollClaim d) \<Longrightarrow> d = c \<and> hr_status c = HsPending"
  using terminalView_None [of p c]
  by (auto simp: poll_inspect_def claim_over_def split: option.splits if_splits)

lemma poll_inspect_None [simp]: "poll_inspect p None t = Inl (Error ''Unknown handoff capability'')"
  by (simp add: poll_inspect_def)

lemma start_record_fresh:
  "start_record hv input env found = Inr r \<Longrightarrow> hr_status r = HsPending \<and> hr_version r = 1"
  by (auto simp: start_record_def bindE_def split: option.splits if_splits sum.splits)

subsection \<open>The laws of a handoff store\<close>

text \<open>
  \<open>view h i\<close> is the record stored under an identifier and \<open>ok\<close> the store's invariant, kept as long as records
  change along the edges of the lifecycle.
\<close>

locale handoff_cas =
  fixes hv :: "('h, 'q, 'n, 'p) HandoffService"
    and view :: "'h \<Rightarrow> string \<Rightarrow> StoredHumanHandoff option" and ok :: "'h \<Rightarrow> bool"
  assumes view_id: "ok h \<Longrightarrow> view h i = Some r \<Longrightarrow> hr_handoffId r = i"
    and one_active: "ok h \<Longrightarrow> view h i = Some r \<Longrightarrow> view h j = Some r' \<Longrightarrow>
      hr_dependencyId r = hr_dependencyId r' \<Longrightarrow> \<not> handoff_terminal (hr_status r) \<Longrightarrow>
      \<not> handoff_terminal (hr_status r') \<Longrightarrow> i = j"
    and create_won: "ok h \<Longrightarrow> hv_create hv h r = (True, h') \<Longrightarrow> \<not> handoff_terminal (hr_status r) \<Longrightarrow>
      ok h' \<and> view h (hr_handoffId r) = None \<and> view h' = (view h)(hr_handoffId r \<mapsto> r)"
    and create_lost: "hv_create hv h r = (False, h') \<Longrightarrow> h' = h"
    and get_none: "hv_getAuthorized hv h i d t = (None, h') \<Longrightarrow> h' = h"
    and get_found: "ok h \<Longrightarrow> hv_getAuthorized hv h i d t = (Some r, h') \<Longrightarrow>
      ok h' \<and> hr_accessTokenDigest r = d \<and> view h' i = Some r \<and>
      (h' = h \<or> (\<exists>c. view h i = Some c \<and> \<not> handoff_terminal (hr_status c) \<and> handoff_due c t \<and>
         r = expired_record c \<and> view h' = (view h)(i \<mapsto> r)))"
    and update_won: "ok h \<Longrightarrow> hv_update hv h p n = (True, h') \<Longrightarrow>
      (\<exists>c. view h (hr_handoffId p) = Some c \<and> hr_version c = hr_version p) \<and>
      view h' = (view h)(hr_handoffId n \<mapsto> n)"
    and update_inv: "ok h \<Longrightarrow> hv_update hv h p n = (True, h') \<Longrightarrow> view h (hr_handoffId p) = Some p \<Longrightarrow>
      handoff_edge p n \<Longrightarrow> ok h'"
    and update_lost: "hv_update hv h p n = (False, h') \<Longrightarrow> h' = h"

definition handoff_inv ::
  "('h \<Rightarrow> string \<Rightarrow> StoredHumanHandoff option) \<Rightarrow> ('h \<Rightarrow> bool) \<Rightarrow> ('h, 'q, 'n, 'p) handoff_system \<Rightarrow> bool" where
  "handoff_inv view ok s \<longleftrightarrow> ok (hw_store (fst s)) \<and> tasks_ok (view (hw_store (fst s))) (snd s)"

text \<open>What one step does to the store: nothing, a new record, or one edge of the record an event names.\<close>

fun event_edge :: "handoff_event \<Rightarrow> StoredHumanHandoff \<Rightarrow> StoredHumanHandoff \<Rightarrow> bool" where
  "event_edge Quiet r r' = (r' = expired_record r \<or> r' = cancelled_record r)"
| "event_edge (Created c) r r' = False"
| "event_edge (Reclaimed c t) r r' = (c = r \<and> r' = released_record r \<and> claim_over r t)"
| "event_edge (Claimed c) r r' = (c = r' \<and> hr_status r = HsPending \<and> hr_status r' = HsPolling)"
| "event_edge (Wrote c d) r r' = (c = r \<and> d = r' \<and> hr_status r = HsPolling)"

definition store_change ::
  "(string \<Rightarrow> StoredHumanHandoff option) \<Rightarrow> handoff_event \<Rightarrow> (string \<Rightarrow> StoredHumanHandoff option) \<Rightarrow> bool" where
  "store_change v e v' \<longleftrightarrow> (e = Quiet \<and> v' = v) \<or>
     (\<exists>r. e = Created r \<and> v (hr_handoffId r) = None \<and> hr_status r = HsPending \<and> hr_version r = 1 \<and>
        v' = v(hr_handoffId r \<mapsto> r)) \<or>
     (\<exists>r r'. v (hr_handoffId r) = Some r \<and> handoff_edge r r' \<and> event_edge e r r' \<and>
        v' = v(hr_handoffId r \<mapsto> r'))"

lemma store_change_tasks:
  assumes "store_change v e v'" "tasks_ok v T"
  shows "tasks_ok v' T"
  using assms tasks_ok_edge [of v T] tasks_ok_new [of v T] by (auto simp: store_change_def)

context handoff_cas
begin

lemma own_update:
  assumes "ok h" "tasks_ok (view h) (add_mset k T)" "task_record k = c"
    "hv_update hv h c r = (True, h')" "handoff_edge c r"
  shows "view h (hr_handoffId c) = Some c \<and> view h' = (view h)(hr_handoffId c \<mapsto> r) \<and> ok h' \<and>
    tasks_ok (view h') T \<and> snapshot (view h') r"
proof -
  obtain cur where "view h (hr_handoffId c) = Some cur" "hr_version cur = hr_version c"
    and v: "view h' = (view h)(hr_handoffId r \<mapsto> r)"
    using update_won [OF assms(1,4)] by blast
  with assms(2,3) have now: "view h (hr_handoffId c) = Some c" by (auto simp: snapshot_def)
  have id: "hr_handoffId r = hr_handoffId c" by (rule handoff_edge_id [OF assms(5)])
  have "tasks_ok (view h') T"
    using assms(2) tasks_ok_edge [of "view h" T "hr_handoffId c" c r] now assms(5) unfolding v id by simp
  moreover have "snapshot (view h') r" unfolding v by (simp add: snapshot_current)
  ultimately show ?thesis using now update_inv [OF assms(1,4) now assms(5)] v id by simp
qed

lemma own_update_ok:
  assumes "ok h" "tasks_ok (view h) (add_mset k T)" "task_record k = c"
    "hv_update hv h c r = (True, h')" "handoff_edge c r"
  shows "ok h' \<and> tasks_ok (view h') T \<and> snapshot (view h') r"
  using own_update [OF assms] by blast

lemma own_update_change:
  assumes "ok h" "tasks_ok (view h) (add_mset k T)" "task_record k = c"
    "hv_update hv h c r = (True, h')" "handoff_edge c r" "event_edge e c r"
  shows "store_change (view h) e (view h')"
  using own_update [OF assms(1-5)] assms(5,6) unfolding store_change_def by blast

lemma get_change:
  assumes "ok h" "hv_getAuthorized hv h i d t = (found, h')"
  shows "ok h' \<and> store_change (view h) Quiet (view h') \<and> (\<forall>c. found = Some c \<longrightarrow> snapshot (view h') c)"
proof (cases found)
  case None
  with assms get_none [of h i d t h'] show ?thesis by (simp add: store_change_def)
next
  case (Some r)
  have g: "ok h'" "view h' i = Some r" "h' = h \<or> (\<exists>c. view h i = Some c \<and> \<not> handoff_terminal (hr_status c) \<and>
      handoff_due c t \<and> r = expired_record c \<and> view h' = (view h)(i \<mapsto> r))"
    using get_found [OF assms(1)] assms(2) Some by auto
  have "hr_handoffId r = i" by (rule view_id [OF g(1,2)])
  then have snap: "snapshot (view h') r" using g(2) by (simp add: snapshot_current)
  have "store_change (view h) Quiet (view h')"
    using g(3)
  proof
    assume "h' = h"
    then show ?thesis by (simp add: store_change_def)
  next
    assume "\<exists>c. view h i = Some c \<and> \<not> handoff_terminal (hr_status c) \<and>
      handoff_due c t \<and> r = expired_record c \<and> view h' = (view h)(i \<mapsto> r)"
    then obtain c where c: "view h i = Some c" "\<not> handoff_terminal (hr_status c)" "handoff_due c t"
      "r = expired_record c" "view h' = (view h)(i \<mapsto> r)" by blast
    have "hr_handoffId c = i" by (rule view_id [OF assms(1) c(1)])
    with c edge_expire [OF c(2,3)] show ?thesis unfolding store_change_def event_edge.simps by blast
  qed
  with g(1) snap Some show ?thesis by simp
qed

lemma step_change:
  assumes "handoff_step hv s e s'" "handoff_inv view ok s"
  shows "store_change (view (hw_store (fst s))) e (view (hw_store (fst s'))) \<and> handoff_inv view ok s'"
  using assms
proof (cases rule: handoff_step.cases)
  case (outside w T q st)
  with assms(2) show ?thesis by (simp add: handoff_inv_def store_change_def)
next
  case (start_created w input env found q r h T)
  then have r: "hr_status r = HsPending" "hr_version r = 1"
    by (simp_all add: start_record_fresh)
  have "ok h \<and> view (hw_store w) (hr_handoffId r) = None \<and>
      view h = (view (hw_store w))(hr_handoffId r \<mapsto> r)"
    using create_won [OF _ start_created(6)] start_created(1) assms(2) r(1)
    by (simp add: handoff_inv_def handoff_terminal_def)
  with start_created assms(2) r show ?thesis
    by (auto simp: handoff_inv_def store_change_def intro: tasks_ok_new)
next
  case (start_refused w input env found q r h T)
  with assms(2) create_lost [of "hw_store w" r h] show ?thesis by (simp add: handoff_inv_def store_change_def)
next
  case (poll_reads w i token t found h t' T' T)
  from poll_reads assms(2) have inv: "ok (hw_store w)" "tasks_ok (view (hw_store w)) T"
    by (simp_all add: handoff_inv_def)
  have g: "ok h" "store_change (view (hw_store w)) Quiet (view h)" "\<And>c. found = Some c \<Longrightarrow> snapshot (view h) c"
    using get_change [OF inv(1) poll_reads(4)] by auto
  have T: "tasks_ok (view h) T" by (rule store_change_tasks [OF g(2) inv(2)])
  have "tasks_ok (view h) T'"
    using poll_reads(5) g(3) T poll_inspect_shape [of "hv_protector hv" _ t']
    by (cases found) (auto split: sum.splits poll_next.splits)
  with poll_reads g show ?thesis by (simp add: handoff_inv_def)
next
  case (reclaim_won w c h t T)
  then have inv: "ok (hw_store w)" "tasks_ok (view (hw_store w)) (add_mset (Reclaiming c t) T)"
    using assms(2) by (simp_all add: handoff_inv_def)
  then have e: "handoff_edge c (released_record c)" by (simp add: edge_release)
  show ?thesis
    using own_update_ok [OF inv _ reclaim_won(4) e] own_update_change [OF inv _ reclaim_won(4) e, of "Reclaimed c t"]
      reclaim_won inv by (simp add: handoff_inv_def) (simp add: released_record_def)
next
  case (reclaim_lost w c h t T)
  with assms(2) update_lost [OF reclaim_lost(4)] show ?thesis by (simp add: handoff_inv_def store_change_def)
next
  case (claim_throws c now ex w T)
  with assms(2) show ?thesis by (simp add: handoff_inv_def store_change_def)
next
  case (claim_won c now claimed w h T)
  then have inv: "ok (hw_store w)" "tasks_ok (view (hw_store w)) (add_mset (Claiming c) T)"
    using assms(2) by (simp_all add: handoff_inv_def)
  then have e: "handoff_edge c claimed" using claim_won(4) by (auto intro: edge_claim)
  show ?thesis
    using own_update_ok [OF inv _ claim_won(5) e] own_update_change [OF inv _ claim_won(5) e, of "Claimed claimed"]
      claim_record_InrD [OF claim_won(4)] claim_won inv by (simp add: handoff_inv_def)
next
  case (claim_lost c now claimed w h T)
  with assms(2) update_lost [OF claim_lost(5)] show ?thesis by (simp add: handoff_inv_def store_change_def)
next
  case (works w c env outcome w' T)
  with assms(2) poll_work_store [OF works(4)] poll_work_outcome [OF works(4)] show ?thesis
    by (simp add: handoff_inv_def store_change_def)
next
  case (write_won outcome r view' w c h T)
  then have inv: "ok (hw_store w)" "tasks_ok (view (hw_store w)) (add_mset (Writing c outcome) T)"
    using assms(2) by (simp_all add: handoff_inv_def)
  then have e: "handoff_edge c r"
    using write_won(4) by (auto intro: edge_release edge_fail edge_complete)
  show ?thesis
    using own_update_ok [OF inv _ write_won(5) e] own_update_change [OF inv _ write_won(5) e, of "Wrote c r"]
      write_won inv by (simp add: handoff_inv_def)
next
  case (write_lost w c r h view' T)
  with assms(2) update_lost [OF write_lost(4)] show ?thesis by (simp add: handoff_inv_def store_change_def)
next
  case (completion_lost w c r h view' T)
  with assms(2) update_lost [OF completion_lost(4)] show ?thesis by (simp add: handoff_inv_def store_change_def)
next
  case (failure_won r c w h T)
  then have inv: "ok (hw_store w)" "tasks_ok (view (hw_store w)) (add_mset (WritingFailure c) T)"
    using assms(2) by (simp_all add: handoff_inv_def)
  then have e: "handoff_edge c r" using failure_won(4) by (auto intro: edge_fail)
  show ?thesis
    using own_update_ok [OF inv _ failure_won(5) e] own_update_change [OF inv _ failure_won(5) e, of "Wrote c r"]
      failure_won inv by (simp add: handoff_inv_def)
next
  case (failure_lost r c w h T)
  with assms(2) update_lost [OF failure_lost(5)] show ?thesis by (simp add: handoff_inv_def store_change_def)
next
  case (cancel_reads w i token t found h T' T)
  from cancel_reads assms(2) have inv: "ok (hw_store w)" "tasks_ok (view (hw_store w)) T"
    by (simp_all add: handoff_inv_def)
  have g: "ok h" "store_change (view (hw_store w)) Quiet (view h)" "\<And>c. found = Some c \<Longrightarrow> snapshot (view h) c"
    using get_change [OF inv(1) cancel_reads(4)] by auto
  have T: "tasks_ok (view h) T" by (rule store_change_tasks [OF g(2) inv(2)])
  have "tasks_ok (view h) T'"
    using cancel_reads(5) g(3) T by (cases found) (auto split: if_splits)
  with cancel_reads g show ?thesis by (simp add: handoff_inv_def)
next
  case (cancel_writes w c got h T)
  then have inv: "ok (hw_store w)" "tasks_ok (view (hw_store w)) (add_mset (Cancelling c) T)"
    using assms(2) by (simp_all add: handoff_inv_def)
  then have e: "handoff_edge c (cancelled_record c)" by (simp add: edge_cancel)
  show ?thesis
  proof (cases got)
    case True
    with cancel_writes(4) have u: "hv_update hv (hw_store w) c (cancelled_record c) = (True, h)" by simp
    show ?thesis
      using own_update_ok [OF inv _ u e] own_update_change [OF inv _ u e, of Quiet] cancel_writes inv
      by (simp add: handoff_inv_def)
  next
    case False
    with cancel_writes(4) have "h = hw_store w" by (auto dest: update_lost)
    with cancel_writes assms(2) show ?thesis
      by (simp add: handoff_inv_def store_change_def)
  qed
qed

end

subsection \<open>Runs\<close>

lemma store_change_cases:
  assumes "store_change v e v'"
  obtains (same) "e = Quiet" "v' = v"
  | (new) q where "e = Created q" "v (hr_handoffId q) = None" "v' = v(hr_handoffId q \<mapsto> q)"
  | (edge) q r' where "v (hr_handoffId q) = Some q" "handoff_edge q r'" "event_edge e q r'"
      "v' = v(hr_handoffId q \<mapsto> r')"
  using assms unfolding store_change_def by blast

lemma store_change_terminal:
  assumes "store_change v e v'" "v i = Some r" "handoff_terminal (hr_status r)"
  shows "v' i = Some r"
  using assms(1)
proof (cases rule: store_change_cases)
  case (edge q r')
  have "hr_handoffId q \<noteq> i"
  proof
    assume "hr_handoffId q = i"
    with edge assms(2) have "q = r" by simp
    with edge(2) assms(3) handoff_edge_terminal show False by blast
  qed
  with edge assms(2) show ?thesis by simp
qed (use assms(2) in auto)

text \<open>Until its owner writes or the lapsed claim is taken back, a claimed record stays or ends for good.\<close>

definition held :: "(string \<Rightarrow> StoredHumanHandoff option) \<Rightarrow> StoredHumanHandoff \<Rightarrow> bool" where
  "held v c \<longleftrightarrow> (\<exists>r. v (hr_handoffId c) = Some r \<and> hr_handoffId r = hr_handoffId c \<and>
     (r = c \<or> handoff_terminal (hr_status r)))"

definition ends_claim :: "StoredHumanHandoff \<Rightarrow> handoff_event \<Rightarrow> bool" where
  "ends_claim c e \<longleftrightarrow> (\<exists>d. e = Wrote c d) \<or> (\<exists>t. e = Reclaimed c t \<and> claim_over c t)"

lemma event_edge_quiet:
  assumes "event_edge e c r'" "\<not> ends_claim c e" "hr_status c = HsPolling"
  shows "e = Quiet"
proof (cases e)
  case (Reclaimed d t)
  with assms(1,2) have False by (simp add: ends_claim_def)
  then show ?thesis ..
next
  case (Claimed d)
  with assms show ?thesis by simp
next
  case (Wrote d d')
  with assms(1,2) have False by (simp add: ends_claim_def)
  then show ?thesis ..
qed (use assms(1) in simp_all)

lemma terminal_records [simp]:
  "handoff_terminal (hr_status (expired_record r))" "handoff_terminal (hr_status (cancelled_record r))"
  "handoff_terminal (hr_status (failed_record r code))" "handoff_terminal (hr_status (completed_record r x))"
  by (simp_all add: handoff_records handoff_terminal_def)

lemma quiet_edge_terminal: "event_edge e r r' \<Longrightarrow> e = Quiet \<Longrightarrow> handoff_terminal (hr_status r')"
  by (cases e) auto

lemma held_change:
  assumes "store_change v e v'" "held v c" "hr_status c = HsPolling" "\<not> ends_claim c e"
  shows "held v' c"
proof -
  obtain r where r: "v (hr_handoffId c) = Some r" "hr_handoffId r = hr_handoffId c"
      "r = c \<or> handoff_terminal (hr_status r)"
    using assms(2) by (auto simp: held_def)
  show ?thesis
  proof (cases "handoff_terminal (hr_status r)")
    case True
    with store_change_terminal [OF assms(1) r(1)] r(2) show ?thesis by (simp add: held_def)
  next
    case False
    with r(3) have rc: "r = c" by simp
    from assms(1) show ?thesis
    proof (cases rule: store_change_cases)
      case same
      with assms(2) show ?thesis by simp
    next
      case (new q)
      then have "hr_handoffId q \<noteq> hr_handoffId c" using r(1) by auto
      with new assms(2) show ?thesis by (simp add: held_def)
    next
      case (edge q r')
      show ?thesis
      proof (cases "hr_handoffId q = hr_handoffId c")
        case True
        have "Some q = Some r" using edge(1) r(1) unfolding True by (rule subst)
        then have q: "q = c" unfolding rc by (rule option.inject [THEN iffD1])
        have "e = Quiet" using event_edge_quiet [OF _ assms(4,3)] edge(3) q by simp
        with edge(3) quiet_edge_terminal have "handoff_terminal (hr_status r')" by blast
        moreover have "v' (hr_handoffId c) = Some r'" using edge(4) q by simp
        moreover have "hr_handoffId r' = hr_handoffId c" using handoff_edge_id [OF edge(2)] q by simp
        ultimately show ?thesis unfolding held_def by blast
      next
        case False
        with edge(4) assms(2) show ?thesis by (simp add: held_def)
      qed
    qed
  qed
qed

lemma held_not_claimed:
  assumes "store_change v (Claimed c') v'" "held v c" "hr_status c = HsPolling"
  shows "hr_handoffId c' \<noteq> hr_handoffId c"
proof
  assume same: "hr_handoffId c' = hr_handoffId c"
  from assms(1) show False
  proof (cases rule: store_change_cases)
    case (edge q r')
    then have "hr_handoffId q = hr_handoffId c" "hr_status q = HsPending"
      using handoff_edge_id [OF edge(2)] same by simp_all
    with edge(1,2) assms(2,3) handoff_edge_terminal show False by (auto simp: held_def)
  qed auto
qed

lemma handoff_run_append:
  "handoff_run hv s (es @ fs) s'' \<longleftrightarrow> (\<exists>s'. handoff_run hv s es s' \<and> handoff_run hv s' fs s'')"
proof (induction es arbitrary: s)
  case Nil
  show ?case by (metis append_Nil handoff_run_NilE run_nil)
next
  case (Cons e es)
  show ?case
  proof
    assume "handoff_run hv s ((e # es) @ fs) s''"
    then obtain s1 where "handoff_step hv s e s1" "handoff_run hv s1 (es @ fs) s''"
      by (auto elim: handoff_run_ConsE)
    with Cons.IH show "\<exists>s'. handoff_run hv s (e # es) s' \<and> handoff_run hv s' fs s''" by (blast intro: run_step)
  next
    assume "\<exists>s'. handoff_run hv s (e # es) s' \<and> handoff_run hv s' fs s''"
    then obtain s' s1 where "handoff_step hv s e s1" "handoff_run hv s1 es s'" "handoff_run hv s' fs s''"
      by (auto elim: handoff_run_ConsE)
    with Cons.IH have "handoff_run hv s1 (es @ fs) s''" by blast
    with \<open>handoff_step hv s e s1\<close> show "handoff_run hv s ((e # es) @ fs) s''" by (simp add: run_step)
  qed
qed

context handoff_cas
begin

lemma run_inv: "handoff_run hv s es s' \<Longrightarrow> handoff_inv view ok s \<Longrightarrow> handoff_inv view ok s'"
  by (induction rule: handoff_run.induct) (auto dest: step_change)

lemma run_terminal:
  assumes "handoff_run hv s es s'" "handoff_inv view ok s" "view (hw_store (fst s)) i = Some r"
    "handoff_terminal (hr_status r)"
  shows "view (hw_store (fst s')) i = Some r"
  using assms
proof (induction rule: handoff_run.induct)
  case (run_step s e s' es s'')
  with step_change [OF run_step.hyps(1) run_step.prems(1)] store_change_terminal run_step
  show ?case by blast
qed

lemma run_held:
  assumes "handoff_run hv s es s'" "handoff_inv view ok s" "held (view (hw_store (fst s))) c"
    "hr_status c = HsPolling" "\<forall>e \<in> set es. \<not> ends_claim c e"
  shows "held (view (hw_store (fst s'))) c"
  using assms
proof (induction rule: handoff_run.induct)
  case (run_step s e s' es s'')
  with step_change [OF run_step.hyps(1) run_step.prems(1)] held_change show ?case by simp blast
qed

lemma claim_exclusive:
  assumes "handoff_run hv s (es1 @ Claimed c # es2 @ Claimed c' # es3) s'" "handoff_inv view ok s"
    and "hr_handoffId c' = hr_handoffId c"
  shows "\<exists>e \<in> set es2. ends_claim c e"
proof (rule ccontr)
  assume no: "\<not> ?thesis"
  obtain s1 s2 s3 s4 where r: "handoff_run hv s es1 s1" "handoff_step hv s1 (Claimed c) s2"
      "handoff_run hv s2 es2 s3" "handoff_step hv s3 (Claimed c') s4"
    using assms(1) by (auto simp: handoff_run_append elim!: handoff_run_ConsE)
  have i1: "handoff_inv view ok s1" by (rule run_inv [OF r(1) assms(2)])
  note c1 = step_change [OF r(2) i1]
  then have "held (view (hw_store (fst s2))) c \<and> hr_status c = HsPolling"
    using handoff_edge_id by (auto simp: store_change_def held_def)
  with run_held [OF r(3)] c1 no have h: "held (view (hw_store (fst s3))) c" "hr_status c = HsPolling" by auto
  have "handoff_inv view ok s3" using run_inv [OF r(3)] c1 by blast
  from step_change [OF r(4) this] held_not_claimed [OF _ h] assms(3) show False by blast
qed

end

lemma handoff_edges_develop: "handoff_edge\<^sup>*\<^sup>* r r' \<Longrightarrow> same_handoff r r' \<and> hr_version r \<le> hr_version r'"
proof (induction rule: rtranclp_induct)
  case (step a b)
  with handoff_edgeD [OF step.hyps(2)] show ?case by (auto intro: same_handoff_trans)
qed simp

lemma handoff_edges_terminal: "handoff_edge\<^sup>*\<^sup>* r r' \<Longrightarrow> handoff_terminal (hr_status r) \<Longrightarrow> r' = r"
  using handoff_edge_terminal by (metis converse_rtranclpE)

lemma store_change_develops:
  assumes "store_change v e v'" "v i = Some r" "hr_handoffId r = i"
  shows "\<exists>r'. v' i = Some r' \<and> handoff_edge\<^sup>*\<^sup>* r r'"
  using assms(1)
proof (cases rule: store_change_cases)
  case same
  with assms(2) show ?thesis by auto
next
  case (new q)
  then have "hr_handoffId q \<noteq> i" using assms(2) by auto
  with new assms(2) show ?thesis by auto
next
  case (edge q r')
  show ?thesis
  proof (cases "hr_handoffId q = i")
    case True
    have "Some q = Some r" using edge(1) assms(2) unfolding True by (rule subst)
    then have q: "q = r" by (rule option.inject [THEN iffD1])
    have "v' i = Some r'" using edge(4) True by simp
    with edge(2) q show ?thesis by blast
  next
    case False
    with edge(4) assms(2) show ?thesis by auto
  qed
qed

context handoff_cas
begin

lemma run_develops:
  assumes "handoff_run hv s es s'" "handoff_inv view ok s" "view (hw_store (fst s)) i = Some r"
  shows "\<exists>r'. view (hw_store (fst s')) i = Some r' \<and> handoff_edge\<^sup>*\<^sup>* r r'"
  using assms
proof (induction arbitrary: r rule: handoff_run.induct)
  case (run_step s e s' es s'')
  note change = step_change [OF run_step.hyps(1) run_step.prems(1)]
  have "hr_handoffId r = i" using run_step.prems view_id [of "hw_store (fst s)" i r] by (simp add: handoff_inv_def)
  with store_change_develops [of "view (hw_store (fst s))" e "view (hw_store (fst s'))" i r] change run_step.prems(2)
  obtain r1 where r1: "view (hw_store (fst s')) i = Some r1" "handoff_edge\<^sup>*\<^sup>* r r1" by blast
  with run_step.IH [of r1] change show ?case by (meson rtranclp_trans)
qed auto

end

subsection \<open>The in-memory store satisfies the laws\<close>

definition memory_view :: "HandoffStoreState \<Rightarrow> string \<Rightarrow> StoredHumanHandoff option" where
  "memory_view h = map_of (hs_records h)"

definition memory_ok :: "HandoffStoreState \<Rightarrow> bool" where
  "memory_ok h \<longleftrightarrow> (\<forall>i r. memory_view h i = Some r \<longrightarrow> hr_handoffId r = i \<and>
     (\<not> handoff_terminal (hr_status r) \<longrightarrow> map_of (hs_activeDependencies h) (hr_dependencyId r) = Some i))"

definition with_memory_handoffs ::
  "(HandoffStoreState, 'q, 'n, 'p) HandoffService \<Rightarrow> (HandoffStoreState, 'q, 'n, 'p) HandoffService" where
  "with_memory_handoffs hv = hv\<lparr>hv_create := handoff_create, hv_getAuthorized := handoff_getAuthorized,
     hv_update := handoff_update\<rparr>"

lemma with_memory_handoffs_simps [simp]:
  "hv_create (with_memory_handoffs hv) = handoff_create"
  "hv_getAuthorized (with_memory_handoffs hv) = handoff_getAuthorized"
  "hv_update (with_memory_handoffs hv) = handoff_update"
  by (simp_all add: with_memory_handoffs_def)

lemma memory_ok_active:
  "memory_ok h \<Longrightarrow> memory_view h i = Some r \<Longrightarrow> \<not> handoff_terminal (hr_status r) \<Longrightarrow>
   map_of (hs_activeDependencies h) (hr_dependencyId r) = Some i"
  by (simp add: memory_ok_def)

lemma memory_ok_create:
  assumes ok: "memory_ok h" and free: "map_of (hs_activeDependencies h) (hr_dependencyId r) = None"
  shows "memory_ok \<lparr>hs_records = AList.update (hr_handoffId r) r (hs_records h), hs_activeDependencies =
    AList.update (hr_dependencyId r) (hr_handoffId r) (hs_activeDependencies h)\<rparr>" (is "memory_ok ?h")
  unfolding memory_ok_def
proof (intro allI impI)
  fix j q
  assume q: "memory_view ?h j = Some q"
  show "hr_handoffId q = j \<and> (\<not> handoff_terminal (hr_status q) \<longrightarrow>
    map_of (hs_activeDependencies ?h) (hr_dependencyId q) = Some j)"
  proof (cases "j = hr_handoffId r")
    case True
    with q show ?thesis by (auto simp: memory_view_def)
  next
    case False
    with q have "memory_view h j = Some q" by (simp add: memory_view_def)
    with ok memory_ok_active [OF ok this] free show ?thesis
      by (cases "hr_dependencyId q = hr_dependencyId r") (auto simp: memory_ok_def)
  qed
qed

lemma memory_ok_terminal_update:
  assumes ok: "memory_ok h" and r: "memory_view h i = Some r" "\<not> handoff_terminal (hr_status r)"
    and n: "hr_handoffId n = i" "hr_dependencyId n = hr_dependencyId r" "handoff_terminal (hr_status n)"
  shows "memory_ok \<lparr>hs_records = AList.update i n (hs_records h),
    hs_activeDependencies = AList.delete (hr_dependencyId r) (hs_activeDependencies h)\<rparr>"
  unfolding memory_ok_def
proof (intro allI impI)
  fix j q
  assume q: "memory_view \<lparr>hs_records = AList.update i n (hs_records h),
    hs_activeDependencies = AList.delete (hr_dependencyId r) (hs_activeDependencies h)\<rparr> j = Some q"
  show "hr_handoffId q = j \<and> (\<not> handoff_terminal (hr_status q) \<longrightarrow>
    map_of (hs_activeDependencies \<lparr>hs_records = AList.update i n (hs_records h),
      hs_activeDependencies = AList.delete (hr_dependencyId r) (hs_activeDependencies h)\<rparr>) (hr_dependencyId q) = Some j)"
  proof (cases "j = i")
    case True
    with q n show ?thesis by (simp add: memory_view_def)
  next
    case False
    with q have "memory_view h j = Some q" by (simp add: memory_view_def)
    with ok memory_ok_active [OF ok r] memory_ok_active [OF ok this] False show ?thesis
      by (cases "hr_dependencyId q = hr_dependencyId r") (auto simp: memory_ok_def)
  qed
qed

lemma memory_update_won:
  "handoff_update h p n = (True, h') \<longleftrightarrow> (\<exists>c. memory_view h (hr_handoffId p) = Some c \<and>
     hr_version c = hr_version p \<and> hr_accessTokenDigest c = hr_accessTokenDigest p \<and>
     hr_version n = hr_version p + 1 \<and>
     h' = \<lparr>hs_records = AList.update (hr_handoffId n) n (hs_records h), hs_activeDependencies =
       (if handoff_terminal (hr_status n) then AList.delete (hr_dependencyId n) (hs_activeDependencies h)
        else hs_activeDependencies h)\<rparr>)"
  by (auto simp: handoff_update_def memory_view_def split: option.splits if_splits)

interpretation memory_handoffs: handoff_cas "with_memory_handoffs hv" memory_view memory_ok for hv
proof
  fix h h' :: HandoffStoreState and r p n :: StoredHumanHandoff and i j d t
  show "memory_ok h \<Longrightarrow> memory_view h i = Some r \<Longrightarrow> hr_handoffId r = i"
    by (simp add: memory_ok_def)
  show "hv_create (with_memory_handoffs hv) h r = (False, h') \<Longrightarrow> h' = h"
    by (simp add: handoff_create_def split: if_splits)
  show "hv_getAuthorized (with_memory_handoffs hv) h i d t = (None, h') \<Longrightarrow> h' = h"
    by (simp add: handoff_getAuthorized_def split: option.splits if_splits)
  show "hv_update (with_memory_handoffs hv) h p n = (False, h') \<Longrightarrow> h' = h"
    by (simp add: handoff_update_def split: option.splits if_splits)
next
  fix h :: HandoffStoreState and i j and r r' :: StoredHumanHandoff
  assume "memory_ok h" "memory_view h i = Some r" "memory_view h j = Some r'"
    "hr_dependencyId r = hr_dependencyId r'" "\<not> handoff_terminal (hr_status r)" "\<not> handoff_terminal (hr_status r')"
  then show "i = j" by (metis memory_ok_def option.inject)
next
  fix h h' :: HandoffStoreState and r
  assume a: "memory_ok h" "hv_create (with_memory_handoffs hv) h r = (True, h')" "\<not> handoff_terminal (hr_status r)"
  then show "memory_ok h' \<and> memory_view h (hr_handoffId r) = None \<and>
      memory_view h' = (memory_view h)(hr_handoffId r \<mapsto> r)"
    using memory_ok_create [OF a(1), of r]
    by (auto simp: handoff_create_def memory_view_def update_conv' split: if_splits)
next
  fix h h' :: HandoffStoreState and i d t r
  assume a: "memory_ok h" "hv_getAuthorized (with_memory_handoffs hv) h i d t = (Some r, h')"
  then obtain c where c: "memory_view h i = Some c" "hr_accessTokenDigest c = d"
    by (auto simp: handoff_getAuthorized_def memory_view_def split: option.splits if_splits)
  show "memory_ok h' \<and> hr_accessTokenDigest r = d \<and> memory_view h' i = Some r \<and>
    (h' = h \<or> (\<exists>c. memory_view h i = Some c \<and> \<not> handoff_terminal (hr_status c) \<and> handoff_due c t \<and>
       r = expired_record c \<and> memory_view h' = (memory_view h)(i \<mapsto> r)))"
  proof (cases "handoff_due c t \<and> \<not> handoff_terminal (hr_status c)")
    case True
    have id: "hr_handoffId c = i" using a(1) c(1) by (simp add: memory_ok_def)
    have e: "r = expired_record c" "h' = \<lparr>hs_records = AList.update i (expired_record c) (hs_records h),
        hs_activeDependencies = AList.delete (hr_dependencyId c) (hs_activeDependencies h)\<rparr>"
      using a(2) c True by (auto simp: handoff_getAuthorized_def memory_view_def)
    have "memory_ok h'" unfolding e
      by (rule memory_ok_terminal_update [OF a(1) c(1)])
        (use True id in \<open>simp_all add: expired_record_def handoff_terminal_def\<close>)
    with True c e show ?thesis by (auto simp: memory_view_def update_conv' expired_record_def)
  next
    case False
    with a c show ?thesis by (auto simp: handoff_getAuthorized_def memory_view_def split: if_splits)
  qed
next
  fix h h' :: HandoffStoreState and p n
  assume "memory_ok h" "hv_update (with_memory_handoffs hv) h p n = (True, h')"
  then show "(\<exists>c. memory_view h (hr_handoffId p) = Some c \<and> hr_version c = hr_version p) \<and>
      memory_view h' = (memory_view h)(hr_handoffId n \<mapsto> n)"
    by (auto simp: memory_update_won memory_view_def update_conv')
next
  fix h h' :: HandoffStoreState and p n
  assume a: "memory_ok h" "hv_update (with_memory_handoffs hv) h p n = (True, h')"
    "memory_view h (hr_handoffId p) = Some p" "handoff_edge p n"
  have e: "hr_handoffId n = hr_handoffId p" "hr_dependencyId n = hr_dependencyId p" "\<not> handoff_terminal (hr_status p)"
    using handoff_edgeD [OF a(4)] by (simp_all add: same_handoff_def)
  have h'': "h' = \<lparr>hs_records = AList.update (hr_handoffId n) n (hs_records h), hs_activeDependencies =
       (if handoff_terminal (hr_status n) then AList.delete (hr_dependencyId n) (hs_activeDependencies h)
        else hs_activeDependencies h)\<rparr>"
    using a(2) by (auto simp: memory_update_won)
  show "memory_ok h'"
  proof (cases "handoff_terminal (hr_status n)")
    case True
    with e memory_ok_terminal_update [OF a(1,3) e(3,1,2)] show ?thesis by (simp add: h'')
  next
    case False
    have "memory_view h' = (memory_view h)(hr_handoffId n \<mapsto> n)" by (simp add: h'' memory_view_def update_conv')
    moreover have "hs_activeDependencies h' = hs_activeDependencies h" using False by (simp add: h'')
    ultimately show ?thesis
      using a(1) e memory_ok_active [OF a(1,3) e(3)] by (simp add: memory_ok_def)
  qed
qed

definition fresh_handoffs :: "(HandoffStoreState, 'q, 'n, 'p) HandoffWorld \<Rightarrow> bool" where
  "fresh_handoffs w \<longleftrightarrow> hw_store w = new_handoff_store"

lemma fresh_handoffs_inv: "fresh_handoffs w \<Longrightarrow> handoff_inv memory_view memory_ok (w, {#})"
  by (simp add: fresh_handoffs_def handoff_inv_def new_handoff_store_def memory_ok_def memory_view_def)

end
