(* ===== verification/HandoffGuarantees.thy ===== *)
theory HandoffGuarantees
  imports HandoffRuns ServiceGuarantees
begin

section \<open>What brokered handoffs guarantee (src/handoff.ts)\<close>

text \<open>
  The calls of the service are runs of the step relation; over the in-memory store every run keeps the lifecycle of
  a handoff, the exclusive claim and the one active handoff of a dependency.  A sample run serves the witnesses.
\<close>

subsection \<open>Calls are runs\<close>

lemma run_one: "handoff_step hv s e s' \<Longrightarrow> \<exists>es. handoff_run hv s es s'"
  by (blast intro: run_step run_nil)

lemma run_more: "handoff_step hv s e s' \<Longrightarrow> \<exists>es. handoff_run hv s' es s'' \<Longrightarrow> \<exists>es. handoff_run hv s es s''"
  by (blast intro: run_step)

lemma poll_write_run:
  assumes "poll_write hv (hw_store w) c outcome = (view, h)"
  shows "\<exists>es. handoff_run hv (w, {#Writing c outcome#}) es (w\<lparr>hw_store := h\<rparr>, {#})"
proof (cases outcome)
  case (WriteAnyway r v)
  obtain won where u: "hv_update hv (hw_store w) c r = (won, h)"
    using assms WriteAnyway by (cases "hv_update hv (hw_store w) c r") (auto simp: poll_write_def)
  then show ?thesis
    using write_won [of outcome r v hv w c h "{#}"] write_lost [of hv w c r h v "{#}"] WriteAnyway
    by (cases won) (auto intro: run_one)
next
  case (WriteCompletion r v)
  obtain won h1 where u: "hv_update hv (hw_store w) c r = (won, h1)" by fastforce
  show ?thesis
  proof (cases won)
    case True
    with u assms WriteCompletion have "h1 = h" by (simp add: poll_write_def)
    with u True write_won [of outcome r v hv w c h "{#}"] WriteCompletion show ?thesis by (auto intro: run_one)
  next
    case False
    obtain won2 h2 where f: "hv_update hv h1 c (failed_record c ''HANDOFF_POLL_FAILED'') = (won2, h2)" by fastforce
    with False u assms WriteCompletion have "h2 = h" by (simp add: poll_write_def)
    with f failure_won [of _ c hv "w\<lparr>hw_store := h1\<rparr>" h "{#}"] failure_lost [of _ c hv "w\<lparr>hw_store := h1\<rparr>" h "{#}"]
    have "\<exists>es. handoff_run hv (w\<lparr>hw_store := h1\<rparr>, {#WritingFailure c#}) es (w\<lparr>hw_store := h\<rparr>, {#})"
      by (cases won2) (auto intro: run_one)
    with run_more [OF completion_lost [of hv w c r h1 v "{#}"]] u False WriteCompletion show ?thesis by simp
  qed
qed

lemma poll_claimed_run:
  assumes "poll_claimed hv w c env = (r, w')"
  shows "\<exists>es. handoff_run hv (w, {#Claiming c#}) es (w', {#})"
proof (cases "claim_record c (en_claimedAt env)")
  case (Inl e)
  with assms claim_throws [OF Inl, of hv w "{#}"] show ?thesis by (auto simp: poll_claimed_def intro: run_one)
next
  case (Inr claimed)
  obtain won h where u: "hv_update hv (hw_store w) c claimed = (won, h)" by fastforce
  show ?thesis
  proof (cases won)
    case False
    with assms Inr u claim_lost [OF Inr, of hv w h "{#}"] show ?thesis
      by (auto simp: poll_claimed_def intro: run_one)
  next
    case True
    obtain outcome w1 where work: "poll_work hv (w\<lparr>hw_store := h\<rparr>) claimed env = (outcome, w1)" by fastforce
    obtain view h2 where wr: "poll_write hv (hw_store w1) claimed outcome = (view, h2)" by fastforce
    have "w' = w1\<lparr>hw_store := h2\<rparr>" using assms Inr u True work wr by (simp add: poll_claimed_def)
    with run_more [OF works [OF work, of "{#}"] poll_write_run [OF wr]]
      run_more [OF claim_won [OF Inr, of hv w h "{#}"]] u True
    show ?thesis by simp
  qed
qed

lemma poll_run:
  assumes "poll hv w i token env = (r, w')"
  shows "\<exists>es. handoff_run hv (w, {#}) es (w', {#})"
proof -
  obtain found h where g: "hv_getAuthorized hv (hw_store w) i (sha256_text (hv_hash hv) token) (en_getAt env) = (found, h)"
    by fastforce
  let ?w = "w\<lparr>hw_store := h\<rparr>" and ?next = "poll_inspect (hv_protector hv) found (en_checkedAt env)"
  note reads = poll_reads [OF g]
  show ?thesis
  proof (cases ?next)
    case (Inl e)
    with reads [where t' = "en_checkedAt env" and T' = "{#}" and T = "{#}"] assms g show ?thesis by (auto simp: poll_def intro: run_one)
  next
    case (Inr x)
    show ?thesis
    proof (cases x)
      case (PollReturn v)
      with Inr reads [where t' = "en_checkedAt env" and T' = "{#}" and T = "{#}"] assms g show ?thesis by (auto simp: poll_def intro: run_one)
    next
      case (PollClaim c)
      have "\<exists>es. handoff_run hv (?w, {#Claiming c#}) es (w', {#})"
        by (rule poll_claimed_run [of hv ?w c env r]) (use assms g Inr PollClaim in \<open>simp add: poll_def\<close>)
      with run_more [OF reads [where t' = "en_checkedAt env" and T' = "{#Claiming c#}" and T = "{#}"]] Inr PollClaim show ?thesis by simp
    next
      case (PollReclaim c)
      let ?t = "en_checkedAt env"
      obtain won h2 where u: "hv_update hv h c (released_record c) = (won, h2)" by fastforce
      have "\<exists>es. handoff_run hv (?w, {#Reclaiming c ?t#}) es (w', {#})"
      proof (cases won)
        case True
        have "\<exists>es. handoff_run hv (?w\<lparr>hw_store := h2\<rparr>, {#Claiming (released_record c)#}) es (w', {#})"
          by (rule poll_claimed_run [of hv "?w\<lparr>hw_store := h2\<rparr>" "released_record c" env r])
            (use assms g Inr PollReclaim u True in \<open>simp add: poll_def\<close>)
        with run_more [OF reclaim_won [of hv ?w c h2 ?t "{#}"]] u True show ?thesis by simp
      next
        case False
        with assms g Inr PollReclaim u reclaim_lost [of hv ?w c h2 ?t "{#}"] show ?thesis
          by (auto simp: poll_def intro: run_one)
      qed
      with run_more [OF reads [where t' = "?t" and T' = "{#Reclaiming c ?t#}" and T = "{#}"]] Inr PollReclaim show ?thesis by simp
    qed
  qed
qed

lemma cancel_run:
  assumes "cancel hv (hw_store w) i token env = (ok, notice, h)"
  shows "\<exists>es. handoff_run hv (w, {#}) es (w\<lparr>hw_store := h\<rparr>, {#})"
proof -
  obtain found h1 where g: "hv_getAuthorized hv (hw_store w) i (sha256_text (hv_hash hv) token) (en_getAt env) = (found, h1)"
    by fastforce
  let ?w = "w\<lparr>hw_store := h1\<rparr>"
  note reads = cancel_reads [OF g]
  show ?thesis
  proof (cases "\<exists>c. found = Some c \<and> \<not> handoff_terminal (hr_status c)")
    case False
    with reads [where T' = "{#}" and T = "{#}"] assms g show ?thesis
      by (cases found) (auto simp: cancel_def intro: run_one)
  next
    case True
    then obtain c where c: "found = Some c" "\<not> handoff_terminal (hr_status c)" by blast
    obtain won h2 where u: "hv_update hv h1 c (cancelled_record c) = (won, h2)" by fastforce
    have "h2 = h" using assms g c u by (simp add: cancel_def)
    with run_more [OF reads [where T' = "{#Cancelling c#}" and T = "{#}"] run_one [OF cancel_writes [of hv ?w c won h2 "{#}"]]] c u
    show ?thesis by simp
  qed
qed

lemma start_run:
  assumes "start hv w input env = (r, w')"
  shows "\<exists>es. handoff_run hv (w, {#}) es (w', {#})"
proof -
  obtain found q where g: "hv_getRequirement hv (hw_requirements w) (si_dependencyId input) (en_getAt env) = (found, q)"
    by fastforce
  show ?thesis
  proof (cases "start_record hv input env found")
    case (Inl e)
    with assms g outside [of hv w "{#}" "hw_service w" q] show ?thesis by (auto simp: start_def intro: run_one)
  next
    case (Inr made)
    obtain ok h where c: "hv_create hv (hw_store w) made = (ok, h)" by fastforce
    with assms g Inr start_created [OF g Inr, of h "{#}"] start_refused [OF g Inr, of h "{#}"] show ?thesis
      by (cases ok) (auto simp: start_def intro: run_one)
  qed
qed

text \<open>
  Every call of the handoff service, run alone, is a run of the interleaving semantics: what is proved of all
  runs holds of \<open>start\<close>, \<open>poll\<close> and \<open>cancel\<close> in any order and with any overlap.
\<close>

theorem handoff_calls_are_runs:
  "(\<exists>es. handoff_run hv (w, {#}) es (snd (start hv w input env), {#})) \<and>
   (\<exists>es. handoff_run hv (w, {#}) es (snd (poll hv w handoffId token env), {#})) \<and>
   (\<exists>es. handoff_run hv (w, {#}) es
      (w\<lparr>hw_store := snd (snd (cancel hv (hw_store w) handoffId token env))\<rparr>, {#}))"
proof (intro conjI)
  show "\<exists>es. handoff_run hv (w, {#}) es (snd (start hv w input env), {#})"
    by (rule start_run [of _ _ input env "fst (start hv w input env)"]) simp
  show "\<exists>es. handoff_run hv (w, {#}) es (snd (poll hv w handoffId token env), {#})"
    by (rule poll_run [of _ _ handoffId token env "fst (poll hv w handoffId token env)"]) simp
  show "\<exists>es. handoff_run hv (w, {#}) es
      (w\<lparr>hw_store := snd (snd (cancel hv (hw_store w) handoffId token env))\<rparr>, {#})"
    by (rule cancel_run [of _ _ handoffId token env "fst (cancel hv (hw_store w) handoffId token env)"
          "fst (snd (cancel hv (hw_store w) handoffId token env))"]) simp
qed

subsection \<open>A sample run\<close>

text \<open>One handoff of the sample requirement: started, polled by two callers one after the other.\<close>

definition sample_presentation :: HandoffPresentation where
  "sample_presentation = \<lparr>hp_uri = ''https://verify.example/1'', hp_userCode = None\<rparr>"

definition sample_handoff_adapter :: HandoffAdapter where
  "sample_handoff_adapter = \<lparr>ha_providerId = ''world-id'', ha_methodIds = [''orb''],
     ha_startHandoff = (\<lambda>_ _ _. Inr \<lparr>hd_providerSession = JNull, hd_presentation = sample_presentation,
        hd_expiresAt = ''2026-01-01T00:05:00.000Z'', hd_pollAfterMs = None\<rparr>),
     ha_cancelHandoff = None\<rparr>"

definition sample_protector :: HandoffStateProtector where
  "sample_protector = \<lparr>pt_protect = (\<lambda>iv v. case v of JObj [(k, JStr t)] \<Rightarrow> Inr t | _ \<Rightarrow> Inr ''null''),
     pt_unprotect = (\<lambda>s. Inr (JObj [(''humanProof'', JStr s)]))\<rparr>"

definition sample_handoffs :: "(HandoffStoreState, unit, nonces, string list) HandoffService" where
  "sample_handoffs = \<lparr>hv_service = sample_service, hv_getRequirement = (\<lambda>q d t. (Some sample_requirement, q)),
     hv_create = handoff_create, hv_getAuthorized = handoff_getAuthorized, hv_update = handoff_update,
     hv_protector = sample_protector, hv_adapters = [(''world-id'', sample_handoff_adapter)],
     hv_hash = sample_hash\<rparr>"

definition sample_call :: CallEnv where
  "sample_call = \<lparr>en_getAt = 1767225601000, en_checkedAt = 1767225601000, en_claimedAt = 1767225601000,
     en_requirementAt = 1767225601000, en_challengeCheckedAt = 1767225601000, en_issuedAt = 1767225602000,
     en_uuid = ''u'', en_random = [1], en_iv = [2], en_provider = (\<lambda>_ _. Inr ProviderPending)\<rparr>"

definition sample_start_input :: StartHumanHandoffInput where
  "sample_start_input = \<lparr>si_dependencyId = ''dep'', si_nonce = ''AQID'', si_providerId = ''world-id'', si_methodId = ''orb''\<rparr>"

definition sample_handoff :: StoredHumanHandoff where
  "sample_handoff = \<lparr>hr_handoffId = ''x424_handoff_u'', hr_dependencyId = ''dep'', hr_providerId = ''world-id'',
     hr_methodId = ''orb'', hr_accessTokenDigest = sha256_text sample_hash (encodeStrictBase64Url [1]),
     hr_status = HsPending, hr_pollClaimExpiresAt = None, hr_presentation = sample_presentation,
     hr_protectedState = ''null'', hr_protectedCompletion = None, hr_failureCode = None,
     hr_pollAfterMs = IntNum 1000, hr_expiresAt = ''2026-01-01T00:05:00.000Z'', hr_version = 1\<rparr>"

definition sample_world :: "(HandoffStoreState, unit, nonces, string list) HandoffWorld" where
  "sample_world = \<lparr>hw_store = new_handoff_store, hw_requirements = (), hw_service = sample_state\<rparr>"

definition sample_claimed :: StoredHumanHandoff where
  "sample_claimed = sample_handoff\<lparr>hr_status := HsPolling,
     hr_pollClaimExpiresAt := Some ''2026-01-01T00:00:11.000Z'', hr_version := 2\<rparr>"

definition sample_claimed_again :: StoredHumanHandoff where
  "sample_claimed_again = sample_claimed\<lparr>hr_version := 4\<rparr>"

lemma sample_handoffs_memory: "with_memory_handoffs sample_handoffs = sample_handoffs"
  by (simp add: with_memory_handoffs_def sample_handoffs_def)

lemma sample_started:
  "start_record sample_handoffs sample_start_input sample_call (Some sample_requirement) = Inr sample_handoff"
proof -
  have a: "accepted_method sample_requirement ''world-id'' ''orb'' = Some sample_method"
    by (simp add: accepted_method_def sample_requirement_def sample_method_def)
  have i: "toISOString 1767225900000 = Inr ''2026-01-01T00:05:00.000Z''" by code_simp
  have q: "rq_nonce sample_requirement = ''AQID''" "rq_dependencyId sample_requirement = ''dep''"
    "rq_expiresAt sample_requirement = ''2026-01-01T00:05:00.000Z''"
    by (simp_all add: sample_requirement_def)
  show ?thesis
    by (simp add: start_record_def sample_start_input_def sample_handoffs_def a sample_handoff_adapter_def q i
        sample_dates whenSome_def sample_call_def sample_protector_def sample_handoff_def)
qed

lemma sample_claim:
  "claim_record sample_handoff 1767225601000 = Inr sample_claimed"
  "claim_record (released_record sample_claimed) 1767225601000 = Inr sample_claimed_again"
proof -
  have i: "toISOString 1767225611000 = Inr ''2026-01-01T00:00:11.000Z''" by code_simp
  show "claim_record sample_handoff 1767225601000 = Inr sample_claimed"
    "claim_record (released_record sample_claimed) 1767225601000 = Inr sample_claimed_again"
    by (simp_all add: claim_record_def sample_handoff_def sample_dates i sample_claimed_def
        sample_claimed_again_def released_record_def withoutPollClaim_def)
qed

definition sample_handoff_store :: "StoredHumanHandoff \<Rightarrow> HandoffStoreState" where
  "sample_handoff_store r = \<lparr>hs_records = [(''x424_handoff_u'', r)], hs_activeDependencies = [(''dep'', ''x424_handoff_u'')]\<rparr>"

lemma sample_updates:
  "handoff_update (sample_handoff_store sample_handoff) sample_handoff sample_claimed = (True, sample_handoff_store sample_claimed)"
  "handoff_update (sample_handoff_store sample_claimed) sample_claimed (released_record sample_claimed) =
     (True, sample_handoff_store (released_record sample_claimed))"
  "handoff_update (sample_handoff_store (released_record sample_claimed)) (released_record sample_claimed) sample_claimed_again =
     (True, sample_handoff_store sample_claimed_again)"
  by (simp_all add: handoff_update_def sample_handoff_store_def sample_handoff_def sample_claimed_def sample_claimed_again_def
      released_record_def withoutPollClaim_def handoff_terminal_def)

text \<open>Reading an open record waits to claim it.\<close>

lemma sample_reads:
  assumes "hr_status r = HsPending" "hr_accessTokenDigest r = sha256_text sample_hash (encodeStrictBase64Url [1])"
    "hr_expiresAt r = ''2026-01-01T00:05:00.000Z''"
  shows "handoff_step sample_handoffs (w\<lparr>hw_store := sample_handoff_store r\<rparr>, {#}) Quiet (w\<lparr>hw_store := sample_handoff_store r\<rparr>, {#Claiming r#})"
proof -
  have g: "hv_getAuthorized sample_handoffs (hw_store (w\<lparr>hw_store := sample_handoff_store r\<rparr>)) ''x424_handoff_u''
      (sha256_text (hv_hash sample_handoffs) (encodeStrictBase64Url [1])) 1767225601000 = (Some r, sample_handoff_store r)"
    using assms by (simp add: sample_handoffs_def handoff_getAuthorized_def sample_handoff_store_def handoff_due_def sample_dates)
  have n: "poll_inspect (hv_protector sample_handoffs) (Some r) 1767225601000 = Inr (PollClaim r)"
    using assms(1) by (simp add: poll_inspect_def terminalView_def)
  show ?thesis
    using poll_reads [OF g, where t' = 1767225601000 and T' = "{#Claiming r#}" and T = "{#}"] n by simp
qed

lemma sample_handoff_run:
  "handoff_run sample_handoffs (sample_world, {#})
     ([Created sample_handoff, Quiet] @ Claimed sample_claimed #
      [Quiet, Wrote sample_claimed (released_record sample_claimed), Quiet] @ Claimed sample_claimed_again # [])
     (sample_world\<lparr>hw_store := sample_handoff_store sample_claimed_again\<rparr>, {#Working sample_claimed_again#})"
proof -
  let ?w = "\<lambda>r. sample_world\<lparr>hw_store := sample_handoff_store r\<rparr>" and ?rel = "released_record sample_claimed"
  have u: "hv_update sample_handoffs = handoff_update" by (simp add: sample_handoffs_def)
  have st: "hw_store (?w r) = sample_handoff_store r" for r by simp
  have create: "hv_create sample_handoffs (hw_store sample_world) sample_handoff = (True, sample_handoff_store sample_handoff)"
    by (simp add: sample_handoffs_def sample_world_def new_handoff_store_def handoff_create_def sample_handoff_store_def)
      (simp add: sample_handoff_def)
  have get: "hv_getRequirement sample_handoffs (hw_requirements sample_world) (si_dependencyId sample_start_input)
      (en_getAt sample_call) = (Some sample_requirement, ())"
    by (simp add: sample_handoffs_def)
  have s1: "handoff_step sample_handoffs (sample_world, {#}) (Created sample_handoff) (?w sample_handoff, {#})"
    using start_created [OF get sample_started create, of "{#}"] by (simp add: sample_world_def)
  have s2: "handoff_step sample_handoffs (?w sample_handoff, {#}) Quiet (?w sample_handoff, {#Claiming sample_handoff#})"
    by (rule sample_reads) (simp_all add: sample_handoff_def)
  have s3: "handoff_step sample_handoffs (?w sample_handoff, {#Claiming sample_handoff#}) (Claimed sample_claimed)
      (?w sample_claimed, {#Working sample_claimed#})"
    using claim_won [OF sample_claim(1), of sample_handoffs "?w sample_handoff" "sample_handoff_store sample_claimed" "{#}"]
    by (simp add: u sample_updates)
  have work: "poll_work sample_handoffs (?w sample_claimed) sample_claimed sample_call =
      (WriteAnyway ?rel (pendingView ?rel), ?w sample_claimed)"
    by (simp add: poll_work_def sample_handoffs_def sample_call_def sample_claimed_def sample_handoff_def
        sample_protector_def)
  have s4: "handoff_step sample_handoffs (?w sample_claimed, {#Working sample_claimed#}) Quiet
      (?w sample_claimed, {#Writing sample_claimed (WriteAnyway ?rel (pendingView ?rel))#})"
    using works [OF work, of "{#}"] by simp
  have s5: "handoff_step sample_handoffs
      (?w sample_claimed, {#Writing sample_claimed (WriteAnyway ?rel (pendingView ?rel))#})
      (Wrote sample_claimed ?rel) (?w ?rel, {#})"
    using write_won [of _ ?rel "pendingView ?rel" sample_handoffs "?w sample_claimed" sample_claimed "sample_handoff_store ?rel" "{#}"]
    by (simp add: u sample_updates)
  have s6: "handoff_step sample_handoffs (?w ?rel, {#}) Quiet (?w ?rel, {#Claiming ?rel#})"
    by (rule sample_reads)
      (simp_all add: released_record_def withoutPollClaim_def sample_claimed_def sample_handoff_def)
  have s7: "handoff_step sample_handoffs (?w ?rel, {#Claiming ?rel#}) (Claimed sample_claimed_again)
      (?w sample_claimed_again, {#Working sample_claimed_again#})"
    using claim_won [OF sample_claim(2), of sample_handoffs "?w ?rel" "sample_handoff_store sample_claimed_again" "{#}"]
    by (simp add: u sample_updates)
  show ?thesis
    using run_step [OF s1 run_step [OF s2 run_step [OF s3 run_step [OF s4 run_step [OF s5 run_step [OF s6
            run_step [OF s7 run_nil]]]]]]] by simp
qed

lemma sample_memory_run:
  "handoff_run (with_memory_handoffs sample_handoffs) (sample_world, {#})
     ([Created sample_handoff, Quiet] @ Claimed sample_claimed #
      [Quiet, Wrote sample_claimed (released_record sample_claimed), Quiet] @ Claimed sample_claimed_again # [])
     (sample_world\<lparr>hw_store := sample_handoff_store sample_claimed_again\<rparr>, {#Working sample_claimed_again#})"
  unfolding sample_handoffs_memory by (rule sample_handoff_run)

lemma sample_world_fresh: "fresh_handoffs sample_world"
  by (simp add: fresh_handoffs_def sample_world_def)

text \<open>The provider confirms: the poll satisfies the requirement and stores the token.\<close>

definition sample_confirming_call :: CallEnv where
  "sample_confirming_call = sample_call\<lparr>en_provider := (\<lambda>_ _. Inr (ProviderCompleted JNull))\<rparr>"

definition sample_completed :: StoredHumanHandoff where
  "sample_completed = completed_record sample_claimed (snd sample_outcome)"

lemma sample_completing_run:
  "handoff_run (with_memory_handoffs sample_handoffs) (sample_world\<lparr>hw_service := sample_registered\<rparr>, {#})
     [Created sample_handoff, Quiet, Claimed sample_claimed, Quiet, Wrote sample_claimed sample_completed]
     (sample_world\<lparr>hw_service := sample_satisfied_state, hw_store := sample_handoff_store sample_completed\<lparr>hs_activeDependencies := []\<rparr>\<rparr>, {#})"
proof -
  let ?w = "\<lambda>r. (sample_world\<lparr>hw_service := sample_registered\<rparr>)\<lparr>hw_store := sample_handoff_store r\<rparr>"
  let ?view = "CompletedView ''x424_handoff_u'' (snd sample_outcome) ''2026-01-01T00:05:00.000Z''"
  let ?last = "sample_handoff_store sample_completed\<lparr>hs_activeDependencies := []\<rparr>"
  have u: "hv_update sample_handoffs = handoff_update" by (simp add: sample_handoffs_def)
  have create: "hv_create sample_handoffs (hw_store (sample_world\<lparr>hw_service := sample_registered\<rparr>)) sample_handoff =
      (True, sample_handoff_store sample_handoff)"
    by (simp add: sample_handoffs_def sample_world_def new_handoff_store_def handoff_create_def sample_handoff_store_def)
      (simp add: sample_handoff_def)
  have get: "hv_getRequirement sample_handoffs (hw_requirements (sample_world\<lparr>hw_service := sample_registered\<rparr>))
      (si_dependencyId sample_start_input) (en_getAt sample_call) = (Some sample_requirement, ())"
    by (simp add: sample_handoffs_def)
  have s1: "handoff_step sample_handoffs (sample_world\<lparr>hw_service := sample_registered\<rparr>, {#}) (Created sample_handoff)
      (?w sample_handoff, {#})"
    using start_created [OF get sample_started create, of "{#}"] by (simp add: sample_world_def)
  have s2: "handoff_step sample_handoffs (?w sample_handoff, {#}) Quiet (?w sample_handoff, {#Claiming sample_handoff#})"
    by (rule sample_reads) (simp_all add: sample_handoff_def)
  have s3: "handoff_step sample_handoffs (?w sample_handoff, {#Claiming sample_handoff#}) (Claimed sample_claimed)
      (?w sample_claimed, {#Working sample_claimed#})"
    using claim_won [OF sample_claim(1), of sample_handoffs "?w sample_handoff" "sample_handoff_store sample_claimed" "{#}"]
    by (simp add: u sample_updates)
  have pf: "proof_submission sample_requirement sample_claimed JNull = sample_proof"
    by (simp add: proof_submission_def sample_proof_def sample_requirement_def sample_claimed_def sample_handoff_def)
  have done_by: "poll_complete sample_handoffs sample_claimed sample_confirming_call (snd sample_outcome) =
      WriteCompletion sample_completed ?view"
    by (simp add: poll_complete_def sample_handoffs_def sample_protector_def sample_completed_def)
      (simp add: sample_claimed_def sample_handoff_def)
  have work: "poll_work sample_handoffs (?w sample_claimed) sample_claimed sample_confirming_call =
      (WriteCompletion sample_completed ?view, (?w sample_claimed)\<lparr>hw_service := sample_satisfied_state\<rparr>)"
  proof -
    have f: "map_of (hv_adapters sample_handoffs) (hr_providerId sample_claimed) = Some sample_handoff_adapter"
      "pt_unprotect (hv_protector sample_handoffs) (hr_protectedState sample_claimed) = Inr (JObj [(''humanProof'', JStr ''null'')])"
      "hv_service sample_handoffs = sample_service"
      "hv_getRequirement sample_handoffs = (\<lambda>q d t. (Some sample_requirement, q))"
      by (simp_all add: sample_handoffs_def sample_claimed_def sample_handoff_def sample_protector_def)
    have e: "en_provider sample_confirming_call = (\<lambda>_ _. Inr (ProviderCompleted JNull))"
      "en_challengeCheckedAt sample_confirming_call = 1767225601000" "en_issuedAt sample_confirming_call = 1767225602000"
      "en_uuid sample_confirming_call = ''u''"
      by (simp_all add: sample_confirming_call_def sample_call_def)
    show ?thesis by (simp add: poll_work_def f e pf sample_satisfy_pair done_by split_def)
  qed
  have s4: "handoff_step sample_handoffs (?w sample_claimed, {#Working sample_claimed#}) Quiet
      ((?w sample_claimed)\<lparr>hw_service := sample_satisfied_state\<rparr>, {#Writing sample_claimed (WriteCompletion sample_completed ?view)#})"
    using works [OF work, of "{#}"] by simp
  have up: "handoff_update (sample_handoff_store sample_claimed) sample_claimed sample_completed = (True, ?last)"
    by (simp add: handoff_update_def sample_handoff_store_def sample_completed_def completed_record_def
        sample_claimed_def sample_handoff_def handoff_terminal_def)
  have s5: "handoff_step sample_handoffs
      ((?w sample_claimed)\<lparr>hw_service := sample_satisfied_state\<rparr>, {#Writing sample_claimed (WriteCompletion sample_completed ?view)#})
      (Wrote sample_claimed sample_completed) (((?w sample_claimed)\<lparr>hw_service := sample_satisfied_state\<rparr>)\<lparr>hw_store := ?last\<rparr>, {#})"
    by (rule write_won [of _ _ ?view]) (simp_all add: u up)
  show ?thesis
    unfolding sample_handoffs_memory
    using run_step [OF s1 run_step [OF s2 run_step [OF s3 run_step [OF s4 run_step [OF s5 run_nil]]]]]
    by (simp add: sample_world_def)
qed

subsection \<open>Properties\<close>

text \<open>
  C15: A claimed handoff is polled by one caller at a time: in any interleaving of starts, polls and cancellations,
  between two successful claims of a handoff the first claimant has written its outcome, or its claim was taken
  back at a time when its lease had ended.
\<close>

theorem handoff_claim_exclusive:
  assumes "fresh_handoffs w"
    and "handoff_run (with_memory_handoffs hv) (w, {#}) (es1 @ Claimed c # es2 @ Claimed c' # es3) s"
    and "hr_handoffId c' = hr_handoffId c"
  shows "\<exists>e \<in> set es2. (\<exists>d. e = Wrote c d) \<or> (\<exists>t. e = Reclaimed c t \<and> claim_over c t)"
  using memory_handoffs.claim_exclusive [OF assms(2) fresh_handoffs_inv [OF assms(1)] assms(3)]
  by (simp add: ends_claim_def)

theorem handoff_claim_exclusive_witness:
  "\<exists>e \<in> set [Quiet, Wrote sample_claimed (released_record sample_claimed), Quiet].
     (\<exists>d. e = Wrote sample_claimed d) \<or> (\<exists>t. e = Reclaimed sample_claimed t \<and> claim_over sample_claimed t)"
  by (rule handoff_claim_exclusive [OF sample_world_fresh sample_memory_run])
    (simp add: sample_claimed_again_def)

text \<open>
  C16: A handoff lives by its state machine: whatever runs concurrently, a stored record only changes along the edges
  pending to polling, polling to pending, failed or completed, and open to expired or cancelled; every edge
  raises the version, its identity, capability and expiry stay, and a terminal record stays as it is.
\<close>

theorem handoff_lifecycle:
  assumes "fresh_handoffs w"
    and "handoff_run (with_memory_handoffs hv) (w, {#}) es s" "handoff_run (with_memory_handoffs hv) s es' s'"
    and "memory_view (hw_store (fst s)) i = Some r"
  shows "\<exists>r'. memory_view (hw_store (fst s')) i = Some r' \<and> handoff_edge\<^sup>*\<^sup>* r r' \<and> same_handoff r r' \<and>
    hr_version r \<le> hr_version r' \<and> (handoff_terminal (hr_status r) \<longrightarrow> r' = r)"
  using memory_handoffs.run_develops [OF assms(3) memory_handoffs.run_inv [OF assms(2) fresh_handoffs_inv [OF assms(1)]] assms(4)]
    handoff_edges_develop handoff_edges_terminal by blast

theorem handoff_lifecycle_witness:
  "\<exists>r'. memory_view (hw_store (sample_world\<lparr>hw_store := sample_handoff_store sample_claimed_again\<rparr>)) ''x424_handoff_u'' = Some r' \<and>
     handoff_edge\<^sup>*\<^sup>* sample_claimed_again r' \<and> same_handoff sample_claimed_again r' \<and>
     hr_version sample_claimed_again \<le> hr_version r'"
proof -
  have "memory_view (hw_store (fst (sample_world\<lparr>hw_store := sample_handoff_store sample_claimed_again\<rparr>,
      {#Working sample_claimed_again#}))) ''x424_handoff_u'' = Some sample_claimed_again"
    by (simp add: memory_view_def sample_handoff_store_def)
  from handoff_lifecycle [OF sample_world_fresh sample_memory_run run_nil this] show ?thesis by auto
qed

text \<open>
  A dependency has at most one open handoff at any time of any run, and the identifier of a stored record is
  the one it is stored under.
\<close>

theorem one_active_handoff:
  assumes "fresh_handoffs w" "handoff_run (with_memory_handoffs hv) (w, {#}) es s"
    and "memory_view (hw_store (fst s)) i = Some r" "memory_view (hw_store (fst s)) j = Some r'"
    and "hr_dependencyId r = hr_dependencyId r'"
    and "\<not> handoff_terminal (hr_status r)" "\<not> handoff_terminal (hr_status r')"
  shows "i = j \<and> hr_handoffId r = i"
proof -
  have ok: "memory_ok (hw_store (fst s))"
    using memory_handoffs.run_inv [OF assms(2) fresh_handoffs_inv [OF assms(1)]] by (simp add: handoff_inv_def)
  show ?thesis
    using memory_handoffs.one_active [OF ok assms(3,4,5,6,7)] memory_handoffs.view_id [OF ok assms(3)] by simp
qed

theorem one_active_handoff_witness:
  "''x424_handoff_u'' = ''x424_handoff_u'' \<and> hr_handoffId sample_claimed_again = ''x424_handoff_u''"
  by (rule one_active_handoff [OF sample_world_fresh sample_memory_run, where r = sample_claimed_again
        and r' = sample_claimed_again])
    (simp_all add: memory_view_def sample_handoff_store_def sample_claimed_again_def sample_claimed_def handoff_terminal_def)

text \<open>
  C18: Only the holder of the capability moves a handoff: with a token whose digest is not the stored one, or for an
  unknown identifier, \<open>poll\<close> throws and \<open>cancel\<close> answers false, and neither changes anything.
\<close>

theorem handoff_capability:
  assumes "\<forall>r. memory_view (hw_store w) i = Some r \<longrightarrow> hr_accessTokenDigest r \<noteq> sha256_text (hv_hash hv) token"
  shows "poll (with_memory_handoffs hv) w i token env = (Inl (Error ''Unknown handoff capability''), w) \<and>
    cancel (with_memory_handoffs hv) (hw_store w) i token env = (False, None, hw_store w)"
proof -
  have "handoff_getAuthorized (hw_store w) i (sha256_text (hv_hash hv) token) t = (None, hw_store w)" for t
    using assms by (auto simp: handoff_getAuthorized_def memory_view_def split: option.splits)
  then show ?thesis
    by (simp add: poll_def cancel_def with_memory_handoffs_def)
qed

theorem handoff_capability_witness:
  "poll (with_memory_handoffs sample_handoffs) sample_world ''x'' ''t'' sample_call =
     (Inl (Error ''Unknown handoff capability''), sample_world) \<and>
   cancel (with_memory_handoffs sample_handoffs) (hw_store sample_world) ''x'' ''t'' sample_call =
     (False, None, hw_store sample_world)"
  using handoff_capability [of sample_world "''x''" sample_handoffs "''t''" sample_call]
  by (simp add: memory_view_def sample_world_def new_handoff_store_def)

text \<open>
  C17: A completed handoff keeps its proof: once a poll has stored a token, every later poll with the capability
  returns that token, after any further run, as long as the protector reads back what it wrote.
\<close>

theorem completed_handoff_repeats:
  assumes "fresh_handoffs w"
    and "handoff_run (with_memory_handoffs hv) (w, {#}) es s" "handoff_run (with_memory_handoffs hv) s es' s'"
    and "memory_view (hw_store (fst s)) i = Some (completed_record c completion)"
    and "hr_accessTokenDigest c = sha256_text (hv_hash hv) token"
    and "pt_unprotect (hv_protector hv) completion = Inr (JObj [(''humanProof'', JStr proof)])"
  shows "poll (with_memory_handoffs hv) (fst s') i token env =
    (Inr (CompletedView (hr_handoffId c) proof (hr_expiresAt c)), fst s')"
proof -
  have inv: "handoff_inv memory_view memory_ok s"
    by (rule memory_handoffs.run_inv [OF assms(2) fresh_handoffs_inv [OF assms(1)]])
  have "memory_view (hw_store (fst s')) i = Some (completed_record c completion)"
    by (rule memory_handoffs.run_terminal [OF assms(3) inv assms(4)]) simp
  then have g: "handoff_getAuthorized (hw_store (fst s')) i (sha256_text (hv_hash hv) token) t =
      (Some (completed_record c completion), hw_store (fst s'))" for t
    using assms(5) by (simp add: handoff_getAuthorized_def memory_view_def)
      (simp add: completed_record_def handoff_terminal_def)
  have "terminalView (hv_protector hv) (completed_record c completion) =
      Inr (Some (CompletedView (hr_handoffId c) proof (hr_expiresAt c)))"
    using assms(6) by (simp add: terminalView_def completed_record_def js_get_def)
  with g show ?thesis by (simp add: poll_def with_memory_handoffs_def poll_inspect_def)
qed

theorem completed_handoff_repeats_witness:
  "poll (with_memory_handoffs sample_handoffs)
     (sample_world\<lparr>hw_service := sample_satisfied_state,
        hw_store := sample_handoff_store sample_completed\<lparr>hs_activeDependencies := []\<rparr>\<rparr>)
     ''x424_handoff_u'' (encodeStrictBase64Url [1]) sample_call =
   (Inr (CompletedView (hr_handoffId sample_claimed) (snd sample_outcome) (hr_expiresAt sample_claimed)),
    sample_world\<lparr>hw_service := sample_satisfied_state,
      hw_store := sample_handoff_store sample_completed\<lparr>hs_activeDependencies := []\<rparr>\<rparr>)"
proof -
  have w: "fresh_handoffs (sample_world\<lparr>hw_service := sample_registered\<rparr>)"
    by (simp add: fresh_handoffs_def sample_world_def)
  have d: "hr_accessTokenDigest sample_claimed = sha256_text (hv_hash sample_handoffs) (encodeStrictBase64Url [1])"
    "pt_unprotect (hv_protector sample_handoffs) (snd sample_outcome) = Inr (JObj [(''humanProof'', JStr (snd sample_outcome))])"
    by (simp_all add: sample_claimed_def sample_handoff_def sample_handoffs_def sample_protector_def)
  have r: "memory_view (hw_store (fst (sample_world\<lparr>hw_service := sample_satisfied_state,
      hw_store := sample_handoff_store sample_completed\<lparr>hs_activeDependencies := []\<rparr>\<rparr>, {#} :: handoff_task multiset))) ''x424_handoff_u'' =
      Some (completed_record sample_claimed (snd sample_outcome))"
    by (simp add: memory_view_def sample_handoff_store_def sample_completed_def)
  from completed_handoff_repeats [OF w sample_completing_run run_nil r d] show ?thesis by simp
qed

text \<open>
  A poll whose claim was taken back, cancelled or expired meanwhile loses what it obtained: it reports a failure,
  the store stays as it is and the proof is not delivered, although the verifier has consumed the nonce.
\<close>

lemma lost_completion:
  assumes "memory_view h (hr_handoffId c) = Some r" "hr_version r \<noteq> hr_version c"
  shows "poll_write (with_memory_handoffs hv) h c (WriteCompletion (completed_record c x) view) =
    (FailedView (hr_handoffId c) ''HANDOFF_POLL_FAILED'' (hr_expiresAt c), h)"
proof -
  have "handoff_update h c n = (False, h)" for n
    using assms by (simp add: handoff_update_def memory_view_def)
  moreover have "failure_code ''HANDOFF_POLL_FAILED'' = ''HANDOFF_POLL_FAILED''" by code_simp
  ultimately show ?thesis by (simp add: poll_write_def failed_view_def)
qed

subsection \<open>The protected state\<close>

text \<open>A cipher opens what it sealed and its ciphertexts and tags are not empty.\<close>

definition cipher_opens :: "cipher \<Rightarrow> bool" where
  "cipher_opens cipher \<longleftrightarrow> (\<forall>key iv p c t. gcm_seal cipher key iv p = (c, t) \<longrightarrow>
     gcm_open cipher key iv t c = Some p \<and> t \<noteq> [] \<and> (p \<noteq> [] \<longrightarrow> c \<noteq> []))"

lemma base64url_no_dot: "CHR ''.'' \<notin> set (encodeStrictBase64Url bs)"
proof -
  have "\<not> is_b64url_char CHR ''.''" by code_simp
  then show ?thesis using encodeStrictBase64Url_alphabet [of bs] by (auto simp: list_all_iff)
qed

text \<open>
  The protector returns what it protected: for a cipher that opens what it sealed, unprotecting a protected
  JSON value gives its canonical form, under any initialisation vector.
\<close>

theorem protected_state_roundtrip:
  assumes "cipher_opens cipher" "iv \<noteq> []" "int_json v" "js_normalize v = Inr n"
  shows "bindE (aes_protect cipher key iv v) (aes_unprotect cipher key) = Inr n"
proof -
  have shape: "json_shape n" by (rule normalize_shape [OF assms(4,3)])
  have canon: "canonicalJson v = Inr (stringify n)" using assms(4) by (simp add: canonicalJson_def)
  have ne: "utf8_encode (stringify n) \<noteq> []"
    using stringify_head [OF shape] utf8_encode_inj [of "stringify n" "[]"] by (auto simp: utf8_encode_def)
  obtain c t where s: "gcm_seal cipher key iv (utf8_encode (stringify n)) = (c, t)" by fastforce
  with assms(1) ne have o: "gcm_open cipher key iv t c = Some (utf8_encode (stringify n))" "t \<noteq> []" "c \<noteq> []"
    by (auto simp: cipher_opens_def)
  have "CHR ''.'' \<notin> set envelope_version" by (simp add: envelope_version_def)
  then have "splitOn CHR ''.'' (joinWith ''.'' [envelope_version, encodeStrictBase64Url iv, encodeStrictBase64Url t,
      encodeStrictBase64Url c]) = [envelope_version, encodeStrictBase64Url iv, encodeStrictBase64Url t, encodeStrictBase64Url c]"
    by (intro splitOn_joinWith) (auto simp: base64url_no_dot)
  moreover have "decodeStrictBase64Url (encodeStrictBase64Url bs) l = Inr bs" if "bs \<noteq> []" for bs l
    using that by (simp add: decode_base64Url_iff)
  ultimately show ?thesis
    using assms(2) o JSON_parse_stringify [OF shape]
    by (simp add: aes_protect_def canon s aes_unprotect_def utf8_decode_body_encode del: joinWith.simps)
qed

theorem protected_state_roundtrip_witness:
  "bindE (aes_protect \<lparr>gcm_seal = (\<lambda>k iv p. (p, [1])), gcm_open = (\<lambda>k iv t c. Some c)\<rparr> [0] [2]
      (JObj [(''b'', JStr ''x''), (''a'', JNull)]))
     (aes_unprotect \<lparr>gcm_seal = (\<lambda>k iv p. (p, [1])), gcm_open = (\<lambda>k iv t c. Some c)\<rparr> [0]) =
   Inr (JObj [(''a'', JNull), (''b'', JStr ''x'')])"
proof (rule protected_state_roundtrip)
  show "cipher_opens \<lparr>gcm_seal = (\<lambda>k iv p. (p, [1])), gcm_open = (\<lambda>k iv t c. Some c)\<rparr>"
    by (simp add: cipher_opens_def)
  show "int_json (JObj [(''b'', JStr ''x''), (''a'', JNull)])" by code_simp
  show "js_normalize (JObj [(''b'', JStr ''x''), (''a'', JNull)]) = Inr (JObj [(''a'', JNull), (''b'', JStr ''x'')])"
    by code_simp
qed simp

end
