(* ===== verification/Effects.thy ===== *)
theory Effects
  imports Prelude
begin

section \<open>Effects: asynchronous code that throws\<close>

text \<open>
  A computation over a world \<open>'w\<close>: it returns or throws, and the changes it made to the world stay when it
  throws.  \<open>onWorld\<close> runs a computation of the world below a handler that carries response headers as well.
\<close>

type_synonym ('w, 'a) io = "'w \<Rightarrow> 'a res \<times> 'w"

definition io_return :: "'a \<Rightarrow> ('w, 'a) io" where
  "io_return x = (\<lambda>w. (Inr x, w))"

definition io_throw :: "exn \<Rightarrow> ('w, 'a) io" where
  "io_throw e = (\<lambda>w. (Inl e, w))"

definition io_lift :: "'a res \<Rightarrow> ('w, 'a) io" where
  "io_lift r = (\<lambda>w. (r, w))"

definition io_bind :: "('w, 'a) io \<Rightarrow> ('a \<Rightarrow> ('w, 'b) io) \<Rightarrow> ('w, 'b) io" where
  "io_bind m f = (\<lambda>w. case m w of (Inl e, w') \<Rightarrow> (Inl e, w') | (Inr x, w') \<Rightarrow> f x w')"

definition io_catch :: "('w, 'a) io \<Rightarrow> (exn \<Rightarrow> ('w, 'a) io) \<Rightarrow> ('w, 'a) io" where
  "io_catch m h = (\<lambda>w. case m w of (Inl e, w') \<Rightarrow> h e w' | (Inr x, w') \<Rightarrow> (Inr x, w'))"

definition onWorld :: "('w, 'a) io \<Rightarrow> ('w \<times> 's, 'a) io" where
  "onWorld m = (\<lambda>(w, s). case m w of (r, w') \<Rightarrow> (r, (w', s)))"

text \<open>What a computation may answer when it returns, and whether it may throw, in any world.\<close>

definition answers :: "('w, 'a) io \<Rightarrow> ('a \<Rightarrow> bool) \<Rightarrow> bool" where
  "answers m P \<longleftrightarrow> (\<forall>w x w'. m w = (Inr x, w') \<longrightarrow> P x)"

definition never_throws :: "('w, 'a) io \<Rightarrow> bool" where
  "never_throws m \<longleftrightarrow> (\<forall>w. \<exists>x w'. m w = (Inr x, w'))"

named_theorems io_simps "evaluation of effects"
named_theorems answers_intros "answers of effects"

lemma io_eval [io_simps]:
  "io_return x w = (Inr x, w)" "io_throw e w = (Inl e, w)" "io_lift r w = (r, w)"
  "onWorld m (v, s) = (case m v of (r, v') \<Rightarrow> (r, (v', s)))"
  by (simp_all add: io_return_def io_throw_def io_lift_def onWorld_def)

lemma io_bind_eq_Inr:
  "io_bind m f w = (Inr y, w'') \<longleftrightarrow> (\<exists>x w'. m w = (Inr x, w') \<and> f x w' = (Inr y, w''))"
  by (auto simp: io_bind_def split: prod.splits sum.splits)

lemma io_catch_eq_Inr:
  "io_catch m h w = (Inr y, w'') \<longleftrightarrow>
   m w = (Inr y, w'') \<or> (\<exists>e w'. m w = (Inl e, w') \<and> h e w' = (Inr y, w''))"
  by (auto simp: io_catch_def split: prod.splits sum.splits)

lemma onWorld_eq_Inr:
  "onWorld m ws = (Inr y, ws') \<longleftrightarrow> (\<exists>w'. m (fst ws) = (Inr y, w') \<and> ws' = (w', snd ws))"
  by (cases ws) (auto simp: onWorld_def split: prod.splits)

lemma onWorld_eq_Inl:
  "onWorld m ws = (Inl e, ws') \<longleftrightarrow> (\<exists>w'. m (fst ws) = (Inl e, w') \<and> ws' = (w', snd ws))"
  by (cases ws) (auto simp: onWorld_def split: prod.splits)

lemma io_bind_Inr: "m w = (Inr x, w') \<Longrightarrow> io_bind m f w = f x w'"
  by (simp add: io_bind_def)

lemma io_bind_Inl: "m w = (Inl e, w') \<Longrightarrow> io_bind m f w = (Inl e, w')"
  by (simp add: io_bind_def)

lemma answers_return [answers_intros]: "P x \<Longrightarrow> answers (io_return x) P"
  by (simp add: answers_def io_return_def)

lemma answers_throw [answers_intros]: "answers (io_throw e) P"
  by (simp add: answers_def io_throw_def)

lemma answers_bind [answers_intros]: "(\<And>x. answers (f x) P) \<Longrightarrow> answers (io_bind m f) P"
  by (auto simp: answers_def io_bind_eq_Inr)

lemma answers_bind_with:
  "answers m Q \<Longrightarrow> (\<And>x. Q x \<Longrightarrow> answers (f x) P) \<Longrightarrow> answers (io_bind m f) P"
  by (fastforce simp: answers_def io_bind_eq_Inr)

lemma answers_catch [answers_intros]: "answers m P \<Longrightarrow> (\<And>e. answers (h e) P) \<Longrightarrow> answers (io_catch m h) P"
  unfolding answers_def io_catch_def
  by (auto split: prod.splits sum.splits)

lemma never_throws_return [answers_intros]: "never_throws (io_return x)"
  by (simp add: never_throws_def io_return_def)

lemma never_throws_bind [answers_intros]:
  "never_throws m \<Longrightarrow> (\<And>x. never_throws (f x)) \<Longrightarrow> never_throws (io_bind m f)"
  unfolding never_throws_def io_bind_def by (metis (no_types, lifting) case_prod_conv sum.simps(6))

lemma never_throws_catch [answers_intros]: "(\<And>e. never_throws (h e)) \<Longrightarrow> never_throws (io_catch m h)"
  unfolding never_throws_def io_catch_def
  by (auto split: prod.splits sum.splits)

text \<open>Invariants of the world that a computation keeps, whether it returns or throws.\<close>

definition keeps :: "('w \<Rightarrow> bool) \<Rightarrow> ('w, 'a) io \<Rightarrow> bool" where
  "keeps I m \<longleftrightarrow> (\<forall>w. I w \<longrightarrow> I (snd (m w)))"

named_theorems keeps_intros "invariants of effects"

lemma keepsD: "keeps I m \<Longrightarrow> I w \<Longrightarrow> m w = (r, w') \<Longrightarrow> I w'"
  by (force simp: keeps_def)

lemma keeps_return [keeps_intros]: "keeps I (io_return x)"
  by (simp add: keeps_def io_return_def)

lemma keeps_throw [keeps_intros]: "keeps I (io_throw e)"
  by (simp add: keeps_def io_throw_def)

lemma keeps_lift [keeps_intros]: "keeps I (io_lift r)"
  by (simp add: keeps_def io_lift_def)

lemma keeps_bind [keeps_intros]: "keeps I m \<Longrightarrow> (\<And>x. keeps I (f x)) \<Longrightarrow> keeps I (io_bind m f)"
  unfolding keeps_def io_bind_def by (auto split: prod.splits sum.splits)

lemma keeps_catch [keeps_intros]: "keeps I m \<Longrightarrow> (\<And>e. keeps I (h e)) \<Longrightarrow> keeps I (io_catch m h)"
  unfolding keeps_def io_catch_def by (auto split: prod.splits sum.splits)

text \<open>An invariant of the world below a handler.\<close>

definition below :: "('w \<Rightarrow> bool) \<Rightarrow> 'w \<times> 's \<Rightarrow> bool" where
  "below I ws = I (fst ws)"

lemma keeps_onWorld [keeps_intros]: "keeps I m \<Longrightarrow> keeps (below I) (onWorld m)"
  unfolding keeps_def onWorld_def below_def by (auto split: prod.splits)

end
