(* ===== verification/Router.thy ===== *)
theory Router
  imports Effects Http Issuance Redaction Limits
begin

section \<open>The verifier API (src/api/router.ts)\<close>

text \<open>
  Every route handler as a computation over the world \<open>'w\<close> of stores, service and limiter (given by their
  operations, the clock included) and the headers set so far on the response.  Early returns answer a response,
  exceptions end in the handler's \<open>catch\<close>, headers already set stay.  Express, the body parser and the observer of
  internal errors are outside.
\<close>

record Request =
  hq_authorization :: "string option"
  hq_ip :: "string option"
  hq_param :: js
  hq_body :: js

type_synonym headers = "(string \<times> string) list"

record Response =
  rp_status :: nat
  rp_headers :: headers
  rp_body :: "js option"

type_synonym ('w, 'a) handling = "('w \<times> headers, 'a) io"

subsection \<open>The parts a router is built from\<close>

record 'w TenantOps =
  tn_put :: "HumanRequirement \<Rightarrow> string \<Rightarrow> ('w, unit) io"
  tn_get :: "string \<Rightarrow> string \<Rightarrow> ('w, HumanRequirement option) io"
  tn_delete :: "string \<Rightarrow> string \<Rightarrow> ('w, bool) io"

record 'w RequirementOps =
  qs_put :: "HumanRequirement \<Rightarrow> ('w, unit) io"
  qs_get :: "string \<Rightarrow> ('w, HumanRequirement option) io"
  qs_delete :: "string \<Rightarrow> ('w, unit) io"
  qs_tenant :: "'w TenantOps option"

record 'w ResultReplayOps =
  rr_consume :: "string \<Rightarrow> IsoTimestamp \<Rightarrow> ('w, bool) io"
  rr_consumeWithLegacy :: "(string \<Rightarrow> string \<Rightarrow> IsoTimestamp \<Rightarrow> ('w, bool) io) option"

record 'w AcceptanceOps =
  ac_accept :: "ResultAcceptanceInput \<Rightarrow> ('w, ResultAcceptanceStatus) io"
  ac_acceptWithLegacy :: "(ResultAcceptanceInput \<Rightarrow> string \<Rightarrow> ('w, ResultAcceptanceStatus) io) option"

record 'w HandoffOps =
  ho_start :: "string \<Rightarrow> string \<Rightarrow> string \<Rightarrow> string \<Rightarrow> ('w, js) io"
  ho_poll :: "string \<Rightarrow> string \<Rightarrow> ('w, js) io"
  ho_cancel :: "string \<Rightarrow> string \<Rightarrow> ('w, bool) io"

record 'w Router =
  ro_hash :: hash
  ro_zod :: zod
  ro_url :: url_parser
  ro_clock :: "'w \<Rightarrow> int"
  ro_ambient :: "('w, Ambient) io"
  ro_register :: "HumanRequirement \<Rightarrow> ('w, unit) io"
  ro_satisfy :: "HumanRequirement \<Rightarrow> HumanProofSubmission \<Rightarrow> ('w, HumanResult \<times> string) io"
  ro_providerRequests ::
    "(string \<Rightarrow> HumanBinding \<Rightarrow> HumanMethodRequirement list \<Rightarrow> int \<Rightarrow> ('w, (string \<times> js) list) io) option"
  ro_requirements :: "'w RequirementOps"
  ro_results :: "'w ResultReplayOps option"
  ro_acceptances :: "'w AcceptanceOps option"
  ro_handoffs :: "'w HandoffOps option"
  ro_authenticator :: "(string option \<Rightarrow> ('w, js) io) option"
  ro_rateLimiter :: "(string \<Rightarrow> ('w, RateLimitResult) io) option"
  ro_maximumStateTtlSeconds :: int
  ro_readinessCheck :: "('w, unit) io option"
  ro_profile :: DeploymentProfile

subsection \<open>Construction\<close>

text \<open>What the options say beyond the parts: which of them are in memory, and what was left out.\<close>

record 'w RouterOptions =
  xo_parts :: "'w Router"
  xo_hasProviderRequests :: bool
  xo_allowIssuerProviderRequests :: bool
  xo_deploymentProfile :: "DeploymentProfile option"
  xo_allowUnauthenticatedIssuance :: bool
  xo_requirementStore :: "('w RequirementOps \<times> bool) option"
  xo_defaultStore :: "'w RequirementOps res"
  xo_rateLimiterInMemory :: bool
  xo_maximumStateTtlSeconds :: "jsnum option"

definition MAXIMUM_STATE_TTL_SECONDS :: int where
  "MAXIMUM_STATE_TTL_SECONDS = 900"


text \<open>The store is missing or an \<open>InMemoryRequirementStore\<close>.\<close>

definition not_durable :: "('a \<times> bool) option \<Rightarrow> bool" where
  "not_durable store = (case store of None \<Rightarrow> True | Some (_, inMemory) \<Rightarrow> inMemory)"

definition router_profile_parts :: "'w RouterOptions \<Rightarrow> DeploymentProfile \<Rightarrow> unit res" where
  "router_profile_parts options profile =
     (if profile = DevLocal then Inr ()
      else if not_durable (xo_requirementStore options)
      then Inl (Error ''A durable shared RequirementStore is required outside dev-local'')
      else if ro_rateLimiter (xo_parts options) = None \<or> xo_rateLimiterInMemory options
      then Inl (Error ''A durable shared rate limiter is required outside dev-local'')
      else throwIf (ro_readinessCheck (xo_parts options) = None)
        (Error ''A readinessCheck is required outside dev-local''))"

definition router_authenticated_parts :: "'w Router \<Rightarrow> 'w RequirementOps \<Rightarrow> unit res" where
  "router_authenticated_parts parts store =
     (if ro_authenticator parts = None then Inr ()
      else if qs_tenant store = None
      then Inl (Error ''Authenticated verifier APIs require a TenantIsolatedRequirementStore'')
      else if whenSome (ro_results parts) (\<lambda>s. rr_consumeWithLegacy s = None)
      then Inl (Error ''Authenticated verifier APIs require a LegacyAwareResultReplayStore'')
      else if whenSome (ro_acceptances parts) (\<lambda>s. ac_acceptWithLegacy s = None)
      then Inl (Error ''Authenticated verifier APIs require a LegacyAwareResultAcceptanceStore'')
      else throwIf (ro_rateLimiter parts = None)
        (Error ''Authenticated verifier APIs require a rateLimiter for every request''))"

definition state_ttl :: "jsnum option \<Rightarrow> int res" where
  "state_ttl ttl = (case ttl of
     None \<Rightarrow> Inr MAXIMUM_STATE_TTL_SECONDS
   | Some (IntNum n) \<Rightarrow> (if n < 1 \<or> MAXIMUM_STATE_TTL_SECONDS < n
       then Inl (Error ''maximumStateTtlSeconds must be between 1 and 900'') else Inr n)
   | Some _ \<Rightarrow> Inl (Error ''maximumStateTtlSeconds must be between 1 and 900''))"

definition createX424HttpRouter :: "'w RouterOptions \<Rightarrow> 'w Router res" where
  "createX424HttpRouter options =
     (if xo_hasProviderRequests options = xo_allowIssuerProviderRequests options
      then Inl (Error ''Configure exactly one provider-request source: verifier or issuer'')
      else bindE (assertIssuanceRouterConfig (xo_deploymentProfile options) (xo_allowUnauthenticatedIssuance options)
             (ro_authenticator (xo_parts options) \<noteq> None)) (\<lambda>profile.
      bindE (router_profile_parts options profile) (\<lambda>_.
      bindE (case xo_requirementStore options of None \<Rightarrow> xo_defaultStore options | Some (s, _) \<Rightarrow> Inr s) (\<lambda>store.
      bindE (router_authenticated_parts (xo_parts options) store) (\<lambda>_.
      bindE (state_ttl (xo_maximumStateTtlSeconds options)) (\<lambda>ttl.
      Inr ((xo_parts options)\<lparr>ro_requirements := store, ro_maximumStateTtlSeconds := ttl, ro_profile := profile\<rparr>)))))))"

subsection \<open>Request schemas\<close>

text \<open>
  An array without a maximum has at most 2^32 - 1 elements.  The bounds \<open>validate\<close> has no check for (the
  lower bounds of \<open>ttlSeconds\<close> and of the record's keys, the union of body inputs) are stated next to the schema.
\<close>

definition MethodSchema :: schema where
  "MethodSchema = ZObject [
     req ''providerId'' (ZString [Identifier]), req ''methodId'' (ZString [Identifier]),
     req ''descriptorVersion'' (ZString [MinLen 1, MaxLen 50]),
     opt ''assuranceLevel'' (ZString [MinLen 1, MaxLen 100]),
     req ''acceptedScopeKinds'' (ZArray ScopeKindSchema 1 4294967295),
     opt ''maximumProofAgeSeconds'' (ZNumber [IsInt, Positive, MaxNum 86400]),
     opt ''verificationModes'' (ZArray VerificationModeSchema 1 4294967295)]"

definition BodyInputSchemas :: "schema list" where
  "BodyInputSchemas = [
     ZObject [req ''kind'' (ZLiteral (JStr ''absent''))],
     ZObject [req ''kind'' (ZLiteral (JStr ''empty''))],
     ZObject [req ''kind'' (ZLiteral (JStr ''json'')), opt ''value'' ZUnknown],
     ZObject [req ''kind'' (ZLiteral (JStr ''opaque'')), req ''bytesBase64url'' (ZString [MinLen 1, MaxLen 350000])],
     ZObject [req ''kind'' (ZLiteral (JStr ''precomputed'')), req ''bodyDigest'' (ZString [MinLen 1, MaxLen 50])]]"

definition CreateSchema :: schema where
  "CreateSchema = ZObject [
     req ''purpose'' (ZString [MinLen 1, MaxLen 200]), req ''method'' (ZString [MinLen 1, MaxLen 20]),
     req ''uri'' (ZString [Url, MaxLen 2048]), req ''audience'' (ZString [Url, MaxLen 2048]),
     opt ''body'' ZUnknown, opt ''bodyInput'' ZUnknown, req ''binding'' BindingSchema,
     req ''accepts'' (ZArray MethodSchema 1 10), opt ''providerRequests'' (ZRecord 201),
     opt ''ttlSeconds'' (ZNumber [IsInt, MaxNum 900])]"

definition create_valid :: "zod \<Rightarrow> js \<Rightarrow> bool" where
  "create_valid z v \<longleftrightarrow> validate z CreateSchema v \<and>
     (js_get v ''bodyInput'' \<noteq> JUndefined \<longrightarrow> list_ex (\<lambda>s. validate z s (js_get v ''bodyInput'')) BodyInputSchemas) \<and>
     list_all (\<lambda>(k, _). 3 \<le> length k) (members_of (js_get v ''providerRequests'')) \<and>
     (js_get v ''ttlSeconds'' \<noteq> JUndefined \<longrightarrow> 30 \<le> int_of_js (js_get v ''ttlSeconds''))"

definition ProofSchema :: schema where
  "ProofSchema = ZObject [
     req ''x424Version'' (ZLiteral (JStr ''0.1'')), req ''dependencyId'' (ZString [MinLen 1, MaxLen 200]),
     req ''providerId'' (ZString [Identifier]), req ''methodId'' (ZString [Identifier]),
     req ''binding'' BindingSchema, opt ''nativeProof'' ZUnknown]"

definition ResultConsumeSchema :: schema where
  "ResultConsumeSchema = ZObject [req ''expiresAt'' (ZString [DateTimeOffset])]"

definition ResultAcceptanceSchema :: schema where
  "ResultAcceptanceSchema = ZObject [req ''operationId'' (ZString [MinLen 1, MaxLen 512]),
     req ''requestDigest'' (ZString []), req ''expiresAt'' (ZString [DateTimeOffset])]"

definition StateResourceIdSchema :: schema where
  "StateResourceIdSchema = ZString [MinLen 1, MaxLen 200]"

definition StartHandoffSchema :: schema where
  "StartHandoffSchema = ZObject [req ''nonce'' (ZString [MinLen 1, MaxLen 512]),
     req ''providerId'' (ZString [Identifier]), req ''methodId'' (ZString [Identifier])]"

text \<open>\<open>z.string().datetime()\<close> without an offset: the text must end in \<open>Z\<close>.\<close>

definition utc_datetime :: "js \<Rightarrow> bool" where
  "utc_datetime v \<longleftrightarrow> endsWith (str_of v) ''Z''"

definition resolveIssuanceBodyInput :: "js \<Rightarrow> js \<Rightarrow> RequestBodyDigestInput res" where
  "resolveIssuanceBodyInput bodyInput body =
     (if bodyInput = JUndefined then bodyInputFromPlainJsonBody body
      else let kind = get_str bodyInput ''kind''
        in if kind = ''absent'' then Inr BodyAbsent
           else if kind = ''empty'' then Inr BodyEmpty
           else if kind = ''json'' then Inr (BodyJson (js_get bodyInput ''value''))
           else if kind = ''opaque''
           then bindE (decodeStrictBase64Url (get_str bodyInput ''bytesBase64url'') ''opaque body bytes'')
                  (\<lambda>bs. Inr (BodyOpaque bs))
           else Inr (BodyPrecomputed (get_str bodyInput ''bodyDigest'')))"

definition exactMethods :: "js \<Rightarrow> HumanMethodRequirement list" where
  "exactMethods methods = map method_of_js (elems_of methods)"

subsection \<open>Identities in keys\<close>

definition scopedStateId :: "hash \<Rightarrow> string \<Rightarrow> string \<Rightarrow> string" where
  "scopedStateId H tenantId stateId =
     sha256_text H (''x424-state-v1'' @ [CHR 0x00] @ tenantId @ [CHR 0x00] @ stateId)"

fun principal_issuer :: "AnyIssuancePrincipal \<Rightarrow> string" where
  "principal_issuer (Granted p) = (case ip_issuer p of None \<Rightarrow> [] | Some i \<Rightarrow> i)"
| "principal_issuer (DevWildcard subject) = []"

fun principal_subject :: "AnyIssuancePrincipal \<Rightarrow> string" where
  "principal_subject (Granted p) = ip_subject p"
| "principal_subject (DevWildcard subject) = subject"

definition tenantStateId :: "hash \<Rightarrow> AnyIssuancePrincipal \<Rightarrow> string" where
  "tenantStateId H p =
     sha256_text H (''x424-tenant-v2'' @ [CHR 0x00] @ principal_issuer p @ [CHR 0x00] @ principal_subject p)"

definition networkStateId :: "hash \<Rightarrow> Request \<Rightarrow> string" where
  "networkStateId H request = sha256_text H (case hq_ip request of None \<Rightarrow> ''unknown'' | Some ip \<Rightarrow> ip)"

definition boundedFutureExpiry :: "string \<Rightarrow> int \<Rightarrow> int \<Rightarrow> bool" where
  "boundedFutureExpiry expiresAt maximumTtlSeconds now = (case date_parse expiresAt of
     None \<Rightarrow> False | Some e \<Rightarrow> now < e \<and> e \<le> now + maximumTtlSeconds * 1000)"

subsection \<open>Responses\<close>

definition setHeader :: "string \<Rightarrow> string \<Rightarrow> ('w, unit) handling" where
  "setHeader name value = (\<lambda>(w, hs). (Inr (), (w, AList.update name value hs)))"

definition js_of_public_problem :: "PublicProblem \<Rightarrow> js" where
  "js_of_public_problem p = JObj [(''type'', JStr (pp_type p)), (''title'', JStr (pp_title p)),
     (''status'', JNum (IntNum (int (pp_status p)))), (''detail'', JStr (pp_detail p)), (''code'', JStr (pp_code p))]"

text \<open>\<open>response.json\<close> keeps a content type that is already set.\<close>

definition send_json :: "nat \<Rightarrow> js \<Rightarrow> ('w, Response) handling" where
  "send_json status body = (\<lambda>(w, hs).
     (let hs' = (if map_of hs ''content-type'' = None then AList.update ''content-type'' ''application/json'' hs else hs)
      in (Inr \<lparr>rp_status = status, rp_headers = hs', rp_body = Some body\<rparr>, (w, hs'))))"

definition send_empty :: "nat \<Rightarrow> ('w, Response) handling" where
  "send_empty status = (\<lambda>(w, hs). (Inr \<lparr>rp_status = status, rp_headers = hs, rp_body = None\<rparr>, (w, hs)))"

definition sendProblem :: "nat \<Rightarrow> string \<Rightarrow> ('w, Response) handling" where
  "sendProblem status code =
     (let problem = publicProblem status code None
      in io_bind (setHeader ''content-type'' ''application/problem+json'') (\<lambda>_.
         send_json (pp_status problem) (js_of_public_problem problem)))"

text \<open>\<open>cache-control\<close> and \<open>vary\<close> of the state routes.\<close>

definition private_response :: "('w, unit) handling" where
  "private_response = io_bind (setHeader ''cache-control'' ''no-store, private'') (\<lambda>_.
     setHeader ''vary'' ''authorization'')"

subsection \<open>Rate limits and authentication\<close>

text \<open>A computation that may already have answered: \<open>Some\<close> response ends the handler.\<close>

definition unless_answered :: "('w, Response option) handling \<Rightarrow> ('w, Response) handling \<Rightarrow> ('w, Response) handling" where
  "unless_answered m k = io_bind m (\<lambda>r. case r of Some response \<Rightarrow> io_return response | None \<Rightarrow> k)"

definition clock :: "'w Router \<Rightarrow> ('w, int) handling" where
  "clock ro = (\<lambda>(w, hs). (Inr (ro_clock ro w), (w, hs)))"

definition retry_seconds :: "int \<Rightarrow> int \<Rightarrow> int" where
  "retry_seconds resetAt now = max 1 (- ((- (resetAt - now)) div 1000))"

definition limit_state :: "'w Router \<Rightarrow> string \<Rightarrow> ('w, Response option) handling" where
  "limit_state ro key = (case ro_rateLimiter ro of
     None \<Rightarrow> io_return None
   | Some consume \<Rightarrow>
       io_bind (onWorld (consume key)) (\<lambda>limit.
       io_bind (setHeader ''x-ratelimit-remaining'' (string_of_int (rl_remaining limit))) (\<lambda>_.
       if rl_allowed limit then io_return None
       else io_bind (clock ro) (\<lambda>now.
            io_bind (setHeader ''retry-after'' (string_of_int (retry_seconds (rl_resetAt limit) now))) (\<lambda>_.
            io_bind (sendProblem 429 ''RATE_LIMITED'') (\<lambda>r. io_return (Some r)))))))"

definition consumeStateAuthenticationRateLimit :: "'w Router \<Rightarrow> Request \<Rightarrow> ('w, Response option) handling" where
  "consumeStateAuthenticationRateLimit ro request =
     (if ro_authenticator ro = None then io_return None
      else limit_state ro (''state:authenticate:ip:'' @ networkStateId (ro_hash ro) request))"

definition consumeStateRateLimit ::
  "'w Router \<Rightarrow> Request \<Rightarrow> string \<Rightarrow> AnyIssuancePrincipal option \<Rightarrow> ('w, Response option) handling" where
  "consumeStateRateLimit ro request action who =
     limit_state ro (''state:'' @ action @ '':'' @ (case who of
         None \<Rightarrow> ''ip:'' @ networkStateId (ro_hash ro) request
       | Some p \<Rightarrow> ''tenant:'' @ tenantStateId (ro_hash ro) p))"

text \<open>The limit of the issuing and verifying routes, whose \<open>retry-after\<close> is one second.\<close>

definition limit_network :: "'w Router \<Rightarrow> Request \<Rightarrow> string \<Rightarrow> ('w, Response option) handling" where
  "limit_network ro request action = (case ro_rateLimiter ro of
     None \<Rightarrow> io_return None
   | Some consume \<Rightarrow>
       io_bind (onWorld (consume (action @ '':ip:'' @ networkStateId (ro_hash ro) request))) (\<lambda>limit.
       io_bind (setHeader ''x-ratelimit-remaining'' (string_of_int (rl_remaining limit))) (\<lambda>_.
       if rl_allowed limit then io_return None
       else io_bind (setHeader ''retry-after'' ''1'') (\<lambda>_.
            io_bind (sendProblem 429 ''RATE_LIMITED'') (\<lambda>r. io_return (Some r))))))"

definition authenticated_principal :: "(string option \<Rightarrow> ('w, js) io) \<Rightarrow> Request \<Rightarrow> ('w, AnyIssuancePrincipal) handling" where
  "authenticated_principal authenticator request =
     io_bind (onWorld (authenticator (hq_authorization request))) (\<lambda>v. io_lift (validateIssuancePrincipal v))"

definition authenticateStateRequest :: "'w Router \<Rightarrow> Request \<Rightarrow> ('w, AnyIssuancePrincipal option) handling" where
  "authenticateStateRequest ro request = (case ro_authenticator ro of
     None \<Rightarrow> io_return None
   | Some authenticator \<Rightarrow> io_bind (authenticated_principal authenticator request) (\<lambda>who.
       if ro_profile ro \<noteq> DevLocal \<and> (case who of DevWildcard _ \<Rightarrow> True | Granted _ \<Rightarrow> False)
       then io_throw invalid_principal else io_return (Some who)))"

text \<open>\<open>/^Bearer ([A-Za-z0-9_-]{43})$/u\<close>.\<close>

definition handoffBearer :: "Request \<Rightarrow> string option" where
  "handoffBearer request = (case hq_authorization request of
     None \<Rightarrow> None
   | Some h \<Rightarrow> if startsWith h ''Bearer '' \<and> length h = 50 \<and> list_all is_b64url_char (drop 7 h)
       then Some (drop 7 h) else None)"

text \<open>Limits, authentication and the limit of the principal, before a state route does its work.\<close>

definition with_state_principal ::
  "'w Router \<Rightarrow> Request \<Rightarrow> string \<Rightarrow> (AnyIssuancePrincipal option \<Rightarrow> ('w, Response) handling) \<Rightarrow>
   ('w, Response) handling" where
  "with_state_principal ro request action k =
     unless_answered (consumeStateAuthenticationRateLimit ro request)
       (io_bind (authenticateStateRequest ro request) (\<lambda>who.
        unless_answered (consumeStateRateLimit ro request action who) (k who)))"

definition catching :: "nat \<Rightarrow> string \<Rightarrow> ('w, Response) handling \<Rightarrow> ('w, Response) handling" where
  "catching status code m = io_catch m (\<lambda>_. sendProblem status code)"

end
