(* ===== verification/RouterRoutes.thy ===== *)
theory RouterRoutes
  imports Router
begin

section \<open>The routes of the verifier API (src/api/router.ts)\<close>

text \<open>
  One definition per route: the body of the handler on the parts \<open>Router\<close> defines.  A request's \<open>hq_param\<close> is the
  identifier in its path.
\<close>

subsection \<open>Issuing requirements\<close>

definition issuance_request :: "js \<Rightarrow> IssuanceAuthorizationRequest" where
  "issuance_request body = \<lparr>ar_purpose = get_str body ''purpose'', ar_method = get_str body ''method'',
     ar_uri = get_str body ''uri'', ar_audience = get_str body ''audience'',
     ar_accepts = map (\<lambda>m. (m_providerId m, m_methodId m)) (exactMethods (js_get body ''accepts''))\<rparr>"

definition issue_tenant :: "'w Router \<Rightarrow> Request \<Rightarrow> ('w, string option) handling" where
  "issue_tenant ro request = (case ro_authenticator ro of
     None \<Rightarrow> io_return None
   | Some authenticator \<Rightarrow> io_bind (authenticated_principal authenticator request) (\<lambda>who.
       io_bind (io_lift (authorizeIssuance (ro_url ro) (js_of_principal who) (issuance_request (hq_body request))
                  (ro_profile ro))) (\<lambda>_.
       io_return (Some (tenantStateId (ro_hash ro) who)))))"

definition ttl_seconds :: "js \<Rightarrow> int" where
  "ttl_seconds body = (if js_get body ''ttlSeconds'' = JUndefined then 300 else int_of_js (js_get body ''ttlSeconds''))"

definition issue_provider_requests :: "'w Router \<Rightarrow> js \<Rightarrow> ('w, (string \<times> js) list) handling" where
  "issue_provider_requests ro body = (case ro_providerRequests ro of
     Some provide \<Rightarrow>
       if js_get body ''providerRequests'' \<noteq> JUndefined
       then io_throw (Error ''Issuer provider requests are disabled for this verifier'')
       else onWorld (provide (get_str body ''purpose'') (binding_of_js (js_get body ''binding''))
              (exactMethods (js_get body ''accepts'')) (ttl_seconds body))
   | None \<Rightarrow>
       if js_get body ''providerRequests'' = JUndefined
       then io_throw (Error ''Authenticated issuer provider requests are required'')
       else io_return (members_of (js_get body ''providerRequests'')))"

definition create_input :: "js \<Rightarrow> RequestBodyDigestInput \<Rightarrow> (string \<times> js) list \<Rightarrow> CreateInput" where
  "create_input body bodyInput providerRequests =
     \<lparr>cr_purpose = get_str body ''purpose'', cr_method = get_str body ''method'', cr_uri = get_str body ''uri'',
      cr_audience = get_str body ''audience'', cr_body = JUndefined, cr_bodyInput = Some bodyInput,
      cr_binding = binding_of_js (js_get body ''binding''), cr_accepts = exactMethods (js_get body ''accepts''),
      cr_providerRequests = Some providerRequests, cr_ttlSeconds = Some (IntNum (ttl_seconds body)),
      cr_dependencyId = None, cr_nonce = None, cr_now = None\<rparr>"

definition issue_create :: "'w Router \<Rightarrow> js \<Rightarrow> (string \<times> js) list \<Rightarrow> ('w, HumanRequirement) handling" where
  "issue_create ro body providerRequests =
     io_bind (io_lift (resolveIssuanceBodyInput (js_get body ''bodyInput'') (js_get body ''body''))) (\<lambda>bodyInput.
     io_bind (onWorld (ro_ambient ro)) (\<lambda>ambient.
     io_lift (createHumanRequirement (ro_hash ro) ambient (create_input body bodyInput providerRequests))))"

text \<open>Storing and registering; a requirement that cannot be registered is deleted again.\<close>

definition issue_store :: "'w Router \<Rightarrow> string option \<Rightarrow> HumanRequirement \<Rightarrow> ('w, unit) handling" where
  "issue_store ro tenantId requirement = (case (tenantId, qs_tenant (ro_requirements ro)) of
     (None, _) \<Rightarrow> onWorld (qs_put (ro_requirements ro) requirement)
   | (Some tenant, Some ops) \<Rightarrow> onWorld (tn_put ops requirement tenant)
   | (Some tenant, None) \<Rightarrow> io_throw (TypeError ''tenantRequirementStore is undefined''))"

definition issue_register :: "'w Router \<Rightarrow> HumanRequirement \<Rightarrow> ('w, unit) handling" where
  "issue_register ro requirement = io_catch (onWorld (ro_register ro requirement)) (\<lambda>e.
     io_bind (onWorld (qs_delete (ro_requirements ro) (rq_dependencyId requirement))) (\<lambda>_. io_throw e))"

fun set_headers :: "headers \<Rightarrow> ('w, unit) handling" where
  "set_headers [] = io_return ()"
| "set_headers ((k, v) # hs) = io_bind (setHeader k v) (\<lambda>_. set_headers hs)"

definition issue_answer :: "HumanRequirement \<Rightarrow> ('w, Response) handling" where
  "issue_answer requirement =
     io_bind (io_lift (humanRequiredResponse requirement)) (\<lambda>challenge.
     io_bind (set_headers (hc_headers challenge)) (\<lambda>_.
     send_json 201 (JObj [(''requirement'', js_of_requirement requirement),
       (''x424Transport'', JStr (transport_text (hc_transport challenge)))])))"

definition issue :: "'w Router \<Rightarrow> Request \<Rightarrow> ('w, Response) handling" where
  "issue ro request =
     io_bind (issue_tenant ro request) (\<lambda>tenantId.
     io_bind (issue_provider_requests ro (hq_body request)) (\<lambda>providerRequests.
     io_bind (issue_create ro (hq_body request) providerRequests) (\<lambda>requirement.
     io_bind (issue_store ro tenantId requirement) (\<lambda>_.
     io_bind (issue_register ro requirement) (\<lambda>_.
     issue_answer requirement)))))"

fun issue_rejection :: "exn \<Rightarrow> nat \<times> string" where
  "issue_rejection (IssuanceAuthorizationError code m) = (if code = ''UNAUTHENTICATED'' then 401 else 403, code)"
| "issue_rejection e = (400, ''REQUIREMENT_REJECTED'')"

definition post_requirements :: "'w Router \<Rightarrow> Request \<Rightarrow> ('w, Response) handling" where
  "post_requirements ro request = unless_answered (limit_network ro request ''issue'')
     (if \<not> create_valid (ro_zod ro) (hq_body request) then sendProblem 400 ''INVALID_REQUIREMENT''
      else io_catch (issue ro request) (\<lambda>e. sendProblem (fst (issue_rejection e)) (snd (issue_rejection e))))"

subsection \<open>Reading and deleting requirements\<close>

definition get_requirement :: "'w Router \<Rightarrow> Request \<Rightarrow> ('w, Response) handling" where
  "get_requirement ro request = io_bind private_response (\<lambda>_.
     if \<not> validate (ro_zod ro) StateResourceIdSchema (hq_param request) then sendProblem 400 ''INVALID_DEPENDENCY''
     else catching 401 ''STATE_READ_REJECTED''
       (with_state_principal ro request ''requirement-read'' (\<lambda>who.
         io_bind (case (who, qs_tenant (ro_requirements ro)) of
             (None, _) \<Rightarrow> onWorld (qs_get (ro_requirements ro) (str_of (hq_param request)))
           | (Some p, Some ops) \<Rightarrow> onWorld (tn_get ops (str_of (hq_param request)) (tenantStateId (ro_hash ro) p))
           | (Some p, None) \<Rightarrow> io_throw (TypeError ''tenantRequirementStore is undefined'')) (\<lambda>found.
         case found of
           None \<Rightarrow> sendProblem 404 ''DEPENDENCY_NOT_FOUND''
         | Some requirement \<Rightarrow> send_json 200 (JObj [(''requirement'', js_of_requirement requirement)])))))"

definition delete_requirement :: "'w Router \<Rightarrow> Request \<Rightarrow> ('w, Response) handling" where
  "delete_requirement ro request = io_bind private_response (\<lambda>_.
     if \<not> validate (ro_zod ro) StateResourceIdSchema (hq_param request) then sendProblem 400 ''INVALID_DEPENDENCY''
     else catching 401 ''STATE_DELETE_REJECTED''
       (with_state_principal ro request ''requirement-delete'' (\<lambda>who.
         io_bind (case (who, qs_tenant (ro_requirements ro)) of
             (None, _) \<Rightarrow> io_bind (onWorld (qs_delete (ro_requirements ro) (str_of (hq_param request))))
                 (\<lambda>_. io_return True)
           | (Some p, Some ops) \<Rightarrow> onWorld (tn_delete ops (str_of (hq_param request)) (tenantStateId (ro_hash ro) p))
           | (Some p, None) \<Rightarrow> io_throw (TypeError ''tenantRequirementStore is undefined'')) (\<lambda>deleted.
         if deleted then send_empty 204 else sendProblem 404 ''DEPENDENCY_NOT_FOUND''))))"

subsection \<open>Handoffs\<close>

definition post_handoffs :: "'w Router \<Rightarrow> Request \<Rightarrow> ('w, Response) handling" where
  "post_handoffs ro request = (case ro_handoffs ro of
     None \<Rightarrow> sendProblem 404 ''HANDOFF_DISABLED''
   | Some handoffs \<Rightarrow>
       if typeof (hq_param request) \<noteq> ''string'' \<or> \<not> validate (ro_zod ro) StartHandoffSchema (hq_body request)
       then sendProblem 400 ''INVALID_HANDOFF''
       else catching 400 ''HANDOFF_REJECTED''
         (unless_answered
           (case ro_rateLimiter ro of
              None \<Rightarrow> io_return None
            | Some consume \<Rightarrow>
                io_bind (onWorld (consume (''handoff:ip:'' @ networkStateId (ro_hash ro) request))) (\<lambda>limit.
                if rl_allowed limit then io_return None
                else io_bind (sendProblem 429 ''RATE_LIMITED'') (\<lambda>r. io_return (Some r))))
           (io_bind (onWorld (ho_start handoffs (str_of (hq_param request)) (get_str (hq_body request) ''nonce'')
                      (get_str (hq_body request) ''providerId'') (get_str (hq_body request) ''methodId''))) (\<lambda>started.
            io_bind (setHeader ''cache-control'' ''no-store, private'') (\<lambda>_.
            send_json 201 started)))))"

definition get_handoff :: "'w Router \<Rightarrow> Request \<Rightarrow> ('w, Response) handling" where
  "get_handoff ro request = io_bind private_response (\<lambda>_.
     case (ro_handoffs ro, handoffBearer request) of
       (None, _) \<Rightarrow> sendProblem 404 ''HANDOFF_DISABLED''
     | (Some _, None) \<Rightarrow> sendProblem 401 ''HANDOFF_UNAUTHORIZED''
     | (Some handoffs, Some accessToken) \<Rightarrow>
         if typeof (hq_param request) \<noteq> ''string'' then sendProblem 401 ''HANDOFF_UNAUTHORIZED''
         else catching 401 ''HANDOFF_UNAUTHORIZED''
           (unless_answered (consumeStateRateLimit ro request ''handoff-poll'' None)
             (io_bind (onWorld (ho_poll handoffs (str_of (hq_param request)) accessToken)) (send_json 200))))"

definition delete_handoff :: "'w Router \<Rightarrow> Request \<Rightarrow> ('w, Response) handling" where
  "delete_handoff ro request = io_bind private_response (\<lambda>_.
     case (ro_handoffs ro, handoffBearer request) of
       (None, _) \<Rightarrow> sendProblem 404 ''HANDOFF_DISABLED''
     | (Some _, None) \<Rightarrow> sendProblem 401 ''HANDOFF_UNAUTHORIZED''
     | (Some handoffs, Some accessToken) \<Rightarrow>
         if typeof (hq_param request) \<noteq> ''string'' then sendProblem 401 ''HANDOFF_UNAUTHORIZED''
         else unless_answered (consumeStateRateLimit ro request ''handoff-cancel'' None)
           (io_bind (onWorld (ho_cancel handoffs (str_of (hq_param request)) accessToken)) (\<lambda>cancelled.
            if cancelled then send_empty 204 else sendProblem 404 ''HANDOFF_NOT_FOUND'')))"

subsection \<open>Results\<close>

definition state_tenant :: "'w Router \<Rightarrow> AnyIssuancePrincipal option \<Rightarrow> string" where
  "state_tenant ro who = (case who of None \<Rightarrow> ''dev-local-unauthenticated'' | Some p \<Rightarrow> tenantStateId (ro_hash ro) p)"

definition consume_valid :: "'w Router \<Rightarrow> Request \<Rightarrow> int \<Rightarrow> bool" where
  "consume_valid ro request now \<longleftrightarrow> validate (ro_zod ro) StateResourceIdSchema (hq_param request) \<and>
     validate (ro_zod ro) ResultConsumeSchema (hq_body request) \<and> utc_datetime (js_get (hq_body request) ''expiresAt'') \<and>
     boundedFutureExpiry (get_str (hq_body request) ''expiresAt'') (ro_maximumStateTtlSeconds ro) now"

definition post_consume :: "'w Router \<Rightarrow> Request \<Rightarrow> ('w, Response) handling" where
  "post_consume ro request = io_bind private_response (\<lambda>_. case ro_results ro of
     None \<Rightarrow> sendProblem 404 ''STATE_ENDPOINT_DISABLED''
   | Some store \<Rightarrow> io_bind (clock ro) (\<lambda>now.
       if \<not> consume_valid ro request now then sendProblem 400 ''INVALID_RESULT_CONSUMPTION''
       else catching 401 ''RESULT_CONSUMPTION_REJECTED''
         (with_state_principal ro request ''result-consume'' (\<lambda>who.
           let resultId = str_of (hq_param request); expiresAt = get_str (hq_body request) ''expiresAt'';
               scopedResultId = scopedStateId (ro_hash ro) (state_tenant ro who) resultId
           in io_bind (case rr_consumeWithLegacy store of
                  Some consumeWithLegacy \<Rightarrow> onWorld (consumeWithLegacy scopedResultId resultId expiresAt)
                | None \<Rightarrow> onWorld (rr_consume store scopedResultId expiresAt)) (\<lambda>consumed.
              send_json 200 (JObj [(''consumed'', JBool consumed)]))))))"

definition accept_valid :: "'w Router \<Rightarrow> Request \<Rightarrow> int \<Rightarrow> bool" where
  "accept_valid ro request now \<longleftrightarrow> validate (ro_zod ro) StateResourceIdSchema (hq_param request) \<and>
     validate (ro_zod ro) ResultAcceptanceSchema (hq_body request) \<and>
     is_digest_text (get_str (hq_body request) ''requestDigest'') \<and>
     utc_datetime (js_get (hq_body request) ''expiresAt'') \<and>
     boundedFutureExpiry (get_str (hq_body request) ''expiresAt'') (ro_maximumStateTtlSeconds ro) now"

fun acceptance_text :: "ResultAcceptanceStatus \<Rightarrow> string" where
  "acceptance_text AcceptNew = ''new''"
| "acceptance_text SameOperation = ''same_operation''"
| "acceptance_text Replay = ''replay''"

definition post_acceptances :: "'w Router \<Rightarrow> Request \<Rightarrow> ('w, Response) handling" where
  "post_acceptances ro request = io_bind private_response (\<lambda>_. case ro_acceptances ro of
     None \<Rightarrow> sendProblem 404 ''STATE_ENDPOINT_DISABLED''
   | Some store \<Rightarrow> io_bind (clock ro) (\<lambda>now.
       if \<not> accept_valid ro request now then sendProblem 400 ''INVALID_RESULT_ACCEPTANCE''
       else catching 401 ''RESULT_ACCEPTANCE_REJECTED''
         (with_state_principal ro request ''result-accept'' (\<lambda>who.
           let resultId = str_of (hq_param request);
               input = \<lparr>ra_resultId = scopedStateId (ro_hash ro) (state_tenant ro who) resultId,
                 ra_operationId = get_str (hq_body request) ''operationId'',
                 ra_requestDigest = get_str (hq_body request) ''requestDigest'',
                 ra_expiresAt = get_str (hq_body request) ''expiresAt''\<rparr>
           in io_bind (case ac_acceptWithLegacy store of
                  Some acceptWithLegacy \<Rightarrow> onWorld (acceptWithLegacy input resultId)
                | None \<Rightarrow> onWorld (ac_accept store input)) (\<lambda>status.
              send_json 200 (JObj [(''status'', JStr (acceptance_text status))]))))))"

subsection \<open>Verifying a proof\<close>

definition verify_submission ::
  "'w Router \<Rightarrow> Request \<Rightarrow> HumanRequirement \<Rightarrow> ('w, Response) handling" where
  "verify_submission ro request requirement =
     io_catch
       (io_bind (io_lift (parseHumanProofSubmission (ro_zod ro) (hq_body request))) (\<lambda>pf.
        io_bind (onWorld (ro_satisfy ro requirement pf)) (\<lambda>(result, token).
        io_bind (setHeader ''human-result'' token) (\<lambda>_.
        io_bind (setHeader ''cache-control'' ''no-store, private'') (\<lambda>_.
        send_json 200 (JObj [(''result'', js_of_result result), (''token'', JStr token)]))))))
       (\<lambda>e. io_bind (onWorld (qs_delete (ro_requirements ro) (rq_dependencyId requirement))) (\<lambda>_.
        sendProblem (fst (classifyVerifierError e)) (snd (classifyVerifierError e))))"

definition post_verify :: "'w Router \<Rightarrow> Request \<Rightarrow> ('w, Response) handling" where
  "post_verify ro request = unless_answered (limit_network ro request ''verify'')
     (if typeof (hq_param request) \<noteq> ''string'' then sendProblem 400 ''INVALID_DEPENDENCY''
      else io_bind (onWorld (qs_get (ro_requirements ro) (str_of (hq_param request)))) (\<lambda>found. case found of
          None \<Rightarrow> sendProblem 404 ''DEPENDENCY_NOT_FOUND''
        | Some requirement \<Rightarrow>
            if \<not> validate (ro_zod ro) ProofSchema (hq_body request) then sendProblem 400 ''INVALID_PROOF''
            else verify_submission ro request requirement))"

subsection \<open>Health\<close>

fun profile_text :: "DeploymentProfile \<Rightarrow> string" where
  "profile_text DevLocal = ''dev-local-0.1''"
| "profile_text EvalRedis = ''eval-redis-0.2''"
| "profile_text ProdHa = ''prod-ha-0.2''"

definition health_body :: "'w Router \<Rightarrow> string \<Rightarrow> js" where
  "health_body ro status = JObj [(''status'', JStr status), (''protocol'', JStr ''x424''),
     (''version'', JStr ''0.1''), (''profile'', JStr (profile_text (ro_profile ro)))]"

definition get_healthz :: "'w Router \<Rightarrow> Request \<Rightarrow> ('w, Response) handling" where
  "get_healthz ro request = send_json 200 (health_body ro ''ok'')"

definition get_readyz :: "'w Router \<Rightarrow> Request \<Rightarrow> ('w, Response) handling" where
  "get_readyz ro request = io_catch
     (io_bind (case ro_readinessCheck ro of None \<Rightarrow> io_return () | Some check \<Rightarrow> onWorld check) (\<lambda>_.
      send_json 200 (health_body ro ''ready'')))
     (\<lambda>_. sendProblem 503 ''NOT_READY'')"

subsection \<open>Dispatch\<close>

datatype Route = PostRequirements | GetRequirement | DeleteRequirement | PostHandoffs | GetHandoff | DeleteHandoff
  | PostConsume | PostAcceptances | PostVerify | GetHealthz | GetReadyz

fun route_handler :: "'w Router \<Rightarrow> Route \<Rightarrow> Request \<Rightarrow> ('w, Response) handling" where
  "route_handler ro PostRequirements = post_requirements ro"
| "route_handler ro GetRequirement = get_requirement ro"
| "route_handler ro DeleteRequirement = delete_requirement ro"
| "route_handler ro PostHandoffs = post_handoffs ro"
| "route_handler ro GetHandoff = get_handoff ro"
| "route_handler ro DeleteHandoff = delete_handoff ro"
| "route_handler ro PostConsume = post_consume ro"
| "route_handler ro PostAcceptances = post_acceptances ro"
| "route_handler ro PostVerify = post_verify ro"
| "route_handler ro GetHealthz = get_healthz ro"
| "route_handler ro GetReadyz = get_readyz ro"

definition serve :: "'w Router \<Rightarrow> Route \<Rightarrow> Request \<Rightarrow> ('w, Response) io" where
  "serve ro route request = (\<lambda>w. case route_handler ro route request (w, []) of (r, (w', _)) \<Rightarrow> (r, w'))"

end
