(* ===== verification/RouterGuarantees.thy ===== *)
theory RouterGuarantees
  imports RouterRoutes ServiceGuarantees
begin

section \<open>What the verifier API guarantees (src/api/router.ts)\<close>

text \<open>
  Error answers are public problems whatever is thrown below; identifiers of tenants and of their results do not
  collide.
\<close>

subsection \<open>Error answers\<close>

definition public_answer :: "Response \<Rightarrow> bool" where
  "public_answer r \<longleftrightarrow> rp_status r \<in> {200, 201, 204} \<or>
     (\<exists>code. rp_body r = Some (js_of_public_problem (publicProblem (rp_status r) code None)) \<and>
        map_of (rp_headers r) ''content-type'' = Some ''application/problem+json'')"

lemma publicProblem_status [simp]: "pp_status (publicProblem status code d) = status"
  by (simp add: publicProblem_def)

lemma sendProblem_eval:
  "sendProblem status code (w, hs) =
    (Inr \<lparr>rp_status = status, rp_headers = AList.update ''content-type'' ''application/problem+json'' hs,
       rp_body = Some (js_of_public_problem (publicProblem status code None))\<rparr>,
     (w, AList.update ''content-type'' ''application/problem+json'' hs))"
  by (simp add: sendProblem_def setHeader_def io_bind_def send_json_def Let_def)

lemma sendProblem_public [answers_intros]: "answers (sendProblem status code) public_answer"
  by (auto simp: answers_def sendProblem_eval public_answer_def)

lemma send_json_public [answers_intros]: "status \<in> {200, 201, 204} \<Longrightarrow> answers (send_json status body) public_answer"
  by (auto simp: answers_def send_json_def public_answer_def Let_def)

lemma send_empty_public [answers_intros]: "status \<in> {200, 201, 204} \<Longrightarrow> answers (send_empty status) public_answer"
  by (auto simp: answers_def send_empty_def public_answer_def)

definition stops_publicly :: "Response option \<Rightarrow> bool" where
  "stops_publicly r = (case r of None \<Rightarrow> True | Some response \<Rightarrow> public_answer response)"

lemma stops_return [answers_intros]: "answers (io_return None) stops_publicly"
  by (simp add: answers_return stops_publicly_def)

lemma stops_problem [answers_intros]:
  "answers (io_bind (sendProblem status code) (\<lambda>r. io_return (Some r))) stops_publicly"
  by (rule answers_bind_with [OF sendProblem_public]) (simp add: answers_return stops_publicly_def)

lemma limit_state_stops [answers_intros]: "answers (limit_state ro key) stops_publicly"
  unfolding limit_state_def by (auto split: option.split intro!: answers_intros)

lemma limit_network_stops [answers_intros]: "answers (limit_network ro request action) stops_publicly"
  unfolding limit_network_def by (auto split: option.split intro!: answers_intros)

lemma state_limits_stop [answers_intros]:
  "answers (consumeStateAuthenticationRateLimit ro request) stops_publicly"
  "answers (consumeStateRateLimit ro request action who) stops_publicly"
  unfolding consumeStateAuthenticationRateLimit_def consumeStateRateLimit_def by (auto intro!: answers_intros)

lemma unless_answered_public [answers_intros]:
  "answers m stops_publicly \<Longrightarrow> answers k public_answer \<Longrightarrow> answers (unless_answered m k) public_answer"
  unfolding unless_answered_def
  by (rule answers_bind_with [of m stops_publicly]) (auto simp: stops_publicly_def answers_return split: option.splits)

lemma with_state_principal_public [answers_intros]:
  "(\<And>who. answers (k who) public_answer) \<Longrightarrow> answers (with_state_principal ro request action k) public_answer"
  unfolding with_state_principal_def by (auto intro!: answers_intros)

lemma catching_public [answers_intros]: "answers m public_answer \<Longrightarrow> answers (catching status code m) public_answer"
  unfolding catching_def by (auto intro!: answers_intros)

lemma route_answers_public: "answers (route_handler ro route request) public_answer"
proof (cases route)
  case PostRequirements
  then show ?thesis
    by (auto simp: post_requirements_def issue_def issue_answer_def intro!: answers_intros)
next
  case GetRequirement
  then show ?thesis
    by (auto simp: get_requirement_def split: option.split intro!: answers_intros)
next
  case DeleteRequirement
  then show ?thesis by (auto simp: delete_requirement_def intro!: answers_intros)
next
  case PostHandoffs
  then show ?thesis by (auto simp: post_handoffs_def split: option.split intro!: answers_intros)
next
  case GetHandoff
  then show ?thesis by (auto simp: get_handoff_def split: option.split intro!: answers_intros)
next
  case DeleteHandoff
  then show ?thesis by (auto simp: delete_handoff_def split: option.split intro!: answers_intros)
next
  case PostConsume
  then show ?thesis by (auto simp: post_consume_def Let_def split: option.split intro!: answers_intros)
next
  case PostAcceptances
  then show ?thesis by (auto simp: post_acceptances_def Let_def split: option.split intro!: answers_intros)
next
  case PostVerify
  then show ?thesis
    by (auto simp: post_verify_def verify_submission_def split: option.split intro!: answers_intros)
next
  case GetHealthz
  then show ?thesis by (auto simp: get_healthz_def intro!: answers_intros)
next
  case GetReadyz
  then show ?thesis by (auto simp: get_readyz_def intro!: answers_intros)
qed

subsection \<open>Tenants\<close>

text \<open>Text without NUL splits uniquely at the NUL that follows it.\<close>

lemma nul_take_drop:
  "CHR 0x00 \<notin> set a \<Longrightarrow> takeWhile (\<lambda>c. c \<noteq> CHR 0x00) (a @ CHR 0x00 # s) = a \<and>
   dropWhile (\<lambda>c. c \<noteq> CHR 0x00) (a @ CHR 0x00 # s) = CHR 0x00 # s"
  by (induction a) auto

lemma nul_split:
  assumes "CHR 0x00 \<notin> set a" "CHR 0x00 \<notin> set b"
  shows "a @ CHR 0x00 # s = b @ CHR 0x00 # t \<longleftrightarrow> a = b \<and> s = t"
  using nul_take_drop [OF assms(1), of s] nul_take_drop [OF assms(2), of t] by (metis list.inject)

lemma principal_string_no_nul: "principal_string n s \<Longrightarrow> CHR 0x00 \<notin> set s"
  by (auto simp: principal_string_def list_ex_iff is_control_def)

lemma validated_no_nul:
  assumes "validateIssuancePrincipal v = Inr p"
  shows "CHR 0x00 \<notin> set (principal_issuer p) \<and> CHR 0x00 \<notin> set (principal_subject p)"
  using validated_wf [OF assms] principal_string_no_nul
  by (cases p) (auto split: option.splits)

lemma sha256_text_no_nul: "CHR 0x00 \<notin> set (sha256_text H s)"
proof -
  have "\<not> is_b64url_char (CHR 0x00)" by code_simp
  then have "CHR 0x00 \<notin> set (encodeStrictBase64Url bs)" for bs
    using encodeStrictBase64Url_alphabet [of bs] by (auto simp: list_all_iff)
  then show ?thesis by (simp add: sha256_text_def sha256_bytes_def)
qed

definition tenant_message :: "AnyIssuancePrincipal \<Rightarrow> bytes" where
  "tenant_message p = utf8_encode
     (''x424-tenant-v2'' @ [CHR 0x00] @ principal_issuer p @ [CHR 0x00] @ principal_subject p)"

definition state_message :: "hash \<Rightarrow> AnyIssuancePrincipal \<Rightarrow> string \<Rightarrow> bytes" where
  "state_message H p i = utf8_encode (''x424-state-v1'' @ [CHR 0x00] @ tenantStateId H p @ [CHR 0x00] @ i)"

lemma tenantStateId_separate:
  assumes "validateIssuancePrincipal v = Inr p" "validateIssuancePrincipal u = Inr q"
    "tenantStateId H p = tenantStateId H q"
  shows "(principal_issuer p = principal_issuer q \<and> principal_subject p = principal_subject q) \<or>
    collides H (tenant_message p) (tenant_message q)"
  using sha256_text_inj [OF assms(3) [unfolded tenantStateId_def]] validated_no_nul [OF assms(1)] validated_no_nul [OF assms(2)]
  by (auto simp: nul_split tenant_message_def)

text \<open>
  C14: The state of tenants is apart: two authenticated principals share a state key for two result identifiers
  only if they are the same issuer and subject and the identifiers are the same, or the hash has collided on the
  texts that name the two tenants, or on the texts that name their results.
\<close>

theorem state_keys_separate:
  assumes "validateIssuancePrincipal v = Inr p" "validateIssuancePrincipal u = Inr q"
    and "scopedStateId H (tenantStateId H p) i = scopedStateId H (tenantStateId H q) j"
  shows "(principal_issuer p = principal_issuer q \<and> principal_subject p = principal_subject q \<and> i = j) \<or>
    collides H (tenant_message p) (tenant_message q) \<or> collides H (state_message H p i) (state_message H q j)"
proof (cases "collides H (state_message H p i) (state_message H q j)")
  case False
  then have "tenantStateId H p @ CHR 0x00 # i = tenantStateId H q @ CHR 0x00 # j"
    using sha256_text_inj [OF assms(3) [unfolded scopedStateId_def]] by (auto simp: state_message_def)
  then have "tenantStateId H p = tenantStateId H q" "i = j"
    using nul_split sha256_text_no_nul unfolding tenantStateId_def by blast+
  with tenantStateId_separate [OF assms(1,2)] show ?thesis by blast
qed simp

definition sample_principal_js :: js where
  "sample_principal_js = js_of_principal (Granted sample_principal)"

theorem state_keys_separate_witness:
  "(principal_issuer (Granted sample_principal) = principal_issuer (Granted sample_principal) \<and>
     principal_subject (Granted sample_principal) = principal_subject (Granted sample_principal) \<and> ''r'' = ''s'') \<or>
   collides (\<lambda>_. [] :: bytes) (tenant_message (Granted sample_principal)) (tenant_message (Granted sample_principal)) \<or>
   collides (\<lambda>_. [] :: bytes) (state_message (\<lambda>_. []) (Granted sample_principal) ''r'')
     (state_message (\<lambda>_. []) (Granted sample_principal) ''s'')"
proof (rule state_keys_separate)
  show "validateIssuancePrincipal sample_principal_js = Inr (Granted sample_principal)"
    unfolding sample_principal_js_def by code_simp
  then show "validateIssuancePrincipal sample_principal_js = Inr (Granted sample_principal)" .
  show "scopedStateId (\<lambda>_. []) (tenantStateId (\<lambda>_. []) (Granted sample_principal)) ''r'' =
      scopedStateId (\<lambda>_. []) (tenantStateId (\<lambda>_. []) (Granted sample_principal)) ''s''"
    by (simp add: scopedStateId_def sha256_text_def sha256_bytes_def)
qed

end
