(* ===== verification/RouterMemory.thy ===== *)
theory RouterMemory
  imports RouterGuarantees
begin

section \<open>The API over the in-memory stores (src/api/router.ts)\<close>

text \<open>
  The router composed with the in-memory requirement, nonce, replay and acceptance stores, the verifier service and
  the memory rate limiter, as the dev-local profile runs it, handoffs disabled.  The authenticator and the source
  of provider requests are functions that do not touch this state; the clock, UUID and random bytes of a call
  are set when it arrives.
\<close>

record ApiWorld =
  aw_now :: int
  aw_uuid :: string
  aw_random :: bytes
  aw_requirements :: RequirementStoreState
  aw_service :: "(nonces, string list) ServiceState"
  aw_results :: used_results
  aw_acceptances :: accepted_results
  aw_hits :: hits

record MemoryConfig =
  mc_hash :: hash
  mc_zod :: zod
  mc_url :: url_parser
  mc_service :: "(nonces, string list) X424Service"
  mc_authenticator :: "(string option \<Rightarrow> js res) option"
  mc_providerRequests ::
    "(string \<Rightarrow> HumanBinding \<Rightarrow> HumanMethodRequirement list \<Rightarrow> int \<Rightarrow> (string \<times> js) list res) option"
  mc_limits :: "MemoryRateLimiterOptions option"
  mc_maximumStateTtlSeconds :: int
  mc_profile :: DeploymentProfile

text \<open>An operation on one part of the world.\<close>

definition on_requirements :: "(RequirementStoreState \<Rightarrow> int \<Rightarrow> 'a res \<times> RequirementStoreState) \<Rightarrow> (ApiWorld, 'a) io" where
  "on_requirements f = (\<lambda>w. case f (aw_requirements w) (aw_now w) of (r, s) \<Rightarrow> (r, w\<lparr>aw_requirements := s\<rparr>))"

definition on_results :: "(used_results \<Rightarrow> int \<Rightarrow> 'a \<times> used_results) \<Rightarrow> (ApiWorld, 'a) io" where
  "on_results f = (\<lambda>w. case f (aw_results w) (aw_now w) of (r, s) \<Rightarrow> (Inr r, w\<lparr>aw_results := s\<rparr>))"

definition on_acceptances :: "(accepted_results \<Rightarrow> int \<Rightarrow> 'a \<times> accepted_results) \<Rightarrow> (ApiWorld, 'a) io" where
  "on_acceptances f = (\<lambda>w. case f (aw_acceptances w) (aw_now w) of (r, s) \<Rightarrow> (Inr r, w\<lparr>aw_acceptances := s\<rparr>))"

definition on_service ::
  "((nonces, string list) ServiceState \<Rightarrow> int \<Rightarrow> string \<Rightarrow> 'a res \<times> (nonces, string list) ServiceState) \<Rightarrow> (ApiWorld, 'a) io" where
  "on_service f = (\<lambda>w. case f (aw_service w) (aw_now w) (aw_uuid w) of (r, s) \<Rightarrow> (r, w\<lparr>aw_service := s\<rparr>))"

definition on_hits :: "(hits \<Rightarrow> int \<Rightarrow> 'a \<times> hits) \<Rightarrow> (ApiWorld, 'a) io" where
  "on_hits f = (\<lambda>w. case f (aw_hits w) (aw_now w) of (r, s) \<Rightarrow> (Inr r, w\<lparr>aw_hits := s\<rparr>))"

definition memory_requirements :: "ApiWorld RequirementOps" where
  "memory_requirements = \<lparr>
     qs_put = (\<lambda>r. on_requirements (\<lambda>s now. store_put s r now)),
     qs_get = (\<lambda>d. on_requirements (\<lambda>s now. apfst Inr (store_get s d now))),
     qs_delete = (\<lambda>d. on_requirements (\<lambda>s now. (Inr (), store_delete s d))),
     qs_tenant = Some \<lparr>
       tn_put = (\<lambda>r t. on_requirements (\<lambda>s now. store_putForTenant s r t now)),
       tn_get = (\<lambda>d t. on_requirements (\<lambda>s now. store_getForTenant s d t now)),
       tn_delete = (\<lambda>d t. on_requirements (\<lambda>s now. store_deleteForTenant s d t now))\<rparr>\<rparr>"

definition memory_router :: "MemoryConfig \<Rightarrow> ApiWorld Router" where
  "memory_router cfg = \<lparr>ro_hash = mc_hash cfg, ro_zod = mc_zod cfg, ro_url = mc_url cfg, ro_clock = aw_now,
     ro_ambient = (\<lambda>w. (Inr \<lparr>am_now = aw_now w, am_uuid = aw_uuid w, am_random = aw_random w\<rparr>, w)),
     ro_register = (\<lambda>r. on_service (\<lambda>st now uuid. register (with_memory_stores (mc_service cfg)) st r now)),
     ro_satisfy = (\<lambda>r pf. on_service (\<lambda>st now uuid.
        satisfy (with_memory_stores (mc_service cfg)) st r pf now now uuid)),
     ro_providerRequests = map_option (\<lambda>f purpose binding accepts ttl. io_lift (f purpose binding accepts ttl))
       (mc_providerRequests cfg),
     ro_requirements = memory_requirements,
     ro_results = Some \<lparr>rr_consume = (\<lambda>r e. on_results (\<lambda>s now. result_consume s r e now)),
       rr_consumeWithLegacy = Some (\<lambda>r l e. on_results (\<lambda>s now. result_consumeWithLegacy s r l e now))\<rparr>,
     ro_acceptances = Some \<lparr>ac_accept = (\<lambda>i. on_acceptances (\<lambda>s now. result_accept s i now)),
       ac_acceptWithLegacy = Some (\<lambda>i l. on_acceptances (\<lambda>s now. result_acceptWithLegacy s i l now))\<rparr>,
     ro_handoffs = None,
     ro_authenticator = map_option (\<lambda>f h. io_lift (f h)) (mc_authenticator cfg),
     ro_rateLimiter = map_option (\<lambda>l key. on_hits (\<lambda>s now. limiter_consume l s key now)) (mc_limits cfg),
     ro_maximumStateTtlSeconds = mc_maximumStateTtlSeconds cfg, ro_readinessCheck = None,
     ro_profile = mc_profile cfg\<rparr>"

lemma memory_router_parts:
  "ro_hash (memory_router cfg) = mc_hash cfg"
  "ro_results (memory_router cfg) = Some \<lparr>rr_consume = (\<lambda>r e. on_results (\<lambda>s now. result_consume s r e now)),
     rr_consumeWithLegacy = Some (\<lambda>r l e. on_results (\<lambda>s now. result_consumeWithLegacy s r l e now))\<rparr>"
  "ro_clock (memory_router cfg) = aw_now"
  "ro_authenticator (memory_router cfg) = map_option (\<lambda>f h. io_lift (f h)) (mc_authenticator cfg)"
  "ro_providerRequests (memory_router cfg) = map_option (\<lambda>f purpose binding accepts ttl. io_lift (f purpose binding accepts ttl))
     (mc_providerRequests cfg)"
  "ro_ambient (memory_router cfg) = (\<lambda>w. (Inr \<lparr>am_now = aw_now w, am_uuid = aw_uuid w, am_random = aw_random w\<rparr>, w))"
  "ro_requirements (memory_router cfg) = memory_requirements"
  "ro_register (memory_router cfg) = (\<lambda>r. on_service (\<lambda>st now uuid. register (with_memory_stores (mc_service cfg)) st r now))"
  "ro_zod (memory_router cfg) = mc_zod cfg" "ro_rateLimiter (memory_router cfg) = map_option (\<lambda>l key. on_hits (\<lambda>s now. limiter_consume l s key now)) (mc_limits cfg)"
  "ro_satisfy (memory_router cfg) = (\<lambda>r pf. on_service (\<lambda>st now uuid.
     satisfy (with_memory_stores (mc_service cfg)) st r pf now now uuid))"
  by (simp_all add: memory_router_def)

record ApiCall =
  ap_time :: int
  ap_uuid :: string
  ap_random :: bytes
  ap_route :: Route
  ap_request :: Request

definition arrive :: "ApiCall \<Rightarrow> ApiWorld \<Rightarrow> ApiWorld" where
  "arrive call w = w\<lparr>aw_now := ap_time call, aw_uuid := ap_uuid call, aw_random := ap_random call\<rparr>"

definition api_step :: "MemoryConfig \<Rightarrow> ApiWorld \<Rightarrow> ApiCall \<Rightarrow> Response res \<times> ApiWorld" where
  "api_step cfg w call = serve (memory_router cfg) (ap_route call) (ap_request call) (arrive call w)"

lemmas world_ops = on_requirements_def on_results_def on_acceptances_def on_service_def on_hits_def

subsection \<open>What the parts of a handler keep\<close>

lemma keeps_header [keeps_intros]: "keeps (below I) (setHeader name v)"
  by (simp add: keeps_def below_def setHeader_def split_def)

lemma keeps_clock [keeps_intros]: "keeps (below I) (clock ro)"
  by (simp add: keeps_def below_def clock_def split_def)

lemma keeps_send [keeps_intros]:
  "keeps (below I) (send_json status body)" "keeps (below I) (send_empty status)"
  by (simp_all add: keeps_def below_def send_json_def send_empty_def split_def Let_def)

lemma keeps_problem [keeps_intros]: "keeps (below I) (sendProblem status code)"
  unfolding sendProblem_def Let_def by (intro keeps_intros)

lemma keeps_unless [keeps_intros]: "keeps J m \<Longrightarrow> keeps J k \<Longrightarrow> keeps J (unless_answered m k)"
  unfolding unless_answered_def by (auto split: option.split intro!: keeps_intros)

lemma keeps_private [keeps_intros]: "keeps (below I) private_response"
  unfolding private_response_def by (intro keeps_intros)

lemma keeps_set_headers [keeps_intros]: "keeps (below I) (set_headers hs)"
  by (induction hs) (auto intro!: keeps_intros)

lemma keeps_catching [keeps_intros]: "keeps (below I) m \<Longrightarrow> keeps (below I) (catching status code m)"
  unfolding catching_def by (intro keeps_intros)

text \<open>An invariant that every operation of a router's parts keeps.\<close>

definition parts_keep :: "('w \<Rightarrow> bool) \<Rightarrow> 'w Router \<Rightarrow> bool" where
  "parts_keep I ro \<longleftrightarrow> keeps I (ro_ambient ro) \<and> (\<forall>r. keeps I (ro_register ro r)) \<and>
     (\<forall>r pf. keeps I (ro_satisfy ro r pf)) \<and>
     (\<forall>f p b a t. ro_providerRequests ro = Some f \<longrightarrow> keeps I (f p b a t)) \<and>
     (\<forall>r. keeps I (qs_put (ro_requirements ro) r)) \<and> (\<forall>d. keeps I (qs_get (ro_requirements ro) d)) \<and>
     (\<forall>d. keeps I (qs_delete (ro_requirements ro) d)) \<and>
     (\<forall>ops r t d. qs_tenant (ro_requirements ro) = Some ops \<longrightarrow>
        keeps I (tn_put ops r t) \<and> keeps I (tn_get ops d t) \<and> keeps I (tn_delete ops d t)) \<and>
     (\<forall>ops r l e f. ro_results ro = Some ops \<longrightarrow> keeps I (rr_consume ops r e) \<and>
        (rr_consumeWithLegacy ops = Some f \<longrightarrow> keeps I (f r l e))) \<and>
     (\<forall>ops i l f. ro_acceptances ro = Some ops \<longrightarrow> keeps I (ac_accept ops i) \<and>
        (ac_acceptWithLegacy ops = Some f \<longrightarrow> keeps I (f i l))) \<and>
     (\<forall>ops d n p m i t. ro_handoffs ro = Some ops \<longrightarrow> keeps I (ho_start ops d n p m) \<and>
        keeps I (ho_poll ops i t) \<and> keeps I (ho_cancel ops i t)) \<and>
     (\<forall>f h. ro_authenticator ro = Some f \<longrightarrow> keeps I (f h)) \<and>
     (\<forall>f k. ro_rateLimiter ro = Some f \<longrightarrow> keeps I (f k)) \<and>
     (\<forall>m. ro_readinessCheck ro = Some m \<longrightarrow> keeps I m)"

lemma limits_keep:
  assumes "parts_keep I ro"
  shows "keeps (below I) (limit_state ro key)" "keeps (below I) (limit_network ro request action)"
    "keeps (below I) (consumeStateAuthenticationRateLimit ro request)"
    "keeps (below I) (consumeStateRateLimit ro request action who)"
proof -
  have l: "keeps I (f k)" if "ro_rateLimiter ro = Some f" for f k
    using assms that by (simp add: parts_keep_def)
  show s: "keeps (below I) (limit_state ro key)" for key
    unfolding limit_state_def by (auto split: option.split intro!: keeps_intros l)
  show "keeps (below I) (limit_network ro request action)"
    unfolding limit_network_def by (auto split: option.split intro!: keeps_intros l)
  show "keeps (below I) (consumeStateAuthenticationRateLimit ro request)"
    "keeps (below I) (consumeStateRateLimit ro request action who)"
    unfolding consumeStateAuthenticationRateLimit_def consumeStateRateLimit_def
    by (auto intro!: keeps_intros s)
qed

lemma principal_keeps:
  assumes "parts_keep I ro"
  shows "ro_authenticator ro = Some f \<Longrightarrow> keeps (below I) (authenticated_principal f request)"
    "keeps (below I) (authenticateStateRequest ro request)"
proof -
  have a: "keeps I (f h)" if "ro_authenticator ro = Some f" for f h
    using assms that by (simp add: parts_keep_def)
  show p: "keeps (below I) (authenticated_principal f request)" if "ro_authenticator ro = Some f" for f
    unfolding authenticated_principal_def by (intro keeps_intros a that)
  show "keeps (below I) (authenticateStateRequest ro request)"
    unfolding authenticateStateRequest_def by (auto split: option.split intro!: keeps_intros p)
qed

lemma with_state_principal_keeps:
  assumes "parts_keep I ro" "\<And>who. keeps (below I) (k who)"
  shows "keeps (below I) (with_state_principal ro request action k)"
  unfolding with_state_principal_def
  by (intro keeps_intros limits_keep [OF assms(1)] principal_keeps [OF assms(1)] assms(2))

lemma issue_keeps:
  assumes "parts_keep I ro"
  shows "keeps (below I) (issue ro request)"
proof -
  have "keeps (below I) (issue_tenant ro request)"
    unfolding issue_tenant_def by (auto split: option.split intro!: keeps_intros principal_keeps [OF assms])
  moreover have "keeps (below I) (issue_provider_requests ro body)" for body
    using assms unfolding issue_provider_requests_def parts_keep_def
    by (auto split: option.split intro!: keeps_intros)
  moreover have "keeps (below I) (issue_create ro body ps)" for body ps
    using assms unfolding issue_create_def parts_keep_def by (auto intro!: keeps_intros)
  moreover have "keeps (below I) (issue_store ro t r)" for t r
    using assms unfolding issue_store_def parts_keep_def by (auto split: option.split intro!: keeps_intros)
  moreover have "keeps (below I) (issue_register ro r)" for r
    using assms unfolding issue_register_def parts_keep_def by (auto intro!: keeps_intros)
  moreover have "keeps (below I) (issue_answer r)" for r
    unfolding issue_answer_def by (intro keeps_intros)
  ultimately show ?thesis unfolding issue_def by (intro keeps_intros)
qed

lemma route_keeps:
  assumes keep: "parts_keep I ro"
  shows "keeps (below I) (route_handler ro route request)"
proof -
  note parts = limits_keep [OF keep] with_state_principal_keeps [OF keep] issue_keeps [OF keep]
  have ops: "keeps I (qs_get (ro_requirements ro) d)" "keeps I (qs_delete (ro_requirements ro) d)"
    "qs_tenant (ro_requirements ro) = Some tn \<Longrightarrow> keeps I (tn_get tn d t)"
    "qs_tenant (ro_requirements ro) = Some tn \<Longrightarrow> keeps I (tn_delete tn d t)"
    "ro_handoffs ro = Some ho \<Longrightarrow> keeps I (ho_start ho d n p m)"
    "ro_handoffs ro = Some ho \<Longrightarrow> keeps I (ho_poll ho d t)"
    "ro_handoffs ro = Some ho \<Longrightarrow> keeps I (ho_cancel ho d t)"
    "ro_results ro = Some rr \<Longrightarrow> keeps I (rr_consume rr d t)"
    "ro_results ro = Some rr \<Longrightarrow> rr_consumeWithLegacy rr = Some f \<Longrightarrow> keeps I (f d n t)"
    "ro_acceptances ro = Some ac \<Longrightarrow> keeps I (ac_accept ac i)"
    "ro_acceptances ro = Some ac \<Longrightarrow> ac_acceptWithLegacy ac = Some g \<Longrightarrow> keeps I (g i d)"
    "ro_rateLimiter ro = Some l \<Longrightarrow> keeps I (l d)" "ro_readinessCheck ro = Some c \<Longrightarrow> keeps I c"
    "keeps I (ro_satisfy ro r pf)" for d t tn ho n p m rr f ac g i l c r pf
    using keep by (simp_all add: parts_keep_def)
  show ?thesis
  proof (cases route)
    case PostRequirements
    then show ?thesis by (auto simp: post_requirements_def intro!: keeps_intros parts)
  next
    case GetRequirement
    then show ?thesis
      by (auto simp: get_requirement_def split: option.split intro!: keeps_intros parts intro: ops)
  next
    case DeleteRequirement
    then show ?thesis
      by (auto simp: delete_requirement_def split: option.split intro!: keeps_intros parts intro: ops)
  next
    case PostHandoffs
    then show ?thesis
      by (auto simp: post_handoffs_def split: option.split intro!: keeps_intros parts intro: ops)
  next
    case GetHandoff
    then show ?thesis
      by (auto simp: get_handoff_def split: option.split intro!: keeps_intros parts intro: ops)
  next
    case DeleteHandoff
    then show ?thesis
      by (auto simp: delete_handoff_def split: option.split intro!: keeps_intros parts intro: ops)
  next
    case PostConsume
    then show ?thesis
      by (auto simp: post_consume_def Let_def split: option.split intro!: keeps_intros parts)
        (rule ops(8,9), assumption+)+
  next
    case PostAcceptances
    then show ?thesis
      by (auto simp: post_acceptances_def Let_def split: option.split intro!: keeps_intros parts)
        (rule ops(10,11), assumption+)+
  next
    case PostVerify
    then show ?thesis
      by (auto simp: post_verify_def verify_submission_def split: option.split
          intro!: keeps_intros parts intro: ops)
  next
    case GetHealthz
    then show ?thesis by (auto simp: get_healthz_def intro!: keeps_intros)
  next
    case GetReadyz
    then show ?thesis by (auto simp: get_readyz_def split: option.split intro!: keeps_intros intro: ops)
  qed
qed

lemma serve_keeps:
  assumes "parts_keep I ro" "I w" "serve ro route request w = (r, w')"
  shows "I w'"
proof -
  obtain hs where "route_handler ro route request (w, []) = (r, (w', hs))"
    using assms(3) by (auto simp: serve_def split: prod.splits)
  with keepsD [OF route_keeps [OF assms(1)]] assms(2) show ?thesis by (fastforce simp: below_def)
qed

subsection \<open>Invariants of the in-memory router\<close>

lemma memory_parts_keep:
  assumes hits: "\<And>w h. I w \<Longrightarrow> I (w\<lparr>aw_hits := h\<rparr>)"
    and store: "\<And>w x. I w \<Longrightarrow> I (w\<lparr>aw_requirements := snd (store_step (aw_requirements w) x)\<rparr>)"
    and reg: "\<And>w r. I w \<Longrightarrow>
      I (w\<lparr>aw_service := snd (register (with_memory_stores (mc_service cfg)) (aw_service w) r (aw_now w))\<rparr>)"
    and sat: "\<And>w r pf. I w \<Longrightarrow> I (w\<lparr>aw_service := snd (satisfy (with_memory_stores (mc_service cfg)) (aw_service w)
      r pf (aw_now w) (aw_now w) (aw_uuid w))\<rparr>)"
    and res: "\<And>w x. I w \<Longrightarrow> result_op_time x = aw_now w \<Longrightarrow>
      I (w\<lparr>aw_results := snd (result_step (aw_results w) x)\<rparr>)"
    and acc: "\<And>w a. I w \<Longrightarrow> I (w\<lparr>aw_acceptances := a\<rparr>)"
  shows "parts_keep I (memory_router cfg)"
proof -
  have q: "keeps I (qs_put memory_requirements r)" "keeps I (qs_get memory_requirements d)"
    "keeps I (qs_delete memory_requirements d)" for r d
    using store [of _ "StorePut r _"] store [of _ "StoreGet d _"] store [of _ "StoreDelete d"]
    by (auto simp: memory_requirements_def world_ops keeps_def split_def apfst_def map_prod_def)
  have t: "qs_tenant memory_requirements = Some ops \<Longrightarrow>
      keeps I (tn_put ops r t) \<and> keeps I (tn_get ops d t) \<and> keeps I (tn_delete ops d t)" for ops r d t
    using store [of _ "StorePutFor r t _"] store [of _ "StoreGetFor d t _"] store [of _ "StoreDeleteFor d t _"]
    by (auto simp: memory_requirements_def world_ops keeps_def split_def apfst_def map_prod_def)
  have s: "keeps I (on_service (\<lambda>st now uuid. register (with_memory_stores (mc_service cfg)) st r now))"
    "keeps I (on_service (\<lambda>st now uuid. satisfy (with_memory_stores (mc_service cfg)) st r pf now now uuid))" for r pf
    using reg sat by (auto simp: world_ops keeps_def split_def)
  have r: "keeps I (on_results (\<lambda>s now. result_consume s r e now))"
    "keeps I (on_results (\<lambda>s now. result_consumeWithLegacy s r l e now))" for r l e
    using res [of _ "ConsumeResult r e _"] res [of _ "ConsumeLegacy r l e _"]
    by (auto simp: world_ops keeps_def split_def)
  have o: "keeps I (on_acceptances f)" "keeps I (on_hits g)" for f :: "accepted_results \<Rightarrow> int \<Rightarrow> ResultAcceptanceStatus \<times> accepted_results"
    and g :: "hits \<Rightarrow> int \<Rightarrow> RateLimitResult \<times> hits"
    using acc hits by (auto simp: world_ops keeps_def split_def)
  show ?thesis
    unfolding parts_keep_def memory_router_def
    using q t s r o by (auto simp: keeps_lift) (simp_all add: keeps_def)
qed

lemma api_step_keeps:
  assumes "parts_keep I (memory_router cfg)" "I (arrive call w)"
  shows "I (snd (api_step cfg w call))"
  using serve_keeps [OF assms] unfolding api_step_def by (metis prod.collapse)

lemma store_inv_kept: "parts_keep (\<lambda>w. store_inv (aw_requirements w)) (memory_router cfg)"
  by (rule memory_parts_keep) (auto intro: store_inv_step)

lemma nonce_spent_kept: "parts_keep (\<lambda>w. nonce_spent (ss_nonces (aw_service w)) d) (memory_router cfg)"
proof (rule memory_parts_keep)
  fix w r assume n: "nonce_spent (ss_nonces (aw_service w)) d"
  show "nonce_spent (ss_nonces (aw_service
      (w\<lparr>aw_service := snd (register (with_memory_stores (mc_service cfg)) (aw_service w) r (aw_now w))\<rparr>))) d"
    using register_nonces [of "with_memory_stores (mc_service cfg)" "aw_service w" r "aw_now w"]
      memory_service.put_keeps [OF n] n by auto
next
  fix w r pf assume n: "nonce_spent (ss_nonces (aw_service w)) d"
  show "nonce_spent (ss_nonces (aw_service (w\<lparr>aw_service := snd (satisfy (with_memory_stores (mc_service cfg))
      (aw_service w) r pf (aw_now w) (aw_now w) (aw_uuid w))\<rparr>))) d"
    using satisfy_nonces [of "with_memory_stores (mc_service cfg)" "aw_service w" r pf "aw_now w" "aw_now w" "aw_uuid w"]
      memory_service.consume_keeps [OF n] n by (auto split: sum.splits)
qed auto

lemma result_spent_kept: "parts_keep (\<lambda>w. result_spent (aw_results w) k t \<and> aw_now w \<le> t) (memory_router cfg)"
proof (rule memory_parts_keep)
  fix w x assume "result_spent (aw_results w) k t \<and> aw_now w \<le> t" "result_op_time x = aw_now w"
  then show "result_spent (aw_results (w\<lparr>aw_results := snd (result_step (aw_results w) x)\<rparr>)) k t \<and>
      aw_now (w\<lparr>aw_results := snd (result_step (aw_results w) x)\<rparr>) \<le> t"
    using results.spent_keeps [of "aw_results w" x _ _ k t] by (cases "result_step (aw_results w) x") auto
qed auto

end
