(* ===== verification/ApiSamples.thy ===== *)
theory ApiSamples
  imports RouterMemory
begin

section \<open>A sample deployment of the API\<close>

text \<open>
  The sample service behind the API, over empty in-memory stores, without limits and authentication, and calls
  that issue, verify and consume, for the witnesses.
\<close>

definition sample_memory_config :: MemoryConfig where
  "sample_memory_config = \<lparr>mc_hash = sample_hash, mc_zod = sample_zod, mc_url = sample_parse,
     mc_service = sample_service, mc_authenticator = None, mc_providerRequests = None,
     mc_limits = None, mc_maximumStateTtlSeconds = 900, mc_profile = DevLocal\<rparr>"

definition sample_api_world :: ApiWorld where
  "sample_api_world = \<lparr>aw_now = 0, aw_uuid = [], aw_random = [],
     aw_requirements = \<lparr>st_entries = [], st_maximumEntries = 10\<rparr>,
     aw_service = sample_state, aw_results = [], aw_acceptances = [], aw_hits = []\<rparr>"

definition anonymous_request :: "js \<Rightarrow> js \<Rightarrow> Request" where
  "anonymous_request param body = \<lparr>hq_authorization = None, hq_ip = None, hq_param = param, hq_body = body\<rparr>"

definition sample_consume_call :: "int \<Rightarrow> string \<Rightarrow> ApiCall" where
  "sample_consume_call now expiry = \<lparr>ap_time = now, ap_uuid = [], ap_random = [], ap_route = PostConsume,
     ap_request = anonymous_request (JStr ''r'') (JObj [(''expiresAt'', JStr expiry)])\<rparr>"

definition sample_issue_body :: js where
  "sample_issue_body = JObj [(''purpose'', JStr ''vote''), (''method'', JStr ''POST''), (''uri'', JStr ''https://a/''),
     (''audience'', JStr ''https://a''), (''binding'', js_of_binding sample_binding),
     (''accepts'', JArr [js_of_method sample_method]), (''providerRequests'', JObj [(''world-id:orb'', JNull)])]"

definition sample_issue_call :: ApiCall where
  "sample_issue_call = \<lparr>ap_time = 1767225600000, ap_uuid = ''u'', ap_random = [1, 2, 3], ap_route = PostRequirements,
     ap_request = anonymous_request JUndefined sample_issue_body\<rparr>"

definition sample_issued :: HumanRequirement where
  "sample_issued = sample_requirement\<lparr>rq_dependencyId := ''x424_dep_u''\<rparr>"

definition sample_proof_body :: js where
  "sample_proof_body = JObj [(''x424Version'', JStr ''0.1''), (''dependencyId'', JStr ''dep''),
     (''providerId'', JStr ''world-id''), (''methodId'', JStr ''orb''), (''binding'', js_of_binding sample_binding),
     (''nativeProof'', JNull)]"

definition sample_verify_call :: "int \<Rightarrow> ApiCall" where
  "sample_verify_call now = \<lparr>ap_time = now, ap_uuid = ''u'', ap_random = [], ap_route = PostVerify,
     ap_request = anonymous_request (JStr ''dep'') sample_proof_body\<rparr>"

definition sample_stored_world :: ApiWorld where
  "sample_stored_world = sample_api_world\<lparr>aw_service := sample_registered,
     aw_requirements := \<lparr>st_entries = [(''dep'', \<lparr>re_requirement = sample_requirement, re_tenantId = None\<rparr>)],
       st_maximumEntries = 10\<rparr>\<rparr>"

lemma sample_bodies:
  "create_valid sample_zod sample_issue_body"
  "resolveIssuanceBodyInput (js_get sample_issue_body ''bodyInput'') (js_get sample_issue_body ''body'') = Inr BodyAbsent"
  "exactMethods (js_get sample_issue_body ''accepts'') = [sample_method]"
  "binding_of_js (js_get sample_issue_body ''binding'') = sample_binding" "ttl_seconds sample_issue_body = 300"
  "members_of (js_get sample_issue_body ''providerRequests'') = [(''world-id:orb'', JNull)]"
  "js_get sample_issue_body ''providerRequests'' \<noteq> JUndefined"
  "get_str sample_issue_body ''purpose'' = ''vote''" "get_str sample_issue_body ''method'' = ''POST''"
  "get_str sample_issue_body ''uri'' = ''https://a/''" "get_str sample_issue_body ''audience'' = ''https://a''"
  "validate sample_zod ProofSchema sample_proof_body"
  "parseHumanProofSubmission sample_zod sample_proof_body = Inr sample_proof"
  by code_simp+

lemma sample_issue_created:
  "createHumanRequirement sample_hash \<lparr>am_now = 1767225600000, am_uuid = ''u'', am_random = [1, 2, 3]\<rparr>
     (create_input sample_issue_body BodyAbsent [(''world-id:orb'', JNull)]) = Inr sample_issued"
proof -
  have d: "requestDigest sample_hash m u JUndefined (Some BodyAbsent) = Inr (sha256_bytes sample_hash [])" for m u
    by (simp add: requestDigest_alt request_body_digest_def bodyDigestFromInput_def sha256_text_def
        sha256_bytes_def sample_hash_def)
  have t: "toISOString 1767225600000 = Inr ''2026-01-01T00:00:00.000Z''"
    "toISOString 1767225900000 = Inr ''2026-01-01T00:05:00.000Z''"
    "toUpperCase ''POST'' = ''POST''" "encodeStrictBase64Url [1, 2, 3] = ''AQID''"
    by code_simp+
  have k: "foldE accept_key [] [sample_method] = Inr [''world-id:orb'']" by code_simp
  show ?thesis
    by (simp add: createHumanRequirement_def create_input_def sample_bodies k d t ttl_of_def sample_issued_def
        sample_requirement_def X424_VERSION_def del: foldE.simps)
qed

lemma sample_issue_challenge: "\<exists>c. humanRequiredResponse sample_issued = Inr c"
proof -
  have "case canonicalJson (js_of_requirement sample_issued) of Inr t \<Rightarrow> length t < 2000 | Inl _ \<Rightarrow> False"
    by code_simp
  then obtain t where t: "canonicalJson (js_of_requirement sample_issued) = Inr t" "length t < 2000"
    by (auto split: sum.splits)
  let ?h = "encodeStrictBase64Url (utf8_encode t)"
  have "length ?h \<le> 65536"
    using length_utf8_encode [of t] b64_length_le [of "utf8_encode t"] t(2) by linarith
  then show ?thesis using t(1)
    by (cases "8192 < length ?h") (simp_all add: canonicalHeader_def humanRequiredResponse_def
      selectRequirementTransportMode_def assertInlineHeaderEnvelope_def transport_limits)
qed

lemma sample_issue_register:
  "\<exists>st. register (with_memory_stores sample_service) sample_state sample_issued 1767225600000 = (Inr (), st)"
proof -
  have m: "register_method sample_service sample_issued sample_method = Inr ()"
    by (simp add: register_method_def sample_service_def sample_service_of_def sample_options_def sample_method_def sample_keys
        sample_catalog_lookup sample_adapter_def) (simp add: sample_descriptor_def)
  have a: "rq_accepts sample_issued = [sample_method]" "rq_providerRequests sample_issued = Some [(''world-id:orb'', JNull)]"
    by (simp_all add: sample_issued_def sample_requirement_def)
  have n: "\<exists>s. nonce_put [] (rq_dependencyId sample_issued) (rq_nonce sample_issued) (rq_expiresAt sample_issued) = (Inr (), s)"
    by (simp add: sample_issued_def sample_requirement_def nonce_put_def sample_dates)
  have c: "assertRequirementCurrent sample_issued 1767225600000 = Inr ()"
    using sample_current [of 1767225600000] by (simp add: assertRequirementCurrent_eq_Inr sample_issued_def sample_requirement_def)
  from n show ?thesis unfolding sample_service_memory
    by (auto simp: register_def a c m sample_keys)
      (simp add: sample_service_def sample_service_of_def sample_options_def sample_state_def)
qed

lemma set_headers_total: "\<exists>hs'. set_headers xs (w, hs) = (Inr (), (w, hs'))"
proof (induction xs arbitrary: hs)
  case (Cons x xs)
  then show ?case by (cases x) (simp add: io_bind_def setHeader_def)
qed (simp add: io_eval)

lemma issue_answer_total:
  assumes "humanRequiredResponse r = Inr c"
  obtains response hs' where "issue_answer r (w, hs) = (Inr response, (w, hs'))" "rp_status response = 201"
proof -
  obtain hs' where "set_headers (hc_headers c) (w, hs) = (Inr (), (w, hs'))" by (rule exE [OF set_headers_total])
  then show thesis using assms that by (simp add: issue_answer_def io_bind_def io_eval send_json_def Let_def)
qed

lemma sample_issue_step:
  "\<exists>response w'. api_step sample_memory_config sample_api_world sample_issue_call = (Inr response, w') \<and> rp_status response = 201"
proof -
  let ?ro = "memory_router sample_memory_config" and ?q = "anonymous_request JUndefined sample_issue_body"
  let ?w = "arrive sample_issue_call sample_api_world"
  have cfg: "mc_hash sample_memory_config = sample_hash" "mc_zod sample_memory_config = sample_zod"
    "mc_service sample_memory_config = sample_service" "mc_authenticator sample_memory_config = None"
    "mc_providerRequests sample_memory_config = None" "mc_limits sample_memory_config = None"
    by (simp_all add: sample_memory_config_def)
  have create: "issue_create ?ro sample_issue_body [(''world-id:orb'', JNull)] (?w, hs) = (Inr sample_issued, (?w, hs))" for hs
    using sample_issue_created
    by (simp add: issue_create_def memory_router_parts sample_bodies io_bind_def io_eval cfg)
      (simp add: sample_issue_call_def arrive_def)
  have "store_put (aw_requirements ?w) sample_issued (aw_now ?w) = (Inr (), s)"
    if "s = \<lparr>st_entries = [(''x424_dep_u'', \<lparr>re_requirement = sample_issued, re_tenantId = None\<rparr>)], st_maximumEntries = 10\<rparr>" for s
    unfolding that
    by (simp add: arrive_def sample_api_world_def sample_issue_call_def store_put_def store_put_entry_def store_prune_def
        sample_issued_def sample_requirement_def requirement_expired_def sample_dates)
  then obtain s where store: "issue_store ?ro None sample_issued (?w, hs) = (Inr (), (?w\<lparr>aw_requirements := s\<rparr>, hs))" for hs
    by (simp add: issue_store_def memory_router_parts memory_requirements_def io_eval on_requirements_def)
  obtain st where reg: "issue_register ?ro sample_issued (?w\<lparr>aw_requirements := s\<rparr>, hs) =
      (Inr (), (?w\<lparr>aw_requirements := s, aw_service := st\<rparr>, hs))" for hs
    using sample_issue_register
    by (auto simp: issue_register_def memory_router_parts io_eval on_service_def io_catch_def cfg)
      (simp add: arrive_def sample_api_world_def sample_issue_call_def)
  obtain c where c: "humanRequiredResponse sample_issued = Inr c" using sample_issue_challenge by blast
  let ?v = "?w\<lparr>aw_requirements := s, aw_service := st\<rparr>"
  obtain response hs where answer: "issue_answer sample_issued (?v, []) = (Inr response, (?v, hs))"
    and status: "rp_status response = 201"
    by (rule issue_answer_total [OF c])
  have tenant: "issue_tenant ?ro q (?w, []) = (Inr None, (?w, []))" for q
    by (simp add: issue_tenant_def memory_router_parts cfg io_eval)
  have provider: "issue_provider_requests ?ro sample_issue_body (?w, []) = (Inr [(''world-id:orb'', JNull)], (?w, []))"
    by (simp add: issue_provider_requests_def memory_router_parts cfg io_eval sample_bodies)
  have "issue ?ro ?q (?w, []) = (Inr response, (?v, hs))"
    using answer by (simp add: issue_def io_bind_def tenant provider create store reg anonymous_request_def)
  then have "post_requirements ?ro ?q (?w, []) = (Inr response, (?v, hs))"
    by (simp add: post_requirements_def unless_answered_def io_bind_def limit_network_def memory_router_parts cfg io_eval
        sample_bodies io_catch_def) (simp add: anonymous_request_def sample_bodies)
  then show ?thesis using status by (simp add: api_step_def serve_def sample_issue_call_def)
qed

lemma sample_verify_step:
  "\<exists>response w'. api_step sample_memory_config sample_stored_world (sample_verify_call 1767225602000) = (Inr response, w') \<and>
     rp_status response = 200"
proof -
  let ?ro = "memory_router sample_memory_config" and ?q = "anonymous_request (JStr ''dep'') sample_proof_body"
  let ?w = "arrive (sample_verify_call 1767225602000) sample_stored_world"
  have get: "qs_get (ro_requirements ?ro) ''dep'' ?w = (Inr (Some sample_requirement), ?w)"
    by (simp add: memory_router_parts memory_requirements_def on_requirements_def store_get_def store_getEntry_def
        arrive_def sample_stored_world_def sample_verify_call_def requirement_expired_def)
      (simp add: sample_requirement_def sample_dates)
  obtain st where "satisfy sample_service sample_registered sample_requirement sample_proof 1767225602000 1767225602000 ''u'' =
      (Inr sample_outcome, st)" using sample_satisfy_now by (metis prod.collapse)
  then have sat: "ro_satisfy ?ro sample_requirement sample_proof ?w = (Inr sample_outcome, ?w\<lparr>aw_service := st\<rparr>)"
    by (simp add: memory_router_parts on_service_def sample_memory_config_def sample_service_memory arrive_def
        sample_stored_world_def sample_verify_call_def)
  obtain result token where out: "sample_outcome = (result, token)" by fastforce
  have zod: "ro_zod ?ro = sample_zod" "ro_rateLimiter ?ro = None"
    by (simp_all add: memory_router_parts sample_memory_config_def)
  have v: "\<exists>response hs'. verify_submission ?ro ?q sample_requirement (?w, hs) = (Inr response, (?w\<lparr>aw_service := st\<rparr>, hs')) \<and>
      rp_status response = 200" for hs
    by (simp add: verify_submission_def io_catch_def io_bind_def io_eval zod anonymous_request_def sample_bodies sat out
        setHeader_def send_json_def Let_def)
  then obtain response hs' where "verify_submission ?ro ?q sample_requirement (?w, []) = (Inr response, (?w\<lparr>aw_service := st\<rparr>, hs'))"
    and status: "rp_status response = 200" by blast
  then have "post_verify ?ro ?q (?w, []) = (Inr response, (?w\<lparr>aw_service := st\<rparr>, hs'))"
    using get by (simp add: post_verify_def unless_answered_def io_bind_def limit_network_def io_eval zod)
      (simp add: anonymous_request_def sample_bodies)
  then show ?thesis using status by (simp add: api_step_def serve_def sample_verify_call_def)
qed

end
