(* ===== verification/ApiGuarantees.thy ===== *)
theory ApiGuarantees
  imports ApiSamples
begin

section \<open>What the API over the in-memory stores guarantees (src/api/router.ts)\<close>

text \<open>
  Runs of API calls over the in-memory router: a dependency is verified once, a result is consumed once per
  tenant until it expires, and issuing stores and registers a requirement or leaves nothing behind.
\<close>

fun answered :: "nat \<Rightarrow> Response res \<Rightarrow> bool" where
  "answered status (Inr response) = (rp_status response = status)"
| "answered status (Inl e) = False"

definition call_id :: "ApiCall \<Rightarrow> string" where
  "call_id call = str_of (hq_param (ap_request call))"

subsection \<open>Decomposing handlers\<close>

lemma sendProblem_Inr:
  "sendProblem status code ws = (Inr r, ws') \<Longrightarrow> rp_status r = status \<and> fst ws' = fst ws"
  by (cases ws) (auto simp: sendProblem_eval)

lemma send_json_Inr:
  "send_json status body ws = (Inr r, ws') \<Longrightarrow>
   rp_status r = status \<and> rp_body r = Some body \<and> fst ws' = fst ws"
  by (cases ws) (auto simp: send_json_def Let_def)

lemma setHeader_Inr: "setHeader name v ws = (Inr x, ws') \<Longrightarrow> fst ws' = fst ws"
  by (cases ws) (auto simp: setHeader_def)

lemma clock_Inr: "clock ro ws = (Inr now, ws') \<Longrightarrow> now = ro_clock ro (fst ws) \<and> ws' = ws"
  by (cases ws) (auto simp: clock_def)

text \<open>What an answer of a limit is, and what is left of the world when it lets a request through.\<close>

definition rate_limited :: "Response option \<Rightarrow> bool" where
  "rate_limited r = (case r of None \<Rightarrow> True | Some response \<Rightarrow> rp_status response = 429)"

lemma rate_limited_problem:
  "answers (io_bind (sendProblem 429 code) (\<lambda>r. io_return (Some r))) rate_limited"
  by (auto simp: answers_def io_bind_eq_Inr rate_limited_def io_return_def dest: sendProblem_Inr)

lemma rate_limited_None: "answers (io_return None) rate_limited"
  by (simp add: answers_return rate_limited_def)

lemmas limit_intros = rate_limited_problem rate_limited_None answers_bind answers_throw

lemma limits_answer:
  "answers (limit_state ro key) rate_limited" "answers (limit_network ro request action) rate_limited"
  "answers (consumeStateAuthenticationRateLimit ro request) rate_limited"
  "answers (consumeStateRateLimit ro request action who) rate_limited"
  by (auto simp: limit_state_def limit_network_def consumeStateAuthenticationRateLimit_def consumeStateRateLimit_def
      split: option.split intro!: limit_intros)

lemma unless_answered_cases:
  assumes "unless_answered m k ws = (Inr r, ws')" "answers m rate_limited"
  obtains "rp_status r = 429" "m ws = (Inr (Some r), ws')" | ws1 where "m ws = (Inr None, ws1)" "k ws1 = (Inr r, ws')"
proof -
  from assms(1) obtain a ws1 where m: "m ws = (Inr a, ws1)"
    and k: "(case a of Some response \<Rightarrow> io_return response | None \<Rightarrow> k) ws1 = (Inr r, ws')"
    by (auto simp: unless_answered_def io_bind_eq_Inr)
  show thesis
  proof (cases a)
    case None
    then show thesis using m k that(2) by simp
  next
    case (Some response)
    then have "response = r" using k by (simp add: io_return_def)
    moreover have "rp_status response = 429"
      using assms(2) m Some unfolding answers_def rate_limited_def by fastforce
    ultimately show thesis using that(1) k m Some by (simp add: io_return_def)
  qed
qed

text \<open>The limiter of the in-memory router touches its hits only.\<close>

definition besides_hits :: "ApiWorld \<Rightarrow> ApiWorld \<Rightarrow> bool" where
  "besides_hits w w' \<longleftrightarrow> (\<exists>h. w' = w\<lparr>aw_hits := h\<rparr>)"

lemma besides_hits_refl [simp, intro]: "besides_hits w w"
  unfolding besides_hits_def by (rule exI [of _ "aw_hits w"]) simp

lemma besides_hits_same:
  "besides_hits w w' \<Longrightarrow> aw_requirements w' = aw_requirements w \<and> aw_service w' = aw_service w \<and>
   aw_results w' = aw_results w \<and> aw_acceptances w' = aw_acceptances w \<and> aw_now w' = aw_now w \<and> aw_uuid w' = aw_uuid w"
  by (auto simp: besides_hits_def)

lemma limiter_keeps_rest:
  "ro_rateLimiter (memory_router cfg) = Some f \<Longrightarrow> keeps (besides_hits w) (f key)"
  by (auto simp: memory_router_def keeps_def on_hits_def besides_hits_def split_def)

lemma limits_keep_rest:
  "keeps (below (besides_hits w)) (limit_state (memory_router cfg) key)"
  "keeps (below (besides_hits w)) (limit_network (memory_router cfg) request action)"
  "keeps (below (besides_hits w)) (consumeStateAuthenticationRateLimit (memory_router cfg) request)"
  "keeps (below (besides_hits w)) (consumeStateRateLimit (memory_router cfg) request action who)"
  by (auto simp: limit_state_def limit_network_def consumeStateAuthenticationRateLimit_def consumeStateRateLimit_def
      split: option.split intro!: keeps_intros limiter_keeps_rest)

lemma keeps_rest:
  "keeps (below (besides_hits (fst ws))) m \<Longrightarrow> m ws = (r, ws') \<Longrightarrow> besides_hits (fst ws) (fst ws')"
  using keepsD [of "below (besides_hits (fst ws))" m ws r ws'] by (simp add: below_def)

lemma with_state_principal_Inr:
  assumes "with_state_principal ro request action k ws = (Inr r, ws')"
  obtains "rp_status r = 429"
  | ws1 who ws2 ws3 where "consumeStateAuthenticationRateLimit ro request ws = (Inr None, ws1)"
      "authenticateStateRequest ro request ws1 = (Inr who, ws2)"
      "consumeStateRateLimit ro request action who ws2 = (Inr None, ws3)" "k who ws3 = (Inr r, ws')"
  using assms unfolding with_state_principal_def
  by (elim unless_answered_cases [OF _ limits_answer(3)])
   (auto simp: io_bind_eq_Inr elim: unless_answered_cases [OF _ limits_answer(4)])

subsection \<open>A dependency is verified once\<close>

lemma classified_not_success: "fst (classifyVerifierError e) \<noteq> 200"
  by (simp add: classifyVerifierError_def Let_def split: option.split)

lemma memory_get:
  assumes "qs_get (ro_requirements (memory_router cfg)) d w = (Inr found, w')" "store_inv (aw_requirements w)"
  shows "aw_service w' = aw_service w \<and> aw_now w' = aw_now w \<and> aw_uuid w' = aw_uuid w \<and>
    (case found of None \<Rightarrow> True | Some r \<Rightarrow> rq_dependencyId r = d)"
  using assms by (auto simp: memory_router_def memory_requirements_def on_requirements_def store_get_def
      store_getEntry_eq store_inv_def split: prod.splits option.splits if_splits)

lemma memory_satisfy:
  assumes "ro_satisfy (memory_router cfg) r pf w = (Inr out, w')"
  shows "\<not> nonce_spent (ss_nonces (aw_service w)) (rq_dependencyId r) \<and>
    nonce_spent (ss_nonces (aw_service w')) (rq_dependencyId r)"
proof -
  let ?svc = "with_memory_stores (mc_service cfg)" and ?n = "ss_nonces (aw_service w)"
  from assms have s: "satisfy ?svc (aw_service w) r pf (aw_now w) (aw_now w) (aw_uuid w) = (Inr (fst out, snd out), aw_service w')"
    by (auto simp: memory_router_def on_service_def split: prod.splits)
  from s obtain c n' where c: "satisfy_checks ?svc r pf (aw_now w) = Inr c"
    and n: "so_nonce_consume (sv_options ?svc) ?n (rq_dependencyId r) (rq_nonce r) (aw_now w) = (True, n')"
    by (rule satisfy_success)
  have "ss_nonces (aw_service w') = n'"
    using satisfy_nonces [of ?svc "aw_service w" r pf "aw_now w" "aw_now w" "aw_uuid w"] s c n by simp
  then show ?thesis using memory_service.consume_fresh [OF n] memory_service.consume_spends [OF n] by simp
qed

lemma verify_submission_success:
  assumes "verify_submission (memory_router cfg) request requirement ws = (Inr response, ws')" "rp_status response = 200"
  shows "\<not> nonce_spent (ss_nonces (aw_service (fst ws))) (rq_dependencyId requirement) \<and>
    nonce_spent (ss_nonces (aw_service (fst ws'))) (rq_dependencyId requirement)"
proof -
  from assms(1) [unfolded verify_submission_def io_catch_eq_Inr]
  consider (answer) pf ws1 out w2 where
      "io_lift (parseHumanProofSubmission (ro_zod (memory_router cfg)) (hq_body request)) ws = (Inr pf, ws1)"
      "ro_satisfy (memory_router cfg) requirement pf (fst ws1) = (Inr out, w2)"
      "(case out of (result, token) \<Rightarrow> io_bind (setHeader ''human-result'' token) (\<lambda>_.
         io_bind (setHeader ''cache-control'' ''no-store, private'') (\<lambda>_.
         send_json 200 (JObj [(''result'', js_of_result result), (''token'', JStr token)])))) (w2, snd ws1) =
       (Inr response, ws')"
    | (problem) e ws1 where "sendProblem (fst (classifyVerifierError e)) (snd (classifyVerifierError e)) ws1 = (Inr response, ws')"
    by (fastforce simp only: io_bind_eq_Inr onWorld_eq_Inr)
  then show ?thesis
  proof cases
    case answer
    from answer(3) have "fst ws' = w2"
      by (cases out) (auto simp: io_bind_eq_Inr dest!: setHeader_Inr send_json_Inr)
    moreover have "ws1 = ws" using answer(1) by (simp add: io_eval)
    ultimately show ?thesis using memory_satisfy [OF answer(2)] by simp
  next
    case problem
    then show ?thesis using sendProblem_Inr [OF problem] classified_not_success assms(2) by simp
  qed
qed

lemma verify_success:
  assumes step: "api_step cfg w call = (Inr response, w')" and inv: "store_inv (aw_requirements w)"
    and "ap_route call = PostVerify" "rp_status response = 200"
  shows "\<not> nonce_spent (ss_nonces (aw_service w)) (call_id call) \<and> nonce_spent (ss_nonces (aw_service w')) (call_id call)"
proof -
  let ?ro = "memory_router cfg" and ?q = "ap_request call" and ?w = "arrive call w"
  obtain hs where p: "post_verify ?ro ?q (?w, []) = (Inr response, (w', hs))"
    using step assms(3) by (auto simp: api_step_def serve_def split: prod.splits)
  show ?thesis
    using p [unfolded post_verify_def] limits_answer(2)
  proof (cases rule: unless_answered_cases)
    case 1
    then show ?thesis using assms(4) by simp
  next
    case (2 ws1)
    have same: "aw_requirements (fst ws1) = aw_requirements w" "aw_service (fst ws1) = aw_service w"
      using besides_hits_same [OF keeps_rest [OF limits_keep_rest(2) 2(1)]] by (simp_all add: arrive_def)
    from 2(2) obtain found w2 where g: "qs_get (ro_requirements ?ro) (call_id call) (fst ws1) = (Inr found, w2)"
      and k: "(case found of None \<Rightarrow> sendProblem 404 ''DEPENDENCY_NOT_FOUND''
        | Some r \<Rightarrow> if \<not> validate (ro_zod ?ro) ProofSchema (hq_body ?q) then sendProblem 400 ''INVALID_PROOF''
            else verify_submission ?ro ?q r) (w2, snd ws1) = (Inr response, (w', hs))"
      using assms(4) by (auto simp: io_bind_eq_Inr onWorld_eq_Inr call_id_def split: if_splits dest: sendProblem_Inr)
    from k obtain r where found: "found = Some r" and v: "verify_submission ?ro ?q r (w2, snd ws1) = (Inr response, (w', hs))"
      using assms(4) by (auto split: option.splits if_splits dest: sendProblem_Inr)
    show ?thesis
      using verify_submission_success [OF v assms(4)] memory_get [OF g] same inv found by simp
  qed
qed

definition api_verified :: "ApiCall \<Rightarrow> Response res \<Rightarrow> bool" where
  "api_verified call reply \<longleftrightarrow> ap_route call = PostVerify \<and> answered 200 reply"

text \<open>A step of the API as a use of its dependency, in worlds whose requirement store is well formed.\<close>

definition verify_use :: "MemoryConfig \<Rightarrow> ApiWorld \<Rightarrow> ApiCall \<Rightarrow> bool \<times> ApiWorld" where
  "verify_use cfg w call = (case api_step cfg w call of
     (reply, w') \<Rightarrow> (store_inv (aw_requirements w) \<and> api_verified call reply, w'))"

lemma arrive_parts [simp]:
  "aw_requirements (arrive call w) = aw_requirements w" "aw_service (arrive call w) = aw_service w"
  "aw_results (arrive call w) = aw_results w" "aw_acceptances (arrive call w) = aw_acceptances w"
  "aw_now (arrive call w) = ap_time call" "aw_uuid (arrive call w) = ap_uuid call"
  by (simp_all add: arrive_def)

lemma api_step_store_inv: "store_inv (aw_requirements w) \<Longrightarrow> store_inv (aw_requirements (snd (api_step cfg w call)))"
  by (rule api_step_keeps [OF store_inv_kept]) simp

lemma api_step_nonce_spent:
  "nonce_spent (ss_nonces (aw_service w)) d \<Longrightarrow> nonce_spent (ss_nonces (aw_service (snd (api_step cfg w call)))) d"
  by (rule api_step_keeps [OF nonce_spent_kept]) simp

interpretation api_verifications: use_once "verify_use cfg" call_id "\<lambda>w d. nonce_spent (ss_nonces (aw_service w)) d" for cfg
proof
  fix w call w' assume "verify_use cfg w call = (True, w')"
  then obtain reply where "api_step cfg w call = (reply, w')" "store_inv (aw_requirements w)" "api_verified call reply"
    by (auto simp: verify_use_def split: prod.splits)
  then show "\<not> nonce_spent (ss_nonces (aw_service w)) (call_id call)" "nonce_spent (ss_nonces (aw_service w')) (call_id call)"
    by (cases reply; simp add: api_verified_def verify_success)+
next
  fix w call b w' d assume "verify_use cfg w call = (b, w')" "nonce_spent (ss_nonces (aw_service w)) d"
  then show "nonce_spent (ss_nonces (aw_service w')) d"
    using api_step_nonce_spent [of w d cfg call] by (auto simp: verify_use_def split: prod.splits)
qed

lemma run_verify_use:
  "run_uses (api_step cfg) w calls = (replies, w') \<Longrightarrow> store_inv (aw_requirements w) \<Longrightarrow>
   run_uses (verify_use cfg) w calls = (map2 api_verified calls replies, w')"
proof (induction calls arbitrary: w replies)
  case (Cons call calls)
  then show ?case
    using api_step_store_inv [of w cfg call] by (auto simp: verify_use_def split: prod.splits)
qed simp

text \<open>
  C5: A dependency is verified at most once over the API: in any sequence of calls of any routes, from a world
  with a well-formed requirement store, after a verification of a dependency was answered with a result (status
  200) no later verification of it is, however requirements are issued, read or deleted in between.
\<close>

theorem api_verifies_once:
  assumes "run_uses (api_step cfg) w calls = (replies, w')" "store_inv (aw_requirements w)"
    "i < j" "j < length calls" "call_id (calls ! i) = call_id (calls ! j)"
    "ap_route (calls ! i) = PostVerify" "answered 200 (replies ! i)" "ap_route (calls ! j) = PostVerify"
  shows "\<not> answered 200 (replies ! j)"
proof
  assume "answered 200 (replies ! j)"
  moreover have "length replies = length calls" using length_run_uses [of "api_step cfg" w calls] assms(1) by simp
  ultimately show False
    using api_verifications.at_most_once [OF run_verify_use [OF assms(1,2)], of i j] assms(3-)
    by (simp add: api_verified_def)
qed

theorem api_verifies_once_witness:
  "\<not> answered 200 (fst (run_uses (api_step sample_memory_config) sample_stored_world
     [sample_verify_call 1767225602000, sample_verify_call 1767225603000]) ! 1)"
proof -
  obtain response w1 where a: "api_step sample_memory_config sample_stored_world (sample_verify_call 1767225602000) =
      (Inr response, w1)" "rp_status response = 200"
    using sample_verify_step by blast
  obtain x w2 where b: "api_step sample_memory_config w1 (sample_verify_call 1767225603000) = (x, w2)" by fastforce
  have run: "run_uses (api_step sample_memory_config) sample_stored_world
      [sample_verify_call 1767225602000, sample_verify_call 1767225603000] = ([Inr response, x], w2)"
    by (simp only: run_uses.simps a b prod.case)
  show ?thesis unfolding run fst_conv
    by (rule api_verifies_once [OF run, where i = 0])
      (simp_all add: sample_verify_call_def call_id_def a(2) sample_stored_world_def store_inv_def owned_def sample_requirement_def)
qed

subsection \<open>A result is consumed once per tenant\<close>

text \<open>The principal the authenticator names for a call.\<close>

definition call_principal :: "MemoryConfig \<Rightarrow> ApiCall \<Rightarrow> AnyIssuancePrincipal option" where
  "call_principal cfg call = (case mc_authenticator cfg of
     None \<Rightarrow> None
   | Some f \<Rightarrow> (case bindE (f (hq_authorization (ap_request call))) validateIssuancePrincipal of
       Inl e \<Rightarrow> None | Inr p \<Rightarrow> Some p))"

definition call_state_id :: "MemoryConfig \<Rightarrow> ApiCall \<Rightarrow> string" where
  "call_state_id cfg call = scopedStateId (mc_hash cfg) (state_tenant (memory_router cfg) (call_principal cfg call)) (call_id call)"

definition call_expiry :: "ApiCall \<Rightarrow> IsoTimestamp" where
  "call_expiry call = get_str (hq_body (ap_request call)) ''expiresAt''"

lemma authenticateStateRequest_Inr:
  assumes "authenticateStateRequest (memory_router cfg) (ap_request call) ws = (Inr who, ws')"
  shows "who = call_principal cfg call \<and> ws' = ws"
  using assms
  by (cases "mc_authenticator cfg")
    (auto simp: authenticateStateRequest_def authenticated_principal_def call_principal_def memory_router_def
      io_bind_eq_Inr onWorld_eq_Inr io_eval split: if_splits sum.splits)

fun consumed_body :: "Response res \<Rightarrow> bool" where
  "consumed_body (Inr response) = (rp_status response = 200 \<and> rp_body response = Some (JObj [(''consumed'', JBool True)]))"
| "consumed_body (Inl e) = False"

definition memory_consume :: "MemoryConfig \<Rightarrow> ApiCall \<Rightarrow> AnyIssuancePrincipal option \<Rightarrow> (ApiWorld, Response) handling" where
  "memory_consume cfg call who = io_bind (onWorld (on_results (\<lambda>s now. result_consumeWithLegacy s
      (scopedStateId (mc_hash cfg) (state_tenant (memory_router cfg) who) (call_id call)) (call_id call) (call_expiry call) now)))
      (\<lambda>consumed. send_json 200 (JObj [(''consumed'', JBool consumed)]))"

lemma post_consume_memory:
  "post_consume (memory_router cfg) (ap_request call) = io_bind private_response (\<lambda>_. io_bind (clock (memory_router cfg)) (\<lambda>now.
     if \<not> consume_valid (memory_router cfg) (ap_request call) now then sendProblem 400 ''INVALID_RESULT_CONSUMPTION''
     else catching 401 ''RESULT_CONSUMPTION_REJECTED''
       (with_state_principal (memory_router cfg) (ap_request call) ''result-consume'' (memory_consume cfg call))))"
  unfolding post_consume_def memory_consume_def call_id_def call_expiry_def Let_def
  by (simp add: memory_router_parts cong: if_cong)

lemma private_response_Inr: "private_response ws = (Inr x, ws') \<Longrightarrow> fst ws' = fst ws"
  by (auto simp: private_response_def io_bind_eq_Inr dest!: setHeader_Inr)

lemma memory_consume_Inr:
  assumes "memory_consume cfg call who ws = (Inr response, ws')"
    "rp_body response = Some (JObj [(''consumed'', JBool True)])"
  shows "result_step (aw_results (fst ws)) (ConsumeLegacy (scopedStateId (mc_hash cfg) (state_tenant (memory_router cfg) who)
     (call_id call)) (call_id call) (call_expiry call) (aw_now (fst ws))) = (True, aw_results (fst ws'))"
  using assms by (auto simp: memory_consume_def io_bind_eq_Inr onWorld_eq_Inr on_results_def
      split: prod.splits dest!: send_json_Inr)

lemma consume_success:
  assumes step: "api_step cfg w call = (Inr response, w')" and "ap_route call = PostConsume" "consumed_body (Inr response)"
  shows "result_step (aw_results w) (ConsumeLegacy (call_state_id cfg call) (call_id call) (call_expiry call) (ap_time call)) =
     (True, aw_results w')"
proof -
  let ?ro = "memory_router cfg" and ?q = "ap_request call" and ?w = "arrive call w"
  obtain hs where p: "post_consume ?ro ?q (?w, []) = (Inr response, (w', hs))"
    using step assms(2) by (auto simp: api_step_def serve_def split: prod.splits)
  have ok: "rp_status response = 200" "rp_body response = Some (JObj [(''consumed'', JBool True)])"
    using assms(3) by simp_all
  from p [unfolded post_consume_memory] ok(1) obtain ws0 where ws0: "fst ws0 = ?w"
    and c: "catching 401 ''RESULT_CONSUMPTION_REJECTED'' (with_state_principal ?ro ?q ''result-consume'' (memory_consume cfg call)) ws0 =
      (Inr response, (w', hs))"
    by (auto simp: io_bind_eq_Inr split: if_splits dest!: private_response_Inr clock_Inr sendProblem_Inr)
  have v: "with_state_principal ?ro ?q ''result-consume'' (memory_consume cfg call) ws0 = (Inr response, (w', hs))"
    using c ok(1) by (auto simp: catching_def io_catch_eq_Inr dest!: sendProblem_Inr)
  from v show ?thesis
  proof (cases rule: with_state_principal_Inr)
    case 1
    then show ?thesis using ok by simp
  next
    case (2 ws1 who ws2 ws3)
    have who: "who = call_principal cfg call" and ws2: "ws2 = ws1" using authenticateStateRequest_Inr [OF 2(2)] by simp_all
    have "aw_results (fst ws3) = aw_results w \<and> aw_now (fst ws3) = ap_time call"
      using besides_hits_same [OF keeps_rest [OF limits_keep_rest(3) 2(1)]]
        besides_hits_same [OF keeps_rest [OF limits_keep_rest(4) 2(3)]] ws0 ws2 by simp
    then show ?thesis using memory_consume_Inr [OF 2(4) ok(2)] by (simp add: who call_state_id_def)
  qed
qed

definition consume_use :: "MemoryConfig \<Rightarrow> ApiWorld \<Rightarrow> ApiCall \<Rightarrow> bool \<times> ApiWorld" where
  "consume_use cfg = (\<lambda>w call. case api_step cfg w call of
     (reply, w') \<Rightarrow> (ap_route call = PostConsume \<and> consumed_body reply, w'))"

lemma run_consume_use:
  "run_uses (api_step cfg) w calls = (replies, w') \<Longrightarrow>
   run_uses (consume_use cfg) w calls = (map2 (\<lambda>call reply. ap_route call = PostConsume \<and> consumed_body reply) calls replies, w')"
  by (induction calls arbitrary: w replies) (auto simp: consume_use_def split: prod.splits)

definition consume_op :: "MemoryConfig \<Rightarrow> ApiCall \<Rightarrow> result_op" where
  "consume_op cfg call = ConsumeLegacy (call_state_id cfg call) (call_id call) (call_expiry call) (ap_time call)"

lemma consume_use_step:
  assumes "consume_use cfg w call = (True, w')"
  shows "result_step (aw_results w) (consume_op cfg call) = (True, aw_results w')"
proof -
  obtain reply where "api_step cfg w call = (reply, w')" "ap_route call = PostConsume" "consumed_body reply"
    using assms by (auto simp: consume_use_def split: prod.splits)
  then show ?thesis unfolding consume_op_def by (cases reply) (simp_all add: consume_success del: result_step.simps)
qed

lemma consumed_expiry_parses: "consume_use cfg w call = (True, w') \<Longrightarrow> date_parse (call_expiry call) \<noteq> None"
  using consume_use_step [of cfg w call w'] by (cases "date_parse (call_expiry call)") (auto simp: consume_op_def result_consumeWithLegacy_def)

lemma api_step_result_spent:
  assumes "result_spent (aw_results w) k t" "ap_time call \<le> t"
  shows "result_spent (aw_results (snd (api_step cfg w call))) k t"
  using api_step_keeps [OF result_spent_kept, of call w k t cfg] assms by simp

interpretation api_consumptions: use_once_until "consume_use cfg" "call_state_id cfg" ap_time
  "\<lambda>call. result_op_expiry (consume_op cfg call)" "\<lambda>w k t. result_spent (aw_results w) k t" for cfg
proof
  fix w call w' assume u: "consume_use cfg w call = (True, w')"
  note s = consume_use_step [OF u]
  show "\<not> result_spent (aw_results w) (call_state_id cfg call) (ap_time call)"
    using results.success_unspent [OF s] by (simp add: consume_op_def)
  fix t assume "ap_time call \<le> t" "t < result_op_expiry (consume_op cfg call)"
  then show "result_spent (aw_results w') (call_state_id cfg call) t"
    using results.success_spends [OF s, of t] by (simp add: consume_op_def)
next
  fix w call b w' k t
  assume "consume_use cfg w call = (b, w')" "result_spent (aw_results w) k t" "ap_time call \<le> t"
  then show "result_spent (aw_results w') k t"
    using api_step_result_spent [of w k t call cfg] by (auto simp: consume_use_def split: prod.splits)
qed

text \<open>
  C6: A result is consumed at most once per tenant until it expires: in any sequence of calls of any routes in
  time order, if two calls to consume a result that share a state key (the same result of the same tenant) are
  both answered as consumed, then the expiry the first one gave has passed at the time of the second.
\<close>

theorem api_consumes_once:
  assumes "run_uses (api_step cfg) w calls = (replies, w')" "sorted (map ap_time calls)"
    "i < j" "j < length calls" "call_state_id cfg (calls ! i) = call_state_id cfg (calls ! j)"
    "ap_route (calls ! i) = PostConsume" "ap_route (calls ! j) = PostConsume"
    "consumed_body (replies ! i)" "consumed_body (replies ! j)"
  shows "\<exists>expiry. date_parse (call_expiry (calls ! i)) = Some expiry \<and> expiry \<le> ap_time (calls ! j)"
proof -
  let ?bs = "map2 (\<lambda>call reply. ap_route call = PostConsume \<and> consumed_body reply) calls replies"
  note run = run_consume_use [OF assms(1)]
  have len: "length replies = length calls" using length_run_uses [of "api_step cfg" w calls] assms(1) by simp
  then have "result_op_expiry (consume_op cfg (calls ! i)) \<le> ap_time (calls ! j)"
    using api_consumptions.reuse_after_expiry [OF run assms(2-4)] assms(3-) by simp
  moreover have "?bs ! i" using assms(3,4,6,8) len by simp
  then have "date_parse (call_expiry (calls ! i)) \<noteq> None"
    using run_uses_nth [OF run, of i] assms(3,4)
      consumed_expiry_parses [of cfg "snd (run_uses (consume_use cfg) w (take i calls))" "calls ! i"]
    by (simp add: prod_eq_iff)
  ultimately show ?thesis by (auto simp: consume_op_def)
qed

definition sample_consumptions :: "ApiCall list" where
  "sample_consumptions = [sample_consume_call 1767225600000 ''2026-01-01T00:05:00.000Z'',
     sample_consume_call 1767225900000 ''2026-01-01T00:06:00.000Z'']"

theorem api_consumes_once_witness:
  "\<exists>expiry. date_parse (call_expiry (sample_consumptions ! 0)) = Some expiry \<and> expiry \<le> ap_time (sample_consumptions ! 1)"
proof -
  let ?run = "run_uses (api_step sample_memory_config) sample_api_world sample_consumptions"
  have "map consumed_body (fst ?run) = [True, True]" by code_simp
  then obtain a b where ab: "fst ?run = [a, b]" "consumed_body a" "consumed_body b" by auto
  then have run: "?run = ([a, b], snd ?run)" by (metis prod.collapse)
  show ?thesis
    by (rule api_consumes_once [OF run])
      (simp_all add: sample_consumptions_def sample_consume_call_def ab call_state_id_def call_principal_def
        sample_memory_config_def call_id_def anonymous_request_def)
qed

subsection \<open>Issuing stores and registers, or leaves nothing\<close>

lemma io_bind_cases:
  assumes "io_bind m f w = (r, w')"
  obtains e where "m w = (Inl e, w')" "r = Inl e" | x w1 where "m w = (Inr x, w1)" "f x w1 = (r, w')"
  using assms by (auto simp: io_bind_def split: prod.splits sum.splits)

text \<open>The world before the requirement is stored is the world of the request.\<close>

lemma issue_preparation_keeps:
  "keeps (below (\<lambda>v. v = w)) (issue_tenant (memory_router cfg) request)"
  "keeps (below (\<lambda>v. v = w)) (issue_provider_requests (memory_router cfg) body)"
  "keeps (below (\<lambda>v. v = w)) (issue_create (memory_router cfg) body ps)"
  "keeps (below (\<lambda>v. v = w)) (issue_answer r)"
proof -
  show "keeps (below (\<lambda>v. v = w)) (issue_tenant (memory_router cfg) request)"
    unfolding issue_tenant_def authenticated_principal_def memory_router_parts
    by (cases "mc_authenticator cfg") (simp_all only: option.map option.case keeps_intros)
  show "keeps (below (\<lambda>v. v = w)) (issue_provider_requests (memory_router cfg) body)"
    unfolding issue_provider_requests_def memory_router_parts
    by (cases "mc_providerRequests cfg") (simp_all add: keeps_intros)
  have "keeps (\<lambda>v. v = w) (ro_ambient (memory_router cfg))" by (simp add: memory_router_parts keeps_def)
  then show "keeps (below (\<lambda>v. v = w)) (issue_create (memory_router cfg) body ps)"
    unfolding issue_create_def by (intro keeps_intros)
  show "keeps (below (\<lambda>v. v = w)) (issue_answer r)"
    unfolding issue_answer_def by (intro keeps_intros)
qed

lemma keeps_world:
  "keeps (below (\<lambda>v. v = fst ws)) m \<Longrightarrow> m ws = (r, ws') \<Longrightarrow> fst ws' = fst ws"
  using keepsD [of "below (\<lambda>v. v = fst ws)" m ws r ws'] by (simp add: below_def)

lemma issue_tenant_Inr:
  assumes "issue_tenant (memory_router cfg) (ap_request call) ws = (Inr t, ws')"
  shows "t = map_option (tenantStateId (mc_hash cfg)) (call_principal cfg call)"
  using assms
  by (cases "mc_authenticator cfg")
    (auto simp: issue_tenant_def authenticated_principal_def call_principal_def memory_router_parts
      io_bind_eq_Inr onWorld_eq_Inr io_eval split: sum.splits)

lemma putForTenant_cases:
  "(\<exists>e. store_putForTenant s r t now = (Inl e, s)) \<or> store_putForTenant s r t now = store_put_entry s r (Some t) now"
  by (cases "assertTenantId t") (simp_all add: store_putForTenant_def)

lemma issue_store_memory:
  assumes "issue_store (memory_router cfg) t r ws = (x, ws')"
  obtains s1 where "x = Inr ()" "store_put_entry (aw_requirements (fst ws)) r t (aw_now (fst ws)) = (Inr (), s1)"
      "fst ws' = (fst ws)\<lparr>aw_requirements := s1\<rparr>"
  | e s1 where "x = Inl e" "fst ws' = (fst ws)\<lparr>aw_requirements := s1\<rparr>"
      "s1 = aw_requirements (fst ws) \<or> s1 = store_prune (aw_requirements (fst ws)) (aw_now (fst ws))"
proof -
  obtain y s1 where p: "store_put_entry (aw_requirements (fst ws)) r t (aw_now (fst ws)) = (y, s1)" by fastforce
  have f: "y = Inl e \<Longrightarrow> s1 = store_prune (aw_requirements (fst ws)) (aw_now (fst ws))" for e
    using p by (auto simp: store_put_entry_def Let_def split: if_splits)
  have "(x = y \<and> fst ws' = (fst ws)\<lparr>aw_requirements := s1\<rparr>) \<or>
      (\<exists>e. x = Inl e \<and> fst ws' = (fst ws)\<lparr>aw_requirements := aw_requirements (fst ws)\<rparr>)"
  proof (cases t)
    case None
    then show ?thesis using assms p by (cases ws)
      (auto simp: issue_store_def memory_router_parts memory_requirements_def onWorld_def on_requirements_def store_put_def)
  next
    case (Some tenant)
    then show ?thesis using assms p putForTenant_cases [of "aw_requirements (fst ws)" r tenant "aw_now (fst ws)"]
      by (cases ws)
       (auto simp: issue_store_def memory_router_parts memory_requirements_def onWorld_def on_requirements_def)
  qed
  then consider "x = y" "fst ws' = (fst ws)\<lparr>aw_requirements := s1\<rparr>"
    | e where "x = Inl e" "fst ws' = (fst ws)\<lparr>aw_requirements := aw_requirements (fst ws)\<rparr>"
    by blast
  then show thesis
  proof cases
    case 1
    then show thesis using that(1) [of s1] that(2) [of _ s1] p f by (cases y) auto
  next
    case (2 e)
    then show thesis by (rule that(2)) simp
  qed
qed

lemma memory_register:
  assumes "register (with_memory_stores svc) st r now = (y, st')"
  shows "case y of Inl e \<Rightarrow> ss_nonces st' = ss_nonces st
    | Inr _ \<Rightarrow> (\<exists>x. date_parse (rq_expiresAt r) = Some x \<and> map_of (ss_nonces st') (rq_dependencyId r) =
        Some \<lparr>ne_nonce = rq_nonce r, ne_expiresAtMs = x, ne_used = False\<rparr>)"
  using assms by (auto simp: register_def with_memory_stores_def nonce_put_def update_conv'
      split: sum.splits prod.splits option.splits if_splits)

lemma issue_register_memory:
  assumes "issue_register (memory_router cfg) r ws = (x, ws')"
  obtains sv where "x = Inr ()" "fst ws' = (fst ws)\<lparr>aw_service := sv\<rparr>"
      "register (with_memory_stores (mc_service cfg)) (aw_service (fst ws)) r (aw_now (fst ws)) = (Inr (), sv)"
  | e sv where "x = Inl e"
      "fst ws' = (fst ws)\<lparr>aw_service := sv, aw_requirements := store_delete (aw_requirements (fst ws)) (rq_dependencyId r)\<rparr>"
      "register (with_memory_stores (mc_service cfg)) (aw_service (fst ws)) r (aw_now (fst ws)) = (Inl e, sv)"
proof -
  obtain y sv where "register (with_memory_stores (mc_service cfg)) (aw_service (fst ws)) r (aw_now (fst ws)) = (y, sv)"
    by fastforce
  then show thesis
    using assms that by (cases ws; cases y)
      (auto simp: issue_register_def memory_router_parts memory_requirements_def onWorld_def on_requirements_def
        on_service_def io_catch_def io_bind_def io_throw_def)
qed

lemma issue_answer_cases:
  assumes "issue_answer r ws = (x, ws')"
  obtains e where "x = Inl e" "humanRequiredResponse r = Inl e" "fst ws' = fst ws"
  | response transport where "x = Inr response" "rp_status response = 201" "fst ws' = fst ws"
      "rp_body response = Some (JObj [(''requirement'', js_of_requirement r), (''x424Transport'', JStr transport)])"
proof (cases "humanRequiredResponse r")
  case (Inl e)
  then show thesis using assms that(1) by (auto simp: issue_answer_def io_bind_def io_eval)
next
  case (Inr c)
  obtain hs' where "set_headers (hc_headers c) ws = (Inr (), (fst ws, hs'))"
    using set_headers_total [of "hc_headers c" "fst ws" "snd ws"] by auto
  then show thesis using assms that(2) Inr
    by (auto simp: issue_answer_def io_bind_def io_eval send_json_def Let_def)
qed

definition requirement_pending :: "ApiWorld \<Rightarrow> HumanRequirement \<Rightarrow> string option \<Rightarrow> bool" where
  "requirement_pending w r tenant \<longleftrightarrow>
     owned (aw_requirements w) (rq_dependencyId r) = Some \<lparr>re_requirement = r, re_tenantId = tenant\<rparr> \<and>
     (\<exists>x. date_parse (rq_expiresAt r) = Some x \<and> map_of (ss_nonces (aw_service w)) (rq_dependencyId r) =
        Some \<lparr>ne_nonce = rq_nonce r, ne_expiresAtMs = x, ne_used = False\<rparr>)"

definition nothing_issued :: "ApiWorld \<Rightarrow> ApiWorld \<Rightarrow> bool" where
  "nothing_issued w w' \<longleftrightarrow> ss_nonces (aw_service w') = ss_nonces (aw_service w) \<and>
     (\<forall>d e. owned (aw_requirements w') d = Some e \<longrightarrow> owned (aw_requirements w) d = Some e)"

definition issue_outcome :: "HumanRequirement \<Rightarrow> Response res \<Rightarrow> bool" where
  "issue_outcome r x = (case x of Inl e \<Rightarrow> humanRequiredResponse r = Inl e
     | Inr response \<Rightarrow> rp_status response = 201 \<and> (\<exists>transport. rp_body response =
         Some (JObj [(''requirement'', js_of_requirement r), (''x424Transport'', JStr transport)])))"

lemma owned_prune_sub:
  "store_inv s \<Longrightarrow> owned (store_prune s now) d = Some e \<Longrightarrow> owned s d = Some e"
  by (auto simp: store_inv_def owned_prune split: option.splits if_splits)

lemma issue_registered:
  assumes "io_bind (issue_register (memory_router cfg) r) (\<lambda>_. issue_answer r) ws = (x, ws')"
    and stored: "store_put_entry s r t now = (Inr (), aw_requirements (fst ws))" and inv: "store_inv s"
  shows "(\<exists>e. x = Inl e \<and> ss_nonces (aw_service (fst ws')) = ss_nonces (aw_service (fst ws)) \<and>
      (\<forall>d e. owned (aw_requirements (fst ws')) d = Some e \<longrightarrow> owned s d = Some e)) \<or>
    (requirement_pending (fst ws') r t \<and> issue_outcome r x)"
proof -
  have o: "owned (aw_requirements (fst ws)) d = (if d = rq_dependencyId r
      then Some \<lparr>re_requirement = r, re_tenantId = t\<rparr> else owned (store_prune s now) d)" for d
    using owned_put [of s r t now d] stored inv by (simp add: store_inv_def)
  from assms(1) show ?thesis
  proof (cases rule: io_bind_cases)
    case (1 e)
    from 1(1) show ?thesis
    proof (cases rule: issue_register_memory)
      case (2 e' sv)
      then show ?thesis using 1(2) memory_register [OF 2(3)] owned_prune_sub [OF inv] by (auto simp: owned_delete o)
    qed simp
  next
    case (2 u ws1)
    from 2(1) show ?thesis
    proof (cases rule: issue_register_memory)
      case (1 sv)
      have "requirement_pending (fst ws1) r t" using memory_register [OF 1(3)] 1(2) by (simp add: requirement_pending_def o)
      with 2(2) show ?thesis by (cases rule: issue_answer_cases) (auto simp: issue_outcome_def)
    qed simp
  qed
qed

lemma issue_stored:
  assumes "io_bind (issue_store (memory_router cfg) t r) (\<lambda>_. io_bind (issue_register (memory_router cfg) r)
      (\<lambda>_. issue_answer r)) ws = (x, ws')" and inv: "store_inv (aw_requirements (fst ws))"
  shows "(\<exists>e. x = Inl e \<and> nothing_issued (fst ws) (fst ws')) \<or>
    (requirement_pending (fst ws') r t \<and> issue_outcome r x)"
  using assms(1)
proof (cases rule: io_bind_cases)
  case (1 e)
  from 1(1) show ?thesis
    by (cases rule: issue_store_memory) (use 1(2) owned_prune_sub [OF inv] in \<open>auto simp: nothing_issued_def\<close>)
next
  case (2 u ws1)
  from 2(1) show ?thesis
  proof (cases rule: issue_store_memory)
    case (1 s1)
    then show ?thesis using issue_registered [OF 2(2) _ inv, of t "aw_now (fst ws)"] by (auto simp: nothing_issued_def)
  qed simp
qed

lemma issue_memory:
  assumes "issue (memory_router cfg) (ap_request call) ws = (x, ws')" "store_inv (aw_requirements (fst ws))"
  shows "(\<exists>e. x = Inl e \<and> nothing_issued (fst ws) (fst ws')) \<or>
    (\<exists>r. requirement_pending (fst ws') r (map_option (tenantStateId (mc_hash cfg)) (call_principal cfg call)) \<and> issue_outcome r x)"
proof -
  let ?q = "ap_request call" and ?ro = "memory_router cfg"
  have same: "nothing_issued w w" for w by (simp add: nothing_issued_def)
  show ?thesis using assms(1) [unfolded issue_def]
  proof (cases rule: io_bind_cases)
    case 1
    then show ?thesis using keeps_world [OF issue_preparation_keeps(1) 1(1)] same by simp
  next
    case t: (2 tenant ws1)
    note w1 = keeps_world [OF issue_preparation_keeps(1) t(1)] and tenant = issue_tenant_Inr [OF t(1)]
    from t(2) show ?thesis
    proof (cases rule: io_bind_cases)
      case 1
      then show ?thesis using keeps_world [OF issue_preparation_keeps(2) 1(1)] w1 same by simp
    next
      case p: (2 ps ws2)
      note w2 = keeps_world [OF issue_preparation_keeps(2) p(1)]
      from p(2) show ?thesis
      proof (cases rule: io_bind_cases)
        case 1
        then show ?thesis using keeps_world [OF issue_preparation_keeps(3) 1(1)] w1 w2 same by simp
      next
        case c: (2 r ws3)
        have w3: "fst ws3 = fst ws" using keeps_world [OF issue_preparation_keeps(3) c(1)] w1 w2 by simp
        show ?thesis using issue_stored [OF c(2)] assms(2) w3 tenant by auto
      qed
    qed
  qed
qed

text \<open>
  C12: Issuing is all or nothing: a request for a requirement over the in-memory stores that is answered 201 carries
  the requirement that is now stored for the caller's tenant and registered with an unused nonce; any other answer
  leaves no new entry in the requirement store and no change of the nonces, except when the requirement was stored
  and registered and only its challenge could not be rendered.
\<close>

theorem issue_all_or_nothing:
  assumes "api_step cfg w call = (Inr response, w')" "ap_route call = PostRequirements" "store_inv (aw_requirements w)"
  shows "if rp_status response = 201
    then \<exists>r. requirement_pending w' r (map_option (tenantStateId (mc_hash cfg)) (call_principal cfg call)) \<and>
      (\<exists>transport. rp_body response =
        Some (JObj [(''requirement'', js_of_requirement r), (''x424Transport'', JStr transport)]))
    else nothing_issued w w' \<or>
      (\<exists>r e. requirement_pending w' r (map_option (tenantStateId (mc_hash cfg)) (call_principal cfg call)) \<and>
        humanRequiredResponse r = Inl e)"
proof -
  let ?ro = "memory_router cfg" and ?q = "ap_request call" and ?w = "arrive call w"
  have moved: "besides_hits ?w v \<Longrightarrow> nothing_issued w v" for v
    using besides_hits_same [of ?w v] by (simp add: nothing_issued_def)
  obtain hs where p: "post_requirements ?ro ?q (?w, []) = (Inr response, (w', hs))"
    using assms(1,2) by (auto simp: api_step_def serve_def split: prod.splits)
  have limit: "besides_hits ?w (fst ws1)" if "limit_network ?ro ?q ''issue'' (?w, []) = (a, ws1)" for a ws1
    using keeps_rest [OF limits_keep_rest(2) that] by simp
  show ?thesis
    using p [unfolded post_requirements_def] limits_answer(2)
  proof (cases rule: unless_answered_cases)
    case 1
    then show ?thesis using limit [OF 1(2)] moved by simp
  next
    case (2 ws1)
    note same = besides_hits_same [OF limit [OF 2(1)]]
    show ?thesis
    proof (cases "create_valid (ro_zod ?ro) (hq_body ?q)")
      case False
      with 2(2) have "sendProblem 400 ''INVALID_REQUIREMENT'' ws1 = (Inr response, (w', hs))" by simp
      from sendProblem_Inr [OF this] moved [OF limit [OF 2(1)]] show ?thesis by simp
    next
      case True
      with 2(2) have "io_catch (issue ?ro ?q) (\<lambda>e. sendProblem (fst (issue_rejection e)) (snd (issue_rejection e))) ws1 =
          (Inr response, (w', hs))" by simp
      then consider "issue ?ro ?q ws1 = (Inr response, (w', hs))"
        | e ws2 where "issue ?ro ?q ws1 = (Inl e, ws2)"
          "sendProblem (fst (issue_rejection e)) (snd (issue_rejection e)) ws2 = (Inr response, (w', hs))"
        by (auto simp: io_catch_eq_Inr)
      then show ?thesis
      proof cases
        case 1
        from issue_memory [OF 1] same assms(3) show ?thesis by (auto simp: issue_outcome_def)
      next
        case (2 e ws2)
        have "w' = fst ws2" "rp_status response \<noteq> 201"
          using sendProblem_Inr [OF 2(2)] by (cases e rule: issue_rejection.cases; simp)+
        with issue_memory [OF 2(1)] same assms(3) show ?thesis by (auto simp: issue_outcome_def nothing_issued_def)
      qed
    qed
  qed
qed

theorem issue_all_or_nothing_witness:
  "\<exists>r. requirement_pending (snd (api_step sample_memory_config sample_api_world sample_issue_call)) r None"
proof -
  obtain response w' where a: "api_step sample_memory_config sample_api_world sample_issue_call = (Inr response, w')"
    and status: "rp_status response = 201"
    using sample_issue_step by blast
  have p: "call_principal sample_memory_config sample_issue_call = None"
    by (simp add: call_principal_def sample_memory_config_def)
  have r: "ap_route sample_issue_call = PostRequirements" "store_inv (aw_requirements sample_api_world)"
    by (simp_all add: sample_issue_call_def sample_api_world_def store_inv_def owned_def)
  from issue_all_or_nothing [OF a r] status a show ?thesis by (auto simp: p)
qed

subsection \<open>Error answers\<close>



end
