(* ===== verification/Resource.thy ===== *)
theory Resource
  imports Router
begin

section \<open>Resource middleware (src/middleware/resource.ts)\<close>

text \<open>
  What a resource server does with a request: challenge it, or accept the proof it carries.  The stores, the
  issuer, the extractors of binding and body and the clock are operations over the world \<open>'w\<close> that may throw.
  Header tables have lower-case names; a value is a list of strings, one element for a plain header.
\<close>

type_synonym header_values = "(string \<times> string list) list"

subsection \<open>Protected response headers\<close>

definition X424_PROTECTED_CACHE_CONTROL :: string where
  "X424_PROTECTED_CACHE_CONTROL = ''private, no-store''"

definition forceProtectedHeaders :: "header_values \<Rightarrow> header_values" where
  "forceProtectedHeaders hs =
     (let hs' = AList.update ''cache-control'' [X424_PROTECTED_CACHE_CONTROL] hs
      in AList.update ''vary'' [mergeVary (map_of hs' ''vary'') [HUMAN_PROOF_HEADER]] hs')"

definition guardedSetHeader :: "string \<Rightarrow> string list \<Rightarrow> header_values \<Rightarrow> header_values" where
  "guardedSetHeader name value hs =
     (let lowerName = toLowerCase name
      in if lowerName = ''cache-control'' then AList.update lowerName [X424_PROTECTED_CACHE_CONTROL] hs
         else if lowerName = ''vary''
         then AList.update lowerName [mergeVary (map_of hs ''vary'') [joinWith '','' value, HUMAN_PROOF_HEADER]] hs
         else AList.update lowerName value hs)"

definition guardedRemoveHeader :: "string \<Rightarrow> header_values \<Rightarrow> header_values" where
  "guardedRemoveHeader name hs =
     (let lowerName = toLowerCase name
      in if lowerName = ''cache-control'' \<or> lowerName = ''vary'' then forceProtectedHeaders hs
         else AList.delete lowerName hs)"

definition guardedWriteHead :: "(string \<times> string list) list \<Rightarrow> header_values \<Rightarrow> header_values" where
  "guardedWriteHead direct hs = forceProtectedHeaders (fold (\<lambda>(name, value). guardedSetHeader name value) direct hs)"

definition protectedFetchHeaders :: "headers \<Rightarrow> headers" where
  "protectedFetchHeaders initial =
     (let hs = AList.update ''cache-control'' X424_PROTECTED_CACHE_CONTROL initial
      in AList.update ''vary'' (mergeVary (map_option (\<lambda>v. [v]) (map_of hs ''vary'')) [HUMAN_PROOF_HEADER]) hs)"

subsection \<open>Options\<close>

text \<open>
  \<open>CreateInput\<close> is also what an issuer is given; the stores that are kept in memory carry a flag.
\<close>

record ('w, 'pk) Protect =
  pt_hash :: hash
  pt_zod :: zod
  pt_parse :: url_parser
  pt_resolve :: "string \<Rightarrow> Url \<Rightarrow> Url option"
  pt_verify :: "'pk \<Rightarrow> bytes \<Rightarrow> bytes \<Rightarrow> bool"
  pt_deploymentProfile :: "DeploymentProfile option"
  pt_purpose :: string
  pt_audience :: string
  pt_accepts :: "HumanMethodRequirement list"
  pt_catalog :: catalog
  pt_verifier :: "'pk ResultVerifier"
  pt_extractBinding :: "headers \<Rightarrow> string \<Rightarrow> string \<Rightarrow> ('w, HumanBinding) io"
  pt_put :: "HumanRequirement \<Rightarrow> ('w, unit) io"
  pt_get :: "string \<Rightarrow> int \<Rightarrow> ('w, HumanRequirement option) io"
  pt_delete :: "string \<Rightarrow> ('w, unit) io"
  pt_requirementsInMemory :: bool
  pt_issuer :: "(CreateInput \<Rightarrow> ('w, HumanRequirement) io) option"
  pt_replay :: "(string \<Rightarrow> IsoTimestamp \<Rightarrow> int \<Rightarrow> ('w, bool) io) option"
  pt_replayInMemory :: bool
  pt_acceptance :: "(ResultAcceptanceInput \<Rightarrow> int \<Rightarrow> ('w, ResultAcceptanceStatus) io) option"
  pt_acceptanceInMemory :: bool
  pt_publicOrigin :: "PublicOriginConfig option"
  pt_ttlSeconds :: "jsnum option"
  pt_requireIdempotencyKey :: "bool option"
  pt_extractBodyInput :: "(headers \<Rightarrow> string \<Rightarrow> string \<Rightarrow> js \<Rightarrow> ('w, RequestBodyDigestInput) io) option"
  pt_providerRequests ::
    "(string \<Rightarrow> HumanBinding \<Rightarrow> HumanMethodRequirement list \<Rightarrow> jsnum \<Rightarrow> ('w, (string \<times> js) list) io) option"
  pt_cors :: "X424CorsPolicy option"
  pt_now :: "'w \<Rightarrow> int"
  pt_ambient :: "('w, Ambient) io"

definition assertProtectOptions :: "('w, 'pk) Protect \<Rightarrow> unit res" where
  "assertProtectOptions options = (case (pt_deploymentProfile options, pt_publicOrigin options) of
     (None, _) \<Rightarrow> Inl (Error ''deploymentProfile is required'')
   | (Some profile, origin) \<Rightarrow>
       if whenSome origin (\<lambda>c. po_publicOrigin c = []) \<or> origin = None
       then Inl (Error ''publicOrigin is required'')
       else bindE (rethrowAs (new_URL (pt_parse options) (po_publicOrigin (the origin)))
                (Error ''publicOrigin must be an absolute URL origin'')) (\<lambda>publicOrigin.
       if profile = DevLocal then Inr ()
       else if u_protocol publicOrigin \<noteq> ''https:''
       then Inl (Error ''publicOrigin must use HTTPS outside dev-local'')
       else if pt_replay options = None
       then Inl (Error ''ResultReplayStore is required for eval/prod deployment profiles'')
       else if pt_acceptance options = None
       then Inl (Error ''ResultAcceptanceStore is required for eval/prod mutation profiles'')
       else if pt_requirementsInMemory options
       then Inl (Error ''InMemoryRequirementStore is not permitted outside dev-local'')
       else if pt_acceptanceInMemory options
       then Inl (Error ''InMemoryResultAcceptanceStore is not permitted outside dev-local'')
       else throwIf (pt_replayInMemory options)
         (Error ''InMemoryResultReplayStore is not permitted outside dev-local'')))"

definition outside_dev_local :: "('w, 'pk) Protect \<Rightarrow> bool" where
  "outside_dev_local options \<longleftrightarrow> pt_deploymentProfile options \<noteq> Some DevLocal"

definition is_mutation :: "string \<Rightarrow> bool" where
  "is_mutation method \<longleftrightarrow> method \<notin> set [''GET'', ''HEAD'', ''OPTIONS'']"

subsection \<open>Challenge\<close>

definition resolveBodyInput :: "('w, 'pk) Protect \<Rightarrow> headers \<Rightarrow> string \<Rightarrow> string \<Rightarrow> js \<Rightarrow> ('w, RequestBodyDigestInput) io" where
  "resolveBodyInput options hs method url body = (case pt_extractBodyInput options of
     Some extract \<Rightarrow> extract hs method url body
   | None \<Rightarrow> if body = JUndefined then io_return BodyAbsent else io_lift (bodyInputFromPlainJsonBody body))"

record CurrentRequest =
  cu_method :: string
  cu_uri :: string
  cu_binding :: HumanBinding
  cu_bodyInput :: RequestBodyDigestInput

definition assertCurrentMatchesStored ::
  "hash \<Rightarrow> HumanRequirement \<Rightarrow> CurrentRequest \<Rightarrow> string \<Rightarrow> string \<Rightarrow> unit res" where
  "assertCurrentMatchesStored H requirement current purpose audience =
     (if rq_purpose requirement \<noteq> purpose then Inl (Error ''Purpose does not match the stored dependency'')
      else if pr_audience (rq_resource requirement) \<noteq> audience
      then Inl (Error ''Audience does not match the stored dependency'')
      else if pr_method (rq_resource requirement) \<noteq> toUpperCase (cu_method current)
      then Inl (Error ''HTTP method does not match the stored dependency'')
      else if pr_uri (rq_resource requirement) \<noteq> cu_uri current
      then Inl (Error ''Request URI does not match the stored dependency'')
      else bindE (requestDigest H (cu_method current) (cu_uri current) JUndefined (Some (cu_bodyInput current))) (\<lambda>currentDigest.
        if pr_requestDigest (rq_resource requirement) \<noteq> currentDigest
        then Inl (Error ''Request body digest does not match the stored dependency'')
        else throwIf (b_kind (rq_binding requirement) \<noteq> b_kind (cu_binding current) \<or>
               b_value (rq_binding requirement) \<noteq> b_value (cu_binding current))
             (Error ''Caller binding does not match the stored dependency'')))"

definition issuance_input :: "('w, 'pk) Protect \<Rightarrow> CurrentRequest \<Rightarrow> (string \<times> js) list option \<Rightarrow> CreateInput" where
  "issuance_input options current providerRequests =
     \<lparr>cr_purpose = pt_purpose options, cr_method = cu_method current, cr_uri = cu_uri current,
      cr_audience = pt_audience options, cr_body = JUndefined, cr_bodyInput = Some (cu_bodyInput current),
      cr_binding = cu_binding current, cr_accepts = pt_accepts options, cr_providerRequests = providerRequests,
      cr_ttlSeconds = Some (case pt_ttlSeconds options of None \<Rightarrow> IntNum 300 | Some n \<Rightarrow> n),
      cr_dependencyId = None, cr_nonce = None, cr_now = None\<rparr>"

definition issueChallenge :: "('w, 'pk) Protect \<Rightarrow> CurrentRequest \<Rightarrow> ('w, HumanRequirement) io" where
  "issueChallenge options current =
     io_bind (case pt_providerRequests options of
         None \<Rightarrow> io_return None
       | Some provide \<Rightarrow> io_bind (provide (pt_purpose options) (cu_binding current) (pt_accepts options)
           (case pt_ttlSeconds options of None \<Rightarrow> IntNum 300 | Some n \<Rightarrow> n)) (\<lambda>ps. io_return (Some ps))) (\<lambda>providerRequests.
     io_bind (case pt_issuer options of
         Some issueRequirement \<Rightarrow> issueRequirement (issuance_input options current providerRequests)
       | None \<Rightarrow> io_bind (pt_ambient options) (\<lambda>ambient.
           io_lift (createHumanRequirement (pt_hash options) ambient (issuance_input options current providerRequests)))) (\<lambda>requirement.
     io_bind (io_lift (assertCurrentMatchesStored (pt_hash options) requirement current
         (pt_purpose options) (pt_audience options))) (\<lambda>_.
     io_bind (if pt_issuer options = None then pt_put options requirement else io_return ()) (\<lambda>_.
     io_return requirement))))"

subsection \<open>Acceptance\<close>

text \<open>
  \<open>verifyHumanProofHeader\<close> over a replay store that may throw: what the store throws is kept beside the world and
  thrown after it.
\<close>

definition recorded_consume ::
  "(string \<Rightarrow> IsoTimestamp \<Rightarrow> int \<Rightarrow> ('w, bool) io) \<Rightarrow> ('w \<times> exn option) replay_consume" where
  "recorded_consume consume = (\<lambda>(w, _) resultId expiresAt now. case consume resultId expiresAt now w of
     (Inl e, w') \<Rightarrow> (False, (w', Some e))
   | (Inr ok, w') \<Rightarrow> (ok, (w', None)))"

definition verify_header ::
  "('w, 'pk) Protect \<Rightarrow> string \<Rightarrow> HumanRequirement \<Rightarrow> bool \<Rightarrow> bool \<Rightarrow> int \<Rightarrow> ('w, HumanResult) io" where
  "verify_header options humanProof requirement useReplay requireReplayStore now = (\<lambda>w.
     case verifyHumanProofHeader (pt_zod options) (pt_verify options) humanProof requirement (pt_verifier options)
            (pt_catalog options) (if useReplay then map_option recorded_consume (pt_replay options) else None)
            requireReplayStore now (w, None) of
       (result, (w', None)) \<Rightarrow> (result, w')
     | (result, (w', Some e)) \<Rightarrow> (Inl e, w'))"

definition accept_operation :: "('w, 'pk) Protect \<Rightarrow> HumanResult \<Rightarrow> string \<Rightarrow> int \<Rightarrow> ('w, unit) io" where
  "accept_operation options result operationId now = (case pt_acceptance options of
     None \<Rightarrow> io_return ()
   | Some accept \<Rightarrow>
       io_bind (accept \<lparr>ra_resultId = rs_resultId result, ra_operationId = operationId,
           ra_requestDigest = rs_requestDigest result, ra_expiresAt = rs_expiresAt result\<rparr> now) (\<lambda>status.
       if status = Replay then io_throw (Error ''x424 result token was replayed for another operation'')
       else io_return ()))"

definition uses_acceptance :: "('w, 'pk) Protect \<Rightarrow> CurrentRequest \<Rightarrow> string option \<Rightarrow> bool" where
  "uses_acceptance options current operationId \<longleftrightarrow>
     is_mutation (toUpperCase (cu_method current)) \<and> pt_acceptance options \<noteq> None \<and> operationId \<noteq> None"

definition accept_stored ::
  "('w, 'pk) Protect \<Rightarrow> string \<Rightarrow> CurrentRequest \<Rightarrow> string option \<Rightarrow> int \<Rightarrow> HumanRequirement \<Rightarrow>
   ('w, HumanRequirement \<times> HumanResult) io" where
  "accept_stored options humanProof current operationId now requirement =
     (let mutation = is_mutation (toUpperCase (cu_method current));
          useAcceptance = uses_acceptance options current operationId
      in io_bind (io_lift (assertCurrentMatchesStored (pt_hash options) requirement current
             (pt_purpose options) (pt_audience options))) (\<lambda>_.
         io_bind (verify_header options humanProof requirement (\<not> useAcceptance)
             (\<not> useAcceptance \<and> (mutation \<or> outside_dev_local options)) now) (\<lambda>result.
         io_bind (if useAcceptance then accept_operation options result (the operationId) now else io_return ()) (\<lambda>_.
         io_bind (if mutation then io_return () else pt_delete options (rq_dependencyId requirement)) (\<lambda>_.
         io_return (requirement, result))))))"

definition acceptHumanProof ::
  "('w, 'pk) Protect \<Rightarrow> string \<Rightarrow> CurrentRequest \<Rightarrow> string option \<Rightarrow> ('w, HumanRequirement \<times> HumanResult) io" where
  "acceptHumanProof options humanProof current operationId = (\<lambda>w.
     (if outside_dev_local options \<and> pt_replay options = None
      then io_throw (Error ''ResultReplayStore is required for this profile'') w
      else if is_mutation (toUpperCase (cu_method current)) \<and> outside_dev_local options \<and>
              (pt_acceptance options = None \<or> \<not> present operationId)
      then io_throw (Error ''ResultAcceptanceStore and Idempotency-Key are required for mutations'') w
      else
        io_bind (io_lift (verifyHumanResultToken (pt_zod options) (pt_verify options) humanProof (pt_verifier options))) (\<lambda>preview.
        io_bind (pt_get options (rs_dependencyId preview) (pt_now options w)) (\<lambda>stored. case stored of
            None \<Rightarrow> io_throw (Error ''Unknown or expired human dependency'')
          | Some requirement \<Rightarrow> accept_stored options humanProof current operationId (pt_now options w) requirement)) w))"

subsection \<open>Express\<close>

text \<open>\<open>request.get(name)\<close> reads one header; several values come as a list, and \<open>Headers\<close> joins them.\<close>

record ExpressRequest =
  xq_method :: string
  xq_originalUrl :: string
  xq_headers :: header_values
  xq_body :: js

definition request_get :: "ExpressRequest \<Rightarrow> string \<Rightarrow> string option" where
  "request_get request name = map_option (joinWith '', '') (map_of (xq_headers request) name)"

definition headersFromExpress :: "ExpressRequest \<Rightarrow> headers" where
  "headersFromExpress request = map (\<lambda>(name, vs). (name, joinWith '', '' vs)) (filter (\<lambda>(_, vs). vs \<noteq> []) (xq_headers request))"

record ExpressResponse =
  xr_status :: nat
  xr_headers :: header_values
  xr_body :: "js option"

datatype ExpressOutcome = Answered ExpressResponse | Next HumanResult

type_synonym ('w, 'a) express = "('w \<times> header_values, 'a) io"

definition express_header :: "string \<Rightarrow> string \<Rightarrow> ('w, unit) express" where
  "express_header name value = (\<lambda>(w, hs). (Inr (), (w, guardedSetHeader name [value] hs)))"

fun express_headers :: "headers \<Rightarrow> ('w, unit) express" where
  "express_headers [] = io_return ()"
| "express_headers ((name, value) # rest) = io_bind (express_header name value) (\<lambda>_. express_headers rest)"

fun express_challenge_headers :: "headers \<Rightarrow> ('w, unit) express" where
  "express_challenge_headers [] = io_return ()"
| "express_challenge_headers ((key, value) # rest) =
     io_bind (\<lambda>(w, hs). express_header key
       (if toLowerCase key = ''vary'' then mergeVary (map_of hs ''vary'') [value] else value) (w, hs))
       (\<lambda>_. express_challenge_headers rest)"

definition express_json :: "nat \<Rightarrow> js \<Rightarrow> ('w, ExpressOutcome) express" where
  "express_json status body = (\<lambda>(w, hs).
     (let hs' = (if map_of hs ''content-type'' = None then guardedSetHeader ''content-type'' [''application/json''] hs else hs)
      in (Inr (Answered \<lparr>xr_status = status, xr_headers = hs', xr_body = Some body\<rparr>), (w, hs'))))"

definition express_end :: "nat \<Rightarrow> ('w, ExpressOutcome) express" where
  "express_end status = (\<lambda>(w, hs). (Inr (Answered \<lparr>xr_status = status, xr_headers = hs, xr_body = None\<rparr>), (w, hs)))"

definition express_problem :: "nat \<Rightarrow> string \<Rightarrow> ('w, ExpressOutcome) express" where
  "express_problem status code =
     io_bind (express_header ''content-type'' ''application/problem+json'') (\<lambda>_.
     express_json status (js_of_public_problem (publicProblem status code None)))"

definition installExpressProtectedHeaders :: "('w, unit) express" where
  "installExpressProtectedHeaders = (\<lambda>(w, hs). (Inr (), (w, forceProtectedHeaders hs)))"

text \<open>Some answer of the CORS part, or None when the request goes on.\<close>

definition express_cors :: "('w, 'pk) Protect \<Rightarrow> ExpressRequest \<Rightarrow> ('w, ExpressOutcome option) express" where
  "express_cors options request = (case pt_cors options of
     None \<Rightarrow> io_return None
   | Some policy \<Rightarrow> (case buildCorsHeaders (request_get request ''origin'') policy of
       None \<Rightarrow> if present (request_get request ''origin'')
         then io_bind (express_problem 403 ''CORS_ORIGIN_DENIED'') (\<lambda>r. io_return (Some r))
         else if xq_method request = ''OPTIONS'' then io_bind (express_end 204) (\<lambda>r. io_return (Some r))
         else io_return None
     | Some cors \<Rightarrow> io_bind (express_headers cors) (\<lambda>_.
         if xq_method request = ''OPTIONS'' then io_bind (express_end 204) (\<lambda>r. io_return (Some r))
         else io_return None)))"

definition needs_idempotency_key :: "('w, 'pk) Protect \<Rightarrow> string \<Rightarrow> string option \<Rightarrow> bool" where
  "needs_idempotency_key options method key \<longleftrightarrow>
     is_mutation method \<and> pt_requireIdempotencyKey options \<noteq> Some False \<and> \<not> present key"

definition express_current :: "('w, 'pk) Protect \<Rightarrow> ExpressRequest \<Rightarrow> ('w, CurrentRequest) express" where
  "express_current options request =
     io_bind (io_lift (resolvePublicAbsoluteUri (pt_parse options) (pt_resolve options) (the (pt_publicOrigin options))
         (xq_originalUrl request) (request_get request ''x-forwarded-host'') (request_get request ''x-forwarded-proto''))) (\<lambda>uri.
     io_bind (onWorld (pt_extractBinding options (headersFromExpress request) (xq_method request) uri)) (\<lambda>binding.
     io_bind (onWorld (resolveBodyInput options (headersFromExpress request) (xq_method request) uri (xq_body request))) (\<lambda>bodyInput.
     io_return \<lparr>cu_method = xq_method request, cu_uri = uri, cu_binding = binding, cu_bodyInput = bodyInput\<rparr>)))"

definition express_challenge :: "('w, 'pk) Protect \<Rightarrow> CurrentRequest \<Rightarrow> ('w, ExpressOutcome) express" where
  "express_challenge options current =
     io_bind (onWorld (issueChallenge options current)) (\<lambda>requirement.
     io_bind (io_lift (humanRequiredResponse requirement)) (\<lambda>challenge.
     io_bind (express_challenge_headers (hc_headers challenge)) (\<lambda>_.
     express_json 424 (js_of_problem (hc_body challenge)))))"

definition express_accept ::
  "('w, 'pk) Protect \<Rightarrow> ExpressRequest \<Rightarrow> CurrentRequest \<Rightarrow> string \<Rightarrow> ('w, ExpressOutcome) express" where
  "express_accept options request current humanProof =
     io_bind (onWorld (acceptHumanProof options humanProof current
         (if present (request_get request ''idempotency-key'') then request_get request ''idempotency-key'' else None))) (\<lambda>(_, result).
     io_return (Next result))"

definition express_protect :: "('w, 'pk) Protect \<Rightarrow> ExpressRequest \<Rightarrow> ('w, ExpressOutcome) express" where
  "express_protect options request =
     io_bind installExpressProtectedHeaders (\<lambda>_.
     io_bind (express_cors options request) (\<lambda>answer. case answer of
         Some r \<Rightarrow> io_return r
       | None \<Rightarrow>
           if needs_idempotency_key options (xq_method request) (request_get request ''idempotency-key'')
           then express_problem 400 ''IDEMPOTENCY_KEY_REQUIRED''
           else io_bind (express_current options request) (\<lambda>current.
             case request_get request HUMAN_PROOF_HEADER of
               None \<Rightarrow> express_challenge options current
             | Some humanProof \<Rightarrow> if humanProof = [] then express_challenge options current
                 else express_accept options request current humanProof)))"

definition humanDependencyMiddleware ::
  "('w, 'pk) Protect \<Rightarrow> ExpressRequest \<Rightarrow> ('w, ExpressOutcome) express" where
  "humanDependencyMiddleware options request =
     io_catch (express_protect options request) (\<lambda>_. express_problem 401 ''HUMAN_PROOF_REJECTED'')"

definition createExpressHumanDependencyMiddleware ::
  "('w, 'pk) Protect \<Rightarrow> (ExpressRequest \<Rightarrow> ('w, ExpressOutcome) express) res" where
  "createExpressHumanDependencyMiddleware options =
     bindE (assertProtectOptions options) (\<lambda>_. Inr (humanDependencyMiddleware options))"

subsection \<open>Fetch\<close>

record FetchRequest =
  fq_method :: string
  fq_url :: string
  fq_headers :: headers

record FetchResponse =
  fr_status :: nat
  fr_headers :: headers
  fr_body :: "js option"

record FetchProtectResult =
  fp_response :: "FetchResponse option"
  fp_result :: "HumanResult option"
  fp_requirement :: "HumanRequirement option"
  fp_responseHeaders :: headers

text \<open>\<open>Response.json\<close> adds a content type where there is none.\<close>

definition response_json :: "js \<Rightarrow> nat \<Rightarrow> headers \<Rightarrow> FetchResponse" where
  "response_json body status hs = \<lparr>fr_status = status,
     fr_headers = (if map_of hs ''content-type'' = None then AList.update ''content-type'' ''application/json'' hs else hs),
     fr_body = Some body\<rparr>"

definition fetch_problem :: "nat \<Rightarrow> string \<Rightarrow> headers \<Rightarrow> headers \<Rightarrow> FetchProtectResult" where
  "fetch_problem status code hs responseHeaders = \<lparr>
     fp_response = Some (response_json (js_of_public_problem (publicProblem status code None)) status hs),
     fp_result = None, fp_requirement = None, fp_responseHeaders = responseHeaders\<rparr>"

definition cors_or_empty :: "headers option \<Rightarrow> headers" where
  "cors_or_empty cors = (case cors of None \<Rightarrow> [] | Some hs \<Rightarrow> hs)"

definition fetch_cors :: "('w, 'pk) Protect \<Rightarrow> FetchRequest \<Rightarrow> headers option \<Rightarrow> FetchProtectResult option" where
  "fetch_cors options request cors =
     (if pt_cors options = None then None
      else if present (map_of (fq_headers request) ''origin'') \<and> cors = None
      then Some (fetch_problem 403 ''CORS_ORIGIN_DENIED''
        (protectedFetchHeaders [(''content-type'', ''application/problem+json'')]) (protectedFetchHeaders []))
      else if fq_method request = ''OPTIONS''
      then (let responseHeaders = protectedFetchHeaders (cors_or_empty cors)
        in Some \<lparr>fp_response = Some \<lparr>fr_status = 204, fr_headers = responseHeaders, fr_body = None\<rparr>,
             fp_result = None, fp_requirement = None, fp_responseHeaders = responseHeaders\<rparr>)
      else None)"

definition fetch_uri :: "('w, 'pk) Protect \<Rightarrow> FetchRequest \<Rightarrow> string res" where
  "fetch_uri options request =
     bindE (new_URL (pt_parse options) (fq_url request)) (\<lambda>parsedUrl.
     bindE (new_URL (pt_parse options) (po_publicOrigin (the (pt_publicOrigin options)))) (\<lambda>configuredOrigin.
     if u_origin parsedUrl = u_origin configuredOrigin then Inr (u_href parsedUrl)
     else resolvePublicAbsoluteUri (pt_parse options) (pt_resolve options) (the (pt_publicOrigin options))
       (u_pathname parsedUrl @ u_search parsedUrl) None None))"

definition fetch_current ::
  "('w, 'pk) Protect \<Rightarrow> FetchRequest \<Rightarrow> js \<Rightarrow> RequestBodyDigestInput option \<Rightarrow> ('w, CurrentRequest) io" where
  "fetch_current options request body bodyInput =
     io_bind (io_lift (fetch_uri options request)) (\<lambda>uri.
     io_bind (pt_extractBinding options (fq_headers request) (fq_method request) uri) (\<lambda>binding.
     io_bind (case bodyInput of
         Some bi \<Rightarrow> io_return bi
       | None \<Rightarrow> resolveBodyInput options (fq_headers request) (fq_method request) uri body) (\<lambda>bi.
     io_return \<lparr>cu_method = fq_method request, cu_uri = uri, cu_binding = binding, cu_bodyInput = bi\<rparr>)))"

definition challenge_headers :: "headers option \<Rightarrow> headers \<Rightarrow> headers" where
  "challenge_headers cors hs = AList.update ''vary''
     (mergeVary (Option.bind cors (\<lambda>c. map_option (\<lambda>v. [v]) (map_of c ''vary''))) [case map_of hs ''vary'' of None \<Rightarrow> [] | Some v \<Rightarrow> v])
     (fold (\<lambda>(k, v). AList.update k v) hs (cors_or_empty cors))"

definition fetch_challenge ::
  "('w, 'pk) Protect \<Rightarrow> headers option \<Rightarrow> CurrentRequest \<Rightarrow> ('w, FetchProtectResult) io" where
  "fetch_challenge options cors current =
     io_bind (issueChallenge options current) (\<lambda>requirement.
     io_bind (io_lift (humanRequiredResponse requirement)) (\<lambda>challenge.
     let responseHeaders = protectedFetchHeaders (challenge_headers cors (hc_headers challenge))
     in io_return \<lparr>fp_response = Some (response_json (js_of_problem (hc_body challenge)) 424 responseHeaders),
          fp_result = None, fp_requirement = Some requirement, fp_responseHeaders = responseHeaders\<rparr>))"

definition fetch_accept ::
  "('w, 'pk) Protect \<Rightarrow> headers option \<Rightarrow> FetchRequest \<Rightarrow> CurrentRequest \<Rightarrow> string \<Rightarrow> ('w, FetchProtectResult) io" where
  "fetch_accept options cors request current humanProof = (let hs = protectedFetchHeaders (cors_or_empty cors) in
     io_catch
       (io_bind (acceptHumanProof options humanProof current
           (let key = map_of (fq_headers request) ''idempotency-key'' in if present key then key else None)) (\<lambda>(requirement, result).
        io_return \<lparr>fp_response = None, fp_result = Some result, fp_requirement = Some requirement,
          fp_responseHeaders = hs\<rparr>))
       (\<lambda>_. io_return (fetch_problem 401 ''HUMAN_PROOF_REJECTED'' hs hs)))"

definition protectFetchResource ::
  "('w, 'pk) Protect \<Rightarrow> FetchRequest \<Rightarrow> js \<Rightarrow> RequestBodyDigestInput option \<Rightarrow> ('w, FetchProtectResult) io" where
  "protectFetchResource options request body bodyInput =
     io_bind (io_lift (assertProtectOptions options)) (\<lambda>_.
     let cors = Option.bind (pt_cors options) (buildCorsHeaders (map_of (fq_headers request) ''origin''));
         hs = protectedFetchHeaders (cors_or_empty cors)
     in case fetch_cors options request cors of
          Some answer \<Rightarrow> io_return answer
        | None \<Rightarrow>
            if needs_idempotency_key options (fq_method request) (map_of (fq_headers request) ''idempotency-key'')
            then io_return (fetch_problem 400 ''IDEMPOTENCY_KEY_REQUIRED'' hs hs)
            else io_bind (fetch_current options request body bodyInput) (\<lambda>current.
              case map_of (fq_headers request) HUMAN_PROOF_HEADER of
                None \<Rightarrow> fetch_challenge options cors current
              | Some humanProof \<Rightarrow> if humanProof = [] then fetch_challenge options cors current
                  else fetch_accept options cors request current humanProof))"

subsection \<open>Framework-neutral handler (src/fetch.ts)\<close>

definition bodyInputForRequest :: "string \<Rightarrow> bytes \<Rightarrow> RequestBodyDigestInput" where
  "bodyInputForRequest method bs =
     (if method = ''GET'' \<or> method = ''HEAD'' then BodyAbsent else if bs = [] then BodyEmpty else BodyOpaque bs)"

definition protectFetch :: "('w, 'pk) Protect \<Rightarrow> FetchRequest \<Rightarrow> bytes \<Rightarrow> ('w, FetchProtectResult) io" where
  "protectFetch options request bs =
     protectFetchResource options request JUndefined (Some (bodyInputForRequest (fq_method request) bs))"

fun merge_protection_header :: "string \<times> string \<Rightarrow> headers \<Rightarrow> headers" where
  "merge_protection_header (name, value) hs =
     (if toLowerCase name = ''vary''
      then AList.update ''vary'' (mergeVary (map_option (\<lambda>v. [v]) (map_of hs ''vary'')) [value]) hs
      else AList.update name value hs)"

definition finalizeFetchX424Response :: "FetchResponse \<Rightarrow> headers \<Rightarrow> FetchResponse" where
  "finalizeFetchX424Response response protectionHeaders =
     response\<lparr>fr_headers := fold merge_protection_header protectionHeaders (fr_headers response)\<rparr>"

definition createFetchX424Handler ::
  "('w, 'pk) Protect \<Rightarrow> (FetchRequest \<Rightarrow> HumanResult \<Rightarrow> ('w, FetchResponse) io) \<Rightarrow> FetchRequest \<Rightarrow> bytes \<Rightarrow>
   ('w, FetchResponse) io" where
  "createFetchX424Handler options handler request bs =
     io_bind (protectFetch options request bs) (\<lambda>protectedRequest. case fp_response protectedRequest of
         Some response \<Rightarrow> io_return response
       | None \<Rightarrow> (case fp_result protectedRequest of
           None \<Rightarrow> io_throw (Error ''x424 protection completed without a human result'')
         | Some result \<Rightarrow> io_bind (handler request result) (\<lambda>response.
             io_return (finalizeFetchX424Response response (fp_responseHeaders protectedRequest)))))"

end
