(* ===== verification/ResourceHeaders.thy ===== *)
theory ResourceHeaders
  imports Resource
begin

section \<open>Protected headers stay protected (src/middleware/resource.ts)\<close>

text \<open>
  Whatever a downstream handler does with the headers of a protected Express response, and whatever headers a
  Fetch handler returns, the response that leaves is private, not stored, and varies on the proof.
\<close>

definition varies_on :: "string \<Rightarrow> string \<Rightarrow> bool" where
  "varies_on vary name \<longleftrightarrow> (\<exists>t \<in> set (map trim (splitOn CHR '','' vary)). t = ''*'' \<or> toLowerCase t = name)"

lemma splitOn_append: "splitOn c (s @ c # t) = splitOn c s @ splitOn c t"
proof (induction s)
  case (Cons x s)
  then show ?case by (cases "splitOn c s") auto
qed simp

lemma split_blank: "map trim (splitOn CHR '','' (CHR '' '' # s)) = map trim (splitOn CHR '','' s)"
  by (cases "splitOn CHR '','' s") auto

lemma joined_token:
  "t \<in> set ts \<Longrightarrow> trim t = t \<Longrightarrow> CHR '','' \<notin> set t \<Longrightarrow>
   t \<in> set (map trim (splitOn CHR '','' (joinWith '', '' ts)))"
proof (induction "'', ''" ts rule: joinWith.induct)
  case (2 x)
  then show ?case by (simp add: splitOn_no_sep)
next
  case (3 x y zs)
  have "map trim (splitOn CHR '','' (joinWith '', '' (x # y # zs))) =
      map trim (splitOn CHR '','' x) @ map trim (splitOn CHR '','' (joinWith '', '' (y # zs)))"
    by (simp add: splitOn_append split_blank del: splitOn.simps)
  with 3 show ?case by (cases "t = x") (auto simp: splitOn_no_sep simp del: splitOn.simps joinWith.simps)
qed simp

lemma toLowerCase_comma: "CHR '','' \<in> set t \<Longrightarrow> CHR '','' \<in> set (toLowerCase t)"
  by (force simp: toLowerCase_def is_upper_char_def)

lemma mergeVary_varies:
  assumes "HUMAN_PROOF_HEADER \<in> set values"
  shows "varies_on (mergeVary existing values) HUMAN_PROOF_HEADER"
proof (cases "''*'' \<in> set (vary_tokens existing values)")
  case True
  then show ?thesis by (simp add: varies_on_def mergeVary_def trim_def is_trim_space_def)
next
  case False
  let ?ts = "vary_tokens existing values"
  have h: "trim HUMAN_PROOF_HEADER = HUMAN_PROOF_HEADER" "toLowerCase HUMAN_PROOF_HEADER = HUMAN_PROOF_HEADER"
    "HUMAN_PROOF_HEADER \<noteq> []" "CHR '','' \<notin> set HUMAN_PROOF_HEADER"
    by code_simp+
  have "HUMAN_PROOF_HEADER \<in> set ?ts" using assms h by (force simp: vary_tokens_def Let_def)
  then have "HUMAN_PROOF_HEADER \<in> toLowerCase ` set (first_by_key toLowerCase {} ?ts)"
    using h(2) unfolding first_by_key_keys by force
  then obtain t where t: "t \<in> set (first_by_key toLowerCase {} ?ts)" "toLowerCase t = HUMAN_PROOF_HEADER" by force
  have "t \<in> set ?ts" using t(1) first_by_key_subset [of toLowerCase "{}" ?ts] by auto
  then have "trim t = t" by (auto simp: vary_tokens_def Let_def)
  moreover have "CHR '','' \<notin> set t" using toLowerCase_comma [of t] h(4) t(2) by auto
  ultimately have "t \<in> set (map trim (splitOn CHR '','' (joinWith '', '' (first_by_key toLowerCase {} ?ts))))"
    by (rule joined_token [OF t(1)])
  then show ?thesis using False t(2) by (auto simp: varies_on_def mergeVary_def Let_def)
qed

subsection \<open>Express\<close>

definition protected_values :: "header_values \<Rightarrow> bool" where
  "protected_values hs \<longleftrightarrow> map_of hs ''cache-control'' = Some [X424_PROTECTED_CACHE_CONTROL] \<and>
     (\<exists>vary. map_of hs ''vary'' = Some [vary] \<and> varies_on vary HUMAN_PROOF_HEADER)"

datatype header_op = SetHeader string "string list" | RemoveHeader string | WriteHead "(string \<times> string list) list"

fun header_step :: "header_op \<Rightarrow> header_values \<Rightarrow> header_values" where
  "header_step (SetHeader name value) hs = guardedSetHeader name value hs"
| "header_step (RemoveHeader name) hs = guardedRemoveHeader name hs"
| "header_step (WriteHead direct) hs = guardedWriteHead direct hs"

lemma protected_forced: "protected_values (forceProtectedHeaders hs)"
  by (auto simp: protected_values_def forceProtectedHeaders_def Let_def update_conv' intro!: mergeVary_varies)

lemma protected_set: "protected_values hs \<Longrightarrow> protected_values (guardedSetHeader name value hs)"
  by (auto simp: protected_values_def guardedSetHeader_def Let_def update_conv' intro!: mergeVary_varies)

lemma protected_delete:
  "protected_values hs \<Longrightarrow> k \<noteq> ''cache-control'' \<Longrightarrow> k \<noteq> ''vary'' \<Longrightarrow> protected_values (AList.delete k hs)"
  by (simp add: protected_values_def delete_conv')

lemma protected_step: "protected_values hs \<Longrightarrow> protected_values (header_step op hs)"
  using protected_delete [of hs]
  by (cases op) (simp_all add: guardedWriteHead_def guardedRemoveHeader_def Let_def protected_forced protected_set)

lemma protected_steps: "protected_values hs \<Longrightarrow> protected_values (fold header_step ops hs)"
  by (induction ops arbitrary: hs) (simp_all add: protected_step)

text \<open>
  C11: The headers of a protected Express response stay protected: after the middleware has installed its guard, no
  sequence of header calls of downstream handlers (setting, removing, writing the head) makes the response
  cacheable or drops its variation on the proof.
\<close>

theorem protected_headers_stay:
  "map_of (fold header_step ops (forceProtectedHeaders hs)) ''cache-control'' = Some [''private, no-store''] \<and>
   (\<exists>vary. map_of (fold header_step ops (forceProtectedHeaders hs)) ''vary'' = Some [vary] \<and>
      (\<exists>t \<in> set (map trim (splitOn CHR '','' vary)). t = ''*'' \<or> toLowerCase t = ''human-proof''))"
  using protected_steps [OF protected_forced, of ops hs]
  by (simp add: protected_values_def varies_on_def X424_PROTECTED_CACHE_CONTROL_def HUMAN_PROOF_HEADER_def)

text \<open>What the middleware itself answers is protected as well.\<close>

definition protected_state :: "'w \<times> header_values \<Rightarrow> bool" where
  "protected_state ws = protected_values (snd ws)"

lemma protected_onWorld [keeps_intros]: "keeps protected_state (onWorld m)"
  by (auto simp: keeps_def onWorld_def protected_state_def split: prod.splits)

lemma protected_header [keeps_intros]: "keeps protected_state (express_header name value)"
  by (auto simp: keeps_def express_header_def protected_state_def protected_set)

lemma protected_headers [keeps_intros]: "keeps protected_state (express_headers hs)"
  by (induction hs) (auto intro!: keeps_intros)

lemma protected_challenge_headers [keeps_intros]: "keeps protected_state (express_challenge_headers hs)"
proof (induction hs)
  case (Cons x hs)
  have "keeps protected_state (\<lambda>(w, hs). express_header n (v hs) (w, hs))" for n v
    by (auto simp: keeps_def express_header_def protected_state_def protected_set)
  with Cons show ?case by (cases x) (auto intro!: keeps_intros)
qed (auto intro!: keeps_intros)

lemma protected_json [keeps_intros]: "keeps protected_state (express_json status body)"
  by (auto simp: keeps_def express_json_def protected_state_def Let_def protected_set)

lemma protected_end [keeps_intros]: "keeps protected_state (express_end status)"
  by (auto simp: keeps_def express_end_def protected_state_def)

lemma protected_problem [keeps_intros]: "keeps protected_state (express_problem status code)"
  unfolding express_problem_def by (intro keeps_intros)

lemma express_protected:
  "protected_state (snd (humanDependencyMiddleware options request ws))"
proof -
  have cors: "keeps protected_state (express_cors options request)"
    unfolding express_cors_def by (auto split: option.split intro!: keeps_intros)
  have current: "keeps protected_state (express_current options request)"
    unfolding express_current_def by (intro keeps_intros)
  have challenge: "keeps protected_state (express_challenge options c)" for c
    unfolding express_challenge_def by (intro keeps_intros)
  have accept: "keeps protected_state (express_accept options request c p)" for c p
    unfolding express_accept_def by (auto intro!: keeps_intros)
  let ?go = "\<lambda>answer. case answer of Some r \<Rightarrow> io_return r | None \<Rightarrow>
    if needs_idempotency_key options (xq_method request) (request_get request ''idempotency-key'')
    then express_problem 400 ''IDEMPOTENCY_KEY_REQUIRED''
    else io_bind (express_current options request) (\<lambda>current.
      case request_get request HUMAN_PROOF_HEADER of None \<Rightarrow> express_challenge options current
      | Some humanProof \<Rightarrow> if humanProof = [] then express_challenge options current
          else express_accept options request current humanProof)"
  have "keeps protected_state (?go answer)" for answer
    by (auto split: option.split intro!: keeps_intros current challenge accept)
  then have rest: "keeps protected_state (io_catch (io_bind (express_cors options request) ?go)
      (\<lambda>_. express_problem 401 ''HUMAN_PROOF_REJECTED''))"
    by (intro keeps_intros cors)
  have "humanDependencyMiddleware options request ws =
      io_catch (io_bind (express_cors options request) ?go) (\<lambda>_. express_problem 401 ''HUMAN_PROOF_REJECTED'')
        (fst ws, forceProtectedHeaders (snd ws))"
    by (cases ws) (simp add: humanDependencyMiddleware_def express_protect_def io_catch_def io_bind_def
        installExpressProtectedHeaders_def)
  moreover have "protected_state (fst ws, forceProtectedHeaders (snd ws))"
    by (simp add: protected_state_def protected_forced)
  ultimately show ?thesis using rest by (simp only: keeps_def)
qed

end
