(* ===== verification/ResourceMemory.thy ===== *)
theory ResourceMemory
  imports ResourceHeaders RequirementStore NonceStore
begin

section \<open>The middleware over the in-memory stores (src/middleware/resource.ts)\<close>

text \<open>
  Runs of requests through one Express middleware whose requirement, replay and acceptance stores are the in-memory
  ones; extractors, issuer and provider requests keep no state (they are given over the trivial world).
\<close>

record ResourceWorld =
  rw_now :: int
  rw_uuid :: string
  rw_random :: bytes
  rw_requirements :: RequirementStoreState
  rw_results :: used_results
  rw_acceptances :: accepted_results

definition stateless :: "(unit, 'a) io \<Rightarrow> ('w, 'a) io" where
  "stateless m = (\<lambda>w. (fst (m ()), w))"

definition memory_protect :: "(unit, 'pk) Protect \<Rightarrow> (ResourceWorld, 'pk) Protect" where
  "memory_protect o' = \<lparr>pt_hash = pt_hash o', pt_zod = pt_zod o', pt_parse = pt_parse o', pt_resolve = pt_resolve o',
     pt_verify = pt_verify o', pt_deploymentProfile = pt_deploymentProfile o', pt_purpose = pt_purpose o',
     pt_audience = pt_audience o', pt_accepts = pt_accepts o', pt_catalog = pt_catalog o', pt_verifier = pt_verifier o',
     pt_extractBinding = (\<lambda>h m u. stateless (pt_extractBinding o' h m u)),
     pt_put = (\<lambda>r w. case store_put (rw_requirements w) r (rw_now w) of (x, s) \<Rightarrow> (x, w\<lparr>rw_requirements := s\<rparr>)),
     pt_get = (\<lambda>d now w. case store_get (rw_requirements w) d now of (x, s) \<Rightarrow> (Inr x, w\<lparr>rw_requirements := s\<rparr>)),
     pt_delete = (\<lambda>d w. (Inr (), w\<lparr>rw_requirements := store_delete (rw_requirements w) d\<rparr>)),
     pt_requirementsInMemory = True,
     pt_issuer = map_option (\<lambda>f i. stateless (f i)) (pt_issuer o'),
     pt_replay = Some (\<lambda>r e now w. case result_consume (rw_results w) r e now of (ok, s) \<Rightarrow> (Inr ok, w\<lparr>rw_results := s\<rparr>)),
     pt_replayInMemory = True,
     pt_acceptance = Some (\<lambda>i now w. case result_accept (rw_acceptances w) i now of (x, s) \<Rightarrow> (Inr x, w\<lparr>rw_acceptances := s\<rparr>)),
     pt_acceptanceInMemory = True, pt_publicOrigin = pt_publicOrigin o', pt_ttlSeconds = pt_ttlSeconds o',
     pt_requireIdempotencyKey = pt_requireIdempotencyKey o',
     pt_extractBodyInput = map_option (\<lambda>f h m u b. stateless (f h m u b)) (pt_extractBodyInput o'),
     pt_providerRequests = map_option (\<lambda>f p b a t. stateless (f p b a t)) (pt_providerRequests o'),
     pt_cors = pt_cors o', pt_now = rw_now,
     pt_ambient = (\<lambda>w. (Inr \<lparr>am_now = rw_now w, am_uuid = rw_uuid w, am_random = rw_random w\<rparr>, w))\<rparr>"

record ResourceCall =
  rc_time :: int
  rc_uuid :: string
  rc_random :: bytes
  rc_request :: ExpressRequest

definition request_arrives :: "ResourceCall \<Rightarrow> ResourceWorld \<Rightarrow> ResourceWorld" where
  "request_arrives call w = w\<lparr>rw_now := rc_time call, rw_uuid := rc_uuid call, rw_random := rc_random call\<rparr>"

definition resource_step :: "(unit, 'pk) Protect \<Rightarrow> ResourceWorld \<Rightarrow> ResourceCall \<Rightarrow> ExpressOutcome res \<times> ResourceWorld" where
  "resource_step o' w call =
     (case humanDependencyMiddleware (memory_protect o') (rc_request call) (request_arrives call w, []) of
        (r, (w', _)) \<Rightarrow> (r, w'))"

text \<open>The result a request's token verifies to.\<close>

definition call_result :: "(unit, 'pk) Protect \<Rightarrow> ResourceCall \<Rightarrow> HumanResult option" where
  "call_result o' call = (case request_get (rc_request call) HUMAN_PROOF_HEADER of
     None \<Rightarrow> None
   | Some p \<Rightarrow> (case verifyHumanResultToken (pt_zod o') (pt_verify o') p (pt_verifier o') of
       Inl e \<Rightarrow> None | Inr result \<Rightarrow> Some result))"

text \<open>The idempotent operation a request names: a mutation with a key.\<close>

definition call_operation :: "ResourceCall \<Rightarrow> string option" where
  "call_operation call = (let key = request_get (rc_request call) ''idempotency-key''
     in if is_mutation (toUpperCase (xq_method (rc_request call))) \<and> present key then key else None)"

lemma memory_parts [simp]:
  "pt_now (memory_protect o') = rw_now" "pt_zod (memory_protect o') = pt_zod o'" "pt_verify (memory_protect o') = pt_verify o'"
  "pt_verifier (memory_protect o') = pt_verifier o'" "pt_catalog (memory_protect o') = pt_catalog o'"
  "pt_replay (memory_protect o') = Some (\<lambda>r e now w. case result_consume (rw_results w) r e now of (ok, s) \<Rightarrow> (Inr ok, w\<lparr>rw_results := s\<rparr>))"
  "pt_acceptance (memory_protect o') = Some (\<lambda>i now w. case result_accept (rw_acceptances w) i now of (x, s) \<Rightarrow> (Inr x, w\<lparr>rw_acceptances := s\<rparr>))"
  by (simp_all add: memory_protect_def)

end
