(* ===== verification/ResourceSamples.thy ===== *)
theory ResourceSamples
  imports ResourceMemory EndToEnd
begin

section \<open>A sample resource server\<close>

text \<open>
  A local deployment that trusts the sample verifier, a world that holds the sample requirement, and requests that
  carry the token the sample service issued for it, for the witnesses.
\<close>

definition sample_protect :: "(unit, bytes) Protect" where
  "sample_protect = \<lparr>pt_hash = sample_hash, pt_zod = sample_zod, pt_parse = sample_parse,
     pt_resolve = (\<lambda>p u. sample_parse (u_origin u @ p)), pt_verify = toy_verify, pt_deploymentProfile = Some DevLocal,
     pt_purpose = ''vote'', pt_audience = ''https://a'', pt_accepts = [sample_method], pt_catalog = sample_catalog,
     pt_verifier = SingleKey ''k1'' [7], pt_extractBinding = (\<lambda>_ _ _. io_return sample_binding),
     pt_put = (\<lambda>_. io_return ()), pt_get = (\<lambda>_ _. io_return None), pt_delete = (\<lambda>_. io_return ()),
     pt_requirementsInMemory = True, pt_issuer = None, pt_replay = None, pt_replayInMemory = True, pt_acceptance = None,
     pt_acceptanceInMemory = True, pt_publicOrigin = Some \<lparr>po_publicOrigin = ''https://a'', po_allowMatchingForwardedHost = False\<rparr>,
     pt_ttlSeconds = None, pt_requireIdempotencyKey = Some False, pt_extractBodyInput = None, pt_providerRequests = None,
     pt_cors = None, pt_now = (\<lambda>_. 0), pt_ambient = io_throw (Error [])\<rparr>"

definition sample_request :: "string option \<Rightarrow> ExpressRequest" where
  "sample_request key = \<lparr>xq_method = ''POST'', xq_originalUrl = ''/'',
     xq_headers = (''human-proof'', [snd sample_outcome]) # (case key of None \<Rightarrow> [] | Some k \<Rightarrow> [(''idempotency-key'', [k])]),
     xq_body = JUndefined\<rparr>"

definition sample_resource_call :: "string option \<Rightarrow> int \<Rightarrow> ResourceCall" where
  "sample_resource_call key now = \<lparr>rc_time = now, rc_uuid = ''u'', rc_random = [], rc_request = sample_request key\<rparr>"

definition sample_resource_world :: ResourceWorld where
  "sample_resource_world = \<lparr>rw_now = 0, rw_uuid = [], rw_random = [],
     rw_requirements = \<lparr>st_entries = [(''dep'', \<lparr>re_requirement = sample_requirement, re_tenantId = None\<rparr>)],
       st_maximumEntries = 10\<rparr>, rw_results = [], rw_acceptances = []\<rparr>"

abbreviation sample_issued_result :: HumanResult where
  "sample_issued_result \<equiv> sample_result_issued sample_pid"

lemma sample_outcome_token: "fst sample_outcome = sample_issued_result"
  by (simp add: sample_outcome_def sample_outcome_of_def)

lemma sample_issued_verifies:
  "verifyHumanResultToken sample_zod toy_verify (snd sample_outcome) (SingleKey ''k1'' [7]) = Inr sample_issued_result"
  using sample_issued_valid sample_issued_token_length
  by (intro external_signed_verifies [OF sample_issued_token, where pk = "[7]"]) (auto simp: verification_key_def)

lemma sample_issued_satisfies:
  assumes "1767225602000 \<le> t" "t < 1767225900000"
  shows "ev_satisfied (evaluateHumanResult sample_requirement sample_issued_result sample_catalog t)"
proof -
  have o: "so_catalog (sv_options sample_service) = sample_catalog" "so_maximumResultTtlSeconds (sv_options sample_service) = None"
    by (simp_all add: sample_service_def sample_service_of_def sample_options_def)
  have r: "date_parse (rq_expiresAt sample_requirement) = Some 1767225900000" "rq_accepts sample_requirement = [sample_method]"
    by (simp_all add: sample_requirement_def sample_dates)
  have "ev_satisfied (evaluateHumanResult sample_requirement (fst sample_outcome) (so_catalog (sv_options sample_service)) 1767225602000)"
    using satisfied_result_accepted [OF sample_satisfy_pair _ _ r(1)]
    by (simp add: positive_ttl_def o four_digit_time_def r sample_method_def)
  then have e: "ev_satisfied (evaluateHumanResult sample_requirement sample_issued_result sample_catalog 1767225602000)"
    by (simp only: sample_outcome_token o)
  have t: "date_parse (rs_expiresAt sample_issued_result) = Some 1767225900000"
    by (simp add: sample_result_issued_def build_result_def sample_dates)
  have "rs_verifiedAt sample_issued_result = ''2026-01-01T00:00:01.000Z''"
    by (simp add: sample_result_issued_def build_result_def sample_verified_def)
  then have "\<forall>a \<in> set (rq_accepts sample_requirement). \<forall>age v. m_maximumProofAgeSeconds a = Some age \<longrightarrow>
      date_parse (rs_verifiedAt sample_issued_result) = Some v \<longrightarrow> t \<le> v + age * 1000"
    using assms by (simp add: r sample_method_def sample_dates)
  from evaluate_later [OF e assms(1) t assms(2) this] show ?thesis .
qed

subsection \<open>The requests pass\<close>

lemma sample_protect_parts [simp]:
  "pt_hash sample_protect = sample_hash" "pt_zod sample_protect = sample_zod" "pt_parse sample_protect = sample_parse"
  "pt_verify sample_protect = toy_verify" "pt_deploymentProfile sample_protect = Some DevLocal"
  "pt_purpose sample_protect = ''vote''" "pt_audience sample_protect = ''https://a''" "pt_catalog sample_protect = sample_catalog"
  "pt_verifier sample_protect = SingleKey ''k1'' [7]" "pt_cors sample_protect = None"
  "pt_requireIdempotencyKey sample_protect = Some False" "pt_extractBodyInput sample_protect = None"
  "pt_extractBinding sample_protect h m u = io_return sample_binding"
  "pt_publicOrigin sample_protect = Some \<lparr>po_publicOrigin = ''https://a'', po_allowMatchingForwardedHost = False\<rparr>"
  "pt_resolve sample_protect p parsed = sample_parse (u_origin parsed @ p)"
  by (simp_all add: sample_protect_def)

definition sample_current_request :: CurrentRequest where
  "sample_current_request = \<lparr>cu_method = ''POST'', cu_uri = ''https://a/'', cu_binding = sample_binding, cu_bodyInput = BodyAbsent\<rparr>"

lemma sample_request_uri:
  "resolvePublicAbsoluteUri sample_parse (\<lambda>p u. sample_parse (u_origin u @ p))
     \<lparr>po_publicOrigin = ''https://a'', po_allowMatchingForwardedHost = False\<rparr> ''/'' h p = Inr ''https://a/''"
  by (simp add: resolvePublicAbsoluteUri_def new_URL_def sample_parse_def startsWith_def originRelativePath_def)

lemma sample_request_current:
  "express_current (memory_protect sample_protect) (sample_request key) (w, hs) = (Inr sample_current_request, (w, hs))"
proof -
  have r: "pt_resolve sample_protect = (\<lambda>p parsed. sample_parse (u_origin parsed @ p))" by (simp add: sample_protect_def)
  show ?thesis
    by (simp add: express_current_def memory_protect_def io_bind_def io_eval onWorld_def resolveBodyInput_def stateless_def r
        sample_request_uri io_return_def sample_request_def sample_current_request_def)
qed

lemma sample_matches:
  "assertCurrentMatchesStored sample_hash sample_requirement sample_current_request ''vote'' ''https://a'' = Inr ()"
proof -
  have "requestDigest sample_hash m u JUndefined (Some BodyAbsent) = Inr (sha256_bytes sample_hash [])" for m u
    by (simp add: requestDigest_alt request_body_digest_def bodyDigestFromInput_def sha256_text_def
        sha256_bytes_def sample_hash_def)
  moreover have "toUpperCase ''POST'' = ''POST''" by code_simp
  ultimately show ?thesis
    by (simp add: assertCurrentMatchesStored_def sample_requirement_def sample_current_request_def)
qed

lemma sample_stored:
  assumes "t < 1767225900000"
  shows "store_get (rw_requirements sample_resource_world) ''dep'' t = (Some sample_requirement, rw_requirements sample_resource_world)"
proof -
  have "\<not> requirement_expired sample_requirement t"
    using assms by (simp add: requirement_expired_def sample_requirement_def sample_dates)
  then show ?thesis
    by (simp add: store_get_def store_getEntry_def sample_resource_world_def)
qed

lemma sample_issued_id: "rs_dependencyId sample_issued_result = ''dep''"
  by (simp add: sample_result_issued_def build_result_def sample_requirement_def)

lemma is_mutation_POST: "is_mutation (toUpperCase ''POST'')" "is_mutation ''POST''"
  by code_simp+

lemma sample_express:
  assumes "acceptHumanProof (memory_protect sample_protect) (snd sample_outcome) sample_current_request
      (if present key then key else None) w = (Inr (r, result), w')"
  shows "\<exists>hs'. humanDependencyMiddleware (memory_protect sample_protect) (sample_request key) (w, hs) = (Inr (Next result), (w', hs'))"
proof -
  have g: "request_get (sample_request key) ''human-proof'' = Some (snd sample_outcome)"
    "request_get (sample_request key) ''idempotency-key'' = key" "xq_method (sample_request key) = ''POST''"
    by (auto simp: request_get_def sample_request_def split: option.split)
  have c: "pt_cors (memory_protect sample_protect) = None" "pt_requireIdempotencyKey (memory_protect sample_protect) = Some False"
    by (simp_all add: memory_protect_def)
  have n: "snd sample_outcome \<noteq> []" using sample_issued_verifies by (auto simp: verifyHumanResultToken_def)
  show ?thesis
    using assms by (cases "present key") (simp_all add: humanDependencyMiddleware_def express_protect_def io_catch_def io_bind_def installExpressProtectedHeaders_def
        express_cors_def c io_eval needs_idempotency_key_def g HUMAN_PROOF_HEADER_def sample_request_current n express_accept_def
        onWorld_def)
qed

text \<open>The world with the outcome of the store a request asks.\<close>

definition sample_after :: "string option \<Rightarrow> int \<Rightarrow> ResourceWorld \<Rightarrow> ResourceWorld" where
  "sample_after key now w = (case key of
     None \<Rightarrow> w\<lparr>rw_results := snd (result_consume (rw_results w) (rs_resultId sample_issued_result)
       (rs_expiresAt sample_issued_result) now)\<rparr>
   | Some operation \<Rightarrow> w\<lparr>rw_acceptances := snd (result_accept (rw_acceptances w)
       \<lparr>ra_resultId = rs_resultId sample_issued_result, ra_operationId = operation,
        ra_requestDigest = rs_requestDigest sample_issued_result, ra_expiresAt = rs_expiresAt sample_issued_result\<rparr> now)\<rparr>)"

definition sample_free :: "string option \<Rightarrow> int \<Rightarrow> ResourceWorld \<Rightarrow> bool" where
  "sample_free key now w = (case key of
     None \<Rightarrow> fst (result_consume (rw_results w) (rs_resultId sample_issued_result) (rs_expiresAt sample_issued_result) now)
   | Some operation \<Rightarrow> operation \<noteq> [] \<and> fst (result_accept (rw_acceptances w)
       \<lparr>ra_resultId = rs_resultId sample_issued_result, ra_operationId = operation,
        ra_requestDigest = rs_requestDigest sample_issued_result, ra_expiresAt = rs_expiresAt sample_issued_result\<rparr> now) \<noteq> Replay)"

lemma sample_accepts:
  assumes w: "rw_requirements w = rw_requirements sample_resource_world" "rw_now w = t"
    and t: "1767225602000 \<le> t" "t < 1767225900000" and free: "sample_free key t w"
  shows "acceptHumanProof (memory_protect sample_protect) (snd sample_outcome) sample_current_request
      (if present key then key else None) w = (Inr (sample_requirement, sample_issued_result), sample_after key t w)"
proof -
  let ?o = "memory_protect sample_protect"
  have o: "\<not> outside_dev_local ?o" "pt_hash ?o = sample_hash" "pt_purpose ?o = ''vote''" "pt_audience ?o = ''https://a''"
    "pt_get ?o d now w = (Inr (Some sample_requirement), w)" if "d = ''dep''" "now = t" for d now
    using sample_stored [OF t(2)] that w
    by (simp_all add: memory_protect_def outside_dev_local_def)
  have m: "cu_method sample_current_request = ''POST''" by (simp add: sample_current_request_def)
  show ?thesis
    using sample_issued_satisfies [OF t] free
    by (cases key)
      (simp_all add: acceptHumanProof_def accept_stored_def o w m is_mutation_POST io_bind_def io_eval Let_def
        sample_issued_verifies sample_issued_id sample_matches uses_acceptance_def verify_header_def verifyHumanProofHeader_def
        recorded_consume_def accept_operation_def sample_after_def sample_free_def io_return_def split_def present_def)
qed

lemma sample_passes:
  assumes "rw_requirements w = rw_requirements sample_resource_world" "1767225602000 \<le> t" "t < 1767225900000"
    "sample_free key t w"
  shows "resource_step sample_protect w (sample_resource_call key t) =
    (Inr (Next sample_issued_result), sample_after key t (request_arrives (sample_resource_call key t) w))"
proof -
  let ?w = "request_arrives (sample_resource_call key t) w"
  have "rw_requirements ?w = rw_requirements sample_resource_world" "rw_now ?w = t" "sample_free key t ?w"
    using assms by (cases key; simp add: request_arrives_def sample_resource_call_def sample_free_def)+
  from sample_express [OF sample_accepts [OF this(1,2) assms(2,3) this(3)], of "[]"]
  show ?thesis by (auto simp: resource_step_def sample_resource_call_def)
qed

lemma sample_first:
  "sample_free None 1767225603000 sample_resource_world" "sample_free (Some ''o'') 1767225603000 sample_resource_world"
  "sample_free (Some ''o'') 1767225604000 (sample_after (Some ''o'') 1767225603000 sample_resource_world)"
  by code_simp+

end
