(* ===== verification/ResourceGuarantees.thy ===== *)
theory ResourceGuarantees
  imports ResourceSamples
begin

section \<open>What the resource middleware guarantees (src/middleware/resource.ts)\<close>

text \<open>
  What lets a request through: the Express middleware and the Fetch function agree, both need a proof for this very
  request, and over the in-memory stores a result passes for one request or for one idempotent operation.
\<close>

subsection \<open>What an accepted proof went through\<close>

lemma matches_stored_iff:
  "assertCurrentMatchesStored H r c purpose audience = Inr () \<longleftrightarrow>
   rq_purpose r = purpose \<and> pr_audience (rq_resource r) = audience \<and>
   pr_method (rq_resource r) = toUpperCase (cu_method c) \<and> pr_uri (rq_resource r) = cu_uri c \<and>
   requestDigest H (cu_method c) (cu_uri c) JUndefined (Some (cu_bodyInput c)) = Inr (pr_requestDigest (rq_resource r)) \<and>
   rq_binding r = cu_binding c"
  by (auto simp: assertCurrentMatchesStored_def binding_eq_iff split: if_splits)

definition operation_of :: "('w, 'pk) Protect \<Rightarrow> string \<Rightarrow> string option \<Rightarrow> string option" where
  "operation_of options method key =
     (if is_mutation (toUpperCase method) \<and> pt_acceptance options \<noteq> None then key else None)"

lemma verify_header_Inr:
  assumes "verify_header options p r useReplay required now w = (Inr result, w')"
  shows "verifyHumanResultToken (pt_zod options) (pt_verify options) p (pt_verifier options) = Inr result \<and>
    ev_satisfied (evaluateHumanResult r result (pt_catalog options) now) \<and>
    (case (if useReplay then pt_replay options else None) of
       None \<Rightarrow> \<not> required \<and> w' = w
     | Some consume \<Rightarrow> consume (rs_resultId result) (rs_expiresAt result) now w = (Inr True, w'))"
  using assms unfolding verify_header_def verifyHumanProofHeader_def recorded_consume_def
  by (auto simp: Let_def split: prod.splits sum.splits option.splits if_splits)

lemma accept_stored_Inr:
  assumes "accept_stored options p c key now requirement w1 = (Inr (r, result), w')"
  obtains w2 w3 where "requirement = r"
    "assertCurrentMatchesStored (pt_hash options) r c (pt_purpose options) (pt_audience options) = Inr ()"
    "verifyHumanResultToken (pt_zod options) (pt_verify options) p (pt_verifier options) = Inr result"
    "ev_satisfied (evaluateHumanResult r result (pt_catalog options) now)"
    "case operation_of options (cu_method c) key of
       None \<Rightarrow> w3 = w2 \<and> (case pt_replay options of
           None \<Rightarrow> w2 = w1 \<and> \<not> is_mutation (toUpperCase (cu_method c)) \<and> \<not> outside_dev_local options
         | Some consume \<Rightarrow> consume (rs_resultId result) (rs_expiresAt result) now w1 = (Inr True, w2))
     | Some operation \<Rightarrow> w2 = w1 \<and> accept_operation options result operation now w2 = (Inr (), w3)"
    "(if is_mutation (toUpperCase (cu_method c)) then io_return () else pt_delete options (rq_dependencyId r)) w3 = (Inr (), w')"
proof -
  let ?m = "is_mutation (toUpperCase (cu_method c))" and ?a = "uses_acceptance options c key"
  from assms [unfolded accept_stored_def Let_def io_bind_eq_Inr] obtain w2 w3 where
    m: "assertCurrentMatchesStored (pt_hash options) r c (pt_purpose options) (pt_audience options) = Inr ()"
    and v: "verify_header options p r (\<not> ?a) (\<not> ?a \<and> (?m \<or> outside_dev_local options)) now w1 = (Inr result, w2)"
    and a: "(if ?a then accept_operation options result (the key) now else io_return ()) w2 = (Inr (), w3)"
    and d: "(if ?m then io_return () else pt_delete options (rq_dependencyId r)) w3 = (Inr (), w')"
    and r: "requirement = r"
    by (auto simp: io_eval split del: if_split)
  have op: "operation_of options (cu_method c) key = (if ?a then key else None)"
    by (auto simp: operation_of_def uses_acceptance_def)
  have "case operation_of options (cu_method c) key of
       None \<Rightarrow> w3 = w2 \<and> (case pt_replay options of
           None \<Rightarrow> w2 = w1 \<and> \<not> ?m \<and> \<not> outside_dev_local options
         | Some consume \<Rightarrow> consume (rs_resultId result) (rs_expiresAt result) now w1 = (Inr True, w2))
     | Some operation \<Rightarrow> w2 = w1 \<and> accept_operation options result operation now w2 = (Inr (), w3)"
  proof (cases ?a)
    case True
    then show ?thesis using verify_header_Inr [OF v] a unfolding op by (auto simp: uses_acceptance_def)
  next
    case False
    then show ?thesis using verify_header_Inr [OF v] a by (auto simp: op io_eval split: option.splits)
  qed
  then show thesis using that [OF r m] verify_header_Inr [OF v] d by simp
qed

lemma acceptHumanProof_Inr:
  assumes "acceptHumanProof options p c key w = (Inr (r, result), w')"
  obtains w1 where
    "pt_get options (rs_dependencyId result) (pt_now options w) w = (Inr (Some r), w1)"
    "accept_stored options p c key (pt_now options w) r w1 = (Inr (r, result), w')"
proof -
  let ?m = "is_mutation (toUpperCase (cu_method c))"
  let ?A = "outside_dev_local options \<and> pt_replay options = None"
  let ?B = "?m \<and> outside_dev_local options \<and> (pt_acceptance options = None \<or> \<not> present key)"
  from assms have A: "\<not> ?A" unfolding acceptHumanProof_def by (cases ?A) (simp_all add: io_eval)
  from assms have B: "\<not> ?B"
    unfolding acceptHumanProof_def if_not_P [OF A] by (cases ?B) (simp_all add: io_eval)
  from assms obtain preview w1 stored where
    v: "verifyHumanResultToken (pt_zod options) (pt_verify options) p (pt_verifier options) = Inr preview"
    and g: "pt_get options (rs_dependencyId preview) (pt_now options w) w = (Inr stored, w1)"
    and s: "(case stored of None \<Rightarrow> io_throw (Error ''Unknown or expired human dependency'')
       | Some requirement \<Rightarrow> accept_stored options p c key (pt_now options w) requirement) w1 = (Inr (r, result), w')"
    unfolding acceptHumanProof_def if_not_P [OF A] if_not_P [OF B] io_bind_eq_Inr by (auto simp only: io_eval prod.inject)
  from s obtain requirement where q: "stored = Some requirement"
    by (cases stored) (simp_all add: io_eval)
  with s have acc: "accept_stored options p c key (pt_now options w) requirement w1 = (Inr (r, result), w')" by simp
  from acc have "requirement = r"
    "verifyHumanResultToken (pt_zod options) (pt_verify options) p (pt_verifier options) = Inr result"
    by (auto elim: accept_stored_Inr)
  then show thesis using that v g q acc by simp
qed

subsection \<open>Only a proof of this request passes\<close>

fun is_answer :: "ExpressOutcome \<Rightarrow> bool" where
  "is_answer (Answered r) = True"
| "is_answer (Next result) = False"

lemma problem_answers: "answers (express_problem status code) is_answer" "answers (express_end status) is_answer"
    "answers (express_json status body) is_answer"
  by (auto simp: answers_def express_problem_def express_header_def express_json_def express_end_def io_bind_def Let_def)

lemma challenge_answers: "answers (express_challenge options c) is_answer"
  unfolding express_challenge_def by (intro answers_bind problem_answers)

definition stops_answered :: "ExpressOutcome option \<Rightarrow> bool" where
  "stops_answered a = (case a of None \<Rightarrow> True | Some r \<Rightarrow> is_answer r)"

lemma stop_with: "answers m is_answer \<Longrightarrow> answers (io_bind m (\<lambda>r. io_return (Some r))) stops_answered"
  by (rule answers_bind_with [where Q = is_answer]) (simp_all add: answers_return stops_answered_def)

lemma cors_answers: "answers (express_cors options request) stops_answered"
proof -
  have n: "answers (io_return None) stops_answered" by (simp add: answers_return stops_answered_def)
  show ?thesis unfolding express_cors_def
    by (auto split: option.split intro!: n stop_with problem_answers answers_bind [where m = "express_headers _"])
qed

lemma cors_world: "express_cors options request (w, hs) = (a, ws) \<Longrightarrow> fst ws = w"
proof -
  have h: "keeps (below (\<lambda>v. v = w)) (express_header n v)" for n v
    by (simp add: keeps_def below_def express_header_def split_def)
  then have hs: "keeps (below (\<lambda>v. v = w)) (express_headers xs)" for xs
    by (induction xs) (auto intro!: keeps_intros)
  have j: "keeps (below (\<lambda>v. v = w)) (express_json status body)" "keeps (below (\<lambda>v. v = w)) (express_end status)" for status body
    by (simp_all add: keeps_def below_def express_json_def express_end_def split_def Let_def)
  have "keeps (below (\<lambda>v. v = w)) (express_cors options request)"
    unfolding express_cors_def express_problem_def by (auto split: option.split intro!: keeps_intros h hs j)
  then show "express_cors options request (w, hs) = (a, ws) \<Longrightarrow> fst ws = w"
    using keepsD [of "below (\<lambda>v. v = w)" "express_cors options request" "(w, hs)" a ws] by (simp add: below_def)
qed

lemma express_next:
  assumes "humanDependencyMiddleware options request (w, hs) = (Inr (Next result), ws')"
  obtains current humanProof w1 r hs1 hs2 where
    "express_current options request (w, hs1) = (Inr current, (w1, hs2))"
    "request_get request HUMAN_PROOF_HEADER = Some humanProof" "humanProof \<noteq> []"
    "acceptHumanProof options humanProof current
       (if present (request_get request ''idempotency-key'') then request_get request ''idempotency-key'' else None) w1 =
     (Inr (r, result), fst ws')"
proof -
  have nn: "m ws \<noteq> (Inr (Next result), ws')" if "answers m is_answer" for m ws
    using that unfolding answers_def by (metis is_answer.simps(2))
  from assms have "express_protect options request (w, hs) = (Inr (Next result), ws')"
    by (auto simp: humanDependencyMiddleware_def io_catch_eq_Inr nn problem_answers)
  then obtain a ws1 where cors: "express_cors options request (w, forceProtectedHeaders hs) = (Inr a, ws1)"
    and k: "(case a of Some r \<Rightarrow> io_return r | None \<Rightarrow>
      if needs_idempotency_key options (xq_method request) (request_get request ''idempotency-key'')
      then express_problem 400 ''IDEMPOTENCY_KEY_REQUIRED''
      else io_bind (express_current options request) (\<lambda>current.
        case request_get request HUMAN_PROOF_HEADER of None \<Rightarrow> express_challenge options current
        | Some humanProof \<Rightarrow> if humanProof = [] then express_challenge options current
            else express_accept options request current humanProof)) ws1 = (Inr (Next result), ws')"
    by (auto simp: express_protect_def io_bind_eq_Inr installExpressProtectedHeaders_def)
  note w = cors_world [OF cors]
  have a: "a = None"
  proof (rule ccontr)
    assume "a \<noteq> None"
    then obtain answer where "a = Some answer" by blast
    moreover from this cors have "is_answer answer"
      using cors_answers [of options request] unfolding answers_def stops_answered_def by fastforce
    ultimately show False using k by (simp add: io_eval)
  qed
  with k have "io_bind (express_current options request) (\<lambda>current.
        case request_get request HUMAN_PROOF_HEADER of None \<Rightarrow> express_challenge options current
        | Some humanProof \<Rightarrow> if humanProof = [] then express_challenge options current
            else express_accept options request current humanProof) ws1 = (Inr (Next result), ws')"
    by (auto simp: nn problem_answers split: if_splits)
  then obtain current ws2 where c: "express_current options request ws1 = (Inr current, ws2)"
    and n: "(case request_get request HUMAN_PROOF_HEADER of None \<Rightarrow> express_challenge options current
        | Some humanProof \<Rightarrow> if humanProof = [] then express_challenge options current
            else express_accept options request current humanProof) ws2 = (Inr (Next result), ws')"
    by (auto simp only: io_bind_eq_Inr)
  from n obtain p where p: "request_get request HUMAN_PROOF_HEADER = Some p" "p \<noteq> []"
    and acc: "express_accept options request current p ws2 = (Inr (Next result), ws')"
    by (auto simp: nn challenge_answers split: option.splits if_splits)
  from acc obtain r where "acceptHumanProof options p current (if present (request_get request ''idempotency-key'')
      then request_get request ''idempotency-key'' else None) (fst ws2) = (Inr (r, result), fst ws')"
    unfolding express_accept_def io_bind_eq_Inr onWorld_eq_Inr by (auto simp: io_eval split: prod.splits)
  then show thesis using that p c w by (metis prod.collapse)
qed

text \<open>
  C7: Only a proof of this request passes the middleware: whenever it hands a request on, the request carried a
  token that verifies under the trusted keys to the result handed on, a requirement of the store is answered by it at
  that moment, and that requirement names this purpose and audience, this method, public URI and body digest and the
  binding extracted from this request.
\<close>

theorem middleware_guards:
  assumes "humanDependencyMiddleware options request (w, hs) = (Inr (Next result), ws')"
  shows "\<exists>humanProof current hs1 hs2 w1 w2 r. request_get request ''human-proof'' = Some humanProof \<and>
    verifyHumanResultToken (pt_zod options) (pt_verify options) humanProof (pt_verifier options) = Inr result \<and>
    express_current options request (w, hs1) = (Inr current, (w1, hs2)) \<and> cu_method current = xq_method request \<and>
    pt_get options (rs_dependencyId result) (pt_now options w1) w1 = (Inr (Some r), w2) \<and>
    rq_purpose r = pt_purpose options \<and> pr_audience (rq_resource r) = pt_audience options \<and>
    pr_method (rq_resource r) = toUpperCase (xq_method request) \<and> pr_uri (rq_resource r) = cu_uri current \<and>
    requestDigest (pt_hash options) (xq_method request) (cu_uri current) JUndefined (Some (cu_bodyInput current)) =
      Inr (pr_requestDigest (rq_resource r)) \<and>
    rq_binding r = cu_binding current \<and> ev_satisfied (evaluateHumanResult r result (pt_catalog options) (pt_now options w1))"
proof -
  from assms show ?thesis
  proof (rule express_next)
    fix current humanProof w1 r hs1 hs2
    assume c: "express_current options request (w, hs1) = (Inr current, (w1, hs2))"
      and p: "request_get request HUMAN_PROOF_HEADER = Some humanProof"
      and a: "acceptHumanProof options humanProof current
        (if present (request_get request ''idempotency-key'') then request_get request ''idempotency-key'' else None) w1 =
        (Inr (r, result), fst ws')"
    have m: "cu_method current = xq_method request" using c by (auto simp: express_current_def io_bind_eq_Inr io_eval)
    from a obtain w2 where g: "pt_get options (rs_dependencyId result) (pt_now options w1) w1 = (Inr (Some r), w2)"
      and s: "accept_stored options humanProof current (if present (request_get request ''idempotency-key'')
        then request_get request ''idempotency-key'' else None) (pt_now options w1) r w2 = (Inr (r, result), fst ws')"
      by (rule acceptHumanProof_Inr)
    from s have "assertCurrentMatchesStored (pt_hash options) r current (pt_purpose options) (pt_audience options) = Inr ()"
      "verifyHumanResultToken (pt_zod options) (pt_verify options) humanProof (pt_verifier options) = Inr result"
      "ev_satisfied (evaluateHumanResult r result (pt_catalog options) (pt_now options w1))"
      by (auto elim: accept_stored_Inr)
    then show ?thesis using c m g p unfolding matches_stored_iff HUMAN_PROOF_HEADER_def by metis
  qed
qed

theorem middleware_guards_witness:
  "ev_satisfied (evaluateHumanResult sample_requirement sample_issued_result sample_catalog 1767225603000)"
proof -
  let ?o = "memory_protect sample_protect" and ?w = "sample_resource_world\<lparr>rw_now := 1767225603000\<rparr>"
  have f: "sample_free None 1767225603000 ?w" using sample_first(1) by (simp add: sample_free_def)
  obtain hs where "humanDependencyMiddleware ?o (sample_request None) (?w, []) =
      (Inr (Next sample_issued_result), (sample_after None 1767225603000 ?w, hs))"
    using sample_express [OF sample_accepts [OF _ _ _ _ f]] by auto
  from middleware_guards [OF this] obtain c hs1 hs2 w1 w2 r
    where c: "express_current ?o (sample_request None) (?w, hs1) = (Inr c, (w1, hs2))"
      and g: "pt_get ?o (rs_dependencyId sample_issued_result) (pt_now ?o w1) w1 = (Inr (Some r), w2)"
      and e: "ev_satisfied (evaluateHumanResult r sample_issued_result (pt_catalog ?o) (pt_now ?o w1))"
    by blast
  from c have "w1 = ?w" by (simp add: sample_request_current)
  with g e show ?thesis using sample_stored [of 1767225603000]
    by (auto simp: memory_protect_def sample_issued_id split: prod.splits)
qed

end
