(* ===== verification/ResourceRuns.thy ===== *)
theory ResourceRuns
  imports ResourceGuarantees
begin

section \<open>A result through the middleware (src/middleware/resource.ts)\<close>

text \<open>
  Over the in-memory stores a result is handed on once, or for one idempotent operation, in any sequence of
  requests.
\<close>

lemma current_world:
  assumes "express_current (memory_protect o') request (w, hs) = (Inr c, (w1, hs1))"
  shows "w1 = w \<and> cu_method c = xq_method request"
proof -
  have s: "stateless m v = (Inr x, v') \<longleftrightarrow> fst (m ()) = Inr x \<and> v' = v" for m :: "(unit, 'c) io" and v v' :: ResourceWorld and x
    by (auto simp: stateless_def)
  have b: "resolveBodyInput (memory_protect o') h m u body v = (Inr x, v') \<Longrightarrow> v' = v" for h m u body v v' x
    by (cases "pt_extractBodyInput o'")
      (auto simp: resolveBodyInput_def memory_protect_def s io_eval split: if_splits)
  have e: "pt_extractBinding (memory_protect o') h m u v = (Inr x, v') \<Longrightarrow> v' = v" for h m u v v' x
    by (auto simp: memory_protect_def s)
  show ?thesis
    using assms by (auto simp: express_current_def io_bind_eq_Inr onWorld_eq_Inr io_eval dest!: b e)
qed

lemma memory_passes:
  assumes "resource_step o' w call = (Inr (Next result), w')"
  shows "call_result o' call = Some result \<and>
    (\<exists>r d. ev_satisfied (evaluateHumanResult r result (pt_catalog o') (rc_time call)) \<and>
      (case call_operation call of
         None \<Rightarrow> result_consume (rw_results w) (rs_resultId result) (rs_expiresAt result) (rc_time call) = (True, rw_results w') \<and>
           rw_acceptances w' = rw_acceptances w
       | Some operation \<Rightarrow> rw_results w' = rw_results w \<and> d \<noteq> Replay \<and> result_accept (rw_acceptances w)
           \<lparr>ra_resultId = rs_resultId result, ra_operationId = operation, ra_requestDigest = rs_requestDigest result,
            ra_expiresAt = rs_expiresAt result\<rparr> (rc_time call) = (d, rw_acceptances w')))"
proof -
  let ?o = "memory_protect o'" and ?w = "request_arrives call w" and ?q = "rc_request call"
  from assms obtain hs where "humanDependencyMiddleware ?o ?q (?w, []) = (Inr (Next result), (w', hs))"
    by (auto simp: resource_step_def split: prod.splits)
  then show ?thesis
  proof (rule express_next)
    fix current p w1 r hs1 hs2
    let ?key = "if present (request_get ?q ''idempotency-key'') then request_get ?q ''idempotency-key'' else None"
    assume c: "express_current ?o ?q (?w, hs1) = (Inr current, (w1, hs2))"
      and p: "request_get ?q HUMAN_PROOF_HEADER = Some p"
      and a: "acceptHumanProof ?o p current ?key w1 = (Inr (r, result), fst (w', hs))"
    from current_world [OF c] have w1: "w1 = ?w" and m: "cu_method current = xq_method ?q" by simp_all
    have now: "pt_now ?o w1 = rc_time call" by (simp add: w1 request_arrives_def)
    from a obtain w2 where g: "pt_get ?o (rs_dependencyId result) (pt_now ?o w1) w1 = (Inr (Some r), w2)"
      and s: "accept_stored ?o p current ?key (pt_now ?o w1) r w2 = (Inr (r, result), w')"
      by (rule acceptHumanProof_Inr) simp
    have w2: "rw_results w2 = rw_results w" "rw_acceptances w2 = rw_acceptances w"
      using g by (auto simp: w1 memory_protect_def request_arrives_def split: prod.splits)
    have op: "operation_of ?o (cu_method current) ?key = call_operation call"
      by (simp add: operation_of_def call_operation_def m Let_def)
    from s [unfolded now] show ?thesis
    proof (rule accept_stored_Inr)
      fix w3 w4
      assume v: "verifyHumanResultToken (pt_zod ?o) (pt_verify ?o) p (pt_verifier ?o) = Inr result"
        and ev: "ev_satisfied (evaluateHumanResult r result (pt_catalog ?o) (rc_time call))"
        and x: "case operation_of ?o (cu_method current) ?key of
          None \<Rightarrow> w4 = w3 \<and> (case pt_replay ?o of
              None \<Rightarrow> w3 = w2 \<and> \<not> is_mutation (toUpperCase (cu_method current)) \<and> \<not> outside_dev_local ?o
            | Some consume \<Rightarrow> consume (rs_resultId result) (rs_expiresAt result) (rc_time call) w2 = (Inr True, w3))
        | Some operation \<Rightarrow> w3 = w2 \<and> accept_operation ?o result operation (rc_time call) w3 = (Inr (), w4)"
        and d: "(if is_mutation (toUpperCase (cu_method current)) then io_return () else pt_delete ?o (rq_dependencyId r)) w4 =
          (Inr (), w')"
      have w': "rw_results w' = rw_results w4" "rw_acceptances w' = rw_acceptances w4"
        using d by (auto simp: io_eval memory_protect_def split: if_splits)
      have call: "call_result o' call = Some result" using v p by (simp add: call_result_def)
      show ?thesis
      proof (cases "call_operation call")
        case None
        from x [unfolded op None] have "w4 = w3" and c: "(case result_consume (rw_results w2) (rs_resultId result) (rs_expiresAt result)
            (rc_time call) of (ok, s) \<Rightarrow> (Inr ok :: bool res, w2\<lparr>rw_results := s\<rparr>)) = (Inr True, w3)"
          by simp_all
        from c have "result_consume (rw_results w) (rs_resultId result) (rs_expiresAt result) (rc_time call) = (True, rw_results w3)"
          "rw_acceptances w3 = rw_acceptances w"
          by (auto simp: w2 split: prod.splits)
        then show ?thesis using ev call w' \<open>w4 = w3\<close> None by auto
      next
        case (Some operation)
        from x [unfolded op Some] have "w3 = w2" and c: "accept_operation ?o result operation (rc_time call) w2 = (Inr (), w4)"
          by auto
        from c obtain d where "result_accept (rw_acceptances w) \<lparr>ra_resultId = rs_resultId result, ra_operationId = operation,
            ra_requestDigest = rs_requestDigest result, ra_expiresAt = rs_expiresAt result\<rparr> (rc_time call) = (d, rw_acceptances w4)"
          "d \<noteq> Replay" "rw_results w4 = rw_results w"
          by (auto simp: accept_operation_def io_bind_eq_Inr io_eval w2 split: prod.splits if_splits)
        then show ?thesis using ev call w' Some by auto
      qed
    qed
  qed
qed


subsection \<open>What the middleware keeps\<close>

lemma keeps_bind_with:
  "keeps I m \<Longrightarrow> (\<And>w x w'. m w = (Inr x, w') \<Longrightarrow> keeps I (f x)) \<Longrightarrow> keeps I (io_bind m f)"
  unfolding keeps_def io_bind_def by (auto split: prod.splits sum.splits)

lemma keeps_express [keeps_intros]:
  "keeps (below I) (express_header n v)" "keeps (below I) (express_json status body)" "keeps (below I) (express_end status)"
  "keeps (below I) installExpressProtectedHeaders"
  by (simp_all add: keeps_def below_def express_header_def express_json_def express_end_def installExpressProtectedHeaders_def
      split_def Let_def)

lemma keeps_express_headers [keeps_intros]: "keeps (below I) (express_headers hs)"
  by (induction hs) (auto intro!: keeps_intros)

lemma keeps_challenge_headers [keeps_intros]: "keeps (below I) (express_challenge_headers hs)"
proof (induction hs)
  case (Cons x hs)
  have "keeps (below I) (\<lambda>(w, hs). express_header n (v hs) (w, hs))" for n v
    by (simp add: keeps_def below_def express_header_def split_def)
  with Cons show ?case by (cases x) (auto intro!: keeps_intros)
qed (auto intro!: keeps_intros)

lemma keeps_express_problem [keeps_intros]: "keeps (below I) (express_problem status code)"
  unfolding express_problem_def by (intro keeps_intros)

text \<open>
  The operations a request reaches keep an invariant, which fixes the time: of the acceptance store, acceptances of
  results with \<open>V\<close>.
\<close>

definition protect_keeps :: "('w \<Rightarrow> bool) \<Rightarrow> ('w, 'pk) Protect \<Rightarrow> int \<Rightarrow> (HumanResult \<Rightarrow> bool) \<Rightarrow> bool" where
  "protect_keeps I options T V \<longleftrightarrow> (\<forall>w. I w \<longrightarrow> pt_now options w = T) \<and>
     (\<forall>h m u. keeps I (pt_extractBinding options h m u)) \<and> (\<forall>r. keeps I (pt_put options r)) \<and>
     (\<forall>d now. keeps I (pt_get options d now)) \<and> (\<forall>d. keeps I (pt_delete options d)) \<and>
     (\<forall>f i. pt_issuer options = Some f \<longrightarrow> keeps I (f i)) \<and>
     (\<forall>f r e. pt_replay options = Some f \<longrightarrow> keeps I (f r e T)) \<and>
     (\<forall>f result operation. pt_acceptance options = Some f \<and> V result \<longrightarrow>
        keeps I (f \<lparr>ra_resultId = rs_resultId result, ra_operationId = operation,
          ra_requestDigest = rs_requestDigest result, ra_expiresAt = rs_expiresAt result\<rparr> T)) \<and>
     (\<forall>f h m u b. pt_extractBodyInput options = Some f \<longrightarrow> keeps I (f h m u b)) \<and>
     (\<forall>f p b a t. pt_providerRequests options = Some f \<longrightarrow> keeps I (f p b a t)) \<and> keeps I (pt_ambient options)"

lemma issueChallenge_keeps: "protect_keeps I options T V \<Longrightarrow> keeps I (issueChallenge options current)"
  unfolding issueChallenge_def by (auto simp: protect_keeps_def split: option.split intro!: keeps_intros)

lemma resolveBodyInput_keeps: "protect_keeps I options T V \<Longrightarrow> keeps I (resolveBodyInput options h m u b)"
  unfolding resolveBodyInput_def by (auto simp: protect_keeps_def split: option.split intro!: keeps_intros)

lemma verify_header_keeps:
  assumes "\<And>f r e. pt_replay options = Some f \<Longrightarrow> keeps I (f r e now)"
  shows "keeps I (verify_header options p r useReplay required now)"
  unfolding keeps_def
proof (intro allI impI)
  fix w assume I: "I w"
  have k: "I w'" if "pt_replay options = Some f" "f r e now w = (x, w')" for f r e x w'
    using keepsD [OF assms I] that .
  from I show "I (snd (verify_header options p r useReplay required now w))"
    unfolding verify_header_def verifyHumanProofHeader_def recorded_consume_def
    by (auto simp: Let_def split: prod.splits sum.splits option.splits if_splits dest: k)
qed

lemma accept_stored_keeps:
  assumes keep: "protect_keeps I options T V"
    and V: "\<And>result. verifyHumanResultToken (pt_zod options) (pt_verify options) p (pt_verifier options) = Inr result \<Longrightarrow> V result"
  shows "keeps I (accept_stored options p current key T requirement)"
proof -
  have "keeps I (verify_header options p requirement u q T)" for u q
    using keep by (intro verify_header_keeps) (simp add: protect_keeps_def)
  moreover have "keeps I (accept_operation options result operation T)" if "V result" for result operation
    using keep that unfolding accept_operation_def by (auto simp: protect_keeps_def split: option.split intro!: keeps_intros)
  moreover have "keeps I (pt_delete options d)" for d using keep by (simp add: protect_keeps_def)
  ultimately show ?thesis unfolding accept_stored_def Let_def
    by (intro keeps_bind_with keeps_lift) (auto intro!: keeps_intros V dest!: verify_header_Inr)
qed

lemma acceptHumanProof_keeps:
  assumes keep: "protect_keeps I options T V"
    and V: "\<And>result. verifyHumanResultToken (pt_zod options) (pt_verify options) p (pt_verifier options) = Inr result \<Longrightarrow> V result"
  shows "keeps I (acceptHumanProof options p current key)"
proof -
  have T: "I w \<Longrightarrow> pt_now options w = T" for w using keep by (simp add: protect_keeps_def)
  have "keeps I (pt_get options d now)" for d now using keep by (simp add: protect_keeps_def)
  then have k: "keeps I (io_bind (io_lift x) (\<lambda>preview. io_bind (pt_get options (rs_dependencyId preview) T)
      (\<lambda>stored. case stored of None \<Rightarrow> io_throw e
       | Some requirement \<Rightarrow> accept_stored options p current key T requirement)))" for x e
    by (auto split: option.split intro!: keeps_intros accept_stored_keeps [OF keep V])
  show ?thesis unfolding keeps_def
  proof (intro allI impI)
    fix w assume I: "I w"
    with k show "I (snd (acceptHumanProof options p current key w))"
      unfolding acceptHumanProof_def T [OF I] by (auto simp: io_eval keeps_def split: if_split)
  qed
qed

lemma express_keeps:
  assumes keep: "protect_keeps I options T V"
    and V: "\<And>p result. request_get request HUMAN_PROOF_HEADER = Some p \<Longrightarrow>
      verifyHumanResultToken (pt_zod options) (pt_verify options) p (pt_verifier options) = Inr result \<Longrightarrow> V result"
  shows "keeps (below I) (humanDependencyMiddleware options request)"
proof -
  have "keeps (below I) (express_cors options request)"
    unfolding express_cors_def by (auto split: option.split intro!: keeps_intros)
  moreover have "keeps I (pt_extractBinding options h m u)" for h m u using keep by (simp add: protect_keeps_def)
  then have "keeps (below I) (express_current options request)"
    unfolding express_current_def by (auto intro!: keeps_intros resolveBodyInput_keeps [OF keep])
  moreover have "keeps (below I) (express_challenge options c)" for c
    unfolding express_challenge_def by (intro keeps_intros issueChallenge_keeps [OF keep])
  moreover have "keeps (below I) (express_accept options request c p)"
    if "request_get request HUMAN_PROOF_HEADER = Some p" for c p
    unfolding express_accept_def by (auto intro!: keeps_intros acceptHumanProof_keeps [OF keep] V [OF that])
  ultimately show ?thesis unfolding humanDependencyMiddleware_def express_protect_def
    by (auto split: option.split intro!: keeps_intros)
qed

subsection \<open>A result passes once\<close>

lemma memory_keeps:
  assumes "\<And>w. I w \<Longrightarrow> rw_now w = T" "\<And>w s. I w \<Longrightarrow> I (w\<lparr>rw_requirements := s\<rparr>)"
    "\<And>w r e. I w \<Longrightarrow> I (w\<lparr>rw_results := snd (result_consume (rw_results w) r e T)\<rparr>)"
    "\<And>w result operation. I w \<Longrightarrow> V result \<Longrightarrow> I (w\<lparr>rw_acceptances := snd (result_accept (rw_acceptances w)
      \<lparr>ra_resultId = rs_resultId result, ra_operationId = operation, ra_requestDigest = rs_requestDigest result,
       ra_expiresAt = rs_expiresAt result\<rparr> T)\<rparr>)"
  shows "protect_keeps I (memory_protect o') T V"
  using assms unfolding protect_keeps_def memory_protect_def
  by (auto simp: keeps_def stateless_def split_def)

lemma step_keeps:
  assumes "protect_keeps I (memory_protect o') (rc_time call) V" "I (request_arrives call w)"
    "\<And>result. call_result o' call = Some result \<Longrightarrow> V result"
  shows "I (snd (resource_step o' w call))"
proof -
  have "keeps (below I) (humanDependencyMiddleware (memory_protect o') (rc_request call))"
    using assms(3) by (intro express_keeps [OF assms(1)]) (simp add: call_result_def)
  then show ?thesis using assms(2) unfolding keeps_def below_def resource_step_def by (auto simp: split_def)
qed

lemma arrives_parts [simp]:
  "rw_now (request_arrives call w) = rc_time call" "rw_results (request_arrives call w) = rw_results w"
  "rw_acceptances (request_arrives call w) = rw_acceptances w"
  by (simp_all add: request_arrives_def)

lemma step_result_spent:
  assumes "result_spent (rw_results w) k t" "rc_time call \<le> t"
  shows "result_spent (rw_results (snd (resource_step o' w call))) k t"
proof -
  let ?I = "\<lambda>w. rw_now w = rc_time call \<and> result_spent (rw_results w) k t"
  have "result_spent (snd (result_consume s r e (rc_time call))) k t" if "result_spent s k t" for s r e
    using results.spent_keeps [of s "ConsumeResult r e (rc_time call)" _ _ k t] that assms(2)
    by (cases "result_consume s r e (rc_time call)") simp
  then have "protect_keeps ?I (memory_protect o') (rc_time call) (\<lambda>_. True)" by (intro memory_keeps) auto
  from step_keeps [OF this] show ?thesis using assms(1) by simp
qed

text \<open>A request as a use of the result it carries, when it names no operation.\<close>

definition pass_op :: "(unit, 'pk) Protect \<Rightarrow> ResourceCall \<Rightarrow> result_op" where
  "pass_op o' call = (case call_result o' call of
     None \<Rightarrow> ConsumeResult [] [] (rc_time call)
   | Some result \<Rightarrow> ConsumeResult (rs_resultId result) (rs_expiresAt result) (rc_time call))"

fun passes :: "ExpressOutcome res \<Rightarrow> bool" where
  "passes (Inr (Next result)) = True"
| "passes _ = False"

definition pass_use :: "(unit, 'pk) Protect \<Rightarrow> ResourceWorld \<Rightarrow> ResourceCall \<Rightarrow> bool \<times> ResourceWorld" where
  "pass_use o' w call = (case resource_step o' w call of
     (reply, w') \<Rightarrow> (passes reply \<and> call_operation call = None, w'))"

lemma pass_use_step:
  assumes "pass_use o' w call = (True, w')"
  shows "result_step (rw_results w) (pass_op o' call) = (True, rw_results w')"
proof -
  obtain reply where "resource_step o' w call = (reply, w')" "passes reply" and n: "call_operation call = None"
    using assms by (auto simp: pass_use_def split: prod.splits)
  then obtain result where "resource_step o' w call = (Inr (Next result), w')" by (cases reply rule: passes.cases) auto
  from memory_passes [OF this] n show ?thesis by (auto simp: pass_op_def)
qed

lemma pass_op_time [simp]: "result_op_time (pass_op o' call) = rc_time call"
  by (simp add: pass_op_def split: option.split)

interpretation resource_passes: use_once_until "pass_use o'" "\<lambda>call. result_op_key (pass_op o' call)" rc_time
  "\<lambda>call. result_op_expiry (pass_op o' call)" "\<lambda>w k t. result_spent (rw_results w) k t" for o'
proof
  fix w call w' assume u: "pass_use o' w call = (True, w')"
  note s = pass_use_step [OF u]
  show "\<not> result_spent (rw_results w) (result_op_key (pass_op o' call)) (rc_time call)"
    using results.success_unspent [OF s] by simp
  fix t assume "rc_time call \<le> t" "t < result_op_expiry (pass_op o' call)"
  then show "result_spent (rw_results w') (result_op_key (pass_op o' call)) t"
    using results.success_spends [OF s, of t] by simp
next
  fix w call b w' k t
  assume "pass_use o' w call = (b, w')" "result_spent (rw_results w) k t" "rc_time call \<le> t"
  then show "result_spent (rw_results w') k t"
    using step_result_spent [of w k t call o'] by (auto simp: pass_use_def split: prod.splits)
qed

lemma run_pass_use:
  "run_uses (resource_step o') w calls = (replies, w') \<Longrightarrow>
   run_uses (pass_use o') w calls = (map2 (\<lambda>call reply. passes reply \<and> call_operation call = None) calls replies, w')"
  by (induction calls arbitrary: w replies) (auto simp: pass_use_def split: prod.splits)

lemma run_passes:
  assumes "run_uses (resource_step o') w calls = (replies, w')" "j < length calls" "replies ! j = Inr (Next result)"
  obtains w1 w2 where "w1 = snd (run_uses (resource_step o') w (take j calls))"
    "resource_step o' w1 (calls ! j) = (Inr (Next result), w2)"
  using run_uses_nth [OF assms(1,2)] assms(3) by (metis prod.collapse)

text \<open>
  C8: A result passes at most once without naming an operation: in any sequence of requests in time order through
  the middleware, after a request without an idempotent operation was handed on with a result, a later one is handed
  on with that result only if it is a mutation with an idempotency key.
\<close>

theorem result_passes_once:
  assumes "run_uses (resource_step o') w calls = (replies, w')" "sorted (map rc_time calls)" "i < j" "j < length calls"
    "replies ! i = Inr (Next result)" "replies ! j = Inr (Next result)" "call_operation (calls ! i) = None"
  shows "call_operation (calls ! j) \<noteq> None"
proof
  assume j: "call_operation (calls ! j) = None"
  have len: "length replies = length calls" using length_run_uses [of "resource_step o'" w calls] assms(1) by simp
  obtain w1 w2 where 1: "resource_step o' w1 (calls ! i) = (Inr (Next result), w2)"
    using run_passes [OF assms(1) _ assms(5)] assms(3,4) by (metis order.strict_trans)
  obtain w3 w4 where 2: "resource_step o' w3 (calls ! j) = (Inr (Next result), w4)"
    using run_passes [OF assms(1,4,6)] by metis
  note p = memory_passes [OF 1] memory_passes [OF 2]
  then have op: "pass_op o' (calls ! i) = ConsumeResult (rs_resultId result) (rs_expiresAt result) (rc_time (calls ! i))"
    "pass_op o' (calls ! j) = ConsumeResult (rs_resultId result) (rs_expiresAt result) (rc_time (calls ! j))"
    by (simp_all add: pass_op_def)
  have "result_op_expiry (pass_op o' (calls ! i)) \<le> rc_time (calls ! j)"
    using resource_passes.reuse_after_expiry [OF run_pass_use [OF assms(1)] assms(2-4)] assms(3-) len j
    by (simp add: op)
  moreover have "rc_time (calls ! j) < result_op_expiry (pass_op o' (calls ! j))"
    using p(2) j by (auto simp: result_consume_def op split: option.splits if_splits)
  ultimately show False by (auto simp: op split: option.splits)
qed

lemma sample_two_requests:
  assumes "sample_free key 1767225603000 sample_resource_world"
    "sample_free key' 1767225604000 (sample_after key 1767225603000 sample_resource_world)"
  shows "\<exists>w'. run_uses (resource_step sample_protect) sample_resource_world
    [sample_resource_call key 1767225603000, sample_resource_call key' 1767225604000] =
    ([Inr (Next sample_issued_result), Inr (Next sample_issued_result)], w')"
proof -
  let ?w = "sample_after key 1767225603000 (request_arrives (sample_resource_call key 1767225603000) sample_resource_world)"
  have 1: "resource_step sample_protect sample_resource_world (sample_resource_call key 1767225603000) =
      (Inr (Next sample_issued_result), ?w)"
    by (rule sample_passes [OF refl _ _ assms(1)]) simp_all
  have "rw_requirements ?w = rw_requirements sample_resource_world"
    by (simp add: sample_after_def request_arrives_def split: option.split)
  moreover have "sample_free key' 1767225604000 ?w"
    using assms(2) by (cases key; cases key') (simp_all add: sample_free_def sample_after_def)
  ultimately have 2: "fst (resource_step sample_protect ?w (sample_resource_call key' 1767225604000)) =
      Inr (Next sample_issued_result)"
    by (subst sample_passes) simp_all
  show ?thesis using 2 by (simp add: 1 split_def)
qed

lemma sample_call_operation: "call_operation (sample_resource_call key now) = (if present key then key else None)"
  by (auto simp: call_operation_def sample_resource_call_def sample_request_def request_get_def is_mutation_POST Let_def
      split: option.split)

theorem result_passes_once_witness:
  "call_operation ([sample_resource_call None 1767225603000, sample_resource_call (Some ''o'') 1767225604000] ! 1) \<noteq> None"
proof -
  have "sample_free (Some ''o'') 1767225604000 (sample_after None 1767225603000 sample_resource_world)" by code_simp
  from sample_two_requests [OF sample_first(1) this] obtain w' where
    run: "run_uses (resource_step sample_protect) sample_resource_world
      [sample_resource_call None 1767225603000, sample_resource_call (Some ''o'') 1767225604000] =
      ([Inr (Next sample_issued_result), Inr (Next sample_issued_result)], w')" by blast
  show ?thesis
    by (rule result_passes_once [OF run, where i = 0])
      (simp_all add: sample_call_operation present_def, simp_all add: sample_resource_call_def)
qed

subsection \<open>A result serves one operation\<close>

lemma map_of_filter_first: "map_of s k = Some v \<Longrightarrow> P (k, v) \<Longrightarrow> map_of (filter P s) k = Some v"
  by (induction s) (auto split: if_splits)

lemma prune_keeps_live: "map_of s k = Some e \<Longrightarrow> now < ae_expiresAtMs e \<Longrightarrow> map_of (prune_accepted s now) k = Some e"
  unfolding prune_accepted_def by (rule map_of_filter_first) auto

text \<open>A live acceptance stays, and a later request is accepted for its operation only.\<close>

lemma accept_keeps_live:
  assumes "map_of s k = Some e" "now < ae_expiresAtMs e"
  shows "map_of (snd (result_accept s input now)) k = Some e"
  using assms prune_keeps_live [OF assms]
  by (auto simp: result_accept_def Let_def update_conv' split: option.splits if_splits)

lemma accept_live_operation:
  assumes "result_accept s input now = (d, s')" "d \<noteq> Replay" "map_of s (ra_resultId input) = Some e" "now < ae_expiresAtMs e"
  shows "ra_operationId input = ae_operationId e"
  using assms prune_keeps_live [OF assms(3,4)]
  by (auto simp: result_accept_def Let_def acceptance_status_def split: option.splits if_splits)

text \<open>What is stored under a result's identifier lives as long as that result.\<close>

definition held_until :: "accepted_results \<Rightarrow> string \<Rightarrow> int \<Rightarrow> bool" where
  "held_until s k expiry \<longleftrightarrow> (\<forall>e. map_of s k = Some e \<longrightarrow> ae_expiresAtMs e = expiry)"

lemma held_prune: "held_until s k expiry \<Longrightarrow> now < expiry \<Longrightarrow> held_until (prune_accepted s now) k expiry"
proof (cases "map_of s k")
  case None
  then have "map_of (prune_accepted s now) k = None"
    by (auto simp: prune_accepted_def map_of_eq_None_iff)
  then show ?thesis by (simp add: held_until_def)
next
  case (Some e)
  assume "held_until s k expiry" "now < expiry"
  with Some prune_keeps_live [OF Some, of now] show ?thesis by (simp add: held_until_def)
qed

lemma accept_holds:
  assumes "held_until s k expiry" "now < expiry" "ra_resultId input = k \<Longrightarrow> date_parse (ra_expiresAt input) = Some expiry"
  shows "held_until (snd (result_accept s input now)) k expiry"
  using assms(1,3) held_prune [OF assms(1,2)]
  by (auto simp: result_accept_def Let_def held_until_def update_conv' split: option.splits if_splits)

lemma accept_stores:
  assumes "result_accept s input now = (d, s')" "d \<noteq> Replay" "held_until s (ra_resultId input) expiry"
    "date_parse (ra_expiresAt input) = Some expiry"
  shows "now < expiry \<and> (\<exists>e. map_of s' (ra_resultId input) = Some e \<and> ae_operationId e = ra_operationId input \<and>
    ae_expiresAtMs e = expiry)"
proof -
  from assms(1,2,4) have t: "now < expiry"
    by (auto simp: result_accept_def split: if_splits)
  with held_prune [OF assms(3) t] assms(1,2,4) show ?thesis
    by (auto simp: result_accept_def Let_def acceptance_status_def held_until_def update_conv' split: option.splits if_splits)
qed

lemma step_held:
  assumes "held_until (rw_acceptances w) k expiry" "rc_time call < expiry"
    "\<And>x. call_result o' call = Some x \<Longrightarrow> rs_resultId x = k \<Longrightarrow> date_parse (rs_expiresAt x) = Some expiry"
  shows "held_until (rw_acceptances (snd (resource_step o' w call))) k expiry"
proof -
  let ?I = "\<lambda>w. rw_now w = rc_time call \<and> held_until (rw_acceptances w) k expiry"
  let ?V = "\<lambda>x. rs_resultId x = k \<longrightarrow> date_parse (rs_expiresAt x) = Some expiry"
  have "protect_keeps ?I (memory_protect o') (rc_time call) ?V"
    using assms(2) by (intro memory_keeps) (auto intro!: accept_holds)
  from step_keeps [OF this] show ?thesis using assms(1,3) by simp
qed

lemma step_live:
  assumes "map_of (rw_acceptances w) k = Some e" "rc_time call < ae_expiresAtMs e"
  shows "map_of (rw_acceptances (snd (resource_step o' w call))) k = Some e"
proof -
  let ?I = "\<lambda>w. rw_now w = rc_time call \<and> map_of (rw_acceptances w) k = Some e"
  have "protect_keeps ?I (memory_protect o') (rc_time call) (\<lambda>_. True)"
    using assms(2) by (intro memory_keeps) (auto intro!: accept_keeps_live)
  from step_keeps [OF this] show ?thesis using assms(1) by simp
qed

lemma resource_run_held:
  assumes "held_until (rw_acceptances w) k expiry" "\<forall>call \<in> set calls. rc_time call < expiry"
    "\<forall>call \<in> set calls. \<forall>x. call_result o' call = Some x \<and> rs_resultId x = k \<longrightarrow> date_parse (rs_expiresAt x) = Some expiry"
  shows "held_until (rw_acceptances (snd (run_uses (resource_step o') w calls))) k expiry"
  using assms
proof (induction calls arbitrary: w)
  case (Cons call calls)
  then show ?case using step_held [of w k expiry call o'] by (auto simp: split_def)
qed simp

lemma resource_run_live:
  "map_of (rw_acceptances w) k = Some e \<Longrightarrow> \<forall>call \<in> set calls. rc_time call < ae_expiresAtMs e \<Longrightarrow>
   map_of (rw_acceptances (snd (run_uses (resource_step o') w calls))) k = Some e"
proof (induction calls arbitrary: w)
  case (Cons call calls)
  then show ?case using step_live [of w k e call o'] by (auto simp: split_def)
qed simp



end
