(* ===== verification/ResourceFronts.thy ===== *)
theory ResourceFronts
  imports ResourceGuarantees
begin

section \<open>The two front ends agree (src/middleware/resource.ts)\<close>

text \<open>
  The Express middleware and the Fetch function decide alike: with the same options, method, headers, body and
  public URI they let through the same requests, with the same result and the same effect on the stores.
\<close>

definition goes_on :: "('w, 'pk) Protect \<Rightarrow> string \<Rightarrow> string option \<Rightarrow> bool" where
  "goes_on options method origin \<longleftrightarrow> pt_cors options = None \<or> method \<noteq> ''OPTIONS'' \<and>
     \<not> (present origin \<and> Option.bind (pt_cors options) (buildCorsHeaders origin) = None)"

text \<open>The core of both: the proof a request carries is accepted for the current request.\<close>

definition proof_accepted ::
  "('w, 'pk) Protect \<Rightarrow> (CurrentRequest res \<times> 'w) \<Rightarrow> string option \<Rightarrow> string option \<Rightarrow> HumanResult \<Rightarrow> 'w \<Rightarrow> bool" where
  "proof_accepted options current humanProof key result w' \<longleftrightarrow> (\<exists>c w1 p r. current = (Inr c, w1) \<and> humanProof = Some p \<and> p \<noteq> [] \<and>
     acceptHumanProof options p c (if present key then key else None) w1 = (Inr (r, result), w'))"

subsection \<open>Express\<close>

lemma express_headers_run: "\<exists>hs'. express_headers xs (w, hs) = (Inr (), (w, hs'))"
proof (induction xs arbitrary: hs)
  case Nil
  show ?case by (simp add: io_eval)
next
  case (Cons x xs)
  then show ?case by (cases x) (simp add: io_bind_def express_header_def)
qed

lemma express_answer_run:
  "\<exists>r hs'. express_problem status code (w, hs) = (Inr r, (w, hs')) \<and> is_answer r"
  "\<exists>r hs'. express_end status (w, hs) = (Inr r, (w, hs')) \<and> is_answer r"
  by (auto simp: express_problem_def express_header_def express_json_def express_end_def io_bind_def Let_def)

lemma stopped_run:
  assumes "\<exists>r hs'. m (w, hs) = (Inr r, (w, hs')) \<and> is_answer r"
  shows "\<exists>r hs'. io_bind m (\<lambda>r. io_return (Some r)) (w, hs) = (Inr (Some r), (w, hs'))"
  using assms by (auto simp: io_bind_def io_eval)

lemma express_cors_run:
  "\<exists>a hs'. express_cors options request (w, hs) = (Inr a, (w, hs')) \<and>
     (a = None \<longleftrightarrow> goes_on options (xq_method request) (request_get request ''origin''))"
proof (cases "pt_cors options")
  case None
  then show ?thesis by (simp add: express_cors_def io_eval goes_on_def)
next
  case (Some policy)
  let ?origin = "request_get request ''origin''"
  have stop: "\<exists>r hs'. io_bind (express_problem status code) (\<lambda>r. io_return (Some r)) (w, hs) = (Inr (Some r), (w, hs'))"
    "\<exists>r hs'. io_bind (express_end status) (\<lambda>r. io_return (Some r)) (w, hs) = (Inr (Some r), (w, hs'))" for status code w hs
    by (rule stopped_run, rule express_answer_run)+
  show ?thesis
  proof (cases "buildCorsHeaders ?origin policy")
    case None
    then show ?thesis
      using stop(1) [of 403 "''CORS_ORIGIN_DENIED''" w hs] stop(2) [of 204 w hs]
      by (auto simp: express_cors_def Some goes_on_def io_eval)
  next
    case (Some cors)
    obtain hs1 where h: "express_headers cors (w, hs) = (Inr (), (w, hs1))" by (rule exE [OF express_headers_run])
    show ?thesis
      using stop(2) [of 204 w hs1] Some
      by (auto simp: express_cors_def \<open>pt_cors options = Some policy\<close> goes_on_def io_eval io_bind_Inr [where m = "express_headers cors" and w = "(w, hs)", OF h])
  qed
qed

lemma onWorld_bind: "onWorld (io_bind m f) = io_bind (onWorld m) (\<lambda>x. onWorld (f x))"
  by (rule ext) (auto simp: onWorld_def io_bind_def split: prod.splits sum.splits)

lemma onWorld_pure: "onWorld (io_return x) = io_return x" "onWorld (io_lift r) = io_lift r"
  by (rule ext; simp add: onWorld_def io_eval split_def)+

lemma express_passes_iff:
  assumes current: "express_current options request = onWorld m"
  shows "(\<exists>hs'. humanDependencyMiddleware options request (w, hs) = (Inr (Next result), (w', hs'))) \<longleftrightarrow>
    goes_on options (xq_method request) (request_get request ''origin'') \<and>
    \<not> needs_idempotency_key options (xq_method request) (request_get request ''idempotency-key'') \<and>
    proof_accepted options (m w) (request_get request HUMAN_PROOF_HEADER) (request_get request ''idempotency-key'') result w'"
proof -
  let ?key = "request_get request ''idempotency-key''" and ?p = "request_get request HUMAN_PROOF_HEADER"
  obtain a hs1 where cors: "express_cors options request (w, forceProtectedHeaders hs) = (Inr a, (w, hs1))"
    "a = None \<longleftrightarrow> goes_on options (xq_method request) (request_get request ''origin'')"
    using express_cors_run [of options request w "forceProtectedHeaders hs"] by (elim exE conjE) (rule that)
  have nn: "n ws \<noteq> (Inr (Next result), ws')" if "answers n is_answer" for n ws ws'
    using that unfolding answers_def by (metis is_answer.simps(2))
  let ?k = "\<lambda>current. case ?p of None \<Rightarrow> express_challenge options current
    | Some humanProof \<Rightarrow> if humanProof = [] then express_challenge options current
        else express_accept options request current humanProof"
  have k: "?k c (w1, hs1) = (Inr (Next result), (w', hs')) \<longleftrightarrow> hs' = hs1 \<and> proof_accepted options (Inr c, w1) ?p ?key result w'"
    for c w1 hs1 hs'
  proof -
    have "express_accept options request c p (w1, hs1) = (Inr (Next result), (w', hs')) \<longleftrightarrow>
        hs' = hs1 \<and> (\<exists>r. acceptHumanProof options p c (if present ?key then ?key else None) w1 = (Inr (r, result), w'))" for p
      unfolding express_accept_def io_bind_eq_Inr onWorld_eq_Inr by (auto simp: io_eval)
    then show ?thesis
      by (cases ?p) (auto simp: proof_accepted_def nn [OF challenge_answers] split del: if_split split: if_split_asm)
  qed
  have i: "installExpressProtectedHeaders (w, hs) = (Inr (), (w, forceProtectedHeaders hs))"
    by (simp add: installExpressProtectedHeaders_def)
  have "express_protect options request (w, hs) = (case a of Some r \<Rightarrow> io_return r | None \<Rightarrow>
      if needs_idempotency_key options (xq_method request) ?key then express_problem 400 ''IDEMPOTENCY_KEY_REQUIRED''
      else io_bind (onWorld m) ?k) (w, hs1)"
    unfolding express_protect_def current 
      io_bind_Inr [where m = installExpressProtectedHeaders and w = "(w, hs)", OF i]
      io_bind_Inr [where m = "express_cors options request" and w = "(w, forceProtectedHeaders hs)", OF cors(1)] ..
  then have "humanDependencyMiddleware options request (w, hs) = (Inr (Next result), (w', hs')) \<longleftrightarrow>
      (case a of Some r \<Rightarrow> io_return r | None \<Rightarrow> if needs_idempotency_key options (xq_method request) ?key
        then express_problem 400 ''IDEMPOTENCY_KEY_REQUIRED'' else io_bind (onWorld m) ?k) (w, hs1) = (Inr (Next result), (w', hs'))" for hs'
    unfolding humanDependencyMiddleware_def io_catch_eq_Inr by (simp add: nn [OF problem_answers(1)])
  moreover have "r \<noteq> Next result" if "a = Some r" for r
    using cors(1) cors_answers [of options request] that unfolding answers_def stops_answered_def by fastforce
  moreover have "io_bind (onWorld m) ?k (w, hs1) = (Inr (Next result), (w', hs')) \<longleftrightarrow>
      hs' = hs1 \<and> proof_accepted options (m w) ?p ?key result w'" for hs'
    by (cases "m w"; cases "fst (m w)") (auto simp: io_bind_def onWorld_def k proof_accepted_def [of options "(Inl _, _)"])
  ultimately show ?thesis
    using cors(2) by (cases a) (auto simp: nn problem_answers io_eval)
qed

subsection \<open>Fetch\<close>

lemma fetch_cors_open:
  "fetch_cors options request (Option.bind (pt_cors options) (buildCorsHeaders (map_of (fq_headers request) ''origin''))) = None \<longleftrightarrow>
   goes_on options (fq_method request) (map_of (fq_headers request) ''origin'')"
  by (auto simp: fetch_cors_def goes_on_def Let_def)

lemma fetch_cors_stops: "fetch_cors options request cors = Some answer \<Longrightarrow> fp_result answer = None"
  by (auto simp: fetch_cors_def fetch_problem_def Let_def split: if_splits)

lemma fetch_challenge_stops:
  "answers (fetch_challenge options cors current) (\<lambda>out. fp_result out = None)"
  unfolding fetch_challenge_def Let_def by (auto intro!: answers_bind answers_return)

lemma fetch_accept_passes:
  "(\<exists>out. fetch_accept options cors request current p w = (Inr out, w') \<and> fp_result out = Some result) \<longleftrightarrow>
   (\<exists>r. acceptHumanProof options p current (if present (map_of (fq_headers request) ''idempotency-key'')
      then map_of (fq_headers request) ''idempotency-key'' else None) w = (Inr (r, result), w'))"
  by (fastforce simp: fetch_accept_def Let_def io_catch_eq_Inr io_bind_eq_Inr io_eval fetch_problem_def)

lemma fetch_passes_iff:
  assumes options: "assertProtectOptions options = Inr ()"
  shows "(\<exists>out. protectFetchResource options request body bodyInput w = (Inr out, w') \<and> fp_result out = Some result) \<longleftrightarrow>
    goes_on options (fq_method request) (map_of (fq_headers request) ''origin'') \<and>
    \<not> needs_idempotency_key options (fq_method request) (map_of (fq_headers request) ''idempotency-key'') \<and>
    proof_accepted options (fetch_current options request body bodyInput w) (map_of (fq_headers request) HUMAN_PROOF_HEADER)
      (map_of (fq_headers request) ''idempotency-key'') result w'"
proof -
  let ?cors = "Option.bind (pt_cors options) (buildCorsHeaders (map_of (fq_headers request) ''origin''))"
  let ?p = "map_of (fq_headers request) HUMAN_PROOF_HEADER" and ?key = "map_of (fq_headers request) ''idempotency-key''"
  let ?k = "\<lambda>current. case ?p of None \<Rightarrow> fetch_challenge options ?cors current
    | Some humanProof \<Rightarrow> if humanProof = [] then fetch_challenge options ?cors current
        else fetch_accept options ?cors request current humanProof"
  have nn: "\<not> (\<exists>out. fetch_challenge options ?cors c w1 = (Inr out, w') \<and> fp_result out = Some result)" for c w1
    using fetch_challenge_stops [of options ?cors c] unfolding answers_def by fastforce
  have k: "(\<exists>out. ?k c w1 = (Inr out, w') \<and> fp_result out = Some result) \<longleftrightarrow> proof_accepted options (Inr c, w1) ?p ?key result w'"
    for c w1
    using nn [of c w1] fetch_accept_passes [of options ?cors request c _ w1 w' result]
    by (cases ?p) (auto simp: proof_accepted_def)
  have "protectFetchResource options request body bodyInput w = (case fetch_cors options request ?cors of
      Some answer \<Rightarrow> io_return answer
    | None \<Rightarrow> if needs_idempotency_key options (fq_method request) ?key
        then io_return (fetch_problem 400 ''IDEMPOTENCY_KEY_REQUIRED'' (protectedFetchHeaders (cors_or_empty ?cors))
          (protectedFetchHeaders (cors_or_empty ?cors)))
        else io_bind (fetch_current options request body bodyInput) ?k) w"
    unfolding protectFetchResource_def options by (simp add: io_bind_def io_eval Let_def)
  moreover have "(\<exists>out. io_bind (fetch_current options request body bodyInput) ?k w = (Inr out, w') \<and> fp_result out = Some result) \<longleftrightarrow>
      proof_accepted options (fetch_current options request body bodyInput w) ?p ?key result w'"
  proof (cases "fetch_current options request body bodyInput w")
    case (Pair x w1)
    show ?thesis
    proof (cases x)
      case (Inl e)
      then show ?thesis by (simp add: io_bind_def Pair proof_accepted_def)
    next
      case (Inr c)
      then show ?thesis using k [of c w1]
        by (simp add: io_bind_Inr [where m = "fetch_current options request body bodyInput" and w = w, OF Pair [unfolded Inr]] Pair)
    qed
  qed
  ultimately show ?thesis
    unfolding fetch_cors_open [symmetric]
    by (cases "fetch_cors options request ?cors") (auto simp: io_eval fetch_problem_def dest: fetch_cors_stops)
qed

subsection \<open>The theorem\<close>

lemma header_of_express:
  "\<forall>(name, vs) \<in> set (xq_headers request). vs \<noteq> [] \<Longrightarrow> map_of (headersFromExpress request) name = request_get request name"
proof -
  assume "\<forall>(name, vs) \<in> set (xq_headers request). vs \<noteq> []"
  then have "headersFromExpress request = map (\<lambda>(name, vs). (name, joinWith '', '' vs)) (xq_headers request)"
    unfolding headersFromExpress_def by (subst filter_True) auto
  then show ?thesis by (simp add: request_get_def map_of_map)
qed

lemma express_current_is_fetch:
  assumes "fq_method fetch = xq_method express" "fq_headers fetch = headersFromExpress express"
    "fetch_uri options fetch = resolvePublicAbsoluteUri (pt_parse options) (pt_resolve options) (the (pt_publicOrigin options))
       (xq_originalUrl express) (request_get express ''x-forwarded-host'') (request_get express ''x-forwarded-proto'')"
  shows "express_current options express = onWorld (fetch_current options fetch (xq_body express) None)"
  unfolding express_current_def fetch_current_def by (simp add: onWorld_bind onWorld_pure assms)

text \<open>
  C10: The Express middleware and the Fetch function agree: for the same options, method, headers and body, when both
  see the same public URI, one hands the request on with a result exactly when the other does, and the stores are
  left in the same state.
\<close>

theorem express_fetch_agree:
  assumes "assertProtectOptions options = Inr ()" "fq_method fetch = xq_method express"
    "fq_headers fetch = headersFromExpress express" "\<forall>(name, vs) \<in> set (xq_headers express). vs \<noteq> []"
    "fetch_uri options fetch = resolvePublicAbsoluteUri (pt_parse options) (pt_resolve options) (the (pt_publicOrigin options))
       (xq_originalUrl express) (request_get express ''x-forwarded-host'') (request_get express ''x-forwarded-proto'')"
  shows "(\<exists>hs'. humanDependencyMiddleware options express (w, hs) = (Inr (Next result), (w', hs'))) \<longleftrightarrow>
    (\<exists>out. protectFetchResource options fetch (xq_body express) None w = (Inr out, w') \<and> fp_result out = Some result)"
  unfolding express_passes_iff [OF express_current_is_fetch [OF assms(2,3,5)]] fetch_passes_iff [OF assms(1)]
  by (simp add: assms(2,3) header_of_express [OF assms(4)])

definition sample_fetch :: FetchRequest where
  "sample_fetch = \<lparr>fq_method = ''POST'', fq_url = ''https://a/'', fq_headers = headersFromExpress (sample_request None)\<rparr>"

theorem express_fetch_agree_witness:
  "\<exists>out. protectFetchResource (memory_protect sample_protect) sample_fetch JUndefined None
     (sample_resource_world\<lparr>rw_now := 1767225603000\<rparr>) =
     (Inr out, sample_after None 1767225603000 (sample_resource_world\<lparr>rw_now := 1767225603000\<rparr>)) \<and>
   fp_result out = Some sample_issued_result"
proof -
  let ?o = "memory_protect sample_protect" and ?w = "sample_resource_world\<lparr>rw_now := 1767225603000\<rparr>"
  have f: "sample_free None 1767225603000 ?w" using sample_first(1) by (simp add: sample_free_def)
  have e: "\<exists>hs'. humanDependencyMiddleware ?o (sample_request None) (?w, []) =
      (Inr (Next sample_issued_result), (sample_after None 1767225603000 ?w, hs'))"
    using sample_express [OF sample_accepts [OF _ _ _ _ f]] by simp
  have r: "pt_resolve sample_protect = (\<lambda>p parsed. sample_parse (u_origin parsed @ p))" by (simp add: sample_protect_def)
  have o: "pt_parse ?o = sample_parse" "pt_resolve ?o = (\<lambda>p parsed. sample_parse (u_origin parsed @ p))"
    "pt_publicOrigin ?o = Some \<lparr>po_publicOrigin = ''https://a'', po_allowMatchingForwardedHost = False\<rparr>"
    "pt_deploymentProfile ?o = Some DevLocal"
    by (simp_all add: memory_protect_def r)
  have p: "xq_body (sample_request None) = JUndefined" by (simp add: sample_request_def)
  have "assertProtectOptions ?o = Inr ()"
    by (simp add: assertProtectOptions_def o whenSome_def new_URL_def sample_parse_def startsWith_def)
  moreover have "fq_method sample_fetch = xq_method (sample_request None)"
    "fq_headers sample_fetch = headersFromExpress (sample_request None)"
    "\<forall>(name, vs) \<in> set (xq_headers (sample_request None)). vs \<noteq> []"
    by (simp_all add: sample_fetch_def, simp_all add: sample_request_def)
  moreover have "fetch_uri ?o sample_fetch = resolvePublicAbsoluteUri (pt_parse ?o) (pt_resolve ?o) (the (pt_publicOrigin ?o))
      (xq_originalUrl (sample_request None)) (request_get (sample_request None) ''x-forwarded-host'')
      (request_get (sample_request None) ''x-forwarded-proto'')"
    unfolding o option.sel sample_request_def ExpressRequest.simps sample_request_uri
    by (simp add: fetch_uri_def o sample_fetch_def new_URL_def sample_parse_def startsWith_def)
  ultimately show ?thesis
    using e by (subst (asm) express_fetch_agree) (simp_all only: p)
qed

end
