(* ===== verification/FetchApi.thy ===== *)
theory FetchApi
  imports Http Effects
begin

section \<open>Requests and responses of a Fetch client\<close>

text \<open>
  What the clients see of the Fetch API.  A \<open>Request\<close> has a serialised URL, a header table with lower-case names, a
  body given by its bytes when it has one, and its redirect, credentials and cache modes.  A \<open>Response\<close> has the URL it
  came from (empty when unknown), its type, and its body as the chunks of the stream.  \<open>fetch\<close>, the URL parser, the
  checks of the wire schemas, \<open>JSON.parse\<close> of a body, the clock and the random source are the \<open>Web\<close> a client runs on.
\<close>

record WebRequest =
  wr_method :: string
  wr_url :: string
  wr_headers :: "(string \<times> string) list"
  wr_body :: "bytes option"
  wr_redirect :: string
  wr_credentials :: string
  wr_cache :: string

record WebResponse =
  we_status :: int
  we_url :: string
  we_type :: string
  we_headers :: "(string \<times> string) list"
  we_body :: "bytes list option"

record 'w Web =
  wb_fetch :: "WebRequest \<Rightarrow> ('w, WebResponse) io"
  wb_url :: url_parser
  wb_zod :: zod
  wb_json :: "bytes \<Rightarrow> js option"
  wb_clock :: "('w, int) io"
  wb_random :: "nat \<Rightarrow> ('w, bytes) io"

definition wr_get :: "WebRequest \<Rightarrow> string \<Rightarrow> string option" where
  "wr_get request name = map_of (wr_headers request) name"

definition wr_set :: "string \<Rightarrow> string \<Rightarrow> WebRequest \<Rightarrow> WebRequest" where
  "wr_set name value request = request\<lparr>wr_headers := AList.update name value (wr_headers request)\<rparr>"

definition we_get :: "WebResponse \<Rightarrow> string \<Rightarrow> string option" where
  "we_get response name = map_of (we_headers response) name"

text \<open>\<open>await response.clone().json()\<close>, \<open>None\<close> when it throws.\<close>

definition response_body_json :: "'w Web \<Rightarrow> WebResponse \<Rightarrow> js option" where
  "response_body_json web response = wb_json web (concat (case we_body response of None \<Rightarrow> [] | Some chunks \<Rightarrow> chunks))"

text \<open>\<open>response.url || request.url\<close>.\<close>

definition response_url :: "WebResponse \<Rightarrow> string \<Rightarrow> string" where
  "response_url response requestUrl = (if we_url response = [] then requestUrl else we_url response)"

text \<open>The constructor \<open>new Request(url, {method, headers, body, ...})\<close> refuses a body with GET or HEAD.\<close>

definition new_Request :: "WebRequest \<Rightarrow> WebRequest res" where
  "new_Request request =
     (if wr_body request \<noteq> None \<and> (wr_method request = ''GET'' \<or> wr_method request = ''HEAD'')
      then Inl (TypeError ''Request with GET/HEAD method cannot have body.'') else Inr request)"

definition REDIRECT_STATUSES :: "int list" where
  "REDIRECT_STATUSES = [301, 302, 303, 307, 308]"

text \<open>What a client does with a response that redirects: the guard of the agent, the payment and the managed client.\<close>

definition redirects :: "'w Web \<Rightarrow> WebRequest \<Rightarrow> WebResponse \<Rightarrow> bool" where
  "redirects web request response \<longleftrightarrow> we_type response = ''opaqueredirect'' \<or> we_status response \<in> set REDIRECT_STATUSES \<or>
     isCrossOriginRedirect (wb_url web) (wr_url request) (we_get response ''location'')"

subsection \<open>Request copies\<close>

text \<open>
  Three requests of one call: clones, or with a body factory the seed with three bodies built in order.  A request whose
  body is used up cannot be cloned.
\<close>

type_synonym 'w body_factory = "nat \<Rightarrow> ('w, bytes option) io"

definition build_request :: "WebRequest \<Rightarrow> string \<Rightarrow> 'w body_factory \<Rightarrow> nat \<Rightarrow> ('w, WebRequest) io" where
  "build_request seed cache bodyFactory attempt = io_bind (bodyFactory attempt) (\<lambda>body.
     io_lift (new_Request (seed\<lparr>wr_body := body, wr_redirect := ''manual'', wr_cache := cache\<rparr>)))"

definition request_copies ::
  "WebRequest \<Rightarrow> string \<Rightarrow> string \<Rightarrow> bool \<Rightarrow> 'w body_factory option \<Rightarrow> ('w, WebRequest \<times> WebRequest \<times> WebRequest) io" where
  "request_copies seed cache message cloneable bodyFactory = (case bodyFactory of
     None \<Rightarrow> if cloneable then io_return (seed, seed, seed) else io_throw (Error message)
   | Some build \<Rightarrow>
       io_bind (build_request seed cache build 1) (\<lambda>first.
       io_bind (build_request seed cache build 2) (\<lambda>second.
       io_bind (build_request seed cache build 3) (\<lambda>third. io_return (first, second, third)))))"

lemma wr_get_set [simp]: "wr_get (wr_set n v r) m = (if m = n then Some v else wr_get r m)"
  by (simp add: wr_get_def wr_set_def update_conv')

lemma wr_set_parts [simp]:
  "wr_method (wr_set n v r) = wr_method r" "wr_url (wr_set n v r) = wr_url r" "wr_body (wr_set n v r) = wr_body r"
  "wr_redirect (wr_set n v r) = wr_redirect r" "wr_credentials (wr_set n v r) = wr_credentials r"
  "wr_cache (wr_set n v r) = wr_cache r"
  by (simp_all add: wr_set_def)

subsection \<open>What a computation sends\<close>

text \<open>
  \<open>sent\<close> reads the requests sent so far off the world.  \<open>sends\<close> says what a computation adds to them when it returns
  and, less precisely, when it throws.
\<close>

definition sends ::
  "('w \<Rightarrow> WebRequest list) \<Rightarrow> ('w, 'a) io \<Rightarrow> ('a \<Rightarrow> WebRequest list \<Rightarrow> bool) \<Rightarrow> (WebRequest list \<Rightarrow> bool) \<Rightarrow> bool" where
  "sends sent m P Q \<longleftrightarrow> (\<forall>w. \<exists>qs. sent (snd (m w)) = sent w @ qs \<and> (case fst (m w) of Inr x \<Rightarrow> P x qs | Inl _ \<Rightarrow> Q qs))"

definition silent :: "('w \<Rightarrow> WebRequest list) \<Rightarrow> ('w, 'a) io \<Rightarrow> bool" where
  "silent sent m \<longleftrightarrow> (\<forall>w. sent (snd (m w)) = sent w)"

named_theorems silent_intros "computations that send nothing"

lemma silent_basic [silent_intros]:
  "silent sent (io_return x)" "silent sent (io_throw e)" "silent sent (io_lift r)"
  by (simp_all add: silent_def io_eval)

lemma silent_bind [silent_intros]: "silent sent m \<Longrightarrow> (\<And>x. silent sent (f x)) \<Longrightarrow> silent sent (io_bind m f)"
  unfolding silent_def io_bind_def by (auto split: prod.splits sum.splits) (metis snd_conv)+

lemma silent_catch [silent_intros]: "silent sent m \<Longrightarrow> (\<And>e. silent sent (h e)) \<Longrightarrow> silent sent (io_catch m h)"
  unfolding silent_def io_catch_def by (auto split: prod.splits sum.splits) (metis snd_conv)+

lemma silent_sends: "silent sent m \<Longrightarrow> (\<And>x. P x []) \<Longrightarrow> Q [] \<Longrightarrow> sends sent m P Q"
  by (auto simp: silent_def sends_def split: sum.splits)

lemma silent_sends_when:
  assumes "silent sent m" "\<And>w x w'. m w = (Inr x, w') \<Longrightarrow> P x []" "Q []"
  shows "sends sent m P Q"
  unfolding sends_def
proof
  fix w
  show "\<exists>qs. sent (snd (m w)) = sent w @ qs \<and> (case fst (m w) of Inr x \<Rightarrow> P x qs | Inl _ \<Rightarrow> Q qs)"
    using assms(1) [unfolded silent_def, rule_format, of w] assms(2) [of w] assms(3)
    by (intro exI [of _ "[]"]) (cases "m w", simp split: sum.splits)
qed

lemma sends_return: "P x [] \<Longrightarrow> sends sent (io_return x) P Q"
  by (simp add: sends_def io_eval)

lemma sends_throw: "Q [] \<Longrightarrow> sends sent (io_throw e) P Q"
  by (simp add: sends_def io_eval)

lemma sends_bind:
  assumes "sends sent m R Q" "\<And>x qs. R x qs \<Longrightarrow> sends sent (f x) (\<lambda>y qs'. P y (qs @ qs')) (\<lambda>qs'. Q (qs @ qs'))"
  shows "sends sent (io_bind m f) P Q"
  unfolding sends_def
proof
  fix w
  obtain qs where qs: "sent (snd (m w)) = sent w @ qs" "case fst (m w) of Inr x \<Rightarrow> R x qs | Inl _ \<Rightarrow> Q qs"
    using assms(1) unfolding sends_def by blast
  show "\<exists>qs. sent (snd (io_bind m f w)) = sent w @ qs \<and> (case fst (io_bind m f w) of Inr x \<Rightarrow> P x qs | Inl _ \<Rightarrow> Q qs)"
  proof (cases "m w")
    case (Pair r w1)
    show ?thesis
    proof (cases r)
      case (Inl e)
      then show ?thesis using qs Pair by (auto simp: io_bind_def)
    next
      case (Inr x)
      then obtain qs' where "sent (snd (f x w1)) = sent w1 @ qs'"
        "case fst (f x w1) of Inr y \<Rightarrow> P y (qs @ qs') | Inl _ \<Rightarrow> Q (qs @ qs')"
        using assms(2) [of x qs] qs(2) Pair unfolding sends_def by auto
      then show ?thesis using Inr Pair qs(1) by (auto simp: io_bind_def)
    qed
  qed
qed

lemma sends_silent_bind:
  "silent sent m \<Longrightarrow> Q [] \<Longrightarrow> (\<And>x. sends sent (f x) P Q) \<Longrightarrow> sends sent (io_bind m f) P Q"
  by (rule sends_bind [where R = "\<lambda>x qs. qs = []"]) (auto intro: silent_sends)

lemma sends_mono: "sends sent m P Q \<Longrightarrow> (\<And>x qs. P x qs \<Longrightarrow> P' x qs) \<Longrightarrow> (\<And>qs. Q qs \<Longrightarrow> Q' qs) \<Longrightarrow> sends sent m P' Q'"
  unfolding sends_def by (metis (mono_tags, lifting) old.sum.simps(5,6) sum.exhaust)

lemma sendsD:
  "sends sent m P Q \<Longrightarrow> m w = (r, w') \<Longrightarrow> \<exists>qs. sent w' = sent w @ qs \<and> (case r of Inr x \<Rightarrow> P x qs | Inl _ \<Rightarrow> Q qs)"
  unfolding sends_def by (metis fst_conv snd_conv)

end
