(* ===== verification/AgentSignature.thy ===== *)
theory AgentSignature
  imports FetchApi
begin

section \<open>Signed agent requests (src/agent.ts)\<close>

text \<open>
  Signing and verifying HTTP requests of an agent.  A request is a Fetch \<open>Request\<close>: its URL is the serialised one,
  its header table has lower-case names and its body, when it has one, is given by its bytes.  The hash, the keys'
  signature operations and the export of a key as JWK are parameters.
\<close>

definition X424_AGENT_SIGNATURE_LABEL :: string where
  "X424_AGENT_SIGNATURE_LABEL = ''x424-agent''"

datatype AgentSignatureAlgorithm = Ed25519 | Eip191 | Erc1271

fun algorithm_text :: "AgentSignatureAlgorithm \<Rightarrow> string" where
  "algorithm_text Ed25519 = ''ed25519''"
| "algorithm_text Eip191 = ''eip191''"
| "algorithm_text Erc1271 = ''erc1271''"

record AgentRequestSigner =
  ag_keyId :: string
  ag_algorithm :: AgentSignatureAlgorithm
  ag_sign :: "bytes \<Rightarrow> bytes res"

record ResolvedAgentKey =
  rk_keyId :: string
  rk_algorithm :: AgentSignatureAlgorithm
  rk_verify :: "bytes \<Rightarrow> bytes \<Rightarrow> bool res"

type_synonym AgentKeyResolver = "string \<Rightarrow> AgentSignatureAlgorithm \<Rightarrow> WebRequest \<Rightarrow> ResolvedAgentKey option res"

record AgentSignatureParameters =
  sg_components :: "string list"
  sg_created :: int
  sg_expires :: int
  sg_keyId :: string
  sg_algorithm :: AgentSignatureAlgorithm
  sg_nonce :: string
  sg_serialized :: string

subsection \<open>The signature base\<close>

definition is_printable :: "char \<Rightarrow> bool" where
  "is_printable c \<longleftrightarrow> 32 \<le> (of_char c :: nat) \<and> (of_char c :: nat) \<le> 126"

definition escape_char :: "char \<Rightarrow> string" where
  "escape_char c = (if c = CHR 0x22 \<or> c = CHR 0x5C then [CHR 0x5C, c] else [c])"

definition quoted :: "string \<Rightarrow> string res" where
  "quoted value =
     (if \<not> list_all is_printable value then Inl (Error ''HTTP signature parameter contains unsafe characters'')
      else Inr ([CHR 0x22] @ concat (map escape_char value) @ [CHR 0x22]))"

definition toBase64 :: "bytes \<Rightarrow> string" where
  "toBase64 bs = btoa (map byte_to_char bs)"

definition contentDigest :: "hash \<Rightarrow> bytes \<Rightarrow> string" where
  "contentDigest H bs = ''sha-256=:'' @ toBase64 (H bs) @ '':''"

definition requestContent :: "WebRequest \<Rightarrow> bytes" where
  "requestContent request = (case wr_body request of None \<Rightarrow> [] | Some bs \<Rightarrow> bs)"

definition newline :: char where
  "newline = CHR 0x0A"

definition componentValue :: "WebRequest \<Rightarrow> string \<Rightarrow> string res" where
  "componentValue request component =
     (if component = ''@method'' then Inr (toLowerCase (wr_method request))
      else if component = ''@target-uri'' then Inr (wr_url request)
      else case wr_get request component of
        None \<Rightarrow> Inl (Error (''Signed component is missing: '' @ component))
      | Some value \<Rightarrow>
          if CHR 0x0D \<in> set value \<or> newline \<in> set value then Inl (Error ''Signed header contains a newline'')
          else Inr (trim value))"

definition component_line :: "WebRequest \<Rightarrow> string \<Rightarrow> string res" where
  "component_line request component =
     bindE (quoted component) (\<lambda>name. bindE (componentValue request component) (\<lambda>value. Inr (name @ '': '' @ value)))"

definition signatureBase :: "WebRequest \<Rightarrow> AgentSignatureParameters \<Rightarrow> bytes res" where
  "signatureBase request parameters =
     bindE (mapE (component_line request) (sg_components parameters)) (\<lambda>lines.
     Inr (utf8_encode (joinWith [newline]
       (lines @ [[CHR 0x22] @ ''@signature-params'' @ [CHR 0x22] @ '': '' @ sg_serialized parameters]))))"

definition signatureComponents :: "WebRequest \<Rightarrow> string list" where
  "signatureComponents request = [''@method'', ''@target-uri''] @
     (if wr_body request \<noteq> None then [''content-digest''] else []) @
     (if wr_get request HUMAN_PROOF_HEADER \<noteq> None then [HUMAN_PROOF_HEADER] else []) @
     (if wr_get request ''payment-signature'' \<noteq> None then [''payment-signature''] else [])"

subsection \<open>Signing\<close>

definition lifetime_of :: "jsnum option \<Rightarrow> int res" where
  "lifetime_of lifetimeSeconds = (case lifetimeSeconds of
     None \<Rightarrow> Inr 60
   | Some (IntNum n) \<Rightarrow> if n < 1 \<or> 60 < n then Inl (Error ''Agent signature lifetime must be between 1 and 60 seconds'') else Inr n
   | Some _ \<Rightarrow> Inl (Error ''Agent signature lifetime must be between 1 and 60 seconds''))"

definition serialized_parameters ::
  "string list \<Rightarrow> int \<Rightarrow> int \<Rightarrow> string \<Rightarrow> AgentSignatureAlgorithm \<Rightarrow> string \<Rightarrow> string res" where
  "serialized_parameters components created expires keyId algorithm nonce =
     bindE (mapE quoted components) (\<lambda>names. bindE (quoted keyId) (\<lambda>keyid. bindE (quoted (algorithm_text algorithm)) (\<lambda>alg.
     bindE (quoted nonce) (\<lambda>nonce'.
     Inr (''('' @ joinWith '' '' names @ '');created='' @ string_of_int created @ '';expires='' @ string_of_int expires @
       '';keyid='' @ keyid @ '';alg='' @ alg @ '';nonce='' @ nonce' @ '';tag='' @ [CHR 0x22] @ ''x424-agent'' @ [CHR 0x22])))))"

definition agent_unsigned :: "hash \<Rightarrow> WebRequest \<Rightarrow> WebRequest" where
  "agent_unsigned H request = (if wr_body request \<noteq> None
     then wr_set ''content-digest'' (contentDigest H (requestContent request)) request else request)"

definition agent_parameters ::
  "hash \<Rightarrow> WebRequest \<Rightarrow> string \<Rightarrow> AgentSignatureAlgorithm \<Rightarrow> string \<Rightarrow> int \<Rightarrow> int \<Rightarrow> AgentSignatureParameters res" where
  "agent_parameters H request keyId algorithm nonce created expires =
     (let components = signatureComponents (agent_unsigned H request)
      in bindE (serialized_parameters components created expires keyId algorithm nonce) (\<lambda>serialized.
         Inr \<lparr>sg_components = components, sg_created = created, sg_expires = expires, sg_keyId = keyId,
           sg_algorithm = algorithm, sg_nonce = nonce, sg_serialized = serialized\<rparr>))"

definition signX424AgentRequest ::
  "hash \<Rightarrow> WebRequest \<Rightarrow> AgentRequestSigner \<Rightarrow> string option \<Rightarrow> bytes \<Rightarrow> int \<Rightarrow> jsnum option \<Rightarrow> WebRequest res" where
  "signX424AgentRequest H request signer nonceOption random now lifetimeSeconds =
     bindE (lifetime_of lifetimeSeconds) (\<lambda>lifetime.
     let unsigned = agent_unsigned H request;
         created = now div 1000;
         expires = created + lifetime;
         nonce = (case nonceOption of Some n \<Rightarrow> n | None \<Rightarrow> encodeStrictBase64Url random)
     in bindE (agent_parameters H request (ag_keyId signer) (ag_algorithm signer) nonce created expires) (\<lambda>parameters.
        bindE (signatureBase unsigned parameters) (\<lambda>base.
        bindE (ag_sign signer base) (\<lambda>signature.
        Inr (wr_set ''signature'' (X424_AGENT_SIGNATURE_LABEL @ ''=:'' @ toBase64 signature @ '':'')
          (wr_set ''signature-input'' (X424_AGENT_SIGNATURE_LABEL @ ''='' @ sg_serialized parameters) unsigned))))))"

subsection \<open>Parsing\<close>

text \<open>All matches of \<open>"([^"\]+)"\<close>, from left to right.\<close>

definition plain_char :: "char \<Rightarrow> bool" where
  "plain_char c \<longleftrightarrow> c \<noteq> CHR 0x22 \<and> c \<noteq> CHR 0x5C"

function quoted_matches :: "string \<Rightarrow> string list" where
  "quoted_matches [] = []"
| "quoted_matches (c # s) =
     (if c = CHR 0x22 \<and> takeWhile plain_char s \<noteq> [] \<and> startsWith (dropWhile plain_char s) [CHR 0x22]
      then takeWhile plain_char s # quoted_matches (tl (dropWhile plain_char s))
      else quoted_matches s)"
  by pat_completeness auto
termination
proof (relation "measure length", simp_all)
  fix s :: string
  show "length (dropWhile plain_char s) - Suc 0 < Suc (length s)" using length_dropWhile_le [of plain_char s] by linarith
qed

declare quoted_matches.simps(2) [simp del]

text \<open>
  A parameter is looked for at the start and behind every semicolon, and the first place where it is found counts:
  \<open>(?:^|;)name=([0-9]+)(?:;|$)\<close> and \<open>(?:^|;)name="([^"]*)"(?:;|$)\<close>.
\<close>

function find_parameter :: "(string \<Rightarrow> 'a option) \<Rightarrow> string \<Rightarrow> 'a option" where
  "find_parameter f s = (case f s of
     Some v \<Rightarrow> Some v
   | None \<Rightarrow> (case dropWhile (\<lambda>c. c \<noteq> CHR '';'') s of [] \<Rightarrow> None | _ # rest \<Rightarrow> find_parameter f rest))"
  by pat_completeness auto
termination
proof (relation "measure (length \<circ> snd)", simp_all)
  fix s :: string and c rest
  assume "dropWhile (\<lambda>c. c \<noteq> CHR '';'') s = c # rest"
  then show "length rest < length s" using length_dropWhile_le [of "\<lambda>c. c \<noteq> CHR '';''" s] by simp
qed

declare find_parameter.simps [simp del]

definition at_parameter_end :: "string \<Rightarrow> bool" where
  "at_parameter_end s \<longleftrightarrow> s = [] \<or> hd s = CHR '';''"

definition integer_here :: "string \<Rightarrow> string \<Rightarrow> int option" where
  "integer_here name s =
     (if \<not> startsWith s (name @ ''='') then None
      else let rest = drop (length name + 1) s; digits = takeWhile is_digit_char rest
           in if digits \<noteq> [] \<and> at_parameter_end (dropWhile is_digit_char rest) then Some (int (nat_of_digits digits)) else None)"

definition string_here :: "string \<Rightarrow> string \<Rightarrow> string option" where
  "string_here name s =
     (if \<not> startsWith s (name @ ''='' @ [CHR 0x22]) then None
      else let rest = drop (length name + 2) s; after = dropWhile (\<lambda>c. c \<noteq> CHR 0x22) rest
           in if after \<noteq> [] \<and> at_parameter_end (tl after) then Some (takeWhile (\<lambda>c. c \<noteq> CHR 0x22) rest) else None)"

definition parameter :: "(string \<Rightarrow> string \<Rightarrow> 'a option) \<Rightarrow> string \<Rightarrow> string \<Rightarrow> 'a res" where
  "parameter here params name = (case find_parameter (here name) params of
     None \<Rightarrow> Inl (Error (''Missing agent signature parameter: '' @ name)) | Some v \<Rightarrow> Inr v)"

definition algorithm_of_text :: "string \<Rightarrow> AgentSignatureAlgorithm option" where
  "algorithm_of_text s = (if s = ''ed25519'' then Some Ed25519 else if s = ''eip191'' then Some Eip191
     else if s = ''erc1271'' then Some Erc1271 else None)"

definition parse_serialized :: "string \<Rightarrow> AgentSignatureParameters res" where
  "parse_serialized serialized =
     (let list = takeWhile (\<lambda>c. c \<noteq> CHR '')'') (tl serialized); params = tl (dropWhile (\<lambda>c. c \<noteq> CHR '')'') serialized)
      in if \<not> startsWith serialized ''('' \<or> CHR '')'' \<notin> set serialized then Inl (Error ''Invalid x424-agent Signature-Input'')
      else let components = quoted_matches list
      in bindE (if components = [] then Inl (Error ''Invalid x424-agent component list'')
                else bindE (mapE quoted components) (\<lambda>names.
                  throwIf (joinWith '' '' names \<noteq> list) (Error ''Invalid x424-agent component list''))) (\<lambda>_.
         bindE (parameter string_here params ''alg'') (\<lambda>alg. case algorithm_of_text alg of
           None \<Rightarrow> Inl (Error ''Unsupported agent signature algorithm'')
         | Some algorithm \<Rightarrow>
             bindE (parameter string_here params ''tag'') (\<lambda>tag.
             if tag \<noteq> ''x424-agent'' then Inl (Error ''Invalid signature tag'')
             else bindE (parameter integer_here params ''created'') (\<lambda>created.
               bindE (parameter integer_here params ''expires'') (\<lambda>expires.
               bindE (parameter string_here params ''keyid'') (\<lambda>keyId.
               bindE (parameter string_here params ''nonce'') (\<lambda>nonce.
               Inr \<lparr>sg_components = components, sg_created = created, sg_expires = expires, sg_keyId = keyId,
                 sg_algorithm = algorithm, sg_nonce = nonce, sg_serialized = serialized\<rparr>))))))))"

definition parseParameters :: "WebRequest \<Rightarrow> AgentSignatureParameters res" where
  "parseParameters request = (case wr_get request ''signature-input'' of
     None \<Rightarrow> Inl (Error ''Missing x424-agent Signature-Input'')
   | Some input \<Rightarrow>
       if \<not> startsWith input (X424_AGENT_SIGNATURE_LABEL @ ''='') then Inl (Error ''Missing x424-agent Signature-Input'')
       else parse_serialized (drop (length X424_AGENT_SIGNATURE_LABEL + 1) input))"

definition is_base64_char :: "char \<Rightarrow> bool" where
  "is_base64_char c \<longleftrightarrow> b64_value c \<noteq> None"

text \<open>The matched text \<open>[A-Za-z0-9+/]+={0,2}\<close> as \<open>Buffer.from(text, "base64")\<close> decodes it.\<close>

definition base64_text :: "string \<Rightarrow> bytes option" where
  "base64_text s = (let body = takeWhile is_base64_char s; pad = dropWhile is_base64_char s
     in if body = [] \<or> 2 < length pad \<or> \<not> list_all (\<lambda>c. c = CHR ''='') pad then None
        else Some (map word_of_nat (dec_octets (map (the \<circ> b64_value) body))))"

definition parseSignature :: "WebRequest \<Rightarrow> bytes res" where
  "parseSignature request = (case wr_get request ''signature'' of
     None \<Rightarrow> Inl (Error ''Missing or invalid x424-agent Signature'')
   | Some value \<Rightarrow>
       if \<not> startsWith value ''x424-agent=:'' \<or> length value < 13 \<or> last value \<noteq> CHR '':''
       then Inl (Error ''Missing or invalid x424-agent Signature'')
       else (case base64_text (butlast (drop 12 value)) of
         None \<Rightarrow> Inl (Error ''Missing or invalid x424-agent Signature'') | Some bs \<Rightarrow> Inr bs))"

subsection \<open>Verifying\<close>

definition verifyX424AgentRequest ::
  "hash \<Rightarrow> WebRequest \<Rightarrow> AgentKeyResolver \<Rightarrow> string option \<Rightarrow> int \<Rightarrow> int option \<Rightarrow> HumanBinding res" where
  "verifyX424AgentRequest H request resolveKey expectedNonce nowMs clockSkewSeconds =
     bindE (parseParameters request) (\<lambda>parameters.
     let now = nowMs div 1000; skew = (case clockSkewSeconds of None \<Rightarrow> 5 | Some s \<Rightarrow> s)
     in if now + skew < sg_created parameters \<or> sg_expires parameters < now - skew \<or>
           sg_expires parameters \<le> sg_created parameters \<or> 60 < sg_expires parameters - sg_created parameters
        then Inl (Error ''Agent signature time window is invalid'')
        else if expectedNonce \<noteq> None \<and> Some (sg_nonce parameters) \<noteq> expectedNonce
        then Inl (Error ''Agent signature nonce does not match the dependency'')
        else if sg_components parameters \<noteq> signatureComponents request
        then Inl (Error ''Agent signature does not cover the required components'')
        else if wr_body request \<noteq> None \<and> wr_get request ''content-digest'' \<noteq> Some (contentDigest H (requestContent request))
        then Inl (Error ''Agent request Content-Digest is invalid'')
        else bindE (resolveKey (sg_keyId parameters) (sg_algorithm parameters) request) (\<lambda>found. case found of
            None \<Rightarrow> Inl (Error ''Agent request signature is invalid'')
          | Some key \<Rightarrow>
              if rk_keyId key \<noteq> sg_keyId parameters \<or> rk_algorithm key \<noteq> sg_algorithm parameters
              then Inl (Error ''Agent request signature is invalid'')
              else bindE (signatureBase request parameters) (\<lambda>base.
                bindE (parseSignature request) (\<lambda>signature.
                bindE (rk_verify key base signature) (\<lambda>ok.
                if ok then Inr \<lparr>b_kind = BindAgentKey, b_value = sg_keyId parameters\<rparr>
                else Inl (Error ''Agent request signature is invalid''))))))"

end
