(* ===== verification/AgentGuarantees.thy ===== *)
theory AgentGuarantees
  imports AgentSignature
begin

section \<open>What signed agent requests guarantee (src/agent.ts)\<close>

text \<open>
  A signed request verifies as its signer, and an accepted request is one the agent signed, with the same method,
  URL, body and proofs.
\<close>

subsection \<open>Base64\<close>

lemma octet_lt: "unat (b :: 8 word) < 256"
  using unsigned_less [of b, where ?'a = nat] by simp

lemma sextets_of_bytes: "\<forall>v \<in> set (enc_sextets (map unat (bs :: bytes))). v < 64"
  by (intro enc_sextets_lt) (auto simp: octet_lt)

lemma bytes_of_chars: "map of_char (map byte_to_char bs) = map unat (bs :: bytes)"
  by (auto simp: byte_to_char_def octet_lt)

lemma toBase64_alt:
  "toBase64 bs = map b64_char (enc_sextets (map unat bs)) @ replicate ((3 - length bs mod 3) mod 3) CHR ''=''"
  unfolding toBase64_def btoa_def bytes_of_chars by simp

lemma base64_text_toBase64:
  assumes "bs \<noteq> []"
  shows "base64_text (toBase64 bs) = Some bs"
proof -
  let ?vs = "enc_sextets (map unat bs)" and ?pad = "replicate ((3 - length bs mod 3) mod 3) CHR ''=''"
  have c: "\<forall>c \<in> set (map b64_char ?vs). is_base64_char c" using sextets_of_bytes by (auto simp: is_base64_char_def)
  have e: "\<not> is_base64_char CHR ''=''" by code_simp
  have "takeWhile is_base64_char (toBase64 bs) = map b64_char ?vs"
    using c e by (auto simp: toBase64_alt takeWhile_append)
  moreover have "dropWhile is_base64_char (toBase64 bs) = ?pad"
    using c e by (auto simp: toBase64_alt dropWhile_append)
  moreover have "map (the \<circ> b64_value) (map b64_char ?vs) = ?vs" using sextets_of_bytes by (simp add: map_idI)
  moreover have "dec_octets ?vs = map unat bs" by (intro dec_enc_sextets) (auto simp: octet_lt)
  moreover have "?vs \<noteq> []" using assms by (cases "map unat bs" rule: enc_sextets.cases) auto
  moreover have "\<not> 2 < length ?pad" "list_all (\<lambda>c. c = CHR ''='') ?pad" by (simp_all add: list_all_iff)
  ultimately show ?thesis unfolding base64_text_def Let_def by (simp only: map_map) (simp add: map_idI)
qed

lemma toBase64_inj: "toBase64 a = toBase64 b \<Longrightarrow> a = b"
proof -
  assume e: "toBase64 a = toBase64 b"
  have n: "toBase64 bs = [] \<longleftrightarrow> bs = []" for bs
  proof
    assume "toBase64 bs = []"
    then have "base64_text (toBase64 bs) = None" by (simp add: base64_text_def)
    then show "bs = []" using base64_text_toBase64 [of bs] by auto
  qed (simp add: toBase64_def btoa_def)
  show "a = b"
  proof (cases "a = []")
    case True
    then show ?thesis using e n by metis
  next
    case False
    then show ?thesis using e n base64_text_toBase64 by (metis option.inject)
  qed
qed

subsection \<open>Parameters\<close>

definition token_like :: "string \<Rightarrow> bool" where
  "token_like s \<longleftrightarrow> list_all (\<lambda>c. is_printable c \<and> plain_char c \<and> c \<noteq> CHR '';'') s"

lemma quoted_token: "token_like s \<Longrightarrow> quoted s = Inr ([CHR 0x22] @ s @ [CHR 0x22])"
proof -
  assume t: "token_like s"
  then have "concat (map escape_char s) = s"
    by (induction s) (auto simp: token_like_def escape_char_def plain_char_def)
  with t show ?thesis by (auto simp: quoted_def token_like_def list_all_iff)
qed

lemma find_here: "f s = Some v \<Longrightarrow> find_parameter f s = Some v"
  by (subst find_parameter.simps) simp

lemma find_next: "CHR '';'' \<notin> set x \<Longrightarrow> f (x @ CHR '';'' # r) = None \<Longrightarrow> find_parameter f (x @ CHR '';'' # r) = find_parameter f r"
  by (subst find_parameter.simps) (auto simp: dropWhile_append split: option.split)

lemma here_other:
  assumes "name \<noteq> []" "c \<noteq> hd name"
  shows "string_here name (c # s) = None" "integer_here name (c # s) = None"
  using assms by (cases name; simp add: string_here_def integer_here_def startsWith_def)+

lemma integer_here_own:
  "integer_here name (name @ ''='' @ string_of_nat n @ CHR '';'' # r) = Some (int n)"
proof -
  have d: "\<forall>c \<in> set (string_of_nat n). is_digit_char c" using string_of_nat_digits [of n] by (simp add: list_all_iff)
  have "\<not> is_digit_char CHR '';''" by code_simp
  then have "takeWhile is_digit_char (string_of_nat n @ CHR '';'' # r) = string_of_nat n"
    "dropWhile is_digit_char (string_of_nat n @ CHR '';'' # r) = CHR '';'' # r"
    using d by (simp_all add: takeWhile_append dropWhile_append)
  then show ?thesis by (simp add: integer_here_def startsWith_def at_parameter_end_def nat_of_digits_string Let_def)
qed

lemma string_here_own:
  assumes "token_like v" "r = [] \<or> hd r = CHR '';''"
  shows "string_here name (name @ ''='' @ [CHR 0x22] @ v @ [CHR 0x22] @ r) = Some v"
proof -
  have "\<forall>c \<in> set v. c \<noteq> CHR 0x22" using assms(1) by (auto simp: token_like_def list_all_iff plain_char_def)
  then have "takeWhile (\<lambda>c. c \<noteq> CHR 0x22) (v @ CHR 0x22 # r) = v" "dropWhile (\<lambda>c. c \<noteq> CHR 0x22) (v @ CHR 0x22 # r) = CHR 0x22 # r"
    by (simp_all add: takeWhile_append dropWhile_append)
  then show ?thesis using assms(2) by (simp add: string_here_def startsWith_def at_parameter_end_def Let_def)
qed

subsection \<open>Component lists\<close>

definition component_lists :: "string list list" where
  "component_lists = [[''@method'', ''@target-uri''] @ a @ b @ c. a \<leftarrow> [[], [''content-digest'']], b \<leftarrow> [[], [''human-proof'']],
     c \<leftarrow> [[], [''payment-signature'']]]"

lemma signatureComponents_listed: "signatureComponents request \<in> set component_lists"
  by (simp add: signatureComponents_def component_lists_def HUMAN_PROOF_HEADER_def)

definition component_text :: "string list \<Rightarrow> string" where
  "component_text cs = (case mapE quoted cs of Inr names \<Rightarrow> joinWith '' '' names | Inl e \<Rightarrow> [])"

lemma component_lists_parse:
  assumes "cs \<in> set component_lists"
  shows "mapE quoted cs \<noteq> Inl e" "CHR '')'' \<notin> set (component_text cs)" "quoted_matches (component_text cs) = cs"
    "cs \<noteq> []" "component_text cs \<noteq> []"
proof -
  have "list_all (\<lambda>cs. (case mapE quoted cs of Inl e \<Rightarrow> False | Inr names \<Rightarrow> True) \<and> CHR '')'' \<notin> set (component_text cs) \<and>
      quoted_matches (component_text cs) = cs \<and> cs \<noteq> [] \<and> component_text cs \<noteq> []) component_lists"
    by code_simp
  with assms show "mapE quoted cs \<noteq> Inl e" "CHR '')'' \<notin> set (component_text cs)" "quoted_matches (component_text cs) = cs"
    "cs \<noteq> []" "component_text cs \<noteq> []"
    by (auto simp: list_all_iff)
qed

definition component_name :: "string \<Rightarrow> bool" where
  "component_name c \<longleftrightarrow> c \<in> set [''@method'', ''@target-uri'', ''content-digest'', ''human-proof'', ''payment-signature'']"

lemma component_names: "cs \<in> set component_lists \<Longrightarrow> c \<in> set cs \<Longrightarrow> component_name c"
proof -
  assume "cs \<in> set component_lists" "c \<in> set cs"
  moreover have "list_all (list_all component_name) component_lists" by code_simp
  ultimately show "component_name c" by (metis list_all_iff)
qed

lemma component_name_cases:
  assumes "component_name c"
  obtains "c = ''@method''" | "c = ''@target-uri''" | "c = ''content-digest''" | "c = ''human-proof''" | "c = ''payment-signature''"
  using assms unfolding component_name_def set_simps insert_iff empty_iff by iprover

subsection \<open>The parameters are read back\<close>

definition parameter_text :: "int \<Rightarrow> int \<Rightarrow> string \<Rightarrow> AgentSignatureAlgorithm \<Rightarrow> string \<Rightarrow> string" where
  "parameter_text created expires keyId algorithm nonce =
     (''created'' @ ''='' @ string_of_nat (nat created)) @ CHR '';'' #
     (''expires'' @ ''='' @ string_of_nat (nat expires)) @ CHR '';'' #
     (''keyid'' @ ''='' @ [CHR 0x22] @ keyId @ [CHR 0x22]) @ CHR '';'' #
     (''alg'' @ ''='' @ [CHR 0x22] @ algorithm_text algorithm @ [CHR 0x22]) @ CHR '';'' #
     (''nonce'' @ ''='' @ [CHR 0x22] @ nonce @ [CHR 0x22]) @ CHR '';'' #
     (''tag'' @ ''='' @ [CHR 0x22] @ ''x424-agent'' @ [CHR 0x22])"

lemma algorithm_token: "token_like (algorithm_text a)" "token_like ''x424-agent''" "algorithm_of_text (algorithm_text a) = Some a"
  by (cases a; simp add: token_like_def is_printable_def plain_char_def algorithm_of_text_def)+

lemma no_semicolon:
  "CHR '';'' \<notin> set (string_of_nat n)" "token_like v \<Longrightarrow> CHR '';'' \<notin> set v"
  using string_of_nat_digits [of n] by (auto simp: list_all_iff token_like_def is_digit_char_def)

lemma parameters_found:
  fixes algorithm :: AgentSignatureAlgorithm
  assumes "token_like keyId" "token_like nonce" "0 \<le> created" "0 \<le> expires"
  defines "params \<equiv> CHR '';'' # parameter_text created expires keyId algorithm nonce"
  shows "parameter integer_here params ''created'' = Inr created" "parameter integer_here params ''expires'' = Inr expires"
    "parameter string_here params ''keyid'' = Inr keyId" "parameter string_here params ''alg'' = Inr (algorithm_text algorithm)"
    "parameter string_here params ''nonce'' = Inr nonce" "parameter string_here params ''tag'' = Inr ''x424-agent''"
proof -
  define s1 where "s1 = ''created'' @ ''='' @ string_of_nat (nat created)"
  define s2 where "s2 = ''expires'' @ ''='' @ string_of_nat (nat expires)"
  define s3 where "s3 = ''keyid'' @ ''='' @ [CHR 0x22] @ keyId @ [CHR 0x22]"
  define s4 where "s4 = ''alg'' @ ''='' @ [CHR 0x22] @ algorithm_text algorithm @ [CHR 0x22]"
  define s5 where "s5 = ''nonce'' @ ''='' @ [CHR 0x22] @ nonce @ [CHR 0x22]"
  define s6 where "s6 = ''tag'' @ ''='' @ [CHR 0x22] @ ''x424-agent'' @ [CHR 0x22]"
  have p: "params = CHR '';'' # s1 @ CHR '';'' # s2 @ CHR '';'' # s3 @ CHR '';'' # s4 @ CHR '';'' # s5 @ CHR '';'' # s6"
    by (simp add: params_def parameter_text_def s1_def s2_def s3_def s4_def s5_def s6_def)
  have n: "CHR '';'' \<notin> set s1" "CHR '';'' \<notin> set s2" "CHR '';'' \<notin> set s3" "CHR '';'' \<notin> set s4" "CHR '';'' \<notin> set s5"
    using assms(1,2) no_semicolon algorithm_token by (auto simp: s1_def s2_def s3_def s4_def s5_def)
  have i: "integer_here ''created'' (s1 @ CHR '';'' # r) = Some created" "integer_here ''expires'' (s2 @ CHR '';'' # r) = Some expires" for r
    using integer_here_own [of "''created''" "nat created" r] integer_here_own [of "''expires''" "nat expires" r] assms(3,4)
    by (simp_all add: s1_def s2_def)
  have t: "string_here ''keyid'' (s3 @ CHR '';'' # r) = Some keyId"
    "string_here ''alg'' (s4 @ CHR '';'' # r) = Some (algorithm_text algorithm)"
    "string_here ''nonce'' (s5 @ CHR '';'' # r) = Some nonce" "string_here ''tag'' s6 = Some ''x424-agent''" for r
    using string_here_own [OF assms(1), of "CHR '';'' # r" "''keyid''"] string_here_own [OF algorithm_token(1), of "CHR '';'' # r" "''alg''"]
      string_here_own [OF assms(2), of "CHR '';'' # r" "''nonce''"] string_here_own [OF algorithm_token(2), of "[]" "''tag''"]
    by (simp_all add: s3_def s4_def s5_def s6_def)
  have o: "string_here nm (s1 @ r) = None" if "nm \<noteq> []" "hd nm \<noteq> CHR ''c''" for nm r
    using here_other(1) [OF that(1), of "CHR ''c''"] that(2) by (auto simp: s1_def)
  have o2: "string_here nm (s2 @ r) = None" "integer_here nm (s2 @ r) = None" if "nm \<noteq> []" "hd nm \<noteq> CHR ''e''" for nm r
    using here_other [OF that(1), of "CHR ''e''"] that(2) by (auto simp: s2_def)
  have o1: "integer_here nm (s1 @ r) = None" if "nm \<noteq> []" "hd nm \<noteq> CHR ''c''" for nm r
    using here_other(2) [OF that(1), of "CHR ''c''"] that(2) by (auto simp: s1_def)
  have o3: "string_here nm (s3 @ r) = None" if "nm \<noteq> []" "hd nm \<noteq> CHR ''k''" for nm r
    using here_other(1) [OF that(1), of "CHR ''k''"] that(2) by (auto simp: s3_def)
  have o4: "string_here nm (s4 @ r) = None" if "nm \<noteq> []" "hd nm \<noteq> CHR ''a''" for nm r
    using here_other(1) [OF that(1), of "CHR ''a''"] that(2) by (auto simp: s4_def)
  have o5: "string_here nm (s5 @ r) = None" if "nm \<noteq> []" "hd nm \<noteq> CHR ''n''" for nm r
    using here_other(1) [OF that(1), of "CHR ''n''"] that(2) by (auto simp: s5_def)
  have o0: "string_here nm (CHR '';'' # r) = None" "integer_here nm (CHR '';'' # r) = None"
    if "nm \<noteq> []" "hd nm \<noteq> CHR '';''" for nm r
    using here_other [OF that(1), of "CHR '';''"] that(2) by auto
  note skip = find_next [where x = "[]", simplified] find_next [OF n(1)] find_next [OF n(2)] find_next [OF n(3)] find_next [OF n(4)]
    find_next [OF n(5)]
  note other = o0 o o1 o2 o3 o4 o5
  show "parameter integer_here params ''created'' = Inr created" "parameter integer_here params ''expires'' = Inr expires"
    "parameter string_here params ''keyid'' = Inr keyId" "parameter string_here params ''alg'' = Inr (algorithm_text algorithm)"
    "parameter string_here params ''nonce'' = Inr nonce" "parameter string_here params ''tag'' = Inr ''x424-agent''"
    by (simp_all add: parameter_def p skip other find_here i t)
qed

lemma serialized_shape:
  assumes "cs \<in> set component_lists" "token_like keyId" "token_like nonce" "0 \<le> created" "0 \<le> expires"
  shows "serialized_parameters cs created expires keyId algorithm nonce =
    Inr (CHR ''('' # component_text cs @ CHR '')'' # CHR '';'' # parameter_text created expires keyId algorithm nonce)"
proof -
  obtain names where n: "mapE quoted cs = Inr names"
    using component_lists_parse(1) [OF assms(1)] by (cases "mapE quoted cs") auto
  have "string_of_int created = string_of_nat (nat created)" "string_of_int expires = string_of_nat (nat expires)"
    using assms(4,5) by (simp_all add: string_of_int_def)
  with n show ?thesis
    by (simp add: serialized_parameters_def component_text_def quoted_token assms(2,3) algorithm_token parameter_text_def)
qed

lemma parameters_roundtrip:
  assumes "cs \<in> set component_lists" "token_like keyId" "token_like nonce" "0 \<le> created" "0 \<le> expires"
    "serialized_parameters cs created expires keyId algorithm nonce = Inr serialized"
  shows "parse_serialized serialized = Inr \<lparr>sg_components = cs, sg_created = created, sg_expires = expires, sg_keyId = keyId,
    sg_algorithm = algorithm, sg_nonce = nonce, sg_serialized = serialized\<rparr>"
proof -
  let ?rest = "CHR '';'' # parameter_text created expires keyId algorithm nonce"
  note c = component_lists_parse [OF assms(1)]
  have s: "serialized = CHR ''('' # component_text cs @ CHR '')'' # ?rest"
    using serialized_shape [OF assms(1-5)] assms(6) by simp
  have l: "takeWhile (\<lambda>c. c \<noteq> CHR '')'') (tl serialized) = component_text cs"
    "tl (dropWhile (\<lambda>c. c \<noteq> CHR '')'') serialized) = ?rest"
    using c(2) by (auto simp: s takeWhile_append dropWhile_append)
  obtain names where n: "mapE quoted cs = Inr names" using c(1) by (cases "mapE quoted cs") auto
  then have "joinWith '' '' names = component_text cs" by (simp add: component_text_def)
  moreover have "startsWith serialized ''(''" "CHR '')'' \<in> set serialized" by (simp_all add: s startsWith_def)
  ultimately show ?thesis
    using parameters_found [OF assms(2-5), where algorithm = algorithm] c(3,4) n
    by (simp add: parse_serialized_def l algorithm_token throwIf_simps Let_def)
qed

subsection \<open>A signed request verifies\<close>

lemma requestContent_set [simp]: "requestContent (wr_set n v r) = requestContent r"
  by (simp add: requestContent_def)

lemma unsigned_parts [simp]:
  "wr_method (agent_unsigned H r) = wr_method r" "wr_url (agent_unsigned H r) = wr_url r" "wr_body (agent_unsigned H r) = wr_body r"
  "requestContent (agent_unsigned H r) = requestContent r"
  "m \<noteq> ''content-digest'' \<Longrightarrow> wr_get (agent_unsigned H r) m = wr_get r m"
  "wr_body r \<noteq> None \<Longrightarrow> wr_get (agent_unsigned H r) ''content-digest'' = Some (contentDigest H (requestContent r))"
  by (auto simp: agent_unsigned_def)

definition same_components :: "WebRequest \<Rightarrow> WebRequest \<Rightarrow> bool" where
  "same_components a b \<longleftrightarrow> wr_method a = wr_method b \<and> wr_url a = wr_url b \<and> wr_body a = wr_body b \<and>
     (\<forall>h \<in> {''content-digest'', ''human-proof'', ''payment-signature''}. wr_get a h = wr_get b h)"

lemma same_components_base:
  assumes "same_components a b" "sg_components p \<in> set component_lists"
  shows "signatureComponents a = signatureComponents b" "signatureBase a p = signatureBase b p"
proof -
  show "signatureComponents a = signatureComponents b"
    using assms(1) by (simp add: signatureComponents_def same_components_def HUMAN_PROOF_HEADER_def)
  have "component_line a c = component_line b c" if "c \<in> set (sg_components p)" for c
  proof -
    from that assms(2) have "component_name c" using component_names by blast
    then have "componentValue a c = componentValue b c"
      by (cases rule: component_name_cases) (use assms(1) in \<open>simp_all add: componentValue_def same_components_def\<close>)
    then show ?thesis by (simp add: component_line_def)
  qed
  then have "mapE (component_line a) (sg_components p) = mapE (component_line b) (sg_components p)"
    by (intro mapE_cong) auto
  then show "signatureBase a p = signatureBase b p" by (simp add: signatureBase_def)
qed

lemma lifetime_of_bounds: "lifetime_of l = Inr n \<Longrightarrow> 1 \<le> n \<and> n \<le> 60"
  by (auto simp: lifetime_of_def split: option.splits jsnum.splits if_splits)

text \<open>
  A signed request verifies as its signer: the request that \<open>signX424AgentRequest\<close> returns is accepted, with its
  key identifier as binding, from its second of signing until the lifetime has passed (give or take the clock skew),
  by a verifier that resolves the signer's key, asks for no nonce or the signed one, and whose key verifies what the
  signer signs; key identifier and nonce are printable without quotes, backslashes and semicolons.
\<close>

lemma signed_request_verifies:
  assumes "signX424AgentRequest H request signer nonceOption random signedAt lifetimeSeconds = Inr sent"
    and token: "token_like (ag_keyId signer)" "token_like (case nonceOption of Some n \<Rightarrow> n | None \<Rightarrow> encodeStrictBase64Url random)"
    and key: "\<And>r. resolveKey (ag_keyId signer) (ag_algorithm signer) r = Inr (Some key)" "rk_keyId key = ag_keyId signer"
      "rk_algorithm key = ag_algorithm signer"
      "\<And>m s. ag_sign signer m = Inr s \<Longrightarrow> s \<noteq> [] \<and> rk_verify key m s = Inr True"
    and time: "0 \<le> signedAt" "lifetime_of lifetimeSeconds = Inr lifetime" "0 \<le> skew"
      "signedAt div 1000 - skew \<le> now div 1000" "now div 1000 \<le> signedAt div 1000 + lifetime + skew"
    and nonce: "expectedNonce = None \<or> expectedNonce = Some (case nonceOption of Some n \<Rightarrow> n | None \<Rightarrow> encodeStrictBase64Url random)"
  shows "verifyX424AgentRequest H sent resolveKey expectedNonce now (Some skew) =
    Inr \<lparr>b_kind = BindAgentKey, b_value = ag_keyId signer\<rparr>"
proof -
  let ?u = "agent_unsigned H request" and ?n = "case nonceOption of Some n \<Rightarrow> n | None \<Rightarrow> encodeStrictBase64Url random"
  let ?created = "signedAt div 1000" and ?expires = "signedAt div 1000 + lifetime"
  from assms(1) time(2) obtain p base signature where
    p: "agent_parameters H request (ag_keyId signer) (ag_algorithm signer) ?n ?created ?expires = Inr p"
    and b: "signatureBase ?u p = Inr base" and s: "ag_sign signer base = Inr signature"
    and sent: "sent = wr_set ''signature'' (X424_AGENT_SIGNATURE_LABEL @ ''=:'' @ toBase64 signature @ '':'')
      (wr_set ''signature-input'' (X424_AGENT_SIGNATURE_LABEL @ ''='' @ sg_serialized p) ?u)"
    by (auto simp: signX424AgentRequest_def Let_def bindE_eq_Inr)
  have l: "1 \<le> lifetime" "lifetime \<le> 60" "0 \<le> ?created" using lifetime_of_bounds [OF time(2)] time(1) by simp_all
  from p have pp: "sg_components p = signatureComponents ?u" "sg_created p = ?created" "sg_expires p = ?expires"
    "sg_keyId p = ag_keyId signer" "sg_algorithm p = ag_algorithm signer" "sg_nonce p = ?n"
    and ser: "serialized_parameters (signatureComponents ?u) ?created ?expires (ag_keyId signer) (ag_algorithm signer) ?n = Inr (sg_serialized p)"
    by (auto simp: agent_parameters_def Let_def bindE_eq_Inr)
  have "parse_serialized (sg_serialized p) = Inr p"
    using parameters_roundtrip [OF signatureComponents_listed token l(3) _ ser] l pp by simp
  then have parsed: "parseParameters sent = Inr p"
    by (simp add: parseParameters_def sent X424_AGENT_SIGNATURE_LABEL_def startsWith_def)
  have same: "same_components sent ?u" by (simp add: same_components_def sent)
  note sb = same_components_base [OF same, of p, unfolded pp(1), OF signatureComponents_listed]
  have "parseSignature sent = Inr signature"
    using base64_text_toBase64 [of signature] key(4) [OF s]
    by (simp add: parseSignature_def sent X424_AGENT_SIGNATURE_LABEL_def startsWith_def butlast_append)
  moreover have "wr_body sent \<noteq> None \<Longrightarrow> wr_get sent ''content-digest'' = Some (contentDigest H (requestContent sent))"
    by (simp add: sent)
  ultimately show ?thesis
    using l time(3-5) nonce key(4) [OF s]
    by (auto simp: verifyX424AgentRequest_def parsed Let_def pp sb key(1-3) b)
qed

subsection \<open>An accepted request was signed\<close>

record AgentSigned =
  sd_request :: WebRequest
  sd_keyId :: string
  sd_algorithm :: AgentSignatureAlgorithm
  sd_nonce :: string
  sd_created :: int
  sd_expires :: int

text \<open>The bytes an agent signs for a request.\<close>

definition agent_base :: "hash \<Rightarrow> AgentSigned \<Rightarrow> bytes res" where
  "agent_base H d = bindE (agent_parameters H (sd_request d) (sd_keyId d) (sd_algorithm d) (sd_nonce d) (sd_created d) (sd_expires d))
     (signatureBase (agent_unsigned H (sd_request d)))"

lemma signed_base:
  assumes "signX424AgentRequest H request signer nonceOption random now lifetimeSeconds = Inr sent"
  shows "\<exists>lifetime m s. lifetime_of lifetimeSeconds = Inr lifetime \<and> ag_sign signer m = Inr s \<and> agent_base H \<lparr>sd_request = request,
    sd_keyId = ag_keyId signer, sd_algorithm = ag_algorithm signer,
    sd_nonce = (case nonceOption of Some n \<Rightarrow> n | None \<Rightarrow> encodeStrictBase64Url random), sd_created = now div 1000,
    sd_expires = now div 1000 + lifetime\<rparr> = Inr m"
  using assms by (auto simp: signX424AgentRequest_def Let_def bindE_eq_Inr agent_base_def)

definition clean_agent_request :: "AgentSigned \<Rightarrow> bool" where
  "clean_agent_request d \<longleftrightarrow> token_like (sd_keyId d) \<and> token_like (sd_nonce d) \<and> 0 \<le> sd_created d \<and> 0 \<le> sd_expires d \<and>
     newline \<notin> set (wr_url (sd_request d)) \<and> newline \<notin> set (wr_method (sd_request d))"

lemma newline_lower:
  assumes "newline \<in> set (toLowerCase s)"
  shows "newline \<in> set s"
proof -
  from assms obtain c where c: "c \<in> set s" "(if is_upper_char c then char_of ((of_char c :: nat) + 32) else c) = newline"
    by (auto simp: toLowerCase_def)
  have "\<not> is_upper_char c"
  proof
    assume u: "is_upper_char c"
    then have "(of_char c :: nat) + 32 = of_char newline" using c(2) by (auto simp: is_upper_char_def dest!: arg_cong [where f = "of_char :: char \<Rightarrow> nat"])
    moreover have "(of_char newline :: nat) = 10" by code_simp
    ultimately show False using u by (simp add: is_upper_char_def)
  qed
  with c show ?thesis by simp
qed

lemma not_printable_newline: "\<not> is_printable newline" "\<not> is_digit_char newline"
  by code_simp+

lemma token_no_newline: "token_like s \<Longrightarrow> newline \<notin> set s"
  using not_printable_newline by (auto simp: token_like_def list_all_iff)

lemma component_text_no_newline: "cs \<in> set component_lists \<Longrightarrow> newline \<notin> set (component_text cs)"
proof -
  assume "cs \<in> set component_lists"
  moreover have "list_all (\<lambda>cs. newline \<notin> set (component_text cs)) component_lists" by code_simp
  ultimately show ?thesis by (metis list_all_iff)
qed

lemma serialized_no_newline:
  assumes "cs \<in> set component_lists" "token_like keyId" "token_like nonce" "0 \<le> created" "0 \<le> expires"
    "serialized_parameters cs created expires keyId algorithm nonce = Inr serialized"
  shows "newline \<notin> set serialized"
proof -
  have "newline \<notin> set (string_of_nat n)" for n
    using string_of_nat_digits [of n] not_printable_newline by (auto simp: list_all_iff)
  moreover have "serialized = CHR ''('' # component_text cs @ CHR '')'' # CHR '';'' # parameter_text created expires keyId algorithm nonce"
    using serialized_shape [OF assms(1-5)] assms(6) by simp
  ultimately show ?thesis
    using token_no_newline [OF assms(2)] token_no_newline [OF assms(3)] token_no_newline [OF algorithm_token(1)]
      component_text_no_newline [OF assms(1)]
    by (simp add: parameter_text_def) (simp add: newline_def)
qed

lemma component_line_no_newline:
  assumes "component_line r c = Inr l" "newline \<notin> set (wr_url r)" "newline \<notin> set (wr_method r)"
  shows "newline \<notin> set l"
proof -
  from assms(1) obtain n v where n: "quoted c = Inr n" and v: "componentValue r c = Inr v" and l: "l = n @ '': '' @ v"
    by (auto simp: component_line_def bindE_eq_Inr)
  have "newline \<notin> set n"
    using n not_printable_newline
    by (auto simp: quoted_def list_all_iff escape_char_def newline_def split: if_splits)
  moreover have "newline \<notin> set v"
    using v assms(2,3) newline_lower set_trim by (fastforce simp: componentValue_def split: if_splits option.splits)
  ultimately show ?thesis by (simp add: l newline_def)
qed

lemma signatureBase_determines:
  assumes "signatureBase a p = Inr m" "signatureBase b q = Inr m"
    and "newline \<notin> set (wr_url a)" "newline \<notin> set (wr_method a)" "newline \<notin> set (wr_url b)" "newline \<notin> set (wr_method b)"
    and "newline \<notin> set (sg_serialized p)" "newline \<notin> set (sg_serialized q)"
  shows "sg_serialized p = sg_serialized q"
    "mapE (component_line a) (sg_components p) = mapE (component_line b) (sg_components q)"
proof -
  let ?last = "\<lambda>p. [CHR 0x22] @ ''@signature-params'' @ [CHR 0x22] @ '': '' @ sg_serialized p"
  obtain la lb where la: "mapE (component_line a) (sg_components p) = Inr la" and lb: "mapE (component_line b) (sg_components q) = Inr lb"
    and m: "utf8_encode (joinWith [newline] (la @ [?last p])) = m" "utf8_encode (joinWith [newline] (lb @ [?last q])) = m"
    using assms(1,2) by (auto simp: signatureBase_def bindE_eq_Inr)
  have clean: "\<forall>l \<in> set ls. newline \<notin> set l"
    if "mapE (component_line r) cs = Inr ls" "newline \<notin> set (wr_url r)" "newline \<notin> set (wr_method r)" for r cs ls
  proof
    fix l assume "l \<in> set ls"
    with that(1) obtain c where "component_line r c = Inr l"
      by (induction cs arbitrary: ls) (auto simp: bindE_eq_Inr)
    then show "newline \<notin> set l" using component_line_no_newline that(2,3) by blast
  qed
  have "joinWith [newline] (la @ [?last p]) = joinWith [newline] (lb @ [?last q])" using m by (metis utf8_encode_inj)
  then have "la @ [?last p] = lb @ [?last q]"
    by (rule joinWith_inj [rotated -1]) (use clean [OF la assms(3,4)] clean [OF lb assms(5,6)] assms(7,8) in \<open>auto simp: newline_def\<close>)
  then show "sg_serialized p = sg_serialized q" "mapE (component_line a) (sg_components p) = mapE (component_line b) (sg_components q)"
    by (simp_all add: la lb)
qed

lemma contentDigest_trim: "trim (contentDigest H bs) = contentDigest H bs"
  by (rule trim_clean) (simp add: contentDigest_def is_trim_space_def)

lemma component_values:
  assumes "mapE (component_line a) cs = Inr ls" "mapE (component_line b) cs = Inr ls" "c \<in> set cs"
  shows "\<exists>v. componentValue a c = Inr v \<and> componentValue b c = Inr v"
proof -
  from assms have "\<exists>l. component_line a c = Inr l \<and> component_line b c = Inr l"
    by (induction cs arbitrary: ls) (auto simp: bindE_eq_Inr)
  then show ?thesis by (auto simp: component_line_def bindE_eq_Inr)
qed

lemma in_components:
  "''content-digest'' \<in> set (signatureComponents r) \<longleftrightarrow> wr_body r \<noteq> None"
  "''human-proof'' \<in> set (signatureComponents r) \<longleftrightarrow> wr_get r ''human-proof'' \<noteq> None"
  "''payment-signature'' \<in> set (signatureComponents r) \<longleftrightarrow> wr_get r ''payment-signature'' \<noteq> None"
  "''@method'' \<in> set (signatureComponents r)" "''@target-uri'' \<in> set (signatureComponents r)"
  by (simp_all add: signatureComponents_def HUMAN_PROOF_HEADER_def)

lemma header_value:
  "componentValue r h = Inr v \<Longrightarrow> h \<noteq> ''@method'' \<Longrightarrow> h \<noteq> ''@target-uri'' \<Longrightarrow> map_option trim (wr_get r h) = Some v"
  by (auto simp: componentValue_def split: option.splits if_splits)

lemma agent_base_InrE:
  assumes "agent_base H d = Inr m" "clean_agent_request d"
  obtains p where "signatureBase (agent_unsigned H (sd_request d)) p = Inr m" "parse_serialized (sg_serialized p) = Inr p"
    "newline \<notin> set (sg_serialized p)" "sg_components p = signatureComponents (agent_unsigned H (sd_request d))"
    "sg_keyId p = sd_keyId d" "sg_nonce p = sd_nonce d" "sg_created p = sd_created d" "sg_expires p = sd_expires d"
proof -
  let ?cs = "signatureComponents (agent_unsigned H (sd_request d))"
  from assms(2) have c: "token_like (sd_keyId d)" "token_like (sd_nonce d)" "0 \<le> sd_created d" "0 \<le> sd_expires d"
    by (simp_all add: clean_agent_request_def)
  from assms(1) obtain ser where
    ser: "serialized_parameters ?cs (sd_created d) (sd_expires d) (sd_keyId d) (sd_algorithm d) (sd_nonce d) = Inr ser"
    and b: "signatureBase (agent_unsigned H (sd_request d)) \<lparr>sg_components = ?cs, sg_created = sd_created d, sg_expires = sd_expires d,
      sg_keyId = sd_keyId d, sg_algorithm = sd_algorithm d, sg_nonce = sd_nonce d, sg_serialized = ser\<rparr> = Inr m"
    by (auto simp: agent_base_def agent_parameters_def Let_def bindE_eq_Inr)
  show thesis
    by (rule that [OF b]) (simp_all add: parameters_roundtrip [OF signatureComponents_listed c ser]
        serialized_no_newline [OF signatureComponents_listed c ser])
qed

lemma same_base_same_request:
  assumes b: "signatureBase q p = Inr m" "parse_serialized (sg_serialized p) = Inr p" "sg_components p = signatureComponents q"
    and q: "newline \<notin> set (wr_url q)" "newline \<notin> set (wr_method q)" "newline \<notin> set (sg_serialized p)"
    and digest: "wr_body q \<noteq> None \<longrightarrow> wr_get q ''content-digest'' = Some (contentDigest H (requestContent q))"
    and d: "agent_base H d = Inr m" "clean_agent_request d"
  shows "sg_keyId p = sd_keyId d \<and> sg_nonce p = sd_nonce d \<and> sg_created p = sd_created d \<and> sg_expires p = sd_expires d \<and>
    toLowerCase (wr_method q) = toLowerCase (wr_method (sd_request d)) \<and> wr_url q = wr_url (sd_request d) \<and>
    (wr_body q = wr_body (sd_request d) \<or> collides H (requestContent q) (requestContent (sd_request d))) \<and>
    map_option trim (wr_get q ''human-proof'') = map_option trim (wr_get (sd_request d) ''human-proof'') \<and>
    map_option trim (wr_get q ''payment-signature'') = map_option trim (wr_get (sd_request d) ''payment-signature'')"
proof -
  let ?r = "sd_request d" and ?u = "agent_unsigned H (sd_request d)"
  obtain p' where p': "signatureBase ?u p' = Inr m" "parse_serialized (sg_serialized p') = Inr p'"
    "newline \<notin> set (sg_serialized p')" "sg_components p' = signatureComponents ?u"
    "sg_keyId p' = sd_keyId d" "sg_nonce p' = sd_nonce d" "sg_created p' = sd_created d" "sg_expires p' = sd_expires d"
    using agent_base_InrE [OF d] by metis
  have u: "newline \<notin> set (wr_url ?u)" "newline \<notin> set (wr_method ?u)" using d(2) by (simp_all add: clean_agent_request_def)
  note det = signatureBase_determines [OF b(1) p'(1) q(1,2) u q(3) p'(3)]
  have eq: "p' = p" using p'(2) b(2) unfolding det(1) by (metis sum.inject(2))
  obtain ls where ls1: "mapE (component_line q) (sg_components p) = Inr ls"
    using b(1) by (auto simp: signatureBase_def bindE_eq_Inr)
  have ls2: "mapE (component_line ?u) (sg_components p) = Inr ls" using det(2) unfolding ls1 eq by simp
  note vals = component_values [OF ls1 ls2]
  have cs: "signatureComponents q = signatureComponents ?u" using p'(4) unfolding eq b(3) .
  have "''@method'' \<in> set (sg_components p)" "''@target-uri'' \<in> set (sg_components p)"
    by (simp_all add: b(3) in_components)
  from vals [OF this(1)] vals [OF this(2)]
  have m: "toLowerCase (wr_method q) = toLowerCase (wr_method ?r)" "wr_url q = wr_url ?r" by (simp_all add: componentValue_def)
  have has: "(wr_body q \<noteq> None) = (wr_body ?r \<noteq> None)" "(wr_get q ''human-proof'' \<noteq> None) = (wr_get ?r ''human-proof'' \<noteq> None)"
    "(wr_get q ''payment-signature'' \<noteq> None) = (wr_get ?r ''payment-signature'' \<noteq> None)"
    using in_components(1-3) [of q] in_components(1-3) [of ?u] unfolding cs by simp_all
  have body: "wr_body q = wr_body ?r \<or> collides H (requestContent q) (requestContent ?r)"
  proof (cases "wr_body q = None")
    case False
    then have "''content-digest'' \<in> set (sg_components p)" by (simp add: b(3) in_components)
    from vals [OF this] have "map_option trim (wr_get q ''content-digest'') = map_option trim (wr_get ?u ''content-digest'')"
      by (auto dest!: header_value)
    moreover have "wr_get q ''content-digest'' = Some (contentDigest H (requestContent q))" using digest False by blast
    moreover have "wr_get ?u ''content-digest'' = Some (contentDigest H (requestContent ?r))" using False has(1) by simp
    ultimately have "contentDigest H (requestContent q) = contentDigest H (requestContent ?r)" by (simp add: contentDigest_trim)
    then have "H (requestContent q) = H (requestContent ?r)" by (auto simp: contentDigest_def dest: toBase64_inj)
    moreover have "wr_body q = wr_body ?r" if "requestContent q = requestContent ?r"
      using that False has(1) by (auto simp: requestContent_def)
    ultimately show ?thesis by (auto simp: collides_def)
  qed (use has(1) in simp)
  have header: "map_option trim (wr_get q h) = map_option trim (wr_get ?r h)"
    if "h = ''human-proof'' \<or> h = ''payment-signature''" for h
  proof (cases "wr_get q h = None")
    case False
    with that have "h \<in> set (sg_components p)" by (auto simp only: b(3) in_components)
    from vals [OF this] that show ?thesis by (auto dest!: header_value)
  qed (use that has in auto)
  show ?thesis using p'(5-8) m body header unfolding eq by simp
qed

lemma parse_serialized_own: "parse_serialized s = Inr p \<Longrightarrow> sg_serialized p = s"
  by (auto simp: parse_serialized_def Let_def bindE_eq_Inr split: if_splits option.splits)

lemma verify_agent_InrE:
  assumes "verifyX424AgentRequest H q resolveKey expectedNonce nowMs (Some skew) = Inr b"
  obtains input p key m s where "wr_get q ''signature-input'' = Some input" "set (sg_serialized p) \<subseteq> set input"
    "parse_serialized (sg_serialized p) = Inr p" "sg_components p = signatureComponents q"
    "sg_created p \<le> nowMs div 1000 + skew" "nowMs div 1000 - skew \<le> sg_expires p"
    "expectedNonce = None \<or> expectedNonce = Some (sg_nonce p)"
    "wr_body q \<noteq> None \<longrightarrow> wr_get q ''content-digest'' = Some (contentDigest H (requestContent q))"
    "resolveKey (sg_keyId p) (sg_algorithm p) q = Inr (Some key)" "signatureBase q p = Inr m" "rk_verify key m s = Inr True"
    "b = \<lparr>b_kind = BindAgentKey, b_value = sg_keyId p\<rparr>"
proof -
  from assms obtain p where p: "parseParameters q = Inr p" by (auto simp: verifyX424AgentRequest_def bindE_eq_Inr)
  then obtain input where i: "wr_get q ''signature-input'' = Some input"
    "parse_serialized (drop (length X424_AGENT_SIGNATURE_LABEL + 1) input) = Inr p"
    by (auto simp: parseParameters_def split: option.splits if_splits)
  note own = parse_serialized_own [OF i(2)]
  have sub: "set (sg_serialized p) \<subseteq> set input" unfolding own by (rule set_drop_subset)
  from assms [unfolded verifyX424AgentRequest_def p Let_def bindE_Inr option.case if_split_asm [of "\<lambda>x. x = Inr b"]]
  obtain key m s where "\<not> (nowMs div 1000 + skew < sg_created p \<or> sg_expires p < nowMs div 1000 - skew \<or>
      sg_expires p \<le> sg_created p \<or> 60 < sg_expires p - sg_created p)"
    "\<not> (expectedNonce \<noteq> None \<and> Some (sg_nonce p) \<noteq> expectedNonce)" "sg_components p = signatureComponents q"
    "\<not> (wr_body q \<noteq> None \<and> wr_get q ''content-digest'' \<noteq> Some (contentDigest H (requestContent q)))"
    "resolveKey (sg_keyId p) (sg_algorithm p) q = Inr (Some key)" "signatureBase q p = Inr m" "rk_verify key m s = Inr True"
    "b = \<lparr>b_kind = BindAgentKey, b_value = sg_keyId p\<rparr>"
    by (auto simp: bindE_eq_Inr split: option.splits if_splits)
  then show thesis using that [OF i(1) sub, of key m s] i(2) unfolding own by auto
qed

text \<open>
  C22: An accepted agent request is one the agent signed: if the resolved key accepts only signatures of bytes that
  belong to signed requests, then some signed request has the accepted one's key identifier, method (up to case), URL,
  body (or the hash collides on the two bodies), human proof and payment signature, the expected nonce, and a lifetime
  that contains this second, give or take the skew.
\<close>

theorem agent_request_authentic:
  assumes "verifyX424AgentRequest H q resolveKey expectedNonce nowMs (Some skew) = Inr b"
    and unforgeable: "\<And>k a key m s. resolveKey k a q = Inr (Some key) \<Longrightarrow> rk_verify key m s = Inr True \<Longrightarrow>
      \<exists>d \<in> issued. agent_base H d = Inr m"
    and clean: "\<forall>d \<in> issued. clean_agent_request d"
    and lines: "newline \<notin> set (wr_url q)" "newline \<notin> set (wr_method q)"
      "\<forall>v. wr_get q ''signature-input'' = Some v \<longrightarrow> newline \<notin> set v"
  shows "\<exists>d \<in> issued. b = \<lparr>b_kind = BindAgentKey, b_value = sd_keyId d\<rparr> \<and>
    (expectedNonce = None \<or> expectedNonce = Some (sd_nonce d)) \<and>
    sd_created d \<le> nowMs div 1000 + skew \<and> nowMs div 1000 - skew \<le> sd_expires d \<and>
    toLowerCase (wr_method q) = toLowerCase (wr_method (sd_request d)) \<and> wr_url q = wr_url (sd_request d) \<and>
    (wr_body q = wr_body (sd_request d) \<or> collides H (requestContent q) (requestContent (sd_request d))) \<and>
    map_option trim (wr_get q ''human-proof'') = map_option trim (wr_get (sd_request d) ''human-proof'') \<and>
    map_option trim (wr_get q ''payment-signature'') = map_option trim (wr_get (sd_request d) ''payment-signature'')"
proof -
  obtain input p key m s where i: "wr_get q ''signature-input'' = Some input" "set (sg_serialized p) \<subseteq> set input"
    and p: "parse_serialized (sg_serialized p) = Inr p" "sg_components p = signatureComponents q"
    and t: "sg_created p \<le> nowMs div 1000 + skew" "nowMs div 1000 - skew \<le> sg_expires p"
      "expectedNonce = None \<or> expectedNonce = Some (sg_nonce p)"
    and digest: "wr_body q \<noteq> None \<longrightarrow> wr_get q ''content-digest'' = Some (contentDigest H (requestContent q))"
    and key: "resolveKey (sg_keyId p) (sg_algorithm p) q = Inr (Some key)" "rk_verify key m s = Inr True"
    and base: "signatureBase q p = Inr m" and b: "b = \<lparr>b_kind = BindAgentKey, b_value = sg_keyId p\<rparr>"
    using verify_agent_InrE [OF assms(1)] by metis
  obtain d where d: "d \<in> issued" "agent_base H d = Inr m" using unforgeable [OF key] by blast
  have "newline \<notin> set (sg_serialized p)" using i lines(3) by blast
  note same = same_base_same_request [OF base p lines(1,2) this digest d(2) clean [rule_format, OF d(1)]]
  show ?thesis using d(1) same t b by (intro bexI [of _ d]) simp_all
qed

subsection \<open>A sample agent\<close>

definition sample_agent_request :: WebRequest where
  "sample_agent_request = \<lparr>wr_method = ''POST'', wr_url = ''https://a/'', wr_headers = [(''human-proof'', ''p'')], wr_body = Some [1, 2],
     wr_redirect = ''follow'', wr_credentials = ''same-origin'', wr_cache = ''default''\<rparr>"

definition sample_agent_hash :: hash where
  "sample_agent_hash bs = replicate 32 (of_nat (length bs))"

definition sample_signer :: AgentRequestSigner where
  "sample_signer = \<lparr>ag_keyId = ''k'', ag_algorithm = Ed25519, ag_sign = (\<lambda>m. Inr [7])\<rparr>"

definition sample_signed_request :: WebRequest where
  "sample_signed_request = (case signX424AgentRequest sample_agent_hash sample_agent_request sample_signer (Some ''dep'') [] 5000 None of
     Inr r \<Rightarrow> r | Inl e \<Rightarrow> sample_agent_request)"

definition sample_signing :: AgentSigned where
  "sample_signing = \<lparr>sd_request = sample_agent_request, sd_keyId = ''k'', sd_algorithm = Ed25519, sd_nonce = ''dep'', sd_created = 5,
     sd_expires = 65\<rparr>"

definition sample_resolver :: AgentKeyResolver where
  "sample_resolver = (\<lambda>k a r. Inr (Some \<lparr>rk_keyId = ''k'', rk_algorithm = Ed25519,
     rk_verify = (\<lambda>m s. Inr (agent_base sample_agent_hash sample_signing = Inr m))\<rparr>))"

lemma sample_signed: "signX424AgentRequest sample_agent_hash sample_agent_request sample_signer (Some ''dep'') [] 5000 None =
    Inr sample_signed_request"
proof -
  have "case signX424AgentRequest sample_agent_hash sample_agent_request sample_signer (Some ''dep'') [] 5000 None of
      Inr r \<Rightarrow> True | Inl e \<Rightarrow> False"
    by code_simp
  then show ?thesis by (auto simp: sample_signed_request_def split: sum.splits)
qed

theorem agent_request_authentic_witness:
  "wr_url sample_signed_request = wr_url (sd_request sample_signing)"
proof -
  have v: "verifyX424AgentRequest sample_agent_hash sample_signed_request sample_resolver (Some ''dep'') 65000 (Some 5) =
      Inr \<lparr>b_kind = BindAgentKey, b_value = ''k''\<rparr>"
    by code_simp
  have l: "newline \<notin> set (wr_url sample_signed_request)" "newline \<notin> set (wr_method sample_signed_request)"
    "case wr_get sample_signed_request ''signature-input'' of None \<Rightarrow> True | Some v \<Rightarrow> newline \<notin> set v"
    by code_simp+
  have c: "clean_agent_request sample_signing" by code_simp
  have u: "\<exists>d \<in> {sample_signing}. agent_base sample_agent_hash d = Inr m"
    if "sample_resolver k a sample_signed_request = Inr (Some key)" "rk_verify key m s = Inr True" for k a key m s
    using that by (auto simp: sample_resolver_def)
  have "\<exists>d \<in> {sample_signing}. wr_url sample_signed_request = wr_url (sd_request d)"
    using agent_request_authentic [where issued = "{sample_signing}", OF v u] c l by (auto split: option.splits)
  then show ?thesis by simp
qed

end
