(* ===== verification/Clients.thy ===== *)
theory Clients
  imports FetchApi Catalog
begin

section \<open>HTTP clients (src/client.ts, src/x402.ts)\<close>

text \<open>
  A client that satisfies one human dependency, one that satisfies a human and then a payment dependency, the resolver
  that submits a provider's proof to a verifier, and the adapters of the official payment client.  The dependency
  resolvers are operations over a world, \<open>new URL(path, base)\<close> is a parameter.
\<close>

definition HUMAN_RESULT_HEADER :: string where "HUMAN_RESULT_HEADER = ''human-result''"
definition PAYMENT_SIGNATURE_HEADER :: string where "PAYMENT_SIGNATURE_HEADER = ''payment-signature''"

type_synonym url_resolver = "string \<Rightarrow> Url \<Rightarrow> Url option"

text \<open>\<open>encodeURIComponent\<close>: all but the unreserved characters as percent-encoded UTF-8.\<close>

definition is_unreserved_char :: "char \<Rightarrow> bool" where
  "is_unreserved_char c \<longleftrightarrow> is_upper_char c \<or> is_lower_char c \<or> is_digit_char c \<or> c \<in> set ''-_.!~*()'' \<or> c = CHR 0x27"

definition upper_hex :: "nat \<Rightarrow> char" where
  "upper_hex n = (if n < 10 then char_of (48 + n) else char_of (55 + n))"

definition percent_encode :: "8 word \<Rightarrow> string" where
  "percent_encode b = [CHR ''%'', upper_hex (unat b div 16), upper_hex (unat b mod 16)]"

definition encodeURIComponent :: "string \<Rightarrow> string" where
  "encodeURIComponent s = concat (map (\<lambda>c. if is_unreserved_char c then [c] else concat (map percent_encode (utf8_encode [c]))) s)"

text \<open>\<open>if (!base.pathname.endsWith("/")) base.pathname += "/"\<close>.\<close>

definition with_slash :: "Url \<Rightarrow> Url" where
  "with_slash base = (if endsWith (u_pathname base) ''/'' then base else base\<lparr>u_pathname := u_pathname base @ ''/''\<rparr>)"

definition resolve_URL :: "url_resolver \<Rightarrow> string \<Rightarrow> Url \<Rightarrow> Url res" where
  "resolve_URL resolve path base = (case resolve path base of None \<Rightarrow> Inl (TypeError ''Invalid URL'') | Some u \<Rightarrow> Inr u)"

subsection \<open>Submitting a provider's proof\<close>

record ProviderProofResolution =
  pv_providerId :: string
  pv_methodId :: string
  pv_descriptorVersion :: string
  pv_nativeProof :: js

record 'w HttpHumanDependencyResolverOptions =
  ho_web :: "'w Web"
  ho_resolveUrl :: url_resolver
  ho_verifierUrl :: string
  ho_resolveProviderProof :: "HumanRequirement \<Rightarrow> ('w, ProviderProofResolution) io"
  ho_headers :: "('w, (string \<times> string) list) io"
  ho_allowHttpLocalhost :: bool

definition accepts_resolution :: "HumanRequirement \<Rightarrow> ProviderProofResolution \<Rightarrow> bool" where
  "accepts_resolution requirement resolved \<longleftrightarrow>
     list_ex (\<lambda>m. methodKey (m_providerId m) (m_methodId m) = methodKey (pv_providerId resolved) (pv_methodId resolved) \<and>
       m_descriptorVersion m = pv_descriptorVersion resolved) (rq_accepts requirement)"

definition submission_body :: "HumanRequirement \<Rightarrow> ProviderProofResolution \<Rightarrow> js" where
  "submission_body requirement resolved = JObj [(''x424Version'', JStr X424_VERSION),
     (''dependencyId'', JStr (rq_dependencyId requirement)), (''providerId'', JStr (pv_providerId resolved)),
     (''methodId'', JStr (pv_methodId resolved)), (''binding'', js_of_binding (rq_binding requirement)),
     (''nativeProof'', pv_nativeProof resolved)]"

definition submission_endpoint :: "'w HttpHumanDependencyResolverOptions \<Rightarrow> HumanRequirement \<Rightarrow> Url res" where
  "submission_endpoint options requirement =
     bindE (assertTrustedHttpsUrl (wb_url (ho_web options)) (ho_verifierUrl options) (ho_allowHttpLocalhost options)) (\<lambda>base.
     resolve_URL (ho_resolveUrl options) (''v1/requirements/'' @ encodeURIComponent (rq_dependencyId requirement) @ ''/verify'')
       (with_slash base))"

definition submission_request :: "Url \<Rightarrow> (string \<times> string) list \<Rightarrow> js \<Rightarrow> WebRequest" where
  "submission_request endpoint configuredHeaders body =
     \<lparr>wr_method = ''POST'', wr_url = u_href endpoint,
      wr_headers = AList.update ''content-type'' ''application/json'' configuredHeaders,
      wr_body = Some (utf8_encode (stringify body)), wr_redirect = ''manual'', wr_credentials = ''omit'', wr_cache = ''no-store''\<rparr>"

definition submission_answer :: "'w Web \<Rightarrow> Url \<Rightarrow> WebResponse \<Rightarrow> string res" where
  "submission_answer web endpoint response =
     (if we_type response = ''opaqueredirect'' then Inl (Error ''x424 refuses opaque redirects during verifier submission'')
      else if we_status response \<in> set REDIRECT_STATUSES
      then Inl (Error (if isCrossOriginRedirect (wb_url web) (u_href endpoint) (we_get response ''location'')
        then ''x424 refuses cross-origin redirect during verifier submission''
        else ''x424 refuses redirects during verifier proof submission''))
      else bindE (new_URL (wb_url web) (response_url response (u_href endpoint))) (\<lambda>answered.
        if u_origin answered \<noteq> u_origin endpoint then Inl (Error ''Verifier response origin does not match configured verifier'')
        else if \<not> (200 \<le> we_status response \<and> we_status response \<le> 299)
        then Inl (Error (''x424 verifier rejected the proof ('' @ string_of_int (we_status response) @ '')''))
        else case we_get response HUMAN_RESULT_HEADER of
          None \<Rightarrow> Inl (Error ''x424 verifier omitted HUMAN-RESULT'')
        | Some humanProof \<Rightarrow> if humanProof = [] then Inl (Error ''x424 verifier omitted HUMAN-RESULT'') else Inr humanProof))"

definition createHttpHumanDependencyResolver ::
  "'w HttpHumanDependencyResolverOptions \<Rightarrow> HumanRequirement \<Rightarrow> ('w, string) io" where
  "createHttpHumanDependencyResolver options requirement =
     io_bind (ho_resolveProviderProof options requirement) (\<lambda>resolved.
     if \<not> accepts_resolution requirement resolved
     then io_throw (Error ''Provider resolver selected an unaccepted human method'')
     else io_bind (io_lift (submission_endpoint options requirement)) (\<lambda>endpoint.
       io_bind (ho_headers options) (\<lambda>configuredHeaders.
       io_bind (wb_fetch (ho_web options) (submission_request endpoint configuredHeaders (submission_body requirement resolved))) (\<lambda>response.
       io_lift (submission_answer (ho_web options) endpoint response)))))"

subsection \<open>One dependency\<close>

record 'w X424FetchOptions =
  xo_web :: "'w Web"
  xo_resolveHumanDependency :: "HumanRequirement \<Rightarrow> WebResponse \<Rightarrow> ('w, string) io"

definition json_content :: "WebResponse \<Rightarrow> bool" where
  "json_content response = (case we_get response ''content-type'' of None \<Rightarrow> False
     | Some contentType \<Rightarrow> contains_text contentType ''application/problem+json'' \<or> contains_text contentType ''application/json'')"

text \<open>The requirement of a 424 response, \<open>None\<close> when it is none a resolver should see.\<close>

definition challenge_requirement :: "'w Web \<Rightarrow> WebResponse \<Rightarrow> HumanRequirement option" where
  "challenge_requirement web response =
     (let header = we_get response HUMAN_REQUIRED_HEADER;
          json = (if json_content response then response_body_json web response else None)
      in if json = None \<and> \<not> present header then None
         else case requirementFromChallenge (wb_zod web) (Some (we_get response))
                (case json of None \<Rightarrow> JNull | Some body \<Rightarrow> body) of
           Inl _ \<Rightarrow> None | Inr requirement \<Rightarrow> Some requirement)"

definition names_request :: "'w Web \<Rightarrow> WebRequest \<Rightarrow> WebResponse \<Rightarrow> HumanRequirement \<Rightarrow> unit res" where
  "names_request web request response requirement =
     assertChallengeRequestMatch (wb_url web) (wr_method request) (wr_url request) (response_url response (wr_url request))
       (pr_method (rq_resource requirement)) (pr_uri (rq_resource requirement))"

definition valid_humanProof :: "string \<Rightarrow> bool" where
  "valid_humanProof humanProof \<longleftrightarrow> humanProof \<noteq> [] \<and> length humanProof \<le> 65536"

definition manually :: "WebRequest \<Rightarrow> WebRequest" where
  "manually request = request\<lparr>wr_redirect := ''manual''\<rparr>"

definition refuse_redirect :: "'w Web \<Rightarrow> WebRequest \<Rightarrow> WebResponse \<Rightarrow> unit res" where
  "refuse_redirect web firstRequest firstResponse =
     (if isCrossOriginRedirect (wb_url web) (wr_url firstRequest) (we_get firstResponse ''location'')
      then Inl (Error ''x424 refuses cross-origin redirect during challenge'')
      else if we_type firstResponse = ''opaqueredirect'' then Inl (Error ''x424 refuses opaque redirects during challenge'')
      else throwIf (we_status firstResponse \<in> set REDIRECT_STATUSES)
        (Error ''x424 refuses redirects during challenge detection''))"

definition answer_challenge ::
  "'w X424FetchOptions \<Rightarrow> WebRequest \<Rightarrow> WebResponse \<Rightarrow> HumanRequirement \<Rightarrow> ('w, string) io" where
  "answer_challenge options request response requirement =
     io_bind (xo_resolveHumanDependency options requirement response) (\<lambda>humanProof.
     if valid_humanProof humanProof then io_return humanProof
     else io_throw (Error ''Human dependency resolver returned an invalid proof''))"

definition fetchWithX424 :: "'w X424FetchOptions \<Rightarrow> WebRequest \<Rightarrow> bool \<Rightarrow> ('w, WebResponse) io" where
  "fetchWithX424 options firstRequest cloneable =
     (if \<not> cloneable
      then io_throw (Error ''Request body is not replayable; supply a cloneable body or precomputed digest'')
      else io_bind (wb_fetch (xo_web options) (manually firstRequest)) (\<lambda>firstResponse.
        io_bind (io_lift (refuse_redirect (xo_web options) firstRequest firstResponse)) (\<lambda>_.
        if we_status firstResponse \<noteq> 424 \<or> wr_get firstRequest HUMAN_PROOF_HEADER \<noteq> None then io_return firstResponse
        else case challenge_requirement (xo_web options) firstResponse of
          None \<Rightarrow> io_return firstResponse
        | Some requirement \<Rightarrow>
            io_bind (io_lift (names_request (xo_web options) firstRequest firstResponse requirement)) (\<lambda>_.
            io_bind (answer_challenge options firstRequest firstResponse requirement) (\<lambda>humanProof.
            wb_fetch (xo_web options) (manually (wr_set HUMAN_PROOF_HEADER humanProof firstRequest)))))))"

subsection \<open>A dependency before a payment\<close>

record 'w PaymentDependencyResolution =
  pd_paymentSignature :: string
  pd_processResponse :: "(WebResponse \<Rightarrow> ('w, unit) io) option"

type_synonym 'w PaymentDependencyResolver = "WebResponse \<Rightarrow> WebRequest \<Rightarrow> ('w, 'w PaymentDependencyResolution) io"

definition assertNoRedirect :: "'w Web \<Rightarrow> WebRequest \<Rightarrow> WebResponse \<Rightarrow> unit res" where
  "assertNoRedirect web request response =
     throwIf (redirects web request response) (Error ''x424/x402 refuses redirects during dependency resolution'')"

definition fetch_checked :: "'w Web \<Rightarrow> WebRequest \<Rightarrow> ('w, WebResponse) io" where
  "fetch_checked web request = io_bind (wb_fetch web request) (\<lambda>response.
     io_bind (io_lift (assertNoRedirect web request response)) (\<lambda>_. io_return response))"

text \<open>The human part: an answer for the caller, or the request last sent, its response and the proof of this call.\<close>

datatype x402_stage = Finished WebResponse | Proceed WebRequest WebResponse "string option"

definition x402_humanity ::
  "'w X424FetchOptions \<Rightarrow> WebRequest \<Rightarrow> WebRequest \<Rightarrow> ('w, x402_stage) io" where
  "x402_humanity options first second =
     io_bind (fetch_checked (xo_web options) (manually first)) (\<lambda>response.
     if we_status response \<noteq> 424 then io_return (Proceed first response None)
     else if wr_get first HUMAN_PROOF_HEADER \<noteq> None then io_return (Finished response)
     else case challenge_requirement (xo_web options) response of
       None \<Rightarrow> io_return (Finished response)
     | Some requirement \<Rightarrow>
         io_bind (io_lift (names_request (xo_web options) first response requirement)) (\<lambda>_.
         io_bind (answer_challenge options first response requirement) (\<lambda>humanProof.
         let currentRequest = manually (wr_set HUMAN_PROOF_HEADER humanProof second)
         in io_bind (fetch_checked (xo_web options) currentRequest) (\<lambda>response'.
            io_return (Proceed currentRequest response' (Some humanProof))))))"

definition x402_payment ::
  "'w X424FetchOptions \<Rightarrow> 'w PaymentDependencyResolver \<Rightarrow> WebRequest \<Rightarrow> WebRequest \<Rightarrow> WebResponse \<Rightarrow> string option \<Rightarrow>
   ('w, WebResponse) io" where
  "x402_payment options resolvePayment third currentRequest response humanProof =
     (if we_status response \<noteq> 402 then io_return response
      else case (case humanProof of Some p \<Rightarrow> Some p | None \<Rightarrow> wr_get currentRequest HUMAN_PROOF_HEADER) of
        None \<Rightarrow> io_throw (Error ''Server evaluated x402 before the x424 dependency'')
      | Some proof \<Rightarrow>
          io_bind (resolvePayment response currentRequest) (\<lambda>payment.
          if pd_paymentSignature payment = [] \<or> 65536 < length (pd_paymentSignature payment)
          then io_throw (Error ''Payment dependency resolver returned an invalid signature'')
          else let finalRequest = manually (wr_set PAYMENT_SIGNATURE_HEADER (pd_paymentSignature payment)
                     (wr_set HUMAN_PROOF_HEADER proof third))
            in io_bind (fetch_checked (xo_web options) finalRequest) (\<lambda>finalResponse.
               io_bind (case pd_processResponse payment of None \<Rightarrow> io_return () | Some process \<Rightarrow> process finalResponse) (\<lambda>_.
               io_return finalResponse))))"

definition fetchWithX424AndX402 ::
  "'w X424FetchOptions \<Rightarrow> 'w PaymentDependencyResolver \<Rightarrow> 'w body_factory option \<Rightarrow> WebRequest \<Rightarrow> bool \<Rightarrow> ('w, WebResponse) io" where
  "fetchWithX424AndX402 options resolvePayment bodyFactory seed cloneable =
     io_bind (request_copies seed (wr_cache seed) ''Request body is not replayable across x424/x402; supply bodyFactory''
       cloneable bodyFactory) (\<lambda>(first, second, third).
     io_bind (x402_humanity options first second) (\<lambda>stage. case stage of
       Finished response \<Rightarrow> io_return response
     | Proceed currentRequest response humanProof \<Rightarrow>
         x402_payment options resolvePayment third currentRequest response humanProof))"

subsection \<open>The official payment client\<close>

record ('w, 'r, 'p) OfficialX402 =
  oc_createPaymentPayload :: "'r \<Rightarrow> ('w, 'p) io"
  oc_getPaymentRequiredResponse :: "(string \<Rightarrow> string option) \<Rightarrow> js \<Rightarrow> 'r res"
  oc_encodePaymentSignatureHeader :: "'p \<Rightarrow> (string \<times> string) list res"
  oc_processPaymentResult :: "('p \<Rightarrow> (string \<Rightarrow> string option) \<Rightarrow> int \<Rightarrow> ('w, unit) io) option"

definition createOfficialX402PaymentResolver ::
  "'w Web \<Rightarrow> ('w, 'r, 'p) OfficialX402 \<Rightarrow> 'w PaymentDependencyResolver" where
  "createOfficialX402PaymentResolver web official response request =
     (let text_bytes = concat (case we_body response of None \<Rightarrow> [] | Some chunks \<Rightarrow> chunks);
          body = (if text_bytes = [] then JUndefined else case wb_json web text_bytes of None \<Rightarrow> JUndefined | Some v \<Rightarrow> v)
      in io_bind (io_lift (oc_getPaymentRequiredResponse official (we_get response) body)) (\<lambda>required.
         io_bind (oc_createPaymentPayload official required) (\<lambda>payload.
         io_bind (io_lift (oc_encodePaymentSignatureHeader official payload)) (\<lambda>headers.
         case find (\<lambda>(name, _). toLowerCase name = PAYMENT_SIGNATURE_HEADER) headers of
           None \<Rightarrow> io_throw (Error ''Official x402 client omitted PAYMENT-SIGNATURE'')
         | Some (_, paymentSignature) \<Rightarrow>
             if paymentSignature = [] then io_throw (Error ''Official x402 client omitted PAYMENT-SIGNATURE'')
             else io_return \<lparr>pd_paymentSignature = paymentSignature, pd_processResponse =
               (case oc_processPaymentResult official of None \<Rightarrow> None
                | Some process \<Rightarrow> Some (\<lambda>paymentResponse.
                    process payload (we_get paymentResponse) (we_status paymentResponse)))\<rparr>))))"

subsection \<open>Gates\<close>

type_synonym 'w FetchDependencyGate = "WebRequest \<Rightarrow> ('w, WebResponse option) io"

definition composeFetchX424BeforeX402 :: "'w FetchDependencyGate \<Rightarrow> 'w FetchDependencyGate \<Rightarrow> 'w FetchDependencyGate" where
  "composeFetchX424BeforeX402 humanity payment request =
     io_bind (humanity request) (\<lambda>humanResponse. case humanResponse of
       Some response \<Rightarrow> io_return (Some response) | None \<Rightarrow> payment request)"

end
