(* ===== verification/AgentClient.thy ===== *)
theory AgentClient
  imports AgentSignature Clients HandoffService
begin

section \<open>The agent client (src/agent.ts)\<close>

text \<open>
  One call of an agent: send a signed request, have a challenged dependency satisfied through a handoff, send again with
  the proof and, when asked to pay, once more with the payment.  The handoff client, the presenter, the payment resolver
  and the timer are operations over a world; the timer says whether the delay passed or the signal fired before.
  Waiting for the handoff is a loop without a bound of its own: \<open>None\<close> is a wait that never ends.
\<close>

datatype HumanHandoffEvent =
    ActionRequiredEvent string string string HandoffPresentation IsoTimestamp
  | WaitingEvent string
  | CompletedEvent string
  | FailedEvent string string
  | ExpiredEvent string
  | CancelledEvent string

record 'w AgentHandoffClient =
  hn_startHandoff :: "StartHumanHandoffInput \<Rightarrow> ('w, StartedHumanHandoff) io"
  hn_getHandoff :: "string \<Rightarrow> string \<Rightarrow> ('w, HumanHandoffView) io"
  hn_cancelHandoff :: "string \<Rightarrow> string \<Rightarrow> ('w, unit) io"

record 'w X424AgentClientOptions =
  ao_web :: "'w Web"
  ao_hash :: hash
  ao_signer :: AgentRequestSigner
  ao_handoffs :: "'w AgentHandoffClient"
  ao_presenter :: "(HumanHandoffEvent \<Rightarrow> ('w, unit) io) option"
  ao_selectMethod :: "(HumanRequirement \<Rightarrow> string \<times> string) option"
  ao_payment :: "'w PaymentDependencyResolver option"
  ao_bodyFactory :: "'w body_factory option"
  ao_aborted :: "'w \<Rightarrow> bool"
  ao_timer :: "jsnum \<Rightarrow> ('w, bool) io"

definition present_event :: "'w X424AgentClientOptions \<Rightarrow> HumanHandoffEvent \<Rightarrow> ('w, unit) io" where
  "present_event options event = (case ao_presenter options of None \<Rightarrow> io_return () | Some show_event \<Rightarrow> show_event event)"

subsection \<open>Waiting\<close>

definition delay :: "'w X424AgentClientOptions \<Rightarrow> jsnum \<Rightarrow> ('w, unit) io" where
  "delay options ms = io_bind (ao_timer options ms) (\<lambda>elapsed.
     if elapsed then io_return () else io_throw (Error ''Human handoff was cancelled''))"

fun terminal_event :: "HumanHandoffView \<Rightarrow> string \<Rightarrow> HumanHandoffEvent" where
  "terminal_event (CompletedView _ _ _) handoffId = CompletedEvent handoffId"
| "terminal_event (FailedView _ code _) handoffId = FailedEvent handoffId code"
| "terminal_event (EndedView _ status _) handoffId =
     (if status = HsCancelled then CancelledEvent handoffId else ExpiredEvent handoffId)"
| "terminal_event (PendingView _ _ _) handoffId = WaitingEvent handoffId"

text \<open>One turn of the loop: \<open>Some\<close> the view that ends it, or \<open>None\<close> after the delay.\<close>

definition wait_turn :: "'w X424AgentClientOptions \<Rightarrow> StartedHumanHandoff \<Rightarrow> ('w, HumanHandoffView option) io" where
  "wait_turn options started = (\<lambda>w.
     if ao_aborted options w
     then io_bind (present_event options (CancelledEvent (sd_handoffId started)))
       (\<lambda>_. io_throw (Error ''Human handoff was cancelled'')) w
     else io_bind (hn_getHandoff (ao_handoffs options) (sd_handoffId started) (sd_accessToken started)) (\<lambda>view.
       case view of
         PendingView _ pollAfterMs _ \<Rightarrow>
           io_bind (present_event options (WaitingEvent (sd_handoffId started))) (\<lambda>_.
           io_bind (delay options (clamp_poll_delay (Some pollAfterMs))) (\<lambda>_. io_return None))
       | _ \<Rightarrow> io_bind (present_event options (terminal_event view (sd_handoffId started))) (\<lambda>_. io_return (Some view))) w)"

partial_function (option) waitForHandoff ::
  "'w X424AgentClientOptions \<Rightarrow> StartedHumanHandoff \<Rightarrow> 'w \<Rightarrow> (HumanHandoffView res \<times> 'w) option" where
  "waitForHandoff options started w = (case wait_turn options started w of
     (Inl e, w') \<Rightarrow> Some (Inl e, w')
   | (Inr (Some view), w') \<Rightarrow> Some (Inr view, w')
   | (Inr None, w') \<Rightarrow> waitForHandoff options started w')"

declare waitForHandoff.simps [code]

subsection \<open>The parts of a call\<close>

definition assertAgentNoRedirect :: "'w Web \<Rightarrow> WebRequest \<Rightarrow> WebResponse \<Rightarrow> unit res" where
  "assertAgentNoRedirect web request response =
     throwIf (redirects web request response) (Error ''x424 agent client refuses redirects'')"

definition agentRequirementFromResponse :: "'w Web \<Rightarrow> WebRequest \<Rightarrow> WebResponse \<Rightarrow> HumanRequirement option" where
  "agentRequirementFromResponse web request response =
     (let header = we_get response HUMAN_REQUIRED_HEADER; json = response_body_json web response
      in if json = None \<and> \<not> present header then None
         else case bindE (requirementFromChallenge (wb_zod web) (Some (we_get response))
                     (case json of None \<Rightarrow> JNull | Some body \<Rightarrow> body)) (\<lambda>requirement.
                   bindE (assertChallengeRequestMatch (wb_url web) (wr_method request) (wr_url request)
                     (response_url response (wr_url request)) (pr_method (rq_resource requirement))
                     (pr_uri (rq_resource requirement))) (\<lambda>_. Inr requirement)) of
           Inl _ \<Rightarrow> None | Inr requirement \<Rightarrow> Some requirement)"

definition agentRequestCopies ::
  "WebRequest \<Rightarrow> bool \<Rightarrow> 'w body_factory option \<Rightarrow> ('w, WebRequest \<times> WebRequest \<times> WebRequest) io" where
  "agentRequestCopies seed cloneable bodyFactory =
     request_copies seed ''default'' ''Agent request body is not replayable; supply bodyFactory'' cloneable bodyFactory"

definition randomUUIDLike :: "bytes \<Rightarrow> string" where
  "randomUUIDLike random = ''x424-operation-'' @ encodeStrictBase64Url random"

definition safe_http_methods :: "string list" where
  "safe_http_methods = [''GET'', ''HEAD'', ''OPTIONS'']"

definition with_idempotency_key ::
  "'w Web \<Rightarrow> WebRequest \<times> WebRequest \<times> WebRequest \<Rightarrow> ('w, WebRequest \<times> WebRequest \<times> WebRequest) io" where
  "with_idempotency_key web requests = (case requests of (first, second, third) \<Rightarrow>
     if wr_method first \<notin> set safe_http_methods \<and> wr_get first ''idempotency-key'' = None
     then io_bind (wb_random web 18) (\<lambda>random.
       let seedHeaders = wr_headers (wr_set ''idempotency-key'' (randomUUIDLike random) first)
       in io_return (first\<lparr>wr_headers := seedHeaders\<rparr>, second\<lparr>wr_headers := seedHeaders\<rparr>, third\<lparr>wr_headers := seedHeaders\<rparr>))
     else io_return requests)"

text \<open>\<open>signX424AgentRequest\<close> with the clock and the random nonce it reads by default.\<close>

definition sign_now :: "'w X424AgentClientOptions \<Rightarrow> WebRequest \<Rightarrow> string option \<Rightarrow> ('w, WebRequest) io" where
  "sign_now options request nonce =
     io_bind (wb_clock (ao_web options)) (\<lambda>now.
     io_bind (case nonce of None \<Rightarrow> wb_random (ao_web options) 16 | Some _ \<Rightarrow> io_return []) (\<lambda>random.
     io_lift (signX424AgentRequest (ao_hash options) request (ao_signer options) nonce random now None)))"

definition send_checked :: "'w X424AgentClientOptions \<Rightarrow> WebRequest \<Rightarrow> ('w, WebResponse) io" where
  "send_checked options current = io_bind (wb_fetch (ao_web options) current) (\<lambda>response.
     io_bind (io_lift (assertAgentNoRedirect (ao_web options) current response)) (\<lambda>_. io_return response))"

definition selected_method :: "'w X424AgentClientOptions \<Rightarrow> HumanRequirement \<Rightarrow> (string \<times> string) res" where
  "selected_method options requirement = (case ao_selectMethod options of
     Some select \<Rightarrow> Inr (select requirement)
   | None \<Rightarrow> (case rq_accepts requirement of
       [] \<Rightarrow> Inl (Error ''x424 challenge has no accepted human method'')
     | m # _ \<Rightarrow> Inr (m_providerId m, m_methodId m)))"

subsection \<open>A call\<close>

text \<open>Up to the challenge: an answer for the caller, or a dependency whose handoff has been started and shown.\<close>

datatype agent_stage = Answered WebResponse | Depends HumanRequirement StartedHumanHandoff

definition agent_start_handoff :: "'w X424AgentClientOptions \<Rightarrow> HumanRequirement \<Rightarrow> ('w, StartedHumanHandoff) io" where
  "agent_start_handoff options requirement =
     io_bind (io_lift (selected_method options requirement)) (\<lambda>(providerId, methodId).
     io_bind (hn_startHandoff (ao_handoffs options) \<lparr>si_dependencyId = rq_dependencyId requirement,
       si_nonce = rq_nonce requirement, si_providerId = providerId, si_methodId = methodId\<rparr>) (\<lambda>started.
     io_bind (present_event options (ActionRequiredEvent (sd_handoffId started) (sd_providerId started) (sd_methodId started)
       (sd_presentation started) (sd_expiresAt started))) (\<lambda>_. io_return started)))"

definition agent_ask :: "'w X424AgentClientOptions \<Rightarrow> WebRequest \<Rightarrow> ('w, agent_stage) io" where
  "agent_ask options first =
     io_bind (sign_now options first None) (\<lambda>current.
     io_bind (send_checked options current) (\<lambda>response.
     if we_status response \<noteq> 424 \<or> wr_get current HUMAN_PROOF_HEADER \<noteq> None then io_return (Answered response)
     else case agentRequirementFromResponse (ao_web options) current response of
       None \<Rightarrow> io_return (Answered response)
     | Some requirement \<Rightarrow>
         io_bind (agent_start_handoff options requirement) (\<lambda>started. io_return (Depends requirement started))))"

text \<open>After the wait: the request with the proof and, when it is answered with 402, the one with the payment.\<close>

definition agent_pay ::
  "'w X424AgentClientOptions \<Rightarrow> WebRequest \<Rightarrow> string \<Rightarrow> string \<Rightarrow> 'w PaymentDependencyResolution \<Rightarrow> ('w, WebResponse) io" where
  "agent_pay options third humanProof dependencyId payment =
     io_bind (sign_now options (wr_set ''payment-signature'' (pd_paymentSignature payment)
       (wr_set HUMAN_PROOF_HEADER humanProof third)) (Some dependencyId)) (\<lambda>finalRequest.
     io_bind (send_checked options finalRequest) (\<lambda>finalResponse.
     io_bind (case pd_processResponse payment of None \<Rightarrow> io_return () | Some process \<Rightarrow> process finalResponse) (\<lambda>_.
     io_return finalResponse)))"

definition agent_prove ::
  "'w X424AgentClientOptions \<Rightarrow> WebRequest \<Rightarrow> WebRequest \<Rightarrow> string \<Rightarrow> string \<Rightarrow> ('w, WebResponse) io" where
  "agent_prove options second third dependencyId humanProof =
     io_bind (sign_now options (wr_set HUMAN_PROOF_HEADER humanProof second) (Some dependencyId)) (\<lambda>current.
     io_bind (send_checked options current) (\<lambda>response.
     case ao_payment options of
       None \<Rightarrow> io_return response
     | Some resolve \<Rightarrow>
         if we_status response \<noteq> 402 then io_return response
         else io_bind (resolve response current) (agent_pay options third humanProof dependencyId)))"

definition agent_resume ::
  "'w X424AgentClientOptions \<Rightarrow> WebRequest \<Rightarrow> WebRequest \<Rightarrow> string \<Rightarrow> HumanHandoffView \<Rightarrow> ('w, WebResponse) io" where
  "agent_resume options second third dependencyId view = (case view of
     CompletedView _ humanProof _ \<Rightarrow> agent_prove options second third dependencyId humanProof
   | PendingView _ _ _ \<Rightarrow> io_throw (Error ''Human handoff ended with pending'')
   | FailedView _ _ _ \<Rightarrow> io_throw (Error ''Human handoff ended with failed'')
   | EndedView _ status _ \<Rightarrow> io_throw (Error (''Human handoff ended with '' @ status_text status)))"

text \<open>When the wait throws, the handoff is cancelled, whatever that answers, and the exception is thrown on.\<close>

definition abandon :: "'w X424AgentClientOptions \<Rightarrow> StartedHumanHandoff \<Rightarrow> exn \<Rightarrow> ('w, 'a) io" where
  "abandon options started e =
     io_bind (io_catch (hn_cancelHandoff (ao_handoffs options) (sd_handoffId started) (sd_accessToken started))
       (\<lambda>_. io_return ())) (\<lambda>_. io_throw e)"

definition fetchWithAgentDependencies ::
  "'w X424AgentClientOptions \<Rightarrow> WebRequest \<Rightarrow> bool \<Rightarrow> 'w \<Rightarrow> (WebResponse res \<times> 'w) option" where
  "fetchWithAgentDependencies options seed cloneable w =
     (case io_bind (agentRequestCopies seed cloneable (ao_bodyFactory options)) (with_idempotency_key (ao_web options)) w of
        (Inl e, w1) \<Rightarrow> Some (Inl e, w1)
      | (Inr (first, second, third), w1) \<Rightarrow> (case agent_ask options first w1 of
          (Inl e, w2) \<Rightarrow> Some (Inl e, w2)
        | (Inr (Answered response), w2) \<Rightarrow> Some (Inr response, w2)
        | (Inr (Depends requirement started), w2) \<Rightarrow> (case waitForHandoff options started w2 of
            None \<Rightarrow> None
          | Some (Inl e, w3) \<Rightarrow> Some (abandon options started e w3)
          | Some (Inr view, w3) \<Rightarrow>
              Some (agent_resume options second third (rq_dependencyId requirement) view w3))))"

end
