(* ===== verification/AgentRuns.thy ===== *)
theory AgentRuns
  imports AgentClient
begin

section \<open>What an agent's call does\<close>

text \<open>
  The wait for a handoff ends, after a bounded number of polls, once the handoff does not stay pending beyond a time and
  delays take the time they say; a call sends at most three requests, all of them the caller's request.
\<close>

subsection \<open>The wait ends\<close>

text \<open>What a timer of \<open>ms\<close> waits: whole milliseconds, at least one, and one when \<open>ms\<close> is not a finite number.\<close>

fun timer_ms :: "jsnum \<Rightarrow> int" where
  "timer_ms (IntNum n) = max 1 n"
| "timer_ms (DecNum m e) = max 1 (m div 10 ^ Suc e)"
| "timer_ms _ = 1"

definition clock_runs :: "'w X424AgentClientOptions \<Rightarrow> ('w \<Rightarrow> int) \<Rightarrow> bool" where
  "clock_runs options clock \<longleftrightarrow>
     (\<forall>e w. clock w \<le> clock (snd (present_event options e w))) \<and>
     (\<forall>i t w. clock w \<le> clock (snd (hn_getHandoff (ao_handoffs options) i t w))) \<and>
     (\<forall>ms w w'. ao_timer options ms w = (Inr True, w') \<longrightarrow> clock w + timer_ms ms \<le> clock w')"

text \<open>No handoff is answered as pending at the deadline or later.\<close>

definition pending_before :: "'w X424AgentClientOptions \<Rightarrow> ('w \<Rightarrow> int) \<Rightarrow> int \<Rightarrow> bool" where
  "pending_before options clock deadline \<longleftrightarrow>
     (\<forall>i t w v p x w'. hn_getHandoff (ao_handoffs options) i t w = (Inr (PendingView v p x), w') \<longrightarrow> clock w < deadline)"

definition numeric_delays :: "'w X424AgentClientOptions \<Rightarrow> bool" where
  "numeric_delays options \<longleftrightarrow>
     (\<forall>i t w v p x w'. hn_getHandoff (ao_handoffs options) i t w = (Inr (PendingView v p x), w') \<longrightarrow> p \<noteq> NotANumber)"

text \<open>\<open>polls\<close> counts the calls of \<open>getHandoff\<close>.\<close>

definition polls_counted :: "'w X424AgentClientOptions \<Rightarrow> ('w \<Rightarrow> nat) \<Rightarrow> bool" where
  "polls_counted options polls \<longleftrightarrow>
     (\<forall>e w. polls (snd (present_event options e w)) = polls w) \<and>
     (\<forall>i t w. polls (snd (hn_getHandoff (ao_handoffs options) i t w)) = polls w + 1) \<and>
     (\<forall>ms w. polls (snd (ao_timer options ms w)) = polls w)"

lemma timer_ms_pos: "1 \<le> timer_ms ms"
  by (cases ms) simp_all

lemma timer_ms_clamp: "p \<noteq> NotANumber \<Longrightarrow> 500 \<le> timer_ms (clamp_poll_delay (Some p))"
proof (cases p)
  case (DecNum m e)
  show ?thesis
  proof (cases "500 * 10 ^ Suc e \<le> m")
    case True
    then have "500 * 10 ^ Suc e div 10 ^ Suc e \<le> m div (10 ^ Suc e :: int)" by (intro zdiv_mono1) simp_all
    then have "500 \<le> m div (10 ^ Suc e :: int)" by simp
    then show ?thesis using DecNum by (simp add: le_max_iff_disj)
  qed (use DecNum in simp)
qed simp_all

lemma wait_turn_pending:
  assumes "wait_turn options started w = (Inr None, w')"
  obtains v p x w1 w2 where "hn_getHandoff (ao_handoffs options) (sd_handoffId started) (sd_accessToken started) w = (Inr (PendingView v p x), w1)"
    "present_event options (WaitingEvent (sd_handoffId started)) w1 = (Inr (), w2)"
    "ao_timer options (clamp_poll_delay (Some p)) w2 = (Inr True, w')"
proof -
  from assms obtain view w1 where g: "hn_getHandoff (ao_handoffs options) (sd_handoffId started) (sd_accessToken started) w = (Inr view, w1)"
    and r: "(case view of
         PendingView _ pollAfterMs _ \<Rightarrow>
           io_bind (present_event options (WaitingEvent (sd_handoffId started))) (\<lambda>_.
           io_bind (delay options (clamp_poll_delay (Some pollAfterMs))) (\<lambda>_. io_return None))
       | _ \<Rightarrow> io_bind (present_event options (terminal_event view (sd_handoffId started))) (\<lambda>_. io_return (Some view))) w1
      = (Inr None, w')"
    by (auto simp: wait_turn_def io_bind_eq_Inr io_eval split: if_splits)
  show thesis
  proof (cases view)
    case (PendingView v p x)
    then show thesis using that g r by (auto simp: delay_def io_bind_eq_Inr io_eval split: if_splits)
  qed (use r in \<open>auto simp: io_bind_eq_Inr io_eval\<close>)
qed

lemma bind_keeps_reading:
  fixes reading :: "'w \<Rightarrow> 'n"
  assumes "\<And>w. reading (snd (m w)) = reading w" "\<And>x w. reading (snd (f x w)) = reading w"
  shows "reading (snd (io_bind m f w)) = reading w"
proof (cases "m w")
  case (Pair r w1)
  then show ?thesis using assms(1) [of w] assms(2) by (cases r) (simp_all add: io_bind_def)
qed

lemma wait_turn_progress:
  assumes "wait_turn options started w = (Inr None, w')" "clock_runs options clock" "pending_before options clock deadline"
  shows "clock w < deadline \<and> clock w < clock w' \<and> (numeric_delays options \<longrightarrow> clock w + 500 \<le> clock w')"
proof -
  obtain v p x w1 w2 where
    g: "hn_getHandoff (ao_handoffs options) (sd_handoffId started) (sd_accessToken started) w = (Inr (PendingView v p x), w1)"
    and e: "present_event options (WaitingEvent (sd_handoffId started)) w1 = (Inr (), w2)"
    and t: "ao_timer options (clamp_poll_delay (Some p)) w2 = (Inr True, w')"
    using wait_turn_pending [OF assms(1)] .
  have "clock w < deadline" using g assms(3) unfolding pending_before_def by blast
  moreover have "clock w \<le> clock w1" "clock w1 \<le> clock w2" "clock w2 + timer_ms (clamp_poll_delay (Some p)) \<le> clock w'"
    using assms(2) g e t unfolding clock_runs_def by (metis snd_conv)+
  moreover have "numeric_delays options \<Longrightarrow> 500 \<le> timer_ms (clamp_poll_delay (Some p))"
    using g timer_ms_clamp unfolding numeric_delays_def by blast
  ultimately show ?thesis using timer_ms_pos [of "clamp_poll_delay (Some p)"] by linarith
qed

lemma wait_turn_polls:
  assumes "polls_counted options polls" "wait_turn options started w = (r, w')"
  shows "polls w' \<le> polls w + 1"
proof -
  have c: "polls (snd (present_event options e w)) = polls w" "polls (snd (hn_getHandoff (ao_handoffs options) i t w)) = polls w + 1"
    "polls (snd (ao_timer options ms w)) = polls w" for e i t ms w using assms(1) unfolding polls_counted_def by blast+
  let ?late = "\<lambda>view. case view of
      PendingView _ pollAfterMs _ \<Rightarrow>
        io_bind (present_event options (WaitingEvent (sd_handoffId started))) (\<lambda>_.
        io_bind (delay options (clamp_poll_delay (Some pollAfterMs))) (\<lambda>_. io_return None))
    | _ \<Rightarrow> io_bind (present_event options (terminal_event view (sd_handoffId started))) (\<lambda>_. io_return (Some view))"
  note q = bind_keeps_reading [of polls]
  have d: "polls (snd (delay options ms w)) = polls w" for ms w
    unfolding delay_def by (intro q) (simp_all add: c io_eval)
  have l: "polls (snd (?late view w)) = polls w" for view w
    by (cases view) (simp_all add: q c d io_eval)
  show ?thesis
  proof (cases "ao_aborted options w")
    case True
    then have "polls (snd (wait_turn options started w)) = polls w" by (simp add: wait_turn_def q c io_eval)
    then show ?thesis using assms(2) by simp
  next
    case False
    obtain v w1 where g: "hn_getHandoff (ao_handoffs options) (sd_handoffId started) (sd_accessToken started) w = (v, w1)"
      by (cases "hn_getHandoff (ao_handoffs options) (sd_handoffId started) (sd_accessToken started) w")
    then have p: "polls w1 = polls w + 1" using c(2) by (metis snd_conv)
    show ?thesis
    proof (cases v)
      case (Inl e)
      then show ?thesis using assms(2) False g p by (simp add: wait_turn_def io_bind_def)
    next
      case (Inr view)
      then have "(r, w') = ?late view w1" using assms(2) False g by (simp add: wait_turn_def io_bind_Inr)
      then show ?thesis using l [of view w1] p by (metis snd_conv order_refl)
    qed
  qed
qed

lemma wait_ends:
  assumes "clock_runs options clock" "pending_before options clock deadline"
  shows "\<exists>r w'. waitForHandoff options started w = Some (r, w')"
proof (induction "nat (deadline - clock w)" arbitrary: w rule: less_induct)
  case less
  show ?case
  proof (cases "wait_turn options started w")
    case (Pair r w1)
    show ?thesis
    proof (cases "r = Inr None")
      case True
      then have "clock w < deadline" "clock w < clock w1" using wait_turn_progress [OF _ assms] Pair by blast+
      then show ?thesis using less [of w1] True Pair by (subst waitForHandoff.simps) simp
    next
      case False
      then show ?thesis using Pair by (subst waitForHandoff.simps) (auto split: sum.splits option.splits)
    qed
  qed
qed

lemma wait_polls:
  assumes "clock_runs options clock" "pending_before options clock deadline" "numeric_delays options" "polls_counted options polls"
    "waitForHandoff options started w = Some (r, w')"
  shows "polls w' \<le> polls w + nat ((deadline - clock w + 499) div 500) + 1"
  using assms(5)
proof (induction "nat (deadline - clock w)" arbitrary: w rule: less_induct)
  case less
  show ?case
  proof (cases "wait_turn options started w")
    case (Pair r1 w1)
    have one: "polls w1 \<le> polls w + 1" using wait_turn_polls [OF assms(4) Pair] .
    show ?thesis
    proof (cases "r1 = Inr None")
      case True
      then have p: "clock w < deadline" "clock w + 500 \<le> clock w1" using wait_turn_progress [OF _ assms(1,2)] Pair assms(3) by blast+
      have "waitForHandoff options started w1 = Some (r, w')"
        using less.prems True Pair by (subst (asm) waitForHandoff.simps) simp
      then have "polls w' \<le> polls w1 + nat ((deadline - clock w1 + 499) div 500) + 1" using less.hyps [of w1] p by simp
      moreover have "nat ((deadline - clock w1 + 499) div 500) + 1 \<le> nat ((deadline - clock w + 499) div 500)"
        using p by linarith
      ultimately show ?thesis using one by linarith
    next
      case False
      then have "w' = w1" using less.prems Pair by (subst (asm) waitForHandoff.simps) (auto split: sum.splits option.splits)
      then show ?thesis using one by simp
    qed
  qed
qed

subsection \<open>What is sent\<close>

definition agent_headers :: "string list" where
  "agent_headers = [''human-proof'', ''payment-signature'', ''content-digest'', ''signature'', ''signature-input'', ''idempotency-key'']"

text \<open>The caller's request again, with this proof and this payment.\<close>

definition forwarded :: "WebRequest \<Rightarrow> string option \<Rightarrow> string option \<Rightarrow> WebRequest \<Rightarrow> bool" where
  "forwarded seed proof payment q \<longleftrightarrow> wr_method q = wr_method seed \<and> wr_url q = wr_url seed \<and>
     wr_get q ''human-proof'' = proof \<and> wr_get q ''payment-signature'' = payment \<and>
     (\<forall>n. n \<notin> set agent_headers \<longrightarrow> wr_get q n = wr_get seed n)"

text \<open>Only \<open>fetch\<close> sends requests.\<close>

definition only_fetch_sends :: "'w X424AgentClientOptions \<Rightarrow> ('w \<Rightarrow> WebRequest list) \<Rightarrow> bool" where
  "only_fetch_sends options sent \<longleftrightarrow>
     (\<forall>q w. sent (snd (wb_fetch (ao_web options) q w)) = sent w @ [q]) \<and>
     silent sent (wb_clock (ao_web options)) \<and> (\<forall>n. silent sent (wb_random (ao_web options) n)) \<and>
     (\<forall>i. silent sent (hn_startHandoff (ao_handoffs options) i)) \<and>
     (\<forall>i t. silent sent (hn_getHandoff (ao_handoffs options) i t)) \<and>
     (\<forall>i t. silent sent (hn_cancelHandoff (ao_handoffs options) i t)) \<and>
     (\<forall>e. silent sent (present_event options e)) \<and> (\<forall>ms. silent sent (ao_timer options ms)) \<and>
     (\<forall>f n. ao_bodyFactory options = Some f \<longrightarrow> silent sent (f n)) \<and>
     (\<forall>resolve response q. ao_payment options = Some resolve \<longrightarrow>
        silent sent (resolve response q) \<and>
        (\<forall>w payment w' process. resolve response q w = (Inr payment, w') \<longrightarrow> pd_processResponse payment = Some process \<longrightarrow>
          (\<forall>answer. silent sent (process answer))))"

lemma only_fetch_sendsD:
  assumes "only_fetch_sends options sent"
  shows "sent (snd (wb_fetch (ao_web options) q w)) = sent w @ [q]" "silent sent (wb_clock (ao_web options))"
    "silent sent (wb_random (ao_web options) n)" "silent sent (hn_startHandoff (ao_handoffs options) i)"
    "silent sent (hn_getHandoff (ao_handoffs options) j t)" "silent sent (hn_cancelHandoff (ao_handoffs options) j t)"
    "silent sent (present_event options e)" "silent sent (ao_timer options ms)"
    "ao_bodyFactory options = Some f \<Longrightarrow> silent sent (f n)"
    "ao_payment options = Some resolve \<Longrightarrow> silent sent (resolve response q)"
  using assms unfolding only_fetch_sends_def by blast+

text \<open>A signed request is the unsigned one but for the headers of the signature.\<close>

definition signed_copy :: "WebRequest \<Rightarrow> WebRequest \<Rightarrow> bool" where
  "signed_copy q x \<longleftrightarrow> wr_method x = wr_method q \<and> wr_url x = wr_url q \<and>
     (\<forall>n. n \<noteq> ''content-digest'' \<and> n \<noteq> ''signature'' \<and> n \<noteq> ''signature-input'' \<longrightarrow> wr_get x n = wr_get q n)"

lemma signed_request_copy:
  "signX424AgentRequest H q signer nonce random now lifetime = Inr x \<Longrightarrow> signed_copy q x"
  by (auto simp: signX424AgentRequest_def signed_copy_def Let_def agent_unsigned_def)

lemma sign_now_sends:
  assumes "only_fetch_sends options sent"
  shows "sends sent (sign_now options q nonce) (\<lambda>x qs. qs = [] \<and> signed_copy q x) (\<lambda>qs. qs = [])"
proof -
  note d = only_fetch_sendsD [OF assms]
  have "silent sent (sign_now options q nonce)"
    unfolding sign_now_def by (intro silent_bind d silent_basic) (cases nonce; simp add: d silent_basic)
  then show ?thesis
  proof (rule silent_sends_when)
    fix w x w'
    assume "sign_now options q nonce w = (Inr x, w')"
    then obtain now random where "signX424AgentRequest (ao_hash options) q (ao_signer options) nonce random now None = Inr x"
      unfolding sign_now_def io_bind_eq_Inr io_eval by blast
    then show "[] = [] \<and> signed_copy q x" using signed_request_copy by simp
  qed simp
qed

lemma send_checked_sends:
  assumes "only_fetch_sends options sent"
  shows "sends sent (send_checked options q) (\<lambda>r qs. qs = [q]) (\<lambda>qs. qs = [q])"
  unfolding send_checked_def
proof (rule sends_bind [where R = "\<lambda>r qs. qs = [q]"])
  show "sends sent (wb_fetch (ao_web options) q) (\<lambda>r qs. qs = [q]) (\<lambda>qs. qs = [q])"
    using only_fetch_sendsD(1) [OF assms, of q] by (simp add: sends_def split: sum.splits)
qed (auto intro!: silent_sends silent_intros)

definition same_headers_but :: "string set \<Rightarrow> WebRequest \<Rightarrow> WebRequest \<Rightarrow> bool" where
  "same_headers_but N seed q \<longleftrightarrow> wr_method q = wr_method seed \<and> wr_url q = wr_url seed \<and>
     (\<forall>n. n \<notin> N \<longrightarrow> wr_get q n = wr_get seed n)"

lemma build_request_Inr:
  "build_request seed c f n w = (Inr y, w') \<Longrightarrow> wr_method y = wr_method seed \<and> wr_url y = wr_url seed \<and> wr_headers y = wr_headers seed"
  by (auto simp: build_request_def new_Request_def io_bind_eq_Inr io_eval split: if_splits)

lemma copies_Inr:
  assumes "agentRequestCopies seed cloneable f w = (Inr (a, b, c), w')"
  shows "\<forall>y \<in> {a, b, c}. wr_method y = wr_method seed \<and> wr_url y = wr_url seed \<and> wr_headers y = wr_headers seed"
proof (cases f)
  case None
  then show ?thesis using assms by (auto simp: agentRequestCopies_def request_copies_def io_eval split: if_splits)
next
  case (Some build)
  then obtain w1 w2 w3 where "build_request seed ''default'' build 1 w = (Inr a, w1)" "build_request seed ''default'' build 2 w1 = (Inr b, w2)"
    "build_request seed ''default'' build 3 w2 = (Inr c, w3)"
    using assms unfolding agentRequestCopies_def request_copies_def by (auto simp: io_bind_eq_Inr io_eval)
  from this [THEN build_request_Inr] show ?thesis by simp
qed

lemma copies_send:
  assumes "only_fetch_sends options sent"
  shows "sends sent (io_bind (agentRequestCopies seed cloneable (ao_bodyFactory options)) (with_idempotency_key (ao_web options)))
    (\<lambda>x qs. qs = [] \<and> (\<forall>y \<in> {fst x, fst (snd x), snd (snd x)}. same_headers_but {''idempotency-key''} seed y)) (\<lambda>qs. qs = [])"
proof (rule silent_sends_when)
  note d = only_fetch_sendsD [OF assms]
  have b: "ao_bodyFactory options = Some f \<Longrightarrow> silent sent (build_request seed c f n)" for c f n
    unfolding build_request_def by (intro silent_bind d(9) silent_basic)
  show "silent sent (io_bind (agentRequestCopies seed cloneable (ao_bodyFactory options)) (with_idempotency_key (ao_web options)))"
    unfolding agentRequestCopies_def request_copies_def with_idempotency_key_def
    by (cases "ao_bodyFactory options") (auto simp: Let_def split: prod.splits intro!: silent_intros d b)
next
  fix w x w'
  assume r: "io_bind (agentRequestCopies seed cloneable (ao_bodyFactory options)) (with_idempotency_key (ao_web options)) w = (Inr x, w')"
  then obtain a b c w1 where c: "agentRequestCopies seed cloneable (ao_bodyFactory options) w = (Inr (a, b, c), w1)"
    "with_idempotency_key (ao_web options) (a, b, c) w1 = (Inr x, w')"
    by (auto simp: io_bind_eq_Inr)
  have h: "\<forall>y \<in> {a, b, c}. wr_method y = wr_method seed \<and> wr_url y = wr_url seed \<and> wr_headers y = wr_headers seed"
    by (rule copies_Inr [OF c(1)])
  have k: "\<forall>y \<in> {fst x, fst (snd x), snd (snd x)}. wr_method y = wr_method seed \<and> wr_url y = wr_url seed \<and>
      (\<exists>v. wr_headers y = wr_headers seed \<or> wr_headers y = wr_headers (wr_set ''idempotency-key'' v a))"
  proof (cases "wr_method a \<notin> set safe_http_methods \<and> wr_get a ''idempotency-key'' = None")
    case True
    then obtain random w2 where "x = (a\<lparr>wr_headers := wr_headers (wr_set ''idempotency-key'' (randomUUIDLike random) a)\<rparr>,
        b\<lparr>wr_headers := wr_headers (wr_set ''idempotency-key'' (randomUUIDLike random) a)\<rparr>,
        c\<lparr>wr_headers := wr_headers (wr_set ''idempotency-key'' (randomUUIDLike random) a)\<rparr>)"
      using c(2) by (auto simp: with_idempotency_key_def io_bind_eq_Inr io_eval Let_def)
    then have "\<forall>y \<in> {fst x, fst (snd x), snd (snd x)}. wr_method y \<in> {wr_method a, wr_method b, wr_method c} \<and>
        wr_url y \<in> {wr_url a, wr_url b, wr_url c} \<and> wr_headers y = wr_headers (wr_set ''idempotency-key'' (randomUUIDLike random) a)"
      by simp
    note f = this
    show ?thesis
    proof
      fix y assume "y \<in> {fst x, fst (snd x), snd (snd x)}"
      with f have m: "wr_method y \<in> {wr_method a, wr_method b, wr_method c}" "wr_url y \<in> {wr_url a, wr_url b, wr_url c}"
        "wr_headers y = wr_headers (wr_set ''idempotency-key'' (randomUUIDLike random) a)" by blast+
      from h have "{wr_method a, wr_method b, wr_method c} = {wr_method seed}" "{wr_url a, wr_url b, wr_url c} = {wr_url seed}" by simp_all
      with m(1,2) have "wr_method y = wr_method seed" "wr_url y = wr_url seed" by simp_all
      with m(3) show "wr_method y = wr_method seed \<and> wr_url y = wr_url seed \<and>
          (\<exists>v. wr_headers y = wr_headers seed \<or> wr_headers y = wr_headers (wr_set ''idempotency-key'' v a))"
        by (intro conjI exI disjI2)
    qed
  next
    case False
    then have "x = (a, b, c)" using c(2) by (auto simp: with_idempotency_key_def io_eval)
    then show ?thesis using h by simp
  qed
  have "wr_get y n = wr_get seed n" if y: "y \<in> {fst x, fst (snd x), snd (snd x)}" and n: "n \<noteq> ''idempotency-key''" for y n
  proof -
    obtain v where "wr_headers y = wr_headers seed \<or> wr_headers y = wr_headers (wr_set ''idempotency-key'' v a)"
      using k y by blast
    then have "wr_get y n = wr_get seed n \<or> wr_get y n = wr_get (wr_set ''idempotency-key'' v a) n" by (auto simp: wr_get_def)
    moreover have "wr_get a n = wr_get seed n" using h by (simp add: wr_get_def)
    ultimately show ?thesis using n by auto
  qed
  then show "[] = [] \<and> (\<forall>y \<in> {fst x, fst (snd x), snd (snd x)}. same_headers_but {''idempotency-key''} seed y)"
    using k unfolding same_headers_but_def by blast
qed simp

lemma ask_sends:
  assumes "only_fetch_sends options sent"
  shows "sends sent (agent_ask options first)
    (\<lambda>stage qs. \<exists>q. qs = [q] \<and> signed_copy first q \<and> (case stage of Answered r \<Rightarrow> True | Depends r s \<Rightarrow> wr_get q HUMAN_PROOF_HEADER = None))
    (\<lambda>qs. qs = [] \<or> (\<exists>q. qs = [q] \<and> signed_copy first q))"
proof -
  note d = only_fetch_sendsD [OF assms]
  have start: "silent sent (agent_start_handoff options r)" for r
    unfolding agent_start_handoff_def by (auto intro!: silent_intros d split: prod.splits)
  show ?thesis
    unfolding agent_ask_def
  proof (rule sends_bind [where R = "\<lambda>x qs. qs = [] \<and> signed_copy first x"])
    show "sends sent (sign_now options first None) (\<lambda>x qs. qs = [] \<and> signed_copy first x)
        (\<lambda>qs. qs = [] \<or> (\<exists>q. qs = [q] \<and> signed_copy first q))"
      by (rule sends_mono [OF sign_now_sends [OF assms]]) simp_all
  next
    fix x :: WebRequest and qs :: "WebRequest list"
    assume x: "qs = [] \<and> signed_copy first x"
    show "sends sent (io_bind (send_checked options x) (\<lambda>response.
        if we_status response \<noteq> 424 \<or> wr_get x HUMAN_PROOF_HEADER \<noteq> None then io_return (Answered response)
        else case agentRequirementFromResponse (ao_web options) x response of
            None \<Rightarrow> io_return (Answered response)
          | Some requirement \<Rightarrow> io_bind (agent_start_handoff options requirement) (\<lambda>started. io_return (Depends requirement started))))
       (\<lambda>stage qs'. \<exists>q. qs @ qs' = [q] \<and> signed_copy first q \<and>
          (case stage of Answered r \<Rightarrow> True | Depends r s \<Rightarrow> wr_get q HUMAN_PROOF_HEADER = None))
       (\<lambda>qs'. qs @ qs' = [] \<or> (\<exists>q. qs @ qs' = [q] \<and> signed_copy first q))"
      by (rule sends_bind [OF sends_mono [OF send_checked_sends [OF assms]]])
        (use x in \<open>auto intro!: sends_return silent_intros start
          intro: sends_silent_bind split: option.splits\<close>)
  qed
qed

lemma pay_sends:
  assumes "only_fetch_sends options sent" "\<And>process a. pd_processResponse payment = Some process \<Longrightarrow> silent sent (process a)"
  shows "sends sent (agent_pay options third humanProof dependencyId payment)
    (\<lambda>r qs. \<exists>q. qs = [q] \<and> signed_copy (wr_set ''payment-signature'' (pd_paymentSignature payment) (wr_set HUMAN_PROOF_HEADER humanProof third)) q)
    (\<lambda>qs. qs = [] \<or> (\<exists>q. qs = [q] \<and>
       signed_copy (wr_set ''payment-signature'' (pd_paymentSignature payment) (wr_set HUMAN_PROOF_HEADER humanProof third)) q))"
  unfolding agent_pay_def
proof (rule sends_bind [OF sends_mono [OF sign_now_sends [OF assms(1)]]], assumption, simp)
  let ?t = "wr_set ''payment-signature'' (pd_paymentSignature payment) (wr_set HUMAN_PROOF_HEADER humanProof third)"
  fix x :: WebRequest and qs :: "WebRequest list"
  assume x: "qs = [] \<and> signed_copy ?t x"
  have p: "silent sent (case pd_processResponse payment of None \<Rightarrow> io_return () | Some process \<Rightarrow> process a)" for a
    by (cases "pd_processResponse payment") (simp_all add: silent_basic assms(2))
  show "sends sent (io_bind (send_checked options x) (\<lambda>finalResponse.
      io_bind (case pd_processResponse payment of None \<Rightarrow> io_return () | Some process \<Rightarrow> process finalResponse)
       (\<lambda>_. io_return finalResponse)))
     (\<lambda>y qs'. \<exists>q. qs @ qs' = [q] \<and> signed_copy ?t q) (\<lambda>qs'. qs @ qs' = [] \<or> (\<exists>q. qs @ qs' = [q] \<and> signed_copy ?t q))"
    by (rule sends_bind [OF sends_mono [OF send_checked_sends [OF assms(1)]]])
      (use x p in \<open>auto intro!: sends_return intro: sends_silent_bind\<close>)
qed

definition proof_trace :: "WebRequest \<Rightarrow> WebRequest \<Rightarrow> string \<Rightarrow> WebRequest list \<Rightarrow> bool" where
  "proof_trace second third humanProof qs \<longleftrightarrow> qs = [] \<or> (\<exists>q. signed_copy (wr_set HUMAN_PROOF_HEADER humanProof second) q \<and>
     (qs = [q] \<or> (\<exists>s q'. qs = [q, q'] \<and>
       signed_copy (wr_set ''payment-signature'' s (wr_set HUMAN_PROOF_HEADER humanProof third)) q')))"

lemma prove_sends:
  assumes "only_fetch_sends options sent"
  shows "sends sent (agent_prove options second third dependencyId humanProof)
    (\<lambda>r. proof_trace second third humanProof) (proof_trace second third humanProof)"
  unfolding agent_prove_def
proof (rule sends_bind [where R = "\<lambda>x qs. qs = [] \<and> signed_copy (wr_set HUMAN_PROOF_HEADER humanProof second) x"])
  show "sends sent (sign_now options (wr_set HUMAN_PROOF_HEADER humanProof second) (Some dependencyId))
     (\<lambda>x qs. qs = [] \<and> signed_copy (wr_set HUMAN_PROOF_HEADER humanProof second) x) (proof_trace second third humanProof)"
    by (rule sends_mono [OF sign_now_sends [OF assms]]) (simp_all add: proof_trace_def)
next
  fix x :: WebRequest and qs :: "WebRequest list"
  assume x: "qs = [] \<and> signed_copy (wr_set HUMAN_PROOF_HEADER humanProof second) x"
  let ?P = "\<lambda>qs'. proof_trace second third humanProof (x # qs')"
  have one: "?P []" using x by (auto simp: proof_trace_def)
  have pay: "sends sent (io_bind (resolve response x) (agent_pay options third humanProof dependencyId)) (\<lambda>_. ?P) ?P"
    if r: "ao_payment options = Some resolve" for resolve response
  proof (rule sends_bind [where R = "\<lambda>payment qs. qs = [] \<and>
      (\<forall>process. pd_processResponse payment = Some process \<longrightarrow> (\<forall>a. silent sent (process a)))"])
    have "\<And>w payment w' process. resolve response x w = (Inr payment, w') \<Longrightarrow> pd_processResponse payment = Some process \<Longrightarrow>
        (\<forall>a. silent sent (process a))" using assms r unfolding only_fetch_sends_def by blast
    then show "sends sent (resolve response x) (\<lambda>payment qs. qs = [] \<and>
        (\<forall>process. pd_processResponse payment = Some process \<longrightarrow> (\<forall>a. silent sent (process a)))) ?P"
      by (intro silent_sends_when only_fetch_sendsD(10) [OF assms r]) (use one in blast)+
  next
    fix payment :: "'a PaymentDependencyResolution" and qs :: "WebRequest list"
    assume p: "qs = [] \<and> (\<forall>process. pd_processResponse payment = Some process \<longrightarrow> (\<forall>a. silent sent (process a)))"
    show "sends sent (agent_pay options third humanProof dependencyId payment)
       (\<lambda>_ qs'. proof_trace second third humanProof (x # qs @ qs')) (\<lambda>qs'. proof_trace second third humanProof (x # qs @ qs'))"
      by (rule sends_mono [OF pay_sends [OF assms]]) (use p x in \<open>auto simp: proof_trace_def\<close>)
  qed
  show "sends sent (io_bind (send_checked options x) (\<lambda>response.
      case ao_payment options of None \<Rightarrow> io_return response
      | Some resolve \<Rightarrow> if we_status response \<noteq> 402 then io_return response
          else io_bind (resolve response x) (agent_pay options third humanProof dependencyId)))
     (\<lambda>y qs'. proof_trace second third humanProof (qs @ qs')) (\<lambda>qs'. proof_trace second third humanProof (qs @ qs'))"
    by (rule sends_bind [OF sends_mono [OF send_checked_sends [OF assms]]])
      (use x one pay in \<open>auto intro!: sends_return split: option.splits\<close>)
qed

lemma wait_turn_silent:
  assumes "only_fetch_sends options sent"
  shows "silent sent (wait_turn options started)"
proof -
  note d = only_fetch_sendsD [OF assms]
  let ?late = "\<lambda>view. case view of
      PendingView _ pollAfterMs _ \<Rightarrow>
        io_bind (present_event options (WaitingEvent (sd_handoffId started))) (\<lambda>_.
        io_bind (delay options (clamp_poll_delay (Some pollAfterMs))) (\<lambda>_. io_return None))
    | _ \<Rightarrow> io_bind (present_event options (terminal_event view (sd_handoffId started))) (\<lambda>_. io_return (Some view))"
  have l: "silent sent (?late view)" for view
    unfolding delay_def by (cases view) (auto intro!: silent_intros d)
  have "silent sent (io_bind (present_event options (CancelledEvent (sd_handoffId started)))
      (\<lambda>_. io_throw (Error ''Human handoff was cancelled'') :: ('a, HumanHandoffView option) io))"
    by (intro silent_bind d silent_basic)
  moreover have "silent sent (io_bind (hn_getHandoff (ao_handoffs options) (sd_handoffId started) (sd_accessToken started)) ?late)"
    by (intro silent_bind d l)
  ultimately show ?thesis by (simp add: silent_def wait_turn_def)
qed

lemma wait_sends_nothing:
  assumes "only_fetch_sends options sent" "waitForHandoff options started w = Some (r, w')"
  shows "sent w' = sent w"
proof -
  have "\<forall>r w'. y = (r, w') \<longrightarrow> only_fetch_sends o1 sent \<longrightarrow> sent w' = sent w" if "waitForHandoff o1 s w = Some y" for o1 s w y
    using that
  proof (induction rule: waitForHandoff.raw_induct [rotated 1, consumes 1, case_names turn])
    case (turn wait options started w y)
    have t: "wait_turn options started w = (r1, w1) \<Longrightarrow> only_fetch_sends options sent \<Longrightarrow> sent w1 = sent w" for r1 w1
      using wait_turn_silent [of options sent started] unfolding silent_def by (metis snd_conv)
    show ?case using turn t by (auto split: prod.splits sum.splits option.splits)
  qed
  then show ?thesis using assms by blast
qed

lemma signed_forwarded:
  assumes "same_headers_but {''idempotency-key''} seed first" "signed_copy first q"
  shows "forwarded seed (wr_get seed ''human-proof'') (wr_get seed ''payment-signature'') q"
  using assms by (simp add: forwarded_def same_headers_but_def signed_copy_def agent_headers_def)

lemma proof_forwarded:
  assumes "same_headers_but {''idempotency-key''} seed second" "same_headers_but {''idempotency-key''} seed third"
    "proof_trace second third humanProof qs"
  shows "qs = [] \<or> (\<exists>q. forwarded seed (Some humanProof) (wr_get seed ''payment-signature'') q \<and>
    (qs = [q] \<or> (\<exists>s q'. forwarded seed (Some humanProof) (Some s) q' \<and> qs = [q, q'])))"
proof -
  have "signed_copy (wr_set HUMAN_PROOF_HEADER humanProof second) q \<Longrightarrow>
      forwarded seed (Some humanProof) (wr_get seed ''payment-signature'') q" for q
    using assms(1) by (simp add: forwarded_def same_headers_but_def signed_copy_def agent_headers_def HUMAN_PROOF_HEADER_def)
  moreover have "signed_copy (wr_set ''payment-signature'' s (wr_set HUMAN_PROOF_HEADER humanProof third)) q \<Longrightarrow>
      forwarded seed (Some humanProof) (Some s) q" for s q
    using assms(2) by (simp add: forwarded_def same_headers_but_def signed_copy_def agent_headers_def HUMAN_PROOF_HEADER_def)
  ultimately show ?thesis using assms(3) unfolding proof_trace_def by blast
qed

lemma abandon_silent:
  assumes "only_fetch_sends options sent"
  shows "silent sent (abandon options started e)"
  unfolding abandon_def by (intro silent_bind silent_catch silent_basic only_fetch_sendsD [OF assms])

lemma resume_sends:
  assumes "only_fetch_sends options sent" "agent_resume options second third dependencyId view w = (r, w')"
  shows "sent w' = sent w \<or> (\<exists>v p x qs. view = CompletedView v p x \<and> sent w' = sent w @ qs \<and> proof_trace second third p qs)"
proof (cases view)
  case (CompletedView v p x)
  then have "agent_prove options second third dependencyId p w = (r, w')" using assms(2) by (simp add: agent_resume_def)
  from sendsD [OF prove_sends [OF assms(1)] this] obtain qs where "sent w' = sent w @ qs" "proof_trace second third p qs"
    by (auto split: sum.splits)
  then show ?thesis using CompletedView by blast
qed (use assms(2) in \<open>simp_all add: agent_resume_def io_eval\<close>)

subsection \<open>Properties\<close>

text \<open>
  C24: An agent's call always comes to an end: when no handoff is answered as pending at a deadline or later, and a delay
  that passes takes the time a timer takes (at least a millisecond), \<open>fetchWithAgentDependencies\<close> returns a response or
  throws, whatever the server, the handoff service, the presenter and the payment resolver answer.
\<close>

theorem agent_call_returns:
  assumes "clock_runs options clock" "pending_before options clock deadline"
  shows "\<exists>r w'. fetchWithAgentDependencies options seed cloneable w = Some (r, w')"
proof -
  have "\<exists>r w'. waitForHandoff options started w = Some (r, w')" for started w by (rule wait_ends [OF assms])
  then have "waitForHandoff options started w \<noteq> None" for started w by (metis option.distinct(1))
  then show ?thesis
    unfolding fetchWithAgentDependencies_def
    by (auto split: prod.splits sum.splits option.splits agent_stage.splits) (metis option.distinct(1))
qed

text \<open>
  C25: Waiting for a handoff asks for its state a bounded number of times: when the delays the service names are numbers
  and no handoff is answered as pending at a deadline or later, \<open>waitForHandoff\<close> ends after at most one call of
  \<open>getHandoff\<close> for each started half second up to the deadline, and one more.
\<close>

theorem handoff_wait_bounded:
  assumes "clock_runs options clock" "pending_before options clock deadline" "numeric_delays options" "polls_counted options polls"
  shows "\<exists>r w'. waitForHandoff options started w = Some (r, w') \<and>
    polls w' \<le> polls w + nat ((deadline - clock w + 499) div 500) + 1"
  using wait_ends [OF assms(1,2)] wait_polls [OF assms] by metis


subsection \<open>A sample world\<close>

text \<open>A server that asks for a proof and then for a payment, and a handoff that is completed after two seconds.\<close>

record AgentWorld =
  gw_clock :: int
  gw_polls :: nat
  gw_sent :: "WebRequest list"

definition sample_fetch :: "WebRequest \<Rightarrow> (AgentWorld, WebResponse) io" where
  "sample_fetch q w = (Inr \<lparr>we_status = (if wr_get q ''human-proof'' = None then 424 else if wr_get q ''payment-signature'' = None then 402
     else 200), we_url = [], we_type = ''basic'', we_headers = [], we_body = None\<rparr>, w\<lparr>gw_sent := gw_sent w @ [q]\<rparr>)"

definition sample_web :: "AgentWorld Web" where
  "sample_web = \<lparr>wb_fetch = sample_fetch,
     wb_url = (\<lambda>s. Some \<lparr>u_href = s, u_origin = ''o'', u_protocol = ''https:'', u_host = ''h'', u_hostname = ''h'', u_pathname = ''/'',
       u_search = [], u_hash = [], u_username = [], u_password = []\<rparr>),
     wb_zod = sample_zod, wb_json = (\<lambda>_. Some (js_of_problem (challenge_body sample_wire_requirement BodyMode))),
     wb_clock = (\<lambda>w. (Inr (gw_clock w), w)), wb_random = (\<lambda>n. io_return (replicate n 0))\<rparr>"

definition sample_handoff_client :: "AgentWorld AgentHandoffClient" where
  "sample_handoff_client = \<lparr>
     hn_startHandoff = (\<lambda>i. io_return \<lparr>sd_handoffId = ''h'', sd_accessToken = ''t'', sd_providerId = si_providerId i, sd_methodId = si_methodId i,
       sd_presentation = \<lparr>hp_uri = ''u'', hp_userCode = None\<rparr>, sd_expiresAt = ''x'', sd_pollAfterMs = IntNum 1000\<rparr>),
     hn_getHandoff = (\<lambda>i t w. (Inr (if gw_clock w < 2000 then PendingView i (IntNum 1000) ''x'' else CompletedView i ''p'' ''x''),
       w\<lparr>gw_polls := gw_polls w + 1\<rparr>)),
     hn_cancelHandoff = (\<lambda>i t. io_return ())\<rparr>"

definition sample_agent_options :: "AgentWorld X424AgentClientOptions" where
  "sample_agent_options = \<lparr>ao_web = sample_web, ao_hash = (\<lambda>bs. [of_nat (length bs)]),
     ao_signer = \<lparr>ag_keyId = ''k'', ag_algorithm = Ed25519, ag_sign = (\<lambda>m. Inr [7])\<rparr>, ao_handoffs = sample_handoff_client,
     ao_presenter = None, ao_selectMethod = None,
     ao_payment = Some (\<lambda>response q. io_return \<lparr>pd_paymentSignature = ''s'', pd_processResponse = None\<rparr>),
     ao_bodyFactory = None, ao_aborted = (\<lambda>w. False),
     ao_timer = (\<lambda>ms w. (Inr True, w\<lparr>gw_clock := gw_clock w + timer_ms ms\<rparr>))\<rparr>"

definition sample_agent_seed :: WebRequest where
  "sample_agent_seed = \<lparr>wr_method = pr_method (rq_resource sample_wire_requirement), wr_url = pr_uri (rq_resource sample_wire_requirement),
     wr_headers = [(''accept'', ''text'')], wr_body = Some [1, 2], wr_redirect = ''manual'', wr_credentials = ''omit'', wr_cache = ''default''\<rparr>"

definition sample_agent_world :: AgentWorld where
  "sample_agent_world = \<lparr>gw_clock = 0, gw_polls = 0, gw_sent = []\<rparr>"

definition sample_agent_started :: StartedHumanHandoff where
  "sample_agent_started = \<lparr>sd_handoffId = ''h'', sd_accessToken = ''t'', sd_providerId = ''p'', sd_methodId = ''m'',
     sd_presentation = \<lparr>hp_uri = ''u'', hp_userCode = None\<rparr>, sd_expiresAt = ''x'', sd_pollAfterMs = IntNum 1000\<rparr>"

lemmas sample_agent_defs = sample_agent_options_def sample_handoff_client_def sample_web_def

lemma sample_agent_laws:
  "clock_runs sample_agent_options gw_clock" "pending_before sample_agent_options gw_clock 2000"
  "numeric_delays sample_agent_options" "polls_counted sample_agent_options gw_polls" "only_fetch_sends sample_agent_options gw_sent"
  by (simp_all add: sample_agent_defs clock_runs_def pending_before_def numeric_delays_def polls_counted_def only_fetch_sends_def
      present_event_def io_eval silent_def sample_fetch_def)

lemma sample_agent_run:
  "case fetchWithAgentDependencies sample_agent_options sample_agent_seed True sample_agent_world of
     Some (Inr response, w) \<Rightarrow> we_status response = 200 \<and> length (gw_sent w) = 3 | _ \<Rightarrow> False"
  by code_simp

text \<open>The three properties hold of a call of the sample agent that sends all three requests.\<close>

theorem agent_call_returns_witness:
  "\<exists>r w'. fetchWithAgentDependencies sample_agent_options sample_agent_seed True sample_agent_world = Some (r, w')"
  by (rule agent_call_returns [OF sample_agent_laws(1,2)])

theorem handoff_wait_bounded_witness:
  "\<exists>r w'. waitForHandoff sample_agent_options sample_agent_started sample_agent_world = Some (r, w') \<and> gw_polls w' \<le> 5"
  using handoff_wait_bounded [OF sample_agent_laws(1-4), of sample_agent_started sample_agent_world]
  by (simp add: sample_agent_world_def)


end
