(* ===== verification/ClientGuarantees.thy ===== *)
theory ClientGuarantees
  imports Clients
begin

section \<open>What the HTTP clients guarantee\<close>

text \<open>
  A client understands the challenge of a resource and answers it; the client that also pays sends the caller's request
  at most three times and attaches a payment only beside a human proof.
\<close>

subsection \<open>What is sent\<close>

definition resolvers_silent :: "'w X424FetchOptions \<Rightarrow> 'w PaymentDependencyResolver \<Rightarrow> 'w body_factory option \<Rightarrow> ('w \<Rightarrow> WebRequest list) \<Rightarrow> bool" where
  "resolvers_silent options resolvePayment bodyFactory sent \<longleftrightarrow>
     (\<forall>q w. sent (snd (wb_fetch (xo_web options) q w)) = sent w @ [q]) \<and>
     (\<forall>requirement response. silent sent (xo_resolveHumanDependency options requirement response)) \<and>
     (\<forall>response q. silent sent (resolvePayment response q)) \<and>
     (\<forall>response q w payment w' process answer. resolvePayment response q w = (Inr payment, w') \<longrightarrow>
        pd_processResponse payment = Some process \<longrightarrow> silent sent (process answer)) \<and>
     (\<forall>f n. bodyFactory = Some f \<longrightarrow> silent sent (f n))"

text \<open>The caller's request with this proof and this payment, not to be redirected.\<close>

definition resent :: "WebRequest \<Rightarrow> string option \<Rightarrow> string option \<Rightarrow> WebRequest \<Rightarrow> bool" where
  "resent seed proof payment q \<longleftrightarrow> wr_method q = wr_method seed \<and> wr_url q = wr_url seed \<and> wr_redirect q = ''manual'' \<and>
     wr_credentials q = wr_credentials seed \<and> wr_get q ''human-proof'' = proof \<and> wr_get q ''payment-signature'' = payment \<and>
     (\<forall>n. n \<noteq> ''human-proof'' \<and> n \<noteq> ''payment-signature'' \<longrightarrow> wr_get q n = wr_get seed n)"

definition same_request :: "WebRequest \<Rightarrow> WebRequest \<Rightarrow> bool" where
  "same_request seed q \<longleftrightarrow> wr_method q = wr_method seed \<and> wr_url q = wr_url seed \<and> wr_headers q = wr_headers seed \<and>
     wr_credentials q = wr_credentials seed"

lemma manually_parts [simp]:
  "wr_method (manually q) = wr_method q" "wr_url (manually q) = wr_url q" "wr_headers (manually q) = wr_headers q"
  "wr_credentials (manually q) = wr_credentials q" "wr_redirect (manually q) = ''manual''" "wr_get (manually q) n = wr_get q n"
  by (simp_all add: manually_def wr_get_def)

lemma resent_first: "same_request seed q \<Longrightarrow> resent seed (wr_get seed ''human-proof'') (wr_get seed ''payment-signature'') (manually q)"
  by (simp add: resent_def same_request_def wr_get_def)

lemma resent_proof: "same_request seed q \<Longrightarrow> resent seed (Some p) (wr_get seed ''payment-signature'') (manually (wr_set HUMAN_PROOF_HEADER p q))"
  by (simp add: resent_def same_request_def HUMAN_PROOF_HEADER_def) (simp add: wr_get_def)

lemma resent_payment: "same_request seed q \<Longrightarrow>
    resent seed (Some p) (Some s) (manually (wr_set PAYMENT_SIGNATURE_HEADER s (wr_set HUMAN_PROOF_HEADER p q)))"
  by (simp add: resent_def same_request_def HUMAN_PROOF_HEADER_def PAYMENT_SIGNATURE_HEADER_def) (simp add: wr_get_def)

lemma fetch_checked_sends:
  assumes "\<And>q w. sent (snd (wb_fetch web q w)) = sent w @ [q]"
  shows "sends sent (fetch_checked web q) (\<lambda>r qs. qs = [q]) (\<lambda>qs. qs = [q])"
  unfolding fetch_checked_def
proof (rule sends_bind [where R = "\<lambda>r qs. qs = [q]"])
  show "sends sent (wb_fetch web q) (\<lambda>r qs. qs = [q]) (\<lambda>qs. qs = [q])"
    using assms [of q] by (simp add: sends_def split: sum.splits)
qed (auto intro!: silent_sends silent_intros)

lemma copies_same:
  assumes "request_copies seed cache message cloneable bodyFactory w = (Inr (a, b, c), w')"
  shows "same_request seed a \<and> same_request seed b \<and> same_request seed c"
proof -
  have b: "build_request seed cache f n v = (Inr y, v') \<Longrightarrow> same_request seed y" for f n v y v'
    by (auto simp: build_request_def new_Request_def io_bind_eq_Inr io_eval same_request_def split: if_splits)
  show ?thesis
  proof (cases bodyFactory)
    case None
    then show ?thesis using assms by (auto simp: request_copies_def io_eval same_request_def split: if_splits)
  next
    case (Some f)
    then obtain w1 w2 w3 where "build_request seed cache f 1 w = (Inr a, w1)" "build_request seed cache f 2 w1 = (Inr b, w2)"
      "build_request seed cache f 3 w2 = (Inr c, w3)"
      using assms unfolding request_copies_def by (auto simp: io_bind_eq_Inr io_eval)
    from this [THEN b] show ?thesis by simp
  qed
qed

text \<open>What the human part sends, and what it leaves to pay for.\<close>

definition humanity_trace :: "WebRequest \<Rightarrow> WebRequest \<Rightarrow> WebRequest list \<Rightarrow> string option \<Rightarrow> bool" where
  "humanity_trace first second qs proof \<longleftrightarrow>
     qs = [manually first] \<and> proof = None \<or>
     wr_get first HUMAN_PROOF_HEADER = None \<and> (\<exists>p. proof = Some p \<and> qs = [manually first, manually (wr_set HUMAN_PROOF_HEADER p second)])"

lemma humanity_sends:
  assumes "resolvers_silent options resolvePayment bodyFactory sent"
  shows "sends sent (x402_humanity options first second)
    (\<lambda>stage qs. case stage of Finished response \<Rightarrow> qs = [manually first]
       | Proceed q response proof \<Rightarrow> humanity_trace first second qs proof \<and> (proof = None \<longrightarrow> q = first))
    (\<lambda>qs. \<exists>proof. humanity_trace first second qs proof)"
proof -
  have f: "\<And>q w. sent (snd (wb_fetch (xo_web options) q w)) = sent w @ [q]"
    and h: "\<And>r q. silent sent (xo_resolveHumanDependency options r q)"
    using assms unfolding resolvers_silent_def by blast+
  note fetch = fetch_checked_sends [OF f]
  have a: "silent sent (answer_challenge options q response r)" for q response r
    unfolding answer_challenge_def by (auto intro!: silent_intros h)
  have one: "humanity_trace first second [manually first] None" by (simp add: humanity_trace_def)
  show ?thesis
    unfolding x402_humanity_def
  proof (rule sends_bind [OF sends_mono [OF fetch]], assumption, use one in blast)
    fix response :: WebResponse and qs :: "WebRequest list"
    assume qs: "qs = [manually first]"
    let ?P = "\<lambda>stage qs'. case stage of Finished response \<Rightarrow> qs @ qs' = [manually first]
       | Proceed q response proof \<Rightarrow> humanity_trace first second (qs @ qs') proof \<and> (proof = None \<longrightarrow> q = first)"
    let ?Q = "\<lambda>qs'. \<exists>proof. humanity_trace first second (qs @ qs') proof"
    let ?ask = "\<lambda>requirement. io_bind (io_lift (names_request (xo_web options) first response requirement)) (\<lambda>_.
         io_bind (answer_challenge options first response requirement) (\<lambda>humanProof.
         let currentRequest = manually (wr_set HUMAN_PROOF_HEADER humanProof second)
         in io_bind (fetch_checked (xo_web options) currentRequest) (\<lambda>response'.
            io_return (Proceed currentRequest response' (Some humanProof)))))"
    have none: "?Q []" using qs one by (intro exI [of _ None]) simp
    have send: "sends sent (?ask requirement) ?P ?Q" if "wr_get first HUMAN_PROOF_HEADER = None" for requirement
    proof (intro sends_silent_bind [where Q = ?Q] silent_basic a none)
      fix x :: unit and humanProof :: string
      have t: "humanity_trace first second (qs @ [manually (wr_set HUMAN_PROOF_HEADER humanProof second)]) (Some humanProof)"
        using that qs by (simp add: humanity_trace_def)
      show "sends sent (let currentRequest = manually (wr_set HUMAN_PROOF_HEADER humanProof second)
          in io_bind (fetch_checked (xo_web options) currentRequest) (\<lambda>response'.
            io_return (Proceed currentRequest response' (Some humanProof)))) ?P ?Q"
        unfolding Let_def
        by (rule sends_bind [OF sends_mono [OF fetch]]) (use t in \<open>auto intro!: sends_return\<close>)
    qed
    show "sends sent (if we_status response \<noteq> 424 then io_return (Proceed first response None)
        else if wr_get first HUMAN_PROOF_HEADER \<noteq> None then io_return (Finished response)
        else case challenge_requirement (xo_web options) response of None \<Rightarrow> io_return (Finished response)
          | Some requirement \<Rightarrow> ?ask requirement) ?P ?Q"
      using one qs send by (auto intro!: sends_return split: option.splits)
  qed
qed

lemma payment_sends:
  assumes "resolvers_silent options resolvePayment bodyFactory sent"
  shows "sends sent (x402_payment options resolvePayment third q response proof)
    (\<lambda>r qs. qs = [] \<or> (\<exists>p s. (case proof of Some p \<Rightarrow> Some p | None \<Rightarrow> wr_get q HUMAN_PROOF_HEADER) = Some p \<and>
       qs = [manually (wr_set PAYMENT_SIGNATURE_HEADER s (wr_set HUMAN_PROOF_HEADER p third))]))
    (\<lambda>qs. qs = [] \<or> (\<exists>p s. (case proof of Some p \<Rightarrow> Some p | None \<Rightarrow> wr_get q HUMAN_PROOF_HEADER) = Some p \<and>
       qs = [manually (wr_set PAYMENT_SIGNATURE_HEADER s (wr_set HUMAN_PROOF_HEADER p third))]))"
proof -
  have f: "\<And>q w. sent (snd (wb_fetch (xo_web options) q w)) = sent w @ [q]"
    and h: "\<And>response q. silent sent (resolvePayment response q)"
    and c: "\<And>response q w payment w' process answer. resolvePayment response q w = (Inr payment, w') \<Longrightarrow>
        pd_processResponse payment = Some process \<Longrightarrow> silent sent (process answer)"
    using assms unfolding resolvers_silent_def by blast+
  let ?proof = "case proof of Some p \<Rightarrow> Some p | None \<Rightarrow> wr_get q HUMAN_PROOF_HEADER"
  let ?Q = "\<lambda>qs. qs = [] \<or> (\<exists>p s. ?proof = Some p \<and>
       qs = [manually (wr_set PAYMENT_SIGNATURE_HEADER s (wr_set HUMAN_PROOF_HEADER p third))])"
  have pay: "sends sent (io_bind (resolvePayment response q) (\<lambda>payment.
          if pd_paymentSignature payment = [] \<or> 65536 < length (pd_paymentSignature payment)
          then io_throw (Error ''Payment dependency resolver returned an invalid signature'')
          else let finalRequest = manually (wr_set PAYMENT_SIGNATURE_HEADER (pd_paymentSignature payment)
                     (wr_set HUMAN_PROOF_HEADER p third))
            in io_bind (fetch_checked (xo_web options) finalRequest) (\<lambda>finalResponse.
               io_bind (case pd_processResponse payment of None \<Rightarrow> io_return () | Some process \<Rightarrow> process finalResponse) (\<lambda>_.
               io_return finalResponse)))) (\<lambda>_. ?Q) ?Q" if p: "?proof = Some p" for p
  proof (rule sends_bind [where R = "\<lambda>payment qs. qs = [] \<and>
      (\<forall>process answer. pd_processResponse payment = Some process \<longrightarrow> silent sent (process answer))"])
    show "sends sent (resolvePayment response q) (\<lambda>payment qs. qs = [] \<and>
        (\<forall>process answer. pd_processResponse payment = Some process \<longrightarrow> silent sent (process answer))) ?Q"
      by (rule silent_sends_when [OF h]) (use c in blast)+
  next
    fix payment :: "'a PaymentDependencyResolution" and qs :: "WebRequest list"
    assume a: "qs = [] \<and> (\<forall>process answer. pd_processResponse payment = Some process \<longrightarrow> silent sent (process answer))"
    let ?final = "manually (wr_set PAYMENT_SIGNATURE_HEADER (pd_paymentSignature payment) (wr_set HUMAN_PROOF_HEADER p third))"
    have s: "silent sent (io_bind (case pd_processResponse payment of None \<Rightarrow> io_return () | Some process \<Rightarrow> process answer)
        (\<lambda>_. io_return answer))" for answer
      by (cases "pd_processResponse payment") (use a in \<open>auto intro!: silent_intros\<close>)
    have "sends sent (io_bind (fetch_checked (xo_web options) ?final) (\<lambda>finalResponse.
        io_bind (case pd_processResponse payment of None \<Rightarrow> io_return () | Some process \<Rightarrow> process finalResponse) (\<lambda>_.
        io_return finalResponse))) (\<lambda>_. ?Q) ?Q"
      by (rule sends_bind [OF sends_mono [OF fetch_checked_sends [OF f]]]) (use p s in \<open>auto intro!: silent_sends\<close>)
    then show "sends sent (if pd_paymentSignature payment = [] \<or> 65536 < length (pd_paymentSignature payment)
        then io_throw (Error ''Payment dependency resolver returned an invalid signature'')
        else let finalRequest = ?final in io_bind (fetch_checked (xo_web options) finalRequest) (\<lambda>finalResponse.
          io_bind (case pd_processResponse payment of None \<Rightarrow> io_return () | Some process \<Rightarrow> process finalResponse) (\<lambda>_.
          io_return finalResponse)))
       (\<lambda>_ qs'. ?Q (qs @ qs')) (\<lambda>qs'. ?Q (qs @ qs'))"
      using a unfolding Let_def by (simp add: sends_throw)
  qed
  show ?thesis
    unfolding x402_payment_def
    using pay by (cases ?proof) (auto intro!: sends_return sends_throw)
qed

definition x402_trace :: "WebRequest \<Rightarrow> WebRequest \<Rightarrow> WebRequest \<Rightarrow> WebRequest list \<Rightarrow> bool" where
  "x402_trace first second third qs \<longleftrightarrow> (\<exists>proof. humanity_trace first second qs proof \<or>
     (\<exists>hs p s. humanity_trace first second hs proof \<and>
        (case proof of Some p \<Rightarrow> Some p | None \<Rightarrow> wr_get first HUMAN_PROOF_HEADER) = Some p \<and>
        qs = hs @ [manually (wr_set PAYMENT_SIGNATURE_HEADER s (wr_set HUMAN_PROOF_HEADER p third))]))"

lemma x402_sends:
  assumes "resolvers_silent options resolvePayment bodyFactory sent"
  shows "sends sent (io_bind (x402_humanity options first second) (\<lambda>stage. case stage of
       Finished response \<Rightarrow> io_return response
     | Proceed currentRequest response humanProof \<Rightarrow>
         x402_payment options resolvePayment third currentRequest response humanProof))
    (\<lambda>_. x402_trace first second third) (x402_trace first second third)"
proof (rule sends_bind [OF sends_mono [OF humanity_sends [OF assms]]], assumption)
  fix qs assume "\<exists>hp. humanity_trace first second qs hp"
  then show "x402_trace first second third qs" unfolding x402_trace_def by blast
next
  fix stage and qs :: "WebRequest list"
  assume s: "case stage of Finished response \<Rightarrow> qs = [manually first]
    | Proceed q response hp \<Rightarrow> humanity_trace first second qs hp \<and> (hp = None \<longrightarrow> q = first)"
  let ?T = "\<lambda>qs'. x402_trace first second third (qs @ qs')"
  show "sends sent (case stage of Finished response \<Rightarrow> io_return response
      | Proceed currentRequest response humanProof \<Rightarrow> x402_payment options resolvePayment third currentRequest response humanProof)
     (\<lambda>_. ?T) ?T"
  proof (cases stage)
    case (Finished response)
    then have "humanity_trace first second qs None" using s by (simp add: humanity_trace_def)
    then have "?T []" unfolding x402_trace_def append_Nil2 by blast
    then show ?thesis using Finished by (simp add: sends_return)
  next
    case (Proceed q response hp)
    then have h: "humanity_trace first second qs hp" "hp = None \<Longrightarrow> q = first" using s by simp_all
    then have q: "(case hp of Some p \<Rightarrow> Some p | None \<Rightarrow> wr_get q HUMAN_PROOF_HEADER) =
        (case hp of Some p \<Rightarrow> Some p | None \<Rightarrow> wr_get first HUMAN_PROOF_HEADER)" by (cases hp) simp_all
    have t: "?T qs'" if "qs' = [] \<or> (\<exists>p s. (case hp of Some p \<Rightarrow> Some p | None \<Rightarrow> wr_get q HUMAN_PROOF_HEADER) = Some p \<and>
        qs' = [manually (wr_set PAYMENT_SIGNATURE_HEADER s (wr_set HUMAN_PROOF_HEADER p third))])" for qs'
      using that h(1) unfolding q x402_trace_def by (metis append_Nil2)
    show ?thesis unfolding Proceed x402_stage.case
      by (rule sends_mono [OF payment_sends [OF assms]]) (rule t, assumption)+
  qed
qed

lemma x402_trace_resent:
  assumes "same_request seed first \<and> same_request seed second \<and> same_request seed third" "x402_trace first second third qs"
  shows "\<exists>q rest. qs = q # rest \<and> resent seed (wr_get seed ''human-proof'') (wr_get seed ''payment-signature'') q \<and>
    (rest = [] \<or>
     wr_get seed ''human-proof'' = None \<and> (\<exists>p q2. resent seed (Some p) (wr_get seed ''payment-signature'') q2 \<and>
       (rest = [q2] \<or> (\<exists>s q3. rest = [q2, q3] \<and> resent seed (Some p) (Some s) q3))) \<or>
     (\<exists>p s q3. wr_get seed ''human-proof'' = Some p \<and> rest = [q3] \<and> resent seed (Some p) (Some s) q3))"
proof -
  have p: "wr_get first HUMAN_PROOF_HEADER = wr_get seed ''human-proof''"
    using assms(1) by (simp add: same_request_def wr_get_def HUMAN_PROOF_HEADER_def)
  have r: "resent seed (wr_get seed ''human-proof'') (wr_get seed ''payment-signature'') (manually first)"
    "resent seed (Some p) (wr_get seed ''payment-signature'') (manually (wr_set HUMAN_PROOF_HEADER p second))"
    "resent seed (Some p) (Some s) (manually (wr_set PAYMENT_SIGNATURE_HEADER s (wr_set HUMAN_PROOF_HEADER p third)))" for p s
    using assms(1) by (simp_all add: resent_first resent_proof resent_payment)
  obtain hp where "humanity_trace first second qs hp \<or> (\<exists>hs p s. humanity_trace first second hs hp \<and>
        (case hp of Some p \<Rightarrow> Some p | None \<Rightarrow> wr_get seed ''human-proof'') = Some p \<and>
        qs = hs @ [manually (wr_set PAYMENT_SIGNATURE_HEADER s (wr_set HUMAN_PROOF_HEADER p third))])"
    using assms(2) unfolding x402_trace_def p by blast
  then show ?thesis
  proof
    assume "humanity_trace first second qs hp"
    then consider "qs = [manually first]" |
      (two) p' where "wr_get seed ''human-proof'' = None" "qs = [manually first, manually (wr_set HUMAN_PROOF_HEADER p' second)]"
      unfolding humanity_trace_def p by blast
    then show ?thesis
    proof cases
      case 1
      then show ?thesis using r(1) by simp
    next
      case two
      then show ?thesis using r(1) r(2) [of p'] by simp blast
    qed
  next
    assume "\<exists>hs p s. humanity_trace first second hs hp \<and>
        (case hp of Some p \<Rightarrow> Some p | None \<Rightarrow> wr_get seed ''human-proof'') = Some p \<and>
        qs = hs @ [manually (wr_set PAYMENT_SIGNATURE_HEADER s (wr_set HUMAN_PROOF_HEADER p third))]"
    then obtain hs p' s where h: "humanity_trace first second hs hp"
      "(case hp of Some p \<Rightarrow> Some p | None \<Rightarrow> wr_get seed ''human-proof'') = Some p'"
      "qs = hs @ [manually (wr_set PAYMENT_SIGNATURE_HEADER s (wr_set HUMAN_PROOF_HEADER p' third))]" by blast
    show ?thesis
    proof (cases hp)
      case None
      then have "qs = [manually first, manually (wr_set PAYMENT_SIGNATURE_HEADER s (wr_set HUMAN_PROOF_HEADER p' third))]"
        "wr_get seed ''human-proof'' = Some p'" using h by (auto simp: humanity_trace_def)
      then show ?thesis using r(1) r(3) [of p' s] by simp blast
    next
      case (Some p)
      then have "qs = [manually first, manually (wr_set HUMAN_PROOF_HEADER p' second),
          manually (wr_set PAYMENT_SIGNATURE_HEADER s (wr_set HUMAN_PROOF_HEADER p' third))]"
        "wr_get seed ''human-proof'' = None" using h p by (auto simp: humanity_trace_def)
      then show ?thesis using r(1) r(2) [of p'] r(3) [of p' s] by simp blast
    qed
  qed
qed

subsection \<open>Properties\<close>


text \<open>A response that is the challenge \<open>c\<close> of a resource, as the client reads it.\<close>

definition carries_challenge :: "'w Web \<Rightarrow> HumanRequiredChallenge \<Rightarrow> WebResponse \<Rightarrow> bool" where
  "carries_challenge web c response \<longleftrightarrow> we_status response = 424 \<and> we_type response = ''basic'' \<and> we_headers response = hc_headers c \<and>
     response_body_json web response = Some (js_of_problem (hc_body c))"

lemma challenge_header_parts:
  assumes "humanRequiredResponse r = Inr c"
  shows "map_of (hc_headers c) ''content-type'' = Some ''application/problem+json'' \<and> map_of (hc_headers c) ''location'' = None"
  using assms
  by (auto simp: humanRequiredResponse_def header_names split: if_splits X424RequirementTransportMode.splits)
    (metis X424RequirementTransportMode.exhaust)+

lemma challenge_understood:
  assumes "plain_requests r" "validate (wb_zod web) HumanRequirementSchema (js_of_requirement r)"
    "humanRequiredResponse r = Inr c" "carries_challenge web c response"
  shows "challenge_requirement web response = Some r" "refuse_redirect web q response = Inr ()"
proof -
  note h = challenge_header_parts [OF assms(3)]
  have j: "json_content response" using assms(4) h
    by (simp add: json_content_def carries_challenge_def we_get_def startsWith_def)
  have "we_get response = map_of (hc_headers c)" using assms(4) by (simp add: carries_challenge_def we_get_def fun_eq_iff)
  then have "requirementFromChallenge (wb_zod web) (Some (we_get response)) (js_of_problem (hc_body c)) = Inr r"
    using challenge_received [OF assms(1-3)] by simp
  then show "challenge_requirement web response = Some r"
    using j assms(4) by (simp add: challenge_requirement_def carries_challenge_def)
  show "refuse_redirect web q response = Inr ()"
    using assms(4) h
    by (simp add: refuse_redirect_def carries_challenge_def isCrossOriginRedirect_def present_def we_get_def REDIRECT_STATUSES_def)
qed

text \<open>
  C26: A client answers the challenge of a resource: when the first response is the challenge the resource renders for a
  well-formed requirement that names this request, and the caller gave no proof, then the client asks its resolver for
  exactly this requirement and, given a proof of 1 to 65536 characters, sends the request once more with this proof and
  returns what that is answered; given any other text it throws.
\<close>

theorem client_answers_challenge:
  assumes "plain_requests r" "validate (wb_zod (xo_web options)) HumanRequirementSchema (js_of_requirement r)"
    and c: "humanRequiredResponse r = Inr c" "carries_challenge (xo_web options) c response"
    and first: "wb_fetch (xo_web options) (manually q) w = (Inr response, w1)" "wr_get q ''human-proof'' = None"
    and named: "names_request (xo_web options) q response r = Inr ()"
    and resolved: "xo_resolveHumanDependency options r response w1 = (Inr humanProof, w2)"
  shows "fetchWithX424 options q True w =
    (if 1 \<le> length humanProof \<and> length humanProof \<le> 65536
     then wb_fetch (xo_web options) (manually (wr_set ''human-proof'' humanProof q)) w2
     else (Inl (Error ''Human dependency resolver returned an invalid proof''), w2))"
proof -
  note u = challenge_understood [OF assms(1-4)]
  have s: "we_status response = 424" using c(2) by (simp add: carries_challenge_def)
  have v: "valid_humanProof humanProof \<longleftrightarrow> 1 \<le> length humanProof \<and> length humanProof \<le> 65536"
    by (cases humanProof) (auto simp: valid_humanProof_def)
  show ?thesis
    unfolding v [symmetric] using first named resolved u s
    by (simp add: fetchWithX424_def io_bind_def io_eval answer_challenge_def HUMAN_PROOF_HEADER_def)
qed

text \<open>
  C28: A provider's proof goes to the configured verifier only: the resolver that submits it sends at most one request, a
  \<open>POST\<close> without credentials that is not redirected, to a URL resolved below the verifier's https URL (or http on
  localhost where that is allowed), with exactly the requirement's identifiers and binding and the provider's proof, and
  only when the provider answered for a method the requirement accepts.
\<close>

theorem proof_to_verifier_only:
  assumes "createHttpHumanDependencyResolver options requirement w = (r, w')"
    and f: "\<And>q w. sent (snd (wb_fetch (ho_web options) q w)) = sent w @ [q]"
    and p: "silent sent (ho_resolveProviderProof options requirement)" "silent sent (ho_headers options)"
  shows "sent w' = sent w \<or> (\<exists>q resolved v v' base endpoint. sent w' = sent w @ [q] \<and>
    ho_resolveProviderProof options requirement v = (Inr resolved, v') \<and> accepts_resolution requirement resolved \<and>
    assertTrustedHttpsUrl (wb_url (ho_web options)) (ho_verifierUrl options) (ho_allowHttpLocalhost options) = Inr base \<and>
    ho_resolveUrl options (''v1/requirements/'' @ encodeURIComponent (rq_dependencyId requirement) @ ''/verify'') (with_slash base) =
      Some endpoint \<and>
    wr_method q = ''POST'' \<and> wr_url q = u_href endpoint \<and> wr_redirect q = ''manual'' \<and> wr_credentials q = ''omit'' \<and>
    wr_body q = Some (utf8_encode (stringify (submission_body requirement resolved))))"
proof -
  obtain x w1 where x: "ho_resolveProviderProof options requirement w = (x, w1)" by fastforce
  have w1: "sent w1 = sent w" using p(1) x unfolding silent_def by (metis snd_conv)
  note run = assms(1) [unfolded createHttpHumanDependencyResolver_def]
  show ?thesis
  proof (cases "\<exists>resolved endpoint. x = Inr resolved \<and> accepts_resolution requirement resolved \<and>
      submission_endpoint options requirement = Inr endpoint")
    case False
    then have "w' = w1" using run x by (auto simp: io_bind_def io_eval split: sum.splits if_splits)
    then show ?thesis using w1 by simp
  next
    case True
    then obtain resolved endpoint where e: "x = Inr resolved" "accepts_resolution requirement resolved"
      "submission_endpoint options requirement = Inr endpoint" by blast
    obtain y w2 where y: "ho_headers options w1 = (y, w2)" by fastforce
    have w2: "sent w2 = sent w" using p(2) y w1 unfolding silent_def by (metis snd_conv)
    show ?thesis
    proof (cases y)
      case (Inl err)
      then have "w' = w2" using run x e y by (simp add: io_bind_def io_eval)
      then show ?thesis using w2 by simp
    next
      case (Inr hs)
      let ?q = "submission_request endpoint hs (submission_body requirement resolved)"
      have "w' = snd (wb_fetch (ho_web options) ?q w2)"
        using run x e y Inr by (cases "wb_fetch (ho_web options) ?q w2") (auto simp: io_bind_def io_eval split: sum.splits)
      then have "sent w' = sent w @ [?q]" using f w2 by simp
      moreover obtain base where "assertTrustedHttpsUrl (wb_url (ho_web options)) (ho_verifierUrl options) (ho_allowHttpLocalhost options) = Inr base"
        "ho_resolveUrl options (''v1/requirements/'' @ encodeURIComponent (rq_dependencyId requirement) @ ''/verify'') (with_slash base) =
          Some endpoint"
        using e(3) by (auto simp: submission_endpoint_def resolve_URL_def split: option.splits)
      moreover have "wr_method ?q = ''POST'' \<and> wr_url ?q = u_href endpoint \<and> wr_redirect ?q = ''manual'' \<and> wr_credentials ?q = ''omit'' \<and>
          wr_body ?q = Some (utf8_encode (stringify (submission_body requirement resolved)))"
        by (simp add: submission_request_def)
      ultimately show ?thesis using x e by blast
    qed
  qed
qed

subsection \<open>A sample server\<close>

text \<open>
  The world is the list of requests sent.  The server challenges a request without proof, asks for a payment with a proof
  and answers a request with both; the verifier answers with a result.
\<close>

definition sample_server :: "(string \<times> string) list \<Rightarrow> WebRequest \<Rightarrow> (WebRequest list, WebResponse) io" where
  "sample_server hs q = (\<lambda>w. (Inr (if wr_get q ''human-proof'' = None
     then \<lparr>we_status = 424, we_url = [], we_type = ''basic'', we_headers = hs, we_body = None\<rparr>
     else \<lparr>we_status = (if wr_get q ''payment-signature'' = None then 402 else 200), we_url = [], we_type = ''basic'',
       we_headers = [(''human-result'', ''r'')], we_body = None\<rparr>), w @ [q]))"

definition sample_client_web :: "HumanRequiredChallenge \<Rightarrow> WebRequest list Web" where
  "sample_client_web c = \<lparr>wb_fetch = sample_server (hc_headers c),
     wb_url = (\<lambda>s. Some \<lparr>u_href = s, u_origin = ''o'', u_protocol = ''https:'', u_host = ''h'', u_hostname = ''h'', u_pathname = ''/'',
       u_search = [], u_hash = [], u_username = [], u_password = []\<rparr>),
     wb_zod = sample_zod, wb_json = (\<lambda>_. Some (js_of_problem (hc_body c))),
     wb_clock = io_return 0, wb_random = (\<lambda>n. io_return (replicate n 0))\<rparr>"

definition sample_client :: "HumanRequiredChallenge \<Rightarrow> WebRequest list X424FetchOptions" where
  "sample_client c = \<lparr>xo_web = sample_client_web c, xo_resolveHumanDependency = (\<lambda>r response. io_return ''p'')\<rparr>"

definition sample_client_request :: "(string \<times> string) list \<Rightarrow> WebRequest" where
  "sample_client_request hs = \<lparr>wr_method = ''POST'', wr_url = ''https://a/'', wr_headers = hs, wr_body = None, wr_redirect = ''follow'',
     wr_credentials = ''same-origin'', wr_cache = ''default''\<rparr>"

definition sample_challenge :: HumanRequiredChallenge where
  "sample_challenge = \<lparr>hc_headers = base_headers, hc_body = challenge_body sample_wire_requirement BodyMode, hc_transport = BodyMode\<rparr>"

definition sample_payment :: "WebRequest list PaymentDependencyResolver" where
  "sample_payment response q = io_return \<lparr>pd_paymentSignature = ''s'', pd_processResponse = None\<rparr>"

definition sample_submission :: "WebRequest list HttpHumanDependencyResolverOptions" where
  "sample_submission = \<lparr>ho_web = sample_client_web sample_challenge,
     ho_resolveUrl = (\<lambda>path base. Some (base\<lparr>u_href := u_href base @ path\<rparr>)), ho_verifierUrl = ''https://v/'',
     ho_resolveProviderProof = (\<lambda>r. io_return \<lparr>pv_providerId = ''world-id'', pv_methodId = ''orb'', pv_descriptorVersion = ''4.0'', pv_nativeProof = JNull\<rparr>),
     ho_headers = io_return [(''human-proof'', ''x'')], ho_allowHttpLocalhost = False\<rparr>"

lemmas sample_client_defs = sample_client_def sample_client_web_def sample_client_request_def sample_server_def

lemma sample_challenge_rendered: "\<exists>c. humanRequiredResponse sample_wire_requirement = Inr c"
proof -
  have "case canonicalJson (js_of_requirement sample_wire_requirement) of Inr t \<Rightarrow> length t < 2000 | Inl _ \<Rightarrow> False"
    by code_simp
  then obtain t where t: "canonicalJson (js_of_requirement sample_wire_requirement) = Inr t" "length t < 2000"
    by (auto split: sum.splits)
  let ?h = "encodeStrictBase64Url (utf8_encode t)"
  have "length ?h \<le> 65536"
    using length_utf8_encode [of t] b64_length_le [of "utf8_encode t"] t(2) by linarith
  then show ?thesis using t(1)
    by (simp add: humanRequiredResponse_def canonicalHeader_def transport_limits selectRequirementTransportMode_def)
qed

theorem client_answers_challenge_witness:
  "\<exists>c. humanRequiredResponse sample_wire_requirement = Inr c \<and>
     fetchWithX424 (sample_client c) (sample_client_request []) True [] =
       sample_server (hc_headers c) (manually (wr_set ''human-proof'' ''p'' (sample_client_request []))) [manually (sample_client_request [])]"
proof -
  obtain c where c: "humanRequiredResponse sample_wire_requirement = Inr c" using sample_challenge_rendered by blast
  let ?r = "\<lparr>we_status = 424, we_url = [], we_type = ''basic'', we_headers = hc_headers c, we_body = None\<rparr>"
  have p: "plain_requests sample_wire_requirement" by (simp add: plain_requests_def sample_wire_requirement_def)
  have x: "xo_web (sample_client c) = sample_client_web c" by (simp add: sample_client_def)
  have z: "validate (wb_zod (xo_web (sample_client c))) HumanRequirementSchema (js_of_requirement sample_wire_requirement)"
    using sample_wire_valid by (simp add: sample_client_defs)
  have cc: "carries_challenge (xo_web (sample_client c)) c ?r"
    by (simp add: carries_challenge_def response_body_json_def sample_client_defs)
  have f: "wb_fetch (xo_web (sample_client c)) (manually (sample_client_request [])) [] = (Inr ?r, [manually (sample_client_request [])])"
    by (simp add: sample_client_defs manually_def wr_get_def)
  have n: "wr_get (sample_client_request []) ''human-proof'' = None" by (simp add: sample_client_request_def wr_get_def)
  have m: "names_request (xo_web (sample_client c)) (sample_client_request []) ?r sample_wire_requirement = Inr ()"
    unfolding names_request_def assertChallengeRequestMatch_def response_url_def sample_client_defs sample_wire_requirement_def
    by (simp add: toUpperCase_def is_lower_char_def)
  have r: "xo_resolveHumanDependency (sample_client c) sample_wire_requirement ?r [manually (sample_client_request [])] =
      (Inr ''p'', [manually (sample_client_request [])])" by (simp add: sample_client_def io_eval)
  from client_answers_challenge [OF p z c cc f n m r] c show ?thesis
    by (intro exI [of _ c]) (simp add: x, simp add: sample_client_web_def)
qed


theorem proof_to_verifier_only_witness:
  "\<exists>q. snd (createHttpHumanDependencyResolver sample_submission sample_wire_requirement []) = [q] \<and> wr_method q = ''POST'' \<and>
     wr_url q = ''https://v/v1/requirements/dep/verify'' \<and> wr_redirect q = ''manual'' \<and> wr_credentials q = ''omit''"
proof -
  have l: "snd (createHttpHumanDependencyResolver sample_submission sample_wire_requirement []) \<noteq> []" by code_simp
  have e: "''v1/requirements/'' @ encodeURIComponent (rq_dependencyId sample_wire_requirement) @ ''/verify'' =
      ''v1/requirements/dep/verify''" by code_simp
  have b: "assertTrustedHttpsUrl (wb_url (ho_web sample_submission)) (ho_verifierUrl sample_submission)
      (ho_allowHttpLocalhost sample_submission) = Inr \<lparr>u_href = ''https://v/'', u_origin = ''o'', u_protocol = ''https:'', u_host = ''h'',
        u_hostname = ''h'', u_pathname = ''/'', u_search = [], u_hash = [], u_username = [], u_password = []\<rparr>"
    by (simp add: sample_submission_def sample_client_web_def assertTrustedHttpsUrl_def new_URL_def)
  have s: "\<And>q w. snd (wb_fetch (ho_web sample_submission) q w) = w @ [q]"
    "silent (\<lambda>w. w) (ho_resolveProviderProof sample_submission sample_wire_requirement)" "silent (\<lambda>w. w) (ho_headers sample_submission)"
    by (simp_all add: sample_submission_def sample_client_web_def sample_server_def silent_def io_eval)
  obtain r w' where run: "createHttpHumanDependencyResolver sample_submission sample_wire_requirement [] = (r, w')" by fastforce
  from proof_to_verifier_only [where sent = "\<lambda>w. w", OF run s] l
  obtain q endpoint where "w' = [q]" "wr_method q = ''POST''" "wr_url q = u_href endpoint" "wr_redirect q = ''manual''" "wr_credentials q = ''omit''"
    "ho_resolveUrl sample_submission ''v1/requirements/dep/verify'' (with_slash \<lparr>u_href = ''https://v/'', u_origin = ''o'', u_protocol = ''https:'',
        u_host = ''h'', u_hostname = ''h'', u_pathname = ''/'', u_search = [], u_hash = [], u_username = [], u_password = []\<rparr>) = Some endpoint"
    unfolding run e b by auto
  then show ?thesis unfolding run
    by (auto simp: sample_submission_def with_slash_def endsWith_def startsWith_def)
qed

end
