(* ===== verification/Metadata.thy ===== *)
theory Metadata
  imports ResultToken Handoff Transport
begin

section \<open>Verifier metadata (src/metadata/verifier-metadata.ts)\<close>

text \<open>
  The signed metadata document of a verifier.  A document that comes out of a token has no schema: it is the parsed
  JSON value, read member by member.  Signatures and the URL parser are parameters.
\<close>

definition X424_METADATA_TYP :: string where
  "X424_METADATA_TYP = ''x424-verifier-metadata+jws''"

definition X424_METADATA_CANDIDATE_PATH :: string where
  "X424_METADATA_CANDIDATE_PATH = ''/.well-known/x424-verifier''"

record VerifierMetadataTrustPolicy =
  mp_expectedIssuer :: "string option"
  mp_allowedEndpointOrigins :: "string list"
  mp_allowHttpLocalhost :: bool

text \<open>\<open>a === b\<close>; values of object type that were parsed apart are never the same object.\<close>

fun strict_equal :: "js \<Rightarrow> js \<Rightarrow> bool" where
  "strict_equal (JStr a) (JStr b) = (a = b)"
| "strict_equal (JBool a) (JBool b) = (a = b)"
| "strict_equal (JNum a) (JNum b) = (a = b \<and> a \<noteq> NotANumber)"
| "strict_equal JNull JNull = True"
| "strict_equal JUndefined JUndefined = True"
| "strict_equal _ _ = False"

text \<open>\<open>value.key\<close> throws on \<open>null\<close> and \<open>undefined\<close>.\<close>

definition read_member :: "js \<Rightarrow> string \<Rightarrow> js res" where
  "read_member v key = (if v = JNull \<or> v = JUndefined then Inl (TypeError ''Cannot read properties of null or undefined'')
     else Inr (js_get v key))"

text \<open>\<open>Object.values(v)\<close>.\<close>

fun object_values :: "js \<Rightarrow> js list res" where
  "object_values (JObj kvs) = Inr (map snd kvs)"
| "object_values (JArr xs) = Inr xs"
| "object_values (JStr s) = Inr (map (\<lambda>c. JStr [c]) s)"
| "object_values JNull = Inl (TypeError ''Cannot convert undefined or null to object'')"
| "object_values JUndefined = Inl (TypeError ''Cannot convert undefined or null to object'')"
| "object_values _ = Inr []"

subsection \<open>URLs of a document\<close>

definition js_of_url :: "Url \<Rightarrow> js" where
  "js_of_url u = JObj [(''href'', JStr (u_href u)), (''origin'', JStr (u_origin u)), (''protocol'', JStr (u_protocol u)),
     (''hostname'', JStr (u_hostname u)), (''pathname'', JStr (u_pathname u)), (''search'', JStr (u_search u)),
     (''hash'', JStr (u_hash u))]"

text \<open>\<open>assertTrustedHttpsUrl\<close> parses a string and takes any other value for a URL object.\<close>

definition trusted_url :: "url_parser \<Rightarrow> js \<Rightarrow> bool \<Rightarrow> js res" where
  "trusted_url parse url allowHttpLocalhost =
     bindE (case url of JStr s \<Rightarrow> bindE (new_URL parse s) (\<lambda>u. Inr (js_of_url u)) | _ \<Rightarrow> Inr url) (\<lambda>parsed.
     bindE (read_member parsed ''protocol'') (\<lambda>protocol.
     if protocol = JStr ''https:'' then Inr parsed
     else if allowHttpLocalhost \<and> protocol = JStr ''http:'' \<and>
       (js_get parsed ''hostname'' = JStr ''localhost'' \<or> js_get parsed ''hostname'' = JStr ''127.0.0.1'') then Inr parsed
     else Inl (Error ''Verifier URL must use https outside local development'')))"

definition originOnly :: "js \<Rightarrow> string \<Rightarrow> js res" where
  "originOnly url label =
     (if js_get url ''pathname'' \<noteq> JStr ''/'' \<or> \<not> falsy (js_get url ''search'') \<or> \<not> falsy (js_get url ''hash'')
      then Inl (Error (label @ '' must be an origin, without path, query, or hash'')) else Inr url)"

definition trusted_origin :: "url_parser \<Rightarrow> js \<Rightarrow> bool \<Rightarrow> string \<Rightarrow> js res" where
  "trusted_origin parse url allow label =
     bindE (trusted_url parse url allow) (\<lambda>u. bindE (originOnly u label) (\<lambda>u'. Inr (js_get u' ''origin'')))"

subsection \<open>The document\<close>

definition metadata_issuer :: "url_parser \<Rightarrow> js \<Rightarrow> VerifierMetadataTrustPolicy \<Rightarrow> js res" where
  "metadata_issuer parse document policy =
     bindE (trusted_origin parse (js_get document ''issuer'') (mp_allowHttpLocalhost policy) ''Metadata issuer'') (\<lambda>issuer.
     case mp_expectedIssuer policy of
       None \<Rightarrow> Inr issuer
     | Some expectedIssuer \<Rightarrow>
         if expectedIssuer = [] then Inr issuer
         else bindE (trusted_origin parse (JStr expectedIssuer) (mp_allowHttpLocalhost policy) ''Expected metadata issuer'') (\<lambda>expected.
           if \<not> strict_equal issuer expected then Inl (Error ''Metadata issuer does not match configured issuer'') else Inr issuer))"

definition metadata_window :: "js \<Rightarrow> int \<Rightarrow> unit res" where
  "metadata_window document now = (case (date_parse_js (js_get document ''issuedAt''), date_parse_js (js_get document ''expiresAt'')) of
     (Some issuedAt, Some expiresAt) \<Rightarrow>
       if expiresAt \<le> issuedAt then Inl (Error ''Metadata issuedAt must be before expiresAt'')
       else if now < issuedAt then Inl (Error ''Metadata issuedAt is in the future'')
       else throwIf (expiresAt \<le> now) (Error ''Verifier metadata expired or invalid'')
   | _ \<Rightarrow> Inl (Error ''Metadata timestamps are invalid''))"

definition metadata_endpoint :: "url_parser \<Rightarrow> bool \<Rightarrow> js \<Rightarrow> js list \<Rightarrow> js \<Rightarrow> unit res" where
  "metadata_endpoint parse allow issuer allowedOrigins endpoint =
     bindE (trusted_url parse endpoint allow) (\<lambda>endpointUrl.
     throwIf (\<not> strict_equal (js_get endpointUrl ''origin'') issuer \<and>
       \<not> list_ex (strict_equal (js_get endpointUrl ''origin'')) allowedOrigins)
       (Error ''Metadata endpoint origin is not trusted for this issuer''))"

definition metadata_key :: "js list \<Rightarrow> js \<Rightarrow> js list res" where
  "metadata_key kids key =
     bindE (read_member key ''alg'') (\<lambda>alg.
     if alg \<noteq> JStr ''EdDSA'' then Inl (Error ''Unsupported metadata key algorithm'')
     else let kid = js_get key ''kid'' in
     if falsy kid \<or> list_ex (strict_equal kid) kids then Inl (Error ''Duplicate or missing metadata kid'')
     else if js_get key ''status'' \<notin> {JStr ''active'', JStr ''retired'', JStr ''revoked''}
     then Inl (Error ''Invalid metadata key status'')
     else bindE (case (date_parse_js (js_get key ''notBefore''), date_parse_js (js_get key ''notAfter'')) of
            (Some nbf, Some expiry) \<Rightarrow> throwIf (expiry \<le> nbf) (Error ''Invalid metadata key validity interval'')
          | _ \<Rightarrow> Inl (Error ''Invalid metadata key validity interval'')) (\<lambda>_.
     let jwk = js_get key ''publicKeyJwk'' in
     if js_get jwk ''kty'' \<noteq> JStr ''OKP'' \<or> js_get jwk ''crv'' \<noteq> JStr ''Ed25519''
     then Inl (Error ''Metadata key JWK must be OKP Ed25519'')
     else case js_get jwk ''x'' of
       JStr x \<Rightarrow> bindE (decodeStrictBase64Url x ''metadata JWK x'') (\<lambda>bs.
         if length bs \<noteq> 32 then Inl (Error ''Metadata key JWK x must be an Ed25519 public key'') else Inr (kid # kids))
     | _ \<Rightarrow> Inl (Error ''Metadata key JWK x must be an Ed25519 public key'')))"

definition metadata_keys :: "js \<Rightarrow> unit res" where
  "metadata_keys document = (case js_get document ''keys'' of
     JArr (k # ks) \<Rightarrow> bindE (foldE metadata_key [] (k # ks)) (\<lambda>_. Inr ())
   | _ \<Rightarrow> Inl (Error ''Metadata must include signing keys''))"

definition assertMetadataDocument :: "url_parser \<Rightarrow> js \<Rightarrow> int \<Rightarrow> VerifierMetadataTrustPolicy \<Rightarrow> unit res" where
  "assertMetadataDocument parse document now policy =
     bindE (read_member document ''x424Version'') (\<lambda>version.
     if version \<noteq> JStr X424_VERSION then Inl (Error ''Unsupported metadata protocol version'')
     else if falsy (js_get document ''metadataId'') \<or> falsy (js_get document ''issuer'')
     then Inl (Error ''Metadata missing required identity fields'')
     else bindE (metadata_issuer parse document policy) (\<lambda>issuer.
       bindE (metadata_window document now) (\<lambda>_.
       bindE (mapE (\<lambda>v. trusted_origin parse (JStr v) (mp_allowHttpLocalhost policy) ''Allowed endpoint origin'')
         (mp_allowedEndpointOrigins policy)) (\<lambda>allowedOrigins.
       bindE (object_values (js_get document ''endpoints'')) (\<lambda>endpoints.
       bindE (mapE (metadata_endpoint parse (mp_allowHttpLocalhost policy) issuer allowedOrigins) endpoints) (\<lambda>_.
       metadata_keys document))))))"

subsection \<open>Tokens\<close>

definition metadata_header :: "string \<Rightarrow> js" where
  "metadata_header keyId = JObj [(''alg'', JStr ''EdDSA''), (''typ'', JStr X424_METADATA_TYP), (''kid'', JStr keyId)]"

text \<open>A document is signed as of its own time of issue; local http addresses are allowed then.\<close>

definition issued_at :: "js \<Rightarrow> int" where
  "issued_at document = (case date_parse_js (js_get document ''issuedAt'') of None \<Rightarrow> 0 | Some t \<Rightarrow> t)"

definition signVerifierMetadata :: "url_parser \<Rightarrow> ('sk \<Rightarrow> bytes \<Rightarrow> bytes) \<Rightarrow> js \<Rightarrow> string \<Rightarrow> 'sk \<Rightarrow> string res" where
  "signVerifierMetadata parse sign document keyId privateKey =
     bindE (assertMetadataDocument parse document (issued_at document)
       \<lparr>mp_expectedIssuer = None, mp_allowedEndpointOrigins = [], mp_allowHttpLocalhost = True\<rparr>) (\<lambda>_.
     bindE (canonicalJson (metadata_header keyId)) (\<lambda>header.
     bindE (canonicalJson document) (\<lambda>payload.
     let signingInput = encodeStrictBase64Url (utf8_encode header) @ ''.'' @ encodeStrictBase64Url (utf8_encode payload)
     in Inr (signingInput @ ''.'' @ encodeStrictBase64Url (sign privateKey (utf8_encode signingInput))))))"

definition parseMetadataHeader :: "string \<Rightarrow> js res" where
  "parseMetadataHeader protectedHeader =
     bindE (decodeStrictBase64Url protectedHeader ''metadata header'') (\<lambda>bs.
     bindE (parseCanonicalJsonBytes bs ''metadata header'') (\<lambda>header.
     bindE (read_member header ''alg'') (\<lambda>alg.
     if alg \<noteq> JStr ''EdDSA'' \<or> js_get header ''typ'' \<noteq> JStr X424_METADATA_TYP \<or> falsy (js_get header ''kid'')
     then Inl (Error ''Unsupported verifier metadata header'')
     else if list_ex (\<lambda>key. key \<noteq> ''alg'' \<and> key \<noteq> ''typ'' \<and> key \<noteq> ''kid'') (map fst (members_of header))
     then Inl (Error ''Unsupported verifier metadata header field'')
     else Inr (js_get header ''kid''))))"

definition trusted_key :: "'pk key_set \<Rightarrow> js \<Rightarrow> 'pk res" where
  "trusted_key trustedKeys kid = (case kid of
     JStr k \<Rightarrow> (case map_of trustedKeys k of None \<Rightarrow> Inl (Error ''Unknown verifier metadata kid'') | Some key \<Rightarrow> Inr key)
   | _ \<Rightarrow> Inl (Error ''Unknown verifier metadata kid''))"

definition verifyVerifierMetadataToken ::
  "url_parser \<Rightarrow> ('pk \<Rightarrow> bytes \<Rightarrow> bytes \<Rightarrow> bool) \<Rightarrow> string \<Rightarrow> 'pk key_set \<Rightarrow> int \<Rightarrow> VerifierMetadataTrustPolicy \<Rightarrow> js res" where
  "verifyVerifierMetadataToken parse verify token trustedKeys now policy =
     (if token = [] \<or> 65536 < length token then Inl (Error ''Malformed verifier metadata token'')
      else case splitOn CHR ''.'' token of
        [protectedHeader, payload, signature] \<Rightarrow>
          (if protectedHeader = [] \<or> payload = [] \<or> signature = [] then Inl (Error ''Malformed verifier metadata token'')
           else bindE (parseMetadataHeader protectedHeader) (\<lambda>kid.
             bindE (trusted_key trustedKeys kid) (\<lambda>publicKey.
             let signingInput = protectedHeader @ ''.'' @ payload
             in bindE (decodeStrictBase64Url signature ''metadata signature'') (\<lambda>signatureBytes.
             if length signatureBytes \<noteq> 64 then Inl (Error ''Invalid verifier metadata signature length'')
             else if \<not> verify publicKey (utf8_encode signingInput) signatureBytes
             then Inl (Error ''Invalid verifier metadata signature'')
             else bindE (decodeStrictBase64Url payload ''metadata payload'') (\<lambda>bs.
               bindE (parseCanonicalJsonBytes bs ''metadata payload'') (\<lambda>document.
               bindE (assertMetadataDocument parse document now policy) (\<lambda>_. Inr document)))))))
      | _ \<Rightarrow> Inl (Error ''Malformed verifier metadata token''))"

subsection \<open>Result keys\<close>

definition find_key :: "js \<Rightarrow> string \<Rightarrow> js option" where
  "find_key metadata kid = (case js_get metadata ''keys'' of
     JArr ks \<Rightarrow> find (\<lambda>entry. js_get entry ''kid'' = JStr kid) ks | _ \<Rightarrow> None)"

definition selectActiveResultKey :: "js \<Rightarrow> string \<Rightarrow> int \<Rightarrow> js res" where
  "selectActiveResultKey metadata kid now = (case find_key metadata kid of
     None \<Rightarrow> Inl (Error ''Unknown result signing kid'')
   | Some key \<Rightarrow>
       if js_get key ''status'' = JStr ''revoked'' then Inl (Error ''Result signing key revoked'')
       else bindE (case (date_parse_js (js_get key ''notBefore''), date_parse_js (js_get key ''notAfter'')) of
              (Some nbf, Some expiry) \<Rightarrow>
                throwIf (now < nbf \<or> expiry \<le> now) (Error ''Result signing key outside validity interval'')
            | _ \<Rightarrow> Inl (Error ''Result signing key outside validity interval'')) (\<lambda>_.
         if js_get key ''status'' \<noteq> JStr ''active'' \<and> js_get key ''status'' \<noteq> JStr ''retired''
         then Inl (Error ''Result signing key not acceptable'') else Inr key))"

definition metadataCacheKey :: "hash \<Rightarrow> js \<Rightarrow> string res" where
  "metadataCacheKey H document =
     bindE (canonicalJson (JObj [(''metadataId'', js_get document ''metadataId''), (''issuer'', js_get document ''issuer''),
       (''expiresAt'', js_get document ''expiresAt'')])) (\<lambda>t. Inr (sha256_text H t))"

end
