(* ===== verification/MetadataGuarantees.thy ===== *)
theory MetadataGuarantees
  imports Metadata
begin

section \<open>What verifier metadata guarantees\<close>

lemma verify_metadata_elim:
  assumes "verifyVerifierMetadataToken parse verify tok keys now policy = Inr d"
  obtains h p s kid pk sig v where "tok = h @ ''.'' @ p @ ''.'' @ s" "parseMetadataHeader h = Inr (JStr kid)"
    "map_of keys kid = Some pk" "s = encodeStrictBase64Url sig" "length sig = 64" "verify pk (utf8_encode (h @ ''.'' @ p)) sig"
    "p = encodeStrictBase64Url v" "parseCanonicalJsonBytes v ''metadata payload'' = Inr d"
    "assertMetadataDocument parse d now policy = Inr ()"
proof -
  obtain h p s where parts: "splitOn CHR ''.'' tok = [h, p, s]"
    using assms by (auto simp: verifyVerifierMetadataToken_def split: if_splits list.splits)
  have tok: "tok = h @ ''.'' @ p @ ''.'' @ s"
    using joinWith_splitOn [of "CHR ''.''" tok] by (simp add: parts)
  from assms parts show ?thesis
    by (auto simp: verifyVerifierMetadataToken_def Let_def decode_base64Url_iff trusted_key_def
        split: if_splits js.splits option.splits intro!: that tok)
qed

lemma metadata_parts:
  assumes "assertMetadataDocument parse d now policy = Inr ()"
  obtains issuer allowed endpoints where "metadata_issuer parse d policy = Inr issuer" "metadata_window d now = Inr ()"
    "mapE (\<lambda>v. trusted_origin parse (JStr v) (mp_allowHttpLocalhost policy) ''Allowed endpoint origin'')
       (mp_allowedEndpointOrigins policy) = Inr allowed"
    "object_values (js_get d ''endpoints'') = Inr endpoints"
    "\<forall>e \<in> set endpoints. metadata_endpoint parse (mp_allowHttpLocalhost policy) issuer allowed e = Inr ()"
    "metadata_keys d = Inr ()"
proof -
  have m: "mapE f xs = Inr ys \<Longrightarrow> \<forall>x \<in> set xs. f x = Inr ()" for f :: "js \<Rightarrow> unit res" and xs ys
    by (induction xs arbitrary: ys) auto
  from assms show ?thesis
    by (auto simp: assertMetadataDocument_def split: if_splits intro!: that dest: m)
qed

lemma metadata_key_ok:
  assumes "metadata_key kids k = Inr kids'"
  shows "kids' = js_get k ''kid'' # kids \<and> \<not> falsy (js_get k ''kid'') \<and> \<not> list_ex (strict_equal (js_get k ''kid'')) kids \<and>
    js_get k ''alg'' = JStr ''EdDSA'' \<and>
    (\<exists>x bs. js_get (js_get k ''publicKeyJwk'') ''x'' = JStr x \<and> decodeStrictBase64Url x ''metadata JWK x'' = Inr bs \<and> length bs = 32)"
  using assms
  by (auto simp: metadata_key_def read_member_def Let_def split: if_splits js.splits option.splits prod.splits)

lemma metadata_keys_once:
  "foldE metadata_key kids ks = Inr kids' \<Longrightarrow>
   length (filter (\<lambda>k. js_get k ''kid'' = JStr x) ks) \<le> (if JStr x \<in> set kids then 0 else 1)"
proof (induction ks arbitrary: kids)
  case (Cons k ks)
  then obtain kids1 where k: "metadata_key kids k = Inr kids1" "foldE metadata_key kids1 ks = Inr kids'" by auto
  note ok = metadata_key_ok [OF k(1)]
  have "strict_equal (JStr x) (JStr x)" by simp
  then have "js_get k ''kid'' = JStr x \<Longrightarrow> JStr x \<notin> set kids" using ok by (auto simp: list_ex_iff)
  then show ?case using Cons.IH [OF k(2)] ok by (auto split: if_splits)
qed simp

lemma metadata_keys_each:
  "foldE metadata_key kids ks = Inr kids' \<Longrightarrow> k \<in> set ks \<Longrightarrow> \<exists>kids1 kids2. metadata_key kids1 k = Inr kids2"
  by (induction ks arbitrary: kids) auto

subsection \<open>What is signed verifies\<close>

definition sorted_metadata_header :: "string \<Rightarrow> js" where
  "sorted_metadata_header kid = JObj [(''alg'', JStr ''EdDSA''), (''kid'', JStr kid), (''typ'', JStr X424_METADATA_TYP)]"

lemma normalize_metadata_header: "js_normalize (metadata_header kid) = Inr (sorted_metadata_header kid)"
proof -
  have i: "\<not> is_array_index ''alg''" "\<not> is_array_index ''typ''" "\<not> is_array_index ''kid''"
    by (simp_all add: is_array_index_def is_digit_char_def)
  then show ?thesis
    by (simp add: metadata_header_def sorted_metadata_header_def sort_entries_def assign_member_def own_keys_order_def)
qed

lemma parse_canonical_bytes:
  assumes "int_json v" "js_normalize v = Inr n" "canonicalJson v = Inr t"
  shows "parseCanonicalJsonBytes (utf8_encode t) l = Inr n"
  using parse_canonical [OF assms(1,3)] assms(2) by (auto simp: parseCanonicalJsonBytes_eq_Inr utf8.dec_enc)

lemma metadata_header_text:
  assumes "canonicalJson (metadata_header kid) = Inr h" "kid \<noteq> []"
  shows "h \<noteq> [] \<and> parseMetadataHeader (encodeStrictBase64Url (utf8_encode h)) = Inr (JStr kid)"
proof -
  have "int_json (metadata_header kid)" by (simp add: metadata_header_def)
  note p = parse_canonical_bytes [OF this normalize_metadata_header assms(1)]
  have "h \<noteq> []" using canonicalJson_not_Nil [OF assms(1)] .
  with p assms(2) show ?thesis
    by (simp add: parseMetadataHeader_def decode_encode_base64Url)
      (simp add: sorted_metadata_header_def js_get_JObj read_member_def falsy_def)
qed

text \<open>A document in canonical form that its readers accept is what verification returns for its token.\<close>

lemma metadata_token_verifies:
  assumes d: "int_json d" "js_normalize d = Inr d" "assertMetadataDocument parse d now policy = Inr ()"
    and tok: "signVerifierMetadata parse sign d kid sk = Inr tok" "kid \<noteq> []" "length tok \<le> 65536"
    and key: "map_of keys kid = Some pk" "\<And>m. length (sign sk m) = 64 \<and> verify pk m (sign sk m)"
  shows "verifyVerifierMetadataToken parse verify tok keys now policy = Inr d"
proof -
  obtain h t where h: "canonicalJson (metadata_header kid) = Inr h" and t: "canonicalJson d = Inr t"
    and tk: "tok = encodeStrictBase64Url (utf8_encode h) @ ''.'' @ encodeStrictBase64Url (utf8_encode t) @ ''.'' @
      encodeStrictBase64Url (sign sk (utf8_encode (encodeStrictBase64Url (utf8_encode h) @ ''.'' @ encodeStrictBase64Url (utf8_encode t))))"
    using tok(1) by (auto simp: signVerifierMetadata_def Let_def)
  note hp = metadata_header_text [OF h tok(2)] and pp = parse_canonical_bytes [OF d(1,2) t]
  have ne: "t \<noteq> []" "sign sk m \<noteq> []" for m using canonicalJson_not_Nil [OF t] key(2) [of m] by auto
  show ?thesis
    using hp pp ne d(3) key tok(3) split_token
    unfolding verifyVerifierMetadataToken_def tk by (simp add: decode_encode_base64Url Let_def not_less trusted_key_def)
qed

subsection \<open>Properties\<close>

text \<open>
  C36: Verifier metadata comes from a trusted publisher: a token is accepted only when a configured key's signature covers
  exactly its header and payload and the payload is the canonical text of the document returned; the document was issued
  and has not expired at that moment, its issuer has the configured issuer's origin, and every endpoint has the origin of
  the issuer or one that is explicitly allowed.
\<close>

theorem metadata_authentic:
  assumes "verifyVerifierMetadataToken parse verify tok keys now policy = Inr d"
  shows "\<exists>h p s kid pk sig v issuer allowed endpoints issuedAt expiresAt. tok = h @ ''.'' @ p @ ''.'' @ s \<and>
    map_of keys kid = Some pk \<and> verify pk (utf8_encode (h @ ''.'' @ p)) sig \<and> s = encodeStrictBase64Url sig \<and>
    p = encodeStrictBase64Url v \<and> parseCanonicalJsonBytes v ''metadata payload'' = Inr d \<and>
    date_parse_js (js_get d ''issuedAt'') = Some issuedAt \<and> date_parse_js (js_get d ''expiresAt'') = Some expiresAt \<and>
    issuedAt \<le> now \<and> now < expiresAt \<and>
    trusted_origin parse (js_get d ''issuer'') (mp_allowHttpLocalhost policy) ''Metadata issuer'' = Inr issuer \<and>
    (\<forall>e. mp_expectedIssuer policy = Some e \<and> e \<noteq> [] \<longrightarrow>
      (\<exists>origin. trusted_origin parse (JStr e) (mp_allowHttpLocalhost policy) ''Expected metadata issuer'' = Inr origin \<and>
         strict_equal issuer origin)) \<and>
    mapE (\<lambda>v. trusted_origin parse (JStr v) (mp_allowHttpLocalhost policy) ''Allowed endpoint origin'')
      (mp_allowedEndpointOrigins policy) = Inr allowed \<and>
    object_values (js_get d ''endpoints'') = Inr endpoints \<and>
    (\<forall>e \<in> set endpoints. \<exists>u. trusted_url parse e (mp_allowHttpLocalhost policy) = Inr u \<and>
      (\<exists>origin \<in> {issuer} \<union> set allowed. strict_equal (js_get u ''origin'') origin))"
proof -
  obtain h p s kid pk sig v where t: "tok = h @ ''.'' @ p @ ''.'' @ s" "map_of keys kid = Some pk"
    "verify pk (utf8_encode (h @ ''.'' @ p)) sig" "s = encodeStrictBase64Url sig" "p = encodeStrictBase64Url v"
    "parseCanonicalJsonBytes v ''metadata payload'' = Inr d" and a: "assertMetadataDocument parse d now policy = Inr ()"
    using verify_metadata_elim [OF assms] by metis
  obtain issuer allowed endpoints where m: "metadata_issuer parse d policy = Inr issuer" "metadata_window d now = Inr ()"
    "mapE (\<lambda>v. trusted_origin parse (JStr v) (mp_allowHttpLocalhost policy) ''Allowed endpoint origin'')
       (mp_allowedEndpointOrigins policy) = Inr allowed"
    "object_values (js_get d ''endpoints'') = Inr endpoints"
    "\<forall>e \<in> set endpoints. metadata_endpoint parse (mp_allowHttpLocalhost policy) issuer allowed e = Inr ()"
    using metadata_parts [OF a] by metis
  obtain issuedAt expiresAt where w: "date_parse_js (js_get d ''issuedAt'') = Some issuedAt"
    "date_parse_js (js_get d ''expiresAt'') = Some expiresAt" "issuedAt \<le> now" "now < expiresAt"
    using m(2) by (auto simp: metadata_window_def split: option.splits if_splits)
  have i: "trusted_origin parse (js_get d ''issuer'') (mp_allowHttpLocalhost policy) ''Metadata issuer'' = Inr issuer"
    "\<forall>e. mp_expectedIssuer policy = Some e \<and> e \<noteq> [] \<longrightarrow>
      (\<exists>origin. trusted_origin parse (JStr e) (mp_allowHttpLocalhost policy) ''Expected metadata issuer'' = Inr origin \<and>
         strict_equal issuer origin)"
    using m(1) by (auto simp: metadata_issuer_def split: option.splits if_splits)
  have "\<forall>e \<in> set endpoints. \<exists>u. trusted_url parse e (mp_allowHttpLocalhost policy) = Inr u \<and>
      (\<exists>origin \<in> {issuer} \<union> set allowed. strict_equal (js_get u ''origin'') origin)"
    using m(5) by (auto simp: metadata_endpoint_def list_ex_iff)
  with t w i m(3,4) show ?thesis by blast
qed


subsection \<open>A sample document\<close>

definition sample_metadata_url :: url_parser where
  "sample_metadata_url = (\<lambda>s. Some \<lparr>u_href = s, u_origin = ''https://v'', u_protocol = ''https:'', u_host = ''v'', u_hostname = ''v'',
     u_pathname = ''/'', u_search = [], u_hash = [], u_username = [], u_password = []\<rparr>)"

definition sample_metadata :: js where
  "sample_metadata = JObj [(''endpoints'', JObj [(''healthz'', JStr ''h'')]), (''expiresAt'', JStr ''2026-01-02''),
     (''issuedAt'', JStr ''2026-01-01''), (''issuer'', JStr ''https://v''),
     (''keys'', JArr [JObj [(''alg'', JStr ''EdDSA''), (''kid'', JStr ''r1''), (''notAfter'', JStr ''2026-01-02''), (''notBefore'', JStr ''2026-01-01''),
        (''publicKeyJwk'', JObj [(''crv'', JStr ''Ed25519''), (''kty'', JStr ''OKP''), (''x'', JStr (replicate 43 CHR ''A''))]),
        (''status'', JStr ''active'')]]),
     (''metadataId'', JStr ''m''), (''x424Version'', JStr ''0.1'')]"

definition sample_metadata_policy :: VerifierMetadataTrustPolicy where
  "sample_metadata_policy = \<lparr>mp_expectedIssuer = Some ''https://v/'', mp_allowedEndpointOrigins = [], mp_allowHttpLocalhost = False\<rparr>"

definition sample_metadata_token :: string where
  "sample_metadata_token = (case signVerifierMetadata sample_metadata_url (\<lambda>(k :: nat) m. replicate 64 0) sample_metadata ''k1'' 7 of
     Inr tok \<Rightarrow> tok | Inl e \<Rightarrow> [])"

lemma sample_metadata_accepted:
  "assertMetadataDocument sample_metadata_url sample_metadata 1767225602000 sample_metadata_policy = Inr ()"
  by code_simp

lemma sample_metadata_signed:
  "signVerifierMetadata sample_metadata_url (\<lambda>(k :: nat) m. replicate 64 0) sample_metadata ''k1'' 7 = Inr sample_metadata_token \<and>
   length sample_metadata_token \<le> 65536"
proof -
  have "assertMetadataDocument sample_metadata_url sample_metadata (issued_at sample_metadata)
       \<lparr>mp_expectedIssuer = None, mp_allowedEndpointOrigins = [], mp_allowHttpLocalhost = True\<rparr> = Inr ()" by code_simp
  moreover have "case canonicalJson (metadata_header ''k1'') of Inr t \<Rightarrow> length t < 200 | Inl _ \<Rightarrow> False" by code_simp
  then obtain h where h: "canonicalJson (metadata_header ''k1'') = Inr h" "length h < 200" by (auto split: sum.splits)
  moreover have "case canonicalJson sample_metadata of Inr t \<Rightarrow> length t < 2000 | Inl _ \<Rightarrow> False" by code_simp
  then obtain t where t: "canonicalJson sample_metadata = Inr t" "length t < 2000" by (auto split: sum.splits)
  ultimately have s: "signVerifierMetadata sample_metadata_url (\<lambda>(k :: nat) m. replicate 64 0) sample_metadata ''k1'' 7 =
      Inr (encodeStrictBase64Url (utf8_encode h) @ ''.'' @ encodeStrictBase64Url (utf8_encode t) @ ''.'' @
        encodeStrictBase64Url (replicate 64 0))"
    by (simp add: signVerifierMetadata_def)
  have "length (encodeStrictBase64Url (utf8_encode h)) < 1000" "length (encodeStrictBase64Url (utf8_encode t)) < 9000"
    "length (encodeStrictBase64Url (replicate 64 0)) < 1000"
    using length_utf8_encode [of h] length_utf8_encode [of t] h(2) t(2) b64_length_le [of "utf8_encode h"]
      b64_length_le [of "utf8_encode t"] b64_length_le [of "replicate 64 0"] by simp_all
  then show ?thesis using s by (simp add: sample_metadata_token_def)
qed

lemma sample_metadata_verified:
  "verifyVerifierMetadataToken sample_metadata_url (\<lambda>(k :: nat) m s. s = replicate 64 0) sample_metadata_token [(''k1'', 7)]
     1767225602000 sample_metadata_policy = Inr sample_metadata"
proof (rule metadata_token_verifies [where sign = "\<lambda>(k :: nat) m. replicate 64 0" and kid = "''k1''" and sk = 7 and pk = 7])
  show "int_json sample_metadata" by code_simp
  show "js_normalize sample_metadata = Inr sample_metadata" by code_simp
qed (use sample_metadata_signed sample_metadata_accepted in simp_all)

theorem metadata_authentic_witness:
  "\<exists>h p s sig v. sample_metadata_token = h @ ''.'' @ p @ ''.'' @ s \<and> s = encodeStrictBase64Url sig \<and> sig = replicate 64 0 \<and>
     p = encodeStrictBase64Url v \<and> parseCanonicalJsonBytes v ''metadata payload'' = Inr sample_metadata"
  using metadata_authentic [OF sample_metadata_verified] by blast


end
