(* ===== verification/MetadataRoute.thy ===== *)
theory MetadataRoute
  imports Router
begin

section \<open>The metadata route (src/api/verifier-metadata-route.ts)\<close>

text \<open>
  The route that hands the verifier's signed metadata to authenticated callers, over the operations of its rate limiter
  and its authenticator.
\<close>

record 'w VerifierMetadataRouteOptions =
  vm_token :: string
  vm_hash :: hash
  vm_clock :: "'w \<Rightarrow> int"
  vm_authenticate :: "string option \<Rightarrow> ('w, js) io"
  vm_consume :: "string \<Rightarrow> ('w, RateLimitResult) io"

definition networkActor :: "hash \<Rightarrow> Request \<Rightarrow> string" where
  "networkActor H request =
     encodeStrictBase64Url (H (utf8_encode (case hq_ip request of None \<Rightarrow> ''unknown'' | Some ip \<Rightarrow> ip)))"

definition metadata_limit_key :: "hash \<Rightarrow> Request \<Rightarrow> string" where
  "metadata_limit_key H request = ''metadata:authenticate:ip:'' @ networkActor H request"

definition metadata_problem :: "nat \<Rightarrow> string \<Rightarrow> string \<Rightarrow> ('w, Response) handling" where
  "metadata_problem status code detail = io_bind (setHeader ''content-type'' ''application/problem+json'') (\<lambda>_.
     send_json status (JObj [(''type'', JStr (''https://x424.org/problems/'' @ replaceAll CHR ''_'' CHR ''-'' (toLowerCase code))),
       (''title'', JStr code), (''status'', JNum (IntNum (int status))), (''detail'', JStr detail)]))"

definition metadata_limited :: "'w VerifierMetadataRouteOptions \<Rightarrow> RateLimitResult \<Rightarrow> ('w, Response) handling" where
  "metadata_limited options limit = (\<lambda>(w, hs).
     io_bind (setHeader ''retry-after'' (string_of_int (retry_seconds (rl_resetAt limit) (vm_clock options w)))) (\<lambda>_.
     metadata_problem 429 ''RATE_LIMITED'' ''Verifier metadata authentication rate limit exceeded.'') (w, hs))"

definition metadata_answer :: "'w VerifierMetadataRouteOptions \<Rightarrow> Request \<Rightarrow> ('w, Response) handling" where
  "metadata_answer options request =
     io_catch (io_bind (onWorld (vm_authenticate options (hq_authorization request))) (\<lambda>_.
         send_json 200 (JObj [(''token'', JStr (vm_token options))])))
       (\<lambda>_. io_bind (setHeader ''www-authenticate'' (''Bearer realm='' @ [CHR 0x22] @ ''x424-verifier-metadata'' @ [CHR 0x22])) (\<lambda>_.
         metadata_problem 401 ''UNAUTHENTICATED'' ''Authentication is required.''))"

definition verifier_metadata :: "'w VerifierMetadataRouteOptions \<Rightarrow> Request \<Rightarrow> ('w, Response) handling" where
  "verifier_metadata options request =
     io_bind (setHeader ''cache-control'' ''no-store, private'') (\<lambda>_.
     io_bind (setHeader ''vary'' ''Authorization'') (\<lambda>_.
     io_bind (io_catch (io_bind (onWorld (vm_consume options (metadata_limit_key (vm_hash options) request)))
         (\<lambda>limit. io_return (Some limit))) (\<lambda>_. io_return None)) (\<lambda>found. case found of
       None \<Rightarrow> metadata_problem 503 ''SERVICE_UNAVAILABLE'' ''Verifier metadata authentication is temporarily unavailable.''
     | Some limit \<Rightarrow>
         io_bind (setHeader ''x-ratelimit-remaining'' (string_of_int (rl_remaining limit))) (\<lambda>_.
         if rl_allowed limit then metadata_answer options request else metadata_limited options limit))))"

definition createVerifierMetadataHandler ::
  "'w VerifierMetadataRouteOptions \<Rightarrow> (Request \<Rightarrow> ('w, Response) handling) res" where
  "createVerifierMetadataHandler options =
     (if vm_token options = [] \<or> 65536 < length (vm_token options)
      then Inl (Error ''Verifier metadata token must contain between 1 and 65536 characters'')
      else Inr (verifier_metadata options))"

subsection \<open>Properties\<close>

lemmas route_steps = io_bind_def io_catch_def io_return_def onWorld_def setHeader_def

lemma metadata_problem_answers:
  "\<exists>response hs'. metadata_problem status code detail (w, hs) = (Inr response, (w, hs')) \<and> rp_status response = status \<and>
     map_of (rp_headers response) ''cache-control'' = map_of hs ''cache-control'' \<and>
     (case rp_body response of None \<Rightarrow> True | Some body \<Rightarrow> js_get body ''token'' = JUndefined)"
  by (simp add: metadata_problem_def io_bind_def setHeader_def send_json_def Let_def update_conv' js_get_JObj)

text \<open>
  The metadata route always answers, never to be cached, and hands its token out exactly to authenticated callers
  within their network's limit: it answers 503 when the limiter fails, 429 beyond the limit, 401 when the authenticator
  refuses the request's authorization header, and none of these answers has the token.
\<close>

theorem metadata_route_guards:
  "\<exists>response w' hs'. verifier_metadata options request (w, hs) = (Inr response, (w', hs')) \<and>
     map_of (rp_headers response) ''cache-control'' = Some ''no-store, private'' \<and>
     (case vm_consume options (metadata_limit_key (vm_hash options) request) w of
        (Inl e, _) \<Rightarrow> rp_status response = 503
      | (Inr limit, w1) \<Rightarrow>
          rp_status response = (if \<not> rl_allowed limit then 429
            else case fst (vm_authenticate options (hq_authorization request) w1) of Inl e \<Rightarrow> 401 | Inr who \<Rightarrow> 200)) \<and>
     (if rp_status response = 200 then rp_body response = Some (JObj [(''token'', JStr (vm_token options))])
      else case rp_body response of None \<Rightarrow> True | Some body \<Rightarrow> js_get body ''token'' = JUndefined)"
proof -
  let ?hs = "AList.update ''vary'' ''Authorization'' (AList.update ''cache-control'' ''no-store, private'' hs)"
  obtain c w1 where c: "vm_consume options (metadata_limit_key (vm_hash options) request) w = (c, w1)"
    by fastforce
  show ?thesis
  proof (cases c)
    case (Inl e)
    have run: "verifier_metadata options request (w, hs) =
        metadata_problem 503 ''SERVICE_UNAVAILABLE'' ''Verifier metadata authentication is temporarily unavailable.'' (w1, ?hs)"
      by (simp add: verifier_metadata_def route_steps c Inl)
    obtain response hs' where r: "metadata_problem 503 ''SERVICE_UNAVAILABLE'' ''Verifier metadata authentication is temporarily unavailable.'' (w1, ?hs) = (Inr response, (w1, hs'))"
      "rp_status response = 503" "map_of (rp_headers response) ''cache-control'' = Some ''no-store, private''"
      "case rp_body response of None \<Rightarrow> True | Some body \<Rightarrow> js_get body ''token'' = JUndefined"
      using metadata_problem_answers [of 503 "''SERVICE_UNAVAILABLE''" "''Verifier metadata authentication is temporarily unavailable.''" w1 ?hs] by (auto simp: update_conv')
    show ?thesis unfolding run c r(1)
      by (rule exI [of _ response], rule exI [of _ w1], rule exI [of _ hs']) (use r(2-4) Inl in simp)
  next
    case (Inr limit)
    let ?hs1 = "AList.update ''x-ratelimit-remaining'' (string_of_int (rl_remaining limit)) ?hs"
    show ?thesis
    proof (cases "rl_allowed limit")
      case False
      let ?hs2 = "AList.update ''retry-after'' (string_of_int (retry_seconds (rl_resetAt limit) (vm_clock options w1))) ?hs1"
      have run: "verifier_metadata options request (w, hs) =
          metadata_problem 429 ''RATE_LIMITED'' ''Verifier metadata authentication rate limit exceeded.'' (w1, ?hs2)"
        using False by (simp add: verifier_metadata_def metadata_limited_def route_steps c Inr)
      obtain response hs' where r: "metadata_problem 429 ''RATE_LIMITED'' ''Verifier metadata authentication rate limit exceeded.'' (w1, ?hs2) = (Inr response, (w1, hs'))"
        "rp_status response = 429" "map_of (rp_headers response) ''cache-control'' = Some ''no-store, private''"
        "case rp_body response of None \<Rightarrow> True | Some body \<Rightarrow> js_get body ''token'' = JUndefined"
        using metadata_problem_answers [of 429 "''RATE_LIMITED''" "''Verifier metadata authentication rate limit exceeded.''" w1 ?hs2] by (auto simp: update_conv')
      show ?thesis unfolding run c r(1)
        by (rule exI [of _ response], rule exI [of _ w1], rule exI [of _ hs']) (use r(2-4) Inr False in simp)
    next
      case True
      obtain a w2 where a: "vm_authenticate options (hq_authorization request) w1 = (a, w2)" by fastforce
      show ?thesis
      proof (cases a)
        case (Inl e)
        let ?hs2 = "AList.update ''www-authenticate'' (''Bearer realm='' @ [CHR 0x22] @ ''x424-verifier-metadata'' @ [CHR 0x22]) ?hs1"
        have run: "verifier_metadata options request (w, hs) =
            metadata_problem 401 ''UNAUTHENTICATED'' ''Authentication is required.'' (w2, ?hs2)"
          using True by (simp add: verifier_metadata_def metadata_answer_def route_steps c Inr a Inl)
        obtain response hs' where r: "metadata_problem 401 ''UNAUTHENTICATED'' ''Authentication is required.'' (w2, ?hs2) = (Inr response, (w2, hs'))"
          "rp_status response = 401" "map_of (rp_headers response) ''cache-control'' = Some ''no-store, private''"
          "case rp_body response of None \<Rightarrow> True | Some body \<Rightarrow> js_get body ''token'' = JUndefined"
          using metadata_problem_answers [of 401 "''UNAUTHENTICATED''" "''Authentication is required.''" w2 ?hs2] by (auto simp: update_conv')
        show ?thesis unfolding run c r(1)
          by (rule exI [of _ response], rule exI [of _ w2], rule exI [of _ hs']) (use r(2-4) \<open>c = Inr limit\<close> True a Inl in simp)
      next
        case (Inr who)
        have run: "verifier_metadata options request (w, hs) = send_json 200 (JObj [(''token'', JStr (vm_token options))]) (w2, ?hs1)"
          using True by (simp add: verifier_metadata_def metadata_answer_def route_steps c \<open>c = Inr limit\<close> a Inr send_json_def Let_def)
        show ?thesis unfolding run c \<open>c = Inr limit\<close> using True a Inr
          by (auto simp: send_json_def Let_def update_conv')
      qed
    qed
  qed
qed

end
