(* ===== verification/Managed.thy ===== *)
theory Managed
  imports Clients HandoffService
begin

section \<open>The managed verifier client (src/managed.ts)\<close>

text \<open>
  A client of a verifier somebody else operates, for issuing requirements, the state of results and handoffs.  Every
  operation is one authenticated request to the configured origin; \<open>requestJson\<close> decides which answers are believed.
  Handoff views are returned as the JSON values they are.
\<close>

definition MAX_RESPONSE_BYTES :: nat where "MAX_RESPONSE_BYTES = 1048576"

subsection \<open>Bounded bodies\<close>

fun read_chunks :: "bytes \<Rightarrow> bytes list \<Rightarrow> bytes res" where
  "read_chunks read [] = Inr read"
| "read_chunks read (chunk # chunks) =
     (if MAX_RESPONSE_BYTES < length read + length chunk then Inl (Error ''Managed verifier response is too large'')
      else read_chunks (read @ chunk) chunks)"

definition readBoundedResponse :: "WebResponse \<Rightarrow> bytes res" where
  "readBoundedResponse response = (case we_body response of None \<Rightarrow> Inr [] | Some chunks \<Rightarrow> read_chunks [] chunks)"

text \<open>
  \<open>Number(text)\<close>: an empty text is 0, hexadecimal, octal and binary digits have a prefix, a decimal may lack its integer
  or its fraction digits; what is none of these is \<open>NaN\<close>.  A header that is missing is \<open>Number(null)\<close>, 0.
\<close>

definition unsigned_of_text :: "string \<Rightarrow> (nat \<times> int) option" where
  "unsigned_of_text s =
     (let whole = takeWhile is_digit_char s; rest = dropWhile is_digit_char s;
          dotted = (rest \<noteq> [] \<and> hd rest = CHR ''.'');
          fraction = (if dotted then takeWhile is_digit_char (tl rest) else []);
          rest' = (if dotted then dropWhile is_digit_char (tl rest) else rest)
      in if whole = [] \<and> fraction = [] then None
         else map_option (\<lambda>e. (nat_of_digits (whole @ fraction), e - int (length fraction))) (parse_exponent rest'))"

definition radix_of_text :: "string \<Rightarrow> (nat \<times> string) option" where
  "radix_of_text s =
     (let p = toLowerCase (take 2 s)
      in if p = ''0x'' then Some (16, drop 2 s) else if p = ''0o'' then Some (8, drop 2 s)
         else if p = ''0b'' then Some (2, drop 2 s) else None)"

definition radix_number :: "nat \<Rightarrow> string \<Rightarrow> jsnum" where
  "radix_number b ds = (case those (map hex_value ds) of
     None \<Rightarrow> NotANumber
   | Some ns \<Rightarrow> if ns = [] \<or> list_ex (\<lambda>n. b \<le> n) ns then NotANumber else IntNum (int (foldl (\<lambda>a n. a * b + n) 0 ns)))"

definition Number_text :: "string \<Rightarrow> jsnum" where
  "Number_text s =
     (let t = trim s; negative = (t \<noteq> [] \<and> hd t = CHR ''-'');
          u = (if t \<noteq> [] \<and> (hd t = CHR ''-'' \<or> hd t = CHR ''+'') then tl t else t)
      in if t = [] then IntNum 0
         else case radix_of_text t of
           Some (b, ds) \<Rightarrow> radix_number b ds
         | None \<Rightarrow>
             if u = ''Infinity'' then (if negative then NegInfinity else PosInfinity)
             else case unsigned_of_text u of
               None \<Rightarrow> NotANumber
             | Some (m, e) \<Rightarrow> (let sm = (if negative then - int m else int m)
                 in if 0 \<le> e then IntNum (sm * 10 ^ nat e) else decimal sm (nat (- e))))"

fun exceeds :: "jsnum \<Rightarrow> int \<Rightarrow> bool" where
  "exceeds (IntNum n) bound = (bound < n)"
| "exceeds (DecNum m k) bound = (bound * 10 ^ Suc k < m)"
| "exceeds PosInfinity bound = True"
| "exceeds _ bound = False"

definition announced_too_large :: "WebResponse \<Rightarrow> bool" where
  "announced_too_large response =
     (let contentLength = (case we_get response ''content-length'' of None \<Rightarrow> IntNum 0 | Some s \<Rightarrow> Number_text s)
      in isFinite contentLength \<and> exceeds contentLength (int MAX_RESPONSE_BYTES))"

subsection \<open>The client\<close>

record 'w ManagedVerifierClientOptions =
  mo_web :: "'w Web"
  mo_resolveUrl :: url_resolver
  mo_baseUrl :: string
  mo_headers :: "('w, (string \<times> string) list) io"
  mo_allowHttpLocalhost :: bool

record 'w ManagedVerifierClient =
  mc_web :: "'w Web"
  mc_resolveUrl :: url_resolver
  mc_base :: Url
  mc_headers :: "('w, (string \<times> string) list) io"

definition new_ManagedVerifierClient :: "'w ManagedVerifierClientOptions \<Rightarrow> 'w ManagedVerifierClient res" where
  "new_ManagedVerifierClient options =
     bindE (assertTrustedHttpsUrl (wb_url (mo_web options)) (mo_baseUrl options) (mo_allowHttpLocalhost options)) (\<lambda>base.
     Inr \<lparr>mc_web = mo_web options, mc_resolveUrl = mo_resolveUrl options, mc_base = with_slash base,
          mc_headers = mo_headers options\<rparr>)"

record RequestInit =
  ri_method :: string
  ri_headers :: "(string \<times> string) list"
  ri_body :: "js option"

record ManagedResponseOptions =
  mr_allowNotFound :: bool
  mr_expectedStatuses :: "int list"

definition managed_headers :: "RequestInit \<Rightarrow> (string \<times> string) list \<Rightarrow> (string \<times> string) list" where
  "managed_headers init configuredHeaders =
     (let headers = foldl (\<lambda>hs (key, v). AList.update key v hs) configuredHeaders (ri_headers init);
          headers = AList.update ''accept'' ''application/json'' headers
      in if ri_body init \<noteq> None then AList.update ''content-type'' ''application/json'' headers else headers)"

definition managed_request :: "Url \<Rightarrow> RequestInit \<Rightarrow> (string \<times> string) list \<Rightarrow> WebRequest" where
  "managed_request endpoint init configuredHeaders =
     \<lparr>wr_method = ri_method init, wr_url = u_href endpoint, wr_headers = managed_headers init configuredHeaders,
      wr_body = map_option (\<lambda>v. utf8_encode (stringify v)) (ri_body init), wr_redirect = ''manual'',
      wr_credentials = ''omit'', wr_cache = ''no-store''\<rparr>"

text \<open>What is made of a response: \<open>None\<close> is \<open>undefined\<close>.\<close>

definition managed_answer ::
  "'w ManagedVerifierClient \<Rightarrow> Url \<Rightarrow> ManagedResponseOptions \<Rightarrow> WebRequest \<Rightarrow> WebResponse \<Rightarrow> js option res" where
  "managed_answer client endpoint options request response =
     (if redirects (mc_web client) request response
      then Inl (Error ''Managed verifier redirects are not permitted'')
      else bindE (new_URL (wb_url (mc_web client)) (response_url response (u_href endpoint))) (\<lambda>answered.
        if u_origin answered \<noteq> u_origin (mc_base client)
        then Inl (Error ''Managed verifier response origin is not configured'')
        else if mr_allowNotFound options \<and> we_status response = 404 then Inr None
        else if we_status response \<notin> set (mr_expectedStatuses options)
        then Inl (Error (''Managed verifier request failed ('' @ string_of_int (we_status response) @ '')''))
        else if we_status response = 204 then Inr None
        else if announced_too_large response then Inl (Error ''Managed verifier response is too large'')
        else bindE (readBoundedResponse response) (\<lambda>read. case wb_json (mc_web client) read of
            None \<Rightarrow> Inl (Error ''Managed verifier returned invalid JSON'')
          | Some v \<Rightarrow> Inr (Some v))))"

definition requestJson ::
  "'w ManagedVerifierClient \<Rightarrow> string \<Rightarrow> RequestInit \<Rightarrow> ManagedResponseOptions \<Rightarrow> ('w, js option) io" where
  "requestJson client path init options =
     io_bind (io_lift (resolve_URL (mc_resolveUrl client) path (mc_base client))) (\<lambda>endpoint.
     if u_origin endpoint \<noteq> u_origin (mc_base client)
     then io_throw (Error ''Managed verifier endpoint escaped the configured origin'')
     else io_bind (mc_headers client) (\<lambda>configuredHeaders.
       io_bind (io_lift (new_Request (managed_request endpoint init configuredHeaders))) (\<lambda>request.
       io_bind (wb_fetch (mc_web client) request) (\<lambda>response.
       io_lift (managed_answer client endpoint options request response)))))"

definition managed_get :: RequestInit where
  "managed_get = \<lparr>ri_method = ''GET'', ri_headers = [], ri_body = None\<rparr>"

definition managed_post :: "(string \<times> js) list \<Rightarrow> RequestInit" where
  "managed_post members = \<lparr>ri_method = ''POST'', ri_headers = [], ri_body = Some (JObj members)\<rparr>"

definition managed_delete :: RequestInit where
  "managed_delete = \<lparr>ri_method = ''DELETE'', ri_headers = [], ri_body = None\<rparr>"

definition bearing :: "string \<Rightarrow> RequestInit \<Rightarrow> RequestInit" where
  "bearing accessToken init = init\<lparr>ri_headers := [(''authorization'', ''Bearer '' @ accessToken)]\<rparr>"

definition expecting :: "int list \<Rightarrow> ManagedResponseOptions" where
  "expecting statuses = \<lparr>mr_allowNotFound = False, mr_expectedStatuses = statuses\<rparr>"

definition expecting_or_404 :: "int list \<Rightarrow> ManagedResponseOptions" where
  "expecting_or_404 statuses = \<lparr>mr_allowNotFound = True, mr_expectedStatuses = statuses\<rparr>"

text \<open>A member of \<open>undefined\<close> is \<open>undefined\<close> here; the operations check \<open>isRecord\<close> first.\<close>

definition js_or_undefined :: "js option \<Rightarrow> js" where
  "js_or_undefined v = (case v of None \<Rightarrow> JUndefined | Some x \<Rightarrow> x)"

subsection \<open>Requirements\<close>

fun wireBodyInput :: "RequestBodyDigestInput \<Rightarrow> js" where
  "wireBodyInput BodyAbsent = JObj [(''kind'', JStr ''absent'')]"
| "wireBodyInput BodyEmpty = JObj [(''kind'', JStr ''empty'')]"
| "wireBodyInput (BodyJson v) = JObj [(''kind'', JStr ''json''), (''value'', v)]"
| "wireBodyInput (BodyOpaque bs) = JObj [(''kind'', JStr ''opaque''), (''bytesBase64url'', JStr (encodeStrictBase64Url bs))]"
| "wireBodyInput (BodyPrecomputed d) = JObj [(''kind'', JStr ''precomputed''), (''bodyDigest'', JStr d)]"
| "wireBodyInput BodyStream = JObj [(''kind'', JStr ''stream'')]"

text \<open>The members in the order in which \<open>issueChallenge\<close> builds the input.\<close>

definition issuance_members :: "CreateInput \<Rightarrow> (string \<times> js) list" where
  "issuance_members input = [(''purpose'', JStr (cr_purpose input)), (''method'', JStr (cr_method input)),
     (''uri'', JStr (cr_uri input)), (''audience'', JStr (cr_audience input)),
     (''bodyInput'', case cr_bodyInput input of None \<Rightarrow> JUndefined | Some bodyInput \<Rightarrow> wireBodyInput bodyInput),
     (''binding'', js_of_binding (cr_binding input)), (''accepts'', JArr (map js_of_method (cr_accepts input)))] @
     opt_member ''ttlSeconds'' JNum (cr_ttlSeconds input) @
     opt_member ''providerRequests'' JObj (cr_providerRequests input)"

definition read_requirement :: "'w ManagedVerifierClient \<Rightarrow> string \<Rightarrow> js \<Rightarrow> HumanRequirement res" where
  "read_requirement client message v =
     (if \<not> isRecord v \<or> js_get v ''requirement'' = JUndefined then Inl (Error message)
      else parseHumanRequirement (wb_zod (mc_web client)) (js_get v ''requirement''))"

definition managed_issueRequirement :: "'w ManagedVerifierClient \<Rightarrow> CreateInput \<Rightarrow> ('w, HumanRequirement) io" where
  "managed_issueRequirement client input =
     io_bind (requestJson client ''v1/requirements'' (managed_post (issuance_members input)) (expecting [201])) (\<lambda>v.
     io_lift (read_requirement client ''Managed verifier returned an invalid requirement response'' (js_or_undefined v)))"

definition requirement_path :: "string \<Rightarrow> string" where
  "requirement_path dependencyId = ''v1/requirements/'' @ encodeURIComponent dependencyId"

definition managed_getRequirement :: "'w ManagedVerifierClient \<Rightarrow> string \<Rightarrow> ('w, HumanRequirement option) io" where
  "managed_getRequirement client dependencyId =
     io_bind (requestJson client (requirement_path dependencyId) managed_get (expecting_or_404 [200])) (\<lambda>v. case v of
       None \<Rightarrow> io_return None
     | Some v \<Rightarrow> io_bind (io_lift (read_requirement client ''Managed verifier returned an invalid state response'' v))
         (\<lambda>requirement. io_return (Some requirement)))"

definition managed_deleteRequirement :: "'w ManagedVerifierClient \<Rightarrow> string \<Rightarrow> ('w, unit) io" where
  "managed_deleteRequirement client dependencyId =
     io_bind (requestJson client (requirement_path dependencyId) managed_delete (expecting_or_404 [200, 204])) (\<lambda>_. io_return ())"

subsection \<open>Results\<close>

definition managed_consumeResult :: "'w ManagedVerifierClient \<Rightarrow> string \<Rightarrow> IsoTimestamp \<Rightarrow> ('w, bool) io" where
  "managed_consumeResult client resultId expiresAt =
     io_bind (requestJson client (''v1/results/'' @ encodeURIComponent resultId @ ''/consume'')
       (managed_post [(''expiresAt'', JStr expiresAt)]) (expecting [200])) (\<lambda>v.
     case js_get (js_or_undefined v) ''consumed'' of
       JBool consumed \<Rightarrow> io_return consumed
     | _ \<Rightarrow> io_throw (Error ''Managed verifier returned an invalid consume response''))"

definition acceptance_members :: "ResultAcceptanceInput \<Rightarrow> (string \<times> js) list" where
  "acceptance_members input = [(''operationId'', JStr (ra_operationId input)),
     (''requestDigest'', JStr (ra_requestDigest input)), (''expiresAt'', JStr (ra_expiresAt input))]"

definition managed_acceptResult :: "'w ManagedVerifierClient \<Rightarrow> ResultAcceptanceInput \<Rightarrow> ('w, ResultAcceptanceStatus) io" where
  "managed_acceptResult client input =
     io_bind (requestJson client (''v1/results/'' @ encodeURIComponent (ra_resultId input) @ ''/acceptances'')
       (managed_post (acceptance_members input)) (expecting [200])) (\<lambda>v.
     let status = js_get (js_or_undefined v) ''status''
     in if status = JStr ''new'' then io_return AcceptNew
        else if status = JStr ''same_operation'' then io_return SameOperation
        else if status = JStr ''replay'' then io_return Replay
        else io_throw (Error ''Managed verifier returned an invalid acceptance response''))"

subsection \<open>Handoffs\<close>

definition valid_started :: "js \<Rightarrow> bool" where
  "valid_started v \<longleftrightarrow> isRecord v \<and> typeof (js_get v ''handoffId'') = ''string'' \<and>
     typeof (js_get v ''accessToken'') = ''string'' \<and> js_get v ''status'' = JStr ''pending'' \<and>
     typeof (js_get v ''providerId'') = ''string'' \<and> typeof (js_get v ''methodId'') = ''string'' \<and>
     isRecord (js_get v ''presentation'') \<and> js_get (js_get v ''presentation'') ''kind'' = JStr ''uri'' \<and>
     typeof (js_get (js_get v ''presentation'') ''uri'') = ''string'' \<and>
     typeof (js_get v ''expiresAt'') = ''string'' \<and> typeof (js_get v ''pollAfterMs'') = ''number''"

definition managed_startHandoff :: "'w ManagedVerifierClient \<Rightarrow> StartHumanHandoffInput \<Rightarrow> ('w, js) io" where
  "managed_startHandoff client input =
     io_bind (requestJson client (requirement_path (si_dependencyId input) @ ''/handoffs'')
       (managed_post [(''nonce'', JStr (si_nonce input)), (''providerId'', JStr (si_providerId input)),
         (''methodId'', JStr (si_methodId input))]) (expecting [201])) (\<lambda>v.
     if valid_started (js_or_undefined v) then io_return (js_or_undefined v)
     else io_throw (Error ''Managed verifier returned an invalid handoff response''))"

definition valid_view :: "js \<Rightarrow> bool" where
  "valid_view v \<longleftrightarrow> isRecord v \<and> typeof (js_get v ''handoffId'') = ''string'' \<and>
     typeof (js_get v ''status'') = ''string'' \<and> typeof (js_get v ''expiresAt'') = ''string'' \<and>
     js_get v ''status'' \<in> JStr ` set [''pending'', ''completed'', ''failed'', ''expired'', ''cancelled'']"

definition handoff_path :: "string \<Rightarrow> string" where
  "handoff_path handoffId = ''v1/handoffs/'' @ encodeURIComponent handoffId"

definition managed_getHandoff :: "'w ManagedVerifierClient \<Rightarrow> string \<Rightarrow> string \<Rightarrow> ('w, js) io" where
  "managed_getHandoff client handoffId accessToken =
     io_bind (requestJson client (handoff_path handoffId) (bearing accessToken managed_get) (expecting [200])) (\<lambda>v.
     if valid_view (js_or_undefined v) then io_return (js_or_undefined v)
     else io_throw (Error ''Managed verifier returned an invalid handoff state''))"

definition managed_cancelHandoff :: "'w ManagedVerifierClient \<Rightarrow> string \<Rightarrow> string \<Rightarrow> ('w, unit) io" where
  "managed_cancelHandoff client handoffId accessToken =
     io_bind (requestJson client (handoff_path handoffId) (bearing accessToken managed_delete) (expecting_or_404 [204]))
       (\<lambda>_. io_return ())"

subsection \<open>Metadata and stores\<close>

definition managed_getMetadataToken :: "'w ManagedVerifierClient \<Rightarrow> ('w, string) io" where
  "managed_getMetadataToken client =
     io_bind (requestJson client ''.well-known/x424-verifier'' managed_get (expecting [200])) (\<lambda>v.
     case js_get (js_or_undefined v) ''token'' of
       JStr token \<Rightarrow> if token = [] then io_throw (Error ''Managed verifier returned invalid metadata'') else io_return token
     | _ \<Rightarrow> io_throw (Error ''Managed verifier returned invalid metadata''))"

text \<open>The requirement store, the replay store and the acceptance store a resource is configured with.\<close>

definition managed_put :: "HumanRequirement \<Rightarrow> ('w, unit) io" where
  "managed_put requirement = io_throw (Error ''Managed requirements must be created through issueRequirement'')"

definition managed_get_at :: "'w ManagedVerifierClient \<Rightarrow> string \<Rightarrow> int \<Rightarrow> ('w, HumanRequirement option) io" where
  "managed_get_at client dependencyId now = managed_getRequirement client dependencyId"

definition managed_consume :: "'w ManagedVerifierClient \<Rightarrow> string \<Rightarrow> IsoTimestamp \<Rightarrow> int \<Rightarrow> ('w, bool) io" where
  "managed_consume client resultId expiresAt now = managed_consumeResult client resultId expiresAt"

definition managed_accept :: "'w ManagedVerifierClient \<Rightarrow> ResultAcceptanceInput \<Rightarrow> int \<Rightarrow> ('w, ResultAcceptanceStatus) io" where
  "managed_accept client input now = managed_acceptResult client input"

end
