(* ===== verification/ManagedGuarantees.thy ===== *)
theory ManagedGuarantees
  imports Managed ApiSamples ResourceSamples
begin

section \<open>What the managed client guarantees\<close>

text \<open>
  Each operation of the managed client sends at most one request, to the configured origin; what it believes comes from
  an expected answer of that origin; and a verifier that is asked to issue a requirement creates exactly the requirement
  a resource would have created for itself.
\<close>

subsection \<open>Requests\<close>

definition pinned_request :: "Url \<Rightarrow> WebRequest \<Rightarrow> bool" where
  "pinned_request base q \<longleftrightarrow>
     (\<exists>endpoint :: Url. u_origin endpoint = u_origin base \<and> wr_url q = u_href endpoint) \<and>
     wr_redirect q = ''manual'' \<and> wr_credentials q = ''omit'' \<and> wr_cache q = ''no-store'' \<and>
     wr_get q ''accept'' = Some ''application/json''"

definition at_most_one :: "Url \<Rightarrow> WebRequest list \<Rightarrow> bool" where
  "at_most_one base qs \<longleftrightarrow> qs = [] \<or> (\<exists>q. qs = [q] \<and> pinned_request base q)"

definition observed :: "'w ManagedVerifierClient \<Rightarrow> ('w \<Rightarrow> WebRequest list) \<Rightarrow> bool" where
  "observed client sent \<longleftrightarrow>
     (\<forall>q w. sent (snd (wb_fetch (mc_web client) q w)) = sent w @ [q]) \<and> silent sent (mc_headers client)"

definition pinned :: "'w ManagedVerifierClient \<Rightarrow> ('w \<Rightarrow> WebRequest list) \<Rightarrow> ('w, 'a) io \<Rightarrow> bool" where
  "pinned client sent m \<longleftrightarrow> sends sent m (\<lambda>_. at_most_one (mc_base client)) (at_most_one (mc_base client))"

lemma at_most_one_Nil [simp]: "at_most_one base []"
  by (simp add: at_most_one_def)

lemma managed_request_pinned:
  assumes "u_origin endpoint = u_origin (mc_base client)" "new_Request (managed_request endpoint init hs) = Inr q"
  shows "pinned_request (mc_base client) q"
proof -
  have "q = managed_request endpoint init hs" using assms(2) by (simp add: new_Request_def split: if_splits)
  moreover have "map_of (managed_headers init hs) ''accept'' = Some ''application/json''"
    by (simp add: managed_headers_def Let_def update_conv')
  ultimately show ?thesis
    using assms(1) unfolding pinned_request_def managed_request_def by (auto simp: wr_get_def)
qed

lemma requestJson_pinned:
  assumes "observed client sent"
  shows "pinned client sent (requestJson client path init options)"
proof -
  have hd: "silent sent (mc_headers client)" and f: "\<And>q w. sent (snd (wb_fetch (mc_web client) q w)) = sent w @ [q]"
    using assms unfolding observed_def by blast+
  have fetch: "sends sent (wb_fetch (mc_web client) q) (\<lambda>_ qs. qs = [q]) (\<lambda>qs. qs = [q])" for q
    using f by (auto simp: sends_def split: sum.splits)
  show ?thesis
    unfolding pinned_def requestJson_def
  proof (rule sends_silent_bind [OF silent_basic(3)], simp)
    fix endpoint :: Url
    show "sends sent (if u_origin endpoint \<noteq> u_origin (mc_base client)
        then io_throw (Error ''Managed verifier endpoint escaped the configured origin'')
        else io_bind (mc_headers client) (\<lambda>configuredHeaders.
          io_bind (io_lift (new_Request (managed_request endpoint init configuredHeaders))) (\<lambda>request.
          io_bind (wb_fetch (mc_web client) request) (\<lambda>response.
          io_lift (managed_answer client endpoint options request response)))))
      (\<lambda>_. at_most_one (mc_base client)) (at_most_one (mc_base client))"
    proof (cases "u_origin endpoint = u_origin (mc_base client)")
      case True
      have "sends sent (io_bind (io_lift (new_Request (managed_request endpoint init hs))) (\<lambda>request.
          io_bind (wb_fetch (mc_web client) request) (\<lambda>response.
          io_lift (managed_answer client endpoint options request response)))) (\<lambda>_. at_most_one (mc_base client)) (at_most_one (mc_base client))" for hs
      proof (cases "new_Request (managed_request endpoint init hs)")
        case (Inl e)
        then show ?thesis by (simp add: sends_def io_bind_def io_eval)
      next
        case (Inr q)
        then have one: "at_most_one (mc_base client) [q]" using managed_request_pinned [OF True] by (simp add: at_most_one_def)
        have "io_bind (io_lift (new_Request (managed_request endpoint init hs))) k = k q" for k :: "WebRequest \<Rightarrow> ('a, js option) io"
          by (simp add: Inr io_bind_def io_eval fun_eq_iff)
        moreover have "sends sent (io_bind (wb_fetch (mc_web client) q) (\<lambda>response.
            io_lift (managed_answer client endpoint options q response))) (\<lambda>_. at_most_one (mc_base client)) (at_most_one (mc_base client))"
          by (rule sends_bind [OF sends_mono [OF fetch]])
            (use one in \<open>auto intro!: silent_sends silent_basic\<close>)
        ultimately show ?thesis by simp
      qed
      then have "sends sent (io_bind (mc_headers client) (\<lambda>hs. io_bind (io_lift (new_Request (managed_request endpoint init hs)))
          (\<lambda>request. io_bind (wb_fetch (mc_web client) request) (\<lambda>response.
            io_lift (managed_answer client endpoint options request response)))))
          (\<lambda>_. at_most_one (mc_base client)) (at_most_one (mc_base client))"
        by (intro sends_silent_bind [OF hd]) simp_all
      then show ?thesis using True by simp
    qed (auto intro!: silent_sends silent_basic)
  qed
qed

lemma pinned_then:
  assumes "pinned client sent m" "\<And>x. silent sent (k x)"
  shows "pinned client sent (io_bind m k)"
  using assms(1) unfolding pinned_def
  by (rule sends_bind) (auto intro!: silent_sends assms(2))

lemma observed_operations:
  assumes "observed client sent" "\<And>x. silent sent (k x)"
  shows "pinned client sent (io_bind (requestJson client path init options) k)"
  using pinned_then [OF requestJson_pinned [OF assms(1)] assms(2)] .


subsection \<open>Answers\<close>

lemma read_chunks_eq:
  "length read \<le> MAX_RESPONSE_BYTES \<Longrightarrow> read_chunks read chunks =
    (if length (read @ concat chunks) \<le> MAX_RESPONSE_BYTES then Inr (read @ concat chunks)
     else Inl (Error ''Managed verifier response is too large''))"
  by (induction chunks arbitrary: read) auto

definition body_bytes :: "WebResponse \<Rightarrow> bytes" where
  "body_bytes response = concat (case we_body response of None \<Rightarrow> [] | Some chunks \<Rightarrow> chunks)"

lemma readBoundedResponse_eq:
  "readBoundedResponse response = (if length (body_bytes response) \<le> MAX_RESPONSE_BYTES then Inr (body_bytes response)
     else Inl (Error ''Managed verifier response is too large''))"
  by (simp add: readBoundedResponse_def body_bytes_def read_chunks_eq split: option.splits)

definition from_operator :: "'w ManagedVerifierClient \<Rightarrow> WebRequest \<Rightarrow> WebResponse \<Rightarrow> bool" where
  "from_operator client q response \<longleftrightarrow> we_type response \<noteq> ''opaqueredirect'' \<and> we_status response \<notin> set REDIRECT_STATUSES \<and>
     (\<exists>answered. wb_url (mc_web client) (response_url response (wr_url q)) = Some answered \<and>
        u_origin answered = u_origin (mc_base client))"

text \<open>
  C34: The managed client believes only its operator.  It learns a value only from one response to one request, both of
  the configured origin and not redirected, with a status the operation expects and a body of at most one mebibyte
  whose JSON the value is; and it takes something for missing only if that response says 404 where that is allowed, or
  204.
\<close>

theorem managed_believes:
  assumes "requestJson client path init options w = (Inr x, w')"
  shows "\<exists>q response w1. wb_fetch (mc_web client) q w1 = (Inr response, w') \<and> pinned_request (mc_base client) q \<and>
    from_operator client q response \<and>
    (case x of
       Some v \<Rightarrow> we_status response \<in> set (mr_expectedStatuses options) \<and> \<not> announced_too_large response \<and>
         length (body_bytes response) \<le> 1048576 \<and> wb_json (mc_web client) (body_bytes response) = Some v
     | None \<Rightarrow> we_status response = 404 \<and> mr_allowNotFound options \<or>
         we_status response = 204 \<and> 204 \<in> set (mr_expectedStatuses options))"
proof -
  note run = assms [unfolded requestJson_def]
  obtain endpoint where e: "resolve_URL (mc_resolveUrl client) path (mc_base client) = Inr endpoint"
    "u_origin endpoint = u_origin (mc_base client)"
    using run by (auto simp: io_bind_def io_eval split: sum.splits if_splits)
  then obtain hs w1 q where q: "mc_headers client w = (Inr hs, w1)" "new_Request (managed_request endpoint init hs) = Inr q"
    using run by (auto simp: io_bind_def io_eval split: sum.splits prod.splits)
  then obtain response where r: "wb_fetch (mc_web client) q w1 = (Inr response, w')"
    "managed_answer client endpoint options q response = Inr x"
    using run e by (auto simp: io_bind_def io_eval split: sum.splits prod.splits)
  have "wr_url q = u_href endpoint" using q(2) by (auto simp: new_Request_def managed_request_def split: if_splits)
  then have "from_operator client q response"
    using r(2) by (auto simp: managed_answer_def from_operator_def redirects_def new_URL_def split: if_splits option.splits)
  moreover have "case x of
       Some v \<Rightarrow> we_status response \<in> set (mr_expectedStatuses options) \<and> \<not> announced_too_large response \<and>
         length (body_bytes response) \<le> 1048576 \<and> wb_json (mc_web client) (body_bytes response) = Some v
     | None \<Rightarrow> we_status response = 404 \<and> mr_allowNotFound options \<or>
         we_status response = 204 \<and> 204 \<in> set (mr_expectedStatuses options)"
    using r(2) by (auto simp: managed_answer_def readBoundedResponse_eq MAX_RESPONSE_BYTES_def bindE_def
        split: if_splits sum.splits option.splits)
  ultimately show ?thesis using r(1) managed_request_pinned [OF e(2) q(2)] by blast
qed

subsection \<open>Issuing remotely\<close>

lemma own_keys_letters:
  "\<forall>k \<in> fst ` set kvs. k = [] \<or> \<not> is_digit_char (hd k) \<Longrightarrow> own_keys_order kvs = kvs"
proof -
  assume k: "\<forall>k \<in> fst ` set kvs. k = [] \<or> \<not> is_digit_char (hd k)"
  have no: "\<not> is_array_index (fst kv)" if "kv \<in> set kvs" for kv
  proof -
    have "fst kv = [] \<or> \<not> is_digit_char (hd (fst kv))" using k that by blast
    then show ?thesis by (cases "fst kv") (simp_all add: is_array_index_def)
  qed
  have "filter (\<lambda>(k, v). is_array_index k) kvs = []" "filter (\<lambda>(k, v). \<not> is_array_index k) kvs = kvs"
    using no by (simp_all add: filter_empty_conv filter_id_conv case_prod_beta)
  then show ?thesis by (simp add: own_keys_order_def)
qed

lemma json_shape_letters:
  assumes "distinct (map fst kvs)" "\<forall>k \<in> fst ` set kvs. k = [] \<or> \<not> is_digit_char (hd k)" "\<forall>v \<in> snd ` set kvs. json_shape v"
  shows "json_shape (JObj kvs)"
  using assms own_keys_letters [OF assms(2)] by (auto simp: list_all_iff)

lemma json_shape_strings: "json_shape (js_strings xs)"
  by (simp add: js_strings_def list_all_iff)

lemma opt_member_parts:
  "fst ` set (opt_member k f x) \<subseteq> {k}" "snd ` set (opt_member k f x) = f ` set_option x"
  "distinct (map fst (opt_member k f x))"
  by (cases x; simp add: opt_member_def)+

lemma json_shape_method: "json_shape (js_of_method a)"
  unfolding js_of_method_def
  by (rule json_shape_letters)
    (cases "m_assuranceLevel a"; cases "m_maximumProofAgeSeconds a"; cases "m_verificationModes a";
     simp add: opt_member_def is_digit_char_def json_shape_strings)+

lemma json_shape_binding: "json_shape (js_of_binding b)"
  unfolding js_of_binding_def by (rule json_shape_letters) (simp_all add: is_digit_char_def)

text \<open>What a body input must be to travel: JSON with integers, bytes that are not empty, and no stream.\<close>

fun wire_body :: "RequestBodyDigestInput \<Rightarrow> bool" where
  "wire_body (BodyJson v) = json_shape v"
| "wire_body (BodyOpaque bs) = (bs \<noteq> [])"
| "wire_body BodyStream = False"
| "wire_body _ = True"

lemma json_shape_wireBodyInput: "wire_body b \<Longrightarrow> json_shape (wireBodyInput b)"
  by (cases b) (auto intro!: json_shape_letters simp: is_digit_char_def simp del: json_shape.simps(6))

lemma resolve_wireBodyInput:
  "wire_body b \<Longrightarrow> resolveIssuanceBodyInput (wireBodyInput b) body = Inr b"
  by (cases b) (simp_all add: resolveIssuanceBodyInput_def get_str_def js_get_JObj decode_base64Url_iff Let_def)

lemma json_shape_issuance:
  assumes "cr_bodyInput input = Some b" "wire_body b" "cr_ttlSeconds input = Some (IntNum n)"
    "cr_providerRequests input = Some ps" "json_shape (JObj ps)"
  shows "json_shape (JObj (issuance_members input))"
  unfolding issuance_members_def assms(1,3,4)
  by (rule json_shape_letters)
    (use assms(5) in \<open>auto simp: opt_member_def is_digit_char_def json_shape_method json_shape_binding
        json_shape_wireBodyInput [OF assms(2)] list_all_iff simp del: json_shape.simps(6)\<close>)

lemma create_input_members:
  assumes "cr_bodyInput input = Some b" "cr_ttlSeconds input = Some (IntNum n)" "cr_providerRequests input = Some ps"
  shows "create_input (JObj (issuance_members input)) b ps =
    input\<lparr>cr_body := JUndefined, cr_dependencyId := None, cr_nonce := None, cr_now := None\<rparr>"
  using assms by (simp add: create_input_def issuance_members_def get_str_def js_get_JObj opt_member_def exactMethods_def
      ttl_seconds_def comp_def)

text \<open>
  C35: A requirement is the same whoever creates it.  When a resource has its managed verifier issue a requirement, the
  verifier's route reads back from the body the very input the resource would have used itself, whatever the kind of
  body it binds, and creates from it the requirement the resource would have created on the verifier's clock and
  random source.
\<close>

theorem managed_issuance_same:
  assumes "wire_body (cu_bodyInput current)" "json_shape (JObj ps)" "ro_providerRequests ro = None"
    "case pt_ttlSeconds options of Some (IntNum n) \<Rightarrow> True | None \<Rightarrow> True | _ \<Rightarrow> False"
  shows "\<exists>body. JSON_parse (stringify (JObj (issuance_members (issuance_input options current (Some ps))))) = Some body \<and>
    io_bind (issue_provider_requests ro body) (issue_create ro body) =
      io_bind (onWorld (ro_ambient ro)) (\<lambda>ambient.
        io_lift (createHumanRequirement (ro_hash ro) ambient (issuance_input options current (Some ps))))"
proof -
  let ?input = "issuance_input options current (Some ps)"
  let ?body = "JObj (issuance_members ?input)"
  obtain n where ttl: "(case pt_ttlSeconds options of None \<Rightarrow> IntNum 300 | Some n \<Rightarrow> n) = IntNum n"
    using assms(4) by (auto split: option.splits jsnum.splits)
  have i: "cr_bodyInput ?input = Some (cu_bodyInput current)" "cr_ttlSeconds ?input = Some (IntNum n)"
    "cr_providerRequests ?input = Some ps" "?input\<lparr>cr_body := JUndefined, cr_dependencyId := None, cr_nonce := None, cr_now := None\<rparr> = ?input"
    using ttl by (simp_all add: issuance_input_def)
  have parts: "js_get ?body ''bodyInput'' = wireBodyInput (cu_bodyInput current)" "js_get ?body ''providerRequests'' = JObj ps"
    using i by (simp_all add: issuance_members_def js_get_JObj opt_member_def)
  have lifted: "io_bind (io_lift (Inr x)) k = k x" for x :: 'x and k :: "'x \<Rightarrow> ('y, 'z) io"
    by (simp add: io_bind_def io_eval fun_eq_iff)
  have "JSON_parse (stringify ?body) = Some ?body"
    by (rule JSON_parse_stringify, rule json_shape_issuance [OF i(1) assms(1) i(2,3) assms(2)])
  moreover have "issue_provider_requests ro ?body = io_return ps"
    by (simp add: issue_provider_requests_def assms(3) parts)
  moreover have "issue_create ro ?body ps = io_bind (onWorld (ro_ambient ro)) (\<lambda>ambient.
      io_lift (createHumanRequirement (ro_hash ro) ambient ?input))"
    unfolding issue_create_def parts resolve_wireBodyInput [OF assms(1)] lifted create_input_members [OF i(1-3)] i(4) ..
  ultimately show ?thesis
    by (intro exI [of _ ?body]) (simp add: io_bind_def io_eval fun_eq_iff)
qed

subsection \<open>A sample operator\<close>

text \<open>The world is the list of requests sent; the operator answers every one that a result was consumed.\<close>

definition sample_managed_web :: "WebRequest list Web" where
  "sample_managed_web = \<lparr>wb_fetch = (\<lambda>q w. (Inr \<lparr>we_status = 200, we_url = [], we_type = ''basic'', we_headers = [],
       we_body = Some [[123], [125]]\<rparr>, w @ [q])),
     wb_url = (\<lambda>s. Some \<lparr>u_href = s, u_origin = ''https://v'', u_protocol = ''https:'', u_host = ''v'', u_hostname = ''v'',
       u_pathname = ''/'', u_search = [], u_hash = [], u_username = [], u_password = []\<rparr>),
     wb_zod = sample_zod, wb_json = (\<lambda>_. Some (JObj [(''consumed'', JBool True)])),
     wb_clock = io_return 0, wb_random = (\<lambda>n. io_return (replicate n 0))\<rparr>"

definition sample_managed_options :: "WebRequest list ManagedVerifierClientOptions" where
  "sample_managed_options = \<lparr>mo_web = sample_managed_web, mo_resolveUrl = (\<lambda>p base. wb_url sample_managed_web (u_href base @ p)),
     mo_baseUrl = ''https://v/'', mo_headers = io_return [(''authorization'', ''Bearer k'')], mo_allowHttpLocalhost = False\<rparr>"

definition sample_managed_client :: "WebRequest list ManagedVerifierClient" where
  "sample_managed_client = \<lparr>mc_web = sample_managed_web, mc_resolveUrl = mo_resolveUrl sample_managed_options,
     mc_base = the (wb_url sample_managed_web ''https://v/''), mc_headers = mo_headers sample_managed_options\<rparr>"

lemmas sample_managed_defs = sample_managed_client_def sample_managed_options_def sample_managed_web_def

lemma sample_managed_new: "new_ManagedVerifierClient sample_managed_options = Inr sample_managed_client"
  by (simp add: new_ManagedVerifierClient_def sample_managed_defs assertTrustedHttpsUrl_def new_URL_def with_slash_def
      endsWith_def startsWith_def)


theorem managed_believes_witness:
  "\<exists>q response w1. wb_fetch (mc_web sample_managed_client) q w1 =
      (Inr response, snd (requestJson sample_managed_client ''v1/results/r/consume'' (managed_post []) (expecting [200]) [])) \<and>
    pinned_request (mc_base sample_managed_client) q \<and> from_operator sample_managed_client q response \<and>
    (case Some (JObj [(''consumed'', JBool True)]) of
       Some v \<Rightarrow> we_status response \<in> set (mr_expectedStatuses (expecting [200])) \<and> \<not> announced_too_large response \<and>
         length (body_bytes response) \<le> 1048576 \<and> wb_json (mc_web sample_managed_client) (body_bytes response) = Some v
     | None \<Rightarrow> we_status response = 404 \<and> mr_allowNotFound (expecting [200]) \<or>
         we_status response = 204 \<and> 204 \<in> set (mr_expectedStatuses (expecting [200])))"
proof (rule managed_believes)
  show "requestJson sample_managed_client ''v1/results/r/consume'' (managed_post []) (expecting [200]) [] =
    (Inr (Some (JObj [(''consumed'', JBool True)])),
     snd (requestJson sample_managed_client ''v1/results/r/consume'' (managed_post []) (expecting [200]) []))"
    by (simp add: requestJson_def sample_managed_defs resolve_URL_def io_bind_def io_eval new_Request_def managed_request_def
        managed_post_def expecting_def managed_answer_def redirects_def isCrossOriginRedirect_def we_get_def
        REDIRECT_STATUSES_def new_URL_def announced_too_large_def MAX_RESPONSE_BYTES_def readBoundedResponse_def
        present_def)
qed

theorem managed_issuance_same_witness:
  "\<exists>body. JSON_parse (stringify (JObj (issuance_members (issuance_input sample_protect
      \<lparr>cu_method = ''PUT'', cu_uri = ''https://a/'', cu_binding = sample_binding, cu_bodyInput = BodyOpaque [1, 2, 3]\<rparr>
      (Some [(''world-id:orb'', JNull)]))))) = Some body \<and>
    io_bind (issue_provider_requests (memory_router sample_memory_config) body) (issue_create (memory_router sample_memory_config) body) =
      io_bind (onWorld (ro_ambient (memory_router sample_memory_config))) (\<lambda>ambient.
        io_lift (createHumanRequirement (ro_hash (memory_router sample_memory_config)) ambient (issuance_input sample_protect
          \<lparr>cu_method = ''PUT'', cu_uri = ''https://a/'', cu_binding = sample_binding, cu_bodyInput = BodyOpaque [1, 2, 3]\<rparr>
          (Some [(''world-id:orb'', JNull)]))))"
proof (rule managed_issuance_same)
  show "json_shape (JObj [(''world-id:orb'', JNull)])"
    by (rule json_shape_letters) (simp_all add: is_digit_char_def)
qed (simp_all add: sample_protect_def memory_router_parts sample_memory_config_def)

end
