(* ===== verification/Redis.thy ===== *)
theory Redis
  imports RouterRoutes Handoff
begin

section \<open>Redis stores (src/redis.ts)\<close>

text \<open>
  State shared by several instances of the verifier.  The stores send commands and Lua scripts to a server; what they
  send is translated here, a script as the program of commands it is.  The client that carries it to the server, and with
  it the server, is a parameter; the documented meaning of the commands is stated in the theory RedisServer, as
  what the properties assume of it.
\<close>

subsection \<open>Commands\<close>

text \<open>\<open>SET\<close> with and without \<open>NX\<close>, each with an optional \<open>PXAT\<close>.\<close>

datatype redis_request =
    GET string
  | EXISTS string
  | SET string string "int option"
  | SET_NX string string "int option"
  | DEL string
  | INCR string
  | PEXPIRE string int
  | PTTL string

text \<open>A Lua script: it calls a command and goes on with its reply, or returns.  A missing value is \<open>JNull\<close>.\<close>

datatype redis_script =
    ScriptReturn js
  | RedisCall redis_request "js \<Rightarrow> redis_script"

datatype redis_command = Command redis_request | EVAL redis_script

subsection \<open>Scripts\<close>

text \<open>A script's \<open>KEYS[1]\<close> is the first of its keys; integers are answered as numbers.\<close>

abbreviation script_return :: "int \<Rightarrow> redis_script" where
  "script_return n \<equiv> ScriptReturn (JNum (IntNum n))"

definition CONSUME_NONCE_SCRIPT :: "string list \<Rightarrow> string list \<Rightarrow> redis_script" where
  "CONSUME_NONCE_SCRIPT keys argv =
     RedisCall (GET (keys ! 0)) (\<lambda>stored.
     if stored = JStr (argv ! 0) then RedisCall (DEL (keys ! 0)) (\<lambda>_. script_return 1) else script_return 0)"

definition RATE_LIMIT_SCRIPT :: "string list \<Rightarrow> int list \<Rightarrow> redis_script" where
  "RATE_LIMIT_SCRIPT keys argv =
     RedisCall (INCR (keys ! 0)) (\<lambda>current.
     let answer = RedisCall (PTTL (keys ! 0)) (\<lambda>ttl. ScriptReturn (JArr [current, ttl]))
     in if current = JNum (IntNum 1) then RedisCall (PEXPIRE (keys ! 0) (argv ! 0)) (\<lambda>_. answer) else answer)"

definition ACCEPT_RESULT_SCRIPT :: "string list \<Rightarrow> string \<Rightarrow> int \<Rightarrow> redis_script" where
  "ACCEPT_RESULT_SCRIPT keys entry pxat =
     RedisCall (GET (keys ! 0)) (\<lambda>current.
     if current = JNull then RedisCall (SET (keys ! 0) entry (Some pxat)) (\<lambda>_. script_return 1)
     else if current = JStr entry then script_return 2 else script_return 0)"

definition CONSUME_RESULT_WITH_LEGACY_SCRIPT :: "string list \<Rightarrow> int \<Rightarrow> redis_script" where
  "CONSUME_RESULT_WITH_LEGACY_SCRIPT keys pxat =
     RedisCall (EXISTS (keys ! 1)) (\<lambda>legacy. if legacy = JNum (IntNum 1) then script_return 0 else
     RedisCall (EXISTS (keys ! 0)) (\<lambda>current. if current = JNum (IntNum 1) then script_return 0 else
     RedisCall (SET (keys ! 0) ''1'' (Some pxat)) (\<lambda>_. script_return 1)))"

definition ACCEPT_RESULT_WITH_LEGACY_SCRIPT :: "string list \<Rightarrow> string \<Rightarrow> int \<Rightarrow> redis_script" where
  "ACCEPT_RESULT_WITH_LEGACY_SCRIPT keys entry pxat =
     RedisCall (GET (keys ! 1)) (\<lambda>legacy.
     let decide = (\<lambda>current.
       if current = JNull then RedisCall (SET (keys ! 0) entry (Some pxat)) (\<lambda>_. script_return 1)
       else if current = JStr entry then script_return 2 else script_return 0)
     in if legacy = JNull then RedisCall (GET (keys ! 0)) decide else decide legacy)"

definition CREATE_HANDOFF_SCRIPT :: "string list \<Rightarrow> string \<Rightarrow> int \<Rightarrow> string \<Rightarrow> redis_script" where
  "CREATE_HANDOFF_SCRIPT keys record' pxat handoffId =
     RedisCall (EXISTS (keys ! 0)) (\<lambda>known. if known = JNum (IntNum 1) then script_return 0 else
     RedisCall (EXISTS (keys ! 1)) (\<lambda>active. if active = JNum (IntNum 1) then script_return 0 else
     RedisCall (SET (keys ! 0) record' (Some pxat)) (\<lambda>_.
     RedisCall (SET (keys ! 1) handoffId (Some pxat)) (\<lambda>_. script_return 1))))"

definition UPDATE_HANDOFF_SCRIPT :: "string list \<Rightarrow> string \<Rightarrow> string \<Rightarrow> int \<Rightarrow> bool \<Rightarrow> string \<Rightarrow> redis_script" where
  "UPDATE_HANDOFF_SCRIPT keys previous nxt pxat terminal handoffId =
     RedisCall (GET (keys ! 0)) (\<lambda>current. if current \<noteq> JStr previous then script_return 0 else
     RedisCall (SET (keys ! 0) nxt (Some pxat)) (\<lambda>_.
     if terminal
     then RedisCall (GET (keys ! 1)) (\<lambda>active.
       if active = JStr handoffId then RedisCall (DEL (keys ! 1)) (\<lambda>_. script_return 1) else script_return 1)
     else RedisCall (SET (keys ! 1) handoffId (Some pxat)) (\<lambda>_. script_return 1)))"

subsection \<open>The client\<close>

text \<open>
  \<open>sendCommand\<close>, the instance's clock and what is configured.  A reply 1 may come as a number or as a text.
\<close>

record 'w RedisClient =
  rc_send :: "redis_command \<Rightarrow> ('w, js) io"
  rc_clock :: "'w \<Rightarrow> int"
  rc_zod :: zod
  rc_prefix :: string

definition replied :: "js \<Rightarrow> int \<Rightarrow> bool" where
  "replied response n \<longleftrightarrow> response = JNum (IntNum n) \<or> response = JStr (string_of_int n)"

definition redis_clock :: "'w RedisClient \<Rightarrow> ('w, int) io" where
  "redis_clock c = (\<lambda>w. (Inr (rc_clock c w), w))"

definition new_RedisX424Store :: "string \<Rightarrow> string option \<Rightarrow> string res" where
  "new_RedisX424Store topology keyPrefix =
     (if topology \<noteq> ''single-endpoint''
      then Inl (Error ''RedisX424Store requires topology=single-endpoint; Redis Cluster is unsupported'')
      else let token = (case keyPrefix of None \<Rightarrow> ''x424'' | Some p \<Rightarrow> p)
        in if token = [] \<or> list_ex (\<lambda>c. is_trim_space c \<or> c = CHR 0x00) token
           then Inl (Error ''Redis keyPrefix must be a non-empty token'') else Inr token)"

definition redis_key_text :: "string \<Rightarrow> string \<Rightarrow> string \<Rightarrow> string" where
  "redis_key_text keyPrefix kind entryId = keyPrefix @ '':'' @ kind @ '':'' @ entryId"

definition redis_key :: "'w RedisClient \<Rightarrow> string \<Rightarrow> string \<Rightarrow> string res" where
  "redis_key c kind entryId =
     (if entryId = [] then Inl (Error ''x424 store ID is required'') else Inr (redis_key_text (rc_prefix c) kind entryId))"

definition futureExpiry :: "IsoTimestamp \<Rightarrow> int \<Rightarrow> int option" where
  "futureExpiry expiresAt now = (case date_parse expiresAt of
     None \<Rightarrow> None | Some expiresAtMs \<Rightarrow> if now < expiresAtMs then Some expiresAtMs else None)"

definition redis_setOnce :: "'w RedisClient \<Rightarrow> string \<Rightarrow> string \<Rightarrow> IsoTimestamp \<Rightarrow> string \<Rightarrow> ('w, unit) io" where
  "redis_setOnce c key entry expiresAt duplicateMessage =
     io_bind (redis_clock c) (\<lambda>now. case futureExpiry expiresAt now of
       None \<Rightarrow> io_throw (Error ''Invalid or expired entry'')
     | Some expiresAtMs \<Rightarrow>
         io_bind (rc_send c (Command (SET_NX key entry (Some expiresAtMs)))) (\<lambda>response.
         if response \<noteq> JStr ''OK'' then io_throw (Error duplicateMessage) else io_return ()))"

subsection \<open>Nonces and provider subjects\<close>

definition redis_putNonce :: "'w RedisClient \<Rightarrow> string \<Rightarrow> string \<Rightarrow> IsoTimestamp \<Rightarrow> ('w, unit) io" where
  "redis_putNonce c dependencyId nonce expiresAt =
     (if nonce = [] then io_throw (Error ''Invalid nonce entry'')
      else io_bind (io_lift (redis_key c ''nonce'' dependencyId)) (\<lambda>key.
        redis_setOnce c key nonce expiresAt ''Dependency ID already exists''))"

definition redis_consumeNonce :: "'w RedisClient \<Rightarrow> string \<Rightarrow> string \<Rightarrow> ('w, bool) io" where
  "redis_consumeNonce c dependencyId nonce =
     io_bind (io_lift (redis_key c ''nonce'' dependencyId)) (\<lambda>key.
     io_bind (rc_send c (EVAL (CONSUME_NONCE_SCRIPT [key] [nonce]))) (\<lambda>response. io_return (replied response 1)))"

definition provider_entry_id :: "ProviderReplayEntry \<Rightarrow> string" where
  "provider_entry_id entry = joinWith '':'' [pe_providerId entry, pe_methodId entry,
     scope_kind_text (us_kind (pe_uniquenessScope entry)), us_id (pe_uniquenessScope entry), pe_subjectDigest entry]"

definition redis_consumeProvider :: "'w RedisClient \<Rightarrow> ProviderReplayEntry \<Rightarrow> ('w, bool) io" where
  "redis_consumeProvider c entry =
     (if pe_providerId entry = [] \<or> pe_methodId entry = [] \<or> us_id (pe_uniquenessScope entry) = [] \<or>
         pe_subjectDigest entry = []
      then io_return False
      else io_bind (io_lift (redis_key c ''provider'' (provider_entry_id entry))) (\<lambda>key.
        io_bind (rc_send c (Command (SET_NX key ''1'' None))) (\<lambda>response. io_return (response = JStr ''OK''))))"

subsection \<open>Requirements\<close>

definition requirement_envelope :: "HumanRequirement \<Rightarrow> string option \<Rightarrow> js" where
  "requirement_envelope requirement tenantId = (case tenantId of
     None \<Rightarrow> js_of_requirement requirement
   | Some tenant \<Rightarrow> JObj [(''x424RequirementStoreVersion'', JNum (IntNum 1)), (''tenantId'', JStr tenant),
       (''requirement'', js_of_requirement requirement)])"

text \<open>\<open>tenantId ?? ""\<close> and its check; a value that is neither text nor falsy passes, and is nobody's tenant.\<close>

definition envelope_tenant :: "js \<Rightarrow> unit res" where
  "envelope_tenant tenantId = (case tenantId of
     JStr t \<Rightarrow> assertTenantId t
   | _ \<Rightarrow> throwIf (falsy tenantId) (Error ''Invalid requirement tenant ID''))"

definition parseStoredRequirement :: "zod \<Rightarrow> string \<Rightarrow> (HumanRequirement \<times> js) res" where
  "parseStoredRequirement z stored = (case JSON_parse stored of
     None \<Rightarrow> Inl (SyntaxError ''Unexpected token'')
   | Some parsed \<Rightarrow>
       if js_get parsed ''x424RequirementStoreVersion'' = JNum (IntNum 1)
       then bindE (envelope_tenant (js_get parsed ''tenantId'')) (\<lambda>_.
            bindE (parseHumanRequirement z (js_get parsed ''requirement'')) (\<lambda>requirement.
            Inr (requirement, js_get parsed ''tenantId'')))
       else bindE (parseHumanRequirement z parsed) (\<lambda>requirement. Inr (requirement, JUndefined)))"

definition redis_putRequirement :: "'w RedisClient \<Rightarrow> HumanRequirement \<Rightarrow> string option \<Rightarrow> ('w, unit) io" where
  "redis_putRequirement c requirement tenantId =
     io_bind (io_lift (case tenantId of None \<Rightarrow> Inr () | Some t \<Rightarrow> assertTenantId t)) (\<lambda>_.
     io_bind (io_lift (redis_key c ''requirement'' (rq_dependencyId requirement))) (\<lambda>key.
     io_bind (io_lift (canonicalJson (requirement_envelope requirement tenantId))) (\<lambda>entry.
     redis_setOnce c key entry (rq_expiresAt requirement) ''Dependency ID already exists'')))"

definition redis_deleteRequirement :: "'w RedisClient \<Rightarrow> string \<Rightarrow> ('w, unit) io" where
  "redis_deleteRequirement c dependencyId =
     io_bind (io_lift (redis_key c ''requirement'' dependencyId)) (\<lambda>key.
     io_bind (rc_send c (Command (DEL key))) (\<lambda>_. io_return ()))"

text \<open>Reading an entry: one that has expired is deleted and not there.\<close>

definition redis_readRequirement ::
  "'w RedisClient \<Rightarrow> string \<Rightarrow> int \<Rightarrow> ('w, (HumanRequirement \<times> js) option) io" where
  "redis_readRequirement c dependencyId now =
     io_bind (io_lift (redis_key c ''requirement'' dependencyId)) (\<lambda>key.
     io_bind (rc_send c (Command (GET key))) (\<lambda>response. case response of
       JStr stored \<Rightarrow>
         io_bind (io_lift (parseStoredRequirement (rc_zod c) stored)) (\<lambda>(requirement, tenantId).
         if requirement_expired requirement now
         then io_bind (redis_deleteRequirement c dependencyId) (\<lambda>_. io_return None)
         else io_return (Some (requirement, tenantId)))
     | _ \<Rightarrow> io_return None))"

definition redis_getRequirement :: "'w RedisClient \<Rightarrow> string \<Rightarrow> int \<Rightarrow> ('w, HumanRequirement option) io" where
  "redis_getRequirement c dependencyId now =
     io_bind (redis_readRequirement c dependencyId now) (\<lambda>found. io_return (map_option fst found))"

definition redis_getRequirementForTenant ::
  "'w RedisClient \<Rightarrow> string \<Rightarrow> string \<Rightarrow> int \<Rightarrow> ('w, HumanRequirement option) io" where
  "redis_getRequirementForTenant c dependencyId tenantId now =
     io_bind (io_lift (assertTenantId tenantId)) (\<lambda>_.
     io_bind (redis_readRequirement c dependencyId now) (\<lambda>found. io_return (case found of
       None \<Rightarrow> None
     | Some (requirement, owner) \<Rightarrow> if owner = JStr tenantId then Some requirement else None)))"

definition redis_deleteRequirementForTenant :: "'w RedisClient \<Rightarrow> string \<Rightarrow> string \<Rightarrow> ('w, bool) io" where
  "redis_deleteRequirementForTenant c dependencyId tenantId =
     io_bind (io_lift (assertTenantId tenantId)) (\<lambda>_.
     io_bind (io_lift (redis_key c ''requirement'' dependencyId)) (\<lambda>key.
     io_bind (rc_send c (Command (GET key))) (\<lambda>response. case response of
       JStr stored \<Rightarrow>
         io_bind (io_lift (parseStoredRequirement (rc_zod c) stored)) (\<lambda>(requirement, owner).
         if owner \<noteq> JStr tenantId then io_return False
         else io_bind (redis_clock c) (\<lambda>now.
           if requirement_expired requirement now then io_return False
           else io_bind (rc_send c (EVAL (CONSUME_NONCE_SCRIPT [key] [stored]))) (\<lambda>deleted. io_return (replied deleted 1))))
     | _ \<Rightarrow> io_return False)))"

subsection \<open>Results\<close>

definition redis_consumeResult :: "'w RedisClient \<Rightarrow> string \<Rightarrow> IsoTimestamp \<Rightarrow> int \<Rightarrow> ('w, bool) io" where
  "redis_consumeResult c resultId expiresAt now = (case futureExpiry expiresAt now of
     None \<Rightarrow> io_return False
   | Some expiresAtMs \<Rightarrow> io_bind (io_lift (redis_key c ''result'' resultId)) (\<lambda>key.
       io_bind (rc_send c (Command (SET_NX key ''1'' (Some expiresAtMs)))) (\<lambda>response. io_return (response = JStr ''OK''))))"

definition redis_consumeResultWithLegacy ::
  "'w RedisClient \<Rightarrow> string \<Rightarrow> string \<Rightarrow> IsoTimestamp \<Rightarrow> int \<Rightarrow> ('w, bool) io" where
  "redis_consumeResultWithLegacy c resultId legacyResultId expiresAt now = (case futureExpiry expiresAt now of
     None \<Rightarrow> io_return False
   | Some expiresAtMs \<Rightarrow>
       if resultId = [] \<or> legacyResultId = [] \<or> 200 < length legacyResultId then io_return False
       else io_bind (io_lift (redis_key c ''result'' resultId)) (\<lambda>key.
         io_bind (io_lift (redis_key c ''result'' legacyResultId)) (\<lambda>legacyKey.
         io_bind (rc_send c (EVAL (CONSUME_RESULT_WITH_LEGACY_SCRIPT [key, legacyKey] expiresAtMs))) (\<lambda>response.
         io_return (replied response 1)))))"

definition acceptance_entry :: "ResultAcceptanceInput \<Rightarrow> string res" where
  "acceptance_entry input = canonicalJson (JObj [(''operationId'', JStr (ra_operationId input)),
     (''requestDigest'', JStr (ra_requestDigest input))])"

definition acceptance_reply :: "js \<Rightarrow> ResultAcceptanceStatus" where
  "acceptance_reply response =
     (if replied response 1 then AcceptNew else if replied response 2 then SameOperation else Replay)"

definition redis_acceptResult :: "'w RedisClient \<Rightarrow> ResultAcceptanceInput \<Rightarrow> int \<Rightarrow> ('w, ResultAcceptanceStatus) io" where
  "redis_acceptResult c input now = (case futureExpiry (ra_expiresAt input) now of
     None \<Rightarrow> io_return Replay
   | Some expiresAtMs \<Rightarrow>
       if ra_resultId input = [] \<or> 200 < length (ra_resultId input) \<or> ra_operationId input = [] \<or>
          512 < length (ra_operationId input) \<or> \<not> is_digest_text (ra_requestDigest input)
       then io_return Replay
       else io_bind (io_lift (acceptance_entry input)) (\<lambda>entry.
         io_bind (io_lift (redis_key c ''acceptance'' (ra_resultId input))) (\<lambda>key.
         io_bind (rc_send c (EVAL (ACCEPT_RESULT_SCRIPT [key] entry expiresAtMs))) (\<lambda>response.
         io_return (acceptance_reply response)))))"

definition redis_acceptResultWithLegacy ::
  "'w RedisClient \<Rightarrow> ResultAcceptanceInput \<Rightarrow> string \<Rightarrow> int \<Rightarrow> ('w, ResultAcceptanceStatus) io" where
  "redis_acceptResultWithLegacy c input legacyResultId now = (case futureExpiry (ra_expiresAt input) now of
     None \<Rightarrow> io_return Replay
   | Some expiresAtMs \<Rightarrow>
       if ra_resultId input = [] \<or> 200 < length (ra_resultId input) \<or> legacyResultId = [] \<or>
          200 < length legacyResultId \<or> ra_operationId input = [] \<or> 512 < length (ra_operationId input) \<or>
          \<not> is_digest_text (ra_requestDigest input)
       then io_return Replay
       else io_bind (io_lift (acceptance_entry input)) (\<lambda>entry.
         io_bind (io_lift (redis_key c ''acceptance'' (ra_resultId input))) (\<lambda>key.
         io_bind (io_lift (redis_key c ''acceptance'' legacyResultId)) (\<lambda>legacyKey.
         io_bind (rc_send c (EVAL (ACCEPT_RESULT_WITH_LEGACY_SCRIPT [key, legacyKey] entry expiresAtMs))) (\<lambda>response.
         io_return (acceptance_reply response))))))"

subsection \<open>Rate limits\<close>

record 'w RedisRateLimiter =
  ll_client :: "'w RedisClient"
  ll_windowMs :: int
  ll_maxRequests :: int

fun whole_number :: "jsnum \<Rightarrow> int option" where
  "whole_number (IntNum n) = Some n"
| "whole_number _ = None"

definition new_RedisRateLimiter :: "'w RedisClient \<Rightarrow> string option \<Rightarrow> jsnum \<Rightarrow> jsnum \<Rightarrow> 'w RedisRateLimiter res" where
  "new_RedisRateLimiter client keyPrefix windowMs maxRequests = (case (whole_number windowMs, whole_number maxRequests) of
     (Some window, Some maximum) \<Rightarrow>
       if window < 1 \<or> maximum < 1 then Inl (Error ''Redis rate-limit window and maximum must be positive'')
       else Inr \<lparr>ll_client = client\<lparr>rc_prefix := (case keyPrefix of None \<Rightarrow> ''x424:rate'' | Some p \<Rightarrow> p)\<rparr>,
         ll_windowMs = window, ll_maxRequests = maximum\<rparr>
   | _ \<Rightarrow> Inl (Error ''Redis rate-limit window and maximum must be positive''))"

text \<open>The text of an integer.\<close>

definition counter_value :: "string \<Rightarrow> int option" where
  "counter_value v = (case parse_number v of
     Some (IntNum n) \<Rightarrow> if string_of_int n = v then Some n else None | _ \<Rightarrow> None)"

text \<open>\<open>Number\<close> of a reply, an integer that a client may answer as a text.\<close>

definition reply_number :: "js \<Rightarrow> int option" where
  "reply_number v = (case v of
     JNum (IntNum n) \<Rightarrow> Some n | JStr t \<Rightarrow> counter_value t | JNull \<Rightarrow> Some 0 | _ \<Rightarrow> None)"

definition limit_answer :: "int \<Rightarrow> int \<Rightarrow> js \<Rightarrow> RateLimitResult res" where
  "limit_answer maximum now response = (case response of
     JArr [counted, left] \<Rightarrow> (case (reply_number counted, reply_number left) of
       (Some current, Some ttl) \<Rightarrow> Inr \<lparr>rl_allowed = (current \<le> maximum), rl_remaining = max 0 (maximum - current),
         rl_resetAt = now + max 0 ttl\<rparr>
     | _ \<Rightarrow> Inl (Error ''Redis returned an invalid rate-limit response''))
   | _ \<Rightarrow> Inl (Error ''Redis returned an invalid rate-limit response''))"

definition redis_limit :: "'w RedisRateLimiter \<Rightarrow> string \<Rightarrow> int \<Rightarrow> ('w, RateLimitResult) io" where
  "redis_limit limiter key now =
     (if key = [] \<or> list_ex (\<lambda>c. c \<in> {CHR 0x00, CHR 0x0D, CHR 0x0A}) key then io_throw (Error ''Invalid Redis rate-limit key'')
      else io_bind (rc_send (ll_client limiter) (EVAL (RATE_LIMIT_SCRIPT [rc_prefix (ll_client limiter) @ '':'' @ key] [ll_windowMs limiter]))) (\<lambda>response.
        io_lift (limit_answer (ll_maxRequests limiter) now response)))"

end
