(* ===== verification/RedisHandoffs.thy ===== *)
theory RedisHandoffs
  imports Redis
begin

section \<open>The Redis handoff store (src/redis.ts)\<close>

text \<open>
  Brokered handoffs over the same command surface: a record under its identifier and, while it is active, its identifier
  under its dependency.  An update is a compare-and-swap of the canonical text of the whole record.
\<close>

definition handoff_status_of :: "string \<Rightarrow> HandoffStatus" where
  "handoff_status_of s = (if s = ''pending'' then HsPending else if s = ''polling'' then HsPolling
     else if s = ''completed'' then HsCompleted else if s = ''failed'' then HsFailed
     else if s = ''expired'' then HsExpired else HsCancelled)"

text \<open>A parsed record; what the parser does not check is read as the text this code writes there.\<close>

definition handoff_of_js :: "js \<Rightarrow> StoredHumanHandoff" where
  "handoff_of_js v = \<lparr>hr_handoffId = get_str v ''handoffId'', hr_dependencyId = get_str v ''dependencyId'',
     hr_providerId = get_str v ''providerId'', hr_methodId = get_str v ''methodId'',
     hr_accessTokenDigest = get_str v ''accessTokenDigest'', hr_status = handoff_status_of (get_str v ''status''),
     hr_pollClaimExpiresAt = get_opt str_of v ''pollClaimExpiresAt'',
     hr_presentation = \<lparr>hp_uri = get_str (js_get v ''presentation'') ''uri'',
       hp_userCode = get_opt str_of (js_get v ''presentation'') ''userCode''\<rparr>,
     hr_protectedState = get_str v ''protectedState'',
     hr_protectedCompletion = get_opt str_of v ''protectedCompletion'',
     hr_failureCode = get_opt str_of v ''failureCode'',
     hr_pollAfterMs = IntNum (int_of_js (js_get v ''pollAfterMs'')), hr_expiresAt = get_str v ''expiresAt'',
     hr_version = int_of_js (js_get v ''version'')\<rparr>"

definition handoff_text :: "StoredHumanHandoff \<Rightarrow> string res" where
  "handoff_text r = canonicalJson (js_of_handoff r)"

definition redis_recordKey :: "'w RedisClient \<Rightarrow> string \<Rightarrow> string" where
  "redis_recordKey c handoffId = redis_key_text (rc_prefix c) ''handoff'' handoffId"

definition redis_dependencyKey :: "'w RedisClient \<Rightarrow> string \<Rightarrow> string" where
  "redis_dependencyKey c dependencyId = redis_key_text (rc_prefix c) ''handoff-dependency'' dependencyId"

definition redis_createHandoff :: "'w RedisClient \<Rightarrow> StoredHumanHandoff \<Rightarrow> ('w, bool) io" where
  "redis_createHandoff c r = (case date_parse (hr_expiresAt r) of
     None \<Rightarrow> io_return False
   | Some expiresAtMs \<Rightarrow> io_bind (redis_clock c) (\<lambda>now.
       if expiresAtMs \<le> now then io_return False
       else io_bind (io_lift (handoff_text r)) (\<lambda>entry.
         io_bind (rc_send c (EVAL (CREATE_HANDOFF_SCRIPT
           [redis_recordKey c (hr_handoffId r), redis_dependencyKey c (hr_dependencyId r)] entry expiresAtMs (hr_handoffId r))))
           (\<lambda>response. io_return (replied response 1)))))"

definition redis_updateHandoff :: "'w RedisClient \<Rightarrow> StoredHumanHandoff \<Rightarrow> StoredHumanHandoff \<Rightarrow> ('w, bool) io" where
  "redis_updateHandoff c previous nxt =
     (if hr_version nxt \<noteq> hr_version previous + 1 then io_return False
      else case date_parse (hr_expiresAt nxt) of
        None \<Rightarrow> io_return False
      | Some expiresAtMs \<Rightarrow>
          io_bind (io_lift (handoff_text previous)) (\<lambda>previousText.
          io_bind (io_lift (handoff_text nxt)) (\<lambda>nextText.
          io_bind (redis_clock c) (\<lambda>now.
          io_bind (rc_send c (EVAL (UPDATE_HANDOFF_SCRIPT
            [redis_recordKey c (hr_handoffId previous), redis_dependencyKey c (hr_dependencyId previous)]
            previousText nextText (max (now + 1000) expiresAtMs) (handoff_terminal (hr_status nxt)) (hr_handoffId previous))))
            (\<lambda>response. io_return (replied response 1))))))"

text \<open>
  Reading a record expires it when it is due; if somebody else has changed it meanwhile it is read again.  The number of
  readings is bounded by the first argument, and the result is \<open>None\<close> when they are used up.
\<close>

primrec redis_getAuthorized ::
  "nat \<Rightarrow> 'w RedisClient \<Rightarrow> string \<Rightarrow> string \<Rightarrow> int \<Rightarrow> ('w, StoredHumanHandoff option option) io" where
  "redis_getAuthorized 0 c handoffId accessTokenDigest now = io_return None"
| "redis_getAuthorized (Suc readings) c handoffId accessTokenDigest now =
     io_bind (rc_send c (Command (GET (redis_recordKey c handoffId)))) (\<lambda>response. case response of
       JStr stored \<Rightarrow>
         io_bind (io_lift (parseStoredHumanHandoff (JStr stored))) (\<lambda>parsed.
         let r = handoff_of_js parsed
         in if hr_accessTokenDigest r \<noteq> accessTokenDigest then io_return (Some None)
            else if handoff_due r now \<and> \<not> handoff_terminal (hr_status r)
            then io_bind (redis_updateHandoff c r (expired_record r)) (\<lambda>won.
              if won then io_return (Some (Some (expired_record r)))
              else redis_getAuthorized readings c handoffId accessTokenDigest now)
            else io_return (Some (Some r)))
     | _ \<Rightarrow> io_return (Some None))"

end
