(* ===== verification/RedisServer.thy ===== *)
theory RedisServer
  imports RedisHandoffs
begin

section \<open>What the Redis commands do\<close>

text \<open>
  The documented effect of the commands the stores send on a keyspace of strings with deadlines, as far as the stores use
  it; a script runs at once.  A key whose deadline has passed may still be there; the server removes it in its own time.
  The properties of the stores assume of a connection that the server at its other side is one of these.
\<close>

subsection \<open>The server\<close>

record RedisState =
  rk_now :: int
  rk_keys :: "(string \<times> string \<times> int option) list"

text \<open>A command answers with a reply or an error.\<close>

type_synonym redis_effect = "(RedisState, js) io"

definition rk_lookup :: "RedisState \<Rightarrow> string \<Rightarrow> (string \<times> int option) option" where
  "rk_lookup s key = map_of (rk_keys s) key"

definition rk_write :: "string \<Rightarrow> string \<times> int option \<Rightarrow> RedisState \<Rightarrow> RedisState" where
  "rk_write key entry s = s\<lparr>rk_keys := AList.update key entry (rk_keys s)\<rparr>"

definition rk_remove :: "string \<Rightarrow> RedisState \<Rightarrow> RedisState" where
  "rk_remove key s = s\<lparr>rk_keys := AList.delete key (rk_keys s)\<rparr>"

definition redis_GET :: "string \<Rightarrow> redis_effect" where
  "redis_GET key = (\<lambda>s. (Inr (case rk_lookup s key of None \<Rightarrow> JNull | Some (v, _) \<Rightarrow> JStr v), s))"

definition redis_EXISTS :: "string \<Rightarrow> redis_effect" where
  "redis_EXISTS key = (\<lambda>s. (Inr (JNum (IntNum (if rk_lookup s key = None then 0 else 1))), s))"

definition redis_SET :: "string \<Rightarrow> string \<Rightarrow> int option \<Rightarrow> redis_effect" where
  "redis_SET key v pxat = (\<lambda>s. (Inr (JStr ''OK''), rk_write key (v, pxat) s))"

definition redis_SET_NX :: "string \<Rightarrow> string \<Rightarrow> int option \<Rightarrow> redis_effect" where
  "redis_SET_NX key v pxat = (\<lambda>s.
     if rk_lookup s key = None then (Inr (JStr ''OK''), rk_write key (v, pxat) s) else (Inr JNull, s))"

definition redis_DEL :: "string \<Rightarrow> redis_effect" where
  "redis_DEL key = (\<lambda>s. (Inr (JNum (IntNum (if rk_lookup s key = None then 0 else 1))), rk_remove key s))"

text \<open>\<open>INCR\<close> keeps the deadline; a value that is not the text of an integer is an error.\<close>

definition redis_INCR :: "string \<Rightarrow> redis_effect" where
  "redis_INCR key = (\<lambda>s. case rk_lookup s key of
     None \<Rightarrow> (Inr (JNum (IntNum 1)), rk_write key (''1'', None) s)
   | Some (v, pxat) \<Rightarrow> (case counter_value v of
       None \<Rightarrow> (Inl (Error ''ERR value is not an integer or out of range''), s)
     | Some n \<Rightarrow> if n = 2 ^ 63 - 1 then (Inl (Error ''ERR increment or decrement would overflow''), s)
         else (Inr (JNum (IntNum (n + 1))), rk_write key (string_of_int (n + 1), pxat) s)))"

definition redis_PEXPIRE :: "string \<Rightarrow> int \<Rightarrow> redis_effect" where
  "redis_PEXPIRE key milliseconds = (\<lambda>s. case rk_lookup s key of
     None \<Rightarrow> (Inr (JNum (IntNum 0)), s)
   | Some (v, _) \<Rightarrow> (Inr (JNum (IntNum 1)), rk_write key (v, Some (rk_now s + milliseconds)) s))"

definition redis_PTTL :: "string \<Rightarrow> redis_effect" where
  "redis_PTTL key = (\<lambda>s. (Inr (JNum (IntNum (case rk_lookup s key of
     None \<Rightarrow> -2 | Some (_, None) \<Rightarrow> -1 | Some (_, Some deadline) \<Rightarrow> deadline - rk_now s))), s))"

fun serve :: "redis_request \<Rightarrow> redis_effect" where
  "serve (GET k) = redis_GET k"
| "serve (EXISTS k) = redis_EXISTS k"
| "serve (SET k v d) = redis_SET k v d"
| "serve (SET_NX k v d) = redis_SET_NX k v d"
| "serve (DEL k) = redis_DEL k"
| "serve (INCR k) = redis_INCR k"
| "serve (PEXPIRE k ms) = redis_PEXPIRE k ms"
| "serve (PTTL k) = redis_PTTL k"

primrec run_script :: "redis_script \<Rightarrow> redis_effect" where
  "run_script (ScriptReturn v) = io_return v"
| "run_script (RedisCall request next_step) = io_bind (serve request) (\<lambda>v. run_script (next_step v))"

primrec effect :: "redis_command \<Rightarrow> redis_effect" where
  "effect (Command request) = serve request"
| "effect (EVAL script) = run_script script"

end
