(* ===== verification/RedisRuns.thy ===== *)
theory RedisRuns
  imports RedisServer
begin

section \<open>Runs of the Redis stores\<close>

text \<open>
  Several instances share the server.  \<open>connected rely\<close> says what a client's command is: the server runs it once, at
  some moment between sending and answering, around which it changes only as \<open>rely\<close> allows; the connection may fail
  before or after.  The stores guarantee to each other what they rely on: claims stay until their deadline.
\<close>

definition connected :: "(RedisState \<Rightarrow> RedisState \<Rightarrow> bool) \<Rightarrow> 'w RedisClient \<Rightarrow> ('w \<Rightarrow> RedisState) \<Rightarrow> bool" where
  "connected rely c server \<longleftrightarrow> (\<forall>command w x w'. rc_send c command w = (x, w') \<longrightarrow>
     (\<exists>e. x = Inl e) \<and> rely (server w) (server w') \<or>
     (\<exists>s1. rely (server w) s1 \<and> (x = fst (effect command s1) \<or> (\<exists>e. x = Inl e)) \<and> rely (snd (effect command s1)) (server w')))"

text \<open>Entries under the keys \<open>P\<close> stay as they are until the server's clock has reached their deadline.\<close>

definition keeps_claims :: "(string \<Rightarrow> bool) \<Rightarrow> RedisState \<Rightarrow> RedisState \<Rightarrow> bool" where
  "keeps_claims P s s' \<longleftrightarrow> rk_now s \<le> rk_now s' \<and> (\<forall>k v d. P k \<and> rk_lookup s k = Some (v, d) \<longrightarrow>
     rk_lookup s' k = Some (v, d) \<or> (\<exists>e. d = Some e \<and> e \<le> rk_now s'))"

lemma keeps_claims_refl: "keeps_claims P s s"
  by (simp add: keeps_claims_def)

lemma keeps_claims_trans:
  assumes "keeps_claims P s s1" "keeps_claims P s1 s2"
  shows "keeps_claims P s s2"
  unfolding keeps_claims_def
proof (intro conjI allI impI)
  show "rk_now s \<le> rk_now s2" using assms by (simp add: keeps_claims_def)
next
  fix k v d
  assume k: "P k \<and> rk_lookup s k = Some (v, d)"
  then have "rk_lookup s1 k = Some (v, d) \<or> (\<exists>e. d = Some e \<and> e \<le> rk_now s1)"
    using assms(1) unfolding keeps_claims_def by blast
  then show "rk_lookup s2 k = Some (v, d) \<or> (\<exists>e. d = Some e \<and> e \<le> rk_now s2)"
  proof
    assume "rk_lookup s1 k = Some (v, d)"
    with k show ?thesis using assms(2) unfolding keeps_claims_def by blast
  next
    assume "\<exists>e. d = Some e \<and> e \<le> rk_now s1"
    then obtain e where e: "d = Some e" "e \<le> rk_now s1" by blast
    moreover have "rk_now s1 \<le> rk_now s2" using assms(2) by (simp add: keeps_claims_def)
    ultimately show ?thesis by auto
  qed
qed

subsection \<open>What the commands do to claims\<close>

lemma rk_lookup_write [simp]: "rk_lookup (rk_write k e s) j = (if j = k then Some e else rk_lookup s j)"
  by (simp add: rk_lookup_def rk_write_def update_conv')

lemma rk_lookup_remove [simp]: "rk_lookup (rk_remove k s) j = (if j = k then None else rk_lookup s j)"
  by (simp add: rk_lookup_def rk_remove_def delete_conv')

lemma rk_now_parts [simp]: "rk_now (rk_write k e s) = rk_now s" "rk_now (rk_remove k s) = rk_now s"
  by (simp_all add: rk_write_def rk_remove_def)

lemma keeps_write_new: "rk_lookup s k = None \<Longrightarrow> keeps_claims P s (rk_write k e s)"
  by (auto simp: keeps_claims_def)

lemma keeps_write_other: "\<not> P k \<Longrightarrow> keeps_claims P s (rk_write k e s)"
  by (auto simp: keeps_claims_def)

lemma keeps_remove_other: "\<not> P k \<Longrightarrow> keeps_claims P s (rk_remove k s)"
  by (auto simp: keeps_claims_def)

definition moves :: "(RedisState \<Rightarrow> RedisState \<Rightarrow> bool) \<Rightarrow> ('w \<Rightarrow> RedisState) \<Rightarrow> ('w, 'a) io \<Rightarrow> bool" where
  "moves G server m \<longleftrightarrow> (\<forall>w. G (server w) (server (snd (m w))))"

abbreviation harmless :: "(string \<Rightarrow> bool) \<Rightarrow> redis_effect \<Rightarrow> bool" where
  "harmless P command \<equiv> moves (keeps_claims P) (\<lambda>s. s) command"

named_theorems moves_intros "computations that keep claims"

lemma moves_basic [moves_intros]:
  "moves (keeps_claims P) server (io_return x)" "moves (keeps_claims P) server (io_throw e)"
  "moves (keeps_claims P) server (io_lift r)"
  by (simp_all add: moves_def io_eval keeps_claims_refl)

lemma moves_bind [moves_intros]:
  assumes "moves (keeps_claims P) server m" "\<And>x. moves (keeps_claims P) server (f x)"
  shows "moves (keeps_claims P) server (io_bind m f)"
  unfolding moves_def
proof
  fix w
  obtain x w1 where m: "m w = (x, w1)" by fastforce
  have "keeps_claims P (server w) (server w1)" using assms(1) m unfolding moves_def by (metis snd_conv)
  moreover have "keeps_claims P (server w1) (server (snd (f y w1)))" for y using assms(2) unfolding moves_def by blast
  ultimately show "keeps_claims P (server w) (server (snd (io_bind m f w)))"
    using m by (auto simp: io_bind_def intro: keeps_claims_trans split: sum.splits)
qed

lemma moves_clock [moves_intros]: "moves (keeps_claims P) server (redis_clock c)"
  by (simp add: moves_def redis_clock_def keeps_claims_refl)

lemma moves_send:
  assumes "connected (keeps_claims P) c server" "harmless P (effect command)"
  shows "moves (keeps_claims P) server (rc_send c command)"
  unfolding moves_def
proof
  fix w
  obtain x w' where "rc_send c command w = (x, w')" by fastforce
  moreover from this have "keeps_claims P (server w) (server w') \<or>
      (\<exists>s1. keeps_claims P (server w) s1 \<and> keeps_claims P (snd (effect command s1)) (server w'))"
    using assms(1) unfolding connected_def by blast
  moreover have "keeps_claims P s1 (snd (effect command s1))" for s1 using assms(2) by (simp add: moves_def)
  ultimately show "keeps_claims P (server w) (server (snd (rc_send c command w)))"
    by (metis keeps_claims_trans snd_conv)
qed

lemma harmless_reads [moves_intros]:
  "harmless P (redis_GET k)" "harmless P (redis_EXISTS k)" "harmless P (redis_PTTL k)"
  by (simp_all add: moves_def redis_GET_def redis_EXISTS_def redis_PTTL_def keeps_claims_refl)

lemma harmless_SET_NX [moves_intros]: "harmless P (redis_SET_NX k v d)"
  by (auto simp: moves_def redis_SET_NX_def keeps_claims_refl keeps_write_new)

lemma harmless_DEL [moves_intros]: "\<not> P k \<Longrightarrow> harmless P (redis_DEL k)"
  by (simp add: moves_def redis_DEL_def keeps_remove_other)

lemma harmless_SET: "\<not> P k \<Longrightarrow> harmless P (redis_SET k v d)"
  by (simp add: moves_def redis_SET_def keeps_write_other)

text \<open>The scripts run at once: what they read is what they write over.\<close>

lemma consume_nonce_harmless: "\<not> P k \<Longrightarrow> harmless P (run_script (CONSUME_NONCE_SCRIPT [k] argv))"
  unfolding CONSUME_NONCE_SCRIPT_def by (auto intro!: moves_intros)

lemma script_steps:
  "redis_GET k s = (Inr (case rk_lookup s k of None \<Rightarrow> JNull | Some (v, _) \<Rightarrow> JStr v), s)"
  "redis_SET k v d s = (Inr (JStr ''OK''), rk_write k (v, d) s)"
  "redis_EXISTS k s = (Inr (JNum (IntNum (if rk_lookup s k = None then 0 else 1))), s)"
  by (simp_all add: redis_GET_def redis_SET_def redis_EXISTS_def)

lemma accept_result_run:
  "run_script (ACCEPT_RESULT_SCRIPT [k] entry d) s = (case rk_lookup s k of
     None \<Rightarrow> (Inr (JNum (IntNum 1)), rk_write k (entry, Some d) s)
   | Some (v, _) \<Rightarrow> (Inr (JNum (IntNum (if v = entry then 2 else 0))), s))"
  by (simp add: ACCEPT_RESULT_SCRIPT_def io_bind_def io_eval script_steps split: option.splits)

lemma consume_legacy_run:
  "run_script (CONSUME_RESULT_WITH_LEGACY_SCRIPT [k, l] d) s =
     (if rk_lookup s l = None \<and> rk_lookup s k = None then (Inr (JNum (IntNum 1)), rk_write k (''1'', Some d) s)
      else (Inr (JNum (IntNum 0)), s))"
  by (simp add: CONSUME_RESULT_WITH_LEGACY_SCRIPT_def io_bind_def io_eval script_steps)

lemma accept_legacy_run:
  "run_script (ACCEPT_RESULT_WITH_LEGACY_SCRIPT [k, l] entry d) s = (case (rk_lookup s l, rk_lookup s k) of
     (None, None) \<Rightarrow> (Inr (JNum (IntNum 1)), rk_write k (entry, Some d) s)
   | (Some (v, _), _) \<Rightarrow> (Inr (JNum (IntNum (if v = entry then 2 else 0))), s)
   | (None, Some (v, _)) \<Rightarrow> (Inr (JNum (IntNum (if v = entry then 2 else 0))), s))"
  by (simp add: ACCEPT_RESULT_WITH_LEGACY_SCRIPT_def Let_def io_bind_def io_eval script_steps split: option.splits)

lemma create_handoff_run:
  "run_script (CREATE_HANDOFF_SCRIPT [k, l] entry d ident) s =
     (if rk_lookup s k = None \<and> rk_lookup s l = None
      then (Inr (JNum (IntNum 1)), rk_write l (ident, Some d) (rk_write k (entry, Some d) s))
      else (Inr (JNum (IntNum 0)), s))"
  by (simp add: CREATE_HANDOFF_SCRIPT_def io_bind_def io_eval script_steps)

lemma accept_harmless [moves_intros]:
  "harmless P (run_script (ACCEPT_RESULT_SCRIPT [k] entry d))" "harmless P (run_script (CONSUME_RESULT_WITH_LEGACY_SCRIPT [k, l] d))"
  "harmless P (run_script (ACCEPT_RESULT_WITH_LEGACY_SCRIPT [k, l] entry d))"
  by (auto simp: moves_def accept_result_run consume_legacy_run accept_legacy_run keeps_claims_refl keeps_write_new split: option.splits)

lemma handoff_scripts_harmless:
  assumes "\<not> P k" "\<not> P l"
  shows "harmless P (run_script (CREATE_HANDOFF_SCRIPT [k, l] entry d ident))"
    "harmless P (run_script (UPDATE_HANDOFF_SCRIPT [k, l] p n d terminal ident))"
  unfolding CREATE_HANDOFF_SCRIPT_def UPDATE_HANDOFF_SCRIPT_def
  using assms by (auto intro!: moves_intros harmless_SET)

text \<open>The same of the commands as they are sent.\<close>

lemma sent_harmless [moves_intros]:
  "harmless P (serve request) \<Longrightarrow> harmless P (effect (Command request))"
  "harmless P (run_script script) \<Longrightarrow> harmless P (effect (EVAL script))"
  by simp_all

lemma served_harmless [moves_intros]:
  "harmless P (redis_GET k) \<Longrightarrow> harmless P (serve (GET k))"
  "harmless P (redis_DEL k) \<Longrightarrow> harmless P (serve (DEL k))"
  "harmless P (redis_SET_NX k v d) \<Longrightarrow> harmless P (serve (SET_NX k v d))"
  by simp_all

subsection \<open>Keys\<close>

lemma key_text_eq:
  assumes "CHR '':'' \<notin> set kind" "CHR '':'' \<notin> set kind'"
  shows "redis_key_text p kind i = redis_key_text p kind' j \<longleftrightarrow> kind = kind' \<and> i = j"
proof
  assume "redis_key_text p kind i = redis_key_text p kind' j"
  then have e: "kind @ CHR '':'' # i = kind' @ CHR '':'' # j" by (simp add: redis_key_text_def)
  have "takeWhile (\<lambda>c. c \<noteq> CHR '':'') (kind @ CHR '':'' # i) = kind" "takeWhile (\<lambda>c. c \<noteq> CHR '':'') (kind' @ CHR '':'' # j) = kind'"
    using assms by (subst takeWhile_append2; force)+
  then show "kind = kind' \<and> i = j" using e by auto
qed simp

text \<open>The keys under which something is claimed once.\<close>

definition claim_kinds :: "string list" where
  "claim_kinds = [''provider'', ''result'', ''acceptance'']"

definition claim_key :: "string \<Rightarrow> string \<Rightarrow> bool" where
  "claim_key keyPrefix k \<longleftrightarrow> (\<exists>kind \<in> set claim_kinds. \<exists>i. k = redis_key_text keyPrefix kind i)"

lemma no_claim_key:
  "\<not> claim_key p (redis_key_text p ''nonce'' i)" "\<not> claim_key p (redis_key_text p ''requirement'' i)"
  "\<not> claim_key p (redis_key_text p ''handoff'' i)" "\<not> claim_key p (redis_key_text p ''handoff-dependency'' i)"
  by (simp_all add: claim_key_def claim_kinds_def key_text_eq)


subsection \<open>Operations\<close>

datatype redis_op =
    RedisPutNonce string string IsoTimestamp
  | RedisConsumeNonce string string
  | RedisProvider ProviderReplayEntry
  | RedisPut HumanRequirement "string option"
  | RedisGet string int
  | RedisGetFor string string int
  | RedisDelete string
  | RedisDeleteFor string string
  | RedisConsume string IsoTimestamp int
  | RedisConsumeLegacy string string IsoTimestamp int
  | RedisAccept ResultAcceptanceInput int
  | RedisAcceptLegacy ResultAcceptanceInput string int
  | RedisCreateHandoff StoredHumanHandoff
  | RedisUpdateHandoff StoredHumanHandoff StoredHumanHandoff
  | RedisGetHandoff nat string string int

text \<open>An operation of one of the instances, and whether it was granted a claim.\<close>

definition unclaimed :: "('w, 'a) io \<Rightarrow> ('w, bool) io" where
  "unclaimed m = io_bind m (\<lambda>_. io_return False)"

fun redis_do :: "'w RedisClient \<Rightarrow> redis_op \<Rightarrow> ('w, bool) io" where
  "redis_do c (RedisPutNonce d n e) = unclaimed (redis_putNonce c d n e)"
| "redis_do c (RedisConsumeNonce d n) = unclaimed (redis_consumeNonce c d n)"
| "redis_do c (RedisProvider entry) = redis_consumeProvider c entry"
| "redis_do c (RedisPut r t) = unclaimed (redis_putRequirement c r t)"
| "redis_do c (RedisGet d now) = unclaimed (redis_getRequirement c d now)"
| "redis_do c (RedisGetFor d t now) = unclaimed (redis_getRequirementForTenant c d t now)"
| "redis_do c (RedisDelete d) = unclaimed (redis_deleteRequirement c d)"
| "redis_do c (RedisDeleteFor d t) = unclaimed (redis_deleteRequirementForTenant c d t)"
| "redis_do c (RedisConsume r e now) = redis_consumeResult c r e now"
| "redis_do c (RedisConsumeLegacy r l e now) = redis_consumeResultWithLegacy c r l e now"
| "redis_do c (RedisAccept input now) = io_bind (redis_acceptResult c input now) (\<lambda>status. io_return (status = AcceptNew))"
| "redis_do c (RedisAcceptLegacy input l now) =
     io_bind (redis_acceptResultWithLegacy c input l now) (\<lambda>status. io_return (status = AcceptNew))"
| "redis_do c (RedisCreateHandoff r) = unclaimed (redis_createHandoff c r)"
| "redis_do c (RedisUpdateHandoff p n) = unclaimed (redis_updateHandoff c p n)"
| "redis_do c (RedisGetHandoff n i d now) = unclaimed (redis_getAuthorized n c i d now)"

lemma moves_option [moves_intros]:
  "(\<And>y. x = Some y \<Longrightarrow> moves G server (f y)) \<Longrightarrow> (x = None \<Longrightarrow> moves G server g) \<Longrightarrow>
   moves G server (case x of None \<Rightarrow> g | Some y \<Rightarrow> f y)"
  by (cases x) auto

lemma moves_reply [moves_intros]:
  "(\<And>t. moves G server (f t)) \<Longrightarrow> moves G server g \<Longrightarrow>
   moves G server (case x of JStr t \<Rightarrow> f t | _ \<Rightarrow> g)"
  by (cases x) auto

lemma moves_pair [moves_intros]:
  "(\<And>a b. moves G server (f a b)) \<Longrightarrow> moves G server (case x of (a, b) \<Rightarrow> f a b)"
  by (cases x) auto

lemma moves_if [moves_intros]:
  "(b \<Longrightarrow> moves G server f) \<Longrightarrow> (\<not> b \<Longrightarrow> moves G server g) \<Longrightarrow> moves G server (if b then f else g)"
  by simp

lemma moves_with_key:
  assumes "\<And>key. redis_key c kind i = Inr key \<Longrightarrow> moves (keeps_claims P) server (f key)"
  shows "moves (keeps_claims P) server (io_bind (io_lift (redis_key c kind i)) f)"
  using assms by (cases "redis_key c kind i") (simp_all add: moves_def io_bind_def io_eval keeps_claims_refl)

lemma redis_key_Inr: "redis_key c kind i = Inr key \<longleftrightarrow> i \<noteq> [] \<and> key = redis_key_text (rc_prefix c) kind i"
  by (auto simp: redis_key_def)

lemma moves_operations:
  assumes c: "connected (keeps_claims (claim_key (rc_prefix c))) c server"
  shows "moves (keeps_claims (claim_key (rc_prefix c))) server (redis_do c x)"
proof -
  let ?G = "keeps_claims (claim_key (rc_prefix c))"
  note send = moves_send [OF c] and off = no_claim_key [of "rc_prefix c"]
  have handoff_keys: "\<not> claim_key (rc_prefix c) (redis_recordKey c i)" "\<not> claim_key (rc_prefix c) (redis_dependencyKey c i)" for i
    by (simp_all add: redis_recordKey_def redis_dependencyKey_def off)
  have once: "moves ?G server (redis_setOnce c key v e m)" for key v e m
    unfolding redis_setOnce_def by (intro moves_intros send)
  have read: "moves ?G server (redis_readRequirement c d now)" for d now
    unfolding redis_readRequirement_def redis_deleteRequirement_def
    by (intro moves_intros send moves_with_key) (simp add: redis_key_Inr off)
  have update: "moves ?G server (redis_updateHandoff c p n)" for p n
    unfolding redis_updateHandoff_def by (intro moves_intros send handoff_scripts_harmless handoff_keys)
  have get: "moves ?G server (redis_getAuthorized n c i d now)" for n i d now
    by (induction n) (auto simp: Let_def intro!: moves_intros send update)
  show ?thesis
  proof (cases x)
    case (RedisPutNonce d n e)
    then show ?thesis by (simp add: unclaimed_def redis_putNonce_def) (intro conjI impI moves_intros once)
  next
    case (RedisConsumeNonce d n)
    then show ?thesis
      by (simp add: unclaimed_def redis_consumeNonce_def)
        (intro moves_bind moves_with_key send moves_basic sent_harmless consume_nonce_harmless; simp add: redis_key_Inr off)
  next
    case (RedisProvider entry)
    then show ?thesis by (simp add: redis_consumeProvider_def) (intro conjI impI moves_intros send)
  next
    case (RedisPut r t)
    then show ?thesis by (simp add: unclaimed_def redis_putRequirement_def) (intro moves_intros once)
  next
    case (RedisGet d now)
    then show ?thesis by (simp add: unclaimed_def redis_getRequirement_def) (intro moves_intros read)
  next
    case (RedisGetFor d t now)
    then show ?thesis by (simp add: unclaimed_def redis_getRequirementForTenant_def) (intro moves_intros read)
  next
    case (RedisDelete d)
    then show ?thesis
      by (simp add: unclaimed_def redis_deleteRequirement_def)
        (intro moves_bind moves_with_key send moves_basic sent_harmless served_harmless harmless_DEL; simp add: redis_key_Inr off)
  next
    case (RedisDeleteFor d t)
    then show ?thesis
      by (simp add: unclaimed_def redis_deleteRequirementForTenant_def)
        (intro moves_intros moves_with_key send sent_harmless consume_nonce_harmless; simp add: redis_key_Inr off)
  next
    case (RedisConsume r e now)
    then show ?thesis by (simp add: redis_consumeResult_def) (intro moves_intros send)
  next
    case (RedisConsumeLegacy r l e now)
    then show ?thesis by (simp add: redis_consumeResultWithLegacy_def) (intro moves_intros send)
  next
    case (RedisAccept input now)
    then show ?thesis by (simp add: redis_acceptResult_def) (intro moves_intros send)
  next
    case (RedisAcceptLegacy input l now)
    then show ?thesis by (simp add: redis_acceptResultWithLegacy_def) (intro moves_intros send)
  next
    case (RedisCreateHandoff r)
    then show ?thesis
      by (simp add: unclaimed_def redis_createHandoff_def) (intro moves_intros send handoff_scripts_harmless handoff_keys)
  next
    case (RedisUpdateHandoff p n)
    then show ?thesis by (simp add: unclaimed_def) (intro moves_intros update)
  next
    case (RedisGetHandoff n i d now)
    then show ?thesis by (simp add: unclaimed_def) (intro moves_intros get)
  qed
qed

end
