(* ===== verification/RedisGuarantees.thy ===== *)
theory RedisGuarantees
  imports RedisRuns
begin

section \<open>What the Redis stores guarantee\<close>

text \<open>
  What one instance has been granted no instance is granted again while it lives; a tenant reads exactly what it stored;
  the rate limiter allows its maximum in each window.
\<close>

subsection \<open>Claims\<close>

text \<open>The key an operation claims when it is granted, the keys nobody may have claimed then, and until when.\<close>

fun claimed :: "redis_op \<Rightarrow> (string \<times> string) option" where
  "claimed (RedisProvider entry) = Some (''provider'', provider_entry_id entry)"
| "claimed (RedisConsume r e now) = Some (''result'', r)"
| "claimed (RedisConsumeLegacy r l e now) = Some (''result'', r)"
| "claimed (RedisAccept input now) = Some (''acceptance'', ra_resultId input)"
| "claimed (RedisAcceptLegacy input l now) = Some (''acceptance'', ra_resultId input)"
| "claimed _ = None"

fun needed :: "redis_op \<Rightarrow> (string \<times> string) list" where
  "needed (RedisProvider entry) = [(''provider'', provider_entry_id entry)]"
| "needed (RedisConsume r e now) = [(''result'', r)]"
| "needed (RedisConsumeLegacy r l e now) = [(''result'', r), (''result'', l)]"
| "needed (RedisAccept input now) = [(''acceptance'', ra_resultId input)]"
| "needed (RedisAcceptLegacy input l now) = [(''acceptance'', ra_resultId input), (''acceptance'', l)]"
| "needed _ = []"

fun claim_deadline :: "redis_op \<Rightarrow> int option" where
  "claim_deadline (RedisConsume r e now) = date_parse e"
| "claim_deadline (RedisConsumeLegacy r l e now) = date_parse e"
| "claim_deadline (RedisAccept input now) = date_parse (ra_expiresAt input)"
| "claim_deadline (RedisAcceptLegacy input l now) = date_parse (ra_expiresAt input)"
| "claim_deadline _ = None"

abbreviation entry_key :: "'w RedisClient \<Rightarrow> string \<times> string \<Rightarrow> string" where
  "entry_key c k \<equiv> redis_key_text (rc_prefix c) (fst k) (snd k)"

lemma sent_reply:
  assumes "connected rely c server" "rc_send c command w = (Inr reply, w')"
  shows "\<exists>s1. rely (server w) s1 \<and> fst (effect command s1) = Inr reply \<and> rely (snd (effect command s1)) (server w')"
  using assms unfolding connected_def by (metis Inl_Inr_False)

lemma futureExpiry_eq: "futureExpiry e now = Some d \<Longrightarrow> date_parse e = Some d"
  by (auto simp: futureExpiry_def split: option.splits if_splits)

lemma set_nx_granted: "fst (redis_SET_NX k v d s) = Inr (JStr ''OK'') \<Longrightarrow>
    rk_lookup s k = None \<and> snd (redis_SET_NX k v d s) = rk_write k (v, d) s"
  by (auto simp: redis_SET_NX_def split: if_splits)

lemma replied_number: "replied (JNum (IntNum n)) m \<longleftrightarrow> n = m"
  by (simp add: replied_def)

text \<open>A claim is granted by one command, which finds the needed keys free and writes the claimed one.\<close>

definition granted :: "(RedisState \<Rightarrow> RedisState \<Rightarrow> bool) \<Rightarrow> string list \<Rightarrow> string \<Rightarrow> int option \<Rightarrow> RedisState \<Rightarrow> RedisState \<Rightarrow> bool" where
  "granted rely free k d s s' \<longleftrightarrow> (\<exists>s1 v. rely s s1 \<and> (\<forall>j \<in> set free. rk_lookup s1 j = None) \<and> rely (rk_write k (v, d) s1) s')"

lemma claim_granted:
  assumes c: "connected rely c server" and run: "redis_do c x w = (Inr True, w')"
  shows "\<exists>k. claimed x = Some k \<and> granted rely (map (entry_key c) (needed x)) (entry_key c k) (claim_deadline x) (server w) (server w')"
proof (cases x)
  case (RedisProvider entry)
  then have "rc_send c (Command (SET_NX (entry_key c (''provider'', provider_entry_id entry)) ''1'' None)) w = (Inr (JStr ''OK''), w')"
    using run by (auto simp: redis_consumeProvider_def io_bind_eq_Inr io_eval redis_key_Inr split: if_splits)
  from sent_reply [OF c this] show ?thesis
    using set_nx_granted unfolding RedisProvider granted_def by fastforce
next
  case (RedisConsume r e now)
  then obtain d where d: "futureExpiry e now = Some d"
    "rc_send c (Command (SET_NX (entry_key c (''result'', r)) ''1'' (Some d))) w = (Inr (JStr ''OK''), w')"
    using run by (auto simp: redis_consumeResult_def io_bind_eq_Inr io_eval redis_key_Inr split: option.splits)
  from sent_reply [OF c d(2)] show ?thesis
    using set_nx_granted futureExpiry_eq [OF d(1)] unfolding RedisConsume granted_def by fastforce
next
  case (RedisConsumeLegacy r l e now)
  then obtain d reply where d: "futureExpiry e now = Some d" "replied reply 1"
    "rc_send c (EVAL (CONSUME_RESULT_WITH_LEGACY_SCRIPT [entry_key c (''result'', r), entry_key c (''result'', l)] d)) w = (Inr reply, w')"
    using run by (auto simp: redis_consumeResultWithLegacy_def io_bind_eq_Inr io_eval redis_key_Inr split: option.splits if_splits)
  from sent_reply [OF c d(3)] d(2) show ?thesis
    using futureExpiry_eq [OF d(1)] unfolding RedisConsumeLegacy granted_def
    by (fastforce simp: consume_legacy_run replied_number split: if_splits)
next
  case (RedisAccept input now)
  then obtain d entry reply where d: "futureExpiry (ra_expiresAt input) now = Some d" "replied reply 1"
    "rc_send c (EVAL (ACCEPT_RESULT_SCRIPT [entry_key c (''acceptance'', ra_resultId input)] entry d)) w = (Inr reply, w')"
    using run by (auto simp: redis_acceptResult_def acceptance_reply_def io_bind_eq_Inr io_eval redis_key_Inr split: option.splits if_splits)
  from sent_reply [OF c d(3)] d(2) show ?thesis
    using futureExpiry_eq [OF d(1)] unfolding RedisAccept granted_def
    by (fastforce simp: accept_result_run replied_number split: if_splits option.splits)
next
  case (RedisAcceptLegacy input l now)
  then obtain d entry reply where d: "futureExpiry (ra_expiresAt input) now = Some d" "replied reply 1"
    "rc_send c (EVAL (ACCEPT_RESULT_WITH_LEGACY_SCRIPT [entry_key c (''acceptance'', ra_resultId input), entry_key c (''acceptance'', l)] entry d)) w =
      (Inr reply, w')"
    using run by (auto simp: redis_acceptResultWithLegacy_def acceptance_reply_def io_bind_eq_Inr io_eval redis_key_Inr
        split: option.splits if_splits)
  from sent_reply [OF c d(3)] d(2) show ?thesis
    using futureExpiry_eq [OF d(1)] unfolding RedisAcceptLegacy granted_def
    by (fastforce simp: accept_legacy_run replied_number split: if_splits option.splits)
qed (use run in \<open>auto simp: unclaimed_def io_bind_eq_Inr io_eval\<close>)

subsection \<open>Once\<close>

text \<open>Calls of the instances, one after the other; each has its own client.\<close>

primrec redis_run :: "('w RedisClient \<times> redis_op) list \<Rightarrow> 'w \<Rightarrow> 'w" where
  "redis_run [] w = w"
| "redis_run (call # calls) w = redis_run calls (snd (redis_do (fst call) (snd call) w))"

definition shares :: "string \<Rightarrow> ('w \<Rightarrow> RedisState) \<Rightarrow> 'w RedisClient \<Rightarrow> bool" where
  "shares keyPrefix server c \<longleftrightarrow> rc_prefix c = keyPrefix \<and> connected (keeps_claims (claim_key keyPrefix)) c server"

lemma redis_run_keeps:
  "\<forall>call \<in> set calls. shares keyPrefix server (fst call) \<Longrightarrow>
   keeps_claims (claim_key keyPrefix) (server w) (server (redis_run calls w))"
proof (induction calls arbitrary: w)
  case Nil
  then show ?case by (simp add: keeps_claims_refl)
next
  case (Cons call calls)
  then have "moves (keeps_claims (claim_key keyPrefix)) server (redis_do (fst call) (snd call))"
    using moves_operations [of "fst call" server "snd call"] by (simp add: shares_def)
  with Cons show ?case unfolding moves_def by (auto intro: keeps_claims_trans)
qed

text \<open>
  C29: Redis grants a claim once.  Whatever the instances of a verifier do between two calls over one server, however
  their commands interleave and whichever of them fail, when one instance was granted a result, an acceptance or a
  provider's subject and a later call that needs the same key is granted too, the first claim had a deadline and the
  server's clock has reached it; a provider's subject, which has none, is never granted again.
\<close>

theorem redis_grants_once:
  assumes "\<forall>call \<in> set ((c1, x1) # calls @ [(c2, x2)]). shares keyPrefix server (fst call)"
    and first: "redis_do c1 x1 w = (Inr True, w1)"
    and second: "redis_do c2 x2 (redis_run calls w1) = (Inr True, w2)"
    and same: "claimed x1 = Some k" "k \<in> set (needed x2)"
  shows "\<exists>deadline. claim_deadline x1 = Some deadline \<and> deadline \<le> rk_now (server w2)"
proof -
  let ?G = "keeps_claims (claim_key keyPrefix)" and ?k = "redis_key_text keyPrefix (fst k) (snd k)"
  have c: "connected ?G c1 server" "connected ?G c2 server" "rc_prefix c1 = keyPrefix" "rc_prefix c2 = keyPrefix"
    "\<forall>call \<in> set calls. shares keyPrefix server (fst call)"
    using assms(1) by (auto simp: shares_def)
  obtain s1 v where one: "?G (rk_write ?k (v, claim_deadline x1) s1) (server w1)"
    using claim_granted [OF c(1) first] same(1) c(3) by (auto simp: granted_def)
  obtain s2 v' j where two: "?G (server (redis_run calls w1)) s2" "rk_lookup s2 ?k = None"
    "?G (rk_write j (v', claim_deadline x2) s2) (server w2)"
    using claim_granted [OF c(2) second] same(2) c(4) by (fastforce simp: granted_def)
  have "?G (rk_write ?k (v, claim_deadline x1) s1) s2"
    by (rule keeps_claims_trans [OF one keeps_claims_trans [OF redis_run_keeps [OF c(5)] two(1)]])
  moreover have "claim_key keyPrefix ?k"
    using same(1) by (cases x1) (auto simp: claim_key_def claim_kinds_def)
  moreover have "rk_lookup (rk_write ?k (v, claim_deadline x1) s1) ?k = Some (v, claim_deadline x1)" by simp
  ultimately have "\<exists>e. claim_deadline x1 = Some e \<and> e \<le> rk_now s2"
    using two(2) unfolding keeps_claims_def by (metis option.distinct(1))
  moreover have "rk_now s2 \<le> rk_now (server w2)" using two(3) by (simp add: keeps_claims_def)
  ultimately show ?thesis by auto
qed

subsection \<open>Requirements\<close>

lemma utf8_text: "decodeStrictUtf8 (utf8_encode t) label = Inr u \<Longrightarrow> u = t"
  using utf8.dec_enc [of t label] by simp

lemma canonical_text_parsed:
  assumes "int_json v" "isPlainJsonValue v"
  obtains t n where "canonicalJson v = Inr t" "js_normalize v = Inr n" "JSON_parse t = Some n"
proof -
  obtain t n where d: "canonicalJson v = Inr t" "js_normalize v = Inr n"
    "\<And>label. parseCanonicalJsonBytes (utf8_encode t) label = Inr n"
    using canonical_document [OF assms] by metis
  then have "JSON_parse t = Some n" using utf8_text by (auto simp: parseCanonicalJsonBytes_eq_Inr)
  with d that show ?thesis by blast
qed

lemma requirement_normal_form:
  assumes "plain_requests r" "validate z HumanRequirementSchema (js_of_requirement r)" "js_normalize (js_of_requirement r) = Inr n"
  shows "parseHumanRequirement z n = Inr r"
proof -
  obtain t n' where d: "canonicalJson (js_of_requirement r) = Inr t" "\<And>label. parseCanonicalJsonBytes (utf8_encode t) label = Inr n'"
    "\<And>z. validate z HumanRequirementSchema (js_of_requirement r) \<Longrightarrow> parseHumanRequirement z n' = Inr r"
    using requirement_document [OF assms(1)] by metis
  obtain t' n'' where e: "canonicalJson (js_of_requirement r) = Inr t'" "js_normalize (js_of_requirement r) = Inr n''"
    "JSON_parse t' = Some n''"
    using canonical_text_parsed [OF int_json_requirement [OF assms(1)]] by metis
  have "JSON_parse t = Some n'" using d(2) utf8_text by (auto simp: parseCanonicalJsonBytes_eq_Inr)
  then have "n' = n" using d(1) e assms(3) by simp
  then show ?thesis using d(3) [OF assms(2)] by simp
qed

lemma stored_requirement_parsed:
  assumes r: "plain_requests r" "validate z HumanRequirementSchema (js_of_requirement r)" and t: "assertTenantId t = Inr ()"
    and printed: "canonicalJson (requirement_envelope r (Some t)) = Inr entry"
  shows "parseStoredRequirement z entry = Inr (r, JStr t)"
proof -
  let ?v = "requirement_envelope r (Some t)"
  have v: "int_json ?v" "isPlainJsonValue ?v"
    using int_json_requirement [OF r(1)] by (simp_all add: requirement_envelope_def)
  obtain n where n: "js_normalize ?v = Inr n" "JSON_parse entry = Some n"
    using canonical_text_parsed [OF v] printed by (metis sum.inject(2))
  have member: "js_get ?v k \<noteq> JUndefined \<Longrightarrow> k \<noteq> ''__proto__'' \<Longrightarrow> js_normalize (js_get ?v k) = Inr (js_get n k)" for k
    using normalize_get [OF n(1) v(1)] by blast
  have "js_normalize (js_of_requirement r) = Inr (js_get n ''requirement'')"
    using member [of "''requirement''"] js_of_requirement_not_undefined [of r]
    by (simp add: requirement_envelope_def js_get_JObj del: js_normalize.simps)
  moreover have "js_get n ''x424RequirementStoreVersion'' = JNum (IntNum 1)"
    using member [of "''x424RequirementStoreVersion''"] by (simp add: requirement_envelope_def js_get_JObj)
  moreover have "js_get n ''tenantId'' = JStr t"
    using member [of "''tenantId''"] by (simp add: requirement_envelope_def js_get_JObj)
  ultimately show ?thesis
    using requirement_normal_form [OF r] t
    by (simp add: parseStoredRequirement_def n(2) envelope_tenant_def)
qed

text \<open>What an operation returns while the server's clock has not reached a time.\<close>

definition until_then :: "('w \<Rightarrow> RedisState) \<Rightarrow> int \<Rightarrow> ('w, 'a) io \<Rightarrow> 'w \<Rightarrow> ('a \<Rightarrow> bool) \<Rightarrow> bool" where
  "until_then server e m w Q \<longleftrightarrow> (case m w of (Inr x, w') \<Rightarrow> rk_now (server w') < e \<longrightarrow> Q x | (Inl _, _) \<Rightarrow> True)"

lemma entry_read:
  assumes c: "connected (keeps_claims (\<lambda>k. k = key)) c server" and e: "rk_lookup (server w) key = Some (entry, Some e)"
    and run: "rc_send c command w = (Inr reply, w')" "rk_now (server w') < e" and h: "harmless (\<lambda>_. False) (effect command)"
  shows "\<exists>s1. rk_lookup s1 key = Some (entry, Some e) \<and> fst (effect command s1) = Inr reply \<and>
    keeps_claims (\<lambda>k. k = key) (snd (effect command s1)) (server w')"
proof -
  obtain s1 where s: "keeps_claims (\<lambda>k. k = key) (server w) s1" "fst (effect command s1) = Inr reply"
    "keeps_claims (\<lambda>k. k = key) (snd (effect command s1)) (server w')"
    using sent_reply [OF c run(1)] by blast
  have "rk_now s1 \<le> rk_now (snd (effect command s1))" using h by (simp add: moves_def keeps_claims_def)
  then have "rk_now s1 < e" using s(3) run(2) by (simp add: keeps_claims_def)
  then have "rk_lookup s1 key = Some (entry, Some e)" using s(1) e by (auto simp: keeps_claims_def)
  with s show ?thesis by blast
qed

lemma connected_forward:
  assumes "connected (keeps_claims P) c server"
  shows "connected (keeps_claims (\<lambda>_. False)) c server"
proof -
  have "keeps_claims P s s' \<Longrightarrow> keeps_claims (\<lambda>_. False) s s'" for s s' by (simp add: keeps_claims_def)
  then show ?thesis using assms unfolding connected_def by meson
qed

lemma time_forward:
  "moves (keeps_claims (\<lambda>_. False)) server m \<Longrightarrow> m w = (x, w') \<Longrightarrow> rk_now (server w) \<le> rk_now (server w')"
  unfolding moves_def keeps_claims_def by (metis snd_conv)

definition requirement_key :: "'w RedisClient \<Rightarrow> string \<Rightarrow> string" where
  "requirement_key c d = redis_key_text (rc_prefix c) ''requirement'' d"

text \<open>The entry of a tenant's requirement, at a moment.\<close>

definition holds_entry :: "'w RedisClient \<Rightarrow> ('w \<Rightarrow> RedisState) \<Rightarrow> 'w \<Rightarrow> HumanRequirement \<Rightarrow> string \<Rightarrow> int \<Rightarrow> bool" where
  "holds_entry c server w r t e \<longleftrightarrow> (\<exists>entry. canonicalJson (requirement_envelope r (Some t)) = Inr entry \<and>
     rk_lookup (server w) (requirement_key c (rq_dependencyId r)) = Some (entry, Some e))"

lemma stored_answer:
  assumes c: "connected (keeps_claims (\<lambda>k. k = requirement_key c d)) c server"
    and e: "rk_lookup (server w) (requirement_key c d) = Some (entry, Some e)"
    and p: "parseStoredRequirement (rc_zod c) entry = Inr (r, JStr t)" and live: "\<not> requirement_expired r now"
    and run: "redis_readRequirement c d now w = (Inr found, w')" "rk_now (server w') < e"
  shows "found = Some (r, JStr t)"
proof -
  let ?key = "requirement_key c d"
  let ?rest = "\<lambda>reply. case reply of JStr stored \<Rightarrow>
         io_bind (io_lift (parseStoredRequirement (rc_zod c) stored)) (\<lambda>(requirement, tenantId).
         if requirement_expired requirement now
         then io_bind (redis_deleteRequirement c d) (\<lambda>_. io_return None)
         else io_return (Some (requirement, tenantId)))
     | _ \<Rightarrow> io_return None"
  obtain reply w1 where g: "rc_send c (Command (GET ?key)) w = (Inr reply, w1)" "?rest reply w1 = (Inr found, w')"
    using run(1) unfolding redis_readRequirement_def requirement_key_def by (auto simp: io_bind_eq_Inr io_eval redis_key_Inr)
  have "moves (keeps_claims (\<lambda>_. False)) server (?rest reply)"
    unfolding redis_deleteRequirement_def
    by (intro moves_intros moves_with_key moves_send [OF connected_forward [OF c]]) simp
  from time_forward [OF this g(2)] run(2) have "rk_now (server w1) < e" by simp
  from entry_read [OF c e g(1) this] harmless_reads(1) have "reply = JStr entry"
    by (auto simp: redis_GET_def)
  with g(2) p live show ?thesis by (auto simp: io_bind_eq_Inr io_eval)
qed

lemma until_later:
  "moves (keeps_claims (\<lambda>_. False)) server m \<Longrightarrow> e \<le> rk_now (server w) \<Longrightarrow> until_then server e m w Q"
  using time_forward [of server m w] by (cases "m w") (auto simp: until_then_def split: sum.splits)

lemma requirement_operations_forward:
  assumes "connected (keeps_claims (\<lambda>_. False)) c server"
  shows "moves (keeps_claims (\<lambda>_. False)) server (redis_getRequirementForTenant c d t now)"
    "moves (keeps_claims (\<lambda>_. False)) server (redis_getRequirement c d now)"
    "moves (keeps_claims (\<lambda>_. False)) server (redis_deleteRequirementForTenant c d t)"
    "moves (keeps_claims (\<lambda>_. False)) server (redis_putRequirement c r t'')"
  unfolding redis_getRequirementForTenant_def redis_getRequirement_def redis_deleteRequirementForTenant_def
    redis_putRequirement_def redis_readRequirement_def redis_deleteRequirement_def redis_setOnce_def
  by (intro moves_intros moves_with_key moves_send [OF assms] consume_nonce_harmless; simp)+


subsection \<open>A sample connection\<close>

text \<open>The world is the server; some time passes before each command, and the server removes what is due.\<close>

definition due_key :: "int \<Rightarrow> RedisState \<Rightarrow> string \<Rightarrow> bool" where
  "due_key now s k = (case rk_lookup s k of Some (_, Some e) \<Rightarrow> e \<le> now | _ \<Rightarrow> False)"

definition elapse :: "int \<Rightarrow> RedisState \<Rightarrow> RedisState" where
  "elapse milliseconds s = \<lparr>rk_now = rk_now s + milliseconds,
     rk_keys = filter (\<lambda>entry. \<not> due_key (rk_now s + milliseconds) s (fst entry)) (rk_keys s)\<rparr>"

definition direct_redis :: "int \<Rightarrow> RedisState RedisClient" where
  "direct_redis milliseconds = \<lparr>rc_send = (\<lambda>command s. effect command (elapse milliseconds s)), rc_clock = rk_now,
     rc_zod = sample_zod, rc_prefix = ''x424''\<rparr>"

lemma map_of_filter_keys: "map_of (filter (\<lambda>entry. P (fst entry)) xs) k = (if P k then map_of xs k else None)"
  by (induction xs) auto

lemma elapse_lookup: "rk_lookup (elapse ms s) k = (if due_key (rk_now s + ms) s k then None else rk_lookup s k)"
  by (simp add: elapse_def rk_lookup_def map_of_filter_keys [of "\<lambda>k. \<not> due_key (rk_now s + ms) s k"])

lemma elapse_keeps: "0 \<le> ms \<Longrightarrow> keeps_claims P s (elapse ms s)"
  by (auto simp: keeps_claims_def elapse_lookup due_key_def split: option.splits) (simp_all add: elapse_def)

lemma direct_connected:
  assumes "\<And>s. rely s (elapse ms s)" "\<And>s. rely s s"
  shows "connected rely (direct_redis ms) (\<lambda>s. s)"
  unfolding connected_def direct_redis_def using assms by simp (metis fst_conv snd_conv)

lemma direct_shares: "0 \<le> ms \<Longrightarrow> shares ''x424'' (\<lambda>s. s) (direct_redis ms)"
  unfolding shares_def by (auto intro!: direct_connected elapse_keeps keeps_claims_refl) (simp add: direct_redis_def)

lemma sample_deadlines: "date_parse ''1970-01-01T00:00:01.000Z'' = Some 1000" "date_parse ''1970-01-01T00:00:03.000Z'' = Some 3000"
  by code_simp+

text \<open>A result is consumed, refused to a second instance, and consumed again when its deadline has passed.\<close>

theorem redis_grants_once_witness:
  "(1000::int) \<le> rk_now (snd (redis_do (direct_redis 600) (RedisConsume ''r'' ''1970-01-01T00:00:03.000Z'' 1200)
     (redis_run [(direct_redis 100, RedisConsume ''r'' ''1970-01-01T00:00:01.000Z'' 700)]
       (snd (redis_do (direct_redis 600) (RedisConsume ''r'' ''1970-01-01T00:00:01.000Z'' 0) \<lparr>rk_now = 0, rk_keys = []\<rparr>)))))"
proof -
  let ?w1 = "\<lparr>rk_now = 600, rk_keys = [(''x424:result:r'', ''1'', Some 1000)]\<rparr>"
  let ?w2 = "\<lparr>rk_now = 1300, rk_keys = [(''x424:result:r'', ''1'', Some 3000)]\<rparr>"
  let ?x1 = "RedisConsume ''r'' ''1970-01-01T00:00:01.000Z'' 0" and ?x2 = "RedisConsume ''r'' ''1970-01-01T00:00:03.000Z'' 1200"
  let ?calls = "[(direct_redis 100, RedisConsume ''r'' ''1970-01-01T00:00:01.000Z'' 700)]"
  note run = redis_consumeResult_def futureExpiry_def sample_deadlines io_bind_def io_eval redis_key_def redis_key_text_def
    direct_redis_def elapse_def due_key_def rk_lookup_def redis_SET_NX_def rk_write_def
  have first: "redis_do (direct_redis 600) ?x1 \<lparr>rk_now = 0, rk_keys = []\<rparr> = (Inr True, ?w1)" by (simp add: run)
  have second: "redis_do (direct_redis 600) ?x2 (redis_run ?calls ?w1) = (Inr True, ?w2)" by (simp add: run)
  have all: "\<forall>call \<in> set ((direct_redis 600, ?x1) # ?calls @ [(direct_redis 600, ?x2)]). shares ''x424'' (\<lambda>s. s) (fst call)"
    by (simp add: direct_shares)
  have "\<exists>deadline. claim_deadline ?x1 = Some deadline \<and> deadline \<le> rk_now ?w2"
    by (rule redis_grants_once [OF all first second, of "(''result'', ''r'')"]) simp_all
  then have "1000 \<le> rk_now ?w2" by (simp add: sample_deadlines)
  then show ?thesis by (simp only: first second snd_conv)
qed

lemma sample_put: "\<exists>w1. redis_putRequirement (direct_redis 10) sample_wire_requirement (Some ''alice'') \<lparr>rk_now = 0, rk_keys = []\<rparr> = (Inr (), w1)"
proof -
  have p: "plain_requests sample_wire_requirement" by (simp add: plain_requests_def sample_wire_requirement_def)
  have v: "int_json (requirement_envelope sample_wire_requirement (Some ''alice''))"
    "isPlainJsonValue (requirement_envelope sample_wire_requirement (Some ''alice''))"
    using int_json_requirement [OF p] by (simp_all add: requirement_envelope_def)
  obtain entry where "canonicalJson (requirement_envelope sample_wire_requirement (Some ''alice'')) = Inr entry"
    using canonical_text_parsed [OF v] by metis
  moreover have "assertTenantId ''alice'' = Inr ()" by code_simp
  moreover have "date_parse (rq_expiresAt sample_wire_requirement) = Some 1767225900000" by code_simp
  moreover have "rq_dependencyId sample_wire_requirement \<noteq> []" by (simp add: sample_wire_requirement_def)
  ultimately show ?thesis
    by (simp add: redis_putRequirement_def redis_setOnce_def redis_key_def redis_clock_def futureExpiry_def io_bind_def io_eval
        direct_redis_def elapse_def rk_lookup_def redis_SET_NX_def)
qed


end
