(* ===== verification/RedisLimits.thy ===== *)
theory RedisLimits
  imports RedisGuarantees
begin

section \<open>The shared rate limiter\<close>

text \<open>
  The fixed window of the limiter: the first call of a key opens it, and while the server's clock is inside it the calls
  of all instances are counted together.
\<close>

text \<open>Between two calls the key neither appears nor changes before its deadline.\<close>

definition quiet_key :: "string \<Rightarrow> RedisState \<Rightarrow> RedisState \<Rightarrow> bool" where
  "quiet_key k s s' \<longleftrightarrow> keeps_claims (\<lambda>j. j = k) s s' \<and> (rk_lookup s k = None \<longrightarrow> rk_lookup s' k = None)"

lemma counter_value_text [simp]: "counter_value (string_of_int n) = Some n"
  by (simp add: counter_value_def parse_number_int)

lemma one_text: "string_of_int 1 = ''1''"
  by code_simp

text \<open>The entry after a number of counted calls, and the bounds of its deadline.\<close>

definition counts :: "RedisState \<Rightarrow> string \<Rightarrow> int \<Rightarrow> int \<Rightarrow> int \<Rightarrow> bool" where
  "counts s k n deadline latest \<longleftrightarrow> (if n = 0 then rk_lookup s k = None
     else \<exists>d. rk_lookup s k = Some (string_of_int n, Some d) \<and> deadline \<le> d \<and> d \<le> latest)"

lemma rate_limit_run:
  assumes "counts s k n deadline latest" "0 \<le> n" "n < 2 ^ 63 - 1" "deadline \<le> rk_now s + window" "n = 0 \<Longrightarrow> rk_now s + window \<le> latest"
  shows "\<exists>ttl s'. run_script (RATE_LIMIT_SCRIPT [k] [window]) s = (Inr (JArr [JNum (IntNum (n + 1)), JNum (IntNum ttl)]), s') \<and>
    counts s' k (n + 1) deadline latest \<and> rk_now s' = rk_now s"
proof (cases "n = 0")
  case True
  then have "rk_lookup s k = None" using assms(1) by (simp add: counts_def)
  then show ?thesis using True assms(4,5) one_text
    by (simp add: RATE_LIMIT_SCRIPT_def redis_INCR_def redis_PEXPIRE_def redis_PTTL_def io_bind_def io_eval counts_def Let_def)
next
  case False
  then obtain d where d: "rk_lookup s k = Some (string_of_int n, Some d)" "deadline \<le> d" "d \<le> latest"
    using assms(1) by (auto simp: counts_def)
  then show ?thesis using False assms(2,3)
    by (simp add: RATE_LIMIT_SCRIPT_def redis_INCR_def redis_PTTL_def io_bind_def io_eval counts_def Let_def)
qed

lemma rate_limit_harmless: "harmless (\<lambda>_. False) (run_script (RATE_LIMIT_SCRIPT [k] [window]))"
proof -
  have "harmless (\<lambda>_. False) (redis_INCR j)" "harmless (\<lambda>_. False) (redis_PEXPIRE j m)" for j m
    by (auto simp: moves_def keeps_claims_def redis_INCR_def redis_PEXPIRE_def split: option.splits)
  then show ?thesis unfolding RATE_LIMIT_SCRIPT_def by (auto simp: Let_def intro!: moves_intros)
qed

lemma rate_limit_forward: "rk_now s \<le> rk_now (snd (run_script (RATE_LIMIT_SCRIPT [k] [window]) s))"
  using rate_limit_harmless by (simp add: moves_def keeps_claims_def)

lemma counts_quiet:
  assumes "counts s k n deadline latest" "quiet_key k s s'" "rk_now s' < deadline"
  shows "counts s' k n deadline latest"
proof (cases "n = 0")
  case True
  then show ?thesis using assms by (simp add: counts_def quiet_key_def)
next
  case False
  then obtain d where d: "rk_lookup s k = Some (string_of_int n, Some d)" "deadline \<le> d" "d \<le> latest"
    using assms(1) by (auto simp: counts_def)
  then have "rk_lookup s' k = Some (string_of_int n, Some d) \<or> d \<le> rk_now s'"
    using assms(2) unfolding quiet_key_def keeps_claims_def by fastforce
  then show ?thesis using d(2,3) assms(3) False by (auto simp: counts_def)
qed

definition limiter_call :: "string \<Rightarrow> 'w \<Rightarrow> 'w RedisRateLimiter \<times> int \<Rightarrow> RateLimitResult res \<times> 'w" where
  "limiter_call key w call = redis_limit (fst call) key (snd call) w"

text \<open>An instance of the limiter with these limits.\<close>

definition limits_alike :: "('w \<Rightarrow> RedisState) \<Rightarrow> string \<Rightarrow> string \<Rightarrow> int \<Rightarrow> int \<Rightarrow> 'w RedisRateLimiter \<Rightarrow> bool" where
  "limits_alike server keyPrefix key window maximum limiter \<longleftrightarrow> rc_prefix (ll_client limiter) = keyPrefix \<and>
     ll_windowMs limiter = window \<and> ll_maxRequests limiter = maximum \<and>
     connected (quiet_key (keyPrefix @ '':'' @ key)) (ll_client limiter) server"

lemma limiter_call_counts:
  assumes l: "limits_alike server p key window maximum (fst call)"
    and n: "counts (server w) (p @ '':'' @ key) n deadline latest" "0 \<le> n" "n < 2 ^ 63 - 1"
    and t: "deadline \<le> rk_now (server w) + window" "rk_now (server w') < deadline" "n = 0 \<Longrightarrow> rk_now (server w') + window \<le> latest"
    and run: "limiter_call key w call = (Inr answer, w')"
  shows "counts (server w') (p @ '':'' @ key) (n + 1) deadline latest \<and> rk_now (server w) \<le> rk_now (server w') \<and>
    rl_allowed answer = (n < maximum) \<and> rl_remaining answer = max 0 (maximum - n - 1)"
proof -
  let ?k = "p @ '':'' @ key"
  have c: "connected (quiet_key ?k) (ll_client (fst call)) server" using l by (simp add: limits_alike_def)
  obtain reply where r: "rc_send (ll_client (fst call)) (EVAL (RATE_LIMIT_SCRIPT [?k] [window])) w = (Inr reply, w')"
    "limit_answer maximum (snd call) reply = Inr answer"
    using run l unfolding limiter_call_def redis_limit_def limits_alike_def
    by (auto simp: io_bind_eq_Inr io_eval split: if_splits)
  from sent_reply [OF c r(1), unfolded effect.simps] obtain s1 where s1: "quiet_key ?k (server w) s1"
    "fst (run_script (RATE_LIMIT_SCRIPT [?k] [window]) s1) = Inr reply" "quiet_key ?k (snd (run_script (RATE_LIMIT_SCRIPT [?k] [window]) s1)) (server w')"
    by blast
  have forward: "rk_now (server w) \<le> rk_now s1" "rk_now s1 \<le> rk_now (server w')"
    using s1(1,3) rate_limit_forward [of s1 ?k window] by (auto simp: quiet_key_def keeps_claims_def)
  then have n1: "counts s1 ?k n deadline latest" using counts_quiet [OF n(1) s1(1)] t(2) by simp
  have "deadline \<le> rk_now s1 + window" "n = 0 \<Longrightarrow> rk_now s1 + window \<le> latest" using forward t(1,3) by auto
  from rate_limit_run [OF n1 n(2,3) this] obtain ttl s2 where
    s2: "run_script (RATE_LIMIT_SCRIPT [?k] [window]) s1 = (Inr (JArr [JNum (IntNum (n + 1)), JNum (IntNum ttl)]), s2)"
      "counts s2 ?k (n + 1) deadline latest"
    by blast
  have "counts (server w') ?k (n + 1) deadline latest" using counts_quiet [OF s2(2)] s1(3) t(2) s2(1) by simp
  then show ?thesis
    using forward s1(2) s2(1) r(2) by (auto simp: limit_answer_def reply_number_def)
qed

lemma limits_forward:
  assumes "\<forall>call \<in> set calls. limits_alike server p key window maximum (fst call)"
  shows "rk_now (server w) \<le> rk_now (server (snd (run_uses (limiter_call key) w calls)))"
  using assms
proof (induction calls arbitrary: w)
  case (Cons call calls)
  let ?k = "p @ '':'' @ key"
  have c: "connected (quiet_key ?k) (ll_client (fst call)) server" using Cons.prems by (simp add: limits_alike_def)
  then have "connected (keeps_claims (\<lambda>_. False)) (ll_client (fst call)) server"
    unfolding connected_def quiet_key_def keeps_claims_def by meson
  then have "moves (keeps_claims (\<lambda>_. False)) server (redis_limit (fst call) key (snd call))"
    unfolding redis_limit_def
    by (intro moves_intros moves_send sent_harmless rate_limit_harmless)
  then have "rk_now (server w) \<le> rk_now (server (snd (limiter_call key w call)))"
    by (simp add: moves_def keeps_claims_def limiter_call_def)
  with Cons show ?case by (auto simp: case_prod_unfold intro: order_trans)
qed simp

lemma limiter_calls_count:
  assumes "counts (server v) (p @ '':'' @ key) (int m) deadline latest" "0 < m" "deadline \<le> rk_now (server v) + window"
    "m + length cs < 2 ^ 63" "\<forall>call \<in> set cs. limits_alike server p key window maximum (fst call)"
    "run_uses (limiter_call key) v cs = (map Inr rs, w')" "rk_now (server w') < deadline"
  shows "counts (server w') (p @ '':'' @ key) (int (m + length cs)) deadline latest \<and>
    map rl_allowed rs = map (\<lambda>i. int i < maximum) [m..<m + length cs] \<and>
    map rl_remaining rs = map (\<lambda>i. max 0 (maximum - int i - 1)) [m..<m + length cs]"
  using assms
proof (induction cs arbitrary: v m rs)
  case Nil
  then show ?case by simp
next
  case (Cons call cs)
  obtain x v1 where x: "limiter_call key v call = (x, v1)" by fastforce
  with Cons.prems(6) obtain r rs' where r: "x = Inr r" "rs = r # rs'" "run_uses (limiter_call key) v1 cs = (map Inr rs', w')"
    by (cases rs) (auto split: prod.splits)
  have "rk_now (server v1) \<le> rk_now (server w')"
    using limits_forward [of cs server p key window maximum v1] Cons.prems(5) r(3) by simp
  with Cons.prems(7) have "rk_now (server v1) < deadline" by simp
  moreover have "int m < 2 ^ 63 - 1" using Cons.prems(4) by simp
  ultimately have one: "counts (server v1) (p @ '':'' @ key) (int m + 1) deadline latest" "rk_now (server v) \<le> rk_now (server v1)"
    "rl_allowed r = (int m < maximum)" "rl_remaining r = max 0 (maximum - int m - 1)"
    using limiter_call_counts [of server p key window maximum call v "int m" deadline latest v1 r] Cons.prems x r(1) by auto
  have "counts (server w') (p @ '':'' @ key) (int (Suc m + length cs)) deadline latest \<and>
      map rl_allowed rs' = map (\<lambda>i. int i < maximum) [Suc m..<Suc m + length cs] \<and>
      map rl_remaining rs' = map (\<lambda>i. max 0 (maximum - int i - 1)) [Suc m..<Suc m + length cs]"
    using Cons.IH [of v1 "Suc m" rs'] Cons.prems one r(3) by (simp add: add.commute)
  moreover have "[m..<m + length (call # cs)] = m # [Suc m..<Suc m + length cs]" by (simp add: upt_conv_Cons del: upt_Suc)
  ultimately show ?case using r(2) one by simp
qed

text \<open>
  C32: All instances together allow the maximum in each window.  While the server's clock stays inside the window that the
  first call of a key opens, the calls of all instances are counted as one sequence: exactly the first ones up to the
  maximum are allowed, each is told how many are left, and no later call moves the end of the window.
\<close>

theorem redis_limit_window:
  assumes "\<forall>call \<in> set (c # calls). limits_alike server p key window maximum (fst call)" "length (c # calls) < 2 ^ 63"
    and start: "rk_lookup (server w) (p @ '':'' @ key) = None"
    and run: "run_uses (limiter_call key) w (c # calls) = (map Inr outs, w')" "rk_now (server w') < rk_now (server w) + window"
  shows "map rl_allowed outs = map (\<lambda>i. int i < maximum) [0..<length (c # calls)] \<and>
    map rl_remaining outs = map (\<lambda>i. max 0 (maximum - int i - 1)) [0..<length (c # calls)] \<and>
    (\<exists>counted ends. rk_lookup (server w') (p @ '':'' @ key) = Some (counted, Some ends) \<and> rk_now (server w) + window \<le> ends \<and>
      ends \<le> rk_now (server (snd (limiter_call key w c))) + window)"
proof -
  let ?deadline = "rk_now (server w) + window"
  obtain x w1 where x: "limiter_call key w c = (x, w1)" by fastforce
  with run(1) obtain r rs where r: "x = Inr r" "outs = r # rs" "run_uses (limiter_call key) w1 calls = (map Inr rs, w')"
    by (cases outs) (auto split: prod.splits)
  have "rk_now (server w1) \<le> rk_now (server w')"
    using limits_forward [of calls server p key window maximum w1] assms(1) r(3) by simp
  with run(2) have t: "rk_now (server w1) < ?deadline" by simp
  have one: "counts (server w1) (p @ '':'' @ key) (int 1) ?deadline (rk_now (server w1) + window)" "rk_now (server w) \<le> rk_now (server w1)"
    "rl_allowed r = (0 < maximum)" "rl_remaining r = max 0 (maximum - 1)"
    using limiter_call_counts [of server p key window maximum c w 0 ?deadline "rk_now (server w1) + window" w1 r] assms(1) start t x r(1)
    by (auto simp: counts_def)
  have rest: "counts (server w') (p @ '':'' @ key) (int (1 + length calls)) ?deadline (rk_now (server w1) + window) \<and>
      map rl_allowed rs = map (\<lambda>i. int i < maximum) [1..<1 + length calls] \<and>
      map rl_remaining rs = map (\<lambda>i. max 0 (maximum - int i - 1)) [1..<1 + length calls]"
    by (rule limiter_calls_count [OF one(1) _ _ _ _ r(3) run(2)]) (use one(2) assms(1,2) in auto)
  have "[0..<length (c # calls)] = 0 # [1..<1 + length calls]" by (simp add: upt_conv_Cons del: upt_Suc)
  then show ?thesis using rest one(3,4) r(2) x by (auto simp: counts_def)
qed

text \<open>A limit of one: the first call opens the window, the second is inside it.\<close>

definition sample_limiter :: "RedisState RedisRateLimiter" where
  "sample_limiter = \<lparr>ll_client = direct_redis 10, ll_windowMs = 1000, ll_maxRequests = 1\<rparr>"

lemma quiet_key_refl: "quiet_key k s s"
  by (simp add: quiet_key_def keeps_claims_refl)

lemma elapse_quiet: "0 \<le> ms \<Longrightarrow> quiet_key k s (elapse ms s)"
  by (simp add: quiet_key_def elapse_keeps elapse_lookup)

lemma sample_limits: "limits_alike (\<lambda>s. s) ''x424'' ''ip'' 1000 1 sample_limiter"
proof -
  have "connected (quiet_key k) (direct_redis 10) (\<lambda>s. s)" for k
    by (intro direct_connected elapse_quiet quiet_key_refl) simp
  moreover have "rc_prefix (direct_redis 10) = ''x424''" by (simp add: direct_redis_def)
  ultimately show ?thesis by (simp add: limits_alike_def sample_limiter_def)
qed

theorem redis_limit_window_witness:
  "case run_uses (limiter_call ''ip'') \<lparr>rk_now = 0, rk_keys = []\<rparr> [(sample_limiter, 0), (sample_limiter, 1)] of
     ([Inr first, Inr second], _) \<Rightarrow> rl_allowed first \<and> \<not> rl_allowed second
   | _ \<Rightarrow> False"
proof -
  let ?calls = "[(sample_limiter, 0::int), (sample_limiter, 1)]"
  define ran where "ran = run_uses (limiter_call ''ip'') \<lparr>rk_now = 0, rk_keys = []\<rparr> ?calls"
  have "case ran of ([Inr _, Inr _], w) \<Rightarrow> rk_now w < 1000 | _ \<Rightarrow> False" unfolding ran_def by code_simp
  then obtain a b w' where r: "ran = ([Inr a, Inr b], w')" "rk_now w' < 1000"
    by (auto split: prod.splits list.splits sum.splits)
  have run: "run_uses (limiter_call ''ip'') \<lparr>rk_now = 0, rk_keys = []\<rparr> ?calls = (map Inr [a, b], w')"
    using r(1) by (simp add: ran_def)
  have all: "\<forall>call \<in> set ?calls. limits_alike (\<lambda>s. s) ''x424'' ''ip'' 1000 1 (fst call)" using sample_limits by simp
  have few: "length ?calls < 2 ^ 63" by simp
  have fresh: "rk_lookup \<lparr>rk_now = 0, rk_keys = []\<rparr> (''x424'' @ '':'' @ ''ip'') = None" by (simp add: rk_lookup_def)
  have soon: "rk_now w' < rk_now \<lparr>rk_now = 0, rk_keys = []\<rparr> + 1000" using r(2) by simp
  have "map rl_allowed [a, b] = map (\<lambda>i. int i < 1) [0..<length ?calls]"
    by (rule conjunct1 [OF redis_limit_window [OF all few fresh run soon]])
  then have "rl_allowed a \<and> \<not> rl_allowed b" by simp
  then show ?thesis by (simp only: run) simp
qed

end
