(* ===== verification/RedisRefinement.thy ===== *)
theory RedisRefinement
  imports RedisGuarantees HandoffGuarantees
begin

section \<open>The Redis handoff store refines the in-memory one\<close>

text \<open>
  As long as the server keeps the keys, the Redis store answers as the in-memory store does: the keyspace represents the
  map of records and the map of active dependencies, and each script does to it what the method does to the maps.
\<close>

subsection \<open>Records as texts\<close>

text \<open>A record the strict parser reads back: whole milliseconds between polls, times that parse, a positive version.\<close>

definition readable_record :: "StoredHumanHandoff \<Rightarrow> bool" where
  "readable_record r \<longleftrightarrow> (\<exists>n. hr_pollAfterMs r = IntNum n \<and> 500 \<le> n \<and> n \<le> 10000) \<and> 1 \<le> hr_version r \<and>
     date_parse (hr_expiresAt r) \<noteq> None \<and> (case hr_pollClaimExpiresAt r of None \<Rightarrow> True | Some t \<Rightarrow> date_parse t \<noteq> None)"

lemma handoff_status_inverse [simp]: "handoff_status_of (status_text s) = s"
  by (cases s) (simp_all add: handoff_status_of_def)

lemma opt_str_member: "opt_str k v = opt_member k JStr v"
  by (simp add: opt_str_def opt_member_def)

lemma handoff_members:
  "js_get (js_of_handoff r) ''handoffId'' = JStr (hr_handoffId r)"
  "js_get (js_of_handoff r) ''dependencyId'' = JStr (hr_dependencyId r)"
  "js_get (js_of_handoff r) ''providerId'' = JStr (hr_providerId r)"
  "js_get (js_of_handoff r) ''methodId'' = JStr (hr_methodId r)"
  "js_get (js_of_handoff r) ''accessTokenDigest'' = JStr (hr_accessTokenDigest r)"
  "js_get (js_of_handoff r) ''status'' = JStr (status_text (hr_status r))"
  "js_get (js_of_handoff r) ''pollClaimExpiresAt'' = (case hr_pollClaimExpiresAt r of None \<Rightarrow> JUndefined | Some t \<Rightarrow> JStr t)"
  "js_get (js_of_handoff r) ''presentation'' = JObj ([(''kind'', JStr ''uri''), (''uri'', JStr (hp_uri (hr_presentation r)))] @
        opt_str ''userCode'' (hp_userCode (hr_presentation r)))"
  "js_get (js_of_handoff r) ''protectedState'' = JStr (hr_protectedState r)"
  "js_get (js_of_handoff r) ''protectedCompletion'' = (case hr_protectedCompletion r of None \<Rightarrow> JUndefined | Some t \<Rightarrow> JStr t)"
  "js_get (js_of_handoff r) ''failureCode'' = (case hr_failureCode r of None \<Rightarrow> JUndefined | Some t \<Rightarrow> JStr t)"
  "js_get (js_of_handoff r) ''pollAfterMs'' = JNum (hr_pollAfterMs r)"
  "js_get (js_of_handoff r) ''expiresAt'' = JStr (hr_expiresAt r)"
  "js_get (js_of_handoff r) ''version'' = JNum (IntNum (hr_version r))"
  by (simp_all add: js_of_handoff_def js_get_JObj opt_str_member map_of_opt_member del: map_of_append split: option.splits)

lemma handoff_roundtrip:
  assumes "readable_record r"
  shows "handoff_of_js (js_of_handoff r) = r"
proof -
  have "js_get (js_get (js_of_handoff r) ''presentation'') ''userCode'' =
      (case hp_userCode (hr_presentation r) of None \<Rightarrow> JUndefined | Some t \<Rightarrow> JStr t)"
    "js_get (js_get (js_of_handoff r) ''presentation'') ''uri'' = JStr (hp_uri (hr_presentation r))"
    by (simp_all add: handoff_members js_get_JObj opt_str_member map_of_opt_member_last split: option.splits)
  moreover have "get_opt str_of v k = f" if "js_get v k = (case f of None \<Rightarrow> JUndefined | Some t \<Rightarrow> JStr t)" for v k f
    using that by (cases f) (simp_all add: get_opt_def)
  moreover obtain n where "hr_pollAfterMs r = IntNum n" using assms by (auto simp: readable_record_def)
  ultimately show ?thesis
    by (simp add: handoff_of_js_def get_str_def handoff_members(1-7,9-))
qed

lemma int_json_handoff:
  assumes "readable_record r"
  shows "int_json (js_of_handoff r)" "isPlainJsonValue (js_of_handoff r)"
  using assms
  by (cases "hr_pollClaimExpiresAt r"; cases "hr_protectedCompletion r"; cases "hr_failureCode r"; cases "hp_userCode (hr_presentation r)";
      auto simp: js_of_handoff_def opt_str_def readable_record_def)+

lemma handoff_text_read:
  assumes r: "readable_record r"
  shows "\<exists>printed parsed. handoff_text r = Inr printed \<and> parseStoredHumanHandoff (JStr printed) = Inr parsed \<and> handoff_of_js parsed = r"
proof -
  let ?v = "js_of_handoff r"
  obtain t n where n: "canonicalJson ?v = Inr t" "js_normalize ?v = Inr n" "JSON_parse t = Some n"
    using canonical_text_parsed [OF int_json_handoff [OF r]] by metis
  note get = normalize_get [OF n(2) int_json_handoff(1) [OF r]]
  have strs: "js_get n k = JStr s" if "js_get ?v k = JStr s" "k \<noteq> ''__proto__''" for k s
    using get [OF that(2)] that(1) by auto
  have none: "js_get n k = JUndefined" if "js_get ?v k = JUndefined" "k \<noteq> ''__proto__''" for k
    using get [OF that(2)] that(1) by auto
  have number: "js_get n k = JNum (IntNum i)" if "js_get ?v k = JNum (IntNum i)" "k \<noteq> ''__proto__''" for k i
    using get [OF that(2)] that(1) by auto
  have same: "js_get n k = js_get ?v k" if "k \<in> set [''handoffId'', ''dependencyId'', ''providerId'', ''methodId'', ''accessTokenDigest'',
      ''status'', ''pollClaimExpiresAt'', ''protectedState'', ''protectedCompletion'', ''failureCode'', ''pollAfterMs'', ''expiresAt'', ''version'']" for k
    using that r
    by (auto simp: handoff_members readable_record_def intro!: strs none number split: option.splits)
  have p: "js_normalize (js_get ?v ''presentation'') = Inr (js_get n ''presentation'')" "int_json (js_get ?v ''presentation'')"
    using get [of "''presentation''"] by (auto simp: handoff_members)
  have shown: "js_get (js_get n ''presentation'') k = js_get (js_get ?v ''presentation'') k" if "k \<in> set [''kind'', ''uri'', ''userCode'']" for k
    using normalize_get [OF p, of k] that
    by (auto simp: handoff_members js_get_JObj opt_str_member map_of_opt_member_last split: option.splits)
  have "handoff_of_js n = handoff_of_js ?v"
    by (simp add: handoff_of_js_def get_str_def get_opt_def same shown)
  moreover have "\<not> invalid_handoff n"
  proof -
    obtain kvs where "n = JObj kvs" using n(2) by (auto simp: js_of_handoff_def split: sum.splits)
    then have "\<not> falsy n" by (simp add: falsy_def)
    moreover have "status_text (hr_status r) \<in> set handoff_statuses" by (cases "hr_status r") (simp_all add: handoff_statuses_def)
    ultimately show ?thesis
      using r unfolding invalid_handoff_def readable_record_def
      by (auto simp: same shown handoff_members js_get_JObj is_integer_between_def split: option.splits)
  qed
  ultimately show ?thesis
    using n(1,3) handoff_roundtrip [OF r] by (auto simp: handoff_text_def parseStoredHumanHandoff_def)
qed

subsection \<open>The simulation\<close>

definition calm :: "RedisState \<Rightarrow> RedisState \<Rightarrow> bool" where
  "calm s s' \<longleftrightarrow> rk_lookup s' = rk_lookup s"

definition stored_text :: "StoredHumanHandoff \<Rightarrow> string" where
  "stored_text r = (case handoff_text r of Inr t \<Rightarrow> t | Inl _ \<Rightarrow> [])"

definition stored_value :: "RedisState \<Rightarrow> string \<Rightarrow> string option" where
  "stored_value s k = map_option fst (rk_lookup s k)"

definition represents :: "'w RedisClient \<Rightarrow> RedisState \<Rightarrow> HandoffStoreState \<Rightarrow> bool" where
  "represents c s h \<longleftrightarrow> memory_ok h \<and> (\<forall>r \<in> ran (memory_view h). readable_record r) \<and>
     (\<forall>i. stored_value s (redis_recordKey c i) = map_option stored_text (memory_view h i)) \<and>
     (\<forall>d. stored_value s (redis_dependencyKey c d) = map_of (hs_activeDependencies h) d)"

lemma handoff_keys [simp]:
  "redis_recordKey c i = redis_recordKey c j \<longleftrightarrow> i = j" "redis_dependencyKey c i = redis_dependencyKey c j \<longleftrightarrow> i = j"
  "redis_recordKey c i \<noteq> redis_dependencyKey c j" "redis_dependencyKey c j \<noteq> redis_recordKey c i"
  by (simp_all add: redis_recordKey_def redis_dependencyKey_def key_text_eq)

lemma stored_value_changes [simp]:
  "stored_value (rk_write k e s) j = (if j = k then Some (fst e) else stored_value s j)"
  "stored_value (rk_remove k s) j = (if j = k then None else stored_value s j)"
  by (simp_all add: stored_value_def)

lemma represents_calm: "calm s s' \<Longrightarrow> represents c s' h \<longleftrightarrow> represents c s h"
  by (simp add: represents_def calm_def stored_value_def)

lemma readable_text:
  assumes "readable_record r"
  shows "handoff_text r = Inr (stored_text r)" "\<exists>parsed. parseStoredHumanHandoff (JStr (stored_text r)) = Inr parsed \<and> handoff_of_js parsed = r"
  using handoff_text_read [OF assms] by (auto simp: stored_text_def)

lemma stored_text_inj: "readable_record r \<Longrightarrow> readable_record q \<Longrightarrow> stored_text r = stored_text q \<longleftrightarrow> r = q"
  using readable_text(2) by (metis sum.inject(2))

lemma represents_new: "represents c \<lparr>rk_now = t, rk_keys = []\<rparr> new_handoff_store"
  by (simp add: represents_def memory_ok_def memory_view_def new_handoff_store_def stored_value_def rk_lookup_def ran_def)

lemma create_script:
  "run_script (CREATE_HANDOFF_SCRIPT [k, l] entry d ident) s =
     (if stored_value s k = None \<and> stored_value s l = None
      then (Inr (JNum (IntNum 1)), rk_write l (ident, Some d) (rk_write k (entry, Some d) s))
      else (Inr (JNum (IntNum 0)), s))"
  by (simp add: create_handoff_run stored_value_def)

lemma update_script:
  "run_script (UPDATE_HANDOFF_SCRIPT [k, l] p n d terminal ident) s =
     (if stored_value s k = Some p
      then (Inr (JNum (IntNum 1)),
        let s' = rk_write k (n, Some d) s
        in if \<not> terminal then rk_write l (ident, Some d) s'
           else if stored_value s' l = Some ident then rk_remove l s' else s')
      else (Inr (JNum (IntNum 0)), s))"
  by (auto simp: UPDATE_HANDOFF_SCRIPT_def io_bind_def io_eval script_steps redis_DEL_def stored_value_def Let_def split: option.splits)

lemma create_refines:
  assumes c: "connected calm c server" and rep: "represents c (server w) h"
    and r: "readable_record r" "\<not> handoff_terminal (hr_status r)" "date_parse (hr_expiresAt r) = Some e" "rc_clock c w < e"
    and run: "redis_createHandoff c r w = (Inr created, w')"
  shows "\<exists>h'. handoff_create h r = (created, h') \<and> represents c (server w') h'"
proof -
  let ?k = "redis_recordKey c (hr_handoffId r)" and ?l = "redis_dependencyKey c (hr_dependencyId r)"
  let ?run = "run_script (CREATE_HANDOFF_SCRIPT [?k, ?l] (stored_text r) e (hr_handoffId r))"
  obtain reply where reply: "rc_send c (EVAL (CREATE_HANDOFF_SCRIPT [?k, ?l] (stored_text r) e (hr_handoffId r))) w = (Inr reply, w')" "created = replied reply 1"
    using run r(3,4) readable_text(1) [OF r(1)]
    by (auto simp: redis_createHandoff_def redis_clock_def io_bind_eq_Inr io_eval split: if_splits)
  obtain s1 where s1: "calm (server w) s1" "fst (?run s1) = Inr reply" "calm (snd (?run s1)) (server w')"
    using sent_reply [OF c reply(1), unfolded effect.simps] by blast
  have rep1: "represents c s1 h" using rep s1(1) represents_calm by blast
  have keys: "stored_value s1 ?k = map_option stored_text (memory_view h (hr_handoffId r))"
    "stored_value s1 ?l = map_of (hs_activeDependencies h) (hr_dependencyId r)"
    using rep1 by (simp_all add: represents_def)
  show ?thesis
  proof (cases "memory_view h (hr_handoffId r) = None \<and> map_of (hs_activeDependencies h) (hr_dependencyId r) = None")
    case True
    let ?h = "\<lparr>hs_records = AList.update (hr_handoffId r) r (hs_records h),
      hs_activeDependencies = AList.update (hr_dependencyId r) (hr_handoffId r) (hs_activeDependencies h)\<rparr>"
    have m: "handoff_create h r = (True, ?h)" using True by (simp add: handoff_create_def memory_view_def)
    have ok: "memory_ok ?h" using memory_ok_create [of h r] rep1 True by (simp add: represents_def)
    have view: "memory_view ?h = (memory_view h)(hr_handoffId r \<mapsto> r)" by (simp add: memory_view_def update_conv' fun_eq_iff)
    have "represents c (snd (?run s1)) ?h"
      using rep1 True keys r(1) ok unfolding represents_def view
      by (auto simp: create_script update_conv' ran_def split: if_splits)
    then have "represents c (server w') ?h" using s1(3) represents_calm by blast
    moreover have "created" using s1(2) True keys reply(2) by (auto simp: create_script replied_def)
    ultimately show ?thesis using m by simp
  next
    case False
    then have m: "handoff_create h r = (False, h)" by (auto simp: handoff_create_def memory_view_def)
    have n: "\<not> (stored_value s1 ?k = None \<and> stored_value s1 ?l = None)" using False keys by simp
    then have "?run s1 = (Inr (JNum (IntNum 0)), s1)" by (simp only: create_script) simp
    then have "represents c (server w') h" "\<not> created"
      using s1(2,3) reply(2) rep1 represents_calm by (auto simp: replied_number)
    then show ?thesis using m by simp
  qed
qed

text \<open>The rest of the code updates what it has read: a record with the version of the stored one is the stored one.\<close>

definition read_from :: "HandoffStoreState \<Rightarrow> StoredHumanHandoff \<Rightarrow> bool" where
  "read_from h p \<longleftrightarrow> (\<forall>r. memory_view h (hr_handoffId p) = Some r \<and> hr_version r = hr_version p \<longrightarrow> r = p)"

lemma update_refines:
  assumes c: "connected calm c server" and rep: "represents c (server w) h"
    and r: "readable_record p" "readable_record n" "handoff_edge p n" "read_from h p"
    and run: "redis_updateHandoff c p n w = (Inr won, w')"
  shows "\<exists>h'. handoff_update h p n = (won, h') \<and> represents c (server w') h'"
proof -
  let ?k = "redis_recordKey c (hr_handoffId p)" and ?l = "redis_dependencyKey c (hr_dependencyId p)"
  have edge: "hr_handoffId n = hr_handoffId p" "hr_dependencyId n = hr_dependencyId p" "hr_version n = hr_version p + 1"
    "\<not> handoff_terminal (hr_status p)"
    using handoff_edgeD [OF r(3)] by (auto simp: same_handoff_def)
  obtain e where e: "date_parse (hr_expiresAt n) = Some e" using r(2) by (auto simp: readable_record_def)
  define script where "script = UPDATE_HANDOFF_SCRIPT [?k, ?l] (stored_text p) (stored_text n) (max (rc_clock c w + 1000) e)
      (handoff_terminal (hr_status n)) (hr_handoffId p)"
  obtain reply where reply: "rc_send c (EVAL script) w = (Inr reply, w')" "won = replied reply 1"
    using run edge(3) e readable_text(1) [OF r(1)] readable_text(1) [OF r(2)]
    by (auto simp: redis_updateHandoff_def redis_clock_def io_bind_eq_Inr io_eval script_def)
  obtain s1 where s1: "calm (server w) s1" "fst (run_script script s1) = Inr reply" "calm (snd (run_script script s1)) (server w')"
    using sent_reply [OF c reply(1), unfolded effect.simps] by blast
  have rep1: "represents c s1 h" using rep s1(1) represents_calm by blast
  then have key: "stored_value s1 ?k = map_option stored_text (memory_view h (hr_handoffId p))" and ok: "memory_ok h"
    and readable: "\<And>i q. memory_view h i = Some q \<Longrightarrow> readable_record q"
    by (auto simp: represents_def ran_def)
  show ?thesis
  proof (cases "memory_view h (hr_handoffId p) = Some p")
    case True
    have dep: "map_of (hs_activeDependencies h) (hr_dependencyId p) = Some (hr_handoffId p)"
      by (rule memory_ok_active [OF ok True edge(4)])
    obtain h' where h': "handoff_update h p n = (True, h')" "h' = \<lparr>hs_records = AList.update (hr_handoffId n) n (hs_records h),
        hs_activeDependencies = (if handoff_terminal (hr_status n) then AList.delete (hr_dependencyId n) (hs_activeDependencies h)
          else hs_activeDependencies h)\<rparr>"
      using memory_update_won [of h p n] True edge(3) by blast
    have ok': "memory_ok h'" using memory_handoffs.update_inv [of h _ p n h'] ok h'(1) True r(3) by simp
    have view: "memory_view h' = (memory_view h)(hr_handoffId p \<mapsto> n)"
      using h'(2) edge(1) by (simp add: memory_view_def update_conv' fun_eq_iff)
    have deps: "map_of (hs_activeDependencies h') d = (if d = hr_dependencyId p
        then (if handoff_terminal (hr_status n) then None else Some (hr_handoffId p)) else map_of (hs_activeDependencies h) d)" for d
      using h'(2) edge(2) dep by (simp add: delete_conv')
    have ran: "readable_record q" if "q \<in> ran (memory_view h')" for q
      using that r(2) readable by (auto simp: view ran_def split: if_splits)
    have "stored_value s1 ?l = Some (hr_handoffId p)" using rep1 dep by (simp add: represents_def)
    then have "represents c (snd (run_script script s1)) h'"
      using rep1 ok' ran key True unfolding represents_def view deps script_def
      by (auto simp: update_script Let_def)
    moreover have "reply = JNum (IntNum 1)" using s1(2) key True by (simp add: script_def update_script)
    ultimately show ?thesis using h'(1) s1(3) represents_calm reply(2) by (auto simp: replied_number)
  next
    case False
    have lost: "handoff_update h p n = (False, h)"
    proof -
      have "\<not> (\<exists>q. memory_view h (hr_handoffId p) = Some q \<and> hr_version q = hr_version p)"
        using r(4) False unfolding read_from_def by blast
      then show ?thesis by (auto simp: handoff_update_def memory_view_def split: option.splits)
    qed
    have "stored_value s1 ?k \<noteq> Some (stored_text p)"
      using key False readable stored_text_inj [OF _ r(1)] by auto
    then have "run_script script s1 = (Inr (JNum (IntNum 0)), s1)" by (simp add: script_def update_script)
    then have "\<not> won" "represents c (server w') h"
      using s1(2,3) reply(2) rep1 represents_calm by (auto simp: replied_number)
    then show ?thesis using lost by simp
  qed
qed

lemma expired_readable: "readable_record r \<Longrightarrow> readable_record (expired_record r)"
  by (simp add: readable_record_def expired_record_def)

lemma get_refines:
  assumes c: "connected calm c server" and rep: "represents c (server w) h"
    and run: "redis_getAuthorized (Suc readings) c i d now w = (Inr answer, w')"
  shows "\<exists>found h'. answer = Some found \<and> handoff_getAuthorized h i d now = (found, h') \<and> represents c (server w') h'"
proof -
  let ?k = "redis_recordKey c i"
  define rest where "rest = (\<lambda>response. case response of
       JStr stored \<Rightarrow>
         io_bind (io_lift (parseStoredHumanHandoff (JStr stored))) (\<lambda>parsed.
         let r = handoff_of_js parsed
         in if hr_accessTokenDigest r \<noteq> d then io_return (Some None)
            else if handoff_due r now \<and> \<not> handoff_terminal (hr_status r)
            then io_bind (redis_updateHandoff c r (expired_record r)) (\<lambda>won.
              if won then io_return (Some (Some (expired_record r)))
              else redis_getAuthorized readings c i d now)
            else io_return (Some (Some r)))
     | _ \<Rightarrow> io_return (Some None))"
  obtain reply w1 where g: "rc_send c (Command (GET ?k)) w = (Inr reply, w1)" "rest reply w1 = (Inr answer, w')"
    using run by (auto simp: rest_def io_bind_eq_Inr)
  obtain s1 where s1: "calm (server w) s1" "fst (redis_GET ?k s1) = Inr reply" "calm (snd (redis_GET ?k s1)) (server w1)"
    using sent_reply [OF c g(1), unfolded effect.simps serve.simps] by blast
  have rep1: "represents c (server w1) h"
    using rep s1 by (auto simp: represents_calm [of "server w" s1] redis_GET_def represents_calm [of s1 "server w1"])
  have reply: "reply = (case stored_value s1 ?k of None \<Rightarrow> JNull | Some v \<Rightarrow> JStr v)"
    using s1(2) by (auto simp: redis_GET_def stored_value_def split: option.splits)
  have key: "stored_value s1 ?k = map_option stored_text (memory_view h i)" and ok: "memory_ok h"
    using rep s1(1) by (simp_all add: represents_calm [of "server w" s1, symmetric] represents_def calm_def stored_value_def)
  show ?thesis
  proof (cases "memory_view h i")
    case None
    then have "reply = JNull" using reply key by simp
    then have "answer = Some None" "w' = w1" using g(2) by (auto simp: rest_def io_eval)
    moreover have "handoff_getAuthorized h i d now = (None, h)" using None by (simp add: handoff_getAuthorized_def memory_view_def)
    ultimately show ?thesis using rep1 by simp
  next
    case (Some r)
    have r: "readable_record r" "hr_handoffId r = i" using rep Some ok by (auto simp: represents_def ran_def memory_ok_def)
    obtain parsed where parsed: "parseStoredHumanHandoff (JStr (stored_text r)) = Inr parsed" "handoff_of_js parsed = r"
      using readable_text(2) [OF r(1)] by blast
    have "reply = JStr (stored_text r)" using reply key Some by simp
    note go = g(2) [unfolded rest_def this]
    show ?thesis
    proof (cases "hr_accessTokenDigest r = d \<and> handoff_due r now \<and> \<not> handoff_terminal (hr_status r)")
      case False
      then have "answer = Some (if hr_accessTokenDigest r = d then Some r else None)" "w' = w1"
        using go parsed by (auto simp: io_bind_eq_Inr io_eval Let_def split: if_splits)
      moreover have "handoff_getAuthorized h i d now = (if hr_accessTokenDigest r = d then Some r else None, h)"
        using Some False by (auto simp: handoff_getAuthorized_def memory_view_def)
      ultimately show ?thesis using rep1 by simp
    next
      case True
      then obtain won w2 where u: "redis_updateHandoff c r (expired_record r) w1 = (Inr won, w2)"
        "(if won then io_return (Some (Some (expired_record r))) else redis_getAuthorized readings c i d now) w2 = (Inr answer, w')"
        using go parsed by (auto simp: io_bind_eq_Inr io_eval Let_def)
      have edge: "handoff_edge r (expired_record r)" using True edge_expire by blast
      have "read_from h r" using Some r(2) by (simp add: read_from_def)
      from update_refines [OF c rep1 r(1) expired_readable [OF r(1)] edge this u(1)]
      obtain h' where h': "handoff_update h r (expired_record r) = (won, h')" "represents c (server w2) h'" by blast
      have "handoff_update h r (expired_record r) = (True, \<lparr>hs_records = AList.update i (expired_record r) (hs_records h),
          hs_activeDependencies = AList.delete (hr_dependencyId r) (hs_activeDependencies h)\<rparr>)"
        using Some r(2) by (auto simp: handoff_update_def memory_view_def expired_record_def handoff_terminal_def)
      then have "won" "handoff_getAuthorized h i d now = (Some (expired_record r), h')"
        using h'(1) Some True by (auto simp: handoff_getAuthorized_def memory_view_def)
      then show ?thesis using u(2) h'(2) by (auto simp: io_eval)
    qed
  qed
qed


text \<open>The keyspace of the sample handoff: a second one is not created, the first is read and claimed.\<close>

definition sample_handoff_keys :: "StoredHumanHandoff \<Rightarrow> RedisState" where
  "sample_handoff_keys r = \<lparr>rk_now = 0, rk_keys = [(''x424:handoff:x424_handoff_u'', stored_text r, Some 1767225900000),
     (''x424:handoff-dependency:dep'', ''x424_handoff_u'', Some 1767225900000)]\<rparr>"

definition still_redis :: "RedisState RedisClient" where
  "still_redis = (direct_redis 0)\<lparr>rc_send := effect\<rparr>"

lemma sample_handoff_times: "date_parse ''2026-01-01T00:05:00.000Z'' = Some 1767225900000" "date_parse ''2026-01-01T00:00:11.000Z'' = Some 1767225611000"
  by code_simp+

lemma sample_readable: "readable_record sample_handoff" "readable_record sample_claimed"
  by (simp_all add: readable_record_def sample_claimed_def sample_handoff_def sample_handoff_times)

lemma sample_represented: "represents still_redis (sample_handoff_keys sample_handoff) (sample_handoff_store sample_handoff)"
proof -
  have "memory_ok (sample_handoff_store sample_handoff)"
    by (auto simp: memory_ok_def memory_view_def sample_handoff_store_def sample_handoff_def handoff_terminal_def split: if_splits)
  moreover have "readable_record r" if "r \<in> ran (memory_view (sample_handoff_store sample_handoff))" for r
    using that sample_readable(1) by (auto simp: memory_view_def sample_handoff_store_def ran_def split: if_splits)
  ultimately show ?thesis
    by (auto simp: represents_def stored_value_def rk_lookup_def sample_handoff_keys_def memory_view_def sample_handoff_store_def
        redis_recordKey_def redis_dependencyKey_def redis_key_text_def still_redis_def direct_redis_def)
qed

lemma still_connected: "connected calm still_redis (\<lambda>s. s)"
  by (simp add: connected_def calm_def still_redis_def) (metis fst_conv snd_conv)


end
