(* ===== verification/AgentKeys.thy ===== *)
theory AgentKeys
  imports AgentClient Issuance
begin

section \<open>Agent keys and presenters (src/agent.ts)\<close>

text \<open>
  What signs and verifies an agent's requests: Ed25519 keys named by their JWK thumbprint, and accounts of an EVM chain
  named by CAIP-10, which sign themselves or through a contract.  The key operations of Node, those of the EVM library
  and the account's wallet are parameters.  And the presenters that tell the human what the agent waits for.
\<close>

subsection \<open>Ed25519 keys\<close>

text \<open>\<open>createPublicKey(key).export({format: "jwk"})\<close>, \<open>sign(null, base, key)\<close> and \<open>verify(null, base, key, signature)\<close>.\<close>

record 'k NodeKeys =
  nk_jwk :: "'k \<Rightarrow> js res"
  nk_sign :: "'k \<Rightarrow> bytes \<Rightarrow> bytes res"
  nk_verify :: "'k \<Rightarrow> bytes \<Rightarrow> bytes \<Rightarrow> bool res"

definition canonicalJwk :: "js \<Rightarrow> js \<Rightarrow> js \<Rightarrow> string" where
  "canonicalJwk crv kty x = stringify (JObj [(''crv'', crv), (''kty'', kty), (''x'', x)])"

definition jwkThumbprintUri :: "'k NodeKeys \<Rightarrow> hash \<Rightarrow> 'k \<Rightarrow> string res" where
  "jwkThumbprintUri nk H key = bindE (nk_jwk nk key) (\<lambda>jwk.
     if js_get jwk ''kty'' \<noteq> JStr ''OKP'' \<or> js_get jwk ''crv'' \<noteq> JStr ''Ed25519'' \<or> falsy (js_get jwk ''x'')
     then Inl (Error ''Agent Ed25519 key must export as an OKP JWK'')
     else Inr (''urn:ietf:params:oauth:jwk-thumbprint:sha-256:'' @ encodeStrictBase64Url
       (H (utf8_encode (canonicalJwk (js_get jwk ''crv'') (js_get jwk ''kty'') (js_get jwk ''x''))))))"

definition createEd25519AgentRequestSigner :: "'k NodeKeys \<Rightarrow> hash \<Rightarrow> 'k \<Rightarrow> AgentRequestSigner res" where
  "createEd25519AgentRequestSigner nk H privateKey = bindE (jwkThumbprintUri nk H privateKey) (\<lambda>keyId.
     Inr \<lparr>ag_keyId = keyId, ag_algorithm = Ed25519, ag_sign = nk_sign nk privateKey\<rparr>)"

definition createEd25519AgentKeyResolver :: "'k NodeKeys \<Rightarrow> hash \<Rightarrow> (string \<times> 'k) list \<Rightarrow> AgentKeyResolver" where
  "createEd25519AgentKeyResolver nk H keys = (\<lambda>keyId algorithm request.
     if algorithm \<noteq> Ed25519 then Inr None
     else case map_of keys keyId of
       None \<Rightarrow> Inr None
     | Some key \<Rightarrow> bindE (jwkThumbprintUri nk H key) (\<lambda>thumbprint.
         if thumbprint \<noteq> keyId then Inr None
         else Inr (Some \<lparr>rk_keyId = keyId, rk_algorithm = algorithm, rk_verify = nk_verify nk key\<rparr>)))"

subsection \<open>EVM accounts\<close>

text \<open>\<open>isAddress\<close>, \<open>toHex\<close>, \<open>hashMessage\<close> and \<open>verifyMessage\<close> of the EVM library, over hexadecimal texts.\<close>

record Evm =
  vm_isAddress :: "string \<Rightarrow> bool"
  vm_toHex :: "bytes \<Rightarrow> string"
  vm_hashMessage :: "string \<Rightarrow> string"
  vm_verifyMessage :: "string \<Rightarrow> string \<Rightarrow> string \<Rightarrow> bool res"

record EvmAgentMessageSigner =
  es_accountId :: string
  es_contractWallet :: bool
  es_signMessage :: "string \<Rightarrow> string res"

text \<open>\<open>readContract\<close> of \<open>isValidSignature\<close> at an address, of a hash and a signature; the answer as a text.\<close>

type_synonym Erc1271PublicClient = "string \<Rightarrow> string \<Rightarrow> string \<Rightarrow> string res"

definition ERC1271_MAGIC :: string where
  "ERC1271_MAGIC = ''0x1626ba7e''"

text \<open>\<open>/^eip155:([0-9]+):(0x[0-9a-fA-F]{40})$/u\<close>\<close>

definition match_caip10 :: "string \<Rightarrow> (string \<times> string) option" where
  "match_caip10 value =
     (let rest = drop 7 value; chain = takeWhile is_digit_char rest; after = dropWhile is_digit_char rest; address = drop 1 after
      in if startsWith value ''eip155:'' \<and> chain \<noteq> [] \<and> startsWith after '':0x'' \<and> length address = 42 \<and>
            list_all is_hex_char (drop 2 address)
         then Some (chain, address) else None)"

definition parseCaip10 :: "Evm \<Rightarrow> string \<Rightarrow> (string \<times> string) res" where
  "parseCaip10 vm value = (case match_caip10 value of
     None \<Rightarrow> Inl (Error ''Invalid EVM CAIP-10 key ID'')
   | Some (chainId, address) \<Rightarrow>
       if vm_isAddress vm address then Inr (chainId, address) else Inl (Error ''Invalid EVM CAIP-10 key ID''))"

text \<open>\<open>Buffer.from(text, "hex")\<close> decodes up to the first pair that is not hexadecimal.\<close>

fun bytes_of_hex :: "string \<Rightarrow> bytes" where
  "bytes_of_hex (a # b # s) = (case (hex_value a, hex_value b) of
     (Some h, Some l) \<Rightarrow> word_of_nat (16 * h + l) # bytes_of_hex s | _ \<Rightarrow> [])"
| "bytes_of_hex _ = []"

definition createEvmAgentRequestSigner :: "Evm \<Rightarrow> EvmAgentMessageSigner \<Rightarrow> AgentRequestSigner res" where
  "createEvmAgentRequestSigner vm signer = bindE (parseCaip10 vm (es_accountId signer)) (\<lambda>_.
     Inr \<lparr>ag_keyId = es_accountId signer, ag_algorithm = (if es_contractWallet signer then Erc1271 else Eip191),
       ag_sign = (\<lambda>base. bindE (es_signMessage signer (vm_toHex vm base)) (\<lambda>signature. Inr (bytes_of_hex (drop 2 signature))))\<rparr>)"

definition createEvmAgentKeyResolver :: "Evm \<Rightarrow> (string \<times> Erc1271PublicClient) list \<Rightarrow> AgentKeyResolver" where
  "createEvmAgentKeyResolver vm erc1271Clients = (\<lambda>keyId algorithm request.
     if algorithm \<noteq> Eip191 \<and> algorithm \<noteq> Erc1271 then Inr None
     else bindE (parseCaip10 vm keyId) (\<lambda>(chainId, address).
       if algorithm = Eip191
       then Inr (Some \<lparr>rk_keyId = keyId, rk_algorithm = algorithm, rk_verify = (\<lambda>base signature.
         vm_verifyMessage vm address (vm_toHex vm base) (vm_toHex vm signature))\<rparr>)
       else case map_of erc1271Clients chainId of
         None \<Rightarrow> Inr None
       | Some readContract \<Rightarrow> Inr (Some \<lparr>rk_keyId = keyId, rk_algorithm = algorithm, rk_verify = (\<lambda>base signature.
           bindE (readContract address (vm_hashMessage vm (vm_toHex vm base)) (vm_toHex vm signature)) (\<lambda>answer.
           Inr (toLowerCase answer = ERC1271_MAGIC)))\<rparr>)))"

subsection \<open>Presenters\<close>

text \<open>An event as the object it is; outputs are streams of texts in UTF-8.\<close>

definition js_of_presentation :: "HandoffPresentation \<Rightarrow> js" where
  "js_of_presentation p = JObj ([(''kind'', JStr ''uri''), (''uri'', JStr (hp_uri p))] @ opt_str ''userCode'' (hp_userCode p))"

definition handoff_event :: "string \<Rightarrow> string \<Rightarrow> (string \<times> js) list \<Rightarrow> js" where
  "handoff_event type handoffId rest = JObj ([(''type'', JStr type), (''handoffId'', JStr handoffId)] @ rest)"

fun js_of_event :: "HumanHandoffEvent \<Rightarrow> js" where
  "js_of_event (ActionRequiredEvent handoffId providerId methodId presentation expiresAt) =
     handoff_event ''human_action_required'' handoffId [(''providerId'', JStr providerId), (''methodId'', JStr methodId),
       (''presentation'', js_of_presentation presentation), (''expiresAt'', JStr expiresAt)]"
| "js_of_event (WaitingEvent handoffId) = handoff_event ''waiting'' handoffId []"
| "js_of_event (CompletedEvent handoffId) = handoff_event ''completed'' handoffId []"
| "js_of_event (FailedEvent handoffId code) = handoff_event ''failed'' handoffId [(''code'', JStr code)]"
| "js_of_event (ExpiredEvent handoffId) = handoff_event ''expired'' handoffId []"
| "js_of_event (CancelledEvent handoffId) = handoff_event ''cancelled'' handoffId []"

type_synonym 'w presenter = "HumanHandoffEvent \<Rightarrow> ('w, unit) io"

definition createCallbackHandoffPresenter :: "'w presenter \<Rightarrow> 'w presenter" where
  "createCallbackHandoffPresenter callback = callback"

definition createNdjsonHandoffPresenter :: "(string \<Rightarrow> ('w, unit) io) \<Rightarrow> 'w presenter" where
  "createNdjsonHandoffPresenter write = (\<lambda>event. write (stringify (js_of_event event) @ [newline]))"

definition ellipsis :: string where
  "ellipsis = [CHR 0xE2, CHR 0x80, CHR 0xA6]"

definition createTerminalHandoffPresenter :: "(string \<Rightarrow> ('w, string) io) \<Rightarrow> (string \<Rightarrow> ('w, unit) io) \<Rightarrow> 'w presenter" where
  "createTerminalHandoffPresenter qrCode write = (\<lambda>event. case event of
     ActionRequiredEvent handoffId providerId methodId presentation expiresAt \<Rightarrow>
       io_bind (write (''Human action required'' @ [newline] @ hp_uri presentation @ [newline])) (\<lambda>_.
       io_bind (qrCode (hp_uri presentation)) (\<lambda>code.
       io_bind (write code) (\<lambda>_.
       write (''Expires: '' @ expiresAt @ [newline]))))
   | WaitingEvent handoffId \<Rightarrow> write (''Waiting for human verification'' @ ellipsis @ [newline])
   | CompletedEvent handoffId \<Rightarrow> write (''Human dependency satisfied.'' @ [newline])
   | FailedEvent handoffId code \<Rightarrow> write (''Human verification failed ('' @ code @ '').'' @ [newline])
   | ExpiredEvent handoffId \<Rightarrow> write (''Human handoff expired.'' @ [newline])
   | CancelledEvent handoffId \<Rightarrow> write (''Human handoff cancelled.'' @ [newline]))"

end
