(* ===== verification/AgentKeyGuarantees.thy ===== *)
theory AgentKeyGuarantees
  imports AgentKeys AgentGuarantees
begin

section \<open>Signers and the resolvers that know them\<close>

text \<open>
  The signers and resolvers the library makes fit together: what one of its signers signs, the resolver of the same kind
  verifies, and a key identifier stands for one key or account.
\<close>

subsection \<open>Key identifiers\<close>

lemma token_like_append [simp]: "token_like (a @ b) \<longleftrightarrow> token_like a \<and> token_like b"
  by (simp add: token_like_def)

definition plain_token :: "char \<Rightarrow> bool" where
  "plain_token c \<longleftrightarrow> is_digit_char c \<or> is_hex_char c \<or> is_b64url_char c"

lemma plain_token_char: "plain_token c \<Longrightarrow> is_printable c \<and> plain_char c \<and> c \<noteq> CHR '';''"
proof -
  have "list_all (\<lambda>n. \<not> plain_token (char_of n) \<or> is_printable (char_of n) \<and> plain_char (char_of n) \<and> char_of n \<noteq> CHR '';'') [0..<256]"
    by code_simp
  moreover have "(of_char c :: nat) \<in> set [0..<256]" using nat_of_char_less_256 [of c] by simp
  ultimately have "\<not> plain_token (char_of (of_char c :: nat)) \<or> is_printable (char_of (of_char c :: nat)) \<and>
      plain_char (char_of (of_char c :: nat)) \<and> char_of (of_char c :: nat) \<noteq> CHR '';''"
    unfolding list_all_iff by blast
  then show "plain_token c \<Longrightarrow> ?thesis" by simp
qed

lemma token_likeI: "list_all plain_token s \<Longrightarrow> token_like s"
  using plain_token_char by (auto simp: token_like_def list_all_iff)

lemma thumbprint_token: "jwkThumbprintUri nk H key = Inr keyId \<Longrightarrow> token_like keyId"
proof -
  assume "jwkThumbprintUri nk H key = Inr keyId"
  then obtain bs where "keyId = ''urn:ietf:params:oauth:jwk-thumbprint:sha-256:'' @ encodeStrictBase64Url bs"
    by (auto simp: jwkThumbprintUri_def bindE_eq_Inr split: if_splits)
  moreover have "token_like (encodeStrictBase64Url bs)"
    using encodeStrictBase64Url_alphabet [of bs] by (intro token_likeI) (auto simp: plain_token_def list_all_iff)
  moreover have "token_like ''urn:ietf:params:oauth:jwk-thumbprint:sha-256:''" by code_simp
  ultimately show ?thesis by (simp only: token_like_append)
qed

lemma caip10_parts:
  assumes "match_caip10 keyId = Some (chain, address)"
  shows "keyId = ''eip155:'' @ chain @ '':0x'' @ drop 2 address \<and> list_all is_digit_char chain \<and> list_all is_hex_char (drop 2 address) \<and>
    address = ''0x'' @ drop 2 address"
proof -
  define rest where "rest = drop 7 keyId"
  have m: "startsWith keyId ''eip155:''" "chain = takeWhile is_digit_char rest" "startsWith (dropWhile is_digit_char rest) '':0x''"
    "address = drop 1 (dropWhile is_digit_char rest)" "list_all is_hex_char (drop 2 address)"
    using assms by (auto simp: match_caip10_def rest_def Let_def split: if_splits)
  obtain tail where tail: "dropWhile is_digit_char rest = '':0x'' @ tail"
    using m(3) unfolding startsWith_conv by blast
  have "keyId = ''eip155:'' @ rest"
    using m(1) by (auto simp: startsWith_conv rest_def)
  moreover have "rest = chain @ '':0x'' @ tail" using m(2) tail by (metis takeWhile_dropWhile_id)
  moreover have "address = ''0x'' @ tail" using m(4) tail by simp
  moreover have "list_all is_digit_char chain" using m(2) set_takeWhileD by (fastforce simp: list_all_iff)
  ultimately show ?thesis using m(5) by simp
qed

lemma parseCaip10_Inr: "parseCaip10 vm keyId = Inr (chain, address) \<longleftrightarrow> match_caip10 keyId = Some (chain, address) \<and> vm_isAddress vm address"
  by (auto simp: parseCaip10_def split: option.splits prod.splits if_splits)

lemma caip10_token: "parseCaip10 vm keyId = Inr (chain, address) \<Longrightarrow> token_like keyId"
proof -
  assume "parseCaip10 vm keyId = Inr (chain, address)"
  then have p: "keyId = ''eip155:'' @ chain @ '':0x'' @ drop 2 address" "list_all is_digit_char chain" "list_all is_hex_char (drop 2 address)"
    using caip10_parts [of keyId chain address] by (simp_all add: parseCaip10_Inr)
  have "token_like chain" "token_like (drop 2 address)"
    using p(2,3) by (auto intro!: token_likeI simp: plain_token_def list_all_iff)
  moreover have "token_like ''eip155:''" "token_like '':0x''" by code_simp+
  ultimately show ?thesis unfolding p(1) token_like_append by simp
qed

subsection \<open>Pairs\<close>

text \<open>
  A signer and a resolver for its key: the public half of an Ed25519 key under the signer's identifier, whose signatures
  verify; an account that signs messages itself; an account whose contract approves what its wallet signs.
\<close>

inductive key_pair :: "'k NodeKeys \<Rightarrow> hash \<Rightarrow> Evm \<Rightarrow> AgentRequestSigner \<Rightarrow> AgentKeyResolver \<Rightarrow> bool" for nk H vm where
  pair_ed25519: "createEd25519AgentRequestSigner nk H secret = Inr signer \<Longrightarrow>
    map_of keys (ag_keyId signer) = Some known \<Longrightarrow> nk_jwk nk known = nk_jwk nk secret \<Longrightarrow>
    (\<And>m s. nk_sign nk secret m = Inr s \<Longrightarrow> s \<noteq> [] \<and> nk_verify nk known m s = Inr True) \<Longrightarrow>
    key_pair nk H vm signer (createEd25519AgentKeyResolver nk H keys)"
| pair_account: "createEvmAgentRequestSigner vm wallet = Inr signer \<Longrightarrow> \<not> es_contractWallet wallet \<Longrightarrow>
    parseCaip10 vm (es_accountId wallet) = Inr (chain, address) \<Longrightarrow>
    (\<And>raw t. es_signMessage wallet raw = Inr t \<Longrightarrow> bytes_of_hex (drop 2 t) \<noteq> [] \<and>
      vm_verifyMessage vm address raw (vm_toHex vm (bytes_of_hex (drop 2 t))) = Inr True) \<Longrightarrow>
    key_pair nk H vm signer (createEvmAgentKeyResolver vm clients)"
| pair_contract: "createEvmAgentRequestSigner vm wallet = Inr signer \<Longrightarrow> es_contractWallet wallet \<Longrightarrow>
    parseCaip10 vm (es_accountId wallet) = Inr (chain, address) \<Longrightarrow> map_of clients chain = Some readContract \<Longrightarrow>
    (\<And>raw t. es_signMessage wallet raw = Inr t \<Longrightarrow> bytes_of_hex (drop 2 t) \<noteq> [] \<and>
      (\<exists>answer. readContract address (vm_hashMessage vm raw) (vm_toHex vm (bytes_of_hex (drop 2 t))) = Inr answer \<and>
        toLowerCase answer = ERC1271_MAGIC)) \<Longrightarrow>
    key_pair nk H vm signer (createEvmAgentKeyResolver vm clients)"

lemma key_pair_resolves:
  assumes "key_pair nk H vm signer resolveKey"
  shows "token_like (ag_keyId signer) \<and> (\<exists>key. (\<forall>r. resolveKey (ag_keyId signer) (ag_algorithm signer) r = Inr (Some key)) \<and>
    rk_keyId key = ag_keyId signer \<and> rk_algorithm key = ag_algorithm signer \<and>
    (\<forall>m s. ag_sign signer m = Inr s \<longrightarrow> s \<noteq> [] \<and> rk_verify key m s = Inr True))"
  using assms
proof cases
  case (pair_ed25519 secret keys known)
  then have t: "jwkThumbprintUri nk H secret = Inr (ag_keyId signer)" and s: "ag_algorithm signer = Ed25519" "ag_sign signer = nk_sign nk secret"
    by (auto simp: createEd25519AgentRequestSigner_def bindE_eq_Inr)
  have "jwkThumbprintUri nk H known = Inr (ag_keyId signer)" using t pair_ed25519 by (simp add: jwkThumbprintUri_def)
  with pair_ed25519 s t show ?thesis by (simp add: createEd25519AgentKeyResolver_def thumbprint_token)
next
  case (pair_account wallet chain address clients)
  then have s: "ag_keyId signer = es_accountId wallet"
    "ag_algorithm signer = Eip191" "ag_sign signer = (\<lambda>base. bindE (es_signMessage wallet (vm_toHex vm base)) (\<lambda>t. Inr (bytes_of_hex (drop 2 t))))"
    by (auto simp: createEvmAgentRequestSigner_def bindE_eq_Inr)
  from pair_account s show ?thesis
    by (auto simp: createEvmAgentKeyResolver_def bindE_eq_Inr intro: caip10_token)
next
  case (pair_contract wallet chain address clients readContract)
  then have s: "ag_keyId signer = es_accountId wallet"
    "ag_algorithm signer = Erc1271" "ag_sign signer = (\<lambda>base. bindE (es_signMessage wallet (vm_toHex vm base)) (\<lambda>t. Inr (bytes_of_hex (drop 2 t))))"
    by (auto simp: createEvmAgentRequestSigner_def bindE_eq_Inr)
  from pair_contract s show ?thesis
    by (auto simp: createEvmAgentKeyResolver_def bindE_eq_Inr intro: caip10_token)
qed

text \<open>
  C21: The library's own signers and resolvers fit.  A request signed by a signer made from an Ed25519 key or an EVM account,
  which signs itself or through its contract, is accepted by a resolver of the same kind that knows the key, with the
  key's thumbprint or the account as binding, from its second of signing until the lifetime has passed (give or take the
  clock skew); the nonce is printable without quotes, backslashes and semicolons.
\<close>

theorem agent_keys_roundtrip:
  assumes "key_pair nk H' vm signer resolveKey"
    and "signX424AgentRequest H request signer nonceOption random signedAt lifetimeSeconds = Inr sent"
    and "token_like (case nonceOption of Some n \<Rightarrow> n | None \<Rightarrow> encodeStrictBase64Url random)"
    and time: "0 \<le> signedAt" "lifetime_of lifetimeSeconds = Inr lifetime" "0 \<le> skew"
      "signedAt div 1000 - skew \<le> now div 1000" "now div 1000 \<le> signedAt div 1000 + lifetime + skew"
    and nonce: "expectedNonce = None \<or> expectedNonce = Some (case nonceOption of Some n \<Rightarrow> n | None \<Rightarrow> encodeStrictBase64Url random)"
  shows "verifyX424AgentRequest H sent resolveKey expectedNonce now (Some skew) =
    Inr \<lparr>b_kind = BindAgentKey, b_value = ag_keyId signer\<rparr>"
proof -
  obtain key where key: "token_like (ag_keyId signer)" "\<And>r. resolveKey (ag_keyId signer) (ag_algorithm signer) r = Inr (Some key)"
    "rk_keyId key = ag_keyId signer" "rk_algorithm key = ag_algorithm signer"
    "\<And>m s. ag_sign signer m = Inr s \<Longrightarrow> s \<noteq> [] \<and> rk_verify key m s = Inr True"
    using key_pair_resolves [OF assms(1)] by blast
  show ?thesis
    using signed_request_verifies [OF assms(2) key(1) assms(3), where resolveKey = resolveKey and key = key and lifetime = lifetime
        and skew = skew and now = now and expectedNonce = expectedNonce] key(2-5) time nonce by blast
qed

text \<open>An Ed25519 key whose signature is fixed, and a request it signs.\<close>

definition sample_node_keys :: "unit NodeKeys" where
  "sample_node_keys = \<lparr>nk_jwk = (\<lambda>_. Inr (JObj [(''kty'', JStr ''OKP''), (''crv'', JStr ''Ed25519''), (''x'', JStr ''AQ'')])),
     nk_sign = (\<lambda>_ _. Inr [7]), nk_verify = (\<lambda>_ _ s. Inr (s = [7]))\<rparr>"

definition sample_evm :: Evm where
  "sample_evm = \<lparr>vm_isAddress = (\<lambda>_. True), vm_toHex = (\<lambda>_. ''0x''), vm_hashMessage = (\<lambda>h. h), vm_verifyMessage = (\<lambda>_ _ _. Inr True)\<rparr>"

definition sample_ed25519_id :: string where
  "sample_ed25519_id = (case jwkThumbprintUri sample_node_keys sample_agent_hash () of Inr t \<Rightarrow> t | Inl _ \<Rightarrow> [])"

definition sample_ed25519 :: AgentRequestSigner where
  "sample_ed25519 = \<lparr>ag_keyId = sample_ed25519_id, ag_algorithm = Ed25519, ag_sign = (\<lambda>_. Inr [7])\<rparr>"

lemma sample_ed25519_made: "createEd25519AgentRequestSigner sample_node_keys sample_agent_hash () = Inr sample_ed25519"
  by (simp add: createEd25519AgentRequestSigner_def sample_ed25519_def sample_ed25519_id_def jwkThumbprintUri_def sample_node_keys_def
      js_get_JObj falsy_def)

lemma sample_ed25519_signs: "\<exists>sent. signX424AgentRequest sample_agent_hash sample_agent_request sample_ed25519 (Some ''dep'') [] 5000 None = Inr sent"
proof -
  have "case signX424AgentRequest sample_agent_hash sample_agent_request sample_ed25519 (Some ''dep'') [] 5000 None of Inr _ \<Rightarrow> True | Inl _ \<Rightarrow> False"
    by code_simp
  then show ?thesis by (auto split: sum.splits)
qed

theorem agent_keys_roundtrip_witness:
  "case signX424AgentRequest sample_agent_hash sample_agent_request sample_ed25519 (Some ''dep'') [] 5000 None of
     Inl _ \<Rightarrow> False
   | Inr sent \<Rightarrow> verifyX424AgentRequest sample_agent_hash sent
       (createEd25519AgentKeyResolver sample_node_keys sample_agent_hash [(sample_ed25519_id, ())]) (Some ''dep'') 65000 (Some 5) =
       Inr \<lparr>b_kind = BindAgentKey, b_value = sample_ed25519_id\<rparr>"
proof -
  have pair: "key_pair sample_node_keys sample_agent_hash sample_evm sample_ed25519
      (createEd25519AgentKeyResolver sample_node_keys sample_agent_hash [(sample_ed25519_id, ())])"
    by (rule pair_ed25519 [OF sample_ed25519_made]) (auto simp: sample_ed25519_def sample_node_keys_def)
  obtain sent where sent: "signX424AgentRequest sample_agent_hash sample_agent_request sample_ed25519 (Some ''dep'') [] 5000 None = Inr sent"
    using sample_ed25519_signs by blast
  have "token_like (case Some ''dep'' of Some n \<Rightarrow> n | None \<Rightarrow> encodeStrictBase64Url [])" by code_simp
  from agent_keys_roundtrip [OF pair sent this, where lifetime = 60 and skew = 5 and now = 65000 and expectedNonce = "Some ''dep''"]
  have "verifyX424AgentRequest sample_agent_hash sent
       (createEd25519AgentKeyResolver sample_node_keys sample_agent_hash [(sample_ed25519_id, ())]) (Some ''dep'') 65000 (Some 5) =
       Inr \<lparr>b_kind = BindAgentKey, b_value = ag_keyId sample_ed25519\<rparr>"
    by (simp add: lifetime_of_def)
  then show ?thesis by (simp add: sent) (simp add: sample_ed25519_def)
qed

subsection \<open>What a resolver stands for\<close>

text \<open>A verified Ed25519 signature comes from the key whose thumbprint is the identifier; two keys share one only by a collision.\<close>

lemma ed25519_resolver_key:
  assumes "createEd25519AgentKeyResolver nk H keys keyId algorithm r = Inr (Some key)"
  obtains known where "map_of keys keyId = Some known" "jwkThumbprintUri nk H known = Inr keyId" "rk_verify key = nk_verify nk known"
  using assms by (auto simp: createEd25519AgentKeyResolver_def bindE_eq_Inr split: if_splits option.splits)

lemma evm_resolver_account:
  assumes "createEvmAgentKeyResolver vm clients keyId algorithm r = Inr (Some key)" "rk_verify key base signature = Inr True"
  obtains chain address where "match_caip10 keyId = Some (chain, address)" "vm_isAddress vm address"
    "algorithm = Eip191 \<and> vm_verifyMessage vm address (vm_toHex vm base) (vm_toHex vm signature) = Inr True \<or>
     (\<exists>readContract answer. algorithm = Erc1271 \<and> map_of clients chain = Some readContract \<and> toLowerCase answer = ERC1271_MAGIC \<and>
       readContract address (vm_hashMessage vm (vm_toHex vm base)) (vm_toHex vm signature) = Inr answer)"
  using assms by (auto simp: createEvmAgentKeyResolver_def bindE_eq_Inr parseCaip10_Inr split: if_splits option.splits)

subsection \<open>Presenters\<close>

lemma quoted_line: "newline \<notin> set (json_quote s)"
proof -
  have "newline \<notin> set (quote_char c)" for c
  proof -
    have "hex_digit d \<noteq> newline" if "d < 16" for d
      using hex_value_digit [OF that] by (auto simp: newline_def hex_value_def)
    then have "hex_digit (of_char c div 16) \<noteq> newline" if "(of_char c :: nat) < 32" using that by simp
    moreover have "hex_digit (of_char c mod 16) \<noteq> newline" using \<open>\<And>d. d < 16 \<Longrightarrow> hex_digit d \<noteq> newline\<close> by simp
    moreover have "c = newline \<Longrightarrow> (of_char c :: nat) = 10" by (simp add: newline_def)
    ultimately show ?thesis by (auto simp: quote_char_def Let_def) (auto simp: newline_def)
  qed
  then show ?thesis by (auto simp: json_quote_def newline_def)
qed

lemma joined_line: "\<forall>x \<in> set xs. newline \<notin> set x \<Longrightarrow> newline \<notin> set (joinWith '','' xs)"
  by (induction xs rule: induct_list012) (auto simp: newline_def)

lemma printed_line: "json_shape v \<Longrightarrow> newline \<notin> set (stringify v)"
proof (induction v rule: stringify.induct)
  case (2 n)
  then obtain i where "n = IntNum i" by (cases n) auto
  moreover have "\<not> is_number_char newline" by code_simp
  ultimately show ?case using string_of_int_number_chars [of i] by (auto simp: list_all_iff)
next
  case (4 xs)
  then have "newline \<notin> set (joinWith '','' (map stringify xs))" by (intro joined_line) (auto simp: list_all_iff)
  then show ?case by (simp add: newline_def)
next
  case (5 kvs)
  then have "newline \<notin> set (joinWith '','' (map (\<lambda>(k, v). json_quote k @ '':'' @ stringify v) (filter (\<lambda>(k, v). \<not> json_omits v) kvs)))"
    using quoted_line by (intro joined_line) (fastforce simp: list_all_iff newline_def)
  then show ?case by (simp add: newline_def)
qed (use quoted_line in \<open>auto simp: newline_def\<close>)

text \<open>An event is one line, from which a reader has the event back.\<close>

lemma ndjson_event_line:
  "newline \<notin> set (stringify (js_of_event e)) \<and> JSON_parse (stringify (js_of_event e)) = Some (js_of_event e)"
proof -
  have "json_shape (js_of_event e)"
    by (cases e) (auto simp: handoff_event_def js_of_presentation_def opt_str_def own_keys_order_def is_array_index_def is_digit_char_def
        split: option.splits)
  then show ?thesis using printed_line JSON_parse_stringify by blast
qed

end
